(* ===== verification/TW_Prelude.thy ===== *)
theory TW_Prelude
  imports Complex_Main "HOL-Library.State_Monad" "HOL-Library.Sublist"
begin

text \<open>
  Shared vocabulary of the development: Python exceptions as values, Python
  strings (ASCII) with the methods the code calls on them, the \<open>int\<close>,
  \<open>str\<close> and \<open>Decimal\<close> conversions, dynamically typed values
  (what \<open>json.loads\<close> and the ABI decoder return), and the
  state-and-exception actions in which the asynchronous handlers are written,
  with a small Hoare calculus for invariants of such actions.
\<close>

named_theorems py_simps \<open>evaluation of the Python string and number helpers\<close>
named_theorems act_simps \<open>symbolic execution of state-and-exception actions\<close>
named_theorems ok_intros \<open>rules for properties of every successful result\<close>
named_theorems total_intros \<open>rules for actions that never raise\<close>
named_theorems keeps_intros \<open>rules for invariants kept by actions\<close>
named_theorems triple_intros \<open>rules for triples, in the order of the action\<close>

section \<open>Exceptions as values\<close>

datatype exn =
    ValueError
  | KeyError
  | IndexError
  | TypeError
  | AttributeError
  | InvalidOperation
  | OverflowError
  | ValidationError
  | RuntimeError
  | HTTPException int string
  | SessionNotFound
  | SessionExpired
  | InsufficientBudget
  | ExternalError string

type_synonym 'a result = "exn + 'a"

definition rbind :: "'a result \<Rightarrow> ('a \<Rightarrow> 'b result) \<Rightarrow> 'b result" where
  "rbind r k = (case r of Inl e \<Rightarrow> Inl e | Inr v \<Rightarrow> k v)"

lemma rbind_simps [simp]: "rbind (Inl e) k = Inl e" "rbind (Inr v) k = k v"
  by (simp_all add: rbind_def)

lemma rbind_eq_Inr: "rbind r k = Inr y \<longleftrightarrow> (\<exists>v. r = Inr v \<and> k v = Inr y)"
  by (cases r) auto

lemma rbind_cong [fundef_cong]:
  assumes "r = r'" and "\<And>v. r' = Inr v \<Longrightarrow> k v = k' v"
  shows "rbind r k = rbind r' k'"
  using assms by (cases r') auto

definition of_option :: "exn \<Rightarrow> 'a option \<Rightarrow> 'a result" where
  "of_option e x = (case x of None \<Rightarrow> Inl e | Some v \<Rightarrow> Inr v)"

lemma of_option_simps [simp]: "of_option e None = Inl e" "of_option e (Some v) = Inr v"
  by (simp_all add: of_option_def)

lemma of_option_eq_Inr [simp]: "of_option e x = Inr v \<longleftrightarrow> x = Some v"
  by (cases x) auto

definition is_ok :: "'a result \<Rightarrow> bool" where
  "is_ok r = (case r of Inl _ \<Rightarrow> False | Inr _ \<Rightarrow> True)"

lemma is_ok_simps [simp]: "\<not> is_ok (Inl e)" "is_ok (Inr v)"
  by (simp_all add: is_ok_def)

text \<open>\<open>all_ok P r\<close>: if the computation succeeds, its value satisfies \<open>P\<close>.\<close>

definition all_ok :: "('a \<Rightarrow> bool) \<Rightarrow> 'a result \<Rightarrow> bool" where
  "all_ok P r \<longleftrightarrow> (\<forall>v. r = Inr v \<longrightarrow> P v)"

lemma all_okI: "(\<And>v. r = Inr v \<Longrightarrow> P v) \<Longrightarrow> all_ok P r"
  by (simp add: all_ok_def)

lemma all_okD: "all_ok P r \<Longrightarrow> r = Inr v \<Longrightarrow> P v"
  by (simp add: all_ok_def)

lemma all_ok_rbind [ok_intros]: "(\<And>v. r = Inr v \<Longrightarrow> all_ok P (k v)) \<Longrightarrow> all_ok P (rbind r k)"
  by (cases r) (auto simp: all_ok_def)

lemma all_ok_prod [ok_intros]: "(\<And>a b. p = (a, b) \<Longrightarrow> all_ok P (k a b)) \<Longrightarrow> all_ok P (case p of (a, b) \<Rightarrow> k a b)"
  by (cases p) auto

lemma all_ok_Let [ok_intros]: "(\<And>x. x = v \<Longrightarrow> all_ok P (f x)) \<Longrightarrow> all_ok P (let x = v in f x)"
  by simp

lemma all_ok_Inl [ok_intros]: "all_ok P (Inl e)"
  by (simp add: all_ok_def)

lemma all_ok_Inr [simp]: "all_ok P (Inr v) \<longleftrightarrow> P v"
  by (simp add: all_ok_def)

section \<open>Python strings\<close>

definition code :: "char \<Rightarrow> nat" where
  "code c = of_char c"

definition lower_char :: "char \<Rightarrow> char" where
  "lower_char c = (if 65 \<le> code c \<and> code c \<le> 90 then char_of (code c + 32) else c)"

definition py_lower :: "string \<Rightarrow> string" where
  "py_lower s = map lower_char s"

definition is_space :: "char \<Rightarrow> bool" where
  "is_space c = (let n = code c in (9 \<le> n \<and> n \<le> 13) \<or> (28 \<le> n \<and> n \<le> 32) \<or> n = 133 \<or> n = 160)"

definition py_lstrip :: "string \<Rightarrow> string" where
  "py_lstrip s = dropWhile is_space s"

definition py_strip :: "string \<Rightarrow> string" where
  "py_strip s = rev (dropWhile is_space (rev (dropWhile is_space s)))"

definition py_startswith :: "string \<Rightarrow> string \<Rightarrow> bool" where
  "py_startswith s p = (take (length p) s = p)"

definition py_removeprefix :: "string \<Rightarrow> string \<Rightarrow> string" where
  "py_removeprefix s p = (if py_startswith s p then drop (length p) s else s)"

definition py_last :: "nat \<Rightarrow> string \<Rightarrow> string" where
  "py_last n s = drop (length s - n) s"

text \<open>\<open>s.split(sep)\<close> for a one-character separator: always at least one piece.\<close>

fun py_split :: "char \<Rightarrow> string \<Rightarrow> string list" where
  "py_split sep [] = [[]]"
| "py_split sep (c # s) =
     (if c = sep then [] # py_split sep s
      else (case py_split sep s of [] \<Rightarrow> [[c]] | p # ps \<Rightarrow> (c # p) # ps))"

fun py_join :: "string \<Rightarrow> string list \<Rightarrow> string" where
  "py_join sep [] = []"
| "py_join sep [p] = p"
| "py_join sep (p # q # ps) = p @ sep @ py_join sep (q # ps)"

fun py_contains :: "string \<Rightarrow> string \<Rightarrow> bool" where
  "py_contains s [] \<longleftrightarrow> s = []"
| "py_contains s (c # t) \<longleftrightarrow> py_startswith (c # t) s \<or> py_contains s t"

lemma code_char_of [simp]: "n < 256 \<Longrightarrow> code (char_of n) = n"
  by (simp add: code_def)

lemma lower_char_idem [simp]: "lower_char (lower_char c) = lower_char c"
  by (simp add: lower_char_def)

lemma py_lower_idem [simp]: "py_lower (py_lower s) = py_lower s"
  by (simp add: py_lower_def)

lemma py_lower_Nil [simp]: "py_lower [] = []"
  by (simp add: py_lower_def)

lemma py_lower_Nil_iff [simp]: "py_lower s = [] \<longleftrightarrow> s = []"
  by (simp add: py_lower_def)

lemma length_py_lower [simp]: "length (py_lower s) = length s"
  by (simp add: py_lower_def)

lemma py_lower_append [simp]: "py_lower (s @ t) = py_lower s @ py_lower t"
  by (simp add: py_lower_def)

lemma py_split_not_Nil [simp]: "py_split sep s \<noteq> []"
  by (induction s) (auto split: list.splits)

lemma py_split_no_sep: "sep \<notin> set s \<Longrightarrow> py_split sep s = [s]"
  by (induction s) auto

lemma py_split_append:
  "sep \<notin> set p \<Longrightarrow> py_split sep (p @ sep # s) = p # py_split sep s"
  by (induction p) auto

lemma py_split_join:
  assumes "ps \<noteq> []" and "\<forall>p \<in> set ps. sep \<notin> set p"
  shows "py_split sep (py_join [sep] ps) = ps"
  using assms
  by (induction "[sep]" ps rule: py_join.induct) (auto simp: py_split_no_sep py_split_append)

lemma dropWhile_none: "\<forall>c \<in> set s. \<not> P c \<Longrightarrow> dropWhile P s = s"
  by (cases s) auto

lemma py_strip_none: "\<forall>c \<in> set s. \<not> is_space c \<Longrightarrow> py_strip s = s"
  by (simp add: py_strip_def dropWhile_none)

lemma py_strip_idem [simp]: "py_strip (py_strip s) = py_strip s"
proof -
  have *: "dropWhile is_space (rev (dropWhile is_space (rev t))) =
      rev (dropWhile is_space (rev t))" if "t = [] \<or> \<not> is_space (hd t)" for t
  proof (cases t)
    case (Cons a u)
    with that have "\<not> is_space a" by simp
    then have "dropWhile is_space (rev u @ [a]) = dropWhile is_space (rev u) @ [a]"
      by (induction "rev u" arbitrary: u) (auto simp: dropWhile_append3)
    with Cons \<open>\<not> is_space a\<close> show ?thesis by simp
  qed simp
  have "dropWhile is_space s = [] \<or> \<not> is_space (hd (dropWhile is_space s))"
    using hd_dropWhile by blast
  from *[OF this] show ?thesis by (simp add: py_strip_def)
qed

lemma set_py_strip: "set (py_strip s) \<subseteq> set s"
proof
  fix c assume "c \<in> set (py_strip s)"
  then have "c \<in> set (rev (dropWhile is_space s))"
    unfolding py_strip_def using set_dropWhileD by fastforce
  then show "c \<in> set s" using set_dropWhileD by fastforce
qed

section \<open>Numbers as text\<close>

definition is_digit :: "char \<Rightarrow> bool" where
  "is_digit c = (48 \<le> code c \<and> code c \<le> 57)"

definition is_hex :: "char \<Rightarrow> bool" where
  "is_hex c = (is_digit c \<or> (97 \<le> code c \<and> code c \<le> 102) \<or> (65 \<le> code c \<and> code c \<le> 70))"

definition digit_val :: "char \<Rightarrow> int" where
  "digit_val c =
     (if is_digit c then int (code c) - 48
      else if 97 \<le> code c then int (code c) - 87 else int (code c) - 55)"

definition digits_val :: "int \<Rightarrow> string \<Rightarrow> int" where
  "digits_val b s = foldl (\<lambda>a c. a * b + digit_val c) 0 s"

text \<open>Digits with single underscores between them, as \<open>int()\<close> accepts them.\<close>

fun digit_groups :: "(char \<Rightarrow> bool) \<Rightarrow> string \<Rightarrow> string option" where
  "digit_groups ok [] = None"
| "digit_groups ok [c] = (if ok c then Some [c] else None)"
| "digit_groups ok (c # d # s) =
     (if \<not> ok c then None
      else if d = CHR ''_'' then map_option ((#) c) (digit_groups ok s)
      else map_option ((#) c) (digit_groups ok (d # s)))"

definition split_sign :: "string \<Rightarrow> bool \<times> string" where
  "split_sign s = (case s of
       [] \<Rightarrow> (False, [])
     | c # t \<Rightarrow> if c = CHR ''-'' then (True, t) else if c = CHR ''+'' then (False, t) else (False, s))"

definition py_int :: "string \<Rightarrow> int option" where
  "py_int s = (case split_sign (py_strip s) of (neg, t) \<Rightarrow>
     (case digit_groups is_digit t of
        None \<Rightarrow> None
      | Some ds \<Rightarrow> Some (if neg then - digits_val 10 ds else digits_val 10 ds)))"

definition strip_0x :: "string \<Rightarrow> string" where
  "strip_0x t = (if py_startswith (py_lower t) ''0x''
     then (case drop 2 t of [] \<Rightarrow> [] | c # u \<Rightarrow> if c = CHR ''_'' then u else c # u) else t)"

definition py_int16 :: "string \<Rightarrow> int option" where
  "py_int16 s = (case split_sign (py_strip s) of (neg, t) \<Rightarrow>
     (case digit_groups is_hex (strip_0x t) of
        None \<Rightarrow> None
      | Some ds \<Rightarrow> Some (if neg then - digits_val 16 ds else digits_val 16 ds)))"

definition digit_chr :: "nat \<Rightarrow> char" where
  "digit_chr d = char_of (48 + d)"

fun nat_str :: "nat \<Rightarrow> string" where
  "nat_str n = (if n < 10 then [digit_chr n] else nat_str (n div 10) @ [digit_chr (n mod 10)])"

declare nat_str.simps [simp del]

definition int_str :: "int \<Rightarrow> string" where
  "int_str i = (if i < 0 then CHR ''-'' # nat_str (nat (- i)) else nat_str (nat i))"

lemma is_digit_digit_chr [simp]: "d < 10 \<Longrightarrow> is_digit (digit_chr d)"
  by (simp add: is_digit_def digit_chr_def)

lemma digit_val_digit_chr [simp]: "d < 10 \<Longrightarrow> digit_val (digit_chr d) = int d"
  by (simp add: digit_val_def is_digit_def digit_chr_def)

lemma nat_str_digits: "\<forall>c \<in> set (nat_str n). is_digit c"
proof (induction n rule: nat_str.induct)
  case (1 n)
  then show ?case by (subst nat_str.simps) auto
qed

lemma nat_str_not_Nil [simp]: "nat_str n \<noteq> []"
  by (subst nat_str.simps) auto

lemma digits_val_nat_str [simp]: "digits_val 10 (nat_str n) = int n"
proof (induction n rule: nat_str.induct)
  case (1 n)
  show ?case
  proof (cases "n < 10")
    case True
    then show ?thesis by (subst nat_str.simps) (simp add: digits_val_def)
  next
    case False
    with 1 have "digits_val 10 (nat_str (n div 10)) = int (n div 10)" by simp
    moreover have "int (n div 10) * 10 + int (n mod 10) = int n" by presburger
    ultimately show ?thesis
      using False by (subst nat_str.simps) (simp add: digits_val_def)
  qed
qed

lemma is_digit_facts:
  assumes "is_digit c"
  shows "c \<noteq> CHR ''_''" "c \<noteq> CHR ''-''" "c \<noteq> CHR ''+''" "\<not> is_space c" "c \<noteq> CHR '':''" "c \<noteq> CHR '',''"
  using assms by (auto simp: is_digit_def is_space_def code_def Let_def)

lemma digit_groups_digits:
  assumes "s \<noteq> []" and "\<forall>c \<in> set s. is_digit c"
  shows "digit_groups is_digit s = Some s"
  using assms
  by (induction is_digit s rule: digit_groups.induct) (auto simp: is_digit_facts)

lemma split_sign_digits:
  "\<forall>c \<in> set s. is_digit c \<Longrightarrow> split_sign s = (False, s)"
  by (cases s) (auto simp: split_sign_def is_digit_facts)

lemma py_int_digits:
  assumes "s \<noteq> []" and "\<forall>c \<in> set s. is_digit c"
  shows "py_int s = Some (digits_val 10 s)"
proof -
  have "py_strip s = s" using assms by (intro py_strip_none) (auto simp: is_digit_facts)
  then show ?thesis
    using assms by (simp add: py_int_def split_sign_digits digit_groups_digits)
qed

text \<open>\<open>int(str(i)) == i\<close>.\<close>

lemma py_int_int_str [simp]: "py_int (int_str i) = Some i"
proof (cases "i < 0")
  case True
  have "\<forall>c \<in> set (CHR ''-'' # nat_str (nat (- i))). \<not> is_space c"
    using nat_str_digits[of "nat (- i)"] is_digit_facts(4) by (auto simp: is_space_def code_def)
  then have "py_strip (CHR ''-'' # nat_str (nat (- i))) = CHR ''-'' # nat_str (nat (- i))"
    by (rule py_strip_none)
  with True show ?thesis
    using digit_groups_digits[OF nat_str_not_Nil nat_str_digits]
    by (simp add: py_int_def int_str_def split_sign_def)
next
  case False
  then show ?thesis
    using py_int_digits[OF nat_str_not_Nil nat_str_digits, of "nat i"] by (simp add: int_str_def)
qed

lemma nat_str_inj: "nat_str m = nat_str n \<Longrightarrow> m = n"
  by (metis digits_val_nat_str of_nat_eq_iff)

lemma int_str_inj: "int_str i = int_str j \<longleftrightarrow> i = j"
  by (metis option.inject py_int_int_str)

lemma int_str_no_colon: "CHR '':'' \<notin> set (int_str i)"
  using nat_str_digits is_digit_facts(5) by (auto simp: int_str_def)

section \<open>Decimals\<close>

text \<open>
  \<open>decimal.Decimal\<close>: a finite value (exact, hence a rational), a signed
  infinity, or a quiet or signalling NaN. Ordering comparisons with a NaN and
  every comparison with a signalling NaN raise \<open>InvalidOperation\<close>
  in the default context.
\<close>

datatype pydecimal = DFin rat | DInf bool | DNaN bool

definition ten_pow :: "int \<Rightarrow> rat" where
  "ten_pow e = (if 0 \<le> e then 10 ^ nat e else 1 / 10 ^ nat (- e))"

definition dec_exponent :: "string \<Rightarrow> int option" where
  "dec_exponent s = (case s of
      [] \<Rightarrow> Some 0
    | c # t \<Rightarrow>
        if lower_char c \<noteq> CHR ''e'' then None
        else (case split_sign t of (neg, ds) \<Rightarrow>
          if ds = [] \<or> \<not> list_all is_digit ds then None
          else Some (if neg then - digits_val 10 ds else digits_val 10 ds)))"

definition dec_special :: "bool \<Rightarrow> string \<Rightarrow> pydecimal option" where
  "dec_special neg s = (let t = py_lower s in
     if t = ''inf'' \<or> t = ''infinity'' then Some (DInf neg)
     else if py_startswith t ''nan'' \<and> list_all is_digit (drop 3 t) then Some (DNaN False)
     else if py_startswith t ''snan'' \<and> list_all is_digit (drop 4 t) then Some (DNaN True)
     else None)"

definition dec_body :: "bool \<Rightarrow> string \<Rightarrow> pydecimal option" where
  "dec_body neg s = (
     let ip = takeWhile is_digit s; r = dropWhile is_digit s;
         dot = (r \<noteq> [] \<and> hd r = CHR ''.'');
         fp = (if dot then takeWhile is_digit (tl r) else []);
         r2 = (if dot then dropWhile is_digit (tl r) else r)
     in if ip @ fp = [] then dec_special neg s
        else (case dec_exponent r2 of
                None \<Rightarrow> None
              | Some e \<Rightarrow>
                  let m = of_int (digits_val 10 (ip @ fp)) * ten_pow (e - int (length fp))
                  in Some (DFin (if neg then - m else m))))"

text \<open>\<open>Decimal(s)\<close> for a string; \<open>None\<close> stands for the raised \<open>InvalidOperation\<close>.\<close>

definition decimal_of_string :: "string \<Rightarrow> pydecimal option" where
  "decimal_of_string s =
     (case split_sign (filter (\<lambda>c. c \<noteq> CHR ''_'') (py_strip s)) of (neg, t) \<Rightarrow> dec_body neg t)"

definition decimal_of_int :: "int \<Rightarrow> pydecimal" where
  "decimal_of_int i = DFin (of_int i)"

definition dec_is_nan :: "pydecimal \<Rightarrow> bool" where
  "dec_is_nan d = (case d of DNaN _ \<Rightarrow> True | _ \<Rightarrow> False)"

fun dec_less_num :: "pydecimal \<Rightarrow> pydecimal \<Rightarrow> bool" where
  "dec_less_num (DFin a) (DFin b) = (a < b)"
| "dec_less_num (DFin a) (DInf neg) = (\<not> neg)"
| "dec_less_num (DInf neg) (DFin b) = neg"
| "dec_less_num (DInf neg) (DInf neg') = (neg \<and> \<not> neg')"
| "dec_less_num _ _ = False"

definition dec_less :: "pydecimal \<Rightarrow> pydecimal \<Rightarrow> bool result" where
  "dec_less a b = (if dec_is_nan a \<or> dec_is_nan b then Inl InvalidOperation else Inr (dec_less_num a b))"

definition dec_le :: "pydecimal \<Rightarrow> pydecimal \<Rightarrow> bool result" where
  "dec_le a b = (if dec_is_nan a \<or> dec_is_nan b then Inl InvalidOperation
                 else Inr (dec_less_num a b \<or> a = b))"

definition dec_eq :: "pydecimal \<Rightarrow> pydecimal \<Rightarrow> bool result" where
  "dec_eq a b = (if a = DNaN True \<or> b = DNaN True then Inl InvalidOperation
                 else Inr (\<not> dec_is_nan a \<and> a = b))"

lemma dec_less_num_trichotomy:
  assumes "\<not> dec_is_nan a" and "\<not> dec_is_nan b"
  shows "dec_less_num a b \<longleftrightarrow> \<not> (dec_less_num b a \<or> b = a)"
  using assms by (cases a; cases b) (auto simp: dec_is_nan_def)

lemma dec_body_digits:
  assumes "s \<noteq> []" and "\<forall>c \<in> set s. is_digit c"
  shows "dec_body neg s = Some (DFin (of_int (if neg then - digits_val 10 s else digits_val 10 s)))"
  using assms
  by (simp add: dec_body_def dec_exponent_def ten_pow_def Let_def
      takeWhile_eq_all_conv[THEN iffD2] dropWhile_eq_Nil_conv[THEN iffD2])

lemma decimal_of_digits:
  assumes "s \<noteq> []" and "\<forall>c \<in> set s. is_digit c"
  shows "decimal_of_string s = Some (decimal_of_int (digits_val 10 s))"
proof -
  have "py_strip s = s" using assms by (intro py_strip_none) (auto simp: is_digit_facts)
  moreover have "filter (\<lambda>c. c \<noteq> CHR ''_'') s = s"
    using assms by (intro filter_True) (auto simp: is_digit_facts)
  ultimately show ?thesis
    using assms by (simp add: decimal_of_string_def split_sign_digits dec_body_digits decimal_of_int_def)
qed

text \<open>\<open>Decimal(str(n)) == n\<close> for the non-negative integers the decoders print.\<close>

lemma decimal_of_nat_str [simp]: "decimal_of_string (nat_str n) = Some (decimal_of_int (int n))"
  using decimal_of_digits[OF nat_str_not_Nil nat_str_digits] by simp

section \<open>Dynamically typed values\<close>

text \<open>
  A float carries its exact binary value (what \<open>==\<close> compares) and its \<open>str()\<close> text
  (what \<open>Decimal(str(x))\<close> parses). A dict is an association list in insertion order.
\<close>

datatype pyval =
    PyNone
  | PyBool bool
  | PyInt int
  | PyFloat pydecimal string
  | PyStr string
  | PyBytes string
  | PyList "pyval list"
  | PyDict "(string \<times> pyval) list"

type_synonym pydict = "(string \<times> pyval) list"

definition py_truthy :: "pyval \<Rightarrow> bool" where
  "py_truthy v = (case v of
      PyNone \<Rightarrow> False | PyBool b \<Rightarrow> b | PyInt i \<Rightarrow> i \<noteq> 0
    | PyFloat d _ \<Rightarrow> d \<noteq> DFin 0 | PyStr s \<Rightarrow> s \<noteq> [] | PyBytes s \<Rightarrow> s \<noteq> [] | PyList l \<Rightarrow> l \<noteq> [] | PyDict d \<Rightarrow> d \<noteq> [])"

text \<open>\<open>str(v)\<close>; the text of containers and bytes is left to a parameter.\<close>

definition py_str :: "(pyval \<Rightarrow> string) \<Rightarrow> pyval \<Rightarrow> string" where
  "py_str repr v = (case v of
      PyNone \<Rightarrow> ''None'' | PyBool b \<Rightarrow> (if b then ''True'' else ''False'') | PyInt i \<Rightarrow> int_str i
    | PyFloat _ t \<Rightarrow> t | PyStr s \<Rightarrow> s | _ \<Rightarrow> repr v)"

text \<open>\<open>int(x)\<close> for a float truncates toward zero.\<close>

definition trunc_rat :: "rat \<Rightarrow> int" where
  "trunc_rat r = (if r < 0 then - \<lfloor>- r\<rfloor> else \<lfloor>r\<rfloor>)"

definition py_lower_val :: "pyval \<Rightarrow> string result" where
  "py_lower_val v = (case v of PyStr s \<Rightarrow> Inr (py_lower s) | _ \<Rightarrow> Inl AttributeError)"

definition expect_str :: "exn \<Rightarrow> pyval \<Rightarrow> string result" where
  "expect_str e v = (case v of PyStr s \<Rightarrow> Inr s | _ \<Rightarrow> Inl e)"

definition expect_dict :: "exn \<Rightarrow> pyval \<Rightarrow> pydict result" where
  "expect_dict e v = (case v of PyDict d \<Rightarrow> Inr d | _ \<Rightarrow> Inl e)"

lemma expect_Inr [simp]:
  "expect_str e v = Inr s \<longleftrightarrow> v = PyStr s"
  "expect_dict e v = Inr d \<longleftrightarrow> v = PyDict d"
  "py_lower_val v = Inr s \<longleftrightarrow> (\<exists>t. v = PyStr t \<and> s = py_lower t)"
  by (auto simp: expect_str_def expect_dict_def py_lower_val_def split: pyval.splits)

lemma expect_simps [simp]:
  "expect_str e (PyStr s) = Inr s" "expect_dict e (PyDict d) = Inr d"
  "py_lower_val (PyStr s) = Inr (py_lower s)"
  by simp_all

definition dict_get :: "string \<Rightarrow> pyval \<Rightarrow> pydict \<Rightarrow> pyval" where
  "dict_get k def d = (case map_of d k of None \<Rightarrow> def | Some v \<Rightarrow> v)"

definition dict_set :: "string \<Rightarrow> pyval \<Rightarrow> pydict \<Rightarrow> pydict" where
  "dict_set k v d = (if map_of d k = None then d @ [(k, v)]
                     else map (\<lambda>(k', v'). if k' = k then (k', v) else (k', v')) d)"

definition dict_has :: "string \<Rightarrow> pydict \<Rightarrow> bool" where
  "dict_has k d = (map_of d k \<noteq> None)"

definition py_or :: "string \<Rightarrow> string \<Rightarrow> string" where
  "py_or a b = (if a = [] then b else a)"

lemma dict_set_eval [py_simps]:
  "dict_set k v [] = [(k, v)]"
  "dict_set k v ((k', v') # d) =
     (if k' = k then (k', v) # map (\<lambda>(k', v'). if k' = k then (k', v) else (k', v')) d
      else (k', v') # dict_set k v d)"
  by (simp_all add: dict_set_def)

lemma dict_get_eval [py_simps]:
  "dict_get k u [] = u"
  "dict_get k u ((k', v) # d) = (if k' = k then v else dict_get k u d)"
  by (simp_all add: dict_get_def)

lemma map_of_dict_set: "map_of (dict_set k v d) = (map_of d)(k \<mapsto> v)"
proof -
  have *: "map_of (map (\<lambda>(k', v'). if k' = k then (k', v) else (k', v')) d) k'' =
      (if k'' = k then map_option (\<lambda>_. v) (map_of d k) else map_of d k'')" for k''
    by (induction d) (auto split: if_splits)
  show ?thesis
    by (rule ext) (auto simp: dict_set_def * map_add_def split: option.splits)
qed

lemma dict_get_set [simp]: "dict_get k u (dict_set k' v d) = (if k = k' then v else dict_get k u d)"
  by (simp add: dict_get_def map_of_dict_set)

text \<open>\<open>v[k]\<close> and \<open>v.get(k, d)\<close> on a value that may not be a dictionary.\<close>

definition subscript :: "string \<Rightarrow> pyval \<Rightarrow> pyval result" where
  "subscript k v = rbind (expect_dict TypeError v) (\<lambda>d. of_option KeyError (map_of d k))"

definition get_or :: "string \<Rightarrow> pyval \<Rightarrow> pyval \<Rightarrow> pyval result" where
  "get_or k d v = rbind (expect_dict AttributeError v) (\<lambda>x. Inr (dict_get k d x))"

text \<open>Iterating over a JSON value.\<close>

definition iterate :: "pyval \<Rightarrow> pyval list result" where
  "iterate v = (case v of
      PyList l \<Rightarrow> Inr l
    | PyDict d \<Rightarrow> Inr (map (\<lambda>(k, _). PyStr k) d)
    | PyStr s \<Rightarrow> Inr (map (\<lambda>c. PyStr [c]) s)
    | PyBytes s \<Rightarrow> Inr (map (\<lambda>c. PyInt (int (code c))) s)
    | _ \<Rightarrow> Inl TypeError)"

section \<open>State-and-exception actions\<close>

text \<open>
  An action is a state transformer whose value is a result. \<open>ebind\<close> is
  sequencing with propagation of a raised exception, \<open>ecatch\<close> is
  \<open>try: ... except Exception: ...\<close>: effects made before the exception stay.
\<close>

type_synonym ('w, 'a) act = "('w, 'a result) state"

definition eret :: "'a \<Rightarrow> ('w, 'a) act" where
  "eret v = State_Monad.return (Inr v)"

definition eraise :: "exn \<Rightarrow> ('w, 'a) act" where
  "eraise e = State_Monad.return (Inl e)"

definition ebind :: "('w, 'a) act \<Rightarrow> ('a \<Rightarrow> ('w, 'b) act) \<Rightarrow> ('w, 'b) act" where
  "ebind m k = do { r \<leftarrow> m; case r of Inl e \<Rightarrow> eraise e | Inr v \<Rightarrow> k v }"

definition ecatch :: "('w, 'a) act \<Rightarrow> (exn \<Rightarrow> ('w, 'a) act) \<Rightarrow> ('w, 'a) act" where
  "ecatch m h = do { r \<leftarrow> m; case r of Inl e \<Rightarrow> h e | Inr v \<Rightarrow> eret v }"

text \<open>\<open>etry\<close> turns an action's outcome into a value, for handlers that branch on it.\<close>

definition etry :: "('w, 'a) act \<Rightarrow> ('w, 'a result) act" where
  "etry m = do { r \<leftarrow> m; eret r }"

definition egets :: "('w \<Rightarrow> 'a) \<Rightarrow> ('w, 'a) act" where
  "egets f = do { w \<leftarrow> State_Monad.get; eret (f w) }"

definition emodify :: "('w \<Rightarrow> 'w) \<Rightarrow> ('w, unit) act" where
  "emodify f = do { State_Monad.update f; eret () }"

definition elift :: "'a result \<Rightarrow> ('w, 'a) act" where
  "elift r = State_Monad.return r"

definition ewhen :: "bool \<Rightarrow> ('w, unit) act \<Rightarrow> ('w, unit) act" where
  "ewhen b m = (if b then m else eret ())"

primrec efor :: "'a list \<Rightarrow> ('a \<Rightarrow> ('w, 'b) act) \<Rightarrow> ('w, 'b list) act" where
  "efor [] f = eret []"
| "efor (x # xs) f = ebind (f x) (\<lambda>y. ebind (efor xs f) (\<lambda>ys. eret (y # ys)))"

definition run :: "('w, 'a) act \<Rightarrow> 'w \<Rightarrow> 'a result \<times> 'w" where
  "run m w = run_state m w"

lemma run_simps [simp, act_simps]:
  "run (eret v) w = (Inr v, w)"
  "run (eraise e) w = (Inl e, w)"
  "run (egets f) w = (Inr (f w), w)"
  "run (emodify g) w = (Inr (), g w)"
  "run (elift r) w = (r, w)"
  "run (ewhen b m') w = (if b then run m' w else (Inr (), w))"
  "run (if b then m1 else m2) w = (if b then run m1 w else run m2 w)"
  by (simp_all add: run_def eret_def eraise_def egets_def emodify_def elift_def ewhen_def
      State_Monad.update_def)

lemma run_ebind [simp, act_simps]:
  "run (ebind m k) w = (case run m w of (Inl e, w') \<Rightarrow> (Inl e, w') | (Inr v, w') \<Rightarrow> run (k v) w')"
  by (auto simp: run_def ebind_def eraise_def split: prod.splits sum.splits)

lemma run_etry [simp, act_simps]: "run (etry m) w = (case run m w of (r, w') \<Rightarrow> (Inr r, w'))"
  by (simp add: run_def etry_def eret_def split: prod.splits)

lemma run_ecatch [simp, act_simps]:
  "run (ecatch m h) w = (case run m w of (Inl e, w') \<Rightarrow> run (h e) w' | (Inr v, w') \<Rightarrow> (Inr v, w'))"
  by (auto simp: run_def ecatch_def eret_def split: prod.splits sum.splits)

text \<open>
  \<open>hoare P m Q\<close>: from a state satisfying \<open>P\<close>, the action ends (actions are total)
  in a result and state satisfying \<open>Q\<close>; \<open>keeps I m\<close>: \<open>I\<close> is an invariant of \<open>m\<close>,
  exceptional exits included.
\<close>

definition hoare :: "('w \<Rightarrow> bool) \<Rightarrow> ('w, 'a) act \<Rightarrow> ('a result \<Rightarrow> 'w \<Rightarrow> bool) \<Rightarrow> bool" where
  "hoare P m Q \<longleftrightarrow> (\<forall>w. P w \<longrightarrow> (case run m w of (r, w') \<Rightarrow> Q r w'))"

definition keeps :: "('w \<Rightarrow> bool) \<Rightarrow> ('w, 'a) act \<Rightarrow> bool" where
  "keeps I m \<longleftrightarrow> hoare I m (\<lambda>_. I)"

lemma keepsI: "(\<And>w. I w \<Longrightarrow> I (snd (run m w))) \<Longrightarrow> keeps I m"
  by (auto simp: keeps_def hoare_def split: prod.splits) (metis snd_conv)

lemma keepsD: "keeps I m \<Longrightarrow> I w \<Longrightarrow> I (snd (run m w))"
  by (auto simp: keeps_def hoare_def split: prod.splits) (metis split_pairs)

lemma keeps_basic [keeps_intros]:
  "keeps I (eret v)" "keeps I (eraise e)" "keeps I (egets f)" "keeps I (elift r)"
  by (auto intro!: keepsI)

lemma keeps_emodify [keeps_intros]: "(\<And>w. I w \<Longrightarrow> I (f w)) \<Longrightarrow> keeps I (emodify f)"
  by (auto intro!: keepsI)

lemma keeps_ebind [keeps_intros]:
  assumes "keeps I m" and "\<And>v. keeps I (k v)"
  shows "keeps I (ebind m k)"
proof (rule keepsI)
  fix w assume "I w"
  with assms(1) have "I (snd (run m w))" by (rule keepsD)
  with assms(2) show "I (snd (run (ebind m k) w))"
    by (auto split: prod.splits sum.splits dest: keepsD) (metis keepsD snd_conv)
qed

lemma keeps_ecatch [keeps_intros]:
  assumes "keeps I m" and "\<And>e. keeps I (h e)"
  shows "keeps I (ecatch m h)"
proof (rule keepsI)
  fix w assume "I w"
  with assms(1) have "I (snd (run m w))" by (rule keepsD)
  with assms(2) show "I (snd (run (ecatch m h) w))"
    by (auto split: prod.splits sum.splits dest: keepsD) (metis keepsD snd_conv)
qed

lemma keeps_etry [keeps_intros]: "keeps I m \<Longrightarrow> keeps I (etry m)"
  by (auto intro!: keepsI dest: keepsD split: prod.splits) (metis keepsD snd_conv)

lemma keeps_if [keeps_intros]: "keeps I m1 \<Longrightarrow> keeps I m2 \<Longrightarrow> keeps I (if b then m1 else m2)"
  by simp

lemma keeps_ewhen [keeps_intros]: "keeps I m \<Longrightarrow> keeps I (ewhen b m)"
  by (simp add: ewhen_def keeps_basic)

lemma keeps_efor [keeps_intros]: "(\<And>x. keeps I (f x)) \<Longrightarrow> keeps I (efor xs f)"
  by (induction xs) (auto intro!: keeps_intros)

lemma keeps_option [keeps_intros]:
  "keeps I m \<Longrightarrow> (\<And>v. keeps I (k v)) \<Longrightarrow> keeps I (case x of None \<Rightarrow> m | Some v \<Rightarrow> k v)"
  by (cases x) auto

lemma keeps_prod [keeps_intros]:
  "(\<And>a b. keeps I (k a b)) \<Longrightarrow> keeps I (case p of (a, b) \<Rightarrow> k a b)"
  by (cases p) auto

lemma keeps_sum [keeps_intros]:
  "(\<And>a. keeps I (f a)) \<Longrightarrow> (\<And>b. keeps I (g b)) \<Longrightarrow> keeps I (case s of Inl a \<Rightarrow> f a | Inr b \<Rightarrow> g b)"
  by (cases s) auto

lemma keeps_Let [keeps_intros]: "(\<And>x. x = v \<Longrightarrow> keeps I (f x)) \<Longrightarrow> keeps I (let x = v in f x)"
  by simp

text \<open>\<open>no_raise m\<close>: the action ends normally from every state.\<close>

definition no_raise :: "('w, 'a) act \<Rightarrow> bool" where
  "no_raise m \<longleftrightarrow> (\<forall>w. is_ok (fst (run m w)))"

lemma is_okE: "is_ok r \<Longrightarrow> (\<And>v. r = Inr v \<Longrightarrow> P) \<Longrightarrow> P"
  by (cases r) auto

lemma no_raiseE:
  assumes "no_raise m"
  obtains v w' where "run m w = (Inr v, w')"
proof -
  have "is_ok (fst (run m w))" using assms by (simp add: no_raise_def)
  then obtain v where "fst (run m w) = Inr v" by (rule is_okE)
  then show thesis using that by (metis prod.collapse)
qed

lemma no_raise_basic [total_intros]:
  "no_raise (eret v)" "no_raise (egets f)" "no_raise (emodify g)"
  by (simp_all add: no_raise_def)

lemma no_raise_etry [total_intros]: "no_raise (etry m)"
  by (simp add: no_raise_def split: prod.split)

lemma no_raise_ebind [total_intros]:
  assumes "no_raise m" and "\<And>v. no_raise (k v)"
  shows "no_raise (ebind m k)"
  unfolding no_raise_def
proof
  fix w
  obtain v w' where "run m w = (Inr v, w')" using assms(1) by (rule no_raiseE)
  then show "is_ok (fst (run (ebind m k) w))" using assms(2)[of v] by (simp add: no_raise_def)
qed

lemma no_raise_ecatch [total_intros]:
  assumes "\<And>e. no_raise (h e)"
  shows "no_raise (ecatch m h)"
  unfolding no_raise_def
proof
  fix w
  obtain r w' where r: "run m w = (r, w')" by fastforce
  show "is_ok (fst (run (ecatch m h) w))"
  proof (cases r)
    case (Inl e)
    with r assms[of e] show ?thesis by (simp add: no_raise_def)
  qed (use r in simp)
qed

lemma no_raise_efor [total_intros]: "(\<And>x. no_raise (f x)) \<Longrightarrow> no_raise (efor xs f)"
  by (induction xs) (auto intro!: total_intros)

lemma no_raise_if [total_intros]: "no_raise m1 \<Longrightarrow> no_raise m2 \<Longrightarrow> no_raise (if b then m1 else m2)"
  by simp

lemma no_raise_cases [total_intros]:
  "no_raise m \<Longrightarrow> (\<And>v. no_raise (k v)) \<Longrightarrow> no_raise (case x of None \<Rightarrow> m | Some v \<Rightarrow> k v)"
  "(\<And>a b. no_raise (q a b)) \<Longrightarrow> no_raise (case p of (a, b) \<Rightarrow> q a b)"
  "(\<And>a. no_raise (f a)) \<Longrightarrow> (\<And>b. no_raise (g b)) \<Longrightarrow> no_raise (case s of Inl a \<Rightarrow> f a | Inr b \<Rightarrow> g b)"
  by (simp_all split: option.split prod.split sum.split)

lemma no_raise_Let [total_intros]: "(\<And>x. no_raise (f x)) \<Longrightarrow> no_raise (let x = v in f x)"
  by simp

lemma no_raise_ewhen [total_intros]: "no_raise m \<Longrightarrow> no_raise (ewhen b m)"
  by (simp add: ewhen_def no_raise_basic)


text \<open>
  Triples with one postcondition for values and one for exceptions; the rules follow
  the structure of an action.
\<close>

definition triple :: "('w \<Rightarrow> bool) \<Rightarrow> ('w, 'a) act \<Rightarrow> ('a \<Rightarrow> 'w \<Rightarrow> bool) \<Rightarrow> ('w \<Rightarrow> bool) \<Rightarrow> bool" where
  "triple P m Q E \<longleftrightarrow> (\<forall>w. P w \<longrightarrow> (case run m w of (Inr v, w') \<Rightarrow> Q v w' | (Inl _, w') \<Rightarrow> E w'))"

lemma tripleD:
  "triple P m Q E \<Longrightarrow> P w \<Longrightarrow> run m w = (Inr v, w') \<Longrightarrow> Q v w'"
  "triple P m Q E \<Longrightarrow> P w \<Longrightarrow> run m w = (Inl e, w') \<Longrightarrow> E w'"
  by (fastforce simp: triple_def)+

lemma triple_post: "triple P m (\<lambda>_. Q) Q \<Longrightarrow> P w \<Longrightarrow> run m w = (r, w') \<Longrightarrow> Q w'"
  by (cases r) (auto dest: tripleD)

lemma triple_keeps: "keeps I m \<Longrightarrow> (\<And>w. I w \<Longrightarrow> E w) \<Longrightarrow> triple I m (\<lambda>_. I) E"
  by (auto simp: triple_def keeps_def hoare_def split: prod.splits sum.splits)

lemma keeps_triple: "triple I m (\<lambda>_. I) I \<Longrightarrow> keeps I m"
  by (auto simp: triple_def keeps_def hoare_def split: prod.splits sum.splits)

lemma triple_ebind:
  assumes "triple P m Q E" and "\<And>v. triple (Q v) (k v) R E"
  shows "triple P (ebind m k) R E"
  unfolding triple_def
proof (intro allI impI)
  fix w assume w: "P w"
  obtain r w1 where r: "run m w = (r, w1)" by fastforce
  show "case run (ebind m k) w of (Inr v, w') \<Rightarrow> R v w' | (Inl _, w') \<Rightarrow> E w'"
  proof (cases r)
    case (Inl e)
    then show ?thesis using tripleD(2)[OF assms(1) w] r by simp
  next
    case (Inr v)
    then have "Q v w1" using tripleD(1)[OF assms(1) w] r by simp
    then show ?thesis using assms(2)[of v] r Inr by (simp add: triple_def)
  qed
qed

lemma triple_eret [triple_intros]: "(\<And>w. P w \<Longrightarrow> Q v w) \<Longrightarrow> triple P (eret v) Q E"
  by (simp add: triple_def)

lemma triple_eraise [triple_intros]: "(\<And>w. P w \<Longrightarrow> E w) \<Longrightarrow> triple P (eraise e) Q E"
  by (simp add: triple_def)

lemma triple_if [triple_intros]:
  "(b \<Longrightarrow> triple P m Q E) \<Longrightarrow> (\<not> b \<Longrightarrow> triple P n Q E) \<Longrightarrow> triple P (if b then m else n) Q E"
  by simp

lemma triple_conseq:
  "triple P' m Q' E' \<Longrightarrow> (\<And>w. P w \<Longrightarrow> P' w) \<Longrightarrow> (\<And>v w. Q' v w \<Longrightarrow> Q v w) \<Longrightarrow> (\<And>w. E' w \<Longrightarrow> E w) \<Longrightarrow> triple P m Q E"
  unfolding triple_def by (fastforce split: prod.splits sum.splits)

lemma triple_cases [triple_intros]:
  "(x = None \<Longrightarrow> triple P m Q E) \<Longrightarrow> (\<And>v. x = Some v \<Longrightarrow> triple P (k v) Q E) \<Longrightarrow> triple P (case x of None \<Rightarrow> m | Some v \<Rightarrow> k v) Q E"
  "(\<And>a. s = Inl a \<Longrightarrow> triple P (f a) Q E) \<Longrightarrow> (\<And>b. s = Inr b \<Longrightarrow> triple P (g b) Q E) \<Longrightarrow>
    triple P (case s of Inl a \<Rightarrow> f a | Inr b \<Rightarrow> g b) Q E"
  by (auto split: option.split sum.split)

lemma triple_Let [triple_intros]: "(\<And>x. x = v \<Longrightarrow> triple P (f x) Q E) \<Longrightarrow> triple P (let x = v in f x) Q E"
  by simp

text \<open>The usual case of a step: an action that keeps the current assertion.\<close>

lemma triple_step [triple_intros]:
  "keeps P m \<Longrightarrow> (\<And>w. P w \<Longrightarrow> E w) \<Longrightarrow> (\<And>v. triple P (k v) R E) \<Longrightarrow> triple P (ebind m k) R E"
  by (rule triple_ebind[OF triple_keeps])

lemma triple_etry:
  "triple P m Q E \<Longrightarrow> triple P (etry m) (\<lambda>r w. case r of Inr v \<Rightarrow> Q v w | Inl _ \<Rightarrow> E w) E'"
  by (auto simp: triple_def split: prod.splits sum.splits)

lemma ebind_elift_Inr [simp]: "ebind (elift (Inr v)) k = k v"
  by (simp add: ebind_def elift_def)

lemma triple_elift [triple_intros]:
  "(\<And>w. P w \<Longrightarrow> E w) \<Longrightarrow> (\<And>v. x = Inr v \<Longrightarrow> triple P (k v) R E) \<Longrightarrow> triple P (ebind (elift x) k) R E"
  by (cases x) (auto simp: triple_def)


lemma triple_emodify: "(\<And>w. P w \<Longrightarrow> Q () (f w)) \<Longrightarrow> triple P (emodify f) Q E"
  by (simp add: triple_def)

lemma triple_egets: "(\<And>v. triple (\<lambda>w. P w \<and> v = f w) (k v) R E) \<Longrightarrow> triple P (ebind (egets f) k) R E"
  by (simp add: triple_def)

lemma triple_snd: "(\<And>w. P w \<Longrightarrow> Q (snd (run m w))) \<Longrightarrow> triple P m (\<lambda>_. Q) Q"
  by (fastforce simp: triple_def split: prod.splits sum.splits)

lemma triple_weaken: "triple P' m Q E \<Longrightarrow> (\<And>w. P w \<Longrightarrow> P' w) \<Longrightarrow> triple P m Q E"
  by (auto simp: triple_def)

end
