(* ===== verification/Models.thy ===== *)
theory Models
  imports TW_Prelude
begin

text \<open>
  The data model of \<open>tripwire/types/models.py\<close>: chains and their constants, the
  ERC-3009 transfer with Pydantic's validation, finality and execution
  metadata, endpoints, policies, triggers, the event-neutral event hierarchy
  and the conversions between them. Record fields carry a short prefix
  because Isabelle records share one name space.
\<close>

section \<open>Chains\<close>

datatype ChainId = ETHEREUM | BASE | ARBITRUM

definition chain_value :: "ChainId \<Rightarrow> int" where
  "chain_value c = (case c of ETHEREUM \<Rightarrow> 1 | BASE \<Rightarrow> 8453 | ARBITRUM \<Rightarrow> 42161)"

text \<open>\<open>ChainId(i)\<close>; \<open>None\<close> is the \<open>ValueError\<close> of an unknown value.\<close>

definition chain_of_int :: "int \<Rightarrow> ChainId option" where
  "chain_of_int i = (if i = 1 then Some ETHEREUM else if i = 8453 then Some BASE
                     else if i = 42161 then Some ARBITRUM else None)"

definition CHAIN_NAMES :: "ChainId \<Rightarrow> string" where
  "CHAIN_NAMES c = (case c of ETHEREUM \<Rightarrow> ''ethereum'' | BASE \<Rightarrow> ''base'' | ARBITRUM \<Rightarrow> ''arbitrum'')"

definition FINALITY_DEPTHS :: "ChainId \<Rightarrow> int" where
  "FINALITY_DEPTHS c = (case c of ETHEREUM \<Rightarrow> 12 | BASE \<Rightarrow> 3 | ARBITRUM \<Rightarrow> 1)"

definition USDC_CONTRACTS :: "ChainId \<Rightarrow> string" where
  "USDC_CONTRACTS c = (case c of
      BASE \<Rightarrow> ''0x833589fCD6eDb6E08f4c7C32D4f71b54bdA02913''
    | ETHEREUM \<Rightarrow> ''0xA0b86991c6218b36c1d19D4a2e9Eb0cE3606eB48''
    | ARBITRUM \<Rightarrow> ''0xaf88d065e77c8cC2239327C5EDb3A432268e5831'')"

lemma chain_of_value [simp]: "chain_of_int (chain_value c) = Some c"
  by (cases c) (simp_all add: chain_value_def chain_of_int_def)

lemma chain_of_int_SomeD: "chain_of_int i = Some c \<Longrightarrow> chain_value c = i"
  by (auto simp: chain_of_int_def chain_value_def split: if_splits)

lemma chain_value_inj: "chain_value c = chain_value d \<longleftrightarrow> c = d"
  by (metis chain_of_value option.inject)

text \<open>\<open>ChainId\<close> mixes in \<open>int\<close>: its members compare by their chain number.\<close>

instantiation ChainId :: linorder
begin

definition less_eq_ChainId :: "ChainId \<Rightarrow> ChainId \<Rightarrow> bool" where
  "less_eq_ChainId c d \<longleftrightarrow> chain_value c \<le> chain_value d"

definition less_ChainId :: "ChainId \<Rightarrow> ChainId \<Rightarrow> bool" where
  "less_ChainId c d \<longleftrightarrow> chain_value c < chain_value d"

instance
  by standard (auto simp: less_eq_ChainId_def less_ChainId_def chain_value_inj)

end

section \<open>Validated addresses and the ERC-3009 transfer\<close>

text \<open>The pattern \<open>^0x[a-fA-F0-9]{40}$\<close>.\<close>

definition is_eth_address :: "string \<Rightarrow> bool" where
  "is_eth_address s = (length s = 42 \<and> py_startswith s ''0x'' \<and> list_all is_hex (drop 2 s))"

definition EthAddress :: "string \<Rightarrow> string result" where
  "EthAddress s = (if is_eth_address (py_strip s) then Inr (py_strip s) else Inl ValidationError)"

lemma EthAddress_Inr: "EthAddress s = Inr a \<longleftrightarrow> is_eth_address (py_strip s) \<and> a = py_strip s"
  by (auto simp: EthAddress_def)

lemma EthAddress_empty [simp]: "EthAddress [] = Inl ValidationError"
  by (simp add: EthAddress_def is_eth_address_def py_strip_def)

lemma is_hex_not_space: "is_hex c \<Longrightarrow> \<not> is_space c"
  by (auto simp: is_hex_def is_digit_def is_space_def Let_def)

lemma is_eth_address_no_space: "is_eth_address s \<Longrightarrow> \<forall>c \<in> set s. \<not> is_space c"
proof -
  assume a: "is_eth_address s"
  then have "take 2 s = ''0x''"
    by (simp add: is_eth_address_def py_startswith_def numeral_2_eq_2)
  then have "s = ''0x'' @ drop 2 s"
    by (metis append_take_drop_id)
  moreover have "\<forall>c \<in> set (drop 2 s). \<not> is_space c"
    using a by (auto simp: is_eth_address_def list_all_iff is_hex_not_space)
  moreover have "\<forall>c \<in> set ''0x''. \<not> is_space c"
    by (simp add: is_space_def code_def)
  ultimately show ?thesis by (metis Un_iff set_append)
qed

lemma EthAddress_valid [simp]: "is_eth_address s \<Longrightarrow> EthAddress s = Inr s"
  by (simp add: EthAddress_def py_strip_none is_eth_address_no_space)

record ERC3009Transfer =
  tr_chain_id :: ChainId
  tr_tx_hash :: string
  tr_block_number :: int
  tr_block_hash :: string
  tr_log_index :: int
  tr_from_address :: string
  tr_to_address :: string
  tr_value :: string
  tr_authorizer :: string
  tr_valid_after :: int
  tr_valid_before :: int
  tr_nonce :: string
  tr_token :: string
  tr_timestamp :: int

text \<open>The Pydantic constructor: every string is stripped, the addresses are validated.\<close>

definition mk_ERC3009Transfer :: "ERC3009Transfer \<Rightarrow> ERC3009Transfer result" where
  "mk_ERC3009Transfer t =
     rbind (EthAddress (tr_from_address t)) (\<lambda>f.
     rbind (EthAddress (tr_to_address t)) (\<lambda>to_a.
     rbind (EthAddress (tr_authorizer t)) (\<lambda>a.
       Inr (t\<lparr>tr_tx_hash := py_strip (tr_tx_hash t), tr_block_hash := py_strip (tr_block_hash t),
              tr_from_address := f, tr_to_address := to_a, tr_value := py_strip (tr_value t),
              tr_authorizer := a, tr_nonce := py_strip (tr_nonce t),
              tr_token := py_strip (tr_token t)\<rparr>))))"

definition wf_transfer :: "ERC3009Transfer \<Rightarrow> bool" where
  "wf_transfer t \<longleftrightarrow> is_eth_address (tr_from_address t) \<and> is_eth_address (tr_to_address t) \<and>
     is_eth_address (tr_authorizer t)"

lemma mk_ERC3009Transfer_wf: "mk_ERC3009Transfer t = Inr u \<Longrightarrow> wf_transfer u"
  by (auto simp: mk_ERC3009Transfer_def rbind_eq_Inr EthAddress_Inr wf_transfer_def)

section \<open>Finality and execution metadata\<close>

record FinalityStatus =
  fs_tx_hash :: string
  fs_chain_id :: ChainId
  fs_block_number :: int
  fs_confirmations :: int
  fs_required_confirmations :: int
  fs_is_finalized :: bool
  fs_finalized_at :: "int option"

record AgentIdentity =
  ai_address :: string
  ai_agent_class :: string
  ai_deployer :: string
  ai_capabilities :: "string list"
  ai_reputation_score :: rat
  ai_registered_at :: int
  ai_metadata :: pydict

definition wf_identity :: "AgentIdentity \<Rightarrow> bool" where
  "wf_identity i \<longleftrightarrow> is_eth_address (ai_address i) \<and> is_eth_address (ai_deployer i) \<and>
     0 \<le> ai_reputation_score i \<and> ai_reputation_score i \<le> 100"

datatype EndpointMode = NOTIFY | EXECUTE

datatype ExecutionState = PROVISIONAL | CONFIRMED | FINALIZED | REORGED

datatype TrustSource = FACILITATOR | ONCHAIN

datatype WebhookEventType =
    PAYMENT_CONFIRMED | PAYMENT_PENDING | PAYMENT_PRE_CONFIRMED | PAYMENT_FAILED
  | PAYMENT_REORGED | PAYMENT_FINALIZED | TRIGGER_MATCHED | TRIGGER_CONFIRMED | TRIGGER_FINALIZED

definition webhook_type_value :: "WebhookEventType \<Rightarrow> string" where
  "webhook_type_value t = (case t of
      PAYMENT_CONFIRMED \<Rightarrow> ''payment.confirmed'' | PAYMENT_PENDING \<Rightarrow> ''payment.pending''
    | PAYMENT_PRE_CONFIRMED \<Rightarrow> ''payment.pre_confirmed'' | PAYMENT_FAILED \<Rightarrow> ''payment.failed''
    | PAYMENT_REORGED \<Rightarrow> ''payment.reorged'' | PAYMENT_FINALIZED \<Rightarrow> ''payment.finalized''
    | TRIGGER_MATCHED \<Rightarrow> ''trigger.matched'' | TRIGGER_CONFIRMED \<Rightarrow> ''trigger.confirmed''
    | TRIGGER_FINALIZED \<Rightarrow> ''trigger.finalized'')"

definition webhook_types :: "WebhookEventType list" where
  "webhook_types = [PAYMENT_CONFIRMED, PAYMENT_PENDING, PAYMENT_PRE_CONFIRMED, PAYMENT_FAILED,
     PAYMENT_REORGED, PAYMENT_FINALIZED, TRIGGER_MATCHED, TRIGGER_CONFIRMED, TRIGGER_FINALIZED]"

text \<open>\<open>WebhookEventType(s)\<close>; \<open>None\<close> is the \<open>ValueError\<close>.\<close>

definition webhook_type_of :: "string \<Rightarrow> WebhookEventType option" where
  "webhook_type_of s = find (\<lambda>t. webhook_type_value t = s) webhook_types"

definition mode_of :: "string \<Rightarrow> EndpointMode option" where
  "mode_of s = (if s = ''notify'' then Some NOTIFY else if s = ''execute'' then Some EXECUTE else None)"

definition state_of :: "string \<Rightarrow> ExecutionState option" where
  "state_of s = (if s = ''provisional'' then Some PROVISIONAL else if s = ''confirmed'' then Some CONFIRMED
     else if s = ''finalized'' then Some FINALIZED else if s = ''reorged'' then Some REORGED else None)"

definition trust_of :: "string \<Rightarrow> TrustSource option" where
  "trust_of s = (if s = ''facilitator'' then Some FACILITATOR
     else if s = ''onchain'' then Some ONCHAIN else None)"

lemma webhook_type_of_value [simp]: "webhook_type_of (webhook_type_value t) = Some t"
  by (cases t) (simp_all add: webhook_type_of_def webhook_types_def webhook_type_value_def)

lemma webhook_type_value_inj: "webhook_type_value t = webhook_type_value u \<longleftrightarrow> t = u"
  by (metis option.inject webhook_type_of_value)

record TransferData =
  td_chain_id :: ChainId
  td_tx_hash :: string
  td_block_number :: int
  td_from_address :: string
  td_to_address :: string
  td_amount :: string
  td_nonce :: string
  td_token :: string

record FinalityData =
  fd_confirmations :: int
  fd_required_confirmations :: int
  fd_is_finalized :: bool

record ExecutionBlock =
  eb_state :: ExecutionState
  eb_safe_to_execute :: bool
  eb_trust_source :: TrustSource
  eb_finality :: "FinalityData option"

definition build_finality_data :: "FinalityStatus option \<Rightarrow> int option \<Rightarrow> FinalityData option" where
  "build_finality_data finality required_depth = (case finality of
      None \<Rightarrow> None
    | Some f \<Rightarrow>
        (let req = (case required_depth of Some d \<Rightarrow> d | None \<Rightarrow> fs_required_confirmations f)
         in Some \<lparr>fd_confirmations = fs_confirmations f, fd_required_confirmations = req,
                  fd_is_finalized = (fs_confirmations f \<ge> req)\<rparr>))"

definition derive_execution_metadata ::
  "WebhookEventType \<Rightarrow> FinalityData option \<Rightarrow> ExecutionBlock" where
  "derive_execution_metadata event_type finality =
     (let (state, safe, trust) =
        (if event_type = PAYMENT_PRE_CONFIRMED then (PROVISIONAL, False, FACILITATOR)
         else if event_type \<in> {PAYMENT_REORGED, PAYMENT_FAILED} then (REORGED, False, ONCHAIN)
         else if event_type \<in> {PAYMENT_FINALIZED, TRIGGER_FINALIZED} then (FINALIZED, True, ONCHAIN)
         else if (case finality of Some f \<Rightarrow> fd_is_finalized f | None \<Rightarrow> False)
           then (FINALIZED, True, ONCHAIN)
         else if event_type = TRIGGER_MATCHED then (CONFIRMED, False, ONCHAIN)
         else if event_type = TRIGGER_CONFIRMED then (CONFIRMED, False, ONCHAIN)
         else (CONFIRMED, False, ONCHAIN))
      in \<lparr>eb_state = state, eb_safe_to_execute = safe, eb_trust_source = trust, eb_finality = finality\<rparr>)"

definition STATUS_MAP :: "(string \<times> (ExecutionState \<times> bool \<times> TrustSource)) list" where
  "STATUS_MAP = [
     (''pre_confirmed'', (PROVISIONAL, False, FACILITATOR)),
     (''pending'', (CONFIRMED, False, ONCHAIN)),
     (''confirmed'', (CONFIRMED, False, ONCHAIN)),
     (''finalized'', (FINALIZED, True, ONCHAIN)),
     (''reorged'', (REORGED, False, ONCHAIN)),
     (''payment.failed'', (REORGED, False, ONCHAIN))]"

definition execution_state_from_status :: "string \<Rightarrow> ExecutionState \<times> bool \<times> TrustSource" where
  "execution_state_from_status status =
     (case map_of STATUS_MAP status of Some x \<Rightarrow> x | None \<Rightarrow> (CONFIRMED, False, ONCHAIN))"

section \<open>Endpoints, subscriptions and triggers\<close>

record EndpointPolicies =
  po_min_amount :: "string option"
  po_max_amount :: "string option"
  po_allowed_senders :: "string list option"
  po_blocked_senders :: "string list option"
  po_required_agent_class :: "string option"
  po_min_reputation_score :: "rat option"
  po_finality_depth :: "int option"

definition default_policies :: EndpointPolicies where
  "default_policies = \<lparr>po_min_amount = None, po_max_amount = None, po_allowed_senders = None,
     po_blocked_senders = None, po_required_agent_class = None, po_min_reputation_score = None,
     po_finality_depth = None\<rparr>"

record Endpoint =
  ep_id :: string
  ep_url :: string
  ep_mode :: EndpointMode
  ep_chains :: "int list"
  ep_recipient :: string
  ep_owner_address :: string
  ep_registration_tx_hash :: "string option"
  ep_registration_chain_id :: "int option"
  ep_policies :: EndpointPolicies
  ep_active :: bool
  ep_convoy_project_id :: "string option"
  ep_convoy_endpoint_id :: "string option"
  ep_webhook_secret :: "string option"

record SubscriptionFilter =
  sf_chains :: "int list option"
  sf_senders :: "string list option"
  sf_recipients :: "string list option"
  sf_min_amount :: "string option"
  sf_agent_class :: "string option"

record Subscription =
  sub_id :: string
  sub_endpoint_id :: string
  sub_filters :: SubscriptionFilter
  sub_active :: bool

record TriggerFilter =
  tf_field :: string
  tf_op :: string
  tf_value :: pyval

record Trigger =
  tg_id :: string
  tg_owner_address :: string
  tg_endpoint_id :: string
  tg_name :: "string option"
  tg_event_signature :: string
  tg_topic0 :: "string option"
  tg_abi :: "pydict list"
  tg_contract_address :: "string option"
  tg_chain_ids :: "int list"
  tg_filter_rules :: "TriggerFilter list"
  tg_webhook_event_type :: string
  tg_reputation_threshold :: rat
  tg_required_agent_class :: "string option"
  tg_version :: string
  tg_require_payment :: bool
  tg_payment_token :: "string option"
  tg_min_payment_amount :: "string option"
  tg_active :: bool
  tg_created_at :: "int option"

record TriggerTemplate =
  tt_id :: string
  tt_name :: string
  tt_slug :: string
  tt_version :: string
  tt_description :: "string option"
  tt_category :: string
  tt_event_signature :: string
  tt_topic0 :: "string option"
  tt_abi :: "pydict list"
  tt_default_chains :: "int list"
  tt_default_filters :: "TriggerFilter list"
  tt_parameter_schema :: "pydict list"
  tt_webhook_event_type :: string
  tt_reputation_threshold :: rat
  tt_author_address :: "string option"
  tt_is_public :: bool
  tt_install_count :: int

section \<open>Event-neutral events and webhook payloads\<close>

record OnchainEvent =
  oe_event_id :: string
  oe_event_type :: string
  oe_chain_id :: int
  oe_tx_hash :: string
  oe_block_number :: int
  oe_block_hash :: string
  oe_log_index :: int
  oe_contract_address :: string
  oe_topic0 :: string
  oe_decoded_fields :: pydict
  oe_timestamp :: int
  oe_execution :: ExecutionBlock
  oe_identity :: "AgentIdentity option"
  oe_source :: string

record PaymentData =
  pd_amount :: string
  pd_token :: string
  pd_from_address :: string
  pd_to_address :: string
  pd_nonce :: string
  pd_authorizer :: string

record PaymentEvent = OnchainEvent +
  pe_payment :: PaymentData

record DecodedEvent =
  de_tx_hash :: string
  de_block_number :: int
  de_block_hash :: string
  de_log_index :: int
  de_chain_id :: "int option"
  de_contract_address :: string
  de_topic0 :: string
  de_fields :: pydict
  de_raw_log :: pydict
  de_decoder_name :: string
  de_typed_model :: "ERC3009Transfer option"
  de_identity_address :: "string option"
  de_dedup_key :: "string option"
  de_payment_amount :: "string option"
  de_payment_token :: "string option"
  de_payment_from :: "string option"
  de_payment_to :: "string option"

record WebhookData =
  wd_event :: "pydict option"
  wd_transfer :: "TransferData option"
  wd_finality :: "FinalityData option"
  wd_identity :: "AgentIdentity option"

record WebhookPayload =
  wp_id :: string
  wp_idempotency_key :: string
  wp_type :: WebhookEventType
  wp_mode :: EndpointMode
  wp_timestamp :: int
  wp_version :: string
  wp_execution :: ExecutionBlock
  wp_data :: WebhookData
  wp_trigger_id :: "string option"

definition ERC3009_TOPIC0 :: string where
  "ERC3009_TOPIC0 = ''0xddf252ad1be2c89b69c2b068fc378daa952ba7f163c4a11628f55a4df523b3ef''"

text \<open>\<open>event_id or str(uuid.uuid4())\<close>: an absent or empty id is replaced.\<close>

definition id_or_uuid :: "string option \<Rightarrow> string \<Rightarrow> string" where
  "id_or_uuid event_id uuid = (case event_id of Some i \<Rightarrow> py_or i uuid | None \<Rightarrow> uuid)"

definition erc3009_to_onchain_event ::
  "string \<Rightarrow> ERC3009Transfer \<Rightarrow> ExecutionBlock \<Rightarrow> AgentIdentity option \<Rightarrow> string option \<Rightarrow> PaymentEvent" where
  "erc3009_to_onchain_event uuid transfer execution identity event_id =
     \<lparr>oe_event_id = id_or_uuid event_id uuid,
      oe_event_type = ''erc3009.transfer'',
      oe_chain_id = chain_value (tr_chain_id transfer),
      oe_tx_hash = tr_tx_hash transfer,
      oe_block_number = tr_block_number transfer,
      oe_block_hash = tr_block_hash transfer,
      oe_log_index = tr_log_index transfer,
      oe_contract_address = tr_token transfer,
      oe_topic0 = ERC3009_TOPIC0,
      oe_decoded_fields = [
        (''from'', PyStr (tr_from_address transfer)),
        (''to'', PyStr (tr_to_address transfer)),
        (''value'', PyStr (tr_value transfer)),
        (''validAfter'', PyInt (tr_valid_after transfer)),
        (''validBefore'', PyInt (tr_valid_before transfer)),
        (''nonce'', PyStr (tr_nonce transfer)),
        (''authorizer'', PyStr (tr_authorizer transfer))],
      oe_timestamp = tr_timestamp transfer,
      oe_execution = execution,
      oe_identity = identity,
      oe_source = ''onchain'',
      pe_payment = \<lparr>pd_amount = tr_value transfer, pd_token = tr_token transfer,
        pd_from_address = tr_from_address transfer, pd_to_address = tr_to_address transfer,
        pd_nonce = tr_nonce transfer, pd_authorizer = tr_authorizer transfer\<rparr>\<rparr>"

definition decoded_event_to_onchain_event ::
  "string \<Rightarrow> DecodedEvent \<Rightarrow> ExecutionBlock \<Rightarrow> int \<Rightarrow> AgentIdentity option \<Rightarrow> string option \<Rightarrow> string
   \<Rightarrow> OnchainEvent + PaymentEvent" where
  "decoded_event_to_onchain_event uuid decoded execution timestamp identity event_id source =
     (let common = \<lparr>oe_event_id = id_or_uuid event_id uuid,
        oe_event_type = ''decoded.'' @ de_decoder_name decoded,
        oe_chain_id = (case de_chain_id decoded of Some c \<Rightarrow> c | None \<Rightarrow> 0),
        oe_tx_hash = de_tx_hash decoded, oe_block_number = de_block_number decoded,
        oe_block_hash = de_block_hash decoded, oe_log_index = de_log_index decoded,
        oe_contract_address = de_contract_address decoded, oe_topic0 = de_topic0 decoded,
        oe_decoded_fields = de_fields decoded, oe_timestamp = timestamp,
        oe_execution = execution, oe_identity = identity, oe_source = source\<rparr>
      in case de_payment_amount decoded of
           Some amt \<Rightarrow> Inr (OnchainEvent.extend
               (common\<lparr>oe_event_type := ''payment.'' @ de_decoder_name decoded\<rparr>)
               (PaymentEvent.fields
                 \<lparr>pd_amount = amt,
                  pd_token = (case de_payment_token decoded of Some t \<Rightarrow> t | None \<Rightarrow> []),
                  pd_from_address = (case de_payment_from decoded of Some a \<Rightarrow> a | None \<Rightarrow> []),
                  pd_to_address = (case de_payment_to decoded of Some a \<Rightarrow> a | None \<Rightarrow> []),
                  pd_nonce = [], pd_authorizer = []\<rparr>))
         | None \<Rightarrow> Inl common)"

section \<open>Properties of the execution metadata\<close>

lemma derive_execution_state_cases:
  "eb_state (derive_execution_metadata t f) = PROVISIONAL \<longleftrightarrow> t = PAYMENT_PRE_CONFIRMED"
  "eb_state (derive_execution_metadata t f) = REORGED \<longleftrightarrow> t \<in> {PAYMENT_REORGED, PAYMENT_FAILED}"
  by (cases t; auto simp: derive_execution_metadata_def Let_def split: option.splits)+

text \<open>
  A webhook tells its consumer that it is safe to execute exactly when its
  execution state is \<open>finalized\<close>, which happens exactly for the two \<open>*.finalized\<close>
  event types and for any other type whose finality data says finalized, except
  the provisional, failed and reorged ones, which are never safe; and a safe
  webhook always names the chain as its source of trust.
\<close>

theorem derive_execution_safe_iff:
  "let b = derive_execution_metadata t f in
     (eb_safe_to_execute b \<longleftrightarrow> eb_state b = FINALIZED) \<and>
     (eb_safe_to_execute b \<longleftrightarrow>
        t \<in> {PAYMENT_FINALIZED, TRIGGER_FINALIZED} \<or>
        (t \<notin> {PAYMENT_PRE_CONFIRMED, PAYMENT_REORGED, PAYMENT_FAILED} \<and>
         (\<exists>d. f = Some d \<and> fd_is_finalized d))) \<and>
     (eb_trust_source b = FACILITATOR \<longleftrightarrow> t = PAYMENT_PRE_CONFIRMED) \<and>
     eb_finality b = f"
  by (cases t; cases f) (simp_all add: derive_execution_metadata_def Let_def)

definition type_of_status :: "string \<Rightarrow> WebhookEventType option" where
  "type_of_status s = map_of [(''pre_confirmed'', PAYMENT_PRE_CONFIRMED), (''pending'', PAYMENT_PENDING),
     (''confirmed'', PAYMENT_CONFIRMED), (''finalized'', PAYMENT_FINALIZED),
     (''reorged'', PAYMENT_REORGED), (''payment.failed'', PAYMENT_FAILED)] s"

text \<open>
  The two places that derive execution metadata agree: what the API reports
  from the \<open>events.status\<close> column is what the webhook of that lifecycle stage
  carried, as long as the webhook's own finality data does not say finalized
  before the status does.
\<close>

theorem status_agrees_with_webhook:
  assumes "type_of_status status = Some t"
    and "status = ''finalized'' \<or> f = None \<or> (\<exists>d. f = Some d \<and> \<not> fd_is_finalized d)"
  shows "execution_state_from_status status =
    (let b = derive_execution_metadata t f in (eb_state b, eb_safe_to_execute b, eb_trust_source b))"
  using assms
  by (auto simp: type_of_status_def execution_state_from_status_def STATUS_MAP_def
      derive_execution_metadata_def Let_def split: if_splits)

theorem status_agrees_with_webhook_witness:
  "execution_state_from_status ''pending'' = (CONFIRMED, False, ONCHAIN)"
  using status_agrees_with_webhook[of "''pending''" PAYMENT_PENDING None]
  by (simp add: type_of_status_def derive_execution_metadata_def)

lemma build_finality_data_eq:
  "build_finality_data (Some f) d = Some \<lparr>fd_confirmations = fs_confirmations f,
     fd_required_confirmations = (case d of Some r \<Rightarrow> r | None \<Rightarrow> fs_required_confirmations f),
     fd_is_finalized = ((case d of Some r \<Rightarrow> r | None \<Rightarrow> fs_required_confirmations f) \<le> fs_confirmations f)\<rparr>"
  by (simp add: build_finality_data_def Let_def)

end
