(* ===== verification/Store.thy ===== *)
theory Store
  imports Models
begin

text \<open>
  The shared state of the pipeline and the services outside the repository.

  The record \<open>env\<close> collects what TripWire calls but does not implement: the
  clock, \<open>uuid4\<close>/\<open>nanoid\<close>, SHA-256, the JSON-RPC node, the identity resolver,
  the webhook provider, the x402 facilitator, signature recovery, and whether
  a database or Redis round trip fails. Every
  such call consumes one tick of the counter \<open>w_tick\<close>, and every answer depends
  on the tick, so two equal calls may answer differently and any call may
  fail. The record \<open>world\<close> holds the tables of \<open>db/migrations\<close> the pipeline reads
  and writes, with their primary, unique and foreign keys, the endpoint
  cache, the keys and session hashes in Redis, and the logs of webhooks handed
  to the provider and of payments settled.
\<close>

section \<open>Rows\<close>

record NonceRow =
  nr_chain_id :: int
  nr_nonce :: string
  nr_authorizer :: string
  nr_event_id :: "string option"
  nr_source :: string
  nr_reorged_at :: "int option"
  nr_created_at :: int

type_synonym nonce_key = "int \<times> string \<times> string"

definition nr_key :: "NonceRow \<Rightarrow> nonce_key" where
  "nr_key r = (nr_chain_id r, nr_nonce r, nr_authorizer r)"

record EventRow =
  er_id :: string
  er_type :: string
  er_chain_id :: "int option"
  er_tx_hash :: string
  er_block_number :: int
  er_block_hash :: string
  er_log_index :: int
  er_from_address :: string
  er_to_address :: string
  er_amount :: "string option"
  er_authorizer :: "string option"
  er_nonce :: "string option"
  er_token :: "string option"
  er_status :: string
  er_finality_depth :: int
  er_endpoint_id :: "string option"
  er_identity_data :: "AgentIdentity option"
  er_created_at :: int
  er_confirmed_at :: "int option"
  er_event_type :: string
  er_decoded_fields :: pydict
  er_source :: string
  er_trigger_id :: "string option"
  er_product_source :: string

record DeliveryRow =
  dl_id :: string
  dl_endpoint_id :: string
  dl_event_id :: string
  dl_provider_message_id :: "string option"
  dl_status :: string
  dl_created_at :: int
  dl_dlq_retry_count :: int

datatype realtime_data =
    RtTransfer TransferData int ExecutionBlock "FinalityData option" "AgentIdentity option"
  | RtEvent pydict int pyval pyval
  | RtTrigger WebhookPayload

record RealtimeRow =
  rt_id :: string
  rt_endpoint_id :: string
  rt_type :: string
  rt_data :: realtime_data
  rt_chain_id :: "int option"
  rt_recipient :: string
  rt_created_at :: int

text \<open>
  A row of \<open>endpoints\<close> or \<open>triggers\<close> that the database accepts (its \<open>JSONB\<close> columns take any
  value) but from which the Pydantic model cannot be built: every query whose answer
  contains it raises \<open>ValidationError\<close>. The key is the recipient or the topic.
\<close>

record InvalidRow =
  iv_id :: string
  iv_owner_address :: string
  iv_key :: string
  iv_endpoint_id :: string
  iv_active :: bool

record SentMessage =
  sm_app_id :: string
  sm_event_type :: string
  sm_payload :: WebhookPayload
  sm_convoy_endpoint_id :: string

text \<open>
  A session hash in Redis. Every field is optional because \<open>HINCRBY\<close> creates a
  hash with a single field; \<open>sh_key_expires\<close> is the expiry of the key itself.
\<close>

record SessionHash =
  sh_wallet_address :: "string option"
  sh_budget_total :: "int option"
  sh_budget_remaining :: "int option"
  sh_expires_at :: "int option"
  sh_ttl_seconds :: "int option"
  sh_chain_id :: "int option"
  sh_reputation_score :: "rat option"
  sh_agent_class :: "string option"
  sh_key_expires :: "int option"

section \<open>The world and its environment\<close>

text \<open>The settings the modelled code reads.\<close>

record Settings =
  st_session_enabled :: bool
  st_session_default_budget :: int
  st_session_max_budget :: int
  st_session_default_ttl :: int
  st_session_max_ttl :: int
  st_siwe_domain :: string
  st_siwe_chain_id :: int
  st_auth_tolerance :: int
  st_treasury :: string
  st_product_mode :: string
  st_app_env :: string
  st_max_triggers_per_wallet :: int
  st_max_endpoints_per_wallet :: int

text \<open>What a payment must offer, and the facilitator's answer to a verification (x402).\<close>

record PaymentOption =
  pay_scheme :: string
  pay_price :: string
  pay_network :: string
  pay_to :: string

record VerifyResult =
  vr_valid :: bool
  vr_payer :: "string option"
  vr_from_address :: "string option"

text \<open>The three JSON-RPC requests of \<open>rpc.py\<close> and \<open>ingestion/finality.py\<close>.\<close>

datatype rpc_request =
    Eth_blockNumber
  | Eth_getBlockByNumber int
  | Eth_call string string

record world =
  w_tick :: nat
  w_nonces :: "NonceRow list"
  w_nonces_archive :: "NonceRow list"
  w_events :: "EventRow list"
  w_event_endpoints :: "(string \<times> string) list"
  w_deliveries :: "DeliveryRow list"
  w_realtime :: "RealtimeRow list"
  w_endpoints :: "Endpoint list"
  w_subscriptions :: "Subscription list"
  w_triggers :: "Trigger list"
  w_invalid_endpoints :: "InvalidRow list"
  w_invalid_triggers :: "InvalidRow list"
  w_redis_cache :: "string \<Rightarrow> (Endpoint list \<times> int) option"
  w_local_cache :: "string \<Rightarrow> (Endpoint list \<times> int) option"
  w_topic_cache :: "string \<Rightarrow> (int \<times> Trigger list) option"
  w_active_cache :: "(Trigger list \<times> int) option"
  w_templates :: "TriggerTemplate list"
  w_templates_cache :: "TriggerTemplate list option"
  w_sent :: "SentMessage list"
  w_sessions :: "string \<Rightarrow> SessionHash option"
  w_redis :: "string \<Rightarrow> (int \<times> int option) option"
  w_settled :: "string list"

record env =
  en_now :: "nat \<Rightarrow> int"
  en_uuid :: "nat \<Rightarrow> string"
  en_sha256_hex :: "string \<Rightarrow> string"
  en_db_fault :: "nat \<Rightarrow> exn option"
  en_redis :: "nat \<Rightarrow> bool"
  en_rpc_url :: "int \<Rightarrow> string"
  en_http_rpc :: "nat \<Rightarrow> string \<Rightarrow> rpc_request \<Rightarrow> pydict result"
  en_resolve :: "nat \<Rightarrow> string \<Rightarrow> int \<Rightarrow> AgentIdentity option result"
  en_send :: "nat \<Rightarrow> SentMessage \<Rightarrow> string result"
  en_jmespath :: "string \<Rightarrow> pydict \<Rightarrow> pyval result"
  en_re_search :: "string \<Rightarrow> string \<Rightarrow> bool result"
  en_abi_decode :: "string list \<Rightarrow> string \<Rightarrow> pyval list result"
  en_py_str :: "pyval \<Rightarrow> string"
  en_leader_lock :: "nat \<Rightarrow> int \<Rightarrow> bool result"
  en_pg_pool :: bool
  en_advisory_lock :: "nat \<Rightarrow> int \<Rightarrow> bool result"
  en_redis_fault :: "nat \<Rightarrow> exn option"
  en_token :: "nat \<Rightarrow> string"
  en_parse_iso :: "string \<Rightarrow> int option"
  en_recover :: "string \<Rightarrow> string \<Rightarrow> string result"
  en_x402_available :: bool
  en_x402_verify :: "nat \<Rightarrow> string \<Rightarrow> PaymentOption \<Rightarrow> VerifyResult result"
  en_x402_settle :: "nat \<Rightarrow> string \<Rightarrow> bool result"
  en_settings :: Settings

type_synonym 'a io = "(world, 'a) act"

definition tick :: "nat io" where
  "tick = ebind (egets w_tick) (\<lambda>n. ebind (emodify (\<lambda>w. w\<lparr>w_tick := Suc n\<rparr>)) (\<lambda>_. eret n))"

definition now :: "env \<Rightarrow> int io" where
  "now env = ebind tick (\<lambda>n. eret (en_now env n))"

definition uuid4 :: "env \<Rightarrow> string io" where
  "uuid4 env = ebind tick (\<lambda>n. eret (en_uuid env n))"

text \<open>One database round trip: it may raise before it has any effect.\<close>

definition db_call :: "env \<Rightarrow> unit io" where
  "db_call env = ebind tick (\<lambda>n. case en_db_fault env n of Some e \<Rightarrow> eraise e | None \<Rightarrow> eret ())"

definition query :: "env \<Rightarrow> (world \<Rightarrow> 'a) \<Rightarrow> 'a io" where
  "query env f = ebind (db_call env) (\<lambda>_. egets f)"

text \<open>A query whose rows become Pydantic models.\<close>

definition query_valid :: "env \<Rightarrow> (world \<Rightarrow> InvalidRow list) \<Rightarrow> (world \<Rightarrow> 'a) \<Rightarrow> 'a io" where
  "query_valid env invalid f = ebind (query env (\<lambda>w. (invalid w, f w))) (\<lambda>(bad, v).
     if bad = [] then eret v else eraise ValidationError)"

text \<open>An insert checks the table's constraints after the round trip started.\<close>

definition insert_checked :: "env \<Rightarrow> (world \<Rightarrow> bool) \<Rightarrow> (world \<Rightarrow> world) \<Rightarrow> unit io" where
  "insert_checked env ok f = ebind (db_call env) (\<lambda>_. ebind (egets ok) (\<lambda>b.
     if b then emodify f else eraise (ExternalError ''constraint'')))"

lemma run_tick [simp, act_simps]: "run tick w = (Inr (w_tick w), w\<lparr>w_tick := Suc (w_tick w)\<rparr>)"
  by (simp add: tick_def)

lemma run_now [simp, act_simps]:
  "run (now env) w = (Inr (en_now env (w_tick w)), w\<lparr>w_tick := Suc (w_tick w)\<rparr>)"
  by (simp add: now_def)

lemma run_uuid4 [simp, act_simps]:
  "run (uuid4 env) w = (Inr (en_uuid env (w_tick w)), w\<lparr>w_tick := Suc (w_tick w)\<rparr>)"
  by (simp add: uuid4_def)

lemma run_db_call [simp, act_simps]:
  "run (db_call env) w = (case en_db_fault env (w_tick w) of Some e \<Rightarrow> Inl e | None \<Rightarrow> Inr (),
     w\<lparr>w_tick := Suc (w_tick w)\<rparr>)"
  by (simp add: db_call_def split: option.split)

text \<open>
  \<open>tick_stable I\<close>: the predicate does not look at the counter. All the invariants
  below are such, so the effects of the service calls keep them.
\<close>

definition tick_stable :: "(world \<Rightarrow> bool) \<Rightarrow> bool" where
  "tick_stable I \<longleftrightarrow> (\<forall>w n. I w \<longrightarrow> I (w\<lparr>w_tick := n\<rparr>))"

lemma keeps_tick [keeps_intros]: "tick_stable I \<Longrightarrow> keeps I tick"
  by (auto intro!: keepsI simp: tick_stable_def)

lemma no_raise_services [total_intros]: "no_raise tick" "no_raise (now env)" "no_raise (uuid4 env)"
  by (simp_all add: no_raise_def)

lemma keeps_now [keeps_intros]: "tick_stable I \<Longrightarrow> keeps I (now env)"
  unfolding now_def by (intro keeps_intros)

lemma keeps_uuid4 [keeps_intros]: "tick_stable I \<Longrightarrow> keeps I (uuid4 env)"
  unfolding uuid4_def by (intro keeps_intros)

lemma keeps_db_call [keeps_intros]: "tick_stable I \<Longrightarrow> keeps I (db_call env)"
  unfolding db_call_def by (intro keeps_intros)

lemma keeps_query [keeps_intros]: "tick_stable I \<Longrightarrow> keeps I (query env f)"
  unfolding query_def by (intro keeps_intros)

lemma keeps_query_valid [keeps_intros]: "tick_stable I \<Longrightarrow> keeps I (query_valid env b f)"
  unfolding query_valid_def by (intro keeps_intros)

lemma keeps_insert_checked:
  assumes "tick_stable I" and "\<And>w. I w \<Longrightarrow> ok w \<Longrightarrow> I (f w)"
  shows "keeps I (insert_checked env ok f)"
  using assms by (auto intro!: keepsI simp: insert_checked_def tick_stable_def split: option.splits)

section \<open>Referential integrity\<close>

definition event_ids :: "world \<Rightarrow> string list" where
  "event_ids w = map er_id (w_events w)"

definition endpoint_ids :: "world \<Rightarrow> string list" where
  "endpoint_ids w = map ep_id (w_endpoints w) @ map iv_id (w_invalid_endpoints w)"

text \<open>
  What the constraints of the schema keep true: primary keys of \<open>events\<close>,
  the unique keys of \<open>nonces\<close>, \<open>nonces_archive\<close> and \<open>event_endpoints\<close>, the foreign
  keys of \<open>events\<close>, \<open>event_endpoints\<close>, \<open>webhook_deliveries\<close> and \<open>realtime_events\<close>.
\<close>

definition db_inv :: "world \<Rightarrow> bool" where
  "db_inv w \<longleftrightarrow>
     distinct (event_ids w) \<and>
     distinct (map nr_key (w_nonces w)) \<and>
     distinct (map nr_key (w_nonces_archive w)) \<and>
     distinct (w_event_endpoints w) \<and>
     (\<forall>r \<in> set (w_events w). er_chain_id r \<noteq> None \<and>
        (\<forall>e. er_endpoint_id r = Some e \<longrightarrow> e \<in> set (endpoint_ids w))) \<and>
     (\<forall>(ev, ep) \<in> set (w_event_endpoints w). ev \<in> set (event_ids w) \<and> ep \<in> set (endpoint_ids w)) \<and>
     (\<forall>d \<in> set (w_deliveries w). dl_event_id d \<in> set (event_ids w) \<and> dl_endpoint_id d \<in> set (endpoint_ids w)) \<and>
     (\<forall>r \<in> set (w_realtime w). rt_endpoint_id r \<in> set (endpoint_ids w))"

lemma db_inv_tick_stable [simp]: "tick_stable db_inv"
  by (simp add: tick_stable_def db_inv_def event_ids_def endpoint_ids_def)

section \<open>A concrete environment\<close>

text \<open>
  A concrete instance of every service, in which all calls succeed; the
  witnesses of the theorems below are evaluated in it or in variations of it.
\<close>

definition default_settings :: Settings where
  "default_settings = \<lparr>st_session_enabled = True, st_session_default_budget = 10000000,
     st_session_max_budget = 100000000, st_session_default_ttl = 900, st_session_max_ttl = 1800,
     st_siwe_domain = ''tripwire.dev'', st_siwe_chain_id = 8453, st_auth_tolerance = 300, st_treasury = ''0x0'',
     st_product_mode = ''both'', st_app_env = ''production'', st_max_triggers_per_wallet = 50,
     st_max_endpoints_per_wallet = 20\<rparr>"

definition calm_env :: env where
  "calm_env = \<lparr>
     en_now = (\<lambda>n. 1000 + int n),
     en_uuid = (\<lambda>n. ''uuid-'' @ nat_str n),
     en_sha256_hex = (\<lambda>s. s),
     en_db_fault = (\<lambda>n. None),
     en_redis = (\<lambda>n. False),
     en_rpc_url = (\<lambda>c. ''https://rpc''),
     en_http_rpc = (\<lambda>n url req. case req of
         Eth_blockNumber \<Rightarrow> Inr [(''result'', PyStr ''0x64'')]
       | _ \<Rightarrow> Inr []),
     en_resolve = (\<lambda>n a c. Inr None),
     en_send = (\<lambda>n m. Inr (''msg-'' @ nat_str n)),
     en_jmespath = (\<lambda>f d. Inr (dict_get f PyNone d)),
     en_re_search = (\<lambda>p s. Inr (py_contains p s)),
     en_abi_decode = (\<lambda>ts d. Inr [PyInt 5]),
     en_py_str = (\<lambda>v. case v of PyStr s \<Rightarrow> s | PyInt i \<Rightarrow> int_str i | _ \<Rightarrow> ''?''),
     en_leader_lock = (\<lambda>n i. Inr True), en_pg_pool = False, en_advisory_lock = (\<lambda>n i. Inr True),
     en_redis_fault = (\<lambda>n. None), en_token = (\<lambda>n. ''tok-'' @ nat_str n),
     en_parse_iso = py_int, en_recover = (\<lambda>m s. Inr s),
     en_x402_available = True,
     en_x402_verify = (\<lambda>n h o'. Inr \<lparr>vr_valid = True, vr_payer = Some ''0xa'', vr_from_address = None\<rparr>),
     en_x402_settle = (\<lambda>n h. Inr True), en_settings = default_settings\<rparr>"

definition empty_world :: world where
  "empty_world = \<lparr>w_tick = 0, w_nonces = [], w_nonces_archive = [], w_events = [],
     w_event_endpoints = [], w_deliveries = [], w_realtime = [], w_endpoints = [],
     w_subscriptions = [], w_triggers = [], w_invalid_endpoints = [], w_invalid_triggers = [], w_redis_cache = (\<lambda>_. None),
     w_local_cache = (\<lambda>_. None), w_topic_cache = (\<lambda>_. None), w_active_cache = None, w_templates = [],
     w_templates_cache = None, w_sent = [],
     w_sessions = (\<lambda>_. None), w_redis = (\<lambda>_. None), w_settled = []\<rparr>"

lemma db_inv_empty [simp]: "db_inv empty_world"
  by (simp add: db_inv_def empty_world_def event_ids_def endpoint_ids_def)

end
