(* ===== verification/Nonces.thy ===== *)
theory Nonces
  imports Store
begin

text \<open>
  Nonce deduplication: the Postgres functions of migrations 019 and 020 on the
  \<open>nonces\<close> and \<open>nonces_archive\<close> tables, and \<open>NonceRepository\<close>
  (\<open>db/repositories/nonces.py\<close>) over them. The interface the pipeline relies
  on is the locale \<open>claim_store\<close>, interpreted on both SQL functions.
\<close>

section \<open>The Postgres functions\<close>

type_synonym nonce_table = "NonceRow list"

definition mk_key :: "int \<Rightarrow> string \<Rightarrow> string \<Rightarrow> nonce_key" where
  "mk_key chain_id nonce authorizer = (chain_id, nonce, py_lower authorizer)"

definition lookup_nonce :: "nonce_table \<Rightarrow> nonce_key \<Rightarrow> NonceRow option" where
  "lookup_nonce t k = find (\<lambda>r. nr_key r = k) t"

definition update_nonce :: "nonce_key \<Rightarrow> (NonceRow \<Rightarrow> NonceRow) \<Rightarrow> nonce_table \<Rightarrow> nonce_table" where
  "update_nonce k f t = map (\<lambda>r. if nr_key r = k then f r else r) t"

definition new_nonce :: "int \<Rightarrow> nonce_key \<Rightarrow> string option \<Rightarrow> string \<Rightarrow> NonceRow" where
  "new_nonce time k event_id src = (case k of (c, n, a) \<Rightarrow>
     \<lparr>nr_chain_id = c, nr_nonce = n, nr_authorizer = a, nr_event_id = event_id, nr_source = src,
      nr_reorged_at = None, nr_created_at = time\<rparr>)"

text \<open>
  \<open>record_nonce_with_reorg\<close> (019): insert; else reclaim a reorged row; else look
  at the archive, which answers \<open>FALSE\<close> either way.
\<close>

definition record_nonce_with_reorg ::
  "int \<Rightarrow> nonce_key \<Rightarrow> string option \<Rightarrow> nonce_table \<Rightarrow> nonce_table \<Rightarrow> bool \<times> nonce_table" where
  "record_nonce_with_reorg time k event_id archive t =
     (case lookup_nonce t k of
        None \<Rightarrow> (True, t @ [new_nonce time k event_id ''goldsky''])
      | Some r \<Rightarrow>
          if nr_reorged_at r \<noteq> None
          then (True, update_nonce k (\<lambda>r. r\<lparr>nr_reorged_at := None, nr_event_id := event_id,
                         nr_created_at := time\<rparr>) t)
          else if lookup_nonce archive k \<noteq> None then (False, t)
          else (False, t))"

text \<open>\<open>record_nonce_or_correlate\<close> (020): the claimant's event and source on an active duplicate.\<close>

definition sql_record_nonce_or_correlate ::
  "int \<Rightarrow> nonce_key \<Rightarrow> string option \<Rightarrow> string \<Rightarrow> nonce_table
   \<Rightarrow> (bool \<times> string option \<times> string option) \<times> nonce_table" where
  "sql_record_nonce_or_correlate time k event_id src t =
     (case lookup_nonce t k of
        None \<Rightarrow> ((True, None, None), t @ [new_nonce time k event_id src])
      | Some r \<Rightarrow>
          if nr_reorged_at r \<noteq> None
          then ((True, None, None),
                update_nonce k (\<lambda>r. r\<lparr>nr_reorged_at := None, nr_event_id := event_id,
                   nr_source := src, nr_created_at := time\<rparr>) t)
          else ((False, nr_event_id r, Some (nr_source r)), t))"

definition archivable :: "int \<Rightarrow> NonceRow \<Rightarrow> bool" where
  "archivable cutoff r \<longleftrightarrow> nr_created_at r < cutoff \<and> nr_reorged_at r = None"

text \<open>
  \<open>archive_old_nonces\<close> (019). The \<open>LIMIT\<close> has no \<open>ORDER BY\<close>; the model takes the
  rows in table order.
\<close>

definition archive_old_nonces ::
  "int \<Rightarrow> nat \<Rightarrow> nonce_table \<times> nonce_table \<Rightarrow> nat \<times> nonce_table \<times> nonce_table" where
  "archive_old_nonces cutoff batch_size s = (case s of (t, archive) \<Rightarrow>
     let to_archive = take batch_size (filter (archivable cutoff) t);
         keys = map nr_key to_archive;
         inserted = filter (\<lambda>r. lookup_nonce archive (nr_key r) = None) to_archive;
         kept = filter (\<lambda>r. nr_key r \<notin> set keys) t
     in (length t - length kept, kept, archive @ inserted))"

definition invalidate_rows :: "int \<Rightarrow> string \<Rightarrow> nonce_table \<Rightarrow> bool \<times> nonce_table" where
  "invalidate_rows time event_id t =
     (let hit = (\<lambda>r. nr_event_id r = Some event_id \<and> nr_reorged_at r = None)
      in (\<exists>r \<in> set t. hit r, map (\<lambda>r. if hit r then r\<lparr>nr_reorged_at := Some time\<rparr> else r) t))"

section \<open>The repository\<close>

definition record_nonce :: "env \<Rightarrow> int \<Rightarrow> string \<Rightarrow> string \<Rightarrow> string option \<Rightarrow> bool io" where
  "record_nonce env chain_id nonce authorizer event_id =
     ebind (db_call env) (\<lambda>_. ebind (now env) (\<lambda>time.
     ebind (egets (\<lambda>w. record_nonce_with_reorg time (mk_key chain_id nonce (py_lower authorizer)) event_id
              (w_nonces_archive w) (w_nonces w))) (\<lambda>(is_new, t).
     ebind (emodify (\<lambda>w. w\<lparr>w_nonces := t\<rparr>)) (\<lambda>_. eret is_new))))"

definition record_nonce_or_correlate ::
  "env \<Rightarrow> int \<Rightarrow> string \<Rightarrow> string \<Rightarrow> string option \<Rightarrow> string
   \<Rightarrow> (bool \<times> string option \<times> string option) io" where
  "record_nonce_or_correlate env chain_id nonce authorizer event_id src =
     ebind (db_call env) (\<lambda>_. ebind (now env) (\<lambda>time.
     ebind (egets (\<lambda>w. sql_record_nonce_or_correlate time (mk_key chain_id nonce (py_lower authorizer))
              event_id src (w_nonces w))) (\<lambda>(row, t).
     ebind (emodify (\<lambda>w. w\<lparr>w_nonces := t\<rparr>)) (\<lambda>_. eret row))))"

definition invalidate_by_event_id :: "env \<Rightarrow> string \<Rightarrow> bool io" where
  "invalidate_by_event_id env event_id =
     ebind (now env) (\<lambda>time. ebind (db_call env) (\<lambda>_.
     ebind (egets (\<lambda>w. invalidate_rows time event_id (w_nonces w))) (\<lambda>(hit, t).
     ebind (emodify (\<lambda>w. w\<lparr>w_nonces := t\<rparr>)) (\<lambda>_. eret hit))))"

definition archive_old :: "env \<Rightarrow> int \<Rightarrow> nat \<Rightarrow> nat io" where
  "archive_old env age_days batch_size =
     ebind (db_call env) (\<lambda>_. ebind (now env) (\<lambda>time.
     ebind (egets (\<lambda>w. archive_old_nonces (time - age_days * 86400) batch_size
              (w_nonces w, w_nonces_archive w))) (\<lambda>(n, t, a).
     ebind (emodify (\<lambda>w. w\<lparr>w_nonces := t, w_nonces_archive := a\<rparr>)) (\<lambda>_. eret n))))"

section \<open>The claim interface\<close>

text \<open>
  What the handlers rely on: a claim succeeds exactly when the key is not held,
  it makes the key held, and it touches no other key.
\<close>

locale claim_store =
  fixes claim :: "'k \<Rightarrow> 's \<Rightarrow> bool \<times> 's"
    and held :: "'s \<Rightarrow> 'k \<Rightarrow> bool"
  assumes claim_result: "fst (claim k s) \<longleftrightarrow> \<not> held s k"
    and claim_held: "held (snd (claim k s)) k' \<longleftrightarrow> k' = k \<or> held s k'"
begin

fun claims :: "'k list \<Rightarrow> 's \<Rightarrow> bool list \<times> 's" where
  "claims [] s = ([], s)"
| "claims (k # ks) s = (case claim k s of (b, s') \<Rightarrow> case claims ks s' of (bs, s'') \<Rightarrow> (b # bs, s''))"

lemma length_claims [simp]: "length (fst (claims ks s)) = length ks"
  by (induction ks arbitrary: s) (auto simp: case_prod_beta)

lemma claims_held: "held (snd (claims ks s)) k \<longleftrightarrow> k \<in> set ks \<or> held s k"
proof (induction ks arbitrary: s)
  case (Cons k' ks)
  obtain b s' where c: "claim k' s = (b, s')" by fastforce
  with Cons[of s'] claim_held[of k' s k] show ?case by (auto simp: case_prod_beta)
qed simp

lemma claims_nth:
  "i < length ks \<Longrightarrow> fst (claims ks s) ! i \<longleftrightarrow> \<not> held s (ks ! i) \<and> ks ! i \<notin> set (take i ks)"
proof (induction ks arbitrary: s i)
  case (Cons k ks)
  obtain b s' where c: "claim k s = (b, s')" by fastforce
  have b: "b \<longleftrightarrow> \<not> held s k" and h: "held s' k' \<longleftrightarrow> k' = k \<or> held s k'" for k'
    using claim_result[of k s] claim_held[of k s] c by simp_all
  show ?case
  proof (cases i)
    case 0
    with c b show ?thesis by (simp add: case_prod_beta)
  next
    case (Suc j)
    with Cons.prems have "fst (claims ks s') ! j \<longleftrightarrow> \<not> held s' (ks ! j) \<and> ks ! j \<notin> set (take j ks)"
      by (intro Cons.IH) simp
    with Suc c show ?thesis unfolding h by (auto simp: case_prod_beta)
  qed
qed simp

end

text \<open>
  A claim store whose keys can be given back: \<open>release\<close> frees exactly the keys the
  given owner holds.
\<close>

locale reclaimable_store = claim_store claim held
  for claim :: "'k \<Rightarrow> 's \<Rightarrow> bool \<times> 's" and held :: "'s \<Rightarrow> 'k \<Rightarrow> bool" +
  fixes release :: "'o \<Rightarrow> 's \<Rightarrow> 's"
    and owns :: "'s \<Rightarrow> 'o \<Rightarrow> 'k \<Rightarrow> bool"
  assumes release_held: "held (release x s) k \<longleftrightarrow> held s k \<and> \<not> owns s x k"
    and owns_held: "owns s x k \<Longrightarrow> held s k"
begin

fun balance :: "'k \<Rightarrow> ('k + 'o) list \<Rightarrow> 's \<Rightarrow> int \<times> 's" where
  "balance k [] s = (0, s)"
| "balance k (Inl k' # ops) s = (case claim k' s of (b, s') \<Rightarrow>
     case balance k ops s' of (n, s'') \<Rightarrow> (n + (if b \<and> k' = k then 1 else 0), s''))"
| "balance k (Inr x # ops) s =
     (case balance k ops (release x s) of (n, s'') \<Rightarrow> (n - (if owns s x k then 1 else 0), s''))"

lemma balance_held:
  "fst (balance k ops s) = (if held (snd (balance k ops s)) k then 1 else 0) - (if held s k then 1 else 0)"
proof (induction k ops s rule: balance.induct)
  case (2 k k' ops s)
  obtain b s' where c: "claim k' s = (b, s')" by fastforce
  obtain n s'' where n: "balance k ops s' = (n, s'')" by fastforce
  from 2[OF c[symmetric]] c n claim_result[of k' s] claim_held[of k' s k] show ?case
    by (auto split: if_splits)
next
  case (3 k x ops s)
  obtain n s'' where n: "balance k ops (release x s) = (n, s'')" by fastforce
  from 3 n release_held[of x s k] owns_held[of s x k] show ?case by (auto split: if_splits)
qed simp

end

section \<open>Interpretation on the SQL functions\<close>

definition active :: "nonce_table \<Rightarrow> nonce_key \<Rightarrow> bool" where
  "active t k \<longleftrightarrow> (\<exists>r. lookup_nonce t k = Some r \<and> nr_reorged_at r = None)"

definition owned_by :: "nonce_table \<Rightarrow> string \<Rightarrow> nonce_key \<Rightarrow> bool" where
  "owned_by t e k \<longleftrightarrow> (\<exists>r. lookup_nonce t k = Some r \<and> nr_event_id r = Some e \<and> nr_reorged_at r = None)"

lemma nr_key_new_nonce [simp]: "nr_key (new_nonce time k e s) = k"
  by (cases k) (simp add: new_nonce_def nr_key_def)

lemma new_nonce_fields [simp]:
  "nr_reorged_at (new_nonce time k e s) = None" "nr_event_id (new_nonce time k e s) = e"
  "nr_source (new_nonce time k e s) = s" "nr_created_at (new_nonce time k e s) = time"
  by (cases k; simp add: new_nonce_def)+

lemma find_append: "find P (xs @ ys) = (case find P xs of None \<Rightarrow> find P ys | Some x \<Rightarrow> Some x)"
  by (induction xs) auto

lemma lookup_append:
  "lookup_nonce (t @ [r]) k = (case lookup_nonce t k of Some x \<Rightarrow> Some x
     | None \<Rightarrow> if nr_key r = k then Some r else None)"
  by (simp add: lookup_nonce_def find_append split: option.split)

lemma lookup_map:
  assumes "\<And>r. nr_key (f r) = nr_key r"
  shows "lookup_nonce (map f t) k = map_option f (lookup_nonce t k)"
  using assms by (induction t) (auto simp: lookup_nonce_def)

lemma lookup_key: "lookup_nonce t k = Some r \<Longrightarrow> nr_key r = k \<and> r \<in> set t"
  by (auto simp: lookup_nonce_def find_Some_iff)

lemma lookup_None: "lookup_nonce t k = None \<longleftrightarrow> k \<notin> nr_key ` set t"
  by (auto simp: lookup_nonce_def find_None_iff)

lemma lookup_update:
  assumes "\<And>r. nr_key (f r) = nr_key r"
  shows "lookup_nonce (update_nonce k f t) k' = map_option (\<lambda>r. if nr_key r = k then f r else r) (lookup_nonce t k')"
  unfolding update_nonce_def by (rule lookup_map) (simp add: assms)

lemma nr_key_update [simp]:
  "nr_key (r\<lparr>nr_reorged_at := a\<rparr>) = nr_key r" "nr_key (r\<lparr>nr_event_id := b\<rparr>) = nr_key r"
  "nr_key (r\<lparr>nr_source := c\<rparr>) = nr_key r" "nr_key (r\<lparr>nr_created_at := d\<rparr>) = nr_key r"
  by (simp_all add: nr_key_def)

lemmas nonce_eval = record_nonce_with_reorg_def sql_record_nonce_or_correlate_def active_def owned_by_def
  lookup_append lookup_update

interpretation reorg: reclaimable_store
    "\<lambda>k. record_nonce_with_reorg time k event_id archive" active
    "\<lambda>e. snd \<circ> invalidate_rows time e" owned_by
  for time event_id archive
proof
  fix k k' :: nonce_key and s
  show "fst (record_nonce_with_reorg time k event_id archive s) \<longleftrightarrow> \<not> active s k"
    by (auto simp: nonce_eval split: option.splits)
  show "active (snd (record_nonce_with_reorg time k event_id archive s)) k' \<longleftrightarrow> k' = k \<or> active s k'"
    by (auto simp: nonce_eval dest: lookup_key split: option.splits)
next
  fix x s k
  have "lookup_nonce (snd (invalidate_rows time x s)) k =
      map_option (\<lambda>r. if nr_event_id r = Some x \<and> nr_reorged_at r = None then r\<lparr>nr_reorged_at := Some time\<rparr> else r)
        (lookup_nonce s k)"
    by (simp add: invalidate_rows_def lookup_map)
  then show "active ((snd \<circ> invalidate_rows time x) s) k \<longleftrightarrow> active s k \<and> \<not> owned_by s x k"
    by (cases "lookup_nonce s k") (auto simp: active_def owned_by_def)
qed (auto simp: active_def owned_by_def)

interpretation correlate: reclaimable_store
    "\<lambda>k s. (fst (fst (sql_record_nonce_or_correlate time k event_id src s)),
            snd (sql_record_nonce_or_correlate time k event_id src s))" active
    "\<lambda>e. snd \<circ> invalidate_rows time e" owned_by
  for time event_id src
proof
  fix k k' :: nonce_key and s
  show "fst (fst (fst (sql_record_nonce_or_correlate time k event_id src s)),
      snd (sql_record_nonce_or_correlate time k event_id src s)) \<longleftrightarrow> \<not> active s k"
    by (auto simp: nonce_eval split: option.splits)
  show "active (snd (fst (fst (sql_record_nonce_or_correlate time k event_id src s)),
      snd (sql_record_nonce_or_correlate time k event_id src s))) k' \<longleftrightarrow> k' = k \<or> active s k'"
    by (auto simp: nonce_eval dest: lookup_key split: option.splits)
qed (rule reorg.release_held reorg.owns_held; assumption?)+

section \<open>Sequences of operations\<close>

text \<open>
  Any interleaving of the operations the running system performs on the two tables, each
  with its own time, event and source; the answer of an operation is whether it claimed,
  invalidated or archived anything.
\<close>

datatype nonce_op =
    Claim int nonce_key "string option"
  | Correlate int nonce_key "string option" string
  | Invalidate int string
  | Archive int nat

type_synonym nonce_tables = "nonce_table \<times> nonce_table"

fun nonce_step :: "nonce_op \<Rightarrow> nonce_tables \<Rightarrow> bool \<times> nonce_tables" where
  "nonce_step (Claim time k e) (t, archive) =
     (case record_nonce_with_reorg time k e archive t of (b, t') \<Rightarrow> (b, (t', archive)))"
| "nonce_step (Correlate time k e src) (t, archive) =
     (case sql_record_nonce_or_correlate time k e src t of ((b, _), t') \<Rightarrow> (b, (t', archive)))"
| "nonce_step (Invalidate time e) (t, archive) = (case invalidate_rows time e t of (b, t') \<Rightarrow> (b, (t', archive)))"
| "nonce_step (Archive cutoff batch) s = (case archive_old_nonces cutoff batch s of (n, s') \<Rightarrow> (0 < n, s'))"

fun op_key :: "nonce_op \<Rightarrow> nonce_key option" where
  "op_key (Claim _ k _) = Some k"
| "op_key (Correlate _ k _ _) = Some k"
| "op_key (Invalidate _ _) = None"
| "op_key (Archive _ _) = None"

text \<open>The tables before operation \<open>i\<close>, and the answer it gives there.\<close>

fun nonce_state :: "nonce_op list \<Rightarrow> nonce_tables \<Rightarrow> nat \<Rightarrow> nonce_tables" where
  "nonce_state ops s 0 = s"
| "nonce_state ops s (Suc i) = snd (nonce_step (ops ! i) (nonce_state ops s i))"

definition answer_at :: "nonce_op list \<Rightarrow> nonce_tables \<Rightarrow> nat \<Rightarrow> bool" where
  "answer_at ops s i = fst (nonce_step (ops ! i) (nonce_state ops s i))"

text \<open>
  What takes a key away from its holder: the invalidation of the event it was claimed for,
  or a run of the archival whose batch contains it.
\<close>

fun releases :: "nonce_op \<Rightarrow> nonce_tables \<Rightarrow> nonce_key \<Rightarrow> bool" where
  "releases (Invalidate _ e) (t, _) k = owned_by t e k"
| "releases (Archive cutoff batch) (t, _) k = (k \<in> nr_key ` set (take batch (filter (archivable cutoff) t)))"
| "releases _ _ _ = False"

definition released_within :: "nonce_op list \<Rightarrow> nonce_tables \<Rightarrow> nonce_key \<Rightarrow> nat \<Rightarrow> nat \<Rightarrow> bool" where
  "released_within ops s k i j \<longleftrightarrow> (\<exists>l. i \<le> l \<and> l < j \<and> releases (ops ! l) (nonce_state ops s l) k)"

definition granted_at :: "nonce_op list \<Rightarrow> nonce_tables \<Rightarrow> nonce_key \<Rightarrow> nat \<Rightarrow> bool" where
  "granted_at ops s k i \<longleftrightarrow> op_key (ops ! i) = Some k \<and> answer_at ops s i"

lemma nonce_step_claim:
  assumes "op_key op = Some k"
  shows "fst (nonce_step op s) \<longleftrightarrow> \<not> active (fst s) k"
    and "active (fst (snd (nonce_step op s))) k' \<longleftrightarrow> k' = k \<or> active (fst s) k'"
    and "\<not> releases op s k'"
proof -
  obtain t archive where s: "s = (t, archive)" by fastforce
  have "(fst (nonce_step op s) \<longleftrightarrow> \<not> active t k) \<and> (active (fst (snd (nonce_step op s))) k' \<longleftrightarrow> k' = k \<or> active t k')"
  proof (cases op)
    case (Claim time k0 e)
    with assms s show ?thesis
      using reorg.claim_result[of time k e archive t] reorg.claim_held[of time k e archive t k']
      by (simp add: case_prod_beta)
  next
    case (Correlate time k0 e src)
    with assms s show ?thesis
      using correlate.claim_result[of time k e src t] correlate.claim_held[of time k e src t k']
      by (simp add: case_prod_beta)
  qed (use assms in simp_all)
  then show "fst (nonce_step op s) \<longleftrightarrow> \<not> active (fst s) k"
    "active (fst (snd (nonce_step op s))) k' \<longleftrightarrow> k' = k \<or> active (fst s) k'" by (simp_all add: s)
  show "\<not> releases op s k'" using assms by (cases op; cases s) simp_all
qed

lemma lookup_filter: "lookup_nonce (filter (\<lambda>r. nr_key r \<notin> ks) t) k = (if k \<in> ks then None else lookup_nonce t k)"
  by (induction t) (auto simp: lookup_nonce_def)

lemma nonce_step_other:
  assumes "op_key op = None"
  shows "active (fst (snd (nonce_step op s))) k \<longleftrightarrow> active (fst s) k \<and> \<not> releases op s k"
proof -
  obtain t archive where s: "s = (t, archive)" by fastforce
  show ?thesis
  proof (cases op)
    case (Invalidate time e)
    with s show ?thesis using reorg.release_held[of time e t k] by (simp add: case_prod_beta)
  next
    case (Archive cutoff batch)
    with s show ?thesis by (auto simp: archive_old_nonces_def Let_def active_def lookup_filter)
  qed (use assms in simp_all)
qed

lemma released_within_Suc:
  "i \<le> j \<Longrightarrow> released_within ops s k i (Suc j) \<longleftrightarrow> released_within ops s k i j \<or> releases (ops ! j) (nonce_state ops s j) k"
  by (auto simp: released_within_def less_Suc_eq)

lemma released_within_none [simp]: "\<not> released_within ops s k j j"
  by (simp add: released_within_def)

text \<open>A key is held exactly by its last grant, or by whoever held it at the start, until it is released.\<close>

lemma active_iff:
  "active (fst (nonce_state ops s j)) k \<longleftrightarrow>
     (active (fst s) k \<and> \<not> released_within ops s k 0 j) \<or>
     (\<exists>i < j. granted_at ops s k i \<and> \<not> released_within ops s k (Suc i) j)"
proof (induction j)
  case (Suc j)
  let ?op = "ops ! j" and ?s = "nonce_state ops s j"
  note suc = released_within_Suc[of _ j ops s k]
  have split: "(\<exists>i < Suc j. granted_at ops s k i \<and> \<not> released_within ops s k (Suc i) (Suc j)) \<longleftrightarrow>
      granted_at ops s k j \<or> (\<exists>i < j. granted_at ops s k i \<and> \<not> released_within ops s k (Suc i) j \<and> \<not> releases ?op ?s k)"
    using suc by (auto simp: less_Suc_eq)
  show ?case
  proof (cases "op_key ?op")
    case None
    then have "\<not> granted_at ops s k j" by (simp add: granted_at_def)
    then show ?thesis using nonce_step_other[OF None, of ?s k] Suc split suc[of 0] by auto
  next
    case (Some k')
    have r: "\<not> releases ?op ?s k" using nonce_step_claim(3)[OF Some] .
    have "granted_at ops s k j \<longleftrightarrow> k = k' \<and> \<not> active (fst ?s) k"
      using nonce_step_claim(1)[OF Some, of ?s] Some by (auto simp: granted_at_def answer_at_def)
    then show ?thesis using nonce_step_claim(2)[OF Some, of ?s k] Suc split suc[of 0] r by auto
  qed
qed simp

text \<open>
  C7. First claim wins, exactly once. In every sequence of claims by either SQL function, from
  either source, invalidations by reorgs and runs of the archival, at any times and from any
  tables, a claim succeeds exactly when everything that held its key has been released: each
  earlier successful claim of the key, and whoever held it at the start, was followed by the invalidation
  of the event the key was then claimed for or by an archival that removed it. So between two
  successful claims of an authorization there is always a release of it, and after a release
  the next claim succeeds.
\<close>

theorem nonce_claimed_once:
  assumes "op_key (ops ! j) = Some k"
  shows "answer_at ops s j \<longleftrightarrow>
     (active (fst s) k \<longrightarrow> released_within ops s k 0 j) \<and>
     (\<forall>i < j. granted_at ops s k i \<longrightarrow> released_within ops s k (Suc i) j)"
  using nonce_step_claim(1)[OF assms, of "nonce_state ops s j"] active_iff[of ops s j k]
  by (auto simp: answer_at_def)

text \<open>The chain repeats a claim, a reorg invalidates the event, the claim is made once more.\<close>

definition sample_ops :: "nonce_op list" where
  "sample_ops = [Claim 1 (1, ''n'', ''a'') (Some ''ev''), Correlate 2 (1, ''n'', ''a'') None ''goldsky'',
     Invalidate 3 ''ev'', Correlate 4 (1, ''n'', ''a'') None ''goldsky'']"

lemma sample_states:
  "nonce_state sample_ops ([], []) 1 = ([new_nonce 1 (1, ''n'', ''a'') (Some ''ev'') ''goldsky''], [])"
  "nonce_state sample_ops ([], []) 2 = ([new_nonce 1 (1, ''n'', ''a'') (Some ''ev'') ''goldsky''], [])"
  by (simp_all add: sample_ops_def numeral_2_eq_2 record_nonce_with_reorg_def sql_record_nonce_or_correlate_def lookup_nonce_def)

theorem nonce_claimed_once_witness:
  "\<not> answer_at sample_ops ([], []) 1 \<and> answer_at sample_ops ([], []) 3"
proof -
  let ?k = "(1, ''n'', ''a'') :: nonce_key"
  have k: "op_key (sample_ops ! 1) = Some ?k" "op_key (sample_ops ! 3) = Some ?k" by (simp_all add: sample_ops_def)
  have g: "granted_at sample_ops ([], []) ?k 0"
    by (simp add: granted_at_def answer_at_def sample_ops_def record_nonce_with_reorg_def lookup_nonce_def)
  have "\<not> released_within sample_ops ([], []) ?k (Suc 0) 1" by (simp add: released_within_def)
  with g have a1: "\<not> answer_at sample_ops ([], []) 1" unfolding nonce_claimed_once[OF k(1)] by auto
  have "releases (sample_ops ! 2) (nonce_state sample_ops ([], []) 2) ?k"
    unfolding sample_states by (simp add: sample_ops_def owned_by_def lookup_nonce_def)
  then have r: "released_within sample_ops ([], []) ?k i 3" if "i \<le> 2" for i
    using that by (auto simp: released_within_def)
  have g2: "\<not> granted_at sample_ops ([], []) ?k 2" by (simp add: granted_at_def sample_ops_def)
  have "released_within sample_ops ([], []) ?k (Suc i) 3" if "i < 3" "granted_at sample_ops ([], []) ?k i" for i
  proof -
    have "i \<noteq> 2" using that(2) g2 by blast
    then show ?thesis using that(1) by (intro r) linarith
  qed
  then have "answer_at sample_ops ([], []) 3"
    unfolding nonce_claimed_once[OF k(2)] by (simp add: active_def lookup_nonce_def)
  with a1 show ?thesis by simp
qed

section \<open>Properties of the repository\<close>

lemma run_record_nonce_or_correlate:
  assumes "en_db_fault env (w_tick w) = None"
  shows "run (record_nonce_or_correlate env c n a e src) w =
    (let (row, t) = sql_record_nonce_or_correlate (en_now env (Suc (w_tick w))) (mk_key c n a) e src (w_nonces w)
     in (Inr row, w\<lparr>w_tick := Suc (Suc (w_tick w)), w_nonces := t\<rparr>))"
  using assms by (simp add: record_nonce_or_correlate_def mk_key_def case_prod_beta Let_def)

text \<open>
  Facilitator and chain correlate: after the facilitator has claimed an
  authorization for an event, the claim the chain makes for it, in whatever
  letter case it reports the authorizer, is answered with that event and source
  (so the event can be promoted instead of dropped) and changes no row.
\<close>

theorem facilitator_claim_correlates:
  assumes claimed: "run (record_nonce_or_correlate env c n a (Some e) ''facilitator'') w = (Inr (True, x, y), w1)"
    and up: "en_db_fault env (w_tick w1) = None"
    and same: "py_lower a' = py_lower a"
  shows "\<exists>w2. run (record_nonce_or_correlate env c n a' e' ''goldsky'') w1 =
       (Inr (False, Some e, Some ''facilitator''), w2) \<and> w_nonces w2 = w_nonces w1"
proof -
  have ok: "en_db_fault env (w_tick w) = None"
    using claimed by (auto simp: record_nonce_or_correlate_def split: option.splits)
  let ?k = "mk_key c n a"
  have k: "mk_key c n a' = ?k" using same by (simp add: mk_key_def)
  have "\<exists>r. lookup_nonce (w_nonces w1) ?k = Some r \<and> nr_reorged_at r = None \<and>
      nr_event_id r = Some e \<and> nr_source r = ''facilitator''"
    using claimed unfolding run_record_nonce_or_correlate[OF ok]
    by (auto simp: nonce_eval Let_def dest: lookup_key split: option.splits if_splits)
  then show ?thesis
    unfolding run_record_nonce_or_correlate[OF up] k
    by (auto simp: sql_record_nonce_or_correlate_def)
qed

theorem facilitator_claim_correlates_witness:
  "\<exists>w1 w2. run (record_nonce_or_correlate calm_env 8453 ''n'' ''0xA'' (Some ''ev'') ''facilitator'') empty_world = (Inr (True, None, None), w1) \<and>
     run (record_nonce_or_correlate calm_env 8453 ''n'' ''0xa'' None ''goldsky'') w1 = (Inr (False, Some ''ev'', Some ''facilitator''), w2)"
proof -
  have up: "en_db_fault calm_env n = None" for n by (simp add: calm_env_def)
  obtain w1 where w1: "run (record_nonce_or_correlate calm_env 8453 ''n'' ''0xA'' (Some ''ev'') ''facilitator'') empty_world =
      (Inr (True, None, None), w1)"
    unfolding run_record_nonce_or_correlate[OF up]
    by (auto simp: sql_record_nonce_or_correlate_def lookup_nonce_def empty_world_def Let_def)
  have "py_lower ''0xa'' = py_lower ''0xA''" by code_simp
  from facilitator_claim_correlates[OF w1 up this] w1 show ?thesis by blast
qed

text \<open>
  A claim recorded without an event cannot be freed by a reorg: the
  invalidation looks rows up by their event, so whatever event is invalidated
  the key stays active and the re-broadcast authorization is a duplicate. The
  chain paths of both handlers claim in this way.
\<close>

theorem anonymous_claim_survives_reorg:
  assumes "\<not> active t k"
  shows "active (snd (invalidate_rows time' e (snd (sql_record_nonce_or_correlate time k None src t)))) k \<and>
    \<not> fst (fst (sql_record_nonce_or_correlate time'' k e'' src'' (snd (invalidate_rows time' e
        (snd (sql_record_nonce_or_correlate time k None src t))))))"
proof -
  let ?t = "snd (sql_record_nonce_or_correlate time k None src t)"
  have "active ?t k" using correlate.claim_held[of time k None src t k] by simp
  moreover have "\<not> owned_by ?t e k"
    using assms by (auto simp: nonce_eval dest: lookup_key split: option.splits)
  ultimately have "active (snd (invalidate_rows time' e ?t)) k"
    using reorg.release_held[of time' e ?t k] by simp
  then show ?thesis using correlate.claim_result[of time'' k e'' src''] by simp
qed

theorem anonymous_claim_survives_reorg_witness:
  "active (snd (invalidate_rows 5 ''ev'' (snd (sql_record_nonce_or_correlate 1 (1, ''n'', ''a'') None ''goldsky'' [])))) (1, ''n'', ''a'')"
  using anonymous_claim_survives_reorg[of "[]" "(1, ''n'', ''a'')" 5 "''ev''" 1 "''goldsky''" 6 None "''goldsky''"]
  by (simp add: active_def lookup_nonce_def)

text \<open>
  Archiving forgets: an active nonce that is archived leaves the live table,
  so claiming it again succeeds although it is in the archive that
  \<open>record_nonce_with_reorg\<close> consults last.
\<close>

theorem archived_nonce_claimable:
  assumes inv: "distinct (map nr_key t)" and r: "r \<in> set t" "archivable cutoff r"
    and batch: "length t \<le> batch_size"
  shows "case archive_old_nonces cutoff batch_size (t, archive) of (n, t', archive') \<Rightarrow>
     lookup_nonce archive' (nr_key r) \<noteq> None \<and>
     fst (record_nonce_with_reorg time (nr_key r) e archive' t')"
proof -
  let ?arch = "filter (archivable cutoff) t"
  have all: "take batch_size ?arch = ?arch" using batch by (meson length_filter_le order_trans take_all)
  have key: "nr_key r \<in> nr_key ` set ?arch" using r by auto
  then have "lookup_nonce (filter (\<lambda>r. nr_key r \<notin> nr_key ` set ?arch) t) (nr_key r) = None"
    by (simp only: lookup_None set_filter) force
  moreover have "lookup_nonce (archive @ filter (\<lambda>r. lookup_nonce archive (nr_key r) = None) ?arch) (nr_key r) \<noteq> None"
    using r by (cases "nr_key r \<in> nr_key ` set archive") (auto simp: lookup_None)
  ultimately show ?thesis
    by (simp add: archive_old_nonces_def Let_def all record_nonce_with_reorg_def)
qed

theorem archived_nonce_claimable_witness:
  "fst (record_nonce_with_reorg 200 (1, ''n'', ''a'') None
     (snd (snd (archive_old_nonces 100 5000 ([new_nonce 1 (1, ''n'', ''a'') None ''goldsky''], []))))
     (fst (snd (archive_old_nonces 100 5000 ([new_nonce 1 (1, ''n'', ''a'') None ''goldsky''], [])))))"
  using archived_nonce_claimable[where t = "[new_nonce 1 (1, ''n'', ''a'') None ''goldsky'']"
      and r = "new_nonce 1 (1, ''n'', ''a'') None ''goldsky''" and cutoff = 100 and batch_size = 5000
      and archive = "[]" and time = 200 and e = None]
  by (simp add: archivable_def case_prod_beta)

section \<open>Integrity\<close>

lemma map_key_update: "(\<And>r. nr_key (f r) = nr_key r) \<Longrightarrow> map nr_key (update_nonce k f t) = map nr_key t"
  by (simp add: update_nonce_def)

lemma record_nonce_with_reorg_keys:
  "distinct (map nr_key t) \<Longrightarrow> distinct (map nr_key (snd (record_nonce_with_reorg time k e a t)))"
  by (auto simp: record_nonce_with_reorg_def map_key_update lookup_None split: option.splits)

lemma correlate_keys:
  "distinct (map nr_key t) \<Longrightarrow> distinct (map nr_key (snd (sql_record_nonce_or_correlate time k e src t)))"
  by (auto simp: sql_record_nonce_or_correlate_def map_key_update lookup_None split: option.splits)

lemma invalidate_keys: "map nr_key (snd (invalidate_rows time e t)) = map nr_key t"
  by (simp add: invalidate_rows_def Let_def)

lemma db_inv_nonces:
  "db_inv w \<Longrightarrow> distinct (map nr_key t) \<Longrightarrow> db_inv (w\<lparr>w_nonces := t\<rparr>)"
  by (simp add: db_inv_def event_ids_def endpoint_ids_def)

lemma db_inv_tick: "db_inv w \<Longrightarrow> db_inv (w\<lparr>w_tick := n\<rparr>)"
  using db_inv_tick_stable by (simp add: tick_stable_def)

lemma db_inv_nonces_distinct: "db_inv w \<Longrightarrow> distinct (map nr_key (w_nonces w))"
  by (simp add: db_inv_def)

lemma keeps_record_nonce_or_correlate [keeps_intros]:
  "keeps db_inv (record_nonce_or_correlate env c n a e src)"
proof (rule keepsI)
  fix w assume w: "db_inv w"
  show "db_inv (snd (run (record_nonce_or_correlate env c n a e src) w))"
    using w
    by (auto simp: record_nonce_or_correlate_def case_prod_beta intro!: db_inv_nonces db_inv_tick
        correlate_keys db_inv_nonces_distinct split: option.splits)
qed

lemma keeps_record_nonce [keeps_intros]: "keeps db_inv (record_nonce env c n a e)"
proof (rule keepsI)
  fix w assume w: "db_inv w"
  show "db_inv (snd (run (record_nonce env c n a e) w))"
    using w
    by (auto simp: record_nonce_def case_prod_beta intro!: db_inv_nonces db_inv_tick
        record_nonce_with_reorg_keys db_inv_nonces_distinct split: option.splits)
qed

lemma keeps_invalidate_by_event_id [keeps_intros]: "keeps db_inv (invalidate_by_event_id env e)"
proof (rule keepsI)
  fix w assume w: "db_inv w"
  show "db_inv (snd (run (invalidate_by_event_id env e) w))"
    using w db_inv_nonces_distinct[OF w]
    by (auto simp: invalidate_by_event_id_def case_prod_beta invalidate_keys intro!: db_inv_nonces db_inv_tick
        split: option.splits)
qed

end
