(* ===== verification/Repositories.thy ===== *)
theory Repositories
  imports Nonces
begin

text \<open>
  The repositories over \<open>events\<close>, \<open>event_endpoints\<close>, \<open>webhook_deliveries\<close>, \<open>endpoints\<close>
  and \<open>subscriptions\<close> (\<open>db/repositories/\<close>), and the queries of \<open>db/postgres.py\<close> that
  the background tasks run on the connection that holds the advisory lock.
  Each operation is one round trip that may raise; inserts check the keys of
  the schema. All of them keep the integrity invariant \<open>db_inv\<close>.
\<close>

section \<open>Events\<close>

definition event_insertable :: "EventRow \<Rightarrow> world \<Rightarrow> bool" where
  "event_insertable row w \<longleftrightarrow> er_id row \<notin> set (event_ids w) \<and> er_chain_id row \<noteq> None \<and>
     (case er_endpoint_id row of Some e \<Rightarrow> e \<in> set (endpoint_ids w) | None \<Rightarrow> True)"

lemma event_insertable_iff:
  "event_insertable row w \<longleftrightarrow> er_id row \<notin> set (event_ids w) \<and> er_chain_id row \<noteq> None \<and>
     (\<forall>e. er_endpoint_id row = Some e \<longrightarrow> e \<in> set (endpoint_ids w))"
  by (auto simp: event_insertable_def split: option.splits)

definition events_insert :: "env \<Rightarrow> EventRow \<Rightarrow> unit io" where
  "events_insert env row =
     insert_checked env (event_insertable row) (\<lambda>w. w\<lparr>w_events := w_events w @ [row]\<rparr>)"

text \<open>
  \<open>insert_generic_event\<close>: the optional keys of the dict are the option arguments;
  absent ones get their defaults.
\<close>

definition insert_generic_event ::
  "env \<Rightarrow> EventRow \<Rightarrow> string option \<Rightarrow> string option \<Rightarrow> string option \<Rightarrow> pydict option \<Rightarrow> string io" where
  "insert_generic_event env row event_id product_source src decoded_fields =
     ebind (case event_id of Some i \<Rightarrow> eret i | None \<Rightarrow> uuid4 env) (\<lambda>i.
     ebind (events_insert env (row\<lparr>er_id := i,
         er_product_source := (case product_source of Some p \<Rightarrow> p | None \<Rightarrow> ''pulse''),
         er_source := (case src of Some s \<Rightarrow> s | None \<Rightarrow> ''onchain''),
         er_decoded_fields := (case decoded_fields of Some d \<Rightarrow> d | None \<Rightarrow> [])\<rparr>)) (\<lambda>_.
       eret i))"

definition find_event :: "string \<Rightarrow> world \<Rightarrow> EventRow option" where
  "find_event event_id w = find (\<lambda>r. er_id r = event_id) (w_events w)"

definition events_get_by_id :: "env \<Rightarrow> string \<Rightarrow> EventRow option io" where
  "events_get_by_id env event_id = query env (find_event event_id)"

definition newest_first :: "EventRow list \<Rightarrow> EventRow list" where
  "newest_first rows = sort_key (\<lambda>r. - er_created_at r) rows"

text \<open>Keyset pagination: rows older than the cursor's row, newest first, at most \<open>limit\<close>.\<close>

definition page :: "(EventRow \<Rightarrow> bool) \<Rightarrow> int option \<Rightarrow> nat \<Rightarrow> EventRow list \<Rightarrow> EventRow list" where
  "page P before limit rows =
     take limit (newest_first (filter (\<lambda>r. P r \<and> (\<forall>t. before = Some t \<longrightarrow> er_created_at r < t)) rows))"

definition list_events :: "env \<Rightarrow> (EventRow \<Rightarrow> bool) \<Rightarrow> string option \<Rightarrow> nat \<Rightarrow> EventRow list io" where
  "list_events env P cursor limit =
     ebind (case cursor of
              Some c \<Rightarrow> (if c = [] then eret None
                else query env (\<lambda>w. map_option er_created_at (find_event c w)))
            | None \<Rightarrow> eret None) (\<lambda>before.
       query env (\<lambda>w. page P before limit (w_events w)))"

definition list_by_event_type ::
  "env \<Rightarrow> string \<Rightarrow> string option \<Rightarrow> nat \<Rightarrow> string option \<Rightarrow> EventRow list io" where
  "list_by_event_type env event_type cursor limit product_source =
     list_events env (\<lambda>r. er_event_type r = event_type \<and>
       (\<forall>p. product_source = Some p \<longrightarrow> p \<noteq> [] \<longrightarrow> er_product_source r = p)) cursor limit"

definition list_by_trigger_id ::
  "env \<Rightarrow> string \<Rightarrow> string option \<Rightarrow> nat \<Rightarrow> string option \<Rightarrow> EventRow list io" where
  "list_by_trigger_id env trigger_id cursor limit status =
     list_events env (\<lambda>r. er_trigger_id r = Some trigger_id \<and>
       (\<forall>s. status = Some s \<longrightarrow> s \<noteq> [] \<longrightarrow> er_status r = s)) cursor limit"

definition list_by_product_source :: "env \<Rightarrow> string \<Rightarrow> string option \<Rightarrow> nat \<Rightarrow> EventRow list io" where
  "list_by_product_source env product_source cursor limit =
     list_events env (\<lambda>r. er_product_source r = product_source) cursor limit"

definition modify_event :: "string \<Rightarrow> (EventRow \<Rightarrow> EventRow) \<Rightarrow> world \<Rightarrow> world" where
  "modify_event event_id f w =
     w\<lparr>w_events := map (\<lambda>r. if er_id r = event_id then f r else r) (w_events w)\<rparr>"

text \<open>\<open>table.update(...).eq("id", ...)\<close>: the updated row, or \<open>None\<close> when there is none.\<close>

definition update_event :: "env \<Rightarrow> string \<Rightarrow> (EventRow \<Rightarrow> EventRow) \<Rightarrow> EventRow option io" where
  "update_event env event_id f =
     ebind (db_call env) (\<lambda>_. ebind (emodify (modify_event event_id f)) (\<lambda>_. egets (find_event event_id)))"

definition events_update_status ::
  "env \<Rightarrow> string \<Rightarrow> string \<Rightarrow> int option \<Rightarrow> EventRow option io" where
  "events_update_status env event_id status confirmed_at =
     ebind (case confirmed_at of
              Some t \<Rightarrow> eret (Some t)
            | None \<Rightarrow> (if status = ''confirmed'' then ebind (now env) (\<lambda>t. eret (Some t)) else eret None)) (\<lambda>stamp.
       update_event env event_id (\<lambda>r. case stamp of
           Some t \<Rightarrow> r\<lparr>er_status := status, er_confirmed_at := Some t\<rparr>
         | None \<Rightarrow> r\<lparr>er_status := status\<rparr>))"

definition events_update_finality :: "env \<Rightarrow> string \<Rightarrow> int \<Rightarrow> EventRow option io" where
  "events_update_finality env event_id depth =
     update_event env event_id (\<lambda>r. r\<lparr>er_finality_depth := depth\<rparr>)"

definition promote_to_confirmed ::
  "env \<Rightarrow> string \<Rightarrow> string \<Rightarrow> int \<Rightarrow> string \<Rightarrow> int \<Rightarrow> EventRow option io" where
  "promote_to_confirmed env event_id tx_hash block_number block_hash log_index =
     ebind (now env) (\<lambda>t.
       update_event env event_id (\<lambda>r. r\<lparr>er_tx_hash := tx_hash, er_block_number := block_number,
         er_block_hash := block_hash, er_log_index := log_index, er_status := ''confirmed'',
         er_confirmed_at := Some t\<rparr>))"

section \<open>The join table\<close>

fun insert_new :: "'a list \<Rightarrow> 'a list \<Rightarrow> 'a list" where
  "insert_new t [] = t"
| "insert_new t (x # xs) = insert_new (if x \<in> set t then t else t @ [x]) xs"

definition link_endpoints :: "env \<Rightarrow> string \<Rightarrow> string list \<Rightarrow> unit io" where
  "link_endpoints env event_id ids =
     (if ids = [] then eret ()
      else ecatch (insert_checked env
             (\<lambda>w. event_id \<in> set (event_ids w) \<and> set ids \<subseteq> set (endpoint_ids w))
             (\<lambda>w. w\<lparr>w_event_endpoints := insert_new (w_event_endpoints w) (map (Pair event_id) ids)\<rparr>))
           (\<lambda>_. eret ()))"

definition linked :: "string \<Rightarrow> world \<Rightarrow> string list" where
  "linked event_id w = map snd (filter (\<lambda>p. fst p = event_id) (w_event_endpoints w))"

definition get_endpoint_ids :: "env \<Rightarrow> string \<Rightarrow> string list io" where
  "get_endpoint_ids env event_id = query env (linked event_id)"

section \<open>Deliveries\<close>

definition delivery_create ::
  "env \<Rightarrow> string \<Rightarrow> string \<Rightarrow> string option \<Rightarrow> string \<Rightarrow> DeliveryRow io" where
  "delivery_create env endpoint_id event_id provider_message_id status =
     ebind (uuid4 env) (\<lambda>i. ebind (now env) (\<lambda>t.
       let row = \<lparr>dl_id = i, dl_endpoint_id = endpoint_id, dl_event_id = event_id,
          dl_provider_message_id = provider_message_id, dl_status = status, dl_created_at = t,
          dl_dlq_retry_count = 0\<rparr> in
       ebind (insert_checked env
          (\<lambda>w. event_id \<in> set (event_ids w) \<and> endpoint_id \<in> set (endpoint_ids w) \<and>
               i \<notin> set (map dl_id (w_deliveries w)))
          (\<lambda>w. w\<lparr>w_deliveries := w_deliveries w @ [row]\<rparr>)) (\<lambda>_. eret row)))"

definition find_delivery :: "string \<Rightarrow> world \<Rightarrow> DeliveryRow option" where
  "find_delivery i w = find (\<lambda>d. dl_id d = i) (w_deliveries w)"

definition modify_delivery :: "string \<Rightarrow> (DeliveryRow \<Rightarrow> DeliveryRow) \<Rightarrow> world \<Rightarrow> world" where
  "modify_delivery i f w = w\<lparr>w_deliveries := map (\<lambda>d. if dl_id d = i then f d else d) (w_deliveries w)\<rparr>"

definition delivery_update_status :: "env \<Rightarrow> string \<Rightarrow> string \<Rightarrow> DeliveryRow option io" where
  "delivery_update_status env i status =
     ebind (db_call env) (\<lambda>_. ebind (emodify (modify_delivery i (\<lambda>d. d\<lparr>dl_status := status\<rparr>))) (\<lambda>_.
       egets (find_delivery i)))"

definition delivery_get_by_id :: "env \<Rightarrow> string \<Rightarrow> DeliveryRow option io" where
  "delivery_get_by_id env i = query env (find_delivery i)"

definition get_by_provider_message_id :: "env \<Rightarrow> string \<Rightarrow> DeliveryRow option io" where
  "get_by_provider_message_id env m =
     query env (\<lambda>w. find (\<lambda>d. dl_provider_message_id d = Some m) (w_deliveries w))"

definition increment_dlq_retry :: "env \<Rightarrow> string \<Rightarrow> int io" where
  "increment_dlq_retry env i = ebind (delivery_get_by_id env i) (\<lambda>cur. case cur of
      None \<Rightarrow> eret 0
    | Some d \<Rightarrow> (let n = dl_dlq_retry_count d + 1 in
        ebind (db_call env) (\<lambda>_.
        ebind (emodify (modify_delivery i (\<lambda>d. d\<lparr>dl_dlq_retry_count := n\<rparr>))) (\<lambda>_. eret n))))"

definition get_dlq_retry_count :: "env \<Rightarrow> string \<Rightarrow> int io" where
  "get_dlq_retry_count env i = ebind (delivery_get_by_id env i) (\<lambda>cur.
     eret (case cur of None \<Rightarrow> 0 | Some d \<Rightarrow> dl_dlq_retry_count d))"

section \<open>Endpoints and subscriptions\<close>

definition endpoint_get_by_id :: "env \<Rightarrow> string \<Rightarrow> Endpoint option io" where
  "endpoint_get_by_id env i = query_valid env (\<lambda>w. filter (\<lambda>r. iv_id r = i) (w_invalid_endpoints w))
     (\<lambda>w. find (\<lambda>e. ep_id e = i) (w_endpoints w))"

definition endpoints_list_active :: "env \<Rightarrow> Endpoint list io" where
  "endpoints_list_active env = query_valid env (\<lambda>w. filter iv_active (w_invalid_endpoints w)) (\<lambda>w. filter ep_active (w_endpoints w))"

definition list_by_recipient :: "env \<Rightarrow> string \<Rightarrow> Endpoint list io" where
  "list_by_recipient env recipient =
     query_valid env (\<lambda>w. filter (\<lambda>r. iv_key r = py_lower recipient \<and> iv_active r) (w_invalid_endpoints w))
       (\<lambda>w. filter (\<lambda>e. ep_recipient e = py_lower recipient \<and> ep_active e) (w_endpoints w))"

text \<open>\<open>EventProcessor._fetch_subscriptions\<close>: any failure reads as "no subscriptions".\<close>

definition fetch_subscriptions :: "env \<Rightarrow> string \<Rightarrow> Subscription list io" where
  "fetch_subscriptions env endpoint_id =
     ecatch (query env (\<lambda>w. filter (\<lambda>s. sub_endpoint_id s = endpoint_id \<and> sub_active s) (w_subscriptions w)))
       (\<lambda>_. eret [])"

section \<open>Queries of the background tasks\<close>

definition fetch_pending_events :: "env \<Rightarrow> int \<Rightarrow> EventRow list io" where
  "fetch_pending_events env chain_id =
     query env (\<lambda>w. take 100 (sort_key er_block_number
       (filter (\<lambda>r. er_status r \<in> {''pending'', ''confirmed''} \<and> 0 < er_block_number r \<and>
          er_chain_id r = Some chain_id) (w_events w))))"

text \<open>
  A timestamp handed to \<open>asyncpg\<close> for a \<open>TIMESTAMPTZ\<close> parameter: the driver encodes a \<open>datetime\<close> and raises
  \<open>DataError\<close> on text, after the round trip that prepares the statement.
\<close>

datatype timestamp_param = As_datetime int | As_text int

definition fetch_stale_preconfirmed :: "env \<Rightarrow> timestamp_param \<Rightarrow> EventRow list io" where
  "fetch_stale_preconfirmed env cutoff = ebind (db_call env) (\<lambda>_. case cutoff of
       As_text _ \<Rightarrow> eraise (ExternalError ''DataError'')
     | As_datetime c \<Rightarrow> egets (\<lambda>w. take 100 (sort_key er_created_at
         (filter (\<lambda>r. er_status r = ''pre_confirmed'' \<and> er_created_at r < c) (w_events w)))))"

text \<open>
  The query of the sweeper over Supabase, where the same text is a JSON value that the server
  casts. The \<open>LIMIT\<close> has no \<open>ORDER BY\<close>; the model takes the rows in table order.
\<close>

definition select_stale :: "env \<Rightarrow> int \<Rightarrow> EventRow list io" where
  "select_stale env cutoff =
     query env (\<lambda>w. take 100 (filter (\<lambda>r. er_status r = ''pre_confirmed'' \<and> er_created_at r < cutoff) (w_events w)))"

section \<open>Integrity\<close>

lemma event_ids_modify [simp]:
  assumes "\<And>r. er_id (f r) = er_id r"
  shows "event_ids (modify_event i f w) = event_ids w"
  by (simp add: event_ids_def modify_event_def assms)

lemma endpoint_ids_simps [simp]:
  "endpoint_ids (modify_event i f w) = endpoint_ids w"
  "endpoint_ids (w\<lparr>w_tick := n\<rparr>) = endpoint_ids w"
  by (simp_all add: endpoint_ids_def modify_event_def)

lemma db_inv_modify_event:
  assumes "db_inv w" and "\<And>r. er_id (f r) = er_id r \<and> er_chain_id (f r) = er_chain_id r \<and>
     er_endpoint_id (f r) = er_endpoint_id r"
  shows "db_inv (modify_event i f w)"
proof -
  have "event_ids (modify_event i f w) = event_ids w" using assms(2) by simp
  with assms show ?thesis by (auto simp: db_inv_def modify_event_def endpoint_ids_def)
qed

lemma keeps_update_event:
  assumes "\<And>r. er_id (f r) = er_id r \<and> er_chain_id (f r) = er_chain_id r \<and> er_endpoint_id (f r) = er_endpoint_id r"
  shows "keeps db_inv (update_event env i f)"
  unfolding update_event_def
  by (intro keeps_intros db_inv_tick_stable db_inv_modify_event assms)

lemma keeps_events_update_status [keeps_intros]: "keeps db_inv (events_update_status env i s c)"
  unfolding events_update_status_def
  by (intro keeps_intros keeps_update_event db_inv_tick_stable) (simp_all split: option.splits)

lemma keeps_events_update_finality [keeps_intros]: "keeps db_inv (events_update_finality env i d)"
  unfolding events_update_finality_def by (intro keeps_update_event) simp

lemma keeps_promote_to_confirmed [keeps_intros]: "keeps db_inv (promote_to_confirmed env i h b bh l)"
  unfolding promote_to_confirmed_def
  by (intro keeps_intros keeps_update_event db_inv_tick_stable) simp

lemma keeps_events_insert [keeps_intros]: "keeps db_inv (events_insert env row)"
  unfolding events_insert_def
  by (rule keeps_insert_checked)
     (auto simp: db_inv_def event_insertable_iff event_ids_def endpoint_ids_def)

lemma keeps_insert_generic_event [keeps_intros]: "keeps db_inv (insert_generic_event env row i p s d)"
  unfolding insert_generic_event_def by (intro keeps_intros db_inv_tick_stable)

lemma insert_new_facts:
  "distinct t \<Longrightarrow> distinct (insert_new t xs)" "set (insert_new t xs) = set t \<union> set xs"
  by (induction t xs rule: insert_new.induct) auto

lemma keeps_link_endpoints [keeps_intros]: "keeps db_inv (link_endpoints env i ids)"
  unfolding link_endpoints_def
proof (intro keeps_intros keeps_insert_checked db_inv_tick_stable)
  fix w assume "db_inv w" "i \<in> set (event_ids w) \<and> set ids \<subseteq> set (endpoint_ids w)"
  then show "db_inv (w\<lparr>w_event_endpoints := insert_new (w_event_endpoints w) (map (Pair i) ids)\<rparr>)"
    by (auto simp: db_inv_def event_ids_def endpoint_ids_def insert_new_facts)
qed

lemma keeps_delivery_create [keeps_intros]: "keeps db_inv (delivery_create env ep ev m s)"
  unfolding delivery_create_def
  by (intro keeps_intros keeps_insert_checked db_inv_tick_stable)
     (auto simp: db_inv_def event_ids_def endpoint_ids_def)

lemma db_inv_modify_delivery:
  "db_inv w \<Longrightarrow> (\<And>d. dl_event_id (f d) = dl_event_id d \<and> dl_endpoint_id (f d) = dl_endpoint_id d) \<Longrightarrow>
   db_inv (modify_delivery i f w)"
  by (auto simp: db_inv_def modify_delivery_def event_ids_def endpoint_ids_def)

lemma keeps_delivery_update_status [keeps_intros]: "keeps db_inv (delivery_update_status env i s)"
  unfolding delivery_update_status_def
  by (intro keeps_intros db_inv_tick_stable db_inv_modify_delivery) simp_all

lemma keeps_increment_dlq_retry [keeps_intros]: "keeps db_inv (increment_dlq_retry env i)"
  unfolding increment_dlq_retry_def delivery_get_by_id_def
  by (intro keeps_intros db_inv_tick_stable db_inv_modify_delivery) simp_all

lemma keeps_fetch_stale [keeps_intros]: "tick_stable I \<Longrightarrow> keeps I (fetch_stale_preconfirmed env c)"
  unfolding fetch_stale_preconfirmed_def by (cases c) (auto intro!: keeps_intros)

lemma keeps_reads [keeps_intros]:
  "tick_stable I \<Longrightarrow> keeps I (get_endpoint_ids env i)"
  "tick_stable I \<Longrightarrow> keeps I (endpoint_get_by_id env i)"
  "tick_stable I \<Longrightarrow> keeps I (list_by_recipient env a)"
  "tick_stable I \<Longrightarrow> keeps I (fetch_subscriptions env i)"
  "tick_stable I \<Longrightarrow> keeps I (fetch_pending_events env c)"
  "tick_stable I \<Longrightarrow> keeps I (select_stale env c)"
  "tick_stable I \<Longrightarrow> keeps I (events_get_by_id env i)"
  "tick_stable I \<Longrightarrow> keeps I (get_by_provider_message_id env i)"
  "tick_stable I \<Longrightarrow> keeps I (delivery_get_by_id env i)"
  "tick_stable I \<Longrightarrow> keeps I (get_dlq_retry_count env i)"
  unfolding get_endpoint_ids_def endpoint_get_by_id_def list_by_recipient_def fetch_subscriptions_def
    fetch_pending_events_def select_stale_def events_get_by_id_def
    get_by_provider_message_id_def delivery_get_by_id_def get_dlq_retry_count_def
  by (intro keeps_intros; assumption)+

section \<open>Properties\<close>

lemma set_newest_first [simp]: "set (newest_first rows) = set rows"
  by (simp add: newest_first_def)

lemma newest_first_sorted: "sorted_wrt (\<lambda>r s. er_created_at s \<le> er_created_at r) (newest_first rows)"
proof -
  have "sorted (map (\<lambda>r. - er_created_at r) (newest_first rows))"
    by (simp add: newest_first_def)
  then show ?thesis by (simp add: sorted_map)
qed

lemma sorted_wrt_take_rest:
  assumes "sorted_wrt Q m" and "r \<in> set m"
  shows "r \<in> set (take n m) \<or> (n < length m \<and> (\<forall>s \<in> set (take n m). Q s r))"
proof (cases "r \<in> set (take n m)")
  case False
  have m: "take n m @ drop n m = m" by simp
  with assms(2) False have r: "r \<in> set (drop n m)" by (metis Un_iff set_append)
  then have "n < length m" by (metis drop_all empty_iff leI list.set(1))
  moreover have "\<forall>s \<in> set (take n m). Q s r"
    using assms(1) r sorted_wrt_append[of Q "take n m" "drop n m"] by simp
  ultimately show ?thesis by simp
qed simp

text \<open>
  Keyset pagination serves pages of at most \<open>limit\<close> rows, newest first, all
  strictly older than the cursor, and drops no row between the pages: when
  creation times are distinct, a matching row older than the cursor is on the
  page or older than everything on a full page.
\<close>

theorem page_complete:
  "let p = page P before limit rows in
     length p \<le> limit \<and>
     sorted_wrt (\<lambda>r s. er_created_at s \<le> er_created_at r) p \<and>
     (\<forall>r \<in> set p. r \<in> set rows \<and> P r \<and> (\<forall>t. before = Some t \<longrightarrow> er_created_at r < t)) \<and>
     (\<forall>r \<in> set rows. P r \<longrightarrow> (\<forall>t. before = Some t \<longrightarrow> er_created_at r < t) \<longrightarrow>
        r \<in> set p \<or> (length p = limit \<and> (\<forall>s \<in> set p. er_created_at r \<le> er_created_at s)))"
proof -
  define m where "m = newest_first (filter (\<lambda>r. P r \<and> (\<forall>t. before = Some t \<longrightarrow> er_created_at r < t)) rows)"
  have srt: "sorted_wrt (\<lambda>r s. er_created_at s \<le> er_created_at r) m"
    unfolding m_def by (rule newest_first_sorted)
  have set_m: "set m = {r \<in> set rows. P r \<and> (\<forall>t. before = Some t \<longrightarrow> er_created_at r < t)}"
    unfolding m_def by auto
  have rest: "r \<in> set (take limit m) \<or> (length (take limit m) = limit \<and>
      (\<forall>s \<in> set (take limit m). er_created_at r \<le> er_created_at s))" if "r \<in> set m" for r
    using sorted_wrt_take_rest[OF srt that, of limit] by auto
  have p: "page P before limit rows = take limit m" by (simp add: page_def m_def)
  have "\<forall>r \<in> set (take limit m). r \<in> set rows \<and> P r \<and> (\<forall>t. before = Some t \<longrightarrow> er_created_at r < t)"
    using set_m by (auto dest: in_set_takeD)
  moreover have "\<forall>r \<in> set rows. P r \<longrightarrow> (\<forall>t. before = Some t \<longrightarrow> er_created_at r < t) \<longrightarrow>
      r \<in> set (take limit m) \<or> (length (take limit m) = limit \<and> (\<forall>s \<in> set (take limit m). er_created_at r \<le> er_created_at s))"
    using rest set_m by blast
  ultimately show ?thesis
    unfolding p Let_def using sorted_wrt_take[OF srt] by simp
qed

theorem page_complete_witness: "length (page (\<lambda>_. True) None 0 []) \<le> 0"
  using page_complete[of "\<lambda>_. True" None 0 "[]"] by (simp add: Let_def)

text \<open>
  Promotion has no status guard: whatever the status of the row (pending
  expiry, expired or already finalized), promoting it succeeds, overwrites its
  chain position and sets it back to \<open>confirmed\<close>.
\<close>

theorem promote_ignores_status:
  assumes "find_event i w = Some r" and "en_db_fault env (Suc (w_tick w)) = None"
  shows "\<exists>r' w'. run (promote_to_confirmed env i h b bh l) w = (Inr (Some r'), w') \<and>
     find_event i w' = Some r' \<and> er_status r' = ''confirmed'' \<and> er_block_number r' = b"
proof -
  have "find (\<lambda>r. er_id r = i) (map (\<lambda>r. if er_id r = i then f r else r) rows) =
      map_option f (find (\<lambda>r. er_id r = i) rows)" if "\<And>r. er_id (f r) = er_id r" for f and rows :: "EventRow list"
    using that by (induction rows) auto
  with assms show ?thesis
    by (simp add: promote_to_confirmed_def update_event_def find_event_def modify_event_def)
qed

definition blank_event :: EventRow where
  "blank_event = \<lparr>er_id = ''ev'', er_type = ''payment.finalized'', er_chain_id = Some 8453, er_tx_hash = ''0xfeed'',
     er_block_number = 90, er_block_hash = ''0xb10c'', er_log_index = 2,
     er_from_address = ''0x1111111111111111111111111111111111111111'',
     er_to_address = ''0x2222222222222222222222222222222222222222'',
     er_amount = Some ''1000000'', er_authorizer = Some ''0x1111111111111111111111111111111111111111'',
     er_nonce = Some ''0xaa'', er_token = Some ''0x833589fcd6edb6e08f4c7c32d4f71b54bda02913'',
     er_status = ''finalized'', er_finality_depth = 9, er_endpoint_id = None, er_identity_data = None,
     er_created_at = 0, er_confirmed_at = None, er_event_type = ''erc3009.transfer'',
     er_decoded_fields = [], er_source = ''onchain'', er_trigger_id = None, er_product_source = ''keeper''\<rparr>"

theorem promote_ignores_status_witness:
  "\<exists>r' w'. run (promote_to_confirmed calm_env ''ev'' ''0x2'' 91 ''0xb'' 0) (empty_world\<lparr>w_events := [blank_event]\<rparr>) =
     (Inr (Some r'), w') \<and> er_status r' = ''confirmed'' \<and> er_status blank_event = ''finalized''"
  using promote_ignores_status[of "''ev''" "empty_world\<lparr>w_events := [blank_event]\<rparr>" blank_event calm_env "''0x2''" 91 "''0xb''" 0]
  by (auto simp: find_event_def blank_event_def calm_env_def empty_world_def)

end
