(* ===== verification/Dispatcher.thy ===== *)
theory Dispatcher
  imports Repositories
begin

text \<open>
  \<open>webhook/dispatcher.py\<close>, \<open>webhook/payload.py\<close> and \<open>notify/realtime.py\<close>: endpoint and
  subscription matching, payload construction, and the delivery loops. The
  webhook provider is the environment's \<open>en_send\<close>; a message it accepts is
  appended to \<open>w_sent\<close>.
\<close>

section \<open>Keys and payloads\<close>

definition idempotency_raw :: "int \<Rightarrow> string \<Rightarrow> int \<Rightarrow> string \<Rightarrow> string \<Rightarrow> string" where
  "idempotency_raw chain_id tx_hash log_index endpoint_id event_type =
     py_join '':'' [int_str chain_id, py_lower tx_hash, int_str log_index, endpoint_id, event_type]"

definition generate_idempotency_key :: "env \<Rightarrow> int \<Rightarrow> string \<Rightarrow> int \<Rightarrow> string \<Rightarrow> string \<Rightarrow> string" where
  "generate_idempotency_key env chain_id tx_hash log_index endpoint_id event_type =
     ''idem_'' @ take 32 (en_sha256_hex env
       (idempotency_raw chain_id tx_hash log_index endpoint_id event_type))"

definition generate_generic_idempotency_key :: "env \<Rightarrow> string \<Rightarrow> string \<Rightarrow> string" where
  "generate_generic_idempotency_key env event_id endpoint_id =
     ''idem_'' @ take 32 (en_sha256_hex env (py_join '':'' [event_id, endpoint_id]))"

definition build_transfer_data :: "ERC3009Transfer \<Rightarrow> TransferData" where
  "build_transfer_data t = \<lparr>td_chain_id = tr_chain_id t, td_tx_hash = tr_tx_hash t,
     td_block_number = tr_block_number t, td_from_address = tr_from_address t,
     td_to_address = tr_to_address t, td_amount = tr_value t, td_nonce = tr_nonce t, td_token = tr_token t\<rparr>"

definition build_payload ::
  "env \<Rightarrow> ERC3009Transfer \<Rightarrow> WebhookEventType \<Rightarrow> EndpointMode \<Rightarrow> string \<Rightarrow> FinalityStatus option
   \<Rightarrow> AgentIdentity option \<Rightarrow> int option \<Rightarrow> WebhookPayload io" where
  "build_payload env transfer event_type mode endpoint_id finality identity required_depth =
     (let key = generate_idempotency_key env (chain_value (tr_chain_id transfer)) (tr_tx_hash transfer)
            (tr_log_index transfer) endpoint_id (webhook_type_value event_type);
          finality_data = build_finality_data finality required_depth;
          execution = derive_execution_metadata event_type finality_data in
      ebind (uuid4 env) (\<lambda>i. ebind (now env) (\<lambda>time.
        eret \<lparr>wp_id = i, wp_idempotency_key = key, wp_type = event_type, wp_mode = mode,
          wp_timestamp = time, wp_version = ''v1'', wp_execution = execution,
          wp_data = \<lparr>wd_event = None, wd_transfer = Some (build_transfer_data transfer),
            wd_finality = finality_data, wd_identity = identity\<rparr>,
          wp_trigger_id = None\<rparr>)))"

section \<open>Matching\<close>

fun match_endpoints :: "ERC3009Transfer \<Rightarrow> Endpoint list \<Rightarrow> Endpoint list" where
  "match_endpoints transfer [] = []"
| "match_endpoints transfer (ep # eps) =
     (if \<not> ep_active ep then match_endpoints transfer eps
      else if py_lower (ep_recipient ep) \<noteq> py_lower (tr_to_address transfer) then match_endpoints transfer eps
      else if chain_value (tr_chain_id transfer) \<notin> set (ep_chains ep) then match_endpoints transfer eps
      else ep # match_endpoints transfer eps)"

definition or_nil :: "'a list option \<Rightarrow> 'a list" where
  "or_nil xs = (case xs of None \<Rightarrow> [] | Some l \<Rightarrow> l)"

definition sub_static_ok :: "ERC3009Transfer \<Rightarrow> SubscriptionFilter \<Rightarrow> bool" where
  "sub_static_ok transfer f \<longleftrightarrow>
     \<not> (or_nil (sf_chains f) \<noteq> [] \<and> chain_value (tr_chain_id transfer) \<notin> set (or_nil (sf_chains f))) \<and>
     \<not> (or_nil (sf_senders f) \<noteq> [] \<and>
        py_lower (tr_from_address transfer) \<notin> set (map py_lower (or_nil (sf_senders f)))) \<and>
     \<not> (or_nil (sf_recipients f) \<noteq> [] \<and>
        py_lower (tr_to_address transfer) \<notin> set (map py_lower (or_nil (sf_recipients f))))"

definition sub_amount_ok :: "ERC3009Transfer \<Rightarrow> SubscriptionFilter \<Rightarrow> bool result" where
  "sub_amount_ok transfer f =
     (if or_nil (sf_min_amount f) \<noteq> [] then
        rbind (of_option ValueError (py_int (tr_value transfer))) (\<lambda>v.
        rbind (of_option ValueError (py_int (or_nil (sf_min_amount f)))) (\<lambda>m. Inr (\<not> v < m)))
      else Inr True)"

definition sub_class_ok :: "AgentIdentity option \<Rightarrow> SubscriptionFilter \<Rightarrow> bool" where
  "sub_class_ok identity f \<longleftrightarrow> or_nil (sf_agent_class f) = [] \<or>
     (case identity of Some i \<Rightarrow> ai_agent_class i = or_nil (sf_agent_class f) | None \<Rightarrow> False)"

fun match_subscriptions ::
  "ERC3009Transfer \<Rightarrow> AgentIdentity option \<Rightarrow> Subscription list \<Rightarrow> Subscription list result" where
  "match_subscriptions transfer identity [] = Inr []"
| "match_subscriptions transfer identity (sub # subs) =
     (if \<not> sub_active sub \<or> \<not> sub_static_ok transfer (sub_filters sub)
      then match_subscriptions transfer identity subs
      else rbind (sub_amount_ok transfer (sub_filters sub)) (\<lambda>ok.
        if \<not> ok \<or> \<not> sub_class_ok identity (sub_filters sub)
        then match_subscriptions transfer identity subs
        else rbind (match_subscriptions transfer identity subs) (\<lambda>ms. Inr (sub # ms))))"

definition resolve_endpoint_depth :: "Endpoint \<Rightarrow> int option" where
  "resolve_endpoint_depth ep = po_finality_depth (ep_policies ep)"

section \<open>Delivery\<close>

definition provider_send :: "env \<Rightarrow> SentMessage \<Rightarrow> string io" where
  "provider_send env m = ebind tick (\<lambda>n. ebind (elift (en_send env n m)) (\<lambda>i.
     ebind (emodify (\<lambda>w. w\<lparr>w_sent := w_sent w @ [m]\<rparr>)) (\<lambda>_. eret i)))"

definition project_of :: "Endpoint \<Rightarrow> string" where
  "project_of ep = or_nil (ep_convoy_project_id ep)"

text \<open>One iteration of the loop of \<open>dispatch_event\<close>: the message id, if one was obtained.\<close>

definition dispatch_one ::
  "env \<Rightarrow> ERC3009Transfer \<Rightarrow> WebhookEventType \<Rightarrow> FinalityStatus option \<Rightarrow> AgentIdentity option
   \<Rightarrow> Endpoint \<Rightarrow> string option io" where
  "dispatch_one env transfer event_type finality identity ep =
     (if project_of ep = [] then eret None
      else
        ebind (build_payload env transfer event_type (ep_mode ep) (ep_id ep) finality identity
                 (resolve_endpoint_depth ep)) (\<lambda>payload.
        ecatch (ebind (provider_send env \<lparr>sm_app_id = project_of ep,
                    sm_event_type = webhook_type_value event_type, sm_payload = payload,
                    sm_convoy_endpoint_id = or_nil (ep_convoy_endpoint_id ep)\<rparr>) (\<lambda>i. eret (Some i)))
          (\<lambda>_. eret None)))"

definition dispatch_event ::
  "env \<Rightarrow> ERC3009Transfer \<Rightarrow> Endpoint list \<Rightarrow> WebhookEventType \<Rightarrow> FinalityStatus option
   \<Rightarrow> AgentIdentity option \<Rightarrow> string list io" where
  "dispatch_event env transfer endpoints event_type finality identity =
     ebind (efor endpoints (dispatch_one env transfer event_type finality identity)) (\<lambda>rs.
       eret (List.map_filter (\<lambda>x. x) rs))"

section \<open>Generic events\<close>

text \<open>\<open>d.get(k1) or d.get(k2) or default\<close>, as text.\<close>

definition first_truthy :: "env \<Rightarrow> pydict \<Rightarrow> string list \<Rightarrow> string option" where
  "first_truthy env d ks = map_option (py_str (en_py_str env))
     (find py_truthy (map (\<lambda>k. dict_get k PyNone d) ks))"

definition event_id_of :: "env \<Rightarrow> pydict \<Rightarrow> string io" where
  "event_id_of env event = (case first_truthy env event [''event_id'', ''id''] of
     Some i \<Rightarrow> eret i | None \<Rightarrow> uuid4 env)"

text \<open>\<open>FinalityData(**fin_raw)\<close> on a JSON object.\<close>

definition mk_FinalityData :: "pyval \<Rightarrow> FinalityData result" where
  "mk_FinalityData v = (case v of
      PyDict d \<Rightarrow>
        (case (map_of d ''confirmations'', map_of d ''required_confirmations'', map_of d ''is_finalized'') of
           (Some (PyInt c), Some (PyInt r), Some (PyBool b)) \<Rightarrow>
             Inr \<lparr>fd_confirmations = c, fd_required_confirmations = r, fd_is_finalized = b\<rparr>
         | _ \<Rightarrow> Inl ValidationError)
    | _ \<Rightarrow> Inl TypeError)"

definition build_generic_execution_block :: "string \<Rightarrow> pydict option \<Rightarrow> ExecutionBlock result" where
  "build_generic_execution_block event_type execution_block = (case execution_block of
      Some b \<Rightarrow>
        rbind (case dict_get ''state'' (PyStr ''confirmed'') b of
                 PyStr s \<Rightarrow> of_option ValueError (state_of s) | _ \<Rightarrow> Inl ValueError) (\<lambda>st.
        rbind (case dict_get ''trust_source'' (PyStr ''onchain'') b of
                 PyStr s \<Rightarrow> of_option ValueError (trust_of s) | _ \<Rightarrow> Inl ValueError) (\<lambda>trust.
        rbind (if py_truthy (dict_get ''finality'' PyNone b)
               then rbind (mk_FinalityData (dict_get ''finality'' PyNone b)) (\<lambda>f. Inr (Some f))
               else Inr None) (\<lambda>fin.
        rbind (case dict_get ''safe_to_execute'' (PyBool False) b of
                 PyBool s \<Rightarrow> Inr s | _ \<Rightarrow> Inl ValidationError) (\<lambda>safe.
          Inr \<lparr>eb_state = st, eb_safe_to_execute = safe, eb_trust_source = trust, eb_finality = fin\<rparr>))))
    | None \<Rightarrow>
        (case webhook_type_of event_type of
           Some wt \<Rightarrow> Inr (derive_execution_metadata wt None)
         | None \<Rightarrow> Inr \<lparr>eb_state = CONFIRMED, eb_safe_to_execute = False, eb_trust_source = ONCHAIN,
                         eb_finality = None\<rparr>))"

definition none_if_empty :: "string \<Rightarrow> string option" where
  "none_if_empty s = (if s = [] then None else Some s)"

text \<open>
  \<open>dispatch_generic_event\<close> on an event dict and the endpoint's row; \<open>identity\<close> is the
  parsed identity, \<open>None\<close> when absent or unparsable (both end the same way).
\<close>

definition dispatch_generic_event ::
  "env \<Rightarrow> pydict \<Rightarrow> string \<Rightarrow> Endpoint \<Rightarrow> pydict option \<Rightarrow> AgentIdentity option \<Rightarrow> string option io" where
  "dispatch_generic_event env event event_type endpoint execution_block identity =
     ebind (event_id_of env event) (\<lambda>event_id.
     if project_of endpoint = [] then eret None
     else
       let key = generate_generic_idempotency_key env event_id (ep_id endpoint) in
       ebind (elift (build_generic_execution_block event_type execution_block)) (\<lambda>exec_block.
       let wh_type = (case webhook_type_of event_type of Some t \<Rightarrow> t | None \<Rightarrow> TRIGGER_MATCHED) in
       ebind (uuid4 env) (\<lambda>i. ebind (now env) (\<lambda>time.
       let payload = \<lparr>wp_id = i, wp_idempotency_key = key, wp_type = wh_type, wp_mode = ep_mode endpoint,
             wp_timestamp = time, wp_version = ''v1'', wp_execution = exec_block,
             wp_data = \<lparr>wd_event = Some event, wd_transfer = None, wd_finality = None, wd_identity = identity\<rparr>,
             wp_trigger_id = (case dict_get ''trigger_id'' PyNone event of
                PyNone \<Rightarrow> None | v \<Rightarrow> Some (py_str (en_py_str env) v))\<rparr> in
       ebind (ecatch (ebind (provider_send env \<lparr>sm_app_id = project_of endpoint, sm_event_type = event_type,
                  sm_payload = payload, sm_convoy_endpoint_id = or_nil (ep_convoy_endpoint_id endpoint)\<rparr>)
                (\<lambda>m. eret (Some m))) (\<lambda>_. eret None)) (\<lambda>message_id.
       ebind (ecatch (ebind (delivery_create env (ep_id endpoint) event_id message_id
                (if or_nil message_id \<noteq> [] then ''sent'' else ''failed'')) (\<lambda>_. eret ()))
              (\<lambda>_. eret ())) (\<lambda>_.
         eret message_id))))))"

section \<open>Realtime notification\<close>

definition realtime_ok :: "RealtimeRow list \<Rightarrow> world \<Rightarrow> bool" where
  "realtime_ok rows w \<longleftrightarrow> (\<forall>r \<in> set rows. rt_endpoint_id r \<in> set (endpoint_ids w) \<and> rt_chain_id r \<noteq> None \<and>
     rt_id r \<notin> set (map rt_id (w_realtime w)))"

definition realtime_insert :: "env \<Rightarrow> RealtimeRow list \<Rightarrow> unit io" where
  "realtime_insert env rows =
     insert_checked env (realtime_ok rows) (\<lambda>w. w\<lparr>w_realtime := w_realtime w @ rows\<rparr>)"

definition transfer_rows ::
  "ERC3009Transfer \<Rightarrow> WebhookEventType \<Rightarrow> FinalityStatus option \<Rightarrow> AgentIdentity option \<Rightarrow> int \<Rightarrow> int
   \<Rightarrow> (Endpoint \<times> string) list \<Rightarrow> RealtimeRow list" where
  "transfer_rows transfer event_type finality identity time created eps =
     (let fd = build_finality_data finality None;
          data = RtTransfer (build_transfer_data transfer) time (derive_execution_metadata event_type fd) fd identity
      in map (\<lambda>(ep, i). \<lparr>rt_id = i, rt_endpoint_id = ep_id ep, rt_type = webhook_type_value event_type,
            rt_data = data, rt_chain_id = Some (chain_value (tr_chain_id transfer)),
            rt_recipient = py_lower (tr_to_address transfer), rt_created_at = created\<rparr>) eps)"

definition notify ::
  "env \<Rightarrow> Endpoint \<Rightarrow> ERC3009Transfer \<Rightarrow> WebhookEventType \<Rightarrow> FinalityStatus option \<Rightarrow> AgentIdentity option
   \<Rightarrow> string io" where
  "notify env endpoint transfer event_type finality identity =
     ebind (uuid4 env) (\<lambda>i. ebind (now env) (\<lambda>time. ebind (now env) (\<lambda>created.
     ebind (ecatch (realtime_insert env (transfer_rows transfer event_type finality identity time created [(endpoint, i)]))
              (\<lambda>_. eret ())) (\<lambda>_. eret i))))"

definition notify_batch ::
  "env \<Rightarrow> Endpoint list \<Rightarrow> ERC3009Transfer \<Rightarrow> WebhookEventType \<Rightarrow> FinalityStatus option
   \<Rightarrow> AgentIdentity option \<Rightarrow> string list io" where
  "notify_batch env endpoints transfer event_type finality identity =
     (if endpoints = [] then eret []
      else
        ebind (now env) (\<lambda>time. ebind (now env) (\<lambda>created.
        ebind (efor endpoints (\<lambda>_. uuid4 env)) (\<lambda>ids.
        ebind (ecatch (realtime_insert env (transfer_rows transfer event_type finality identity time created
                  (zip endpoints ids))) (\<lambda>_. eret ())) (\<lambda>_. eret ids)))))"

definition notify_generic ::
  "env \<Rightarrow> pydict \<Rightarrow> string list \<Rightarrow> pydict option \<Rightarrow> pydict option \<Rightarrow> string list io" where
  "notify_generic env event ids execution_block identity_data =
     (if ids = [] then eret []
      else
        let exec_data = (case execution_block of
              Some b \<Rightarrow> PyDict b
            | None \<Rightarrow> PyDict [(''state'', PyStr ''confirmed''), (''safe_to_execute'', PyBool False),
                (''trust_source'', PyStr ''onchain''), (''finality'', PyNone)]) in
        ebind (now env) (\<lambda>time. ebind (now env) (\<lambda>created.
        ebind (efor ids (\<lambda>_. uuid4 env)) (\<lambda>gen.
        ebind (ecatch (realtime_insert env (map (\<lambda>(ep, i).
            \<lparr>rt_id = i, rt_endpoint_id = ep,
             rt_type = py_str (en_py_str env) (dict_get ''event_type'' (PyStr ''trigger.matched'') event),
             rt_data = RtEvent event time exec_data (case identity_data of Some d \<Rightarrow> PyDict d | None \<Rightarrow> PyNone),
             rt_chain_id = (case dict_get ''chain_id'' PyNone event of PyInt c \<Rightarrow> Some c | _ \<Rightarrow> None),
             rt_recipient = py_str (en_py_str env) (dict_get ''contract_address'' (PyStr []) event),
             rt_created_at = created\<rparr>) (zip ids gen))) (\<lambda>_. eret ())) (\<lambda>_. eret gen)))))"

section \<open>Integrity\<close>

lemma db_inv_sent: "db_inv w \<Longrightarrow> db_inv (w\<lparr>w_sent := s\<rparr>)"
  by (simp add: db_inv_def event_ids_def endpoint_ids_def)

lemma keeps_provider_send:
  assumes "tick_stable I" and "\<And>w s. I w \<Longrightarrow> I (w\<lparr>w_sent := s\<rparr>)"
  shows "keeps I (provider_send env m)"
  unfolding provider_send_def by (intro keeps_intros assms)

lemma keeps_dispatch_event:
  assumes "tick_stable I" and "\<And>w s. I w \<Longrightarrow> I (w\<lparr>w_sent := s\<rparr>)"
  shows "keeps I (dispatch_event env t eps ty f i)"
  unfolding dispatch_event_def dispatch_one_def build_payload_def
  by (intro keeps_intros keeps_provider_send assms)

lemma keeps_dispatch_event_db [keeps_intros]: "keeps db_inv (dispatch_event env t eps ty f i)"
  by (intro keeps_dispatch_event db_inv_tick_stable db_inv_sent)

lemma keeps_provider_send_db [keeps_intros]: "keeps db_inv (provider_send env m)"
  by (intro keeps_provider_send db_inv_tick_stable db_inv_sent)

lemma keeps_realtime_insert [keeps_intros]: "keeps db_inv (realtime_insert env rows)"
  unfolding realtime_insert_def
  by (intro keeps_insert_checked db_inv_tick_stable)
     (auto simp: db_inv_def realtime_ok_def event_ids_def endpoint_ids_def)

lemma keeps_notify_batch [keeps_intros]: "keeps db_inv (notify_batch env eps t ty f i)"
  unfolding notify_batch_def by (intro keeps_intros db_inv_tick_stable)

lemma keeps_dispatch_generic_event [keeps_intros]: "keeps db_inv (dispatch_generic_event env e ty ep b i)"
  unfolding dispatch_generic_event_def event_id_of_def
  by (intro keeps_intros db_inv_tick_stable)

section \<open>Properties\<close>

lemma join_colon_inj:
  assumes "\<forall>p \<in> set ps \<union> set qs. CHR '':'' \<notin> set p" and "ps \<noteq> []" and "qs \<noteq> []"
    and "py_join '':'' ps = py_join '':'' qs"
  shows "ps = qs"
  using assms py_split_join[of ps "CHR '':''"] py_split_join[of qs "CHR '':''"] by (metis Un_iff)

definition colon_free :: "string \<Rightarrow> bool" where
  "colon_free s \<longleftrightarrow> CHR '':'' \<notin> set s"

lemma colon_free_lower: "colon_free s \<Longrightarrow> colon_free (py_lower s)"
proof -
  have "c = CHR '':''" if "lower_char c = CHR '':''" for c
  proof (rule ccontr)
    assume "c \<noteq> CHR '':''"
    with that have "65 \<le> code c" "code c \<le> 90" "char_of (code c + 32) = CHR '':''"
      by (auto simp: lower_char_def split: if_splits)
    then have "code c + 32 = code (CHR '':'')" using code_char_of[of "code c + 32"] by simp
    then show False using \<open>65 \<le> code c\<close> by (simp add: code_def)
  qed
  then show "colon_free s \<Longrightarrow> colon_free (py_lower s)"
    unfolding colon_free_def py_lower_def by (metis (no_types, lifting) imageE list.set_map)
qed

lemma webhook_type_colon_free: "colon_free (webhook_type_value t)"
  by (cases t) (simp_all add: webhook_type_value_def colon_free_def)

text \<open>
  Two deliveries share an idempotency key only if they are the same
  delivery: for transaction hashes and endpoint ids without a colon, equal keys mean equal chain, transaction (up to
  letter case), log index, endpoint and event type. The digest is taken to be
  collision-free on the two keys compared.
\<close>

theorem idempotency_key_injective:
  assumes digest: "take 32 (en_sha256_hex env (idempotency_raw c tx l ep (webhook_type_value ty))) =
        take 32 (en_sha256_hex env (idempotency_raw c' tx' l' ep' (webhook_type_value ty'))) \<Longrightarrow>
      idempotency_raw c tx l ep (webhook_type_value ty) = idempotency_raw c' tx' l' ep' (webhook_type_value ty')"
    and free: "colon_free tx" "colon_free tx'" "colon_free ep" "colon_free ep'"
  shows "generate_idempotency_key env c tx l ep (webhook_type_value ty) =
         generate_idempotency_key env c' tx' l' ep' (webhook_type_value ty') \<longleftrightarrow>
         c = c' \<and> py_lower tx = py_lower tx' \<and> l = l' \<and> ep = ep' \<and> ty = ty'"
proof
  assume "generate_idempotency_key env c tx l ep (webhook_type_value ty) =
         generate_idempotency_key env c' tx' l' ep' (webhook_type_value ty')"
  then have "idempotency_raw c tx l ep (webhook_type_value ty) = idempotency_raw c' tx' l' ep' (webhook_type_value ty')"
    unfolding generate_idempotency_key_def by (intro digest) (simp only: same_append_eq)
  then have "[int_str c, py_lower tx, int_str l, ep, webhook_type_value ty] =
      [int_str c', py_lower tx', int_str l', ep', webhook_type_value ty']"
    unfolding idempotency_raw_def
    using free colon_free_lower webhook_type_colon_free int_str_no_colon
    by (intro join_colon_inj) (auto simp: colon_free_def)
  then show "c = c' \<and> py_lower tx = py_lower tx' \<and> l = l' \<and> ep = ep' \<and> ty = ty'"
    by (simp add: int_str_inj webhook_type_value_inj)
qed (simp add: generate_idempotency_key_def idempotency_raw_def)

text \<open>
  The recipient's part of a message: what the endpoint is sent, and on which
  finality threshold its execution block was computed.
\<close>

definition message_for ::
  "env \<Rightarrow> ERC3009Transfer \<Rightarrow> WebhookEventType \<Rightarrow> FinalityStatus option \<Rightarrow> Endpoint \<Rightarrow> SentMessage \<Rightarrow> bool" where
  "message_for env t ty fin ep m \<longleftrightarrow>
     project_of ep \<noteq> [] \<and> sm_app_id m = project_of ep \<and> sm_event_type m = webhook_type_value ty \<and>
     sm_convoy_endpoint_id m = or_nil (ep_convoy_endpoint_id ep) \<and>
     wp_type (sm_payload m) = ty \<and> wp_mode (sm_payload m) = ep_mode ep \<and>
     wp_idempotency_key (sm_payload m) = generate_idempotency_key env (chain_value (tr_chain_id t)) (tr_tx_hash t)
       (tr_log_index t) (ep_id ep) (webhook_type_value ty) \<and>
     wp_execution (sm_payload m) =
       derive_execution_metadata ty (build_finality_data fin (resolve_endpoint_depth ep)) \<and>
     wd_transfer (wp_data (sm_payload m)) = Some (build_transfer_data t)"

text \<open>Only the counter and the log of sent messages change.\<close>

definition only_sent :: "world \<Rightarrow> world \<Rightarrow> bool" where
  "only_sent w w' \<longleftrightarrow> w' = w\<lparr>w_tick := w_tick w', w_sent := w_sent w'\<rparr>"

lemma only_sent_trans: "only_sent w w' \<Longrightarrow> only_sent w' w'' \<Longrightarrow> only_sent w w''"
  unfolding only_sent_def by (cases w; cases w'; cases w'') simp

lemma dispatch_one_run:
  "\<exists>r w'. run (dispatch_one env t ty fin idn ep) w = (Inr r, w') \<and> only_sent w w' \<and>
     (case r of None \<Rightarrow> w_sent w' = w_sent w
      | Some i \<Rightarrow> \<exists>m. message_for env t ty fin ep m \<and> w_sent w' = w_sent w @ [m])"
proof (cases "project_of ep = []")
  case True
  then show ?thesis by (simp add: dispatch_one_def only_sent_def)
next
  case False
  show ?thesis
  proof (cases "fst (run (dispatch_one env t ty fin idn ep) w)")
    case (Inl e)
    with False show ?thesis
      by (auto simp: dispatch_one_def build_payload_def provider_send_def Let_def split: sum.splits)
  next
    case (Inr r)
    with False show ?thesis
      by (auto simp: dispatch_one_def build_payload_def provider_send_def Let_def only_sent_def message_for_def
          split: sum.splits)
  qed
qed

lemma dispatch_loop_run:
  "\<exists>rs sel msgs w'. run (efor eps (dispatch_one env t ty fin idn)) w = (Inr rs, w') \<and> only_sent w w' \<and>
     length rs = length eps \<and>
     subseq sel eps \<and> list_all2 (message_for env t ty fin) sel msgs \<and> w_sent w' = w_sent w @ msgs \<and>
     length (List.map_filter (\<lambda>x. x) rs) = length sel"
proof (induction eps arbitrary: w)
  case Nil
  then show ?case by (auto simp: only_sent_def List.map_filter_def intro!: exI[of _ "[]"])
next
  case (Cons ep eps)
  obtain r w1 where r: "run (dispatch_one env t ty fin idn ep) w = (Inr r, w1)" "only_sent w w1"
    "case r of None \<Rightarrow> w_sent w1 = w_sent w
      | Some i \<Rightarrow> \<exists>m. message_for env t ty fin ep m \<and> w_sent w1 = w_sent w @ [m]"
    using dispatch_one_run by blast
  obtain rs sel msgs w2 where rs: "run (efor eps (dispatch_one env t ty fin idn)) w1 = (Inr rs, w2)" "only_sent w1 w2"
    "length rs = length eps" "subseq sel eps" "list_all2 (message_for env t ty fin) sel msgs"
    "w_sent w2 = w_sent w1 @ msgs" "length (List.map_filter (\<lambda>x. x) rs) = length sel"
    using Cons.IH by blast
  have run: "run (efor (ep # eps) (dispatch_one env t ty fin idn)) w = (Inr (r # rs), w2)"
    using r rs by simp
  show ?case
  proof (cases r)
    case None
    then show ?thesis
      using run r rs only_sent_trans[OF r(2) rs(2)]
      by (intro exI[of _ "r # rs"] exI[of _ sel] exI[of _ msgs] exI[of _ w2]) (simp add: List.map_filter_def list_emb_Cons)
  next
    case (Some i)
    with r(3) obtain m where m: "message_for env t ty fin ep m" "w_sent w1 = w_sent w @ [m]" by auto
    then show ?thesis
      using run r rs Some only_sent_trans[OF r(2) rs(2)]
      by (intro exI[of _ "r # rs"] exI[of _ "ep # sel"] exI[of _ "m # msgs"] exI[of _ w2])
         (simp add: List.map_filter_def)
  qed
qed

lemma dispatch_event_run:
  "\<exists>ids sel msgs w'. run (dispatch_event env t eps ty fin idn) w = (Inr ids, w') \<and> only_sent w w' \<and>
     subseq sel eps \<and> list_all2 (message_for env t ty fin) sel msgs \<and>
     w_sent w' = w_sent w @ msgs \<and> length ids = length sel"
  using dispatch_loop_run[of eps env t ty fin idn w] by (auto simp: dispatch_event_def)

text \<open>
  Dispatch never raises and does nothing but send: it hands the provider, in
  endpoint order, one message for some of the endpoints (each with a Convoy
  project, the key, mode, transfer and execution block of that endpoint), returns
  as many ids as messages were accepted, and changes no table.
\<close>

theorem dispatch_event_delivers:
  "\<exists>ids sel msgs w'. run (dispatch_event env t eps ty fin idn) w = (Inr ids, w') \<and>
     subseq sel eps \<and> list_all2 (message_for env t ty fin) sel msgs \<and>
     w_sent w' = w_sent w @ msgs \<and> length ids = length sel \<and>
     w_events w' = w_events w \<and> w_nonces w' = w_nonces w \<and> w_deliveries w' = w_deliveries w"
proof -
  have "only_sent w w' \<Longrightarrow> w_events w' = w_events w \<and> w_nonces w' = w_nonces w \<and> w_deliveries w' = w_deliveries w" for w'
    unfolding only_sent_def by (cases w; cases w') simp
  then show ?thesis using dispatch_event_run[of env t eps ty fin idn w] by blast
qed

definition effective_depth :: "FinalityStatus \<Rightarrow> Endpoint \<Rightarrow> int" where
  "effective_depth f ep = (case resolve_endpoint_depth ep of Some d \<Rightarrow> d | None \<Rightarrow> fs_required_confirmations f)"

text \<open>
  C13. When an endpoint is told to execute. Every message of a dispatch is addressed to one of the
  endpoints, and it says \<open>safe_to_execute\<close> exactly in two cases: its type is neither
  provisional, reorged nor failed, a finality check was made and the transfer has the confirmations
  that very endpoint asks for (or the chain's default if it asks for none); or its type
  is \<open>payment.finalized\<close> or \<open>trigger.finalized\<close>, which is safe whatever the endpoint asks
  for. The finality poller sends \<open>payment.finalized\<close> at the chain's default depth, so an endpoint with a
  deeper one is told to execute before its depth is reached.
\<close>

theorem safe_iff_endpoint_depth:
  assumes run: "run (dispatch_event env t eps ty fin idn) w = (r, w')"
    and m: "m \<in> set (drop (length (w_sent w)) (w_sent w'))"
  shows "\<exists>ep \<in> set eps. message_for env t ty fin ep m \<and>
     (eb_safe_to_execute (wp_execution (sm_payload m)) \<longleftrightarrow>
        ty \<in> {PAYMENT_FINALIZED, TRIGGER_FINALIZED} \<or>
        (ty \<notin> {PAYMENT_PRE_CONFIRMED, PAYMENT_REORGED, PAYMENT_FAILED} \<and>
         (\<exists>f. fin = Some f \<and> effective_depth f ep \<le> fs_confirmations f)))"
proof -
  obtain sel msgs where sel: "subseq sel eps" "list_all2 (message_for env t ty fin) sel msgs" "w_sent w' = w_sent w @ msgs"
    using dispatch_event_run[of env t eps ty fin idn w] run by auto
  with m obtain i where "i < length msgs" "m = msgs ! i" by (auto simp: in_set_conv_nth)
  with sel(2) have ep: "message_for env t ty fin (sel ! i) m" "sel ! i \<in> set sel"
    by (auto simp: list_all2_conv_all_nth)
  have "sel ! i \<in> set eps" using list_emb_set[OF sel(1) ep(2)] by auto
  moreover have "eb_safe_to_execute (wp_execution (sm_payload m)) \<longleftrightarrow>
      ty \<in> {PAYMENT_FINALIZED, TRIGGER_FINALIZED} \<or>
      (ty \<notin> {PAYMENT_PRE_CONFIRMED, PAYMENT_REORGED, PAYMENT_FAILED} \<and>
       (\<exists>f. fin = Some f \<and> effective_depth f (sel ! i) \<le> fs_confirmations f))"
    using ep(1)
    by (cases fin) (auto simp: message_for_def derive_execution_metadata_def build_finality_data_def
        effective_depth_def Let_def split: if_splits option.splits)
  ultimately show ?thesis using ep(1) by blast
qed

definition sample_endpoint :: Endpoint where
  "sample_endpoint = \<lparr>ep_id = ''ep1'', ep_url = ''https://hook'', ep_mode = EXECUTE, ep_chains = [8453],
     ep_recipient = ''0x2222222222222222222222222222222222222222'',
     ep_owner_address = ''0x3333333333333333333333333333333333333333'',
     ep_registration_tx_hash = None, ep_registration_chain_id = None, ep_policies = default_policies,
     ep_active = True, ep_convoy_project_id = Some ''proj'', ep_convoy_endpoint_id = Some ''cep'',
     ep_webhook_secret = None\<rparr>"

definition payment_sample :: ERC3009Transfer where
  "payment_sample = \<lparr>tr_chain_id = BASE, tr_tx_hash = ''0xfeed'', tr_block_number = 90,
     tr_block_hash = ''0xb10c'', tr_log_index = 2,
     tr_from_address = ''0x1111111111111111111111111111111111111111'',
     tr_to_address = ''0x2222222222222222222222222222222222222222'', tr_value = ''1000000'',
     tr_authorizer = ''0x1111111111111111111111111111111111111111'',
     tr_valid_after = 0, tr_valid_before = 0, tr_nonce = ''0xaa'',
     tr_token = ''0x833589fcd6edb6e08f4c7c32d4f71b54bda02913'', tr_timestamp = 5\<rparr>"

definition deep_status :: FinalityStatus where
  "deep_status = \<lparr>fs_tx_hash = ''0xfeed'', fs_chain_id = BASE, fs_block_number = 90, fs_confirmations = 10,
     fs_required_confirmations = 3, fs_is_finalized = True, fs_finalized_at = Some 100\<rparr>"

text \<open>An endpoint that asks for more than the chain's default of three confirmations.\<close>

definition cautious_endpoint :: Endpoint where
  "cautious_endpoint = sample_endpoint\<lparr>ep_policies := default_policies\<lparr>po_finality_depth := Some 32\<rparr>\<rparr>"

lemma sample_dispatch:
  assumes "project_of ep \<noteq> []"
  shows "\<exists>ids w' m. run (dispatch_event calm_env payment_sample [ep] ty (Some deep_status) None) empty_world = (Inr ids, w') \<and>
     w_sent w' = [m]"
  using assms
  by (simp add: dispatch_event_def dispatch_one_def build_payload_def provider_send_def calm_env_def empty_world_def Let_def)

theorem safe_iff_endpoint_depth_witness:
  "(\<exists>ids w' m. run (dispatch_event calm_env payment_sample [cautious_endpoint] PAYMENT_CONFIRMED (Some deep_status) None) empty_world
       = (Inr ids, w') \<and> w_sent w' = [m] \<and> \<not> eb_safe_to_execute (wp_execution (sm_payload m))) \<and>
   (\<exists>ids w' m. run (dispatch_event calm_env payment_sample [cautious_endpoint] PAYMENT_FINALIZED (Some deep_status) None) empty_world
       = (Inr ids, w') \<and> w_sent w' = [m] \<and> eb_safe_to_execute (wp_execution (sm_payload m)))"
proof -
  have p: "project_of cautious_endpoint \<noteq> []" by (simp add: project_of_def or_nil_def cautious_endpoint_def sample_endpoint_def)
  have d: "\<not> effective_depth deep_status cautious_endpoint \<le> fs_confirmations deep_status"
    by (simp add: effective_depth_def resolve_endpoint_depth_def cautious_endpoint_def deep_status_def)
  obtain ids w' m where c: "run (dispatch_event calm_env payment_sample [cautious_endpoint] PAYMENT_CONFIRMED (Some deep_status) None)
      empty_world = (Inr ids, w')" "w_sent w' = [m]" using sample_dispatch[OF p] by blast
  obtain ids2 w2 m2 where f: "run (dispatch_event calm_env payment_sample [cautious_endpoint] PAYMENT_FINALIZED (Some deep_status) None)
      empty_world = (Inr ids2, w2)" "w_sent w2 = [m2]" using sample_dispatch[OF p] by blast
  have e: "w_sent empty_world = []" by (simp add: empty_world_def)
  have "m \<in> set (drop (length (w_sent empty_world)) (w_sent w'))" "m2 \<in> set (drop (length (w_sent empty_world)) (w_sent w2))"
    by (simp_all add: c f e)
  from safe_iff_endpoint_depth[OF c(1) this(1)] safe_iff_endpoint_depth[OF f(1) this(2)] show ?thesis
    using c f d by auto
qed

theorem idempotency_key_injective_witness:
  "generate_idempotency_key calm_env 1 ''0xA'' 0 ''e'' (webhook_type_value PAYMENT_FAILED) \<noteq>
   generate_idempotency_key calm_env 2 ''0xA'' 0 ''e'' (webhook_type_value PAYMENT_FAILED)"
proof -
  have free: "colon_free ''0xA''" "colon_free ''e''" by (simp_all add: colon_free_def)
  have "digit_val (digit_chr 1) \<noteq> digit_val (digit_chr 2)" by simp
  then have "digit_chr 1 \<noteq> digit_chr 2" by metis
  then have "take 32 (idempotency_raw 1 ''0xA'' 0 ''e'' z) \<noteq> take 32 (idempotency_raw 2 ''0xA'' 0 ''e'' z)" for z
    by (simp add: idempotency_raw_def int_str_def nat_str.simps numeral_eq_Suc)
  then have "(generate_idempotency_key calm_env 1 ''0xA'' 0 ''e'' (webhook_type_value PAYMENT_FAILED) =
     generate_idempotency_key calm_env 2 ''0xA'' 0 ''e'' (webhook_type_value PAYMENT_FAILED)) \<longleftrightarrow>
     (1::int) = 2 \<and> py_lower ''0xA'' = py_lower ''0xA'' \<and> (0::int) = 0 \<and> ''e'' = ''e'' \<and> PAYMENT_FAILED = PAYMENT_FAILED"
    by (intro idempotency_key_injective free) (simp add: calm_env_def)
  then show ?thesis by simp
qed

end
