(* ===== verification/Decoder.thy ===== *)
theory Decoder
  imports Store
begin

text \<open>
  The decoders: \<open>ingestion/decoder.py\<close> (ERC-3009 rows and transaction logs),
  \<open>ingestion/generic_decoder.py\<close> (any event, from its ABI fragment) and the two
  classes of \<open>ingestion/decoders/\<close> that wrap them into the \<open>Decoder\<close> protocol.
  Rows are dynamically typed; a method call on a value of the wrong type
  raises as in Python. The ABI codec of \<open>eth_abi\<close> is the environment's
  \<open>en_abi_decode\<close>.
\<close>

section \<open>Topics and constants\<close>

definition AUTHORIZATION_USED_TOPIC :: string where
  "AUTHORIZATION_USED_TOPIC = ''0x98de503528ee59b575ef0c0a2576a82497bfc029a5685b209e9ec333479b10a5''"

definition TRANSFER_TOPIC :: string where
  "TRANSFER_TOPIC = ''0xddf252ad1be2c89b69c2b068fc378daa952ba7f163c4a11628f55a4df523b3ef''"

definition CONTRACT_TO_CHAIN :: "(string \<times> ChainId) list" where
  "CONTRACT_TO_CHAIN = map (\<lambda>c. (py_lower (USDC_CONTRACTS c), c)) [BASE, ETHEREUM, ARBITRUM]"

definition ZERO_NONCE :: string where
  "ZERO_NONCE = ''0x'' @ replicate 64 (CHR ''0'')"

text \<open>\<open>_parse_topics\<close>: a list is taken as it is, a string is split at commas.\<close>

definition parse_topics :: "pyval \<Rightarrow> pyval list" where
  "parse_topics raw = (case raw of
      PyList l \<Rightarrow> l
    | PyStr s \<Rightarrow> map (PyStr \<circ> py_strip) (filter (\<lambda>t. py_strip t \<noteq> []) (py_split (CHR '','') s))
    | _ \<Rightarrow> [])"

definition address_from_topic :: "pyval \<Rightarrow> string result" where
  "address_from_topic topic = rbind (expect_str AttributeError topic) (\<lambda>t.
     Inr (''0x'' @ py_last 40 (py_removeprefix t ''0x'')))"

definition to_int :: "pyval \<Rightarrow> int result" where
  "to_int v = (case v of
      PyInt i \<Rightarrow> Inr i
    | PyBool b \<Rightarrow> Inr (if b then 1 else 0)
    | PyStr s \<Rightarrow> of_option ValueError (if py_startswith s ''0x'' then py_int16 s else py_int s)
    | PyFloat (DFin r) _ \<Rightarrow> Inr (trunc_rat r)
    | PyFloat (DInf _) _ \<Rightarrow> Inl OverflowError
    | PyFloat (DNaN _) _ \<Rightarrow> Inl ValueError
    | PyBytes s \<Rightarrow> of_option ValueError (py_int s)
    | _ \<Rightarrow> Inl TypeError)"

definition chain_of_pyval :: "pyval \<Rightarrow> ChainId option" where
  "chain_of_pyval v = (case v of
      PyInt i \<Rightarrow> chain_of_int i
    | PyBool b \<Rightarrow> chain_of_int (if b then 1 else 0)
    | PyFloat (DFin r) _ \<Rightarrow> (if of_int (trunc_rat r) = r then chain_of_int (trunc_rat r) else None)
    | _ \<Rightarrow> None)"

definition resolve_chain_id :: "pydict \<Rightarrow> string \<Rightarrow> ChainId result" where
  "resolve_chain_id raw_log contract = (case map_of raw_log ''chain_id'' of
      Some v \<Rightarrow> of_option ValueError (chain_of_pyval v)
    | None \<Rightarrow> of_option ValueError (map_of CONTRACT_TO_CHAIN contract))"

definition validate_contract :: "string \<Rightarrow> ChainId \<Rightarrow> unit result" where
  "validate_contract contract chain_id =
     (if contract = py_lower (USDC_CONTRACTS chain_id) then Inr () else Inl ValueError)"

section \<open>Bytes\<close>

definition is_ascii_space :: "char \<Rightarrow> bool" where
  "is_ascii_space c = (9 \<le> code c \<and> code c \<le> 13 \<or> code c = 32)"

definition hex_byte :: "char \<Rightarrow> char \<Rightarrow> char" where
  "hex_byte a b = char_of (nat (digit_val a * 16 + digit_val b))"

fun bytes_fromhex :: "string \<Rightarrow> string option" where
  "bytes_fromhex [] = Some []"
| "bytes_fromhex [c] = (if is_ascii_space c then Some [] else None)"
| "bytes_fromhex (a # b # s) =
     (if is_ascii_space a then bytes_fromhex (b # s)
      else if is_hex a \<and> is_hex b then map_option ((#) (hex_byte a b)) (bytes_fromhex s)
      else None)"

definition hex_digit :: "nat \<Rightarrow> char" where
  "hex_digit d = (if d < 10 then char_of (48 + d) else char_of (87 + d))"

definition bytes_hex :: "string \<Rightarrow> string" where
  "bytes_hex bs = concat (map (\<lambda>c. [hex_digit (code c div 16), hex_digit (code c mod 16)]) bs)"

definition fromhex :: "pyval \<Rightarrow> string result" where
  "fromhex v = rbind (expect_str AttributeError v) (\<lambda>s.
     of_option ValueError (bytes_fromhex (py_removeprefix s ''0x'')))"

section \<open>ERC-3009 from a transaction's logs\<close>

definition index_topic :: "pyval list \<Rightarrow> nat \<Rightarrow> pyval result" where
  "index_topic ts i = (if i < length ts then Inr (ts ! i) else Inl IndexError)"

definition get_topics :: "pydict \<Rightarrow> pyval list result" where
  "get_topics raw_log = (case map_of raw_log ''topics'' of
      None \<Rightarrow> Inl KeyError
    | Some (PyList l) \<Rightarrow> Inr l
    | Some (PyStr s) \<Rightarrow> Inr (map (\<lambda>c. PyStr [c]) s)
    | Some _ \<Rightarrow> Inl TypeError)"

definition decode_authorization_used :: "pydict \<Rightarrow> (string \<times> pyval) result" where
  "decode_authorization_used raw_log =
     rbind (get_topics raw_log) (\<lambda>topics.
     rbind (rbind (index_topic topics 1) address_from_topic) (\<lambda>authorizer.
     rbind (index_topic topics 2) (\<lambda>nonce. Inr (authorizer, nonce))))"

definition decode_uint256 :: "env \<Rightarrow> string \<Rightarrow> string result" where
  "decode_uint256 env data = rbind (en_abi_decode env [''uint256''] data) (\<lambda>vs.
     case vs of [v] \<Rightarrow> Inr (py_str (en_py_str env) v) | _ \<Rightarrow> Inl ValueError)"

definition decode_transfer_log :: "env \<Rightarrow> pydict \<Rightarrow> (string \<times> string \<times> string) result" where
  "decode_transfer_log env raw_log =
     rbind (get_topics raw_log) (\<lambda>topics.
     rbind (rbind (index_topic topics 1) address_from_topic) (\<lambda>from_address.
     rbind (rbind (index_topic topics 2) address_from_topic) (\<lambda>to_address.
     rbind (rbind (of_option KeyError (map_of raw_log ''data'')) fromhex) (\<lambda>data_bytes.
     rbind (decode_uint256 env data_bytes) (\<lambda>value. Inr (from_address, to_address, value))))))"

text \<open>The scan keeps the last Transfer and the last AuthorizationUsed log of a USDC contract.\<close>

definition log_topic0 :: "pydict \<Rightarrow> string option result" where
  "log_topic0 raw_log = (case dict_get ''topics'' (PyList []) raw_log of
      PyList [] \<Rightarrow> Inr None
    | PyList (t0 # _) \<Rightarrow> rbind (py_lower_val t0) (\<lambda>s. Inr (Some s))
    | PyStr (c # _) \<Rightarrow> Inr (Some (py_lower [c]))
    | v \<Rightarrow> (if py_truthy v then Inl TypeError else Inr None))"

fun scan_logs :: "pydict list \<Rightarrow> pydict option \<times> pydict option \<Rightarrow> (pydict option \<times> pydict option) result" where
  "scan_logs [] acc = Inr acc"
| "scan_logs (raw_log # logs) (t, a) =
     rbind (log_topic0 raw_log) (\<lambda>topic0.
     case topic0 of None \<Rightarrow> scan_logs logs (t, a)
     | Some topic0 \<Rightarrow>
         rbind (py_lower_val (dict_get ''address'' (PyStr []) raw_log)) (\<lambda>address.
           if map_of CONTRACT_TO_CHAIN address = None then scan_logs logs (t, a)
           else if topic0 = py_lower TRANSFER_TOPIC then scan_logs logs (Some raw_log, a)
           else if topic0 = py_lower AUTHORIZATION_USED_TOPIC then scan_logs logs (t, Some raw_log)
           else scan_logs logs (t, a)))"

definition need :: "string \<Rightarrow> pydict \<Rightarrow> pyval result" where
  "need k d = of_option KeyError (map_of d k)"

definition decode_erc3009_from_logs ::
  "env \<Rightarrow> pydict list \<Rightarrow> ChainId option \<Rightarrow> ERC3009Transfer result" where
  "decode_erc3009_from_logs env logs chain_id =
     rbind (scan_logs logs (None, None)) (\<lambda>(transfer_log, auth_log).
     rbind (of_option ValueError transfer_log) (\<lambda>tl.
     rbind (of_option ValueError auth_log) (\<lambda>al.
     rbind (rbind (need ''address'' tl) py_lower_val) (\<lambda>contract.
     rbind (case chain_id of Some c \<Rightarrow> Inr c | None \<Rightarrow> resolve_chain_id tl contract) (\<lambda>chain.
     rbind (validate_contract contract chain) (\<lambda>_.
     rbind (decode_transfer_log env tl) (\<lambda>(from_a, to_a, value).
     rbind (decode_authorization_used al) (\<lambda>(authorizer, nonce).
     rbind (rbind (need ''blockNumber'' tl) to_int) (\<lambda>block_number.
     rbind (rbind (need ''logIndex'' tl) to_int) (\<lambda>log_index.
     rbind (to_int (dict_get ''timestamp'' (PyInt 0) tl)) (\<lambda>timestamp.
     rbind (need ''transactionHash'' tl) (\<lambda>txv.
     rbind (need ''blockHash'' tl) (\<lambda>bhv.
     rbind (expect_str ValidationError txv) (\<lambda>tx_hash.
     rbind (expect_str ValidationError bhv) (\<lambda>block_hash.
     rbind (expect_str ValidationError nonce) (\<lambda>nonce_s.
       mk_ERC3009Transfer \<lparr>tr_chain_id = chain, tr_tx_hash = tx_hash, tr_block_number = block_number,
         tr_block_hash = block_hash, tr_log_index = log_index, tr_from_address = from_a,
         tr_to_address = to_a, tr_value = value, tr_authorizer = authorizer,
         tr_valid_after = 0, tr_valid_before = 0, tr_nonce = nonce_s, tr_token = contract,
         tr_timestamp = timestamp\<rparr>))))))))))))))))"

section \<open>ERC-3009 from a Goldsky row\<close>

definition alias_key :: "string \<Rightarrow> string \<Rightarrow> pydict \<Rightarrow> pydict" where
  "alias_key k k' d = (case map_of d k of
      Some v \<Rightarrow> (if dict_has k' d then d else dict_set k' v d) | None \<Rightarrow> d)"

text \<open>The in-place normalisation of \<open>from\<close>/\<open>to\<close> keys at the start of \<open>decode_transfer_event\<close>.\<close>

definition normalize_row :: "pydict \<Rightarrow> pydict" where
  "normalize_row raw = alias_key ''to'' ''to_address'' (alias_key ''from'' ''from_address'' raw)"

definition first_topic :: "pyval list \<Rightarrow> string result" where
  "first_topic topics = (case topics of [] \<Rightarrow> Inr [] | t # _ \<Rightarrow> py_lower_val t)"

text \<open>The authorizer and nonce stage: pre-decoded, raw Transfer, or raw AuthorizationUsed.\<close>

definition row_authorizer :: "pyval \<Rightarrow> bool \<Rightarrow> pyval list \<Rightarrow> (pyval \<times> pyval) result" where
  "row_authorizer decoded is_transfer topics =
     (if py_truthy decoded then
        rbind (expect_dict AttributeError decoded) (\<lambda>d.
          Inr (dict_get ''authorizer'' (PyStr []) d, dict_get ''nonce'' (PyStr ZERO_NONCE) d))
      else if is_transfer then Inr (PyStr [], PyStr ZERO_NONCE)
      else if 3 \<le> length topics then
        rbind (address_from_topic (topics ! 1)) (\<lambda>a. Inr (PyStr a, topics ! 2))
      else if 2 \<le> length topics then
        rbind (address_from_topic (topics ! 1)) (\<lambda>a. Inr (PyStr a, PyStr ZERO_NONCE))
      else Inr (PyStr [], PyStr ZERO_NONCE))"

text \<open>The value of a raw Transfer row: any failure in the \<open>try\<close> block gives \<open>"0"\<close>.\<close>

definition row_value :: "env \<Rightarrow> pyval \<Rightarrow> string" where
  "row_value env raw_data =
     (if py_truthy raw_data \<and> raw_data \<noteq> PyStr ''0x'' then
        (case rbind (fromhex raw_data) (decode_uint256 env) of Inr v \<Rightarrow> v | Inl _ \<Rightarrow> ''0'')
      else ''0'')"

definition row_transfer_fields ::
  "env \<Rightarrow> pydict \<Rightarrow> pyval \<Rightarrow> pyval \<Rightarrow> bool \<Rightarrow> pyval list \<Rightarrow> (pyval \<times> pyval \<times> string) result" where
  "row_transfer_fields env raw_log transfer authorizer is_transfer topics =
     (if is_transfer \<and> 3 \<le> length topics then
        rbind (address_from_topic (topics ! 1)) (\<lambda>f.
        rbind (address_from_topic (topics ! 2)) (\<lambda>to_a.
          Inr (PyStr f, PyStr to_a, row_value env (dict_get ''data'' (PyStr ''0x'') raw_log))))
      else
        rbind (expect_dict AttributeError transfer) (\<lambda>d.
          let f = dict_get ''from_address'' (PyStr []) d in
          Inr (if py_truthy f then f else authorizer,
               dict_get ''to_address'' (PyStr []) d,
               py_str (en_py_str env) (dict_get ''value'' (PyStr ''0'') d))))"

definition decode_transfer_event :: "env \<Rightarrow> pydict \<Rightarrow> ERC3009Transfer result" where
  "decode_transfer_event env raw =
     (let raw_log = normalize_row raw in
      rbind (py_lower_val (dict_get ''address'' (PyStr []) raw_log)) (\<lambda>contract.
      rbind (resolve_chain_id raw_log contract) (\<lambda>chain_id.
      rbind (if contract \<noteq> [] then validate_contract contract chain_id else Inr ()) (\<lambda>_.
      rbind (to_int (dict_get ''block_number'' (PyInt 0) raw_log)) (\<lambda>block_number.
      rbind (to_int (dict_get ''log_index'' (PyInt 0) raw_log)) (\<lambda>log_index.
      rbind (to_int (dict_get ''block_timestamp'' (PyInt 0) raw_log)) (\<lambda>timestamp.
      let decoded = dict_get ''decoded'' (PyDict []) raw_log;
          transfer = dict_get ''transfer'' (PyDict []) raw_log;
          topics = parse_topics (dict_get ''topics'' (PyList []) raw_log) in
      rbind (first_topic topics) (\<lambda>topic0.
      let is_transfer = (topic0 = py_lower TRANSFER_TOPIC) in
      rbind (row_authorizer decoded is_transfer topics) (\<lambda>(authorizer, nonce).
      rbind (row_transfer_fields env raw_log transfer authorizer is_transfer topics) (\<lambda>(from_a, to_a, value).
      rbind (expect_str ValidationError (dict_get ''transaction_hash'' (PyStr []) raw_log)) (\<lambda>tx_hash.
      rbind (expect_str ValidationError (dict_get ''block_hash'' (PyStr []) raw_log)) (\<lambda>block_hash.
      rbind (expect_str ValidationError from_a) (\<lambda>from_s.
      rbind (expect_str ValidationError to_a) (\<lambda>to_s.
      rbind (expect_str ValidationError authorizer) (\<lambda>auth_s.
      rbind (expect_str ValidationError nonce) (\<lambda>nonce_s.
        mk_ERC3009Transfer \<lparr>tr_chain_id = chain_id, tr_tx_hash = tx_hash, tr_block_number = block_number,
          tr_block_hash = block_hash, tr_log_index = log_index, tr_from_address = from_s,
          tr_to_address = to_s, tr_value = value, tr_authorizer = auth_s,
          tr_valid_after = 0, tr_valid_before = 0, tr_nonce = nonce_s,
          tr_token = py_or contract (USDC_CONTRACTS chain_id), tr_timestamp = timestamp\<rparr>))))))))))))))))"

section \<open>Any event, from its ABI\<close>

definition find_event_abi :: "pydict list \<Rightarrow> pydict option" where
  "find_event_abi abi = find (\<lambda>e. dict_get ''type'' PyNone e = PyStr ''event'') abi"

fun expect_dicts :: "pyval list \<Rightarrow> pydict list result" where
  "expect_dicts [] = Inr []"
| "expect_dicts (v # vs) = rbind (expect_dict AttributeError v) (\<lambda>d.
     rbind (expect_dicts vs) (\<lambda>ds. Inr (d # ds)))"

definition abi_inputs :: "pydict \<Rightarrow> pydict list result" where
  "abi_inputs event_abi = (case dict_get ''inputs'' (PyList []) event_abi of
      PyList l \<Rightarrow> expect_dicts l | _ \<Rightarrow> Inl TypeError)"

definition is_indexed :: "pydict \<Rightarrow> bool" where
  "is_indexed inp = py_truthy (dict_get ''indexed'' (PyBool False) inp)"

definition topic_int :: "pyval \<Rightarrow> int result" where
  "topic_int t = rbind (expect_str TypeError t) (\<lambda>h. of_option ValueError (py_int16 h))"

definition decode_topic :: "string \<Rightarrow> pyval \<Rightarrow> pyval result" where
  "decode_topic typ topic_hex =
     (if typ = ''address'' then rbind (address_from_topic topic_hex) (\<lambda>a. Inr (PyStr a))
      else if typ = ''bytes32'' \<or> typ = ''bytes'' then Inr topic_hex
      else if py_startswith typ ''uint'' \<or> py_startswith typ ''int''
        then rbind (topic_int topic_hex) (\<lambda>i. Inr (PyInt i))
      else if typ = ''bool'' then rbind (topic_int topic_hex) (\<lambda>i. Inr (PyBool (i \<noteq> 0)))
      else Inr topic_hex)"

text \<open>The loop over the indexed inputs, from topic \<open>i\<close> on.\<close>

fun decode_indexed :: "pydict list \<Rightarrow> nat \<Rightarrow> pyval list \<Rightarrow> pydict \<Rightarrow> pydict result" where
  "decode_indexed [] i topics acc = Inr acc"
| "decode_indexed (inp # inps) i topics acc =
     (if i < length topics then
        rbind (rbind (need ''type'' inp) (expect_str AttributeError)) (\<lambda>typ.
        rbind (decode_topic typ (topics ! i)) (\<lambda>v.
        rbind (rbind (need ''name'' inp) (expect_str TypeError)) (\<lambda>name.
          decode_indexed inps (Suc i) topics (dict_set name v acc))))
      else decode_indexed inps (Suc i) topics acc)"

fun input_types :: "pydict list \<Rightarrow> string list result" where
  "input_types [] = Inr []"
| "input_types (inp # inps) = rbind (rbind (need ''type'' inp) (expect_str TypeError)) (\<lambda>t.
     rbind (input_types inps) (\<lambda>ts. Inr (t # ts)))"

text \<open>The loop over the decoded data values; an exception ends it and is swallowed.\<close>

fun set_values :: "(pydict \<times> pyval) list \<Rightarrow> pydict \<Rightarrow> pydict" where
  "set_values [] acc = acc"
| "set_values ((inp, v) # ps) acc =
     (case map_of inp ''name'' of
        Some (PyStr name) \<Rightarrow>
          set_values ps (dict_set name (case v of PyBytes b \<Rightarrow> PyStr (''0x'' @ bytes_hex b) | _ \<Rightarrow> v) acc)
      | _ \<Rightarrow> acc)"

definition decode_event_with_abi :: "env \<Rightarrow> pydict \<Rightarrow> pydict list \<Rightarrow> pydict result" where
  "decode_event_with_abi env raw_log abi_fragment =
     rbind (of_option ValueError (find_event_abi abi_fragment)) (\<lambda>event_abi.
     let topics = parse_topics (dict_get ''topics'' (PyList []) raw_log);
         raw_data = dict_get ''data'' (PyStr ''0x'') raw_log in
     rbind (if py_truthy raw_data \<and> raw_data \<noteq> PyStr ''0x'' then fromhex raw_data else Inr []) (\<lambda>data_bytes.
     rbind (abi_inputs event_abi) (\<lambda>inputs.
     let indexed = filter is_indexed inputs; non_indexed = filter (Not \<circ> is_indexed) inputs in
     rbind (decode_indexed indexed 1 topics []) (\<lambda>decoded.
     rbind (if non_indexed \<noteq> [] \<and> data_bytes \<noteq> [] then
              rbind (input_types non_indexed) (\<lambda>types.
                Inr (case en_abi_decode env types data_bytes of
                       Inl _ \<Rightarrow> decoded
                     | Inr vs \<Rightarrow> set_values (zip non_indexed vs) decoded))
            else Inr decoded) (\<lambda>decoded.
     rbind (to_int (dict_get ''block_number'' (PyInt 0) raw_log)) (\<lambda>block_number.
     rbind (to_int (dict_get ''log_index'' (PyInt 0) raw_log)) (\<lambda>log_index.
       Inr (dict_set ''_chain_id'' (dict_get ''chain_id'' PyNone raw_log)
           (dict_set ''_address'' (dict_get ''address'' (PyStr []) raw_log)
           (dict_set ''_log_index'' (PyInt log_index)
           (dict_set ''_block_hash'' (dict_get ''block_hash'' (PyStr []) raw_log)
           (dict_set ''_block_number'' (PyInt block_number)
           (dict_set ''_tx_hash'' (dict_get ''transaction_hash'' (PyStr []) raw_log) decoded)))))))))))))"

section \<open>The decoder classes\<close>

definition looks_like_address :: "pyval \<Rightarrow> bool" where
  "looks_like_address v = (case v of PyStr s \<Rightarrow> length s = 42 \<and> py_startswith s ''0x'' | _ \<Rightarrow> False)"

definition AMOUNT_NAMES :: "string list" where
  "AMOUNT_NAMES = [''value'', ''amount'', ''_value'', ''_amount'']"

definition FROM_NAMES :: "string list" where
  "FROM_NAMES = [''from'', ''sender'', ''_from'']"

definition TO_NAMES :: "string list" where
  "TO_NAMES = [''to'', ''recipient'', ''_to'']"

definition str_of :: "pyval \<Rightarrow> string" where
  "str_of v = (case v of PyStr s \<Rightarrow> s | _ \<Rightarrow> [])"

text \<open>
  The single pass of \<open>_extract_payment_fields\<close> keeps the first hit of each kind,
  so each field is the first item whose key is in its set of names (and, for
  the addresses, whose value looks like one).
\<close>

definition extract_payment_fields ::
  "env \<Rightarrow> pydict \<Rightarrow> pydict \<Rightarrow> string option \<times> string option \<times> string option \<times> string option" where
  "extract_payment_fields env decoded raw_log =
     (let amount = map_option (\<lambda>(k, v). py_str (en_py_str env) v)
            (find (\<lambda>(k, v). py_lower k \<in> set AMOUNT_NAMES) decoded);
          from_a = map_option (\<lambda>(k, v). str_of v)
            (find (\<lambda>(k, v). py_lower k \<in> set FROM_NAMES \<and> looks_like_address v) decoded);
          to_a = map_option (\<lambda>(k, v). str_of v)
            (find (\<lambda>(k, v). py_lower k \<in> set TO_NAMES \<and> looks_like_address v) decoded);
          own = dict_get ''_address'' PyNone decoded;
          contract_addr = (if py_truthy own then own else dict_get ''address'' PyNone raw_log);
          token = (if looks_like_address contract_addr then Some (str_of contract_addr) else None)
      in if amount = None then (None, None, None, None) else (amount, token, from_a, to_a))"

definition first_address :: "pydict \<Rightarrow> string option" where
  "first_address decoded = map_option (\<lambda>(k, v). str_of v)
     (find (\<lambda>(k, v). \<not> py_startswith k ''_'' \<and> looks_like_address v) decoded)"

definition abi_can_decode :: "pydict \<Rightarrow> bool" where
  "abi_can_decode raw_log = (parse_topics (dict_get ''topics'' (PyList []) raw_log) \<noteq> [])"

text \<open>
  The envelope is typed: a row whose hashes, address or chain id have the wrong
  JSON type counts as undecodable.
\<close>

definition abi_decode :: "env \<Rightarrow> pydict list \<Rightarrow> pydict \<Rightarrow> DecodedEvent result" where
  "abi_decode env abi raw_log =
     rbind (decode_event_with_abi env raw_log abi) (\<lambda>decoded.
     rbind (first_topic (parse_topics (dict_get ''topics'' (PyList []) raw_log))) (\<lambda>topic0.
     let (amount, token, from_a, to_a) = extract_payment_fields env decoded raw_log in
     rbind (expect_str TypeError (dict_get ''_tx_hash'' (PyStr []) decoded)) (\<lambda>tx_hash.
     rbind (expect_str TypeError (dict_get ''_block_hash'' (PyStr []) decoded)) (\<lambda>block_hash.
     rbind (expect_str TypeError (dict_get ''_address'' (PyStr []) decoded)) (\<lambda>address.
     rbind (to_int (dict_get ''_block_number'' (PyInt 0) decoded)) (\<lambda>block_number.
     rbind (to_int (dict_get ''_log_index'' (PyInt 0) decoded)) (\<lambda>log_index.
     rbind (case dict_get ''_chain_id'' PyNone decoded of
              PyNone \<Rightarrow> Inr None | PyInt c \<Rightarrow> Inr (Some c) | _ \<Rightarrow> Inl TypeError) (\<lambda>chain.
       Inr \<lparr>de_tx_hash = tx_hash, de_block_number = block_number, de_block_hash = block_hash,
         de_log_index = log_index, de_chain_id = chain, de_contract_address = address,
         de_topic0 = topic0, de_fields = decoded, de_raw_log = raw_log,
         de_decoder_name = ''abi_generic'', de_typed_model = None,
         de_identity_address = first_address decoded, de_dedup_key = None,
         de_payment_amount = amount, de_payment_token = token,
         de_payment_from = from_a, de_payment_to = to_a\<rparr>))))))))"

definition erc3009_can_decode :: "pydict \<Rightarrow> bool" where
  "erc3009_can_decode raw_log = (case parse_topics (dict_get ''topics'' (PyList []) raw_log) of
      [] \<Rightarrow> False
    | t # _ \<Rightarrow> py_lower_val t \<in> {Inr (py_lower AUTHORIZATION_USED_TOPIC), Inr (py_lower TRANSFER_TOPIC)})"

definition transfer_dump :: "ERC3009Transfer \<Rightarrow> pydict" where
  "transfer_dump t = [(''chain_id'', PyInt (chain_value (tr_chain_id t))), (''tx_hash'', PyStr (tr_tx_hash t)),
     (''block_number'', PyInt (tr_block_number t)), (''block_hash'', PyStr (tr_block_hash t)),
     (''log_index'', PyInt (tr_log_index t)), (''from_address'', PyStr (tr_from_address t)),
     (''to_address'', PyStr (tr_to_address t)), (''value'', PyStr (tr_value t)),
     (''authorizer'', PyStr (tr_authorizer t)), (''valid_after'', PyInt (tr_valid_after t)),
     (''valid_before'', PyInt (tr_valid_before t)), (''nonce'', PyStr (tr_nonce t)),
     (''token'', PyStr (tr_token t)), (''timestamp'', PyInt (tr_timestamp t))]"

definition erc3009_decode :: "env \<Rightarrow> pydict \<Rightarrow> DecodedEvent result" where
  "erc3009_decode env raw =
     rbind (decode_transfer_event env raw) (\<lambda>transfer.
     let raw_log = normalize_row raw in
     rbind (first_topic (parse_topics (dict_get ''topics'' (PyList []) raw_log))) (\<lambda>topic0.
       Inr \<lparr>de_tx_hash = tr_tx_hash transfer, de_block_number = tr_block_number transfer,
         de_block_hash = tr_block_hash transfer, de_log_index = tr_log_index transfer,
         de_chain_id = Some (chain_value (tr_chain_id transfer)),
         de_contract_address = tr_token transfer, de_topic0 = topic0,
         de_fields = transfer_dump transfer, de_raw_log = raw_log,
         de_decoder_name = ''erc3009'', de_typed_model = Some transfer,
         de_identity_address = (if tr_authorizer transfer = [] then None else Some (tr_authorizer transfer)),
         de_dedup_key = Some (if tr_authorizer transfer \<noteq> []
            then tr_authorizer transfer @ '':'' @ tr_nonce transfer
            else tr_tx_hash transfer @ '':'' @ int_str (tr_log_index transfer)),
         de_payment_amount = Some (tr_value transfer), de_payment_token = Some (tr_token transfer),
         de_payment_from = Some (tr_from_address transfer),
         de_payment_to = Some (tr_to_address transfer)\<rparr>))"

section \<open>Properties\<close>

definition plain_topic :: "string \<Rightarrow> bool" where
  "plain_topic t \<longleftrightarrow> t \<noteq> [] \<and> (\<forall>c \<in> set t. c \<noteq> CHR '','' \<and> \<not> is_space c)"

lemma plain_topic_strip: "plain_topic t \<Longrightarrow> py_strip t = t"
  by (simp add: plain_topic_def py_strip_none)

text \<open>
  The two Goldsky formats carry the same topics: the comma-separated string
  of the Turbo pipeline parses to the list the Mirror pipeline sends.
\<close>

theorem parse_topics_turbo_mirror:
  assumes "\<forall>t \<in> set ts. plain_topic t"
  shows "parse_topics (PyStr (py_join '','' ts)) = parse_topics (PyList (map PyStr ts))"
proof (cases "ts = []")
  case True
  then show ?thesis by (simp add: parse_topics_def py_strip_def)
next
  case False
  have "py_split (CHR '','') (py_join '','' ts) = ts"
    using False assms by (intro py_split_join) (auto simp: plain_topic_def)
  moreover have "filter (\<lambda>t. py_strip t \<noteq> []) ts = ts"
    using assms by (auto simp: plain_topic_strip plain_topic_def filter_id_conv)
  moreover have "map (PyStr \<circ> py_strip) ts = map PyStr ts"
    using assms by (auto simp: plain_topic_strip)
  ultimately show ?thesis by (simp add: parse_topics_def)
qed

theorem parse_topics_turbo_mirror_witness:
  "parse_topics (PyStr ''0xab,0xcd'') = [PyStr ''0xab'', PyStr ''0xcd'']"
  using parse_topics_turbo_mirror[of "[''0xab'', ''0xcd'']"]
  by (simp add: parse_topics_def plain_topic_def is_space_def code_def)

lemma validate_contract_Inr [simp]:
  "validate_contract c ch = Inr u \<longleftrightarrow> c = py_lower (USDC_CONTRACTS ch)"
  by (simp add: validate_contract_def)

lemma usdc_no_space: "py_strip (py_lower (USDC_CONTRACTS c)) = py_lower (USDC_CONTRACTS c)"
  "py_strip (USDC_CONTRACTS c) = USDC_CONTRACTS c"
  by (cases c; simp add: py_strip_def py_lower_def USDC_CONTRACTS_def is_space_def lower_char_def code_def)+

lemma mk_ERC3009Transfer_fields:
  assumes "mk_ERC3009Transfer t = Inr u"
  shows "tr_chain_id u = tr_chain_id t" "tr_token u = py_strip (tr_token t)"
    "tr_from_address u = py_strip (tr_from_address t)" "tr_to_address u = py_strip (tr_to_address t)"
    "tr_authorizer u = py_strip (tr_authorizer t)" "tr_block_number u = tr_block_number t"
    "tr_log_index u = tr_log_index t" "tr_nonce u = py_strip (tr_nonce t)"
  using assms by (auto simp: mk_ERC3009Transfer_def rbind_eq_Inr EthAddress_Inr)

lemma decode_transfer_event_wf:
  "all_ok (\<lambda>t. wf_transfer t \<and> py_lower (tr_token t) = py_lower (USDC_CONTRACTS (tr_chain_id t)))
     (decode_transfer_event env raw)"
  unfolding decode_transfer_event_def
proof (intro ok_intros all_okI, goal_cases)
  case prems: (1 raw_log contract chain_id u block_number log_index timestamp decoded transfer topics
      topic0 is_transfer p authorizer nonce p' from_a q to_a "value" tx_hash block_hash from_s to_s auth_s nonce_s t)
  then have "contract \<noteq> [] \<longrightarrow> contract = py_lower (USDC_CONTRACTS chain_id)"
    by (simp split: if_splits)
  with prems(24) show ?case
    using mk_ERC3009Transfer_wf[OF prems(24)] mk_ERC3009Transfer_fields[OF prems(24)]
    by (cases "contract = []") (auto simp: py_or_def usdc_no_space)
qed

lemma map_of_normalize_row:
  "k \<noteq> ''from_address'' \<Longrightarrow> k \<noteq> ''to_address'' \<Longrightarrow> map_of (normalize_row raw) k = map_of raw k"
  by (simp add: normalize_row_def alias_key_def map_of_dict_set split: option.splits)

lemma dict_get_normalize_row:
  "k \<noteq> ''from_address'' \<Longrightarrow> k \<noteq> ''to_address'' \<Longrightarrow> dict_get k u (normalize_row raw) = dict_get k u raw"
  by (simp add: dict_get_def map_of_normalize_row)

text \<open>A pre-decoded (Mirror) row: the event and the joined transfer are both present.\<close>

definition mirror_row :: "ERC3009Transfer \<Rightarrow> pyval \<Rightarrow> pydict" where
  "mirror_row t topics = [(''address'', PyStr (USDC_CONTRACTS (tr_chain_id t))),
     (''chain_id'', PyInt (chain_value (tr_chain_id t))),
     (''transaction_hash'', PyStr (tr_tx_hash t)), (''block_hash'', PyStr (tr_block_hash t)),
     (''block_number'', PyInt (tr_block_number t)), (''log_index'', PyInt (tr_log_index t)),
     (''block_timestamp'', PyInt (tr_timestamp t)), (''topics'', topics),
     (''decoded'', PyDict [(''authorizer'', PyStr (tr_authorizer t)), (''nonce'', PyStr (tr_nonce t))]),
     (''transfer'', PyDict [(''from_address'', PyStr (tr_from_address t)),
        (''to_address'', PyStr (tr_to_address t)), (''value'', PyStr (tr_value t))])]"

definition stripped :: "ERC3009Transfer \<Rightarrow> bool" where
  "stripped t \<longleftrightarrow> py_strip (tr_tx_hash t) = tr_tx_hash t \<and> py_strip (tr_block_hash t) = tr_block_hash t \<and>
     py_strip (tr_value t) = tr_value t \<and> py_strip (tr_nonce t) = tr_nonce t"

lemma usdc_lower_nonempty: "py_lower (USDC_CONTRACTS c) \<noteq> []"
  by (cases c) (simp_all add: USDC_CONTRACTS_def)

lemma mk_ERC3009Transfer_id:
  assumes "wf_transfer t" and "stripped t" and "py_strip (tr_token t) = tr_token t"
  shows "mk_ERC3009Transfer t = Inr t"
  using assms by (simp add: mk_ERC3009Transfer_def wf_transfer_def stripped_def)

lemma mirror_row_recovered:
  assumes wf: "wf_transfer t" "stripped t"
    and t0: "parse_topics topics = PyStr s # ts" "py_lower s \<noteq> py_lower TRANSFER_TOPIC"
    and unset: "tr_valid_after t = 0" "tr_valid_before t = 0"
  shows "decode_transfer_event env (mirror_row t topics) =
     Inr (t\<lparr>tr_token := py_lower (USDC_CONTRACTS (tr_chain_id t))\<rparr>)"
proof -
  have "tr_from_address t \<noteq> []" using wf by (auto simp: wf_transfer_def is_eth_address_def)
  then have "decode_transfer_event env (mirror_row t topics) =
      mk_ERC3009Transfer (t\<lparr>tr_token := py_lower (USDC_CONTRACTS (tr_chain_id t))\<rparr>)"
    using t0 unset usdc_lower_nonempty
    by (cases t) (simp add: decode_transfer_event_def mirror_row_def dict_get_def map_of_normalize_row
        resolve_chain_id_def chain_of_pyval_def validate_contract_def to_int_def first_topic_def
        row_authorizer_def row_transfer_fields_def py_truthy_def py_or_def py_str_def Let_def)
  also have "\<dots> = Inr (t\<lparr>tr_token := py_lower (USDC_CONTRACTS (tr_chain_id t))\<rparr>)"
    using wf by (intro mk_ERC3009Transfer_id) (simp_all add: wf_transfer_def stripped_def usdc_no_space)
  finally show ?thesis .
qed

text \<open>
  Decoding inverts what the Mirror pipeline sends: from the row of a
  well-formed transfer whose topic is not the plain \<open>Transfer\<close> event, the decoder
  recovers that transfer (with the contract address in lower case as its token).
\<close>

theorem decode_mirror_row:
  assumes wf: "wf_transfer t" "stripped t"
    and t0: "parse_topics topics = PyStr s # ts" "py_lower s \<noteq> py_lower TRANSFER_TOPIC"
    and unset: "tr_valid_after t = 0" "tr_valid_before t = 0"
  shows "decode_transfer_event env (mirror_row t topics) =
     Inr (t\<lparr>tr_token := py_lower (USDC_CONTRACTS (tr_chain_id t))\<rparr>)"
  using assms by (rule mirror_row_recovered)

definition sample_transfer :: ERC3009Transfer where
  "sample_transfer = \<lparr>tr_chain_id = BASE, tr_tx_hash = ''0xfeed'', tr_block_number = 90,
     tr_block_hash = ''0xb10c'', tr_log_index = 2,
     tr_from_address = ''0x1111111111111111111111111111111111111111'',
     tr_to_address = ''0x2222222222222222222222222222222222222222'', tr_value = ''1000000'',
     tr_authorizer = ''0x1111111111111111111111111111111111111111'',
     tr_valid_after = 0, tr_valid_before = 0, tr_nonce = ''0xaa'',
     tr_token = ''0x833589fcd6edb6e08f4c7c32d4f71b54bda02913'', tr_timestamp = 5\<rparr>"

definition auth_topics :: pyval where
  "auth_topics = PyStr AUTHORIZATION_USED_TOPIC"

lemma sample_transfer_wf: "wf_transfer sample_transfer" "stripped sample_transfer"
  by (simp_all add: sample_transfer_def wf_transfer_def stripped_def is_eth_address_def py_startswith_def
      is_hex_def is_digit_def code_def py_strip_def is_space_def)

lemma auth_topics_parse:
  "parse_topics auth_topics = [PyStr AUTHORIZATION_USED_TOPIC]"
  "py_lower AUTHORIZATION_USED_TOPIC \<noteq> py_lower TRANSFER_TOPIC"
  by (simp_all add: auth_topics_def parse_topics_def AUTHORIZATION_USED_TOPIC_def TRANSFER_TOPIC_def
      py_strip_def is_space_def code_def py_lower_def lower_char_def)

theorem decode_mirror_row_witness:
  "\<exists>t. decode_transfer_event calm_env (mirror_row sample_transfer auth_topics) = Inr t"
  using decode_mirror_row[OF sample_transfer_wf auth_topics_parse] by (auto simp: sample_transfer_def)

lemma mk_ERC3009Transfer_nonempty:
  "mk_ERC3009Transfer t = Inr u \<Longrightarrow> tr_to_address t \<noteq> [] \<and> tr_authorizer t \<noteq> [] \<and> tr_from_address t \<noteq> []"
  by (auto simp: mk_ERC3009Transfer_def rbind_eq_Inr)

text \<open>A row of another event than \<open>Transfer\<close> needs the joined transfer: without it the recipient is empty.\<close>

lemma no_transfer_part_fails:
  assumes "first_topic (parse_topics (dict_get ''topics'' (PyList []) row)) \<noteq> Inr (py_lower TRANSFER_TOPIC)"
    and "dict_get ''transfer'' (PyDict []) row = PyDict []"
  shows "all_ok (\<lambda>_. False) (decode_transfer_event env row)"
  unfolding decode_transfer_event_def
proof (intro ok_intros all_okI, goal_cases)
  case prems: (1 raw_log contract chain_id u block_number log_index timestamp decoded transfer topics
      topic0 is_transfer p authorizer nonce p' from_a q to_a "value" tx_hash block_hash from_s to_s auth_s nonce_s t)
  have ne: "to_s \<noteq> []" using mk_ERC3009Transfer_nonempty[OF prems(24)] by simp
  have no: "\<not> is_transfer" "transfer = PyDict []"
    using assms prems(1,9,10,11,12) by (auto simp: dict_get_normalize_row)
  have "to_a = PyStr []"
    using no prems(15,16,17) by (auto simp: row_transfer_fields_def dict_get_def Let_def)
  with prems(21) ne show ?case by simp
qed

text \<open>
  C14. Whatever a row contains, a transfer that is decoded from it has well-formed sender, recipient
  and authorizer addresses, its token is the USDC contract of its chain, and the row is that of a
  \<open>Transfer\<close> event or carries a joined transfer. In particular a lone \<open>AuthorizationUsed\<close> row never
  yields a transfer without a recipient, which the fallback of the decoder and its test intend: the
  address pattern of \<open>ERC3009Transfer\<close> rejects the empty string.
\<close>

theorem decode_transfer_event_sound:
  assumes "decode_transfer_event env raw = Inr t"
  shows "wf_transfer t \<and> py_lower (tr_token t) = py_lower (USDC_CONTRACTS (tr_chain_id t)) \<and>
    (first_topic (parse_topics (dict_get ''topics'' (PyList []) raw)) = Inr (py_lower TRANSFER_TOPIC) \<or>
     dict_get ''transfer'' (PyDict []) raw \<noteq> PyDict [])"
proof -
  have "wf_transfer t \<and> py_lower (tr_token t) = py_lower (USDC_CONTRACTS (tr_chain_id t))"
    using decode_transfer_event_wf assms by (rule all_okD)
  then show ?thesis using no_transfer_part_fails[of raw env] assms by (auto simp: all_ok_def)
qed

theorem decode_transfer_event_sound_witness:
  "\<exists>t. decode_transfer_event calm_env (mirror_row sample_transfer auth_topics) = Inr t \<and> wf_transfer t \<and>
    dict_get ''transfer'' (PyDict []) (mirror_row sample_transfer auth_topics) \<noteq> PyDict []"
proof -
  obtain t where t: "decode_transfer_event calm_env (mirror_row sample_transfer auth_topics) = Inr t"
    using mirror_row_recovered[OF sample_transfer_wf auth_topics_parse] by (auto simp: sample_transfer_def)
  have "first_topic (parse_topics (dict_get ''topics'' (PyList []) (mirror_row sample_transfer auth_topics))) \<noteq> Inr (py_lower TRANSFER_TOPIC)"
    using auth_topics_parse by (simp add: mirror_row_def dict_get_def first_topic_def)
  with decode_transfer_event_sound[OF t] show ?thesis using t by blast
qed

text \<open>
  A raw single-event row never decodes. A Turbo row without a pre-decoded
  part leaves either the authorizer (a raw \<open>Transfer\<close> event) or the recipient (a
  raw \<open>AuthorizationUsed\<close> event with no joined transfer) empty, and the model's
  address validation rejects the empty string, so the "raw" path that the
  docstring describes always ends in an exception.
\<close>

theorem raw_rows_never_decode:
  assumes raw: "\<not> py_truthy (dict_get ''decoded'' (PyDict []) row)"
    and kind: "first_topic (parse_topics (dict_get ''topics'' (PyList []) row)) = Inr (py_lower TRANSFER_TOPIC)
      \<or> dict_get ''transfer'' (PyDict []) row = PyDict []"
  shows "\<not> is_ok (decode_transfer_event env row)"
proof -
  have "all_ok (\<lambda>_. False) (decode_transfer_event env row)"
    unfolding decode_transfer_event_def
  proof (intro ok_intros all_okI, goal_cases)
    case prems: (1 raw_log contract chain_id u block_number log_index timestamp decoded transfer topics
        topic0 is_transfer p authorizer nonce p' from_a q to_a "value" tx_hash block_hash from_s to_s auth_s nonce_s t)
    have ne: "to_s \<noteq> []" "auth_s \<noteq> []"
      using mk_ERC3009Transfer_nonempty[OF prems(24)] by simp_all
    have raw': "\<not> py_truthy decoded" using raw prems(1,8) by (simp add: dict_get_normalize_row)
    show False
    proof (cases is_transfer)
      case True
      then have "authorizer = PyStr []" using raw' prems(13,14) by (simp add: row_authorizer_def)
      with prems(22) ne show False by simp
    next
      case False
      with kind prems(1,9,10,11,12) have "transfer = PyDict []" by (auto simp: dict_get_normalize_row)
      then have "to_a = PyStr []"
        using False prems(15,16,17) by (auto simp: row_transfer_fields_def dict_get_def Let_def)
      with prems(21) ne show False by simp
    qed
  qed
  then show ?thesis by (auto simp: all_ok_def is_ok_def split: sum.splits)
qed

theorem raw_rows_never_decode_witness:
  "\<not> is_ok (decode_transfer_event calm_env [(''topics'', auth_topics), (''chain_id'', PyInt 8453)])"
  using raw_rows_never_decode[of "[(''topics'', auth_topics), (''chain_id'', PyInt 8453)]" calm_env]
  by (simp add: dict_get_def py_truthy_def)

section \<open>Transaction logs\<close>

definition usdc_log :: "string \<Rightarrow> pydict \<Rightarrow> bool" where
  "usdc_log topic l \<longleftrightarrow> log_topic0 l = Inr (Some (py_lower topic)) \<and>
     (\<exists>a. dict_get ''address'' (PyStr []) l = PyStr a \<and> map_of CONTRACT_TO_CHAIN (py_lower a) \<noteq> None)"

lemma scan_logs_sound:
  assumes "scan_logs logs (t0, a0) = Inr (t, a)"
  shows "(t = t0 \<or> (\<exists>l \<in> set logs. t = Some l \<and> usdc_log TRANSFER_TOPIC l)) \<and>
     (a = a0 \<or> (\<exists>l \<in> set logs. a = Some l \<and> usdc_log AUTHORIZATION_USED_TOPIC l))"
  using assms
proof (induction logs arbitrary: t0 a0)
  case Nil
  then show ?case by simp
next
  case (Cons l logs)
  obtain r where r: "log_topic0 l = Inr r" using Cons.prems by (auto simp: rbind_eq_Inr)
  show ?case
  proof (cases r)
    case None
    with Cons r show ?thesis by fastforce
  next
    case (Some s)
    with Cons.prems r obtain ad where ad: "dict_get ''address'' (PyStr []) l = PyStr ad"
      by (auto simp: rbind_eq_Inr)
    from Cons.prems r Some ad have step: "scan_logs logs
        (if map_of CONTRACT_TO_CHAIN (py_lower ad) \<noteq> None \<and> s = py_lower TRANSFER_TOPIC then Some l else t0,
         if map_of CONTRACT_TO_CHAIN (py_lower ad) \<noteq> None \<and> s \<noteq> py_lower TRANSFER_TOPIC \<and>
            s = py_lower AUTHORIZATION_USED_TOPIC then Some l else a0) = Inr (t, a)"
      by (auto split: if_splits)
    from Cons.IH[OF step] r Some ad show ?thesis
      by (auto simp: usdc_log_def split: if_splits)
  qed
qed

text \<open>
  A transfer is decoded from a transaction only if the transaction holds
  both a \<open>Transfer\<close> and an \<open>AuthorizationUsed\<close> log of a USDC contract; the result
  is well formed and its token is the USDC contract of the resolved chain.
\<close>

theorem decode_erc3009_from_logs_sound:
  assumes "decode_erc3009_from_logs env logs chain_id = Inr t"
  shows "(\<exists>l \<in> set logs. usdc_log TRANSFER_TOPIC l) \<and>
     (\<exists>l \<in> set logs. usdc_log AUTHORIZATION_USED_TOPIC l) \<and>
     wf_transfer t \<and> tr_token t = py_lower (USDC_CONTRACTS (tr_chain_id t)) \<and>
     (\<forall>c. chain_id = Some c \<longrightarrow> tr_chain_id t = c)"
proof -
  let ?P = "\<lambda>t. (\<exists>l \<in> set logs. usdc_log TRANSFER_TOPIC l) \<and>
     (\<exists>l \<in> set logs. usdc_log AUTHORIZATION_USED_TOPIC l) \<and>
     wf_transfer t \<and> tr_token t = py_lower (USDC_CONTRACTS (tr_chain_id t)) \<and>
     (\<forall>c. chain_id = Some c \<longrightarrow> tr_chain_id t = c)"
  have "all_ok ?P (decode_erc3009_from_logs env logs chain_id)"
    unfolding decode_erc3009_from_logs_def
  proof (intro ok_intros all_okI, goal_cases)
    case prems: (1 p tl al tlog alog contract chain u q from_a r to_a "value" q' authorizer nonce
        block_number log_index timestamp txv bhv tx_hash block_hash nonce_s t)
    have "(\<exists>l \<in> set logs. usdc_log TRANSFER_TOPIC l) \<and> (\<exists>l \<in> set logs. usdc_log AUTHORIZATION_USED_TOPIC l)"
      using scan_logs_sound[of logs None None tl al] prems(1-4) by auto
    moreover have "contract = py_lower (USDC_CONTRACTS chain)" using prems(7) by simp
    moreover have "mk_ERC3009Transfer \<lparr>tr_chain_id = chain, tr_tx_hash = tx_hash, tr_block_number = block_number,
         tr_block_hash = block_hash, tr_log_index = log_index, tr_from_address = from_a,
         tr_to_address = to_a, tr_value = value, tr_authorizer = authorizer,
         tr_valid_after = 0, tr_valid_before = 0, tr_nonce = nonce_s, tr_token = contract,
         tr_timestamp = timestamp\<rparr> = Inr t" by fact
    moreover have "\<forall>c. chain_id = Some c \<longrightarrow> chain = c" using prems(6) by auto
    ultimately show ?case
      using mk_ERC3009Transfer_wf mk_ERC3009Transfer_fields by (fastforce simp: usdc_no_space)
  qed
  then show ?thesis using assms by (rule all_okD)
qed

section \<open>Indexed integers\<close>

lemma digit_val_nonneg: "is_hex c \<Longrightarrow> 0 \<le> digit_val c"
  by (auto simp: digit_val_def is_hex_def is_digit_def)

lemma digits_val_nonneg:
  assumes "\<forall>c \<in> set s. is_hex c" and "0 \<le> b"
  shows "0 \<le> digits_val b s"
proof -
  have "0 \<le> foldl (\<lambda>a c. a * b + digit_val c) a s" if "0 \<le> a" "\<forall>c \<in> set s. is_hex c" for a
    using that
  proof (induction s arbitrary: a)
    case (Cons c s)
    have "0 \<le> a * b + digit_val c" using Cons.prems assms(2) digit_val_nonneg by simp
    with Cons show ?case by simp
  qed simp
  then show ?thesis using assms(1) by (simp add: digits_val_def)
qed

lemma digit_groups_set: "digit_groups ok s = Some ds \<Longrightarrow> \<forall>c \<in> set ds. ok c"
proof (induction ok s arbitrary: ds rule: digit_groups.induct)
  case (3 ok c d s)
  from 3(3) obtain ds' where ds: "ds = c # ds'" "ok c"
    and rest: "if d = CHR ''_'' then digit_groups ok s = Some ds' else digit_groups ok (d # s) = Some ds'"
    by (auto split: if_splits)
  have "\<forall>x \<in> set ds'. ok x"
  proof (cases "d = CHR ''_''")
    case True
    with 3(1)[of ds'] rest ds(2) show ?thesis by simp
  next
    case False
    with 3(2)[of ds'] rest ds(2) show ?thesis by simp
  qed
  with ds show ?case by simp
qed (auto split: if_splits)

text \<open>
  An indexed signed integer is read as unsigned: whatever the integer type
  of the ABI input, a topic without a sign character decodes to a non-negative
  number, so no negative \<open>intN\<close> value of an event can be seen by the filters.
\<close>

theorem indexed_int_never_negative:
  assumes "decode_topic typ (PyStr (''0x'' @ ds)) = Inr (PyInt i)"
  shows "0 \<le> i"
proof -
  have strip: "split_sign (py_strip (''0x'' @ ds)) = (False, py_strip (''0x'' @ ds))"
  proof -
    have "\<exists>u. py_strip (CHR ''0'' # v) = CHR ''0'' # u" for v
    proof -
      have "\<not> is_space (CHR ''0'')" by (simp add: is_space_def code_def)
      then have "py_strip (CHR ''0'' # v) = rev (dropWhile is_space (rev v @ [CHR ''0'']))"
        by (simp add: py_strip_def)
      also have "\<dots> = rev (dropWhile is_space (rev v) @ [CHR ''0''])"
        using \<open>\<not> is_space (CHR ''0'')\<close>
        by (induction "rev v" arbitrary: v) (auto simp: dropWhile_append3 dropWhile_append)
      finally show ?thesis by simp
    qed
    then obtain u where "py_strip (''0x'' @ ds) = CHR ''0'' # u" by auto
    then show ?thesis by (simp add: split_sign_def)
  qed
  from assms have "py_int16 (''0x'' @ ds) = Some i"
    by (auto simp: decode_topic_def topic_int_def rbind_eq_Inr split: if_splits)
  then obtain g where "digit_groups is_hex (strip_0x (py_strip (''0x'' @ ds))) = Some g" "i = digits_val 16 g"
    unfolding py_int16_def strip by (auto split: option.splits)
  then show ?thesis using digit_groups_set digits_val_nonneg by fastforce
qed

lemmas eval_strings = py_int16_def py_int_def strip_0x_def split_sign_def py_strip_def is_space_def code_def
  py_startswith_def py_lower_def lower_char_def is_hex_def is_digit_def digits_val_def digit_val_def
  py_removeprefix_def py_last_def

theorem indexed_int_never_negative_witness:
  "decode_topic ''int256'' (PyStr ''0xffffffffffffffffffffffffffffffffffffffffffffffffffffffffffffffff'') = Inr (PyInt (2 ^ 256 - 1)) \<and> (0::int) \<le> 2 ^ 256 - 1"
proof -
  have "decode_topic ''int256'' (PyStr (''0x'' @ ''ffffffffffffffffffffffffffffffffffffffffffffffffffffffffffffffff'')) = Inr (PyInt (2 ^ 256 - 1))"
    by (simp add: decode_topic_def topic_int_def eval_strings)
  with indexed_int_never_negative[OF this] show ?thesis by simp
qed

definition sample_logs :: "pydict list" where
  "sample_logs = [
     [(''address'', PyStr (USDC_CONTRACTS BASE)),
      (''topics'', PyList [PyStr TRANSFER_TOPIC, PyStr ''0x1111111111111111111111111111111111111111'',
         PyStr ''0x2222222222222222222222222222222222222222'']),
      (''data'', PyStr ''0x05''), (''blockNumber'', PyInt 9), (''logIndex'', PyInt 1),
      (''transactionHash'', PyStr ''0xfeed''), (''blockHash'', PyStr ''0xb10c'')],
     [(''address'', PyStr (USDC_CONTRACTS BASE)),
      (''topics'', PyList [PyStr AUTHORIZATION_USED_TOPIC, PyStr ''0x1111111111111111111111111111111111111111'',
         PyStr ''0xaa''])]]"

lemma CONTRACT_TO_CHAIN_BASE: "map_of CONTRACT_TO_CHAIN (py_lower (USDC_CONTRACTS BASE)) = Some BASE"
  by (simp add: CONTRACT_TO_CHAIN_def)

lemma sample_logs_decode: "is_ok (decode_erc3009_from_logs calm_env sample_logs None)"
  using auth_topics_parse(2)
  by (simp add: decode_erc3009_from_logs_def sample_logs_def log_topic0_def dict_get_def need_def
      CONTRACT_TO_CHAIN_BASE resolve_chain_id_def decode_transfer_log_def get_topics_def index_topic_def
      address_from_topic_def fromhex_def decode_uint256_def calm_env_def decode_authorization_used_def
      to_int_def mk_ERC3009Transfer_def EthAddress_def is_eth_address_def py_str_def
      py_removeprefix_def py_last_def py_startswith_def is_hex_def is_digit_def code_def
      py_strip_def is_space_def is_ascii_space_def validate_contract_def)

theorem decode_erc3009_from_logs_sound_witness:
  "\<exists>t. decode_erc3009_from_logs calm_env sample_logs None = Inr t \<and> wf_transfer t"
proof -
  obtain t where t: "decode_erc3009_from_logs calm_env sample_logs None = Inr t"
    using sample_logs_decode by (auto simp: is_ok_def split: sum.splits)
  with decode_erc3009_from_logs_sound[OF t] show ?thesis by blast
qed

section \<open>The decoder protocol\<close>

text \<open>
  The interface of \<open>decoders/protocol.py\<close> with what its clients rely on: the
  envelope names its decoder, keeps the first topic in lower case, and carries
  payment metadata only together with an amount.
\<close>

locale decoder_protocol =
  fixes name :: string
    and decode :: "pydict \<Rightarrow> DecodedEvent result"
  assumes decoder_name: "decode r = Inr d \<Longrightarrow> de_decoder_name d = name"
    and topic0_lower: "decode r = Inr d \<Longrightarrow> py_lower (de_topic0 d) = de_topic0 d"
    and payment_together: "decode r = Inr d \<Longrightarrow> de_payment_amount d = None \<Longrightarrow>
      de_payment_token d = None \<and> de_payment_from d = None \<and> de_payment_to d = None"
begin

lemma onchain_event_kind:
  assumes "decode r = Inr d"
  shows "case decoded_event_to_onchain_event uuid d ex ts ident eid src of
      Inl e \<Rightarrow> de_payment_amount d = None \<and> oe_event_type e = ''decoded.'' @ name \<and> oe_tx_hash e = de_tx_hash d
    | Inr p \<Rightarrow> de_payment_amount d = Some (pd_amount (pe_payment p)) \<and>
        oe_event_type p = ''payment.'' @ name \<and> oe_tx_hash p = de_tx_hash d"
  using decoder_name[OF assms]
  by (auto simp: decoded_event_to_onchain_event_def Let_def OnchainEvent.defs PaymentEvent.defs split: option.splits)

end

lemma first_topic_lower: "first_topic ts = Inr t \<Longrightarrow> py_lower t = t"
  by (auto simp: first_topic_def split: list.splits)

interpretation erc3009: decoder_protocol "''erc3009''" "erc3009_decode env" for env
  by unfold_locales
     (auto simp: erc3009_decode_def rbind_eq_Inr Let_def dest: first_topic_lower)

lemma extract_payment_together:
  "extract_payment_fields env d r = (None, t, f, u) \<Longrightarrow> t = None \<and> f = None \<and> u = None"
  by (auto simp: extract_payment_fields_def Let_def split: if_splits)

lemma abi_decode_envelope:
  "all_ok (\<lambda>d. de_decoder_name d = ''abi_generic'' \<and> py_lower (de_topic0 d) = de_topic0 d \<and>
     (de_payment_amount d = None \<longrightarrow>
        de_payment_token d = None \<and> de_payment_from d = None \<and> de_payment_to d = None))
   (abi_decode env abi r)"
  unfolding abi_decode_def
  by (intro ok_intros) (auto dest: first_topic_lower extract_payment_together[OF sym])

interpretation abi_generic: decoder_protocol "''abi_generic''" "abi_decode env abi" for env abi
  by unfold_locales (auto dest: all_okD[OF abi_decode_envelope])

text \<open>
  Both decoders feed the same event model: an ERC-3009 row always becomes a
  payment event of type \<open>payment.erc3009\<close>, and a row decoded from an ABI becomes a
  payment event exactly when an amount was extracted from its fields.
\<close>

theorem decoded_events_classified:
  assumes "erc3009_decode env r = Inr d" and "abi_decode env abi r' = Inr d'"
  shows "(\<exists>p. decoded_event_to_onchain_event uuid d ex ts ident eid src = Inr p \<and>
            oe_event_type p = ''payment.erc3009'') \<and>
     (isl (decoded_event_to_onchain_event uuid d' ex ts ident eid src) \<longleftrightarrow> de_payment_amount d' = None)"
proof -
  have "de_payment_amount d \<noteq> None"
    using assms(1) by (auto simp: erc3009_decode_def rbind_eq_Inr Let_def)
  then show ?thesis
    using erc3009.onchain_event_kind[OF assms(1), of uuid ex ts ident eid src]
      abi_generic.onchain_event_kind[OF assms(2), of uuid ex ts ident eid src]
    by (auto simp: isl_def split: sum.splits)
qed

definition sample_abi :: "pydict list" where
  "sample_abi = [[(''type'', PyStr ''event''), (''name'', PyStr ''Ping'')]]"

lemma sample_decodes:
  "is_ok (erc3009_decode calm_env (mirror_row sample_transfer auth_topics))"
  "is_ok (abi_decode calm_env sample_abi (mirror_row sample_transfer auth_topics))"
proof -
  have t: "first_topic (parse_topics (dict_get ''topics'' (PyList []) (mirror_row sample_transfer auth_topics))) =
      Inr (py_lower AUTHORIZATION_USED_TOPIC)"
    by (simp add: mirror_row_def dict_get_def auth_topics_parse first_topic_def)
  show "is_ok (erc3009_decode calm_env (mirror_row sample_transfer auth_topics))"
    using mirror_row_recovered[OF sample_transfer_wf auth_topics_parse, of calm_env] t
    by (simp add: erc3009_decode_def sample_transfer_def Let_def dict_get_normalize_row)
  have "decode_event_with_abi calm_env (mirror_row sample_transfer auth_topics) sample_abi =
      Inr [(''_tx_hash'', PyStr ''0xfeed''), (''_block_number'', PyInt 90), (''_block_hash'', PyStr ''0xb10c''),
        (''_log_index'', PyInt 2), (''_address'', PyStr (USDC_CONTRACTS BASE)), (''_chain_id'', PyInt (chain_value BASE))]"
    by (simp add: decode_event_with_abi_def sample_abi_def find_event_abi_def abi_inputs_def
        mirror_row_def py_simps to_int_def py_truthy_def Let_def sample_transfer_def)
  then show "is_ok (abi_decode calm_env sample_abi (mirror_row sample_transfer auth_topics))"
    using t by (simp add: abi_decode_def py_simps to_int_def Let_def split: prod.split)
qed

theorem decoded_events_classified_witness:
  "\<exists>d p. erc3009_decode calm_env (mirror_row sample_transfer auth_topics) = Inr d \<and>
     decoded_event_to_onchain_event ''u'' d (derive_execution_metadata PAYMENT_PENDING None) 0 None None ''onchain'' = Inr p"
proof -
  obtain d d' where "erc3009_decode calm_env (mirror_row sample_transfer auth_topics) = Inr d"
    "abi_decode calm_env sample_abi (mirror_row sample_transfer auth_topics) = Inr d'"
    using sample_decodes by (auto simp: is_ok_def split: sum.splits)
  with decoded_events_classified[OF this] show ?thesis by blast
qed

end
