(* ===== verification/Finality.thy ===== *)
theory Finality
  imports Store
begin

text \<open>
  \<open>tripwire/rpc.py\<close> and \<open>tripwire/ingestion/finality.py\<close>: the JSON-RPC primitives
  over an HTTP client that may answer anything or raise, and the finality
  check built on them.
\<close>

section \<open>JSON-RPC\<close>

definition get_rpc_url :: "env \<Rightarrow> int \<Rightarrow> string result" where
  "get_rpc_url env chain_id =
     (let url = (if chain_id \<in> {1, 8453, 42161} then en_rpc_url env chain_id else [])
      in if url = [] then Inl ValueError else Inr url)"

definition http_rpc :: "env \<Rightarrow> string \<Rightarrow> rpc_request \<Rightarrow> pydict io" where
  "http_rpc env url req = ebind tick (\<lambda>n. elift (en_http_rpc env n url req))"

definition eth_call :: "env \<Rightarrow> int \<Rightarrow> string \<Rightarrow> string \<Rightarrow> string option io" where
  "eth_call env chain_id to_addr data =
     ebind (elift (get_rpc_url env chain_id)) (\<lambda>url.
     ecatch (ebind (http_rpc env url (Eth_call to_addr data)) (\<lambda>body.
        case dict_get ''result'' PyNone body of
          PyStr r \<Rightarrow> eret (if r = [] \<or> r = ''0x'' \<or> length r < 66 then None else Some r)
        | v \<Rightarrow> (if py_truthy v then eraise TypeError else eret None)))
       (\<lambda>_. eret None))"

definition eth_block_number :: "env \<Rightarrow> int \<Rightarrow> int io" where
  "eth_block_number env chain_id =
     ebind (elift (get_rpc_url env chain_id)) (\<lambda>url.
     ebind (http_rpc env url Eth_blockNumber) (\<lambda>data.
       if dict_has ''error'' data then eraise RuntimeError
       else (case map_of data ''result'' of
               None \<Rightarrow> eraise KeyError
             | Some (PyStr h) \<Rightarrow> elift (of_option ValueError (py_int16 h))
             | Some _ \<Rightarrow> eraise TypeError)))"

definition get_block_number :: "env \<Rightarrow> ChainId \<Rightarrow> int io" where
  "get_block_number env chain_id = eth_block_number env (chain_value chain_id)"

text \<open>A hash that is not a string counts as absent: its callers only lower-case it.\<close>

definition get_block_hash :: "env \<Rightarrow> int \<Rightarrow> int \<Rightarrow> string option io" where
  "get_block_hash env chain_id block_number =
     ebind (elift (get_rpc_url env chain_id)) (\<lambda>url.
     ecatch (ebind (http_rpc env url (Eth_getBlockByNumber block_number)) (\<lambda>data.
        case dict_get ''result'' PyNone data of
          PyDict d \<Rightarrow> (case dict_get ''hash'' PyNone d of
              PyStr h \<Rightarrow> eret (Some h) | _ \<Rightarrow> eret None)
        | _ \<Rightarrow> eret None))
       (\<lambda>_. eret None))"

section \<open>Finality\<close>

definition finality_status ::
  "ChainId \<Rightarrow> int \<Rightarrow> string \<Rightarrow> int \<Rightarrow> int option \<Rightarrow> FinalityStatus" where
  "finality_status chain block_number tx_hash current_block required_depth =
     (let required = (case required_depth of Some d \<Rightarrow> d | None \<Rightarrow> FINALITY_DEPTHS chain);
          confirmations = max 0 (current_block - block_number);
          is_finalized = (confirmations \<ge> required)
      in \<lparr>fs_tx_hash = tx_hash, fs_chain_id = chain, fs_block_number = block_number,
          fs_confirmations = confirmations, fs_required_confirmations = required,
          fs_is_finalized = is_finalized,
          fs_finalized_at = (if is_finalized then Some current_block else None)\<rparr>)"

definition check_finality_generic ::
  "env \<Rightarrow> int \<Rightarrow> int \<Rightarrow> string \<Rightarrow> int option \<Rightarrow> int option \<Rightarrow> FinalityStatus io" where
  "check_finality_generic env chain_id block_number tx_hash current_block required_depth =
     ebind (elift (of_option ValueError (chain_of_int chain_id))) (\<lambda>chain.
     ebind (case current_block of Some b \<Rightarrow> eret b | None \<Rightarrow> get_block_number env chain) (\<lambda>cur.
       eret (finality_status chain block_number tx_hash cur required_depth)))"

definition check_finality ::
  "env \<Rightarrow> ERC3009Transfer \<Rightarrow> int option \<Rightarrow> int option \<Rightarrow> FinalityStatus io" where
  "check_finality env transfer current_block required_depth =
     check_finality_generic env (chain_value (tr_chain_id transfer)) (tr_block_number transfer)
       (tr_tx_hash transfer) current_block required_depth"

lemma keeps_http_rpc [keeps_intros]: "tick_stable I \<Longrightarrow> keeps I (http_rpc env url req)"
  unfolding http_rpc_def by (intro keeps_intros)

lemma keeps_pyval_case [keeps_intros]:
  assumes "keeps I a" "\<And>x. keeps I (b x)" "\<And>x. keeps I (c x)" "\<And>x y. keeps I (d x y)"
    "\<And>x. keeps I (e x)" "\<And>x. keeps I (h x)" "\<And>x. keeps I (f x)" "\<And>x. keeps I (g x)"
  shows "keeps I (case v of PyNone \<Rightarrow> a | PyBool x \<Rightarrow> b x | PyInt x \<Rightarrow> c x | PyFloat x y \<Rightarrow> d x y
    | PyStr x \<Rightarrow> e x | PyBytes x \<Rightarrow> h x | PyList x \<Rightarrow> f x | PyDict x \<Rightarrow> g x)"
  using assms by (cases v) auto

lemma keeps_eth_block_number [keeps_intros]: "tick_stable I \<Longrightarrow> keeps I (eth_block_number env c)"
  unfolding eth_block_number_def by (intro keeps_intros)

lemma keeps_get_block_number [keeps_intros]: "tick_stable I \<Longrightarrow> keeps I (get_block_number env c)"
  unfolding get_block_number_def by (intro keeps_intros)

lemma keeps_get_block_hash [keeps_intros]: "tick_stable I \<Longrightarrow> keeps I (get_block_hash env c b)"
  unfolding get_block_hash_def by (intro keeps_intros)

lemma keeps_check_finality_generic [keeps_intros]:
  "tick_stable I \<Longrightarrow> keeps I (check_finality_generic env c b h cb d)"
  unfolding check_finality_generic_def by (intro keeps_intros)

lemma keeps_check_finality [keeps_intros]: "tick_stable I \<Longrightarrow> keeps I (check_finality env t cb d)"
  unfolding check_finality_def by (intro keeps_intros)

text \<open>The status is internally consistent: this is what the consumers rely on.\<close>

definition wf_finality :: "FinalityStatus \<Rightarrow> bool" where
  "wf_finality f \<longleftrightarrow> 0 \<le> fs_confirmations f \<and>
     (fs_is_finalized f \<longleftrightarrow> fs_required_confirmations f \<le> fs_confirmations f) \<and>
     (fs_finalized_at f \<noteq> None \<longleftrightarrow> fs_is_finalized f)"

lemma wf_finality_status: "wf_finality (finality_status c b h cur d)"
  by (simp add: wf_finality_def finality_status_def Let_def)

lemma finality_status_iff:
  "0 < (case d of Some r \<Rightarrow> r | None \<Rightarrow> FINALITY_DEPTHS c) \<Longrightarrow>
   fs_is_finalized (finality_status c b h cur d) \<longleftrightarrow>
     b + (case d of Some r \<Rightarrow> r | None \<Rightarrow> FINALITY_DEPTHS c) \<le> cur"
  by (auto simp: finality_status_def Let_def max_def)

lemma FINALITY_DEPTHS_pos: "0 < FINALITY_DEPTHS c"
  by (cases c) (simp_all add: FINALITY_DEPTHS_def)

text \<open>
  The finality check is exact and monotone: on a supported chain whose node
  answers, a block counts as final exactly when the head is at least the
  chain's depth (or the endpoint's positive override) beyond it, the reported
  confirmations are never negative, and a higher head never un-finalizes it.
\<close>

theorem check_finality_exact:
  assumes url: "get_rpc_url env (chain_value c) = Inr url"
    and rpc: "en_http_rpc env (w_tick w) url Eth_blockNumber = Inr [(''result'', PyStr h)]"
    and head: "py_int16 h = Some cur"
    and depth: "d = None \<or> (\<exists>r. d = Some r \<and> 0 < r)"
  shows "\<exists>f w'. run (check_finality_generic env (chain_value c) b tx None d) w = (Inr f, w') \<and>
     wf_finality f \<and>
     (fs_is_finalized f \<longleftrightarrow> b + (case d of Some r \<Rightarrow> r | None \<Rightarrow> FINALITY_DEPTHS c) \<le> cur) \<and>
     (\<forall>cur'. cur \<le> cur' \<longrightarrow> fs_is_finalized f \<longrightarrow>
        fs_is_finalized (finality_status c b tx cur' d) \<and>
        fs_confirmations f \<le> fs_confirmations (finality_status c b tx cur' d))"
proof -
  have "0 < (case d of Some r \<Rightarrow> r | None \<Rightarrow> FINALITY_DEPTHS c)"
    using depth FINALITY_DEPTHS_pos by auto
  note iff = finality_status_iff[OF this, of b tx]
  have "run (check_finality_generic env (chain_value c) b tx None d) w =
      (Inr (finality_status c b tx cur d), w\<lparr>w_tick := Suc (w_tick w)\<rparr>)"
    using url rpc head
    by (simp add: check_finality_generic_def get_block_number_def eth_block_number_def http_rpc_def
        dict_has_def)
  moreover have "fs_confirmations (finality_status c b tx cur d) \<le>
      fs_confirmations (finality_status c b tx cur' d)" if "cur \<le> cur'" for cur'
    using that by (simp add: finality_status_def Let_def)
  ultimately show ?thesis
    using iff wf_finality_status by fastforce
qed

theorem check_finality_exact_witness:
  "\<exists>f w'. run (check_finality_generic calm_env 8453 97 ''0xabc'' None None) empty_world = (Inr f, w') \<and>
     fs_is_finalized f"
proof -
  have "\<exists>f w'. run (check_finality_generic calm_env (chain_value BASE) 97 ''0xabc'' None None) empty_world = (Inr f, w') \<and>
     wf_finality f \<and>
     (fs_is_finalized f \<longleftrightarrow> 97 + (case None of Some r \<Rightarrow> r | None \<Rightarrow> FINALITY_DEPTHS BASE) \<le> 100) \<and>
     (\<forall>cur'. 100 \<le> cur' \<longrightarrow> fs_is_finalized f \<longrightarrow>
        fs_is_finalized (finality_status BASE 97 ''0xabc'' cur' None) \<and>
        fs_confirmations f \<le> fs_confirmations (finality_status BASE 97 ''0xabc'' cur' None))"
  proof (rule check_finality_exact)
    show "get_rpc_url calm_env (chain_value BASE) = Inr ''https://rpc''"
      by (simp add: get_rpc_url_def chain_value_def calm_env_def)
    show "en_http_rpc calm_env (w_tick empty_world) ''https://rpc'' Eth_blockNumber =
        Inr [(''result'', PyStr ''0x64'')]"
      by (simp add: calm_env_def)
    show "py_int16 ''0x64'' = Some 100" by code_simp
  qed simp
  then show ?thesis by (auto simp: FINALITY_DEPTHS_def chain_value_def)
qed

end
