(* ===== verification/Policy.thy ===== *)
theory Policy
  imports Models
begin

text \<open>
  \<open>tripwire/api/policies/engine.py\<close>: the endpoint policy check. A denial carries
  which check failed and the values its message interpolates; \<open>int()\<close> on a
  malformed amount raises, so the result type has an error branch. \<open>None\<close> is
  the code's \<open>(True, None)\<close> and \<open>Some r\<close> its \<open>(False, r)\<close>.
\<close>

datatype deny_reason =
    Below_minimum int string
  | Above_maximum int string
  | Sender_blocked string
  | Sender_not_in_allowlist string
  | Identity_required
  | Agent_class_mismatch string string
  | Identity_required_for_reputation
  | Reputation_below rat rat

type_synonym verdict = "deny_reason option result"

text \<open>An early return: the next check runs only when this one neither denied nor raised.\<close>

definition and_then :: "verdict \<Rightarrow> verdict \<Rightarrow> verdict" where
  "and_then v next = rbind v (\<lambda>d. case d of Some r \<Rightarrow> Inr (Some r) | None \<Rightarrow> next)"

definition deny_if :: "bool \<Rightarrow> deny_reason \<Rightarrow> verdict" where
  "deny_if b r = Inr (if b then Some r else None)"

definition or_empty :: "'a list option \<Rightarrow> 'a list" where
  "or_empty xs = (case xs of None \<Rightarrow> [] | Some l \<Rightarrow> l)"

definition check_min_amount :: "EndpointPolicies \<Rightarrow> int \<Rightarrow> verdict" where
  "check_min_amount policies amount = (case po_min_amount policies of
      None \<Rightarrow> Inr None
    | Some m \<Rightarrow> rbind (of_option ValueError (py_int m)) (\<lambda>lo. deny_if (amount < lo) (Below_minimum amount m)))"

definition check_max_amount :: "EndpointPolicies \<Rightarrow> int \<Rightarrow> verdict" where
  "check_max_amount policies amount = (case po_max_amount policies of
      None \<Rightarrow> Inr None
    | Some m \<Rightarrow> rbind (of_option ValueError (py_int m)) (\<lambda>hi. deny_if (amount > hi) (Above_maximum amount m)))"

definition check_senders :: "EndpointPolicies \<Rightarrow> string \<Rightarrow> verdict" where
  "check_senders policies sender =
     (let blocked = or_empty (po_blocked_senders policies);
          allowed = or_empty (po_allowed_senders policies)
      in and_then
           (deny_if (blocked \<noteq> [] \<and> sender \<in> set (map py_lower blocked)) (Sender_blocked sender))
           (deny_if (allowed \<noteq> [] \<and> sender \<notin> set (map py_lower allowed)) (Sender_not_in_allowlist sender)))"

definition check_identity :: "EndpointPolicies \<Rightarrow> AgentIdentity option \<Rightarrow> verdict" where
  "check_identity policies identity =
     and_then
       (case po_required_agent_class policies of
          None \<Rightarrow> Inr None
        | Some cls \<Rightarrow> (case identity of
              None \<Rightarrow> Inr (Some Identity_required)
            | Some i \<Rightarrow> deny_if (ai_agent_class i \<noteq> cls) (Agent_class_mismatch (ai_agent_class i) cls)))
       (case po_min_reputation_score policies of
          None \<Rightarrow> Inr None
        | Some sc \<Rightarrow> (case identity of
              None \<Rightarrow> Inr (Some Identity_required_for_reputation)
            | Some i \<Rightarrow> deny_if (ai_reputation_score i < sc) (Reputation_below (ai_reputation_score i) sc)))"

definition evaluate_policy ::
  "TransferData \<Rightarrow> AgentIdentity option \<Rightarrow> EndpointPolicies \<Rightarrow> verdict" where
  "evaluate_policy transfer identity policies =
     (let sender = py_lower (td_from_address transfer) in
      rbind (of_option ValueError (py_int (td_amount transfer))) (\<lambda>amount.
        and_then (check_min_amount policies amount)
       (and_then (check_max_amount policies amount)
       (and_then (check_senders policies sender)
                 (check_identity policies identity)))))"

section \<open>Specification\<close>

text \<open>
  The declarative reading of a policy: every bound that is set holds, the
  lists that are set and not empty are respected up to letter case, and the
  identity requirements that are set are met by a resolved identity.
\<close>

definition amount_in_bounds :: "EndpointPolicies \<Rightarrow> int \<Rightarrow> bool" where
  "amount_in_bounds p a \<longleftrightarrow>
     (\<forall>m. po_min_amount p = Some m \<longrightarrow> (\<exists>lo. py_int m = Some lo \<and> lo \<le> a)) \<and>
     (\<forall>m. po_max_amount p = Some m \<longrightarrow> (\<exists>hi. py_int m = Some hi \<and> a \<le> hi))"

definition sender_permitted :: "EndpointPolicies \<Rightarrow> string \<Rightarrow> bool" where
  "sender_permitted p s \<longleftrightarrow>
     (\<forall>b \<in> set (or_empty (po_blocked_senders p)). py_lower b \<noteq> py_lower s) \<and>
     (or_empty (po_allowed_senders p) = [] \<or>
      (\<exists>a \<in> set (or_empty (po_allowed_senders p)). py_lower a = py_lower s))"

definition identity_sufficient :: "EndpointPolicies \<Rightarrow> AgentIdentity option \<Rightarrow> bool" where
  "identity_sufficient p i \<longleftrightarrow>
     (\<forall>cls. po_required_agent_class p = Some cls \<longrightarrow> (\<exists>a. i = Some a \<and> ai_agent_class a = cls)) \<and>
     (\<forall>sc. po_min_reputation_score p = Some sc \<longrightarrow> (\<exists>a. i = Some a \<and> sc \<le> ai_reputation_score a))"

definition amounts_parse :: "TransferData \<Rightarrow> EndpointPolicies \<Rightarrow> bool" where
  "amounts_parse t p \<longleftrightarrow> py_int (td_amount t) \<noteq> None \<and>
     (\<forall>m. po_min_amount p = Some m \<longrightarrow> py_int m \<noteq> None) \<and>
     (\<forall>m. po_max_amount p = Some m \<longrightarrow> py_int m \<noteq> None)"

lemma and_then_ok: "and_then v n = Inr None \<longleftrightarrow> v = Inr None \<and> n = Inr None"
  by (auto simp: and_then_def rbind_eq_Inr split: option.splits)

lemma deny_if_ok [simp]: "deny_if b r = Inr None \<longleftrightarrow> \<not> b"
  by (simp add: deny_if_def)

lemma check_min_amount_ok:
  "check_min_amount p a = Inr None \<longleftrightarrow> (\<forall>m. po_min_amount p = Some m \<longrightarrow> (\<exists>lo. py_int m = Some lo \<and> lo \<le> a))"
  by (auto simp: check_min_amount_def rbind_eq_Inr split: option.splits)

lemma check_max_amount_ok:
  "check_max_amount p a = Inr None \<longleftrightarrow> (\<forall>m. po_max_amount p = Some m \<longrightarrow> (\<exists>hi. py_int m = Some hi \<and> a \<le> hi))"
  by (auto simp: check_max_amount_def rbind_eq_Inr split: option.splits)

lemma check_senders_ok: "check_senders p (py_lower s) = Inr None \<longleftrightarrow> sender_permitted p s"
  by (auto simp: check_senders_def sender_permitted_def and_then_ok Let_def)
     (metis image_eqI list.set_map)+

lemma check_identity_ok: "check_identity p i = Inr None \<longleftrightarrow> identity_sufficient p i"
  by (auto simp: check_identity_def identity_sufficient_def and_then_ok split: option.splits)

lemma and_then_Inl:
  "(\<exists>e. and_then v n = Inl e) \<longleftrightarrow> (\<exists>e. v = Inl e) \<or> (v = Inr None \<and> (\<exists>e. n = Inl e))"
  by (cases v) (auto simp: and_then_def split: option.splits)

lemma check_no_error: "check_senders p s \<noteq> Inl e" "check_identity p i \<noteq> Inl e"
  by (auto simp: check_senders_def check_identity_def and_then_def deny_if_def Let_def rbind_def
      split: option.splits sum.splits if_splits)

text \<open>
  C9. The policy engine accepts a transfer exactly when the declarative policy
  holds: amount within the bounds, sender not blocked and, if there is an
  allow list, on it (both case-insensitively), identity requirements met.
\<close>

theorem evaluate_policy_allows_iff:
  "evaluate_policy t i p = Inr None \<longleftrightarrow>
     (\<exists>a. py_int (td_amount t) = Some a \<and> amount_in_bounds p a) \<and>
     sender_permitted p (td_from_address t) \<and> identity_sufficient p i"
  by (auto simp: evaluate_policy_def Let_def rbind_eq_Inr and_then_ok check_min_amount_ok
      check_max_amount_ok check_senders_ok check_identity_ok amount_in_bounds_def)

text \<open>
  The engine never raises when the amount of the transfer and the bounds of
  the policy are integers, and it always raises when the amount is not.
\<close>

theorem evaluate_policy_total:
  "(amounts_parse t p \<longrightarrow> is_ok (evaluate_policy t i p)) \<and>
   (py_int (td_amount t) = None \<longrightarrow> evaluate_policy t i p = Inl ValueError)"
proof -
  have "\<exists>r. evaluate_policy t i p = Inr r" if ok: "amounts_parse t p"
  proof (rule ccontr)
    assume "\<nexists>r. evaluate_policy t i p = Inr r"
    then obtain e where e: "evaluate_policy t i p = Inl e" by (cases "evaluate_policy t i p") auto
    from ok obtain a where a: "py_int (td_amount t) = Some a" by (auto simp: amounts_parse_def)
    have 1: "check_min_amount p a \<noteq> Inl e'" "check_max_amount p a \<noteq> Inl e'" for e'
      using ok by (auto simp: check_min_amount_def check_max_amount_def amounts_parse_def deny_if_def
          split: option.splits)
    have "\<exists>e. and_then (check_min_amount p a) (and_then (check_max_amount p a)
       (and_then (check_senders p (py_lower (td_from_address t))) (check_identity p i))) = Inl e"
      using e a by (auto simp: evaluate_policy_def Let_def)
    then show False using 1 check_no_error by (metis and_then_Inl)
  qed
  then show ?thesis by (auto simp: evaluate_policy_def Let_def is_ok_def)
qed

definition sample_transfer_data :: TransferData where
  "sample_transfer_data = \<lparr>td_chain_id = BASE, td_tx_hash = ''0x1'', td_block_number = 7,
     td_from_address = ''0xAB'', td_to_address = ''0xCD'', td_amount = ''1000'', td_nonce = [], td_token = []\<rparr>"

theorem evaluate_policy_total_witness:
  "is_ok (evaluate_policy sample_transfer_data None (default_policies\<lparr>po_min_amount := Some ''5''\<rparr>)) \<and>
   evaluate_policy (sample_transfer_data\<lparr>td_amount := ''x''\<rparr>) None default_policies = Inl ValueError"
proof -
  have p: "py_int ''1000'' = Some 1000" "py_int ''5'' = Some 5" "py_int ''x'' = None" by code_simp+
  show ?thesis
    using evaluate_policy_total[of sample_transfer_data "default_policies\<lparr>po_min_amount := Some ''5''\<rparr>" None]
      evaluate_policy_total[of "sample_transfer_data\<lparr>td_amount := ''x''\<rparr>" default_policies None]
    by (simp add: p amounts_parse_def sample_transfer_data_def default_policies_def)
qed

end
