(* ===== verification/Processor.thy ===== *)
theory Processor
  imports Dispatcher Decoder Finality Policy
begin

text \<open>
  \<open>ingestion/processor.py\<close> and \<open>ingestion/handlers/payment.py\<close>: the shared stages of the
  pipeline (endpoint lookup through the cache, policy, finality gate, event
  recording, dispatch and notification), the promotion of a pre-confirmed
  event, the facilitator fast path and the ERC-3009 handler. Timing, tracing
  and logging are left out; the summary dictionaries are records. The
  \<open>data\<close> column, a JSON copy of the structured columns, is not kept.
\<close>

record ProcResult =
  pr_status :: string
  pr_reason :: "string option"
  pr_tx_hash :: "string option"
  pr_event_id :: "string option"
  pr_webhook_type :: "WebhookEventType option"
  pr_endpoints_matched :: nat
  pr_endpoints_approved :: nat
  pr_message_ids :: "string list"
  pr_notify_sent :: nat

definition summary :: "string \<Rightarrow> string option \<Rightarrow> string option \<Rightarrow> string option \<Rightarrow> ProcResult" where
  "summary status reason tx_hash event_id =
     \<lparr>pr_status = status, pr_reason = reason, pr_tx_hash = tx_hash, pr_event_id = event_id,
      pr_webhook_type = None, pr_endpoints_matched = 0, pr_endpoints_approved = 0,
      pr_message_ids = [], pr_notify_sent = 0\<rparr>"

section \<open>Endpoint lookup\<close>

text \<open>\<open>RedisCache.get\<close>/\<open>set\<close>; \<open>en_redis\<close> says whether Redis is configured and answers.\<close>

definition cache_get :: "env \<Rightarrow> string \<Rightarrow> Endpoint list option io" where
  "cache_get env name =
     (let key = ''tripwire:cache:'' @ name in
      ebind tick (\<lambda>n. ebind (now env) (\<lambda>time. ebind (egets w_redis_cache) (\<lambda>redis. ebind (egets w_local_cache) (\<lambda>local.
        case (if en_redis env n then redis key else None) of
          Some (v, expires) \<Rightarrow> (if time < expires then eret (Some v) else
             (case local key of None \<Rightarrow> eret None
              | Some (v, expires) \<Rightarrow> if time < expires then eret (Some v)
                 else ebind (emodify (\<lambda>w. w\<lparr>w_local_cache := local(key := None)\<rparr>)) (\<lambda>_. eret None)))
        | None \<Rightarrow>
            (case local key of None \<Rightarrow> eret None
             | Some (v, expires) \<Rightarrow> if time < expires then eret (Some v)
                else ebind (emodify (\<lambda>w. w\<lparr>w_local_cache := local(key := None)\<rparr>)) (\<lambda>_. eret None)))))))"

definition cache_set :: "env \<Rightarrow> string \<Rightarrow> Endpoint list \<Rightarrow> int \<Rightarrow> unit io" where
  "cache_set env name v ttl =
     (let key = ''tripwire:cache:'' @ name in
      ebind tick (\<lambda>n. ebind (now env) (\<lambda>time.
      ebind (ewhen (en_redis env n) (emodify (\<lambda>w. w\<lparr>w_redis_cache := (w_redis_cache w)(key \<mapsto> (v, time + ttl))\<rparr>))) (\<lambda>_.
        emodify (\<lambda>w. w\<lparr>w_local_cache := (w_local_cache w)(key \<mapsto> (v, time + ttl))\<rparr>)))))"

definition ENDPOINT_CACHE_TTL :: int where
  "ENDPOINT_CACHE_TTL = 30"

definition fetch_matching_endpoints :: "env \<Rightarrow> ERC3009Transfer \<Rightarrow> Endpoint list io" where
  "fetch_matching_endpoints env transfer =
     (let key = ''endpoints:'' @ py_lower (tr_to_address transfer) in
      ebind (cache_get env key) (\<lambda>cached. case cached of
        Some eps \<Rightarrow> eret eps
      | None \<Rightarrow>
          ebind (list_by_recipient env (tr_to_address transfer)) (\<lambda>eps.
          ebind (cache_set env key eps ENDPOINT_CACHE_TTL) (\<lambda>_. eret eps))))"

section \<open>Recording\<close>

definition is_final :: "FinalityStatus option \<Rightarrow> bool" where
  "is_final f = (case f of Some f \<Rightarrow> fs_is_finalized f | None \<Rightarrow> False)"

definition event_row ::
  "ERC3009Transfer \<Rightarrow> FinalityStatus option \<Rightarrow> AgentIdentity option \<Rightarrow> WebhookEventType \<Rightarrow> string option
   \<Rightarrow> string \<Rightarrow> int \<Rightarrow> EventRow" where
  "event_row transfer finality identity event_type endpoint_id event_id time =
     \<lparr>er_id = event_id, er_type = webhook_type_value event_type,
      er_chain_id = Some (chain_value (tr_chain_id transfer)),
      er_tx_hash = tr_tx_hash transfer, er_block_number = tr_block_number transfer,
      er_block_hash = tr_block_hash transfer, er_log_index = tr_log_index transfer,
      er_from_address = tr_from_address transfer, er_to_address = tr_to_address transfer,
      er_amount = Some (tr_value transfer), er_authorizer = Some (tr_authorizer transfer),
      er_nonce = Some (tr_nonce transfer), er_token = Some (tr_token transfer),
      er_status = (if event_type = PAYMENT_PRE_CONFIRMED then ''pre_confirmed''
                   else if is_final finality then ''confirmed'' else ''pending''),
      er_finality_depth = (case finality of Some f \<Rightarrow> fs_confirmations f | None \<Rightarrow> 0),
      er_endpoint_id = none_if_empty (or_nil endpoint_id), er_identity_data = identity,
      er_created_at = time, er_confirmed_at = (if is_final finality then Some time else None),
      er_event_type = ''erc3009.transfer'', er_decoded_fields = [], er_source = ''onchain'',
      er_trigger_id = None, er_product_source = ''keeper''\<rparr>"

definition record_event ::
  "env \<Rightarrow> ERC3009Transfer \<Rightarrow> FinalityStatus option \<Rightarrow> AgentIdentity option \<Rightarrow> WebhookEventType
   \<Rightarrow> string option \<Rightarrow> string option \<Rightarrow> string io" where
  "record_event env transfer finality identity event_type endpoint_id event_id =
     ebind (case event_id of Some i \<Rightarrow> eret i | None \<Rightarrow> uuid4 env) (\<lambda>i.
     ebind (now env) (\<lambda>time.
     ebind (ecatch (events_insert env (event_row transfer finality identity event_type endpoint_id i time))
              (\<lambda>_. eret ())) (\<lambda>_. eret i)))"

definition record_delivery :: "env \<Rightarrow> string \<Rightarrow> string \<Rightarrow> string option \<Rightarrow> unit io" where
  "record_delivery env endpoint_id event_id message_id =
     ecatch (ebind (delivery_create env endpoint_id event_id message_id
               (if or_nil message_id \<noteq> [] then ''sent'' else ''failed'')) (\<lambda>_. eret ()))
       (\<lambda>_. eret ())"

text \<open>The loop \<open>for i, ep in enumerate(...)\<close> that pairs endpoints with message ids by position.\<close>

definition record_deliveries :: "env \<Rightarrow> string \<Rightarrow> Endpoint list \<Rightarrow> string list \<Rightarrow> unit io" where
  "record_deliveries env event_id eps message_ids =
     ebind (efor (zip [0..<length eps] eps) (\<lambda>(i, ep).
       record_delivery env (ep_id ep) event_id
         (if i < length message_ids then Some (message_ids ! i) else None))) (\<lambda>_. eret ())"

section \<open>Policy, finality gate, dispatch\<close>

fun approve_endpoints ::
  "TransferData \<Rightarrow> AgentIdentity option \<Rightarrow> Endpoint list \<Rightarrow> Endpoint list result" where
  "approve_endpoints td identity [] = Inr []"
| "approve_endpoints td identity (ep # eps) =
     rbind (evaluate_policy td identity (ep_policies ep)) (\<lambda>denial.
     rbind (approve_endpoints td identity eps) (\<lambda>rest.
       Inr (if denial = None then ep # rest else rest)))"

definition required_depth :: "ChainId \<Rightarrow> Endpoint \<Rightarrow> int" where
  "required_depth chain ep =
     (case po_finality_depth (ep_policies ep) of Some d \<Rightarrow> d | None \<Rightarrow> FINALITY_DEPTHS chain)"

definition finality_gate :: "ERC3009Transfer \<Rightarrow> FinalityStatus option \<Rightarrow> Endpoint list \<Rightarrow> Endpoint list" where
  "finality_gate transfer finality eps = (case finality of
      None \<Rightarrow> eps
    | Some f \<Rightarrow> filter (\<lambda>ep. \<not> fs_confirmations f < required_depth (tr_chain_id transfer) ep) eps)"

definition webhook_type_for :: "WebhookEventType option \<Rightarrow> FinalityStatus option \<Rightarrow> WebhookEventType" where
  "webhook_type_for override finality = (case override of
      Some t \<Rightarrow> t
    | None \<Rightarrow> if is_final finality then PAYMENT_CONFIRMED else PAYMENT_PENDING)"

definition deliver_execute ::
  "env \<Rightarrow> ERC3009Transfer \<Rightarrow> string \<Rightarrow> Endpoint list \<Rightarrow> WebhookEventType \<Rightarrow> FinalityStatus option
   \<Rightarrow> AgentIdentity option \<Rightarrow> string list io" where
  "deliver_execute env transfer event_id approved event_type finality identity =
     (let execute = filter (\<lambda>ep. ep_mode ep = EXECUTE) approved in
      if execute = [] then eret []
      else
        ebind (ecatch (dispatch_event env transfer execute event_type finality identity) (\<lambda>_. eret [])) (\<lambda>ids.
        ebind (record_deliveries env event_id execute ids) (\<lambda>_. eret ids)))"

text \<open>The subscription filter of the notify stage; a malformed amount raises.\<close>

primrec filter_notify ::
  "env \<Rightarrow> ERC3009Transfer \<Rightarrow> AgentIdentity option \<Rightarrow> Endpoint list \<Rightarrow> Endpoint list io" where
  "filter_notify env transfer identity [] = eret []"
| "filter_notify env transfer identity (ep # eps) =
     ebind (fetch_subscriptions env (ep_id ep)) (\<lambda>subs.
     ebind (if subs = [] then eret True
            else ebind (elift (match_subscriptions transfer identity subs)) (\<lambda>ms. eret (ms \<noteq> []))) (\<lambda>keep.
     ebind (filter_notify env transfer identity eps) (\<lambda>rest. eret (if keep then ep # rest else rest))))"

definition deliver_notify ::
  "env \<Rightarrow> ERC3009Transfer \<Rightarrow> Endpoint list \<Rightarrow> WebhookEventType \<Rightarrow> FinalityStatus option
   \<Rightarrow> AgentIdentity option \<Rightarrow> string list io" where
  "deliver_notify env transfer eps event_type finality identity =
     (if eps = [] then eret []
      else ecatch (notify_batch env eps transfer event_type finality identity) (\<lambda>_. eret []))"

definition dispatch_matched ::
  "env \<Rightarrow> ERC3009Transfer \<Rightarrow> FinalityStatus option \<Rightarrow> AgentIdentity option \<Rightarrow> WebhookEventType option
   \<Rightarrow> string option \<Rightarrow> Endpoint list \<Rightarrow> ProcResult io" where
  "dispatch_matched env transfer finality identity override event_id matched =
     ebind (elift (approve_endpoints (build_transfer_data transfer) identity matched)) (\<lambda>ok.
     let approved = finality_gate transfer finality ok;
         event_type = webhook_type_for override finality in
     ebind (record_event env transfer finality identity event_type
              (case matched of [] \<Rightarrow> None | ep # _ \<Rightarrow> Some (ep_id ep)) event_id) (\<lambda>eid.
     ebind (link_endpoints env eid (map ep_id matched)) (\<lambda>_.
     ebind (deliver_execute env transfer eid approved event_type finality identity) (\<lambda>message_ids.
     ebind (filter_notify env transfer identity (filter (\<lambda>ep. ep_mode ep = NOTIFY) approved)) (\<lambda>notify_eps.
     ebind (deliver_notify env transfer notify_eps event_type finality identity) (\<lambda>notify_ids.
       eret \<lparr>pr_status = ''processed'', pr_reason = None, pr_tx_hash = Some (tr_tx_hash transfer),
         pr_event_id = Some eid, pr_webhook_type = None, pr_endpoints_matched = length matched,
         pr_endpoints_approved = length approved, pr_message_ids = message_ids,
         pr_notify_sent = length notify_ids\<rparr>))))))"

definition dispatch_for_transfer ::
  "env \<Rightarrow> ERC3009Transfer \<Rightarrow> FinalityStatus option \<Rightarrow> AgentIdentity option \<Rightarrow> WebhookEventType option
   \<Rightarrow> string option \<Rightarrow> ProcResult io" where
  "dispatch_for_transfer env transfer finality identity override event_id =
     (let tx = Some (tr_tx_hash transfer); record_only = (\<lambda>status.
        ebind (record_event env transfer finality identity (webhook_type_for override finality) None event_id)
          (\<lambda>eid. eret (summary status None tx (Some eid)))) in
      ebind (etry (fetch_matching_endpoints env transfer)) (\<lambda>fetched. case fetched of
        Inl _ \<Rightarrow> eret (summary ''error'' (Some ''endpoint_fetch_failed'') tx None)
      | Inr endpoints \<Rightarrow>
          if endpoints = [] then record_only ''no_endpoints''
          else (let matched = match_endpoints transfer endpoints in
            if matched = [] then record_only ''no_match''
            else dispatch_matched env transfer finality identity override event_id matched)))"

section \<open>Facilitator fast path and promotion\<close>

definition resolve_identity :: "env \<Rightarrow> string \<Rightarrow> int \<Rightarrow> AgentIdentity option io" where
  "resolve_identity env address chain_id =
     ecatch (ebind tick (\<lambda>n. elift (en_resolve env n address chain_id))) (\<lambda>_. eret None)"

definition check_finality_opt :: "env \<Rightarrow> ERC3009Transfer \<Rightarrow> FinalityStatus option io" where
  "check_finality_opt env transfer =
     ecatch (ebind (check_finality env transfer None None) (\<lambda>f. eret (Some f))) (\<lambda>_. eret None)"

definition process_pre_confirmed_event :: "env \<Rightarrow> ERC3009Transfer \<Rightarrow> ProcResult io" where
  "process_pre_confirmed_event env transfer =
     (let tx = Some (tr_tx_hash transfer); chain = chain_value (tr_chain_id transfer) in
      ebind (uuid4 env) (\<lambda>event_id.
      ebind (etry (record_nonce_or_correlate env chain (tr_nonce transfer) (tr_authorizer transfer)
               (Some event_id) ''facilitator'')) (\<lambda>r. case r of
        Inl _ \<Rightarrow> eret (summary ''error'' (Some ''nonce_dedup_failed'') tx None)
      | Inr (is_new, _, _) \<Rightarrow>
          if \<not> is_new then eret (summary ''duplicate'' None tx None)
          else ebind (resolve_identity env (tr_authorizer transfer) chain) (\<lambda>identity.
            dispatch_for_transfer env transfer None identity (Some PAYMENT_PRE_CONFIRMED) (Some event_id)))))"

primrec fetch_endpoints :: "env \<Rightarrow> (Endpoint \<Rightarrow> bool) \<Rightarrow> string list \<Rightarrow> Endpoint list io" where
  "fetch_endpoints env keep [] = eret []"
| "fetch_endpoints env keep (i # ids) =
     ebind (ecatch (endpoint_get_by_id env i) (\<lambda>_. eret None)) (\<lambda>ep.
     ebind (fetch_endpoints env keep ids) (\<lambda>rest.
       eret (case ep of Some e \<Rightarrow> if keep e then e # rest else rest | None \<Rightarrow> rest)))"

text \<open>The linked endpoints, falling back on the legacy column when the join table cannot be read.\<close>

definition linked_or_legacy :: "env \<Rightarrow> string \<Rightarrow> string option \<Rightarrow> string list io" where
  "linked_or_legacy env event_id legacy =
     ecatch (get_endpoint_ids env event_id) (\<lambda>_. eret (if or_nil legacy = [] then [] else [or_nil legacy]))"

definition promoted :: "ERC3009Transfer \<Rightarrow> string \<Rightarrow> WebhookEventType \<Rightarrow> nat \<Rightarrow> nat \<Rightarrow> string list \<Rightarrow> nat \<Rightarrow> ProcResult" where
  "promoted transfer event_id event_type matched approved ids notified =
     \<lparr>pr_status = ''promoted'', pr_reason = None, pr_tx_hash = Some (tr_tx_hash transfer),
      pr_event_id = Some event_id, pr_webhook_type = Some event_type, pr_endpoints_matched = matched,
      pr_endpoints_approved = approved, pr_message_ids = ids, pr_notify_sent = notified\<rparr>"

definition promote_dispatch ::
  "env \<Rightarrow> string \<Rightarrow> ERC3009Transfer \<Rightarrow> WebhookEventType \<Rightarrow> FinalityStatus option \<Rightarrow> AgentIdentity option
   \<Rightarrow> Endpoint list \<Rightarrow> ProcResult io" where
  "promote_dispatch env event_id transfer event_type finality identity endpoints =
     ebind (elift (approve_endpoints (build_transfer_data transfer) identity endpoints)) (\<lambda>approved.
     ebind (deliver_execute env transfer event_id approved event_type finality identity) (\<lambda>ids.
     ebind (deliver_notify env transfer (filter (\<lambda>ep. ep_mode ep = NOTIFY) approved) event_type finality identity) (\<lambda>notified.
       eret (promoted transfer event_id event_type (length endpoints) (length approved) ids (length notified)))))"

definition promote_pre_confirmed_event :: "env \<Rightarrow> string \<Rightarrow> ERC3009Transfer \<Rightarrow> ProcResult io" where
  "promote_pre_confirmed_event env event_id transfer =
     (let tx = Some (tr_tx_hash transfer) in
      ebind (etry (promote_to_confirmed env event_id (tr_tx_hash transfer) (tr_block_number transfer)
               (tr_block_hash transfer) (tr_log_index transfer))) (\<lambda>r. case r of
        Inl _ \<Rightarrow> eret (summary ''error'' (Some ''promote_failed'') tx None)
      | Inr None \<Rightarrow> eret (summary ''error'' (Some ''event_not_found'') tx None)
      | Inr (Some updated) \<Rightarrow>
          ebind (check_finality_opt env transfer) (\<lambda>finality.
          let event_type = (if is_final finality then PAYMENT_FINALIZED else PAYMENT_CONFIRMED) in
          ebind (resolve_identity env (tr_authorizer transfer) (chain_value (tr_chain_id transfer))) (\<lambda>identity.
          ebind (linked_or_legacy env event_id (er_endpoint_id updated)) (\<lambda>ids.
            if ids = [] then eret (promoted transfer event_id event_type 0 0 [] 0)
            else ebind (fetch_endpoints env ep_active ids) (\<lambda>endpoints.
              if endpoints = [] then eret (promoted transfer event_id event_type 0 0 [] 0)
              else promote_dispatch env event_id transfer event_type finality identity endpoints))))))"

section \<open>The ERC-3009 handler\<close>

definition is_plain_transfer :: "ERC3009Transfer \<Rightarrow> bool" where
  "is_plain_transfer t = (tr_authorizer t = [])"

definition dedup_nonce :: "ERC3009Transfer \<Rightarrow> string" where
  "dedup_nonce t = (if is_plain_transfer t then tr_tx_hash t @ '':'' @ int_str (tr_log_index t) else tr_nonce t)"

definition dedup_authorizer :: "ERC3009Transfer \<Rightarrow> string" where
  "dedup_authorizer t = (if is_plain_transfer t then ''transfer'' else tr_authorizer t)"

definition process_transfer :: "env \<Rightarrow> ERC3009Transfer \<Rightarrow> ProcResult io" where
  "process_transfer env transfer =
     (let tx = Some (tr_tx_hash transfer); chain = chain_value (tr_chain_id transfer) in
      ebind (etry (record_nonce_or_correlate env chain (dedup_nonce transfer) (dedup_authorizer transfer)
               None ''goldsky'')) (\<lambda>r. case r of
        Inl _ \<Rightarrow> eret (summary ''error'' (Some ''nonce_dedup_failed'') tx None)
      | Inr (is_new, existing_event_id, existing_source) \<Rightarrow>
          if \<not> is_new then
            (if existing_source = Some ''facilitator'' \<and> or_nil existing_event_id \<noteq> []
             then promote_pre_confirmed_event env (or_nil existing_event_id) transfer
             else eret (summary ''duplicate'' None tx None))
          else
            ebind (check_finality_opt env transfer) (\<lambda>finality.
            ebind (resolve_identity env (tr_authorizer transfer) chain) (\<lambda>identity.
              dispatch_for_transfer env transfer finality identity None None))))"

definition process_erc3009_event :: "env \<Rightarrow> pydict \<Rightarrow> ProcResult io" where
  "process_erc3009_event env raw_log = (case erc3009_decode env raw_log of
      Inl _ \<Rightarrow> eret (summary ''error'' (Some ''decode_failed'') None None)
    | Inr decoded \<Rightarrow>
        (case de_typed_model decoded of
           Some transfer \<Rightarrow> process_transfer env transfer
         | None \<Rightarrow> eraise AttributeError))"

end
