(* ===== verification/Filter_Engine.thy ===== *)
theory Filter_Engine
  imports Store
begin

text \<open>
  \<open>tripwire/ingestion/filter_engine.py\<close>: the predicates of a trigger on the
  decoded fields of an event. JMESPath and \<open>re\<close> are the environment's
  \<open>en_jmespath\<close> and \<open>en_re_search\<close>; the comparison and normalisation rules,
  \<open>Decimal\<close> included, are modelled. A comparison may raise, so every
  operation returns a result.
\<close>

section \<open>Normalisation\<close>

text \<open>Python's \<open>==\<close> on dynamically typed values.\<close>

definition num_of :: "pyval \<Rightarrow> pydecimal option" where
  "num_of v = (case v of
      PyInt i \<Rightarrow> Some (decimal_of_int i)
    | PyBool b \<Rightarrow> Some (decimal_of_int (if b then 1 else 0))
    | PyFloat d _ \<Rightarrow> Some d
    | _ \<Rightarrow> None)"

fun py_eq :: "pyval \<Rightarrow> pyval \<Rightarrow> bool"
and py_eq_list :: "pyval list \<Rightarrow> pyval list \<Rightarrow> bool"
and py_eq_dict :: "pydict \<Rightarrow> pydict \<Rightarrow> bool" where
  "py_eq PyNone w = (w = PyNone)"
| "py_eq (PyStr s) w = (w = PyStr s)"
| "py_eq (PyBytes s) w = (w = PyBytes s)"
| "py_eq (PyList l) w = (case w of PyList m \<Rightarrow> py_eq_list l m | _ \<Rightarrow> False)"
| "py_eq (PyDict d) w = (case w of PyDict e \<Rightarrow> length d = length e \<and> py_eq_dict d e | _ \<Rightarrow> False)"
| "py_eq (PyInt i) w = (num_of w = Some (decimal_of_int i))"
| "py_eq (PyBool b) w = (num_of w = Some (decimal_of_int (if b then 1 else 0)))"
| "py_eq (PyFloat d t) w = (\<not> dec_is_nan d \<and> num_of w = Some d)"
| "py_eq_list [] m = (m = [])"
| "py_eq_list (v # l) m = (case m of [] \<Rightarrow> False | w # m' \<Rightarrow> py_eq v w \<and> py_eq_list l m')"
| "py_eq_dict [] e = True"
| "py_eq_dict ((k, v) # d) e = (case map_of e k of None \<Rightarrow> False | Some w \<Rightarrow> py_eq v w \<and> py_eq_dict d e)"

text \<open>\<open>_to_decimal\<close>: \<open>Inr None\<close> is the code's \<open>None\<close>; \<open>Decimal(str(True))\<close> raises.\<close>

definition to_decimal :: "pyval \<Rightarrow> pydecimal option result" where
  "to_decimal val = (case val of
      PyInt i \<Rightarrow> rbind (of_option InvalidOperation (decimal_of_string (int_str i))) (\<lambda>d. Inr (Some d))
    | PyBool b \<Rightarrow> rbind (of_option InvalidOperation (decimal_of_string (if b then ''True'' else ''False'')))
        (\<lambda>d. Inr (Some d))
    | PyFloat _ t \<Rightarrow> rbind (of_option InvalidOperation (decimal_of_string t)) (\<lambda>d. Inr (Some d))
    | PyStr s \<Rightarrow>
        (let v = py_strip s in
         if v = [] then Inr None
         else if py_startswith v ''0x'' \<and> \<not> is_eth_address v
           then Inr (map_option decimal_of_int (py_int16 v))
         else Inr (decimal_of_string v))
    | _ \<Rightarrow> Inr None)"

datatype norm = NStr string | NDec pydecimal | NVal pyval

definition normalize :: "pyval \<Rightarrow> norm result" where
  "normalize val = (case val of
      PyStr x \<Rightarrow>
        (let s = py_strip (py_lower x) in
         if is_eth_address s then Inr (NStr s)
         else rbind (to_decimal (PyStr s)) (\<lambda>d.
           Inr (case d of Some d \<Rightarrow> NDec d | None \<Rightarrow> NStr s)))
    | _ \<Rightarrow> Inr (NVal val))"

fun norm_eq :: "norm \<Rightarrow> norm \<Rightarrow> bool result" where
  "norm_eq (NStr s) (NStr t) = Inr (s = t)"
| "norm_eq (NDec a) (NDec b) = dec_eq a b"
| "norm_eq (NDec a) (NVal v) = (case num_of v of Some b \<Rightarrow> dec_eq a b | None \<Rightarrow> Inr False)"
| "norm_eq (NVal v) (NDec b) = (case num_of v of Some a \<Rightarrow> dec_eq a b | None \<Rightarrow> Inr False)"
| "norm_eq (NVal v) (NVal w) = Inr (py_eq v w)"
| "norm_eq _ _ = Inr False"

definition norm_equal :: "pyval \<Rightarrow> pyval \<Rightarrow> bool result" where
  "norm_equal a b = rbind (normalize a) (\<lambda>x. rbind (normalize b) (\<lambda>y. norm_eq x y))"

fun normalize_all :: "pyval list \<Rightarrow> norm list result" where
  "normalize_all [] = Inr []"
| "normalize_all (t # ts) = rbind (normalize t) (\<lambda>n. rbind (normalize_all ts) (\<lambda>ns. Inr (n # ns)))"

fun norm_mem :: "norm \<Rightarrow> norm list \<Rightarrow> bool result" where
  "norm_mem x [] = Inr False"
| "norm_mem x (y # ys) = rbind (norm_eq x y) (\<lambda>b. if b then Inr True else norm_mem x ys)"

definition norm_in :: "pyval \<Rightarrow> pyval list \<Rightarrow> bool result" where
  "norm_in v ts = rbind (normalize v) (\<lambda>x. rbind (normalize_all ts) (\<lambda>ys. norm_mem x ys))"

definition compare_numeric :: "pyval \<Rightarrow> string \<Rightarrow> pyval \<Rightarrow> bool result" where
  "compare_numeric field_val op target =
     rbind (to_decimal field_val) (\<lambda>a. rbind (to_decimal target) (\<lambda>b.
       case (a, b) of
         (Some a, Some b) \<Rightarrow>
           (if op = ''gt'' then dec_less b a
            else if op = ''gte'' then dec_le b a
            else if op = ''lt'' then dec_less a b
            else if op = ''lte'' then dec_le a b
            else Inr False)
       | _ \<Rightarrow> Inr False))"

section \<open>Operators and rules\<close>

definition evaluate_between :: "pyval \<Rightarrow> pyval \<Rightarrow> pyval \<Rightarrow> bool result" where
  "evaluate_between field_val lo hi =
     rbind (to_decimal field_val) (\<lambda>a. rbind (to_decimal lo) (\<lambda>l. rbind (to_decimal hi) (\<lambda>h.
       case (a, l, h) of
         (Some a, Some l, Some h) \<Rightarrow> rbind (dec_le l a) (\<lambda>b. if b then dec_le a h else Inr False)
       | _ \<Rightarrow> Inr False)))"

definition evaluate_op :: "env \<Rightarrow> pyval \<Rightarrow> string \<Rightarrow> pyval \<Rightarrow> bool result" where
  "evaluate_op env field_val op target =
     (if op = ''eq'' then norm_equal field_val target
      else if op = ''neq'' then rbind (norm_equal field_val target) (\<lambda>b. Inr (\<not> b))
      else if op \<in> {''gt'', ''gte'', ''lt'', ''lte''} then compare_numeric field_val op target
      else if op = ''in'' then (case target of PyList ts \<Rightarrow> norm_in field_val ts | _ \<Rightarrow> Inr False)
      else if op = ''not_in'' then
        (case target of PyList ts \<Rightarrow> rbind (norm_in field_val ts) (\<lambda>b. Inr (\<not> b)) | _ \<Rightarrow> Inr True)
      else if op = ''between'' then
        (case target of PyList [lo, hi] \<Rightarrow> evaluate_between field_val lo hi | _ \<Rightarrow> Inr False)
      else if op = ''contains'' then
        Inr (py_contains (py_lower (py_str (en_py_str env) target)) (py_lower (py_str (en_py_str env) field_val)))
      else if op = ''regex'' then
        (case en_re_search env (py_str (en_py_str env) target) (py_str (en_py_str env) field_val) of
           Inr b \<Rightarrow> Inr b | Inl _ \<Rightarrow> Inr False)
      else if op = ''jmespath'' then
        (case en_jmespath env (py_str (en_py_str env) target)
            (case field_val of PyDict d \<Rightarrow> d | _ \<Rightarrow> []) of
           Inr v \<Rightarrow> Inr (py_truthy v) | Inl _ \<Rightarrow> Inr False)
      else Inr False)"

datatype filter_reason =
    Field_not_present string
  | Op_failed string string pyval pyval

fun evaluate_filters :: "env \<Rightarrow> pydict \<Rightarrow> TriggerFilter list \<Rightarrow> filter_reason option result" where
  "evaluate_filters env decoded [] = Inr None"
| "evaluate_filters env decoded (f # fs) =
     rbind (en_jmespath env (tf_field f) decoded) (\<lambda>field_val.
       if field_val = PyNone then Inr (Some (Field_not_present (tf_field f)))
       else rbind (evaluate_op env field_val (tf_op f) (tf_value f)) (\<lambda>ok.
         if \<not> ok then Inr (Some (Op_failed (tf_field f) (tf_op f) (tf_value f) field_val))
         else evaluate_filters env decoded fs))"

section \<open>Properties\<close>

text \<open>A rule holds: its field is present and its operator accepts the value.\<close>

definition rule_holds :: "env \<Rightarrow> pydict \<Rightarrow> TriggerFilter \<Rightarrow> bool" where
  "rule_holds env d f \<longleftrightarrow> (\<exists>v. en_jmespath env (tf_field f) d = Inr v \<and> v \<noteq> PyNone \<and>
     evaluate_op env v (tf_op f) (tf_value f) = Inr True)"

definition rule_rejects :: "env \<Rightarrow> pydict \<Rightarrow> TriggerFilter \<Rightarrow> filter_reason \<Rightarrow> bool" where
  "rule_rejects env d f r \<longleftrightarrow> (\<exists>v. en_jmespath env (tf_field f) d = Inr v \<and>
     (v = PyNone \<and> r = Field_not_present (tf_field f) \<or>
      v \<noteq> PyNone \<and> evaluate_op env v (tf_op f) (tf_value f) = Inr False \<and>
        r = Op_failed (tf_field f) (tf_op f) (tf_value f) v))"

lemma evaluate_filters_pass:
  "evaluate_filters env d fs = Inr None \<longleftrightarrow> (\<forall>f \<in> set fs. rule_holds env d f)"
  by (induction fs) (auto simp: rbind_eq_Inr rule_holds_def)

lemma evaluate_filters_prefix:
  "\<forall>f \<in> set pre. rule_holds env d f \<Longrightarrow> evaluate_filters env d (pre @ fs) = evaluate_filters env d fs"
  by (induction pre) (auto simp: rule_holds_def)

lemma evaluate_filters_reject_ex:
  "evaluate_filters env d fs = Inr (Some r) \<Longrightarrow>
   \<exists>pre f post. fs = pre @ f # post \<and> (\<forall>g \<in> set pre. rule_holds env d g) \<and> rule_rejects env d f r"
proof (induction fs)
  case (Cons f fs)
  show ?case
  proof (cases "rule_holds env d f")
    case True
    then have "evaluate_filters env d fs = Inr (Some r)"
      using Cons.prems by (auto simp: rule_holds_def)
    from Cons.IH[OF this] obtain pre g post where "fs = pre @ g # post"
      "\<forall>g \<in> set pre. rule_holds env d g" "rule_rejects env d g r" by blast
    then have "f # fs = (f # pre) @ g # post \<and> (\<forall>g \<in> set (f # pre). rule_holds env d g) \<and> rule_rejects env d g r"
      using True by simp
    then show ?thesis by blast
  next
    case False
    with Cons.prems have "rule_rejects env d f r"
      by (auto simp: rbind_eq_Inr rule_holds_def rule_rejects_def split: if_splits)
    then show ?thesis by (intro exI[of _ "[]"]) simp
  qed
qed simp

text \<open>
  Trigger filters are a conjunction evaluated left to right: an event passes
  exactly when every rule holds, and a rejection names the first rule that does
  not, all earlier ones having held.
\<close>

theorem evaluate_filters_conjunction:
  "(evaluate_filters env d fs = Inr None \<longleftrightarrow> (\<forall>f \<in> set fs. rule_holds env d f)) \<and>
   (evaluate_filters env d fs = Inr (Some r) \<longleftrightarrow>
     (\<exists>pre f post. fs = pre @ f # post \<and> (\<forall>g \<in> set pre. rule_holds env d g) \<and> rule_rejects env d f r))"
proof -
  have "evaluate_filters env d (pre @ f # post) = Inr (Some r)"
    if "\<forall>g \<in> set pre. rule_holds env d g" "rule_rejects env d f r" for pre f post
    using that by (auto simp: evaluate_filters_prefix rule_rejects_def)
  then show ?thesis
    using evaluate_filters_reject_ex by (auto simp: evaluate_filters_pass)
qed

theorem evaluate_filters_conjunction_witness:
  "evaluate_filters calm_env [(''to'', PyStr ''x'')] [\<lparr>tf_field = ''from'', tf_op = ''eq'', tf_value = PyStr ''x''\<rparr>]
   = Inr (Some (Field_not_present ''from''))"
proof -
  let ?f = "\<lparr>tf_field = ''from'', tf_op = ''eq'', tf_value = PyStr ''x''\<rparr>"
  have "rule_rejects calm_env [(''to'', PyStr ''x'')] ?f (Field_not_present ''from'')"
    by (simp add: rule_rejects_def calm_env_def py_simps)
  then show ?thesis
    using evaluate_filters_conjunction[of calm_env "[(''to'', PyStr ''x'')]" "[?f]" "Field_not_present ''from''"]
    by (metis append_Nil list.set(1) empty_iff)
qed

definition numeric :: "pyval \<Rightarrow> pydecimal \<Rightarrow> bool" where
  "numeric v d \<longleftrightarrow> to_decimal v = Inr (Some d) \<and> \<not> dec_is_nan d"

text \<open>
  The numeric operators are consistent on any two values that read as
  numbers (neither NaN): \<open>gt\<close>/\<open>lte\<close> and \<open>lt\<close>/\<open>gte\<close> are complementary, \<open>between\<close> is \<open>gte\<close> its
  lower and \<open>lte\<close> its upper bound, and \<open>neq\<close>, \<open>not_in\<close> negate \<open>eq\<close>, \<open>in\<close>.
\<close>

theorem filter_operators_consistent:
  assumes a: "numeric v a" and l: "numeric lo l" and h: "numeric hi h"
  shows "(\<exists>b. evaluate_op env v ''gt'' lo = Inr b \<and> evaluate_op env v ''lte'' lo = Inr (\<not> b)) \<and>
    (\<exists>b. evaluate_op env v ''lt'' lo = Inr b \<and> evaluate_op env v ''gte'' lo = Inr (\<not> b)) \<and>
    (evaluate_op env v ''between'' (PyList [lo, hi]) = Inr True \<longleftrightarrow>
       evaluate_op env v ''gte'' lo = Inr True \<and> evaluate_op env v ''lte'' hi = Inr True) \<and>
    (evaluate_op env x ''neq'' y = Inr b \<longleftrightarrow> evaluate_op env x ''eq'' y = Inr (\<not> b)) \<and>
    (evaluate_op env x ''not_in'' (PyList ts) = Inr b \<longleftrightarrow> evaluate_op env x ''in'' (PyList ts) = Inr (\<not> b))"
proof -
  note n = a[unfolded numeric_def] l[unfolded numeric_def] h[unfolded numeric_def]
  have cmp: "dec_less_num p q \<longleftrightarrow> \<not> (dec_less_num q p \<or> q = p)"
    if "p \<in> {a, l, h}" "q \<in> {a, l, h}" for p q
    using that n dec_less_num_trichotomy by blast
  show ?thesis
    using n cmp[of l a] cmp[of a l]
    by (auto simp: evaluate_op_def compare_numeric_def evaluate_between_def dec_less_def dec_le_def rbind_eq_Inr)
qed

lemma numeric_nat: "numeric (PyInt (int n)) (decimal_of_int (int n))" "numeric (PyStr (nat_str n)) (decimal_of_int (int n))"
proof -
  have d: "\<forall>c \<in> set (nat_str n). \<not> is_space c" using nat_str_digits is_digit_facts(4) by blast
  have x: "\<not> py_startswith (nat_str n) ''0x''"
  proof
    assume "py_startswith (nat_str n) ''0x''"
    then have "CHR ''x'' \<in> set (nat_str n)"
      by (metis py_startswith_def in_set_takeD list.set_intros(1) list.set_intros(2))
    then have "is_digit (CHR ''x'')" using nat_str_digits by blast
    then show False by (simp add: is_digit_def code_def)
  qed
  show "numeric (PyStr (nat_str n)) (decimal_of_int (int n))"
    using d x by (simp add: numeric_def to_decimal_def Let_def py_strip_none decimal_of_int_def dec_is_nan_def
        decimal_of_nat_str[unfolded decimal_of_int_def])
  show "numeric (PyInt (int n)) (decimal_of_int (int n))"
    by (simp add: numeric_def to_decimal_def int_str_def decimal_of_int_def dec_is_nan_def
        decimal_of_nat_str[unfolded decimal_of_int_def])
qed

theorem filter_operators_consistent_witness:
  "\<exists>b. evaluate_op calm_env (PyInt 5) ''gt'' (PyInt 3) = Inr b \<and> evaluate_op calm_env (PyInt 5) ''lte'' (PyInt 3) = Inr (\<not> b)"
  using filter_operators_consistent[OF numeric_nat(1)[of 5] numeric_nat(1)[of 3] numeric_nat(1)[of 7]] by auto

text \<open>
  Amounts compare as numbers, whichever side is text: an on-chain integer
  against the decimal string of a rule, or two decimal strings, gives the
  comparison of the integers, never the one of the texts.
\<close>

theorem filter_amounts_numeric:
  "evaluate_op env (PyInt (int m)) ''gte'' (PyStr (nat_str n)) = Inr (n \<le> m) \<and>
   evaluate_op env (PyStr (nat_str m)) ''gte'' (PyStr (nat_str n)) = Inr (n \<le> m) \<and>
   evaluate_op env (PyStr (nat_str m)) ''lt'' (PyInt (int n)) = Inr (m < n)"
  using numeric_nat(1)[of m] numeric_nat(1)[of n] numeric_nat(2)[of m] numeric_nat(2)[of n]
  by (auto simp: evaluate_op_def compare_numeric_def numeric_def dec_less_def dec_le_def decimal_of_int_def)

text \<open>
  An ordering or range operator on a boolean field never rejects the event,
  it raises: \<open>Decimal(str(True))\<close> is an invalid operation that only the string
  branch of the conversion catches.
\<close>

theorem bool_comparison_raises:
  "op \<in> {''gt'', ''gte'', ''lt'', ''lte''} \<Longrightarrow> evaluate_op env (PyBool b) op target = Inl InvalidOperation"
proof -
  assume op: "op \<in> {''gt'', ''gte'', ''lt'', ''lte''}"
  have "decimal_of_string ''True'' = None" "decimal_of_string ''False'' = None"
    by (simp_all add: decimal_of_string_def py_strip_def is_space_def code_def split_sign_def dec_body_def
        is_digit_def dec_special_def py_lower_def lower_char_def py_startswith_def Let_def)
  then have "to_decimal (PyBool b) = Inl InvalidOperation" by (simp add: to_decimal_def)
  with op show ?thesis by (auto simp: evaluate_op_def compare_numeric_def)
qed

theorem bool_comparison_raises_witness:
  "evaluate_op calm_env (PyBool True) ''gt'' (PyInt 0) = Inl InvalidOperation"
  using bool_comparison_raises[of "''gt''" calm_env True "PyInt 0"] by simp

end
