(* ===== verification/Trigger_Handler.thy ===== *)
theory Trigger_Handler
  imports Processor Filter_Engine
begin

text \<open>
  \<open>ingestion/handlers/trigger.py\<close>: the payment gate, the legacy dynamic-trigger path
  and the unified processing loop; and the routing of \<open>ingestion/processor.py\<close>
  (\<open>process_event\<close>, \<open>_detect_event_type\<close>, \<open>process_batch\<close>) with the trigger lookup of
  \<open>db/repositories/triggers.py\<close>. A summary dictionary is a record, the reason texts
  are the reasons of the filter and policy engines.
\<close>

datatype skip_reason =
    Reason string
  | Filter_reason filter_reason
  | Policy_reason deny_reason

record TriggerResult =
  trr_trigger_id :: string
  trr_status :: string
  trr_reason :: "skip_reason option"
  trr_event_id :: "string option"
  trr_message_id :: "string option"
  trr_execution_state :: "ExecutionState option"
  trr_notify_sent :: nat

definition trigger_skipped :: "Trigger \<Rightarrow> string \<Rightarrow> skip_reason option \<Rightarrow> TriggerResult" where
  "trigger_skipped trigger status reason =
     \<lparr>trr_trigger_id = tg_id trigger, trr_status = status, trr_reason = reason, trr_event_id = None,
      trr_message_id = None, trr_execution_state = None, trr_notify_sent = 0\<rparr>"

record TriggerSummary =
  tsu_status :: string
  tsu_reason :: "string option"
  tsu_tx_hash :: string
  tsu_evaluated :: nat
  tsu_dispatched :: nat
  tsu_results :: "TriggerResult list"

definition trigger_summary :: "string \<Rightarrow> nat \<Rightarrow> TriggerResult list \<Rightarrow> TriggerSummary" where
  "trigger_summary tx_hash evaluated results =
     (let processed = length (filter (\<lambda>r. trr_status r = ''processed'') results) in
      \<lparr>tsu_status = (if processed > 0 then ''processed'' else ''filtered''), tsu_reason = None,
       tsu_tx_hash = tx_hash, tsu_evaluated = evaluated, tsu_dispatched = processed, tsu_results = results\<rparr>)"

definition trigger_stop :: "string \<Rightarrow> string option \<Rightarrow> string \<Rightarrow> TriggerSummary" where
  "trigger_stop status reason tx_hash =
     \<lparr>tsu_status = status, tsu_reason = reason, tsu_tx_hash = tx_hash, tsu_evaluated = 0, tsu_dispatched = 0,
      tsu_results = []\<rparr>"

section \<open>Payment gate\<close>

datatype gate_reason =
    No_payment_data
  | No_payment_token
  | Wrong_token string
  | Amount_below_minimum int int
  | Invalid_payment_amount

definition check_payment_gate :: "DecodedEvent \<Rightarrow> Trigger \<Rightarrow> gate_reason option" where
  "check_payment_gate decoded trigger =
     (if \<not> tg_require_payment trigger then None
      else case de_payment_amount decoded of
        None \<Rightarrow> Some No_payment_data
      | Some amount \<Rightarrow>
          let token = or_nil (de_payment_token decoded); required = or_nil (tg_payment_token trigger);
              minimum = or_nil (tg_min_payment_amount trigger) in
          if required \<noteq> [] \<and> token = [] then Some No_payment_token
          else if required \<noteq> [] \<and> py_lower token \<noteq> py_lower required then Some (Wrong_token token)
          else if minimum \<noteq> [] then
            (case (py_int amount, py_int minimum) of
               (Some a, Some m) \<Rightarrow> if a < m then Some (Amount_below_minimum a m) else None
             | _ \<Rightarrow> Some Invalid_payment_amount)
          else None)"

section \<open>Shared pieces\<close>

text \<open>\<open>trigger.reputation_threshold > 0\<close> and a score below it; no identity counts as 0.\<close>

definition reputation_rejected :: "Trigger \<Rightarrow> AgentIdentity option \<Rightarrow> bool" where
  "reputation_rejected trigger identity \<longleftrightarrow> tg_reputation_threshold trigger > 0 \<and>
     (case identity of Some i \<Rightarrow> ai_reputation_score i | None \<Rightarrow> 0) < tg_reputation_threshold trigger"

definition resolve_optional :: "env \<Rightarrow> string option \<Rightarrow> int \<Rightarrow> AgentIdentity option io" where
  "resolve_optional env address chain_id =
     (if or_nil address = [] then eret None else resolve_identity env (or_nil address) chain_id)"

definition chain_or_0 :: "int option \<Rightarrow> int" where
  "chain_or_0 c = (case c of Some i \<Rightarrow> i | None \<Rightarrow> 0)"

definition trigger_payload ::
  "string \<Rightarrow> string \<Rightarrow> Endpoint \<Rightarrow> int \<Rightarrow> ExecutionBlock \<Rightarrow> Trigger \<Rightarrow> pydict \<Rightarrow> AgentIdentity option \<Rightarrow> WebhookPayload" where
  "trigger_payload event_id key endpoint time block trigger data identity =
     \<lparr>wp_id = event_id, wp_idempotency_key = key, wp_type = TRIGGER_MATCHED, wp_mode = ep_mode endpoint,
      wp_timestamp = time, wp_version = ''v1'', wp_execution = block,
      wp_data = \<lparr>wd_event = Some data, wd_transfer = None, wd_finality = None, wd_identity = identity\<rparr>,
      wp_trigger_id = Some (tg_id trigger)\<rparr>"

definition trigger_send :: "env \<Rightarrow> Endpoint \<Rightarrow> WebhookPayload \<Rightarrow> string option io" where
  "trigger_send env endpoint payload =
     ecatch (ebind (provider_send env \<lparr>sm_app_id = project_of endpoint,
         sm_event_type = webhook_type_value TRIGGER_MATCHED, sm_payload = payload, sm_convoy_endpoint_id = []\<rparr>)
       (\<lambda>m. eret (Some m))) (\<lambda>_. eret None)"

definition trigger_row ::
  "string \<Rightarrow> int \<Rightarrow> int option \<Rightarrow> string \<Rightarrow> DecodedEvent \<Rightarrow> Trigger \<Rightarrow> string \<Rightarrow> int \<Rightarrow> AgentIdentity option \<Rightarrow> EventRow" where
  "trigger_row event_id time chain tx_hash decoded trigger status depth identity =
     \<lparr>er_id = event_id, er_type = webhook_type_value TRIGGER_MATCHED, er_chain_id = chain, er_tx_hash = tx_hash,
      er_block_number = de_block_number decoded, er_block_hash = de_block_hash decoded,
      er_log_index = de_log_index decoded, er_from_address = or_nil (de_identity_address decoded),
      er_to_address = de_contract_address decoded, er_amount = None, er_authorizer = None, er_nonce = None,
      er_token = None, er_status = status, er_finality_depth = depth,
      er_endpoint_id = Some (tg_endpoint_id trigger), er_identity_data = identity, er_created_at = time,
      er_confirmed_at = None,
      er_event_type = (if tg_webhook_event_type trigger \<noteq> [] then tg_webhook_event_type trigger
                       else webhook_type_value TRIGGER_MATCHED),
      er_decoded_fields = de_fields decoded, er_source = ''onchain'', er_trigger_id = Some (tg_id trigger),
      er_product_source = ''pulse''\<rparr>"

text \<open>Record the event, link the endpoint and record the delivery of a message that was sent.\<close>

definition trigger_record ::
  "env \<Rightarrow> EventRow \<Rightarrow> Trigger \<Rightarrow> Endpoint \<Rightarrow> string option \<Rightarrow> unit io" where
  "trigger_record env row trigger endpoint message_id =
     ebind (ecatch (ebind (events_insert env row) (\<lambda>_. link_endpoints env (er_id row) [tg_endpoint_id trigger]))
              (\<lambda>_. eret ())) (\<lambda>_.
       if or_nil message_id \<noteq> [] then record_delivery env (ep_id endpoint) (er_id row) message_id else eret ())"

section \<open>Legacy dynamic-trigger path\<close>

definition legacy_block :: ExecutionBlock where
  "legacy_block = \<lparr>eb_state = CONFIRMED, eb_safe_to_execute = False, eb_trust_source = ONCHAIN, eb_finality = None\<rparr>"

definition legacy_key :: "string \<Rightarrow> string \<Rightarrow> Trigger \<Rightarrow> string" where
  "legacy_key tx_hash log_index trigger = py_join '':'' [tx_hash, log_index, tg_id trigger]"

definition legacy_deliver ::
  "env \<Rightarrow> string \<Rightarrow> string \<Rightarrow> Trigger \<Rightarrow> DecodedEvent \<Rightarrow> AgentIdentity option \<Rightarrow> Endpoint \<Rightarrow> TriggerResult io" where
  "legacy_deliver env tx_hash log_index trigger decoded identity endpoint =
     ebind (uuid4 env) (\<lambda>event_id. ebind (now env) (\<lambda>time.
     let payload = trigger_payload event_id (''dyn_'' @ py_join ''_'' [tx_hash, log_index, tg_id trigger])
           endpoint time legacy_block trigger (de_fields decoded) identity in
     ebind (if project_of endpoint \<noteq> [] then trigger_send env endpoint payload else eret None) (\<lambda>message_id.
     ebind (now env) (\<lambda>created.
     ebind (trigger_record env (trigger_row event_id created (de_chain_id decoded) tx_hash decoded trigger
              ''confirmed'' 0 identity) trigger endpoint message_id) (\<lambda>_.
       eret ((trigger_skipped trigger ''processed'' None)\<lparr>trr_event_id := Some event_id, trr_message_id := message_id\<rparr>))))))"

definition legacy_claimed ::
  "env \<Rightarrow> string \<Rightarrow> string \<Rightarrow> Trigger \<Rightarrow> DecodedEvent \<Rightarrow> TriggerResult io" where
  "legacy_claimed env tx_hash log_index trigger decoded =
     ebind (resolve_optional env (de_identity_address decoded) (chain_or_0 (de_chain_id decoded))) (\<lambda>identity.
       if reputation_rejected trigger identity
       then eret (trigger_skipped trigger ''filtered'' (Some (Reason ''reputation_below_threshold'')))
       else ebind (etry (endpoint_get_by_id env (tg_endpoint_id trigger))) (\<lambda>r. case r of
           Inl _ \<Rightarrow> eret (trigger_skipped trigger ''error'' (Some (Reason ''endpoint_fetch_failed'')))
         | Inr None \<Rightarrow> eret (trigger_skipped trigger ''skipped'' (Some (Reason ''endpoint_inactive'')))
         | Inr (Some endpoint) \<Rightarrow>
             if \<not> ep_active endpoint
             then eret (trigger_skipped trigger ''skipped'' (Some (Reason ''endpoint_inactive'')))
             else legacy_deliver env tx_hash log_index trigger decoded identity endpoint))"

definition legacy_trigger :: "env \<Rightarrow> pydict \<Rightarrow> string \<Rightarrow> string \<Rightarrow> Trigger \<Rightarrow> TriggerResult io" where
  "legacy_trigger env raw_log tx_hash log_index trigger =
     (case abi_decode env (tg_abi trigger) raw_log of
        Inl _ \<Rightarrow> eret (trigger_skipped trigger ''error'' (Some (Reason ''decode_failed'')))
      | Inr decoded \<Rightarrow>
          ebind (elift (evaluate_filters env (de_fields decoded) (tg_filter_rules trigger))) (\<lambda>rejected.
            case rejected of
              Some reason \<Rightarrow> eret (trigger_skipped trigger ''filtered'' (Some (Filter_reason reason)))
            | None \<Rightarrow>
                ebind (etry (record_nonce env (chain_or_0 (de_chain_id decoded))
                         (legacy_key tx_hash log_index trigger) ''dynamic_trigger'' None)) (\<lambda>r. case r of
                  Inl _ \<Rightarrow> eret (trigger_skipped trigger ''error'' (Some (Reason ''dedup_failed'')))
                | Inr is_new \<Rightarrow>
                    if \<not> is_new then eret (trigger_skipped trigger ''duplicate'' None)
                    else legacy_claimed env tx_hash log_index trigger decoded)))"

definition process_dynamic_event :: "env \<Rightarrow> pydict \<Rightarrow> Trigger list \<Rightarrow> TriggerSummary io" where
  "process_dynamic_event env raw_log triggers =
     (let tx_hash = py_str (en_py_str env) (dict_get ''transaction_hash'' (PyStr []) raw_log);
          log_index = py_str (en_py_str env) (dict_get ''log_index'' (PyInt 0) raw_log) in
      ebind (efor triggers (legacy_trigger env raw_log tx_hash log_index)) (\<lambda>results.
        eret (trigger_summary tx_hash (length triggers) results)))"

section \<open>Unified processing loop\<close>

text \<open>
  Stages 1 to 3 for triggers: decode, filter, payment gate. A trigger that does
  not decode or is rejected is skipped; a filter that raises aborts the loop.
\<close>

fun unified_decode :: "env \<Rightarrow> pydict \<Rightarrow> Trigger list \<Rightarrow> (DecodedEvent \<times> Trigger) list result" where
  "unified_decode env raw_log [] = Inr []"
| "unified_decode env raw_log (trigger # triggers) =
     (case abi_decode env (tg_abi trigger) raw_log of
        Inl _ \<Rightarrow> unified_decode env raw_log triggers
      | Inr decoded \<Rightarrow>
          rbind (evaluate_filters env (de_fields decoded) (tg_filter_rules trigger)) (\<lambda>rejected.
            if rejected \<noteq> None \<or> (tg_require_payment trigger \<and> check_payment_gate decoded trigger \<noteq> None)
            then unified_decode env raw_log triggers
            else rbind (unified_decode env raw_log triggers) (\<lambda>rest. Inr ((decoded, trigger) # rest))))"

definition unified_key :: "DecodedEvent \<Rightarrow> Trigger \<Rightarrow> string" where
  "unified_key decoded trigger = py_join '':'' [de_tx_hash decoded, int_str (de_log_index decoded), tg_id trigger]"

definition identity_or :: "string \<Rightarrow> DecodedEvent \<Rightarrow> string" where
  "identity_or other decoded =
     (if or_nil (de_identity_address decoded) \<noteq> [] then or_nil (de_identity_address decoded) else other)"

text \<open>Stage 4 for triggers: the pairs whose key was free; a failing claim skips its pair.\<close>

primrec unified_dedup ::
  "env \<Rightarrow> int \<Rightarrow> (DecodedEvent \<times> Trigger) list \<Rightarrow> (DecodedEvent \<times> Trigger) list io" where
  "unified_dedup env chain [] = eret []"
| "unified_dedup env chain (p # pairs) =
     ebind (etry (record_nonce env chain (unified_key (fst p) (snd p)) (identity_or ''dynamic_trigger'' (fst p)) None)) (\<lambda>r.
     ebind (unified_dedup env chain pairs) (\<lambda>rest.
       eret (if r = Inr True then p # rest else rest)))"

text \<open>Stage 5; no finality check without a block number and a chain.\<close>

definition unified_finality :: "env \<Rightarrow> DecodedEvent \<Rightarrow> FinalityStatus option io" where
  "unified_finality env decoded =
     (if de_block_number decoded = 0 \<or> chain_or_0 (de_chain_id decoded) = 0 then eret None
      else ecatch (ebind (check_finality_generic env (chain_or_0 (de_chain_id decoded)) (de_block_number decoded)
                (de_tx_hash decoded) None None) (\<lambda>f. eret (Some f)))
             (\<lambda>_. eret None))"

definition policy_chain :: "DecodedEvent \<Rightarrow> ChainId" where
  "policy_chain decoded = (case chain_of_int (chain_or_0 (de_chain_id decoded)) of Some c \<Rightarrow> c | None \<Rightarrow> BASE)"

definition or_else :: "string option \<Rightarrow> string \<Rightarrow> string" where
  "or_else x y = (if or_nil x \<noteq> [] then or_nil x else y)"

definition policy_transfer :: "DecodedEvent \<Rightarrow> TransferData" where
  "policy_transfer decoded =
     \<lparr>td_chain_id = policy_chain decoded, td_tx_hash = de_tx_hash decoded,
      td_block_number = de_block_number decoded,
      td_from_address = or_else (de_payment_from decoded) (or_else (de_identity_address decoded) []),
      td_to_address = or_else (de_payment_to decoded) (de_contract_address decoded),
      td_amount = or_else (de_payment_amount decoded) ''0'', td_nonce = or_nil (de_dedup_key decoded),
      td_token = or_else (de_payment_token decoded) (de_contract_address decoded)\<rparr>"

definition unified_deferred :: "FinalityStatus option \<Rightarrow> DecodedEvent \<Rightarrow> Endpoint \<Rightarrow> bool" where
  "unified_deferred finality decoded endpoint = (case finality of
      Some f \<Rightarrow> fs_confirmations f < required_depth (policy_chain decoded) endpoint
    | None \<Rightarrow> False)"

definition unified_block :: "FinalityStatus option \<Rightarrow> ExecutionBlock" where
  "unified_block finality =
     \<lparr>eb_state = (if is_final finality then FINALIZED else CONFIRMED), eb_safe_to_execute = is_final finality,
      eb_trust_source = ONCHAIN, eb_finality = build_finality_data finality None\<rparr>"

definition unified_wanted :: "env \<Rightarrow> int option \<Rightarrow> Endpoint \<Rightarrow> bool io" where
  "unified_wanted env chain endpoint =
     ebind (fetch_subscriptions env (ep_id endpoint)) (\<lambda>subs.
       eret (if subs \<noteq> [] \<and> chain \<noteq> None
             then list_ex (\<lambda>s. or_nil (sf_chains (sub_filters s)) = [] \<or>
                    chain_or_0 chain \<in> set (or_nil (sf_chains (sub_filters s)))) subs
             else True))"

definition unified_notify ::
  "env \<Rightarrow> int option \<Rightarrow> DecodedEvent \<Rightarrow> Endpoint \<Rightarrow> WebhookPayload \<Rightarrow> nat io" where
  "unified_notify env chain decoded endpoint payload =
     (if ep_mode endpoint \<noteq> NOTIFY then eret 0
      else ebind (unified_wanted env chain endpoint) (\<lambda>wanted.
        if \<not> wanted then eret 0
        else ecatch (ebind (uuid4 env) (\<lambda>i. ebind (now env) (\<lambda>time.
             ebind (realtime_insert env [\<lparr>rt_id = i, rt_endpoint_id = ep_id endpoint,
                 rt_type = webhook_type_value TRIGGER_MATCHED, rt_data = RtTrigger payload, rt_chain_id = chain,
                 rt_recipient = or_else (de_payment_to decoded) (de_contract_address decoded),
                 rt_created_at = time\<rparr>]) (\<lambda>_. eret 1)))) (\<lambda>_. eret 0)))"

definition unified_deliver ::
  "env \<Rightarrow> string \<Rightarrow> int option \<Rightarrow> FinalityStatus option \<Rightarrow> AgentIdentity option \<Rightarrow> DecodedEvent \<Rightarrow> Trigger
   \<Rightarrow> Endpoint \<Rightarrow> TriggerResult io" where
  "unified_deliver env tx_hash chain finality identity decoded trigger endpoint =
     ebind (uuid4 env) (\<lambda>event_id. ebind (now env) (\<lambda>time.
     let block = unified_block finality;
         payload = trigger_payload event_id
           (''dyn_'' @ py_join ''_'' [tx_hash, int_str (de_log_index decoded), tg_id trigger])
           endpoint time block trigger (de_fields decoded) identity in
     ebind (if ep_mode endpoint = EXECUTE \<and> project_of endpoint \<noteq> [] then trigger_send env endpoint payload
            else eret None) (\<lambda>message_id.
     ebind (unified_notify env chain decoded endpoint payload) (\<lambda>notified.
     ebind (now env) (\<lambda>created.
     ebind (trigger_record env (trigger_row event_id created chain tx_hash decoded trigger
              (if is_final finality then ''finalized'' else ''confirmed'')
              (case finality of Some f \<Rightarrow> fs_confirmations f | None \<Rightarrow> 0) identity) trigger endpoint message_id) (\<lambda>_.
       eret ((trigger_skipped trigger ''processed'' None)\<lparr>trr_event_id := Some event_id, trr_message_id := message_id,
         trr_execution_state := Some (eb_state block), trr_notify_sent := notified\<rparr>)))))))"

definition unified_endpoint ::
  "env \<Rightarrow> string \<Rightarrow> int option \<Rightarrow> FinalityStatus option \<Rightarrow> AgentIdentity option \<Rightarrow> DecodedEvent \<Rightarrow> Trigger
   \<Rightarrow> Endpoint \<Rightarrow> TriggerResult io" where
  "unified_endpoint env tx_hash chain finality identity decoded trigger endpoint =
     (if \<not> ep_active endpoint
      then eret (trigger_skipped trigger ''skipped'' (Some (Reason ''endpoint_inactive'')))
      else ebind (elift (evaluate_policy (policy_transfer decoded) identity (ep_policies endpoint))) (\<lambda>denied.
        case denied of
          Some reason \<Rightarrow> eret (trigger_skipped trigger ''filtered'' (Some (Policy_reason reason)))
        | None \<Rightarrow>
            if unified_deferred finality decoded endpoint
            then eret (trigger_skipped trigger ''deferred'' (Some (Reason ''finality_pending'')))
            else unified_deliver env tx_hash chain finality identity decoded trigger endpoint))"

definition unified_trigger ::
  "env \<Rightarrow> string \<Rightarrow> int option \<Rightarrow> FinalityStatus option \<Rightarrow> AgentIdentity option \<Rightarrow> DecodedEvent \<times> Trigger
   \<Rightarrow> TriggerResult io" where
  "unified_trigger env tx_hash chain finality identity p = (case p of (decoded, trigger) \<Rightarrow>
     ebind (etry (endpoint_get_by_id env (tg_endpoint_id trigger))) (\<lambda>r. case r of
       Inl _ \<Rightarrow> eret (trigger_skipped trigger ''error'' (Some (Reason ''endpoint_fetch_failed'')))
     | Inr None \<Rightarrow> eret (trigger_skipped trigger ''skipped'' (Some (Reason ''endpoint_inactive'')))
     | Inr (Some endpoint) \<Rightarrow> unified_endpoint env tx_hash chain finality identity decoded trigger endpoint))"

definition unified_active ::
  "env \<Rightarrow> nat \<Rightarrow> DecodedEvent \<Rightarrow> (DecodedEvent \<times> Trigger) list \<Rightarrow> TriggerSummary io" where
  "unified_active env evaluated primary fresh =
     (let tx_hash = de_tx_hash primary; chain = de_chain_id primary in
      ebind (unified_finality env primary) (\<lambda>finality.
      ebind (resolve_optional env (de_identity_address primary) (chain_or_0 chain)) (\<lambda>identity.
      let gated = filter (\<lambda>p. \<not> reputation_rejected (snd p) identity) fresh in
      if gated = [] then eret (trigger_stop ''filtered'' (Some ''reputation_below_threshold'') tx_hash)
      else ebind (efor gated (unified_trigger env tx_hash chain finality identity)) (\<lambda>results.
        eret (trigger_summary tx_hash evaluated results)))))"

definition unified_triggers :: "env \<Rightarrow> pydict \<Rightarrow> Trigger list \<Rightarrow> TriggerSummary io" where
  "unified_triggers env raw_log triggers =
     ebind (elift (unified_decode env raw_log triggers)) (\<lambda>pairs. case pairs of
       [] \<Rightarrow> eret (trigger_stop ''filtered'' (Some ''no_events_after_decode'')
               (py_str (en_py_str env) (dict_get ''transaction_hash'' (PyStr []) raw_log)))
     | (primary, _) # _ \<Rightarrow>
         ebind (unified_dedup env (chain_or_0 (de_chain_id primary)) pairs) (\<lambda>fresh.
           if fresh = [] then eret (trigger_stop ''duplicate'' None (de_tx_hash primary))
           else unified_active env (length triggers) primary fresh))"

text \<open>
  The same loop with \<open>triggers = None\<close>: the single decoded transfer, claimed with
  correlation when it has an authorizer and plainly otherwise (where a failing
  claim counts as a duplicate), then the shared dispatch stages.
\<close>

definition unified_erc3009_active :: "env \<Rightarrow> DecodedEvent \<Rightarrow> ERC3009Transfer \<Rightarrow> ProcResult io" where
  "unified_erc3009_active env decoded transfer =
     ebind (unified_finality env decoded) (\<lambda>finality.
     ebind (resolve_optional env (de_identity_address decoded) (chain_or_0 (de_chain_id decoded))) (\<lambda>identity.
       dispatch_for_transfer env transfer finality identity None None))"

definition unified_erc3009 :: "env \<Rightarrow> pydict \<Rightarrow> ProcResult io" where
  "unified_erc3009 env raw_log = (case erc3009_decode env raw_log of
      Inl _ \<Rightarrow> eret (summary ''error'' (Some ''decode_failed'') None None)
    | Inr decoded \<Rightarrow> (case de_typed_model decoded of
        None \<Rightarrow> eraise AttributeError
      | Some transfer \<Rightarrow>
        let tx = Some (de_tx_hash decoded); chain = chain_or_0 (de_chain_id decoded) in
        if or_nil (de_identity_address decoded) \<noteq> [] then
          ebind (etry (record_nonce_or_correlate env chain (dedup_nonce transfer) (dedup_authorizer transfer)
                   None ''goldsky'')) (\<lambda>r. case r of
            Inl _ \<Rightarrow> eret (summary ''error'' (Some ''dedup_failed'') tx None)
          | Inr (is_new, existing_event_id, existing_source) \<Rightarrow>
              if \<not> is_new then
                (if existing_source = Some ''facilitator'' \<and> or_nil existing_event_id \<noteq> []
                 then promote_pre_confirmed_event env (or_nil existing_event_id) transfer
                 else eret (summary ''duplicate'' None tx None))
              else unified_erc3009_active env decoded transfer)
        else
          ebind (etry (record_nonce env chain (dedup_nonce transfer) (dedup_authorizer transfer) None)) (\<lambda>r.
            if r \<noteq> Inr True then eret (summary ''duplicate'' None tx None)
            else unified_erc3009_active env decoded transfer)))"

section \<open>Detection and routing\<close>

definition TOPIC_CACHE_TTL :: int where
  "TOPIC_CACHE_TTL = 30"

definition find_by_topic :: "env \<Rightarrow> string \<Rightarrow> Trigger list io" where
  "find_by_topic env topic =
     (let topic_lower = py_lower topic;
          refresh = (\<lambda>time. ebind (query_valid env
              (\<lambda>w. filter (\<lambda>r. iv_key r = topic_lower \<and> iv_active r) (w_invalid_triggers w))
              (\<lambda>w. filter (\<lambda>t. tg_topic0 t = Some topic_lower \<and> tg_active t) (w_triggers w))) (\<lambda>triggers.
            ebind (emodify (\<lambda>w. w\<lparr>w_topic_cache := (w_topic_cache w)(topic_lower \<mapsto> (time, triggers))\<rparr>)) (\<lambda>_. eret triggers))) in
      ebind (now env) (\<lambda>time. ebind (egets w_topic_cache) (\<lambda>cache. case cache topic_lower of
        Some (ts, triggers) \<Rightarrow> if time - ts < TOPIC_CACHE_TTL then eret triggers else refresh time
      | None \<Rightarrow> refresh time)))"

datatype detection =
    Unknown
  | Erc3009_transfer
  | Dynamic "Trigger list"

definition EVENT_SIGNATURES :: "string \<Rightarrow> detection option" where
  "EVENT_SIGNATURES topic = (if topic = py_lower AUTHORIZATION_USED_TOPIC \<or> topic = py_lower TRANSFER_TOPIC
     then Some Erc3009_transfer else None)"

definition trigger_matches :: "pyval \<Rightarrow> string \<Rightarrow> Trigger \<Rightarrow> bool" where
  "trigger_matches chain contract t \<longleftrightarrow>
     \<not> (tg_chain_ids t \<noteq> [] \<and> chain \<noteq> PyNone \<and> \<not> list_ex (\<lambda>c. py_eq chain (PyInt c)) (tg_chain_ids t)) \<and>
     \<not> (or_nil (tg_contract_address t) \<noteq> [] \<and> contract \<noteq> [] \<and> py_lower (or_nil (tg_contract_address t)) \<noteq> contract)"

text \<open>\<open>index\<close> is the lookup of the worker pool's \<open>TriggerIndex\<close>; without it the repository is asked.\<close>

definition detect_event_type :: "env \<Rightarrow> (string \<Rightarrow> Trigger list) option \<Rightarrow> pydict \<Rightarrow> detection io" where
  "detect_event_type env index raw_log =
     (case parse_topics (dict_get ''topics'' (PyList []) raw_log) of
        [] \<Rightarrow> eret Unknown
      | t # _ \<Rightarrow> ebind (elift (py_lower_val t)) (\<lambda>topic0. case EVENT_SIGNATURES topic0 of
            Some d \<Rightarrow> eret d
          | None \<Rightarrow>
              ebind (elift (py_lower_val (dict_get ''address'' (PyStr []) raw_log))) (\<lambda>contract.
              ebind (case index of Some match \<Rightarrow> eret (match topic0) | None \<Rightarrow> find_by_topic env topic0) (\<lambda>triggers.
              let matched = filter (trigger_matches (dict_get ''chain_id'' PyNone raw_log) contract) triggers in
              eret (if matched \<noteq> [] then Dynamic matched else Unknown)))))"

datatype outcome =
    Payment ProcResult
  | Triggers TriggerSummary
  | Skipped
  | Failed

definition route_event :: "env \<Rightarrow> bool \<Rightarrow> pydict \<Rightarrow> detection \<Rightarrow> outcome io" where
  "route_event env unified raw_log d = (case d of
      Dynamic triggers \<Rightarrow>
        ebind (if unified then unified_triggers env raw_log triggers else process_dynamic_event env raw_log triggers)
          (\<lambda>s. eret (Triggers s))
    | Erc3009_transfer \<Rightarrow>
        ebind (if unified then unified_erc3009 env raw_log else process_erc3009_event env raw_log)
          (\<lambda>r. eret (Payment r))
    | Unknown \<Rightarrow> eret Skipped)"

definition process_event :: "env \<Rightarrow> bool \<Rightarrow> (string \<Rightarrow> Trigger list) option \<Rightarrow> pydict \<Rightarrow> outcome io" where
  "process_event env unified index raw_log =
     ebind (detect_event_type env index raw_log) (route_event env unified raw_log)"

text \<open>
  \<open>process_batch\<close>: the events of a batch run concurrently; the model runs them in
  the order of the batch, which is one of the schedules.
\<close>

definition process_batch :: "env \<Rightarrow> bool \<Rightarrow> (string \<Rightarrow> Trigger list) option \<Rightarrow> pydict list \<Rightarrow> outcome list io" where
  "process_batch env unified index raw_logs =
     efor raw_logs (\<lambda>raw_log. ecatch (process_event env unified index raw_log) (\<lambda>_. eret Failed))"

end
