(* ===== verification/Processor_Props.thy ===== *)
theory Processor_Props
  imports Processor
begin

text \<open>
  What the payment pipeline guarantees: integrity of the tables, who is sent a
  webhook and with which claims, exactly-once processing, and how delivery
  rows relate to the messages sent.
\<close>

section \<open>Integrity\<close>

lemma db_inv_caches:
  "db_inv w \<Longrightarrow> db_inv (w\<lparr>w_redis_cache := a\<rparr>)" "db_inv w \<Longrightarrow> db_inv (w\<lparr>w_local_cache := b\<rparr>)"
  "db_inv w \<Longrightarrow> db_inv (w\<lparr>w_topic_cache := c\<rparr>)"
  by (simp_all add: db_inv_def event_ids_def endpoint_ids_def)

lemma keeps_fetch_matching [keeps_intros]: "keeps db_inv (fetch_matching_endpoints env t)"
  unfolding fetch_matching_endpoints_def cache_get_def cache_set_def
  by (intro keeps_intros db_inv_tick_stable db_inv_caches)

lemma keeps_record_event [keeps_intros]: "keeps db_inv (record_event env t f i ty ep ev)"
  unfolding record_event_def by (intro keeps_intros db_inv_tick_stable)

lemma keeps_record_delivery [keeps_intros]: "keeps db_inv (record_delivery env ep ev m)"
  unfolding record_delivery_def by (intro keeps_intros)

lemma keeps_deliver_execute [keeps_intros]: "keeps db_inv (deliver_execute env t ev eps ty f i)"
  unfolding deliver_execute_def record_deliveries_def by (intro keeps_intros)

lemma keeps_filter_notify [keeps_intros]: "keeps db_inv (filter_notify env t i eps)"
  by (induction eps) (auto intro!: keeps_intros)

lemma keeps_deliver_notify [keeps_intros]: "keeps db_inv (deliver_notify env t eps ty f i)"
  unfolding deliver_notify_def by (intro keeps_intros)

lemma keeps_dispatch_for_transfer [keeps_intros]: "keeps db_inv (dispatch_for_transfer env t f i ov ev)"
  unfolding dispatch_for_transfer_def dispatch_matched_def Let_def by (intro keeps_intros)

lemma keeps_resolve_identity [keeps_intros]: "tick_stable I \<Longrightarrow> keeps I (resolve_identity env a c)"
  unfolding resolve_identity_def by (intro keeps_intros)

lemma keeps_check_finality_opt [keeps_intros]: "tick_stable I \<Longrightarrow> keeps I (check_finality_opt env t)"
  unfolding check_finality_opt_def by (intro keeps_intros)

lemma keeps_process_pre_confirmed [keeps_intros]: "keeps db_inv (process_pre_confirmed_event env t)"
  unfolding process_pre_confirmed_event_def by (intro keeps_intros db_inv_tick_stable)

lemma keeps_fetch_endpoints [keeps_intros]: "tick_stable I \<Longrightarrow> keeps I (fetch_endpoints env k ids)"
  by (induction ids) (auto intro!: keeps_intros)

lemma keeps_linked_or_legacy [keeps_intros]: "tick_stable I \<Longrightarrow> keeps I (linked_or_legacy env e l)"
  unfolding linked_or_legacy_def by (intro keeps_intros)

lemma keeps_promote [keeps_intros]: "keeps db_inv (promote_pre_confirmed_event env e t)"
  unfolding promote_pre_confirmed_event_def promote_dispatch_def by (intro keeps_intros db_inv_tick_stable)

lemma keeps_process_transfer [keeps_intros]: "keeps db_inv (process_transfer env t)"
  unfolding process_transfer_def by (intro keeps_intros db_inv_tick_stable)

lemma keeps_process_erc3009 [keeps_intros]: "keeps db_inv (process_erc3009_event env raw)"
  unfolding process_erc3009_event_def by (intro keeps_intros)

section \<open>Operations that never raise\<close>

lemma total_record_event [total_intros]: "no_raise (record_event env t f i ty ep ev)"
  unfolding record_event_def by (intro total_intros)

lemma total_link_endpoints [total_intros]: "no_raise (link_endpoints env i ids)"
  unfolding link_endpoints_def by (intro total_intros)

lemma total_record_deliveries [total_intros]: "no_raise (record_deliveries env ev eps ids)"
  unfolding record_deliveries_def record_delivery_def by (intro total_intros)

lemma total_deliver_execute [total_intros]: "no_raise (deliver_execute env t ev eps ty f i)"
  unfolding deliver_execute_def by (intro total_intros)

lemma total_deliver_notify [total_intros]: "no_raise (deliver_notify env t eps ty f i)"
  unfolding deliver_notify_def by (intro total_intros)

lemma total_services [total_intros]: "no_raise (check_finality_opt env t)" "no_raise (resolve_identity env a c)"
  "no_raise (linked_or_legacy env e l)"
  unfolding check_finality_opt_def resolve_identity_def linked_or_legacy_def by (intro total_intros)+

lemma total_fetch_endpoints [total_intros]: "no_raise (fetch_endpoints env k ids)"
  by (induction ids) (auto intro!: total_intros)

section \<open>Frames\<close>

text \<open>
  \<open>stable_db I\<close>: the predicate looks only at the nonces, the endpoints and the sent messages.
  Everything but the two operations on nonces and messages keeps such a predicate; nothing here writes endpoints.
\<close>

named_theorems frame_intros \<open>actions that touch neither nonces nor sent messages\<close>

definition stable_db :: "(world \<Rightarrow> bool) \<Rightarrow> bool" where
  "stable_db I \<longleftrightarrow> (\<forall>w w'. I w \<longrightarrow> w_nonces w' = w_nonces w \<longrightarrow> w_sent w' = w_sent w \<longrightarrow>
     w_endpoints w' = w_endpoints w \<longrightarrow> I w')"

lemma stable_db_tick [simp]: "stable_db I \<Longrightarrow> tick_stable I"
  by (simp add: stable_db_def tick_stable_def)

lemma stable_dbD: "stable_db I \<Longrightarrow> I w \<Longrightarrow> w_nonces w' = w_nonces w \<Longrightarrow> w_sent w' = w_sent w \<Longrightarrow>
    w_endpoints w' = w_endpoints w \<Longrightarrow> I w'"
  by (simp add: stable_db_def)

lemma frame_insert_checked:
  assumes "stable_db I" and "\<And>w. w_nonces (f w) = w_nonces w" and "\<And>w. w_sent (f w) = w_sent w"
    and "\<And>w. w_endpoints (f w) = w_endpoints w"
  shows "keeps I (insert_checked env ok f)"
  using assms by (intro keeps_insert_checked) (auto elim: stable_dbD)

lemma frame_emodify:
  assumes "stable_db I" and "\<And>w. w_nonces (f w) = w_nonces w" and "\<And>w. w_sent (f w) = w_sent w"
    and "\<And>w. w_endpoints (f w) = w_endpoints w"
  shows "keeps I (emodify f)"
  using assms by (intro keeps_emodify) (auto elim: stable_dbD)

lemma keeps_ebind_elift:
  "(\<And>v. r = Inr v \<Longrightarrow> keeps I (k v)) \<Longrightarrow> keeps I (ebind (elift r) k)"
  by (cases r) (auto intro!: keepsI dest: keepsD)

lemma frame_basic [frame_intros]:
  "stable_db I \<Longrightarrow> keeps I tick" "stable_db I \<Longrightarrow> keeps I (now env)" "stable_db I \<Longrightarrow> keeps I (uuid4 env)"
  "stable_db I \<Longrightarrow> keeps I (db_call env)" "stable_db I \<Longrightarrow> keeps I (query env f)"
  "stable_db I \<Longrightarrow> keeps I (resolve_identity env a c)" "stable_db I \<Longrightarrow> keeps I (check_finality_opt env t)"
  "stable_db I \<Longrightarrow> keeps I (fetch_endpoints env k ids)" "stable_db I \<Longrightarrow> keeps I (linked_or_legacy env e l)"
  "stable_db I \<Longrightarrow> keeps I (list_by_recipient env x)" "stable_db I \<Longrightarrow> keeps I (fetch_subscriptions env x)"
  by (intro keeps_intros stable_db_tick; assumption)+

lemma frame_update_event [frame_intros]: "stable_db I \<Longrightarrow> keeps I (update_event env i f)"
  unfolding update_event_def
  by (intro keeps_intros frame_intros frame_emodify) (simp_all add: modify_event_def)

lemma frame_events [frame_intros]:
  "stable_db I \<Longrightarrow> keeps I (events_insert env row)"
  "stable_db I \<Longrightarrow> keeps I (link_endpoints env i ids)"
  "stable_db I \<Longrightarrow> keeps I (events_update_status env i s c)"
  "stable_db I \<Longrightarrow> keeps I (events_update_finality env i d)"
  "stable_db I \<Longrightarrow> keeps I (promote_to_confirmed env i h b bh l)"
  "stable_db I \<Longrightarrow> keeps I (delivery_create env ep ev m s)"
  "stable_db I \<Longrightarrow> keeps I (realtime_insert env rows)"
  unfolding events_insert_def link_endpoints_def events_update_status_def events_update_finality_def
    promote_to_confirmed_def delivery_create_def realtime_insert_def
  by ((intro keeps_basic keeps_ebind keeps_ecatch keeps_if keeps_option keeps_Let frame_intros frame_insert_checked;
       simp))+

lemmas act_rules = keeps_basic keeps_ebind_elift keeps_ebind keeps_ecatch keeps_etry keeps_if keeps_option keeps_prod
  keeps_sum keeps_Let keeps_ewhen keeps_efor

lemma frame_record [frame_intros]:
  "stable_db I \<Longrightarrow> keeps I (record_event env t f i ty ep ev)"
  "stable_db I \<Longrightarrow> keeps I (record_delivery env ep' ev' m)"
  "stable_db I \<Longrightarrow> keeps I (notify_batch env eps t ty f i)"
  unfolding record_event_def record_delivery_def notify_batch_def
  by (intro act_rules frame_intros; assumption)+

lemma frame_more [frame_intros]:
  "stable_db I \<Longrightarrow> keeps I (record_deliveries env ev eps ids)"
  "stable_db I \<Longrightarrow> keeps I (deliver_notify env t eps ty f i)"
  unfolding record_deliveries_def deliver_notify_def
  by (intro act_rules frame_intros; assumption)+

lemma frame_filter_notify [frame_intros]: "stable_db I \<Longrightarrow> keeps I (filter_notify env t i eps)"
  by (induction eps) (auto intro!: act_rules frame_intros)

lemma frame_fetch_matching [frame_intros]: "stable_db I \<Longrightarrow> keeps I (fetch_matching_endpoints env t)"
  unfolding fetch_matching_endpoints_def cache_get_def cache_set_def
  by (intro act_rules frame_intros frame_emodify) simp_all

section \<open>Who is sent a webhook\<close>

text \<open>The messages sent since \<open>s0\<close> all satisfy \<open>P\<close>.\<close>

definition sent_since :: "SentMessage list \<Rightarrow> (SentMessage \<Rightarrow> bool) \<Rightarrow> world \<Rightarrow> bool" where
  "sent_since s0 P w \<longleftrightarrow> (\<exists>msgs. w_sent w = s0 @ msgs \<and> (\<forall>m \<in> set msgs. P m))"

lemma stable_sent_since [simp]: "stable_db (sent_since s0 P)"
  by (simp add: stable_db_def sent_since_def)

lemma sent_since_start [simp]: "sent_since (w_sent w) P w"
  by (simp add: sent_since_def)

lemma sent_sinceD: "sent_since (w_sent w) P w' \<Longrightarrow> m \<in> set (drop (length (w_sent w)) (w_sent w')) \<Longrightarrow> P m"
  by (auto simp: sent_since_def)

lemma dispatch_sent_since:
  assumes "\<And>ep m. ep \<in> set eps \<Longrightarrow> message_for env t ty fin ep m \<Longrightarrow> P m"
  shows "keeps (sent_since s0 P) (dispatch_event env t eps ty fin idn)"
proof (rule keepsI)
  fix w assume "sent_since s0 P w"
  then obtain ms where ms: "w_sent w = s0 @ ms" "\<forall>m \<in> set ms. P m" by (auto simp: sent_since_def)
  obtain ids sel msgs w' where d: "run (dispatch_event env t eps ty fin idn) w = (Inr ids, w')"
    "subseq sel eps" "list_all2 (message_for env t ty fin) sel msgs" "w_sent w' = w_sent w @ msgs"
    using dispatch_event_run by blast
  have "P m" if m: "m \<in> set msgs" for m
  proof -
    from m obtain i where i: "i < length msgs" "m = msgs ! i" by (auto simp: in_set_conv_nth)
    with d(3) have f: "message_for env t ty fin (sel ! i) m" "sel ! i \<in> set sel"
      by (auto simp: list_all2_conv_all_nth)
    have "sel ! i \<in> set eps" using list_emb_set[OF d(2) f(2)] by auto
    then show ?thesis using f(1) by (rule assms)
  qed
  with d ms show "sent_since s0 P (snd (run (dispatch_event env t eps ty fin idn) w))"
    by (auto simp: sent_since_def)
qed

lemma deliver_execute_sent_since:
  assumes "\<And>ep m. ep \<in> set eps \<Longrightarrow> ep_mode ep = EXECUTE \<Longrightarrow> message_for env t ty fin ep m \<Longrightarrow> P m"
  shows "keeps (sent_since s0 P) (deliver_execute env t ev eps ty fin idn)"
  unfolding deliver_execute_def Let_def
proof (intro act_rules dispatch_sent_since frame_intros stable_sent_since)
  fix ep m
  assume "ep \<in> set (filter (\<lambda>ep. ep_mode ep = EXECUTE) eps)" and "message_for env t ty fin ep m"
  then show "P m" by (intro assms[of ep]) simp_all
qed

lemma approve_endpoints_sound:
  "approve_endpoints td i eps = Inr ok \<Longrightarrow>
   set ok \<subseteq> set eps \<and> (\<forall>ep \<in> set ok. evaluate_policy td i (ep_policies ep) = Inr None)"
  by (induction eps arbitrary: ok) (auto simp: rbind_eq_Inr split: if_splits)

lemma match_endpoints_eq:
  "match_endpoints t eps = filter (\<lambda>ep. ep_active ep \<and> py_lower (ep_recipient ep) = py_lower (tr_to_address t) \<and>
     chain_value (tr_chain_id t) \<in> set (ep_chains ep)) eps"
  by (induction eps) auto

text \<open>What makes an endpoint a legitimate recipient of a webhook for a transfer.\<close>

definition eligible ::
  "ERC3009Transfer \<Rightarrow> FinalityStatus option \<Rightarrow> AgentIdentity option \<Rightarrow> Endpoint \<Rightarrow> bool" where
  "eligible t fin idn ep \<longleftrightarrow> ep_active ep \<and> ep_mode ep = EXECUTE \<and>
     py_lower (ep_recipient ep) = py_lower (tr_to_address t) \<and>
     chain_value (tr_chain_id t) \<in> set (ep_chains ep) \<and>
     evaluate_policy (build_transfer_data t) idn (ep_policies ep) = Inr None \<and>
     (\<forall>f. fin = Some f \<longrightarrow> required_depth (tr_chain_id t) ep \<le> fs_confirmations f)"

lemma dispatch_for_transfer_sent:
  assumes "\<And>ep m. eligible t fin idn ep \<Longrightarrow> message_for env t (webhook_type_for ov fin) fin ep m \<Longrightarrow> P m"
  shows "keeps (sent_since s0 P) (dispatch_for_transfer env t fin idn ov ev)"
  unfolding dispatch_for_transfer_def dispatch_matched_def Let_def
proof (intro act_rules frame_intros stable_sent_since deliver_execute_sent_since)
  fix eps ok ep m
  assume "approve_endpoints (build_transfer_data t) idn (match_endpoints t eps) = Inr ok"
    and "ep \<in> set (finality_gate t fin ok)" and "ep_mode ep = EXECUTE"
    and msg: "message_for env t (webhook_type_for ov fin) fin ep m"
  then have "eligible t fin idn ep"
    using approve_endpoints_sound[of "build_transfer_data t" idn "match_endpoints t eps" ok]
    by (auto simp: eligible_def match_endpoints_eq finality_gate_def split: option.splits)
  then show "P m" using msg by (rule assms)
qed

text \<open>
  The endpoints the lookup of the recipient can give in a state: the active rows of the table for that
  recipient, or those of a cache entry for it, in Redis (if it answers) or in the process, that has not expired.
\<close>

definition cache_holds :: "env \<Rightarrow> world \<Rightarrow> string \<Rightarrow> Endpoint list \<Rightarrow> bool" where
  "cache_holds env w key eps \<longleftrightarrow>
     (en_redis env (w_tick w) \<and> (\<exists>e. w_redis_cache w key = Some (eps, e) \<and> en_now env (Suc (w_tick w)) < e)) \<or>
     (\<exists>e. w_local_cache w key = Some (eps, e) \<and> en_now env (Suc (w_tick w)) < e)"

definition looked_up :: "env \<Rightarrow> world \<Rightarrow> ERC3009Transfer \<Rightarrow> Endpoint \<Rightarrow> bool" where
  "looked_up env w t ep \<longleftrightarrow>
     (ep \<in> set (w_endpoints w) \<and> ep_active ep \<and> ep_recipient ep = py_lower (tr_to_address t)) \<or>
     (\<exists>eps. ep \<in> set eps \<and> cache_holds env w (''tripwire:cache:endpoints:'' @ py_lower (tr_to_address t)) eps)"

lemma cache_get_run:
  assumes "run (cache_get env name) w = (r, w1)"
  shows "w_endpoints w1 = w_endpoints w"
    and "r = Inr None \<or> (\<exists>eps. r = Inr (Some eps) \<and> cache_holds env w (''tripwire:cache:'' @ name) eps)"
proof -
  obtain k where k: "k = ''tripwire:cache:'' @ name" by simp
  note run = assms[unfolded cache_get_def Let_def, folded k]
  show "w_endpoints w1 = w_endpoints w" using run by (auto split: option.splits if_splits)
  show "r = Inr None \<or> (\<exists>eps. r = Inr (Some eps) \<and> cache_holds env w (''tripwire:cache:'' @ name) eps)"
    unfolding k[symmetric] using run by (auto simp: cache_holds_def split: option.splits if_splits)
qed

lemma fetch_matching_run:
  assumes "run (fetch_matching_endpoints env t) w = (Inr eps, w1)" and "ep \<in> set eps"
  shows "looked_up env w t ep"
proof -
  let ?name = "''endpoints:'' @ py_lower (tr_to_address t)"
  obtain c w2 where c: "run (cache_get env ?name) w = (c, w2)" by fastforce
  note get = cache_get_run[OF c]
  show ?thesis
  proof (cases "c = Inr None")
    case True
    then have "eps = filter (\<lambda>e. ep_recipient e = py_lower (tr_to_address t) \<and> ep_active e) (w_endpoints w2)"
      using assms(1) c by (auto simp: fetch_matching_endpoints_def Let_def list_by_recipient_def query_valid_def query_def
          split: option.splits if_splits prod.splits sum.splits)
    then show ?thesis using assms(2) get(1) by (auto simp: looked_up_def)
  next
    case False
    with get(2) obtain eps' where h: "c = Inr (Some eps')" "cache_holds env w (''tripwire:cache:'' @ ?name) eps'" by blast
    then have "eps' = eps" using assms(1) c by (simp add: fetch_matching_endpoints_def Let_def)
    with h(2) assms(2) show ?thesis unfolding looked_up_def by auto
  qed
qed

lemma run_then:
  assumes "run m w = (Inr v, w1)" and "I w1" and "keeps I (k v)"
  shows "I (snd (run (ebind m k) w))"
  using assms keepsD by simp

lemma approved_eligible:
  assumes "approve_endpoints (build_transfer_data t) idn (match_endpoints t eps) = Inr ok"
    and "ep \<in> set (finality_gate t fin ok)" and "ep_mode ep = EXECUTE"
  shows "ep \<in> set eps \<and> eligible t fin idn ep"
  using approve_endpoints_sound[OF assms(1)] assms(2,3)
  by (auto simp: eligible_def match_endpoints_eq finality_gate_def split: option.splits)

text \<open>
  C1. Only eligible endpoints hear of a payment. Whatever the services answer
  and wherever an exception ends the run, every webhook the dispatch stages
  send for a transfer goes to an endpoint that the lookup by recipient finds at that moment, in the table or in a
  cache entry that has not expired; it is active, in execute mode, registered for
  that recipient and chain, its policy accepts the transfer, its finality
  depth is reached when the finality is known (a failed finality check lets every depth pass, as the code
  does), and the message carries that endpoint's payload, key and project.
\<close>

theorem webhooks_only_to_eligible:
  assumes "run (dispatch_for_transfer env t fin idn ov ev) w = (r, w')"
    and "m \<in> set (drop (length (w_sent w)) (w_sent w'))"
  shows "\<exists>ep. looked_up env w t ep \<and> eligible t fin idn ep \<and>
    message_for env t (webhook_type_for ov fin) fin ep m"
proof -
  define P where "P m \<longleftrightarrow> (\<exists>ep. looked_up env w t ep \<and> eligible t fin idn ep \<and>
      message_for env t (webhook_type_for ov fin) fin ep m)" for m
  let ?I = "sent_since (w_sent w) P"
  obtain fetched w1 where f: "run (etry (fetch_matching_endpoints env t)) w = (Inr fetched, w1)"
    by (rule no_raiseE[OF no_raise_etry])
  have ep: "looked_up env w t ep" if "fetched = Inr eps" "ep \<in> set eps" for eps ep
    using fetch_matching_run[of env t w eps w1 ep] f that by (auto split: prod.splits)
  have "keeps ?I (etry (fetch_matching_endpoints env t))" by (intro act_rules frame_intros stable_sent_since)
  from keepsD[OF this sent_since_start] f have w1: "?I w1" by simp
  have "?I (snd (run (dispatch_for_transfer env t fin idn ov ev) w))"
    unfolding dispatch_for_transfer_def dispatch_matched_def Let_def
  proof (rule run_then[where I = ?I, OF f w1], cases fetched, goal_cases failed found)
    case (failed e)
    show ?case unfolding failed sum.case by (intro act_rules)
  next
    case (found eps)
    show ?case
      unfolding found sum.case
    proof (intro act_rules frame_intros stable_sent_since deliver_execute_sent_since)
      fix ok ep' m
      assume a: "approve_endpoints (build_transfer_data t) idn (match_endpoints t eps) = Inr ok"
          "ep' \<in> set (finality_gate t fin ok)" "ep_mode ep' = EXECUTE"
        and msg: "message_for env t (webhook_type_for ov fin) fin ep' m"
      then show "P m" unfolding P_def using approved_eligible[OF a] ep[OF found] by blast
    qed
  qed
  then show ?thesis using assms by (auto simp: P_def dest: sent_sinceD)
qed

text \<open>A webhook that promises nothing: provisional, unsafe, on the facilitator's word.\<close>

definition provisional_message :: "SentMessage \<Rightarrow> bool" where
  "provisional_message m \<longleftrightarrow> wp_type (sm_payload m) = PAYMENT_PRE_CONFIRMED \<and>
     eb_state (wp_execution (sm_payload m)) = PROVISIONAL \<and>
     \<not> eb_safe_to_execute (wp_execution (sm_payload m)) \<and>
     eb_trust_source (wp_execution (sm_payload m)) = FACILITATOR"

lemma fast_path_sent: "keeps (sent_since s0 provisional_message) (process_pre_confirmed_event env t)"
proof -
  have nonce: "keeps (sent_since s0 P) (record_nonce_or_correlate env c n a e src)" for s0 P c n a e src
    by (auto intro!: keepsI simp: record_nonce_or_correlate_def case_prod_beta sent_since_def split: option.splits)
  show ?thesis
    unfolding process_pre_confirmed_event_def
    by (intro act_rules frame_intros stable_sent_since nonce dispatch_for_transfer_sent)
       (simp add: provisional_message_def message_for_def webhook_type_for_def derive_execution_metadata_def)
qed

text \<open>
  C6. The facilitator fast path never authorizes execution: every webhook sent
  while processing a pre-confirmed payment is of type \<open>payment.pre_confirmed\<close>,
  provisional, not safe to execute, and names the facilitator as its source of
  trust.
\<close>

theorem fast_path_never_safe:
  assumes "run (process_pre_confirmed_event env t) w = (r, w')"
    and "m \<in> set (drop (length (w_sent w)) (w_sent w'))"
  shows "wp_type (sm_payload m) = PAYMENT_PRE_CONFIRMED \<and>
     eb_state (wp_execution (sm_payload m)) = PROVISIONAL \<and>
     \<not> eb_safe_to_execute (wp_execution (sm_payload m)) \<and>
     eb_trust_source (wp_execution (sm_payload m)) = FACILITATOR"
  using keepsD[OF fast_path_sent sent_since_start, of w env t] assms
  unfolding provisional_message_def[symmetric] by (auto dest: sent_sinceD)

section \<open>Exactly once\<close>

definition transfer_key :: "ERC3009Transfer \<Rightarrow> nonce_key" where
  "transfer_key t = mk_key (chain_value (tr_chain_id t)) (dedup_nonce t) (dedup_authorizer t)"

text \<open>The active row of a key, if it is claimed.\<close>

definition holder :: "nonce_table \<Rightarrow> nonce_key \<Rightarrow> NonceRow option" where
  "holder t k = (case lookup_nonce t k of Some r \<Rightarrow> if nr_reorged_at r = None then Some r else None | None \<Rightarrow> None)"

definition held_row :: "nonce_key \<Rightarrow> NonceRow \<Rightarrow> world \<Rightarrow> bool" where
  "held_row k r w \<longleftrightarrow> holder (w_nonces w) k = Some r"

lemma stable_held_row [simp]: "stable_db (held_row k r)"
  by (simp add: stable_db_def held_row_def)

text \<open>The event under which the facilitator claimed the transfer before the chain delivered it.\<close>

definition preclaimed :: "world \<Rightarrow> ERC3009Transfer \<Rightarrow> string option" where
  "preclaimed w t = (case holder (w_nonces w) (transfer_key t) of
      Some r \<Rightarrow> if nr_source r = ''facilitator'' \<and> or_nil (nr_event_id r) \<noteq> [] then nr_event_id r else None
    | None \<Rightarrow> None)"

definition process_new :: "env \<Rightarrow> ERC3009Transfer \<Rightarrow> ProcResult io" where
  "process_new env t = ebind (check_finality_opt env t) (\<lambda>finality.
      ebind (resolve_identity env (tr_authorizer t) (chain_value (tr_chain_id t))) (\<lambda>identity.
        dispatch_for_transfer env t finality identity None None))"

lemma holder_eq:
  "holder t k = Some r \<Longrightarrow> sql_record_nonce_or_correlate time k e src t = ((False, nr_event_id r, Some (nr_source r)), t)"
  by (cases "lookup_nonce t k") (auto simp: holder_def sql_record_nonce_or_correlate_def split: if_splits)

lemma holder_claimed:
  "holder t k = None \<Longrightarrow> \<exists>t'. sql_record_nonce_or_correlate time k e src t = ((True, None, None), t') \<and>
     (\<exists>r. holder t' k = Some r \<and> nr_source r = src \<and> nr_event_id r = e)"
  by (auto simp: holder_def nonce_eval dest: lookup_key split: option.splits if_splits)

text \<open>One delivery from the chain, by who holds the key when it comes.\<close>

lemma process_transfer_run:
  assumes "en_db_fault env (w_tick w) = None"
  shows "run (process_transfer env t) w = (case holder (w_nonces w) (transfer_key t) of
      Some r \<Rightarrow> (case preclaimed w t of
          Some e \<Rightarrow> run (promote_pre_confirmed_event env e t) (w\<lparr>w_tick := w_tick w + 2\<rparr>)
        | None \<Rightarrow> (Inr (summary ''duplicate'' None (Some (tr_tx_hash t)) None), w\<lparr>w_tick := w_tick w + 2\<rparr>))
    | None \<Rightarrow> run (process_new env t) (w\<lparr>w_tick := w_tick w + 2,
        w_nonces := snd (sql_record_nonce_or_correlate (en_now env (Suc (w_tick w))) (transfer_key t) None ''goldsky'' (w_nonces w))\<rparr>))"
proof -
  note claim = run_record_nonce_or_correlate[OF assms, of "chain_value (tr_chain_id t)" "dedup_nonce t"
      "dedup_authorizer t" None "''goldsky''", folded transfer_key_def]
  show ?thesis
  proof (cases "holder (w_nonces w) (transfer_key t)")
    case None
    from holder_claimed[OF None] obtain t' where
      "sql_record_nonce_or_correlate (en_now env (Suc (w_tick w))) (transfer_key t) None ''goldsky'' (w_nonces w) = ((True, None, None), t')"
      by blast
    then show ?thesis using claim None by (simp add: process_transfer_def process_new_def Let_def)
  next
    case (Some r)
    from holder_eq[OF Some] show ?thesis using claim Some
      by (auto simp: process_transfer_def preclaimed_def Let_def or_nil_def split: option.splits)
  qed
qed

lemma keeps_held_row: "keeps (held_row k r) (process_new env t)" "keeps (held_row k r) (promote_pre_confirmed_event env e t)"
proof -
  have send: "keeps (held_row k r) (dispatch_event env t' eps ty fin idn)" for t' eps ty fin idn
    by (intro keeps_dispatch_event stable_db_tick stable_held_row) (simp add: held_row_def)
  show "keeps (held_row k r) (process_new env t)"
    unfolding process_new_def dispatch_for_transfer_def dispatch_matched_def deliver_execute_def Let_def
    by (intro act_rules frame_intros stable_held_row send)
  show "keeps (held_row k r) (promote_pre_confirmed_event env e t)"
    unfolding promote_pre_confirmed_event_def promote_dispatch_def deliver_execute_def Let_def
    by (intro act_rules frame_intros stable_held_row send)
qed

lemma delivered_holder:
  assumes "en_db_fault env (w_tick w) = None"
  shows "\<exists>r. holder (w_nonces (snd (run (process_transfer env t) w))) (transfer_key t) = Some r \<and>
    (case holder (w_nonces w) (transfer_key t) of Some r' \<Rightarrow> r = r' | None \<Rightarrow> nr_source r = ''goldsky'')"
proof (cases "holder (w_nonces w) (transfer_key t)")
  case None
  let ?t = "snd (sql_record_nonce_or_correlate (en_now env (Suc (w_tick w))) (transfer_key t) None ''goldsky'' (w_nonces w))"
  obtain r where r: "nr_source r = ''goldsky''" "holder ?t (transfer_key t) = Some r"
    using holder_claimed[OF None, of "en_now env (Suc (w_tick w))" None "''goldsky''"] by auto
  then have "held_row (transfer_key t) r (w\<lparr>w_tick := w_tick w + 2, w_nonces := ?t\<rparr>)" by (simp add: held_row_def)
  then have "held_row (transfer_key t) r (snd (run (process_new env t) (w\<lparr>w_tick := w_tick w + 2, w_nonces := ?t\<rparr>)))"
    by (rule keepsD[OF keeps_held_row(1)])
  then have "holder (w_nonces (snd (run (process_transfer env t) w))) (transfer_key t) = Some r"
    by (simp only: process_transfer_run[OF assms] None option.case held_row_def)
  then show ?thesis using r(1) None by simp
next
  case (Some r)
  then have "held_row (transfer_key t) r (w\<lparr>w_tick := w_tick w + 2\<rparr>)" by (simp add: held_row_def)
  from keepsD[OF keeps_held_row(2) this] Some show ?thesis
    by (auto simp: process_transfer_run[OF assms] held_row_def split: option.split)
qed

text \<open>
  C2. What a redelivery from the chain does, from every state in which both deliveries reach the nonce table, however
  the first one ended (delivered, rejected by policy, raised). Unless the facilitator had claimed the transfer
  beforehand, the second delivery reports a duplicate and changes nothing but the clock: no second
  event, delivery, notification or webhook. If the facilitator had claimed it for an event \<open>e\<close>, the
  second delivery promotes \<open>e\<close> once more, exactly as the first one did: nothing records that the
  promotion has happened, so it sets the row back to \<open>confirmed\<close> and sends its webhooks again.
\<close>

theorem redelivery_by_claimant:
  assumes "en_db_fault env (w_tick w) = None"
    and run1: "run (process_transfer env t) w = (r, w1)"
    and up: "en_db_fault env (w_tick w1) = None"
  shows "run (process_transfer env t) w1 = (case preclaimed w t of
      None \<Rightarrow> (Inr (summary ''duplicate'' None (Some (tr_tx_hash t)) None), w1\<lparr>w_tick := w_tick w1 + 2\<rparr>)
    | Some e \<Rightarrow> run (promote_pre_confirmed_event env e t) (w1\<lparr>w_tick := w_tick w1 + 2\<rparr>))"
proof -
  obtain r' where h: "holder (w_nonces w1) (transfer_key t) = Some r'"
    "case holder (w_nonces w) (transfer_key t) of Some r \<Rightarrow> r' = r | None \<Rightarrow> nr_source r' = ''goldsky''"
    using delivered_holder[OF assms(1), of t] run1 by auto
  then have "preclaimed w1 t = preclaimed w t"
    by (auto simp: preclaimed_def split: option.splits)
  then show ?thesis using h(1) by (simp add: process_transfer_run[OF up])
qed

text \<open>The facilitator has claimed the sample payment for an event, already finalized, of the sample endpoint.\<close>

definition preclaimed_world :: world where
  "preclaimed_world = empty_world\<lparr>w_endpoints := [sample_endpoint],
     w_nonces := [new_nonce 1 (transfer_key payment_sample) (Some ''ev'') ''facilitator''],
     w_events := [blank_event\<lparr>er_id := ''ev'', er_status := ''finalized''\<rparr>],
     w_event_endpoints := [(''ev'', ep_id sample_endpoint)]\<rparr>"

section \<open>Delivery rows\<close>

text \<open>
  Message ids are attributed by position, not by endpoint: when an endpoint
  without a Convoy project precedes one that is sent its webhook, the first is
  recorded as \<open>sent\<close> with the other's message id and the second as \<open>failed\<close>.
\<close>

theorem delivery_misattributed:
  assumes mode: "ep_mode a = EXECUTE" "ep_mode b = EXECUTE"
    and proj: "project_of a = []" "project_of b \<noteq> []"
    and up: "\<And>n. en_db_fault env n = None" "\<And>n m. \<exists>i. en_send env n m = Inr i \<and> i \<noteq> []"
    and ids: "inj (en_uuid env)"
    and w: "w_deliveries w = []" "ev \<in> set (event_ids w)" "ep_id a \<in> set (endpoint_ids w)" "ep_id b \<in> set (endpoint_ids w)"
  shows "\<exists>i w' d1 d2. run (deliver_execute env t ev [a, b] ty fin idn) w = (Inr [i], w') \<and>
     w_deliveries w' = [d1, d2] \<and>
     dl_endpoint_id d1 = ep_id a \<and> dl_provider_message_id d1 = Some i \<and> dl_status d1 = ''sent'' \<and>
     dl_endpoint_id d2 = ep_id b \<and> dl_provider_message_id d2 = None \<and> dl_status d2 = ''failed'' \<and>
     (\<exists>m. w_sent w' = w_sent w @ [m] \<and> message_for env t ty fin b m)"
proof -
  define m where "m = \<lparr>sm_app_id = project_of b, sm_event_type = webhook_type_value ty,
     sm_payload = \<lparr>wp_id = en_uuid env (w_tick w),
        wp_idempotency_key = generate_idempotency_key env (chain_value (tr_chain_id t)) (tr_tx_hash t)
          (tr_log_index t) (ep_id b) (webhook_type_value ty),
        wp_type = ty, wp_mode = ep_mode b, wp_timestamp = en_now env (Suc (w_tick w)), wp_version = ''v1'',
        wp_execution = derive_execution_metadata ty (build_finality_data fin (resolve_endpoint_depth b)),
        wp_data = \<lparr>wd_event = None, wd_transfer = Some (build_transfer_data t),
          wd_finality = build_finality_data fin (resolve_endpoint_depth b), wd_identity = idn\<rparr>,
        wp_trigger_id = None\<rparr>,
     sm_convoy_endpoint_id = or_nil (ep_convoy_endpoint_id b)\<rparr>"
  obtain i where i: "en_send env (Suc (Suc (w_tick w))) m = Inr i" "i \<noteq> []" using up(2) by blast
  define w1 where "w1 = w\<lparr>w_tick := Suc (Suc (Suc (w_tick w))), w_sent := w_sent w @ [m]\<rparr>"
  have d: "run (dispatch_event env t [a, b] ty fin idn) w = (Inr [i], w1)"
    using proj i mode
    by (simp add: dispatch_event_def dispatch_one_def build_payload_def provider_send_def Let_def m_def
        w1_def List.map_filter_def)
  have fresh: "en_uuid env (Suc (Suc (Suc k))) \<noteq> en_uuid env k" for k using ids by (simp add: inj_eq)
  have "\<exists>w' d1 d2. run (record_deliveries env ev [a, b] [i]) w1 = (Inr (), w') \<and>
     w_deliveries w' = [d1, d2] \<and> w_sent w' = w_sent w1 \<and>
     dl_endpoint_id d1 = ep_id a \<and> dl_provider_message_id d1 = Some i \<and> dl_status d1 = ''sent'' \<and>
     dl_endpoint_id d2 = ep_id b \<and> dl_provider_message_id d2 = None \<and> dl_status d2 = ''failed''"
    using w up(1) i(2) fresh[of "Suc (Suc (Suc (w_tick w)))"]
    by (simp add: record_deliveries_def record_delivery_def delivery_create_def insert_checked_def w1_def
        event_ids_def endpoint_ids_def or_nil_def numeral_2_eq_2 Let_def)
  then obtain w' d1 d2 where r: "run (record_deliveries env ev [a, b] [i]) w1 = (Inr (), w')"
     "w_deliveries w' = [d1, d2]" "w_sent w' = w_sent w1"
     "dl_endpoint_id d1 = ep_id a" "dl_provider_message_id d1 = Some i" "dl_status d1 = ''sent''"
     "dl_endpoint_id d2 = ep_id b" "dl_provider_message_id d2 = None" "dl_status d2 = ''failed''"
    by blast
  have "run (deliver_execute env t ev [a, b] ty fin idn) w = (Inr [i], w')"
    using d r(1) mode by (simp add: deliver_execute_def Let_def)
  moreover have "w_sent w' = w_sent w @ [m]" using r(3) by (simp add: w1_def)
  moreover have "message_for env t ty fin b m" using proj by (simp add: message_for_def m_def)
  ultimately show ?thesis using r by blast
qed

definition bare_endpoint :: Endpoint where
  "bare_endpoint = sample_endpoint\<lparr>ep_id := ''ep0'', ep_convoy_project_id := None\<rparr>"

definition two_endpoint_world :: world where
  "two_endpoint_world = empty_world\<lparr>w_endpoints := [bare_endpoint, sample_endpoint], w_events := [blank_event]\<rparr>"

lemma inj_calm_uuid: "inj (en_uuid calm_env)"
  by (rule injI) (auto simp: calm_env_def dest: nat_str_inj)

lemma calm_send_ok: "\<exists>i. en_send calm_env n m = Inr i \<and> i \<noteq> []"
  by (simp add: calm_env_def)

theorem delivery_misattributed_witness:
  "\<exists>i w' d1 d2. run (deliver_execute calm_env payment_sample ''ev'' [bare_endpoint, sample_endpoint] PAYMENT_CONFIRMED None None)
       two_endpoint_world = (Inr [i], w') \<and> w_deliveries w' = [d1, d2] \<and>
     dl_endpoint_id d1 = ''ep0'' \<and> dl_provider_message_id d1 = Some i \<and> dl_endpoint_id d2 = ''ep1'' \<and> dl_status d2 = ''failed''"
proof -
  have "\<exists>i w' d1 d2. run (deliver_execute calm_env payment_sample ''ev'' [bare_endpoint, sample_endpoint] PAYMENT_CONFIRMED None None)
       two_endpoint_world = (Inr [i], w') \<and> w_deliveries w' = [d1, d2] \<and>
     dl_endpoint_id d1 = ep_id bare_endpoint \<and> dl_provider_message_id d1 = Some i \<and> dl_status d1 = ''sent'' \<and>
     dl_endpoint_id d2 = ep_id sample_endpoint \<and> dl_provider_message_id d2 = None \<and> dl_status d2 = ''failed'' \<and>
     (\<exists>m. w_sent w' = w_sent two_endpoint_world @ [m] \<and> message_for calm_env payment_sample PAYMENT_CONFIRMED None sample_endpoint m)"
    by (rule delivery_misattributed[OF _ _ _ _ _ calm_send_ok inj_calm_uuid])
       (simp_all add: bare_endpoint_def sample_endpoint_def two_endpoint_world_def empty_world_def project_of_def
         or_nil_def calm_env_def event_ids_def endpoint_ids_def blank_event_def)
  then show ?thesis by (auto simp: bare_endpoint_def sample_endpoint_def)
qed

section \<open>A concrete run\<close>

definition one_endpoint_world :: world where
  "one_endpoint_world = empty_world\<lparr>w_endpoints := [sample_endpoint]\<rparr>"

lemma sample_policy_ok: "evaluate_policy (build_transfer_data payment_sample) idn default_policies = Inr None"
proof -
  have "py_int ''1000000'' = Some 1000000"
    by (simp add: py_int_def py_strip_def is_space_def code_def split_sign_def is_digit_def digits_val_def digit_val_def)
  then show ?thesis
    by (simp add: evaluate_policy_def build_transfer_data_def payment_sample_def default_policies_def check_min_amount_def
        check_max_amount_def check_senders_def check_identity_def and_then_def deny_if_def or_empty_def Let_def)
qed

lemma sample_recipient: "py_lower (tr_to_address payment_sample) = ep_recipient sample_endpoint"
  by (simp add: payment_sample_def sample_endpoint_def py_lower_def lower_char_def code_def)

lemma sample_fetch:
  assumes "w_endpoints w = [sample_endpoint]" "w_invalid_endpoints w = []" "w_local_cache w = (\<lambda>_. None)"
  shows "\<exists>w'. run (fetch_matching_endpoints calm_env payment_sample) w = (Inr [sample_endpoint], w') \<and>
     w_sent w' = w_sent w \<and> w_endpoints w' = w_endpoints w"
  using assms sample_recipient
  by (simp add: fetch_matching_endpoints_def cache_get_def cache_set_def list_by_recipient_def query_valid_def query_def calm_env_def Let_def)
     (simp add: sample_endpoint_def)

lemma sample_match: "match_endpoints payment_sample [sample_endpoint] = [sample_endpoint]"
proof -
  have "py_lower (ep_recipient sample_endpoint) = ep_recipient sample_endpoint"
    by (metis py_lower_idem sample_recipient)
  moreover have "ep_active sample_endpoint" "chain_value (tr_chain_id payment_sample) \<in> set (ep_chains sample_endpoint)"
    by (simp_all add: sample_endpoint_def payment_sample_def chain_value_def)
  ultimately show ?thesis by (simp add: match_endpoints_eq sample_recipient)
qed

lemma sample_approved:
  "approve_endpoints (build_transfer_data payment_sample) idn [sample_endpoint] = Inr [sample_endpoint]"
proof -
  have "ep_policies sample_endpoint = default_policies" by (simp add: sample_endpoint_def)
  then show ?thesis by (simp add: sample_policy_ok)
qed

lemma sample_deliver:
  "\<exists>ids w' m. run (deliver_execute calm_env payment_sample ev [sample_endpoint] ty fin idn) w = (Inr ids, w') \<and>
     w_sent w' = w_sent w @ [m]"
proof -
  let ?d = "dispatch_event calm_env payment_sample [sample_endpoint] ty fin idn"
  have p: "project_of sample_endpoint \<noteq> []" "ep_mode sample_endpoint = EXECUTE"
    by (simp_all add: project_of_def or_nil_def sample_endpoint_def)
  then obtain ids w1 m where d: "run ?d w = (Inr ids, w1)" "w_sent w1 = w_sent w @ [m]"
    by (simp add: dispatch_event_def dispatch_one_def build_payload_def provider_send_def calm_env_def Let_def)
  obtain x w2 where r: "run (record_deliveries calm_env ev [sample_endpoint] ids) w1 = (x, w2)" by fastforce
  have "keeps (\<lambda>w. w_sent w = w_sent w1) (record_deliveries calm_env ev [sample_endpoint] ids)"
    by (intro frame_intros) (simp add: stable_db_def)
  from keepsD[OF this, of w1] r have "w_sent w2 = w_sent w1" by simp
  moreover have "\<exists>u. x = Inr u"
    by (rule no_raiseE[OF total_record_deliveries, of calm_env ev "[sample_endpoint]" ids w1]) (use r in auto)
  ultimately show ?thesis using d r p by (auto simp: deliver_execute_def Let_def)
qed


lemma sample_dispatch_sends:
  assumes "w_endpoints w = [sample_endpoint]" "w_invalid_endpoints w = []" "w_local_cache w = (\<lambda>_. None)"
    and "finality_gate payment_sample fin [sample_endpoint] = [sample_endpoint]"
  shows "\<exists>r w' m. run (dispatch_for_transfer calm_env payment_sample fin idn ov ev) w = (r, w') \<and> w_sent w' = w_sent w @ [m]"
proof -
  obtain w1 where f: "run (fetch_matching_endpoints calm_env payment_sample) w = (Inr [sample_endpoint], w1)"
    "w_sent w1 = w_sent w" using sample_fetch[OF assms(1-3)] by blast
  let ?ty = "webhook_type_for ov fin"
  let ?notify = "\<lambda>eid ids. ebind (filter_notify calm_env payment_sample idn (filter (\<lambda>ep. ep_mode ep = NOTIFY) [sample_endpoint]))
     (\<lambda>eps. ebind (deliver_notify calm_env payment_sample eps ?ty fin idn) (\<lambda>notify_ids.
       eret \<lparr>pr_status = ''processed'', pr_reason = None, pr_tx_hash = Some (tr_tx_hash payment_sample),
         pr_event_id = Some eid, pr_webhook_type = None, pr_endpoints_matched = length [sample_endpoint],
         pr_endpoints_approved = length [sample_endpoint], pr_message_ids = ids,
         pr_notify_sent = length notify_ids\<rparr>))"
  have st: "stable_db (\<lambda>w. w_sent w = s)" for s by (simp add: stable_db_def)
  obtain eid w2 where e: "run (record_event calm_env payment_sample fin idn ?ty (Some (ep_id sample_endpoint)) ev) w1 = (Inr eid, w2)"
    by (rule no_raiseE[OF total_record_event])
  have s2: "w_sent w2 = w_sent w1"
    using keepsD[OF frame_record(1)[OF st], of w1 "w_sent w1"] e by (metis snd_conv)
  obtain w3 where l: "run (link_endpoints calm_env eid [ep_id sample_endpoint]) w2 = (Inr (), w3)"
    by (rule no_raiseE[OF total_link_endpoints]) auto
  have s3: "w_sent w3 = w_sent w2"
    using keepsD[OF frame_events(2)[OF st], of w2 "w_sent w2"] l by (metis snd_conv)
  obtain ids w4 m where d: "run (deliver_execute calm_env payment_sample eid [sample_endpoint] ?ty fin idn) w3 = (Inr ids, w4)"
    "w_sent w4 = w_sent w3 @ [m]" using sample_deliver by blast
  have "keeps (\<lambda>w. w_sent w = w_sent w4) (?notify eid ids)"
    by (intro act_rules frame_intros st)
  then have s5: "w_sent (snd (run (?notify eid ids) w4)) = w_sent w4" by (rule keepsD) simp
  have "run (dispatch_for_transfer calm_env payment_sample fin idn ov ev) w = run (?notify eid ids) w4"
    using f e l d assms(4)
    by (simp add: dispatch_for_transfer_def dispatch_matched_def sample_match sample_approved Let_def
        del: match_endpoints.simps approve_endpoints.simps)
  then show ?thesis using s5 d(2) s3 s2 f(2) by (metis prod.collapse)
qed

text \<open>A promotion of the sample payment sends its webhook whatever the status of the event is.\<close>

definition ready :: "string \<Rightarrow> world \<Rightarrow> bool" where
  "ready st w \<longleftrightarrow> map er_id (w_events w) = [''ev''] \<and> map er_status (w_events w) = [st] \<and>
     w_event_endpoints w = [(''ev'', ep_id sample_endpoint)] \<and> w_endpoints w = [sample_endpoint] \<and> w_invalid_endpoints w = []"

lemma keeps_ready_deliver: "keeps (ready st) (deliver_execute env t ev eps ty fin idn)"
proof -
  have "keeps (ready st) (dispatch_event env t eps' ty fin idn)" for eps'
    by (intro keeps_dispatch_event) (simp_all add: ready_def tick_stable_def)
  moreover have "keeps (ready st) (record_deliveries env ev eps' ids)" for eps' ids
    unfolding record_deliveries_def record_delivery_def delivery_create_def
    by (intro act_rules keeps_intros keeps_insert_checked) (simp_all add: ready_def tick_stable_def)
  ultimately show ?thesis unfolding deliver_execute_def Let_def by (intro act_rules)
qed

lemma promote_sends:
  assumes "ready st w"
  shows "\<exists>r w' m. run (promote_pre_confirmed_event calm_env ''ev'' payment_sample) w = (r, w') \<and> ready ''confirmed'' w' \<and>
    w_sent w' = w_sent w @ [m]"
proof -
  let ?J = "\<lambda>s u. ready ''confirmed'' u \<and> w_sent u = s"
  have tick: "tick_stable (?J s)" for s by (simp add: tick_stable_def ready_def)
  obtain e where e: "w_events w = [e]" "er_id e = ''ev''" using assms by (auto simp: ready_def)
  obtain u w1 where p: "run (promote_to_confirmed calm_env ''ev'' (tr_tx_hash payment_sample) (tr_block_number payment_sample)
      (tr_block_hash payment_sample) (tr_log_index payment_sample)) w = (Inr (Some u), w1)" "?J (w_sent w) w1"
    using assms e by (simp add: promote_to_confirmed_def update_event_def calm_env_def modify_event_def find_event_def ready_def)
  obtain fin w2 where f: "run (check_finality_opt calm_env payment_sample) w1 = (Inr fin, w2)"
    by (rule no_raiseE[OF total_services(1)])
  have w2: "?J (w_sent w) w2" using keepsD[where I = "?J (w_sent w)", OF keeps_check_finality_opt[OF tick, of "w_sent w" calm_env payment_sample] p(2)] f by simp
  obtain idn w3 where i: "run (resolve_identity calm_env (tr_authorizer payment_sample) (chain_value (tr_chain_id payment_sample))) w2 = (Inr idn, w3)"
    by (rule no_raiseE[OF total_services(2)])
  have w3: "?J (w_sent w) w3" using keepsD[where I = "?J (w_sent w)", OF keeps_resolve_identity[OF tick, of "w_sent w" calm_env "tr_authorizer payment_sample" "chain_value (tr_chain_id payment_sample)"] w2] i by simp
  obtain w4 where l: "run (linked_or_legacy calm_env ''ev'' (er_endpoint_id u)) w3 = (Inr [ep_id sample_endpoint], w4)" "?J (w_sent w) w4"
    using w3 by (simp add: linked_or_legacy_def get_endpoint_ids_def query_def linked_def calm_env_def ready_def)
  obtain w5 where g: "run (fetch_endpoints calm_env ep_active [ep_id sample_endpoint]) w4 = (Inr [sample_endpoint], w5)" "?J (w_sent w) w5"
    using l(2) by (simp add: endpoint_get_by_id_def query_valid_def query_def calm_env_def ready_def) (simp add: sample_endpoint_def)
  let ?ty = "if is_final fin then PAYMENT_FINALIZED else PAYMENT_CONFIRMED"
  obtain ids w6 m where d: "run (deliver_execute calm_env payment_sample ''ev'' [sample_endpoint] ?ty fin idn) w5 = (Inr ids, w6)"
    "w_sent w6 = w_sent w5 @ [m]" using sample_deliver by blast
  have "ready ''confirmed'' w6" using keepsD[OF keeps_ready_deliver, of "''confirmed''" w5] d(1) g(2) by (metis snd_conv)
  moreover have "filter (\<lambda>ep. ep_mode ep = NOTIFY) [sample_endpoint] = []" by (simp add: sample_endpoint_def)
  ultimately show ?thesis using p f i l g d
    by (simp add: promote_pre_confirmed_event_def promote_dispatch_def sample_approved deliver_notify_def Let_def
        del: approve_endpoints.simps filter.simps fetch_endpoints.simps)
qed

theorem redelivery_by_claimant_witness:
  "(\<exists>r w1. run (process_transfer calm_env payment_sample) empty_world = (r, w1) \<and>
     run (process_transfer calm_env payment_sample) w1 =
       (Inr (summary ''duplicate'' None (Some ''0xfeed'') None), w1\<lparr>w_tick := w_tick w1 + 2\<rparr>)) \<and>
   (\<exists>r w1 r' w2. run (process_transfer calm_env payment_sample) preclaimed_world = (r, w1) \<and> length (w_sent w1) = 1 \<and>
     run (process_transfer calm_env payment_sample) w1 = (r', w2) \<and> length (w_sent w2) = 2 \<and>
     map er_status (w_events w2) = [''confirmed''])"
proof -
  have up: "en_db_fault calm_env n = None" for n by (simp add: calm_env_def)
  obtain r w1 where a: "run (process_transfer calm_env payment_sample) empty_world = (r, w1)" by fastforce
  have "preclaimed empty_world payment_sample = None"
    by (simp add: preclaimed_def holder_def empty_world_def lookup_nonce_def)
  with redelivery_by_claimant[OF up a up] have d: "run (process_transfer calm_env payment_sample) w1 =
      (Inr (summary ''duplicate'' None (Some ''0xfeed'') None), w1\<lparr>w_tick := w_tick w1 + 2\<rparr>)"
    by (simp add: payment_sample_def)
  obtain s v1 where b: "run (process_transfer calm_env payment_sample) preclaimed_world = (s, v1)" by fastforce
  have p: "preclaimed preclaimed_world payment_sample = Some ''ev''"
    by (simp add: preclaimed_def holder_def preclaimed_world_def empty_world_def lookup_nonce_def or_nil_def)
  with redelivery_by_claimant[OF up b up] have
    "run (process_transfer calm_env payment_sample) v1 =
       run (promote_pre_confirmed_event calm_env ''ev'' payment_sample) (v1\<lparr>w_tick := w_tick v1 + 2\<rparr>)" by simp
  moreover have "ready ''finalized'' (preclaimed_world\<lparr>w_tick := w_tick preclaimed_world + 2\<rparr>)"
    by (simp add: ready_def preclaimed_world_def empty_world_def blank_event_def)
  then obtain r' w' m where m': "run (promote_pre_confirmed_event calm_env ''ev'' payment_sample)
      (preclaimed_world\<lparr>w_tick := w_tick preclaimed_world + 2\<rparr>) = (r', w')" "ready ''confirmed'' w'" "w_sent w' = [m]"
    using promote_sends[of "''finalized''" "preclaimed_world\<lparr>w_tick := w_tick preclaimed_world + 2\<rparr>"]
    by (auto simp: preclaimed_world_def empty_world_def)
  have "holder (w_nonces preclaimed_world) (transfer_key payment_sample) \<noteq> None"
    using p by (auto simp: preclaimed_def split: option.splits)
  then have "v1 = w'"
    using b m'(1) process_transfer_run[OF up, of payment_sample preclaimed_world] p by auto
  with m' have m: "ready ''confirmed'' v1" "w_sent v1 = [m]" by simp_all
  then have "ready ''confirmed'' (v1\<lparr>w_tick := w_tick v1 + 2\<rparr>)" by (simp add: ready_def)
  then obtain s' v2 m' where "run (promote_pre_confirmed_event calm_env ''ev'' payment_sample) (v1\<lparr>w_tick := w_tick v1 + 2\<rparr>) = (s', v2)"
    "ready ''confirmed'' v2" "w_sent v2 = [m, m']"
    using promote_sends[of "''confirmed''" "v1\<lparr>w_tick := w_tick v1 + 2\<rparr>"] m(2) by auto
  ultimately show ?thesis using a d b m(2) by (auto simp: ready_def)
qed

lemma sample_gate: "finality_gate payment_sample (Some deep_status) [sample_endpoint] = [sample_endpoint]"
  by (simp add: finality_gate_def required_depth_def sample_endpoint_def default_policies_def deep_status_def payment_sample_def
      FINALITY_DEPTHS_def)

theorem webhooks_only_to_eligible_witness:
  "\<exists>r w' m ep. run (dispatch_for_transfer calm_env payment_sample (Some deep_status) None None None) one_endpoint_world = (r, w') \<and>
     m \<in> set (w_sent w') \<and> ep = sample_endpoint \<and> eligible payment_sample (Some deep_status) None ep"
proof -
  have w: "w_endpoints one_endpoint_world = [sample_endpoint]" "w_invalid_endpoints one_endpoint_world = []"
    "w_local_cache one_endpoint_world = (\<lambda>_. None)" "w_redis_cache one_endpoint_world = (\<lambda>_. None)" "w_sent one_endpoint_world = []"
    by (simp_all add: one_endpoint_world_def empty_world_def)
  then obtain r w' m where r: "run (dispatch_for_transfer calm_env payment_sample (Some deep_status) None None None) one_endpoint_world = (r, w')"
    "w_sent w' = [m]" using sample_dispatch_sends[OF w(1-3) sample_gate, of None None None] by auto
  have "m \<in> set (drop (length (w_sent one_endpoint_world)) (w_sent w'))" using r w by simp
  from webhooks_only_to_eligible[OF r(1) this] r show ?thesis by (auto simp: looked_up_def cache_holds_def w)
qed

theorem fast_path_never_safe_witness:
  "\<exists>r w' m. run (process_pre_confirmed_event calm_env payment_sample) one_endpoint_world = (r, w') \<and>
     m \<in> set (w_sent w') \<and> \<not> eb_safe_to_execute (wp_execution (sm_payload m))"
proof -
  have up: "en_db_fault calm_env n = None" for n by (simp add: calm_env_def)
  let ?w = "one_endpoint_world\<lparr>w_tick := 4, w_nonces := [new_nonce (en_now calm_env 2)
      (mk_key (chain_value BASE) ''0xaa'' (tr_authorizer payment_sample)) (Some (en_uuid calm_env 0)) ''facilitator'']\<rparr>"
  obtain r w' m where d: "run (dispatch_for_transfer calm_env payment_sample None None (Some PAYMENT_PRE_CONFIRMED)
      (Some (en_uuid calm_env 0))) ?w = (r, w')" "w_sent w' = w_sent ?w @ [m]"
    using sample_dispatch_sends[of ?w None None "Some PAYMENT_PRE_CONFIRMED" "Some (en_uuid calm_env 0)"]
    by (auto simp: one_endpoint_world_def empty_world_def finality_gate_def)
  have run: "run (process_pre_confirmed_event calm_env payment_sample) one_endpoint_world = (r, w')"
    using d(1) run_record_nonce_or_correlate[OF up]
    by (simp add: process_pre_confirmed_event_def resolve_identity_def sql_record_nonce_or_correlate_def
        lookup_nonce_def one_endpoint_world_def empty_world_def Let_def payment_sample_def calm_env_def numeral_eq_Suc)
  have m: "m \<in> set (drop (length (w_sent one_endpoint_world)) (w_sent w'))"
    using d(2) by (simp add: one_endpoint_world_def empty_world_def)
  from fast_path_never_safe[OF run m] run d(2) show ?thesis by auto
qed

end
