(* ===== verification/Background.thy ===== *)
theory Background
  imports Processor_Props
begin

text \<open>
  The background tasks: \<open>ingestion/finality_poller.py\<close> (promotion of pending and
  confirmed events, reorg handling) and \<open>ingestion/ttl_sweeper.py\<close> (expiry of
  pre-confirmed events). One poll or sweep is one action; the endless loops
  around them only sleep and repeat. The leader lock RPC of the poller and
  the advisory lock and connection pool of the sweeper are parameters.
\<close>

section \<open>Finality poller\<close>

definition lock_id_for_chain :: "ChainId \<Rightarrow> int" where
  "lock_id_for_chain c = 840000 + chain_value c"

text \<open>A \<open>NULL\<close> column reaches the model as \<open>None\<close>, which Pydantic rejects for a string field.\<close>

definition reconstruct_transfer :: "EventRow \<Rightarrow> ERC3009Transfer result" where
  "reconstruct_transfer event =
     rbind (of_option ValueError (case er_chain_id event of Some c \<Rightarrow> chain_of_int c | None \<Rightarrow> None)) (\<lambda>chain.
     rbind (of_option ValidationError (er_authorizer event)) (\<lambda>authorizer.
     rbind (of_option ValidationError (er_nonce event)) (\<lambda>nonce.
     rbind (of_option ValidationError (er_token event)) (\<lambda>token.
       mk_ERC3009Transfer \<lparr>tr_chain_id = chain, tr_tx_hash = er_tx_hash event,
         tr_block_number = er_block_number event, tr_block_hash = er_block_hash event,
         tr_log_index = er_log_index event, tr_from_address = er_from_address event,
         tr_to_address = er_to_address event,
         tr_value = (case er_amount event of Some a \<Rightarrow> a | None \<Rightarrow> ''None''),
         tr_authorizer = authorizer, tr_valid_after = 0, tr_valid_before = 0, tr_nonce = nonce,
         tr_token = token, tr_timestamp = 0\<rparr>))))"

definition transition_finality :: "EventRow \<Rightarrow> string \<Rightarrow> ERC3009Transfer \<Rightarrow> FinalityStatus" where
  "transition_finality event new_status transfer =
     \<lparr>fs_tx_hash = er_tx_hash event, fs_chain_id = tr_chain_id transfer,
      fs_block_number = er_block_number event, fs_confirmations = er_finality_depth event,
      fs_required_confirmations = FINALITY_DEPTHS (tr_chain_id transfer), fs_is_finalized = (new_status \<in> {''confirmed'', ''finalized''}),
      fs_finalized_at = None\<rparr>"

definition transition_dispatch :: "env \<Rightarrow> EventRow \<Rightarrow> string \<Rightarrow> WebhookEventType \<Rightarrow> Endpoint list \<Rightarrow> unit io" where
  "transition_dispatch env event new_status event_type endpoints = (case reconstruct_transfer event of
      Inl _ \<Rightarrow> eret ()
    | Inr transfer \<Rightarrow>
        ecatch (ebind (dispatch_event env transfer endpoints event_type
                   (Some (transition_finality event new_status transfer)) None) (\<lambda>ids.
                record_deliveries env (er_id event) endpoints ids))
          (\<lambda>_. eret ()))"

text \<open>Steps 2 and 3 of a transition: find the endpoints and notify them.\<close>

definition notify_linked ::
  "env \<Rightarrow> EventRow \<Rightarrow> (Endpoint list \<Rightarrow> unit io) \<Rightarrow> unit io" where
  "notify_linked env event send =
     ebind (linked_or_legacy env (er_id event) (er_endpoint_id event)) (\<lambda>ids.
       if ids = [] then eret ()
       else ebind (fetch_endpoints env (\<lambda>_. True) ids) (\<lambda>endpoints.
         if endpoints = [] then eret () else send endpoints))"

definition transition_event :: "env \<Rightarrow> EventRow \<Rightarrow> string \<Rightarrow> WebhookEventType \<Rightarrow> unit io" where
  "transition_event env event new_status event_type =
     ebind (if new_status = ''confirmed'' then ebind (now env) (\<lambda>t. eret (Some t)) else eret None) (\<lambda>confirmed_at.
     ebind (etry (events_update_status env (er_id event) new_status confirmed_at)) (\<lambda>r. case r of
       Inl _ \<Rightarrow> eret ()
     | Inr _ \<Rightarrow> notify_linked env event (transition_dispatch env event new_status event_type)))"

definition handle_reorg :: "env \<Rightarrow> EventRow \<Rightarrow> unit io" where
  "handle_reorg env event =
     ebind (etry (events_update_status env (er_id event) ''reorged'' None)) (\<lambda>r. case r of
       Inl _ \<Rightarrow> eret ()
     | Inr _ \<Rightarrow>
         ebind (etry (invalidate_by_event_id env (er_id event))) (\<lambda>_.
         notify_linked env event (\<lambda>endpoints. case reconstruct_transfer event of
             Inl _ \<Rightarrow> eret ()
           | Inr transfer \<Rightarrow>
               ecatch (ebind (dispatch_event env transfer endpoints PAYMENT_REORGED None None) (\<lambda>_. eret ()))
                 (\<lambda>_. eret ()))))"

definition poll_process_event :: "env \<Rightarrow> EventRow \<Rightarrow> int \<Rightarrow> int \<Rightarrow> unit io" where
  "poll_process_event env event current_block required =
     (let confirmations = max 0 (current_block - er_block_number event) in
      ebind (events_update_finality env (er_id event) confirmations) (\<lambda>_.
        if confirmations \<ge> required then
          (if er_status event = ''pending'' then transition_event env event ''confirmed'' PAYMENT_CONFIRMED
           else if er_status event = ''confirmed'' then transition_event env event ''finalized'' PAYMENT_FINALIZED
           else eret ())
        else eret ()))"

definition canonical_hash :: "env \<Rightarrow> ChainId \<Rightarrow> int \<Rightarrow> string option io" where
  "canonical_hash env chain block =
     ecatch (ebind (get_block_hash env (chain_value chain) block) (\<lambda>h.
         eret (case h of Some x \<Rightarrow> if x = [] then None else Some (py_lower x) | None \<Rightarrow> None)))
       (\<lambda>_. eret None)"

definition is_reorged :: "string option \<Rightarrow> EventRow \<Rightarrow> bool" where
  "is_reorged canonical event = (case canonical of
      Some c \<Rightarrow> c \<noteq> [] \<and> py_lower (er_block_hash event) \<noteq> [] \<and> c \<noteq> py_lower (er_block_hash event)
    | None \<Rightarrow> False)"

text \<open>
  The distinct blocks are a Python set; their order does not matter because each
  is asked for once and stored under its number.
\<close>

definition poll_events :: "env \<Rightarrow> ChainId \<Rightarrow> EventRow list \<Rightarrow> int \<Rightarrow> unit io" where
  "poll_events env chain pending current_block =
     (let blocks = remdups (map er_block_number pending) in
      ebind (efor blocks (canonical_hash env chain)) (\<lambda>hashes.
      ebind (efor pending (\<lambda>event.
        ecatch (if is_reorged (case map_of (zip blocks hashes) (er_block_number event) of Some h \<Rightarrow> h | None \<Rightarrow> None) event
                then handle_reorg env event
                else poll_process_event env event current_block (FINALITY_DEPTHS chain))
          (\<lambda>_. eret ()))) (\<lambda>_. eret ())))"

definition poll_chain_inner :: "env \<Rightarrow> ChainId \<Rightarrow> unit io" where
  "poll_chain_inner env chain =
     ebind (fetch_pending_events env (chain_value chain)) (\<lambda>pending.
       if pending = [] then eret ()
       else ebind (etry (get_block_number env chain)) (\<lambda>b. case b of
         Inl _ \<Rightarrow> eret ()
       | Inr current_block \<Rightarrow> poll_events env chain pending current_block))"

definition leader_lock :: "env \<Rightarrow> int \<Rightarrow> bool io" where
  "leader_lock env lock_id = ebind tick (\<lambda>n. elift (en_leader_lock env n lock_id))"

definition poll_chain :: "env \<Rightarrow> ChainId \<Rightarrow> unit io" where
  "poll_chain env chain =
     (let lock_id = lock_id_for_chain chain in
      ebind (etry (leader_lock env lock_id)) (\<lambda>l. case l of
        Inl _ \<Rightarrow> eret ()
      | Inr got \<Rightarrow>
          if \<not> got then eret ()
          else ebind (etry (poll_chain_inner env chain)) (\<lambda>r.
               ebind (etry (leader_lock env lock_id)) (\<lambda>_. elift r))))"

section \<open>Pre-confirmed sweeper\<close>

definition failure_webhook :: "env \<Rightarrow> EventRow \<Rightarrow> unit io" where
  "failure_webhook env event =
     ebind (ecatch (if er_id event = [] then eret [] else get_endpoint_ids env (er_id event)) (\<lambda>_. eret [])) (\<lambda>ids.
       if ids = [] then eret ()
       else ebind (fetch_endpoints env (\<lambda>_. True) ids) (\<lambda>endpoints.
         if endpoints = [] then eret ()
         else (case reconstruct_transfer event of
             Inl _ \<Rightarrow> eret ()
           | Inr transfer \<Rightarrow>
               ecatch (ebind (dispatch_event env transfer endpoints PAYMENT_FAILED None None) (\<lambda>_. eret ()))
                 (\<lambda>_. eret ()))))"

text \<open>
  \<open>_expire_event\<close>. Over the connection of the lock (\<open>conn\<close>) a row's \<open>created_at\<close> is a
  \<open>datetime\<close>, on which the age computation calls \<open>replace("Z", ...)\<close> and raises
  \<open>TypeError\<close>; over Supabase it is a string and the computation succeeds.
\<close>

definition expire_event :: "env \<Rightarrow> bool \<Rightarrow> EventRow \<Rightarrow> unit io" where
  "expire_event env conn event =
     ecatch (ebind (update_event env (er_id event) (\<lambda>r. r\<lparr>er_status := ''payment.failed''\<rparr>)) (\<lambda>_.
             ebind (now env) (\<lambda>_.
             if conn then eraise TypeError else failure_webhook env event)))
       (\<lambda>_. eret ())"

definition SWEEPER_LOCK_ID :: int where
  "SWEEPER_LOCK_ID = 839202"

text \<open>Both variants of the sweep expire the rows they find one by one; they differ in how they find them.\<close>

definition expire_stale :: "env \<Rightarrow> bool \<Rightarrow> EventRow list \<Rightarrow> unit io" where
  "expire_stale env conn stale_events = ebind (efor stale_events (expire_event env conn)) (\<lambda>_. eret ())"

text \<open>\<open>cutoff_iso\<close> is text, which the query over the pool does not take.\<close>

definition sweep_with_lock :: "env \<Rightarrow> int \<Rightarrow> unit io" where
  "sweep_with_lock env cutoff =
     ecatch (ebind (ebind tick (\<lambda>n. elift (en_advisory_lock env n SWEEPER_LOCK_ID))) (\<lambda>got.
        if \<not> got then eraise RuntimeError
        else ebind (etry (ebind (fetch_stale_preconfirmed env (As_text cutoff)) (expire_stale env True))) (\<lambda>r.
             ebind tick (\<lambda>_. elift r))))
       (\<lambda>_. eret ())"

definition sweep_once_fallback :: "env \<Rightarrow> int \<Rightarrow> unit io" where
  "sweep_once_fallback env cutoff = ebind (select_stale env cutoff) (expire_stale env False)"

definition sweep_once :: "env \<Rightarrow> int \<Rightarrow> unit io" where
  "sweep_once env ttl =
     ebind (now env) (\<lambda>t.
       if en_pg_pool env then sweep_with_lock env (t - ttl) else sweep_once_fallback env (t - ttl))"

section \<open>Integrity\<close>

lemma keeps_notify_linked:
  assumes "tick_stable I" and "\<And>eps. keeps I (send eps)"
  shows "keeps I (notify_linked env event send)"
  unfolding notify_linked_def by (intro keeps_intros assms)

lemma keeps_record_deliveries [keeps_intros]: "keeps db_inv (record_deliveries env ev eps ids)"
  unfolding record_deliveries_def by (intro keeps_intros)

lemma keeps_transition_event [keeps_intros]: "keeps db_inv (transition_event env event s ty)"
  unfolding transition_event_def transition_dispatch_def
  by (intro keeps_intros keeps_notify_linked db_inv_tick_stable)

lemma keeps_handle_reorg [keeps_intros]: "keeps db_inv (handle_reorg env event)"
  unfolding handle_reorg_def by (intro keeps_intros keeps_notify_linked db_inv_tick_stable)

lemma keeps_poll_process_event [keeps_intros]: "keeps db_inv (poll_process_event env event b r)"
  unfolding poll_process_event_def by (intro keeps_intros)

lemma keeps_canonical_hash [keeps_intros]: "tick_stable I \<Longrightarrow> keeps I (canonical_hash env c b)"
  unfolding canonical_hash_def by (intro keeps_intros)

lemma keeps_leader_lock [keeps_intros]: "tick_stable I \<Longrightarrow> keeps I (leader_lock env i)"
  unfolding leader_lock_def by (intro keeps_intros)

lemma keeps_poll_chain [keeps_intros]: "keeps db_inv (poll_chain env c)"
  unfolding poll_chain_def poll_chain_inner_def poll_events_def
  by (intro keeps_intros db_inv_tick_stable)

lemma keeps_sweep_once [keeps_intros]: "keeps db_inv (sweep_once env ttl)"
  unfolding sweep_once_def sweep_with_lock_def sweep_once_fallback_def expire_stale_def expire_event_def failure_webhook_def
  by (intro keeps_intros keeps_update_event db_inv_tick_stable) simp_all

end
