(* ===== verification/Background_Props.thy ===== *)
theory Background_Props
  imports Background
begin

text \<open>
  Properties of the background tasks: which status changes a poll or a sweep
  can make and on what evidence, what happens without the leader lock, and
  which webhooks the sweeper sends.
\<close>

section \<open>Frames on the events table\<close>

definition events_only :: "(world \<Rightarrow> bool) \<Rightarrow> bool" where
  "events_only I \<longleftrightarrow> (\<forall>w w'. I w \<longrightarrow> w_events w' = w_events w \<longrightarrow> I w')"

named_theorems events_frame \<open>actions that leave the events table alone\<close>

lemma events_onlyD: "events_only I \<Longrightarrow> I w \<Longrightarrow> w_events w' = w_events w \<Longrightarrow> I w'"
  by (simp add: events_only_def)

lemma events_only_tick [simp]: "events_only I \<Longrightarrow> tick_stable I"
  by (simp add: events_only_def tick_stable_def)

lemma eframe_insert_checked:
  "events_only I \<Longrightarrow> (\<And>w. w_events (f w) = w_events w) \<Longrightarrow> keeps I (insert_checked env ok f)"
  by (intro keeps_insert_checked) (auto elim: events_onlyD)

lemma eframe_services [events_frame]:
  "events_only I \<Longrightarrow> keeps I tick" "events_only I \<Longrightarrow> keeps I (now env)"
  "events_only I \<Longrightarrow> keeps I (uuid4 env)" "events_only I \<Longrightarrow> keeps I (query env f)"
  "events_only I \<Longrightarrow> keeps I (get_endpoint_ids env i)"
  "events_only I \<Longrightarrow> keeps I (fetch_endpoints env k ids)" "events_only I \<Longrightarrow> keeps I (linked_or_legacy env e l)"
  "events_only I \<Longrightarrow> keeps I (canonical_hash env c b)" "events_only I \<Longrightarrow> keeps I (leader_lock env n)"
  "events_only I \<Longrightarrow> keeps I (get_block_number env c)" "events_only I \<Longrightarrow> keeps I (fetch_pending_events env n)"
  "events_only I \<Longrightarrow> keeps I (select_stale env n)"
  by (intro keeps_intros events_only_tick; assumption)+

lemma eframe_dispatch [events_frame]: "events_only I \<Longrightarrow> keeps I (dispatch_event env t eps ty f i)"
  by (intro keeps_dispatch_event) (auto elim: events_onlyD)

lemma eframe_invalidate [events_frame]: "events_only I \<Longrightarrow> keeps I (invalidate_by_event_id env e)"
  by (rule keepsI) (auto simp: invalidate_by_event_id_def case_prod_beta elim: events_onlyD split: option.splits)

lemma eframe_record_deliveries [events_frame]: "events_only I \<Longrightarrow> keeps I (record_deliveries env ev eps ids)"
  unfolding record_deliveries_def record_delivery_def delivery_create_def
  by (intro act_rules events_frame eframe_insert_checked; simp)

section \<open>Row-wise change of the events table\<close>

definition moved :: "(EventRow \<Rightarrow> EventRow \<Rightarrow> bool) \<Rightarrow> EventRow list \<Rightarrow> world \<Rightarrow> bool" where
  "moved R E0 w \<longleftrightarrow> list_all2 R E0 (w_events w)"

lemma events_only_moved [simp]: "events_only (moved R E0)"
  by (simp add: events_only_def moved_def)

lemma moved_update_event:
  assumes "distinct (map er_id E0)" and "e \<in> set E0"
    and id: "\<And>a b. R a b \<Longrightarrow> er_id b = er_id a" and step: "\<And>b. R e b \<Longrightarrow> R e (f b)"
  shows "keeps (moved R E0) (update_event env (er_id e) f)"
proof -
  have upd: "moved R E0 (modify_event (er_id e) f w)" if "moved R E0 w" for w
  proof -
    have "R a (if er_id b = er_id e then f b else b)" if "a \<in> set E0" "R a b" for a b
    proof (cases "er_id b = er_id e")
      case True
      then have "a = e" using assms(1,2) that id by (metis distinct_map inj_onD)
      then show ?thesis using True that step by simp
    qed (use that in simp)
    then show ?thesis using \<open>moved R E0 w\<close>
      by (auto simp: moved_def modify_event_def list_all2_conv_all_nth)
  qed
  show ?thesis
    unfolding update_event_def using upd by (intro keeps_intros) simp_all
qed

lemma keeps_ebind_res:
  assumes "keeps I m" and "\<And>v w w'. run m w = (Inr v, w') \<Longrightarrow> keeps I (k v)"
  shows "keeps I (ebind m k)"
proof (rule keepsI)
  fix w assume "I w"
  with assms(1) have "I (snd (run m w))" by (rule keepsD)
  then show "I (snd (run (ebind m k) w))"
    using assms(2) by (cases "run m w"; cases "fst (run m w)") (auto dest: keepsD)
qed

lemma keeps_efor_set: "(\<And>x. x \<in> set xs \<Longrightarrow> keeps I (f x)) \<Longrightarrow> keeps I (efor xs f)"
  by (induction xs) (auto intro!: act_rules)

section \<open>What a poll may do\<close>

definition reported_head :: "env \<Rightarrow> ChainId \<Rightarrow> int \<Rightarrow> bool" where
  "reported_head env chain h \<longleftrightarrow> (\<exists>w w'. run (get_block_number env chain) w = (Inr h, w'))"

definition reported_hash :: "env \<Rightarrow> ChainId \<Rightarrow> int \<Rightarrow> string \<Rightarrow> bool" where
  "reported_hash env chain block h \<longleftrightarrow>
     (\<exists>w w'. run (get_block_hash env (chain_value chain) block) w = (Inr (Some h), w'))"

text \<open>The status changes a poll of \<open>chain\<close> may make, each with the evidence for it.\<close>

definition poll_edge :: "env \<Rightarrow> ChainId \<Rightarrow> EventRow \<Rightarrow> string \<Rightarrow> bool" where
  "poll_edge env chain a s \<longleftrightarrow> s = er_status a \<or>
     er_chain_id a = Some (chain_value chain) \<and>
     ((er_status a, s) \<in> {(''pending'', ''confirmed''), (''confirmed'', ''finalized'')} \<and>
        (\<exists>h. reported_head env chain h \<and> er_block_number a + FINALITY_DEPTHS chain \<le> h) \<or>
      er_status a \<in> {''pending'', ''confirmed''} \<and> s = ''reorged'' \<and>
        (\<exists>h. reported_hash env chain (er_block_number a) h \<and> py_lower h \<noteq> py_lower (er_block_hash a)))"

definition poll_move :: "env \<Rightarrow> ChainId \<Rightarrow> EventRow \<Rightarrow> EventRow \<Rightarrow> bool" where
  "poll_move env chain a b \<longleftrightarrow> (\<exists>s c d.
     b = a\<lparr>er_status := s, er_confirmed_at := c, er_finality_depth := d\<rparr> \<and> poll_edge env chain a s)"

lemma poll_move_id: "poll_move env chain a b \<Longrightarrow> er_id b = er_id a"
  by (auto simp: poll_move_def)

lemma poll_moveI:
  "b = a\<lparr>er_status := s, er_confirmed_at := c, er_finality_depth := d\<rparr> \<Longrightarrow> poll_edge env chain a s \<Longrightarrow>
   poll_move env chain a b"
  unfolding poll_move_def by blast

lemma poll_move_refl [simp]: "poll_move env chain a a"
  by (rule poll_moveI[where s = "er_status a" and c = "er_confirmed_at a" and d = "er_finality_depth a"]) (simp_all add: poll_edge_def)

lemma poll_move_updates:
  assumes "poll_move env chain a b"
  shows "poll_move env chain a (b\<lparr>er_finality_depth := x\<rparr>)"
    and "poll_edge env chain a s' \<Longrightarrow> poll_move env chain a (b\<lparr>er_status := s'\<rparr>)"
    and "poll_edge env chain a s' \<Longrightarrow> poll_move env chain a (b\<lparr>er_status := s', er_confirmed_at := y\<rparr>)"
proof -
  from assms obtain s c d where b: "b = a\<lparr>er_status := s, er_confirmed_at := c, er_finality_depth := d\<rparr>"
    and s: "poll_edge env chain a s" unfolding poll_move_def by blast
  show "poll_move env chain a (b\<lparr>er_finality_depth := x\<rparr>)"
    by (rule poll_moveI[where c = c and d = x, OF _ s]) (simp add: b)
  assume s': "poll_edge env chain a s'"
  show "poll_move env chain a (b\<lparr>er_status := s'\<rparr>)"
    by (rule poll_moveI[where c = c and d = d, OF _ s']) (simp add: b)
  show "poll_move env chain a (b\<lparr>er_status := s', er_confirmed_at := y\<rparr>)"
    by (rule poll_moveI[where c = y and d = d, OF _ s']) (simp add: b)
qed

lemma poll_update_finality:
  assumes "distinct (map er_id E0)" and "e \<in> set E0"
  shows "keeps (moved (poll_move env chain) E0) (events_update_finality env (er_id e) d)"
  unfolding events_update_finality_def
  by (rule moved_update_event[OF assms poll_move_id]) (auto intro: poll_move_updates)

lemma poll_update_status:
  assumes "distinct (map er_id E0)" and "e \<in> set E0" and "poll_edge env chain e s"
  shows "keeps (moved (poll_move env chain) E0) (events_update_status env (er_id e) s c)"
  unfolding events_update_status_def
  using assms(3)
  by (intro act_rules events_frame moved_update_event[OF assms(1,2) poll_move_id])
     (auto intro: poll_move_updates split: option.split)

lemma poll_transition:
  assumes "distinct (map er_id E0)" and "e \<in> set E0" and "poll_edge env chain e s"
  shows "keeps (moved (poll_move env chain) E0) (transition_event env e s ty)"
  unfolding transition_event_def transition_dispatch_def
  by (intro act_rules events_frame keeps_notify_linked poll_update_status assms) simp_all

lemma poll_reorg:
  assumes "distinct (map er_id E0)" and "e \<in> set E0" and "poll_edge env chain e ''reorged''"
  shows "keeps (moved (poll_move env chain) E0) (handle_reorg env e)"
  unfolding handle_reorg_def
  by (intro act_rules events_frame keeps_notify_linked poll_update_status assms) simp_all

definition polled :: "ChainId \<Rightarrow> EventRow \<Rightarrow> bool" where
  "polled chain e \<longleftrightarrow> er_status e \<in> {''pending'', ''confirmed''} \<and> er_chain_id e = Some (chain_value chain)"

lemma poll_process:
  assumes "distinct (map er_id E0)" and "e \<in> set E0" and "polled chain e" and "reported_head env chain h"
  shows "keeps (moved (poll_move env chain) E0) (poll_process_event env e h (FINALITY_DEPTHS chain))"
proof -
  have deep: "er_block_number e + FINALITY_DEPTHS chain \<le> h"
    if "FINALITY_DEPTHS chain \<le> max 0 (h - er_block_number e)"
    using that FINALITY_DEPTHS_pos[of chain] by (auto simp: max_def split: if_splits)
  have edge: "poll_edge env chain e s"
    if "FINALITY_DEPTHS chain \<le> max 0 (h - er_block_number e)"
      "(er_status e, s) \<in> {(''pending'', ''confirmed''), (''confirmed'', ''finalized'')}" for s
    using deep[OF that(1)] that(2) assms(3,4) by (auto simp: poll_edge_def polled_def)
  show ?thesis
    unfolding poll_process_event_def Let_def
    by (intro keeps_ebind poll_update_finality assms)
       (auto intro!: poll_transition assms edge keeps_basic)
qed

lemma efor_results:
  "run (efor xs f) w = (Inr ys, w') \<Longrightarrow> list_all2 (\<lambda>x y. \<exists>w w'. run (f x) w = (Inr y, w')) xs ys"
proof (induction xs arbitrary: w ys)
  case (Cons x xs)
  then show ?case by (auto split: prod.splits sum.splits)
qed simp

lemma canonical_hash_reported:
  assumes "run (canonical_hash env chain b) w = (Inr (Some c), w')"
  shows "\<exists>h. reported_hash env chain b h \<and> c = py_lower h"
  using assms by (auto simp: canonical_hash_def reported_hash_def split: prod.splits sum.splits option.splits if_splits)

lemma poll_events_moves:
  assumes "distinct (map er_id E0)" and "set pending \<subseteq> set E0" and "\<And>e. e \<in> set pending \<Longrightarrow> polled chain e"
    and "reported_head env chain h"
  shows "keeps (moved (poll_move env chain) E0) (poll_events env chain pending h)"
  unfolding poll_events_def Let_def
proof (intro keeps_ebind_res keeps_efor_set keeps_ecatch keeps_basic)
  let ?blocks = "remdups (map er_block_number pending)"
  fix hashes w w' e
  assume hs: "run (efor ?blocks (canonical_hash env chain)) w = (Inr hashes, w')" and e: "e \<in> set pending"
  let ?c = "case map_of (zip ?blocks hashes) (er_block_number e) of None \<Rightarrow> None | Some h \<Rightarrow> h"
  have edge: "poll_edge env chain e ''reorged''" if r: "is_reorged ?c e"
  proof -
    from r obtain c where c: "map_of (zip ?blocks hashes) (er_block_number e) = Some (Some c)"
      "c \<noteq> py_lower (er_block_hash e)" by (auto simp: is_reorged_def split: option.splits)
    from c(1) have "(er_block_number e, Some c) \<in> set (zip ?blocks hashes)" by (rule map_of_SomeD)
    then obtain u u' where "run (canonical_hash env chain (er_block_number e)) u = (Inr (Some c), u')"
      using efor_results[OF hs] by (auto simp: list_all2_iff)
    from canonical_hash_reported[OF this] c(2) assms(3)[OF e] show ?thesis
      by (auto simp: poll_edge_def polled_def)
  qed
  have "e \<in> set E0" using e assms(2) by auto
  then show "keeps (moved (poll_move env chain) E0) (if is_reorged ?c e then handle_reorg env e
      else poll_process_event env e h (FINALITY_DEPTHS chain))"
    using poll_reorg[OF assms(1) _ edge] poll_process[OF assms(1) _ assms(3)[OF e] assms(4)] by simp
qed (simp_all add: events_frame)

lemma poll_inner_moves:
  assumes "distinct (map er_id (w_events w))"
  shows "moved (poll_move env chain) (w_events w) (snd (run (poll_chain_inner env chain) w))"
proof -
  let ?I = "moved (poll_move env chain) (w_events w)"
  have I: "?I w" by (simp add: moved_def list_all2_refl)
  obtain r w1 where q: "run (fetch_pending_events env (chain_value chain)) w = (r, w1)" by fastforce
  have I1: "?I w1" using keepsD[OF eframe_services(11)[of ?I env "chain_value chain"] I] q by simp
  show ?thesis
  proof (cases r)
    case (Inr pending)
    have p: "set pending \<subseteq> set (w_events w)" "\<And>e. e \<in> set pending \<Longrightarrow> polled chain e"
      using q Inr by (auto simp: fetch_pending_events_def query_def polled_def split: option.splits dest!: in_set_takeD)
    have "keeps ?I (if pending = [] then eret ()
       else ebind (etry (get_block_number env chain)) (\<lambda>b. case b of
         Inl _ \<Rightarrow> eret ()
       | Inr current_block \<Rightarrow> poll_events env chain pending current_block))"
      by (intro keeps_if keeps_basic keeps_ebind_res keeps_etry events_frame events_only_moved)
         (auto intro!: keeps_basic poll_events_moves assms p split: sum.split prod.splits simp: reported_head_def; blast)
    from keepsD[OF this I1] show ?thesis using q Inr by (simp add: poll_chain_inner_def)
  qed (use q I1 in \<open>simp add: poll_chain_inner_def\<close>)
qed

lemma poll_chain_moves:
  assumes "distinct (map er_id (w_events w))"
  shows "moved (poll_move env chain) (w_events w) (snd (run (poll_chain env chain) w))"
proof -
  let ?I = "moved (poll_move env chain) (w_events w)" and ?id = "lock_id_for_chain chain"
  have I: "?I w" by (simp add: moved_def list_all2_refl)
  obtain l where l: "run (leader_lock env ?id) w = (l, w\<lparr>w_tick := Suc (w_tick w)\<rparr>)"
    by (simp add: leader_lock_def)
  have 1: "?I (snd (run (poll_chain_inner env chain) (w\<lparr>w_tick := Suc (w_tick w)\<rparr>)))"
    using poll_inner_moves[of "w\<lparr>w_tick := Suc (w_tick w)\<rparr>"] assms by simp
  have I0: "?I (w\<lparr>w_tick := Suc (w_tick w)\<rparr>)" using I by (simp add: moved_def)
  show ?thesis
    using l 1 I0
    by (auto simp: poll_chain_def Let_def leader_lock_def moved_def split: sum.splits prod.splits)
qed

text \<open>
  C5. Whatever the services answer, one poll of a chain changes an event only
  along the lifecycle and only on evidence: pending to confirmed and confirmed
  to finalized (one step per poll) when a head reported by the node is at least
  the chain's depth beyond the event's block, to reorged when the node reported
  another hash for that block; only for events of that chain, and no field but
  the status, the confirmation time and the depth changes.
\<close>

theorem poll_transitions_justified:
  assumes "db_inv w"
  shows "list_all2 (poll_move env chain) (w_events w) (w_events (snd (run (poll_chain env chain) w)))"
  using poll_chain_moves[of w env chain] assms by (simp add: moved_def db_inv_def event_ids_def)

definition poll_world :: world where
  "poll_world = empty_world\<lparr>w_events :=
     [blank_event\<lparr>er_id := ''e1'', er_chain_id := Some 8453, er_block_number := 10, er_status := ''pending''\<rparr>,
      blank_event\<lparr>er_id := ''e2'', er_chain_id := Some 8453, er_block_number := 99, er_status := ''pending''\<rparr>]\<rparr>"

lemma poll_world_run:
  "map er_status (w_events (snd (run (poll_chain calm_env BASE) poll_world))) = [''confirmed'', ''pending'']"
  by code_simp

theorem poll_transitions_justified_witness:
  "db_inv poll_world \<and>
   list_all2 (poll_move calm_env BASE) (w_events poll_world)
     (w_events (snd (run (poll_chain calm_env BASE) poll_world))) \<and>
   map er_status (w_events (snd (run (poll_chain calm_env BASE) poll_world))) = [''confirmed'', ''pending'']"
proof -
  have "db_inv poll_world"
    by (simp add: db_inv_def poll_world_def empty_world_def event_ids_def endpoint_ids_def blank_event_def)
  with poll_transitions_justified poll_world_run show ?thesis by blast
qed

text \<open>
  Without the leader lock a poll does nothing at all: when the RPC
  \<open>try_acquire_leader_lock\<close> fails (as it does once the function is dropped) or
  another replica holds the lock, the poll returns after that one call and no
  event is ever confirmed, finalized or reorged by it.
\<close>

theorem poll_needs_leader_lock:
  assumes "\<not> (\<exists>n. en_leader_lock env n (840000 + chain_value chain) = Inr True)"
  shows "run (poll_chain env chain) w = (Inr (), w\<lparr>w_tick := Suc (w_tick w)\<rparr>)"
proof -
  have "en_leader_lock env (w_tick w) (840000 + chain_value chain) \<noteq> Inr True" using assms by auto
  then show ?thesis
    by (auto simp: poll_chain_def leader_lock_def lock_id_for_chain_def Let_def split: sum.split)
qed

theorem poll_needs_leader_lock_witness:
  "let env = calm_env\<lparr>en_leader_lock := \<lambda>_ _. Inl (ExternalError ''PGRST202'')\<rparr> in
   \<not> (\<exists>n. en_leader_lock env n (840000 + chain_value BASE) = Inr True) \<and>
   run (poll_chain env BASE) poll_world = (Inr (), poll_world\<lparr>w_tick := Suc (w_tick poll_world)\<rparr>)"
  using poll_needs_leader_lock[of "calm_env\<lparr>en_leader_lock := \<lambda>_ _. Inl (ExternalError ''PGRST202'')\<rparr>" BASE poll_world]
  by simp

section \<open>What a sweep may do\<close>

definition stale :: "int \<Rightarrow> EventRow \<Rightarrow> bool" where
  "stale cutoff r \<longleftrightarrow> er_status r = ''pre_confirmed'' \<and> er_created_at r < cutoff"

definition failed :: "EventRow \<Rightarrow> EventRow" where
  "failed r = r\<lparr>er_status := ''payment.failed''\<rparr>"

definition sweep_move :: "int \<Rightarrow> EventRow \<Rightarrow> EventRow \<Rightarrow> bool" where
  "sweep_move cutoff a b \<longleftrightarrow> b = a \<or> stale cutoff a \<and> b = failed a"

lemma sweep_move_facts:
  "sweep_move c a b \<Longrightarrow> er_id b = er_id a" "stale c a \<Longrightarrow> sweep_move c a b \<Longrightarrow> sweep_move c a (failed b)"
  "sweep_move c a a"
  by (auto simp: sweep_move_def failed_def)

lemma eframe_failure_webhook [events_frame]: "events_only I \<Longrightarrow> keeps I (failure_webhook env e)"
  unfolding failure_webhook_def by (intro act_rules events_frame)

lemma expire_moves:
  assumes "distinct (map er_id E0)" and "e \<in> set E0" and "stale cutoff e"
  shows "keeps (moved (sweep_move cutoff) E0) (expire_event env conn e)"
proof -
  have "keeps (moved (sweep_move cutoff) E0) (update_event env (er_id e) (\<lambda>r. r\<lparr>er_status := ''payment.failed''\<rparr>))"
    using sweep_move_facts(2)[OF assms(3)]
    by (intro moved_update_event[OF assms(1,2)]) (auto dest: sweep_move_facts(1) simp: failed_def)
  then show ?thesis unfolding expire_event_def by (intro act_rules events_frame) simp_all
qed

lemma expire_stale_moves:
  assumes "distinct (map er_id (w_events w))"
  shows "moved (sweep_move cutoff) (w_events w) (snd (run (sweep_once_fallback env cutoff) w))"
proof -
  let ?I = "moved (sweep_move cutoff) (w_events w)"
  have I: "?I w" by (simp add: moved_def list_all2_refl sweep_move_facts)
  obtain r w1 where q: "run (select_stale env cutoff) w = (r, w1)" by fastforce
  have I1: "?I w1" using keepsD[OF eframe_services(12)[of ?I env cutoff] I] q by simp
  show ?thesis
  proof (cases r)
    case (Inr rows)
    have p: "set rows \<subseteq> set (w_events w)" "\<And>e. e \<in> set rows \<Longrightarrow> stale cutoff e"
      using q Inr by (auto simp: select_stale_def query_def stale_def split: option.splits dest!: in_set_takeD)
    have "keeps ?I (ebind (efor rows (expire_event env False)) (\<lambda>_. eret ()))"
      using p by (intro act_rules(1) keeps_ebind keeps_efor_set expire_moves assms) auto
    from keepsD[OF this I1] show ?thesis using q Inr by (simp add: sweep_once_fallback_def expire_stale_def)
  qed (use q I1 in \<open>simp add: sweep_once_fallback_def\<close>)
qed

lemma sweep_run:
  "run (sweep_once env ttl) w = (let w1 = w\<lparr>w_tick := Suc (w_tick w)\<rparr>; c = en_now env (w_tick w) - ttl in
     if en_pg_pool env then run (sweep_with_lock env c) w1 else run (sweep_once_fallback env c) w1)"
  by (simp add: sweep_once_def Let_def)

lemma sweep_lock_run: "\<exists>t. run (sweep_with_lock env c) w = (Inr (), w\<lparr>w_tick := t\<rparr>)"
  by (auto simp: sweep_with_lock_def fetch_stale_preconfirmed_def split: sum.split option.split)

text \<open>
  A sweep only expires: whatever fails on the way, the only rows it changes
  are pre-confirmed events older than the time to live, and the only change it
  makes to them is the status \<open>payment.failed\<close>.
\<close>

theorem sweep_only_expires:
  assumes "db_inv w"
  shows "list_all2 (sweep_move (en_now env (w_tick w) - ttl)) (w_events w)
     (w_events (snd (run (sweep_once env ttl) w)))"
proof -
  have d: "distinct (map er_id (w_events (w\<lparr>w_tick := n\<rparr>)))" for n
    using assms by (simp add: db_inv_def event_ids_def)
  have "list_all2 (sweep_move c) (w_events w) (w_events w)" for c by (simp add: list_all2_refl sweep_move_facts)
  with expire_stale_moves[OF d] show ?thesis
    using sweep_lock_run[of env "en_now env (w_tick w) - ttl" "w\<lparr>w_tick := Suc (w_tick w)\<rparr>"]
    by (auto simp: sweep_run Let_def moved_def)
qed

definition sweep_world :: world where
  "sweep_world = empty_world\<lparr>w_events :=
     [blank_event\<lparr>er_id := ''e1'', er_created_at := 10, er_status := ''pre_confirmed''\<rparr>,
      blank_event\<lparr>er_id := ''e2'', er_created_at := 990, er_status := ''pre_confirmed''\<rparr>,
      blank_event\<lparr>er_id := ''e3'', er_created_at := 10, er_status := ''confirmed''\<rparr>]\<rparr>"

lemma db_inv_sweep_world: "db_inv sweep_world"
  by (simp add: db_inv_def sweep_world_def empty_world_def event_ids_def endpoint_ids_def blank_event_def)

theorem sweep_only_expires_witness:
  "db_inv sweep_world \<and>
   list_all2 (sweep_move (en_now calm_env (w_tick sweep_world) - 600)) (w_events sweep_world)
     (w_events (snd (run (sweep_once calm_env 600) sweep_world)))"
  using sweep_only_expires[OF db_inv_sweep_world] db_inv_sweep_world by blast

lemma expire_run:
  assumes "\<And>n. en_db_fault env n = None"
  shows "\<exists>w'. run (expire_event env conn e) w = (Inr (), w') \<and>
     w_events w' = map (\<lambda>r. if er_id r = er_id e then failed r else r) (w_events w)"
proof -
  let ?E = "map (\<lambda>r. if er_id r = er_id e then failed r else r) (w_events w)"
  have "keeps (\<lambda>w. w_events w = ?E) (failure_webhook env e)"
    by (rule eframe_failure_webhook) (simp add: events_only_def)
  note k = keepsD[OF this]
  show ?thesis
    using assms k[of "(modify_event (er_id e) (\<lambda>r. r\<lparr>er_status := ''payment.failed''\<rparr>) (w\<lparr>w_tick := Suc (w_tick w)\<rparr>))
      \<lparr>w_tick := Suc (Suc (w_tick w))\<rparr>"]
    by (auto simp: expire_event_def update_event_def modify_event_def failed_def split: prod.split sum.split)
qed

lemma expire_all_run:
  assumes "\<And>n. en_db_fault env n = None"
  shows "w_events (snd (run (efor es (expire_event env conn)) w)) =
     map (\<lambda>r. if er_id r \<in> er_id ` set es then failed r else r) (w_events w)"
proof (induction es arbitrary: w)
  case (Cons e es)
  obtain w1 where w1: "run (expire_event env conn e) w = (Inr (), w1)"
    "w_events w1 = map (\<lambda>r. if er_id r = er_id e then failed r else r) (w_events w)"
    using expire_run[OF assms] by blast
  have "er_id (failed r) = er_id r" "failed (failed r) = failed r" for r by (simp_all add: failed_def)
  with w1 Cons.IH[of w1] show ?case
    by (auto split: prod.split sum.split)
qed simp

lemma expire_stale_run:
  assumes "\<And>n. en_db_fault env n = None" and "distinct (map er_id (w_events w))"
  shows "w_events (snd (run (sweep_once_fallback env cutoff) w)) =
     map (\<lambda>r. if r \<in> set (take 100 (filter (stale cutoff) (w_events w))) then failed r else r) (w_events w)"
proof -
  let ?rows = "take 100 (filter (stale cutoff) (w_events w))"
  have q: "run (select_stale env cutoff) w = (Inr ?rows, w\<lparr>w_tick := Suc (w_tick w)\<rparr>)"
    using assms(1) by (simp add: select_stale_def query_def stale_def[abs_def])
  have "set ?rows \<subseteq> set (w_events w)" by (auto dest: in_set_takeD)
  then have "er_id r \<in> er_id ` set ?rows \<longleftrightarrow> r \<in> set ?rows" if "r \<in> set (w_events w)" for r
    using assms(2) that by (fastforce simp: distinct_map dest: inj_onD)
  with q show ?thesis
    using expire_all_run[OF assms(1), of ?rows False "w\<lparr>w_tick := Suc (w_tick w)\<rparr>"]
    by (auto simp: sweep_once_fallback_def expire_stale_def split: prod.split sum.split)
qed

text \<open>
  C12. What a sweep does. With a connection pool it never does anything: the driver rejects the
  text cutoff, the error is logged, and nothing but the clock has moved, so pre-confirmed events
  never expire in such a deployment, whatever fails and however old they are. Without a pool,
  when the database answers, the first 100 of the stale pre-confirmed events become failed
  and every other row is untouched; the next sweep takes the next 100.
\<close>

theorem sweep_expires_stale:
  "(en_pg_pool env \<longrightarrow> (\<exists>t. run (sweep_once env ttl) w = (Inr (), w\<lparr>w_tick := t\<rparr>))) \<and>
   (\<not> en_pg_pool env \<longrightarrow> db_inv w \<longrightarrow> (\<forall>n. en_db_fault env n = None) \<longrightarrow>
      w_events (snd (run (sweep_once env ttl) w)) =
        map (\<lambda>r. if r \<in> set (take 100 (filter (stale (en_now env (w_tick w) - ttl)) (w_events w))) then failed r else r)
          (w_events w))"
proof (intro conjI impI)
  assume "en_pg_pool env"
  then show "\<exists>t. run (sweep_once env ttl) w = (Inr (), w\<lparr>w_tick := t\<rparr>)"
    using sweep_lock_run[of env "en_now env (w_tick w) - ttl" "w\<lparr>w_tick := Suc (w_tick w)\<rparr>"]
    by (simp add: sweep_run Let_def)
next
  assume "\<not> en_pg_pool env" "db_inv w" "\<forall>n. en_db_fault env n = None"
  then show "w_events (snd (run (sweep_once env ttl) w)) =
      map (\<lambda>r. if r \<in> set (take 100 (filter (stale (en_now env (w_tick w) - ttl)) (w_events w))) then failed r else r)
        (w_events w)"
    using expire_stale_run[of env "w\<lparr>w_tick := Suc (w_tick w)\<rparr>" "en_now env (w_tick w) - ttl"]
    by (simp add: sweep_run Let_def db_inv_def event_ids_def)
qed

theorem sweep_expires_stale_witness:
  "map er_status (w_events (snd (run (sweep_once calm_env 600) sweep_world))) =
     [''payment.failed'', ''pre_confirmed'', ''confirmed''] \<and>
   map er_status (w_events (snd (run (sweep_once (calm_env\<lparr>en_pg_pool := True\<rparr>) 600) sweep_world))) =
     [''pre_confirmed'', ''pre_confirmed'', ''confirmed'']"
proof -
  have "\<not> en_pg_pool calm_env" "\<forall>n. en_db_fault calm_env n = None" by (simp_all add: calm_env_def)
  with sweep_expires_stale[of calm_env 600 sweep_world] db_inv_sweep_world
  have a: "w_events (snd (run (sweep_once calm_env 600) sweep_world)) =
      map (\<lambda>r. if r \<in> set (take 100 (filter (stale (en_now calm_env (w_tick sweep_world) - 600)) (w_events sweep_world)))
        then failed r else r) (w_events sweep_world)" by blast
  obtain t where b: "run (sweep_once (calm_env\<lparr>en_pg_pool := True\<rparr>) 600) sweep_world = (Inr (), sweep_world\<lparr>w_tick := t\<rparr>)"
    using sweep_expires_stale[of "calm_env\<lparr>en_pg_pool := True\<rparr>" 600 sweep_world] by auto
  show ?thesis unfolding a b
    by (simp add: sweep_world_def empty_world_def blank_event_def stale_def failed_def calm_env_def)
qed

end
