(* ===== verification/Trigger_Props.thy ===== *)
theory Trigger_Props
  imports Trigger_Handler Background_Props
begin

text \<open>
  Properties of the trigger handler and of the routing: who is sent a trigger
  webhook, that an event is delivered to a trigger at most once, what becomes
  of deferred deliveries, and that the unified loop treats ERC-3009 events as
  the dedicated handler does.
\<close>

section \<open>Integrity\<close>

lemma keeps_trigger_pieces [keeps_intros]:
  "tick_stable I \<Longrightarrow> keeps I (resolve_optional env a c)"
  "tick_stable I \<Longrightarrow> keeps I (unified_finality env d)"
  "tick_stable I \<Longrightarrow> keeps I (unified_wanted env ch ep)"
  unfolding resolve_optional_def unified_finality_def unified_wanted_def
  by (intro keeps_intros; assumption)+

lemma keeps_trigger_record [keeps_intros]: "keeps db_inv (trigger_record env row t ep m)"
  unfolding trigger_record_def by (intro keeps_intros)

lemma keeps_trigger_send_db [keeps_intros]: "keeps db_inv (trigger_send env ep p)"
  unfolding trigger_send_def by (intro keeps_intros)

lemma keeps_unified_notify [keeps_intros]: "keeps db_inv (unified_notify env ch d ep p)"
  unfolding unified_notify_def by (intro keeps_intros db_inv_tick_stable)

lemma keeps_legacy_trigger [keeps_intros]: "keeps db_inv (legacy_trigger env raw tx li t)"
  unfolding legacy_trigger_def legacy_claimed_def legacy_deliver_def
  by (intro keeps_intros db_inv_tick_stable)

lemma keeps_unified_trigger [keeps_intros]: "keeps db_inv (unified_trigger env tx ch fin idn p)"
  unfolding unified_trigger_def unified_endpoint_def unified_deliver_def
  by (intro keeps_intros db_inv_tick_stable)

lemma keeps_unified_dedup [keeps_intros]: "keeps db_inv (unified_dedup env c ps)"
  by (induction ps) (auto intro!: keeps_intros)

lemma keeps_pairs_case:
  "(\<And>d t. keeps I (g d t)) \<Longrightarrow> keeps I h \<Longrightarrow> keeps I (case ps of [] \<Rightarrow> h | (d, t) # _ \<Rightarrow> g d t)"
  by (auto split: list.split)

lemma keeps_unified_triggers [keeps_intros]: "keeps db_inv (unified_triggers env raw ts)"
  unfolding unified_triggers_def unified_active_def
  by (intro keeps_ebind keeps_pairs_case keeps_intros db_inv_tick_stable)

lemma keeps_unified_erc3009 [keeps_intros]: "keeps db_inv (unified_erc3009 env raw)"
  unfolding unified_erc3009_def unified_erc3009_active_def
  by (intro keeps_intros db_inv_tick_stable)

lemma keeps_find_by_topic [keeps_intros]: "keeps db_inv (find_by_topic env topic)"
  unfolding find_by_topic_def Let_def
  by (intro keeps_intros db_inv_tick_stable) (simp_all add: db_inv_def event_ids_def endpoint_ids_def)

lemma keeps_process_event [keeps_intros]: "keeps db_inv (process_event env u idx raw)"
proof -
  have "keeps db_inv (route_event env u raw d)" for d
    unfolding route_event_def process_dynamic_event_def by (cases d) (auto intro!: keeps_intros)
  moreover have "keeps db_inv (detect_event_type env idx raw)"
    unfolding detect_event_type_def by (auto intro!: keeps_intros split: list.split)
  ultimately show ?thesis unfolding process_event_def by (intro keeps_ebind)
qed

section \<open>Who is sent a trigger webhook\<close>

lemma frame_trigger [frame_intros]:
  "stable_db I \<Longrightarrow> keeps I (resolve_optional env a c)"
  "stable_db I \<Longrightarrow> keeps I (unified_finality env d)"
  "stable_db I \<Longrightarrow> keeps I (unified_wanted env ch ep)"
  "stable_db I \<Longrightarrow> keeps I (endpoint_get_by_id env i)"
  by (intro keeps_intros stable_db_tick; assumption)+

lemma frame_trigger_record [frame_intros]:
  "stable_db I \<Longrightarrow> keeps I (trigger_record env row t ep m)"
  "stable_db I \<Longrightarrow> keeps I (unified_notify env ch d ep p)"
  unfolding trigger_record_def unified_notify_def by (intro act_rules frame_intros; assumption)+

text \<open>The messages sent since \<open>s0\<close> all satisfy \<open>P\<close>, and the endpoints are still \<open>E\<close>.\<close>

definition sent_with :: "Endpoint list \<Rightarrow> SentMessage list \<Rightarrow> (SentMessage \<Rightarrow> bool) \<Rightarrow> world \<Rightarrow> bool" where
  "sent_with E s0 P w \<longleftrightarrow> sent_since s0 P w \<and> w_endpoints w = E"

lemma stable_sent_with [simp]: "stable_db (sent_with E s0 P)"
  by (simp add: stable_db_def sent_with_def sent_since_def)

lemma provider_send_sent_with:
  "P m \<Longrightarrow> keeps (sent_with E s0 P) (provider_send env m)"
  by (rule keepsI) (auto simp: provider_send_def sent_with_def sent_since_def split: sum.split)

lemma sent_with_record_nonce: "keeps (sent_with E s0 P) (record_nonce env c n a e)"
  by (auto intro!: keepsI simp: record_nonce_def case_prod_beta sent_with_def sent_since_def split: option.splits)

lemma sent_with_unified_dedup: "keeps (sent_with E s0 P) (unified_dedup env c ps)"
  by (induction ps) (auto intro!: act_rules sent_with_record_nonce)

lemma keeps_ebind_at:
  assumes "keeps I m" and "\<And>v w w'. I w \<Longrightarrow> run m w = (Inr v, w') \<Longrightarrow> keeps I (k v)"
  shows "keeps I (ebind m k)"
proof (rule keepsI)
  fix w assume w: "I w"
  with assms(1) have "I (snd (run m w))" by (rule keepsD)
  then show "I (snd (run (ebind m k) w))"
    using assms(2)[OF w] by (cases "run m w"; cases "fst (run m w)") (auto dest: keepsD)
qed

lemma unified_decode_sound:
  "unified_decode env raw ts = Inr ps \<Longrightarrow> (d, t) \<in> set ps \<Longrightarrow>
   t \<in> set ts \<and> abi_decode env (tg_abi t) raw = Inr d \<and>
   (\<forall>f \<in> set (tg_filter_rules t). rule_holds env (de_fields d) f) \<and> check_payment_gate d t = None"
proof (induction ts arbitrary: ps)
  case (Cons t' ts)
  then show ?case
    by (auto simp: rbind_eq_Inr evaluate_filters_pass check_payment_gate_def split: sum.splits if_splits)
qed simp

lemma unified_dedup_subset: "run (unified_dedup env c ps) w = (Inr qs, w') \<Longrightarrow> set qs \<subseteq> set ps"
  by (induction ps arbitrary: w qs) (fastforce split: prod.splits sum.splits if_splits)+

text \<open>What entitles an endpoint to a trigger webhook, and what the webhook says.\<close>

definition trigger_justified ::
  "env \<Rightarrow> Endpoint list \<Rightarrow> pydict \<Rightarrow> Trigger list \<Rightarrow> SentMessage \<Rightarrow> Trigger \<Rightarrow> DecodedEvent \<Rightarrow> Endpoint
   \<Rightarrow> FinalityStatus option \<Rightarrow> AgentIdentity option \<Rightarrow> bool" where
  "trigger_justified env E raw ts m t d ep fin idn \<longleftrightarrow>
     t \<in> set ts \<and> abi_decode env (tg_abi t) raw = Inr d \<and>
     (\<forall>f \<in> set (tg_filter_rules t). rule_holds env (de_fields d) f) \<and> check_payment_gate d t = None \<and>
     \<not> reputation_rejected t idn \<and>
     find (\<lambda>e. ep_id e = tg_endpoint_id t) E = Some ep \<and> ep_active ep \<and> ep_mode ep = EXECUTE \<and>
     evaluate_policy (policy_transfer d) idn (ep_policies ep) = Inr None \<and>
     (\<forall>f. fin = Some f \<longrightarrow> required_depth (policy_chain d) ep \<le> fs_confirmations f) \<and>
     sm_app_id m = project_of ep \<and> wp_trigger_id (sm_payload m) = Some (tg_id t) \<and>
     wp_execution (sm_payload m) = unified_block fin \<and> wd_identity (wp_data (sm_payload m)) = idn"

text \<open>
  The finality and the identity are what the chain and the resolver answered, at some moment, about the
  first event decoded from the log.
\<close>

definition answered :: "env \<Rightarrow> pydict \<Rightarrow> Trigger list \<Rightarrow> FinalityStatus option \<Rightarrow> AgentIdentity option \<Rightarrow> bool" where
  "answered env raw ts fin idn \<longleftrightarrow> (\<exists>ps d t u u' v v'. unified_decode env raw ts = Inr ((d, t) # ps) \<and>
     run (unified_finality env d) u = (Inr fin, u') \<and>
     run (resolve_optional env (de_identity_address d) (chain_or_0 (de_chain_id d))) v = (Inr idn, v'))"

lemma endpoint_get_by_id_found:
  "run (endpoint_get_by_id env i) w = (Inr (Some ep), w') \<Longrightarrow> find (\<lambda>e. ep_id e = i) (w_endpoints w) = Some ep"
  by (auto simp: endpoint_get_by_id_def query_valid_def query_def split: option.splits if_splits)

lemma unified_trigger_sent:
  assumes d: "t \<in> set ts \<and> abi_decode env (tg_abi t) raw = Inr d \<and>
     (\<forall>f \<in> set (tg_filter_rules t). rule_holds env (de_fields d) f) \<and> check_payment_gate d t = None"
    and rep: "\<not> reputation_rejected t idn"
    and P: "\<And>m ep. trigger_justified env E raw ts m t d ep fin idn \<Longrightarrow> P m"
  shows "keeps (sent_with E s0 P) (unified_trigger env tx ch fin idn (d, t))"
proof -
  have deliver: "keeps (sent_with E s0 P) (unified_deliver env tx ch fin idn d t ep)"
    if ep: "find (\<lambda>e. ep_id e = tg_endpoint_id t) E = Some ep" "ep_active ep"
      "evaluate_policy (policy_transfer d) idn (ep_policies ep) = Inr None" "\<not> unified_deferred fin d ep" for ep
  proof -
    have send: "keeps (sent_with E s0 P) (if ep_mode ep = EXECUTE \<and> project_of ep \<noteq> []
        then trigger_send env ep (trigger_payload i k ep time (unified_block fin) t (de_fields d) idn) else eret None)" for i k time
    proof (cases "ep_mode ep = EXECUTE")
      case True
      have "P \<lparr>sm_app_id = project_of ep, sm_event_type = webhook_type_value TRIGGER_MATCHED,
          sm_payload = trigger_payload i k ep time (unified_block fin) t (de_fields d) idn, sm_convoy_endpoint_id = []\<rparr>"
        using d rep ep True by (intro P[of _ ep])
          (auto simp: trigger_justified_def trigger_payload_def unified_deferred_def split: option.splits)
      then show ?thesis
        unfolding trigger_send_def by (intro act_rules provider_send_sent_with)
    qed (simp add: keeps_basic)
    show ?thesis
      unfolding unified_deliver_def Let_def
      by (intro act_rules frame_intros stable_sent_with send)
  qed
  have fetched: "keeps (sent_with E s0 P) (unified_endpoint env tx ch fin idn d t ep)"
    if "find (\<lambda>e. ep_id e = tg_endpoint_id t) E = Some ep" for ep
    unfolding unified_endpoint_def
    using that by (auto intro!: keeps_if keeps_ebind_elift keeps_basic deliver split: option.split)
  show ?thesis
    unfolding unified_trigger_def prod.case
  proof (rule keeps_ebind_at)
    fix r and w w' :: world
    assume I: "sent_with E s0 P w" and run: "run (etry (endpoint_get_by_id env (tg_endpoint_id t))) w = (Inr r, w')"
    have "w_endpoints w = E" using I by (simp add: sent_with_def)
    then have "find (\<lambda>e. ep_id e = tg_endpoint_id t) E = Some ep" if "r = Inr (Some ep)" for ep
      using endpoint_get_by_id_found[of env "tg_endpoint_id t" w ep w'] run that by (auto split: prod.splits)
    then show "keeps (sent_with E s0 P) (case r of
        Inl _ \<Rightarrow> eret (trigger_skipped t ''error'' (Some (Reason ''endpoint_fetch_failed'')))
      | Inr None \<Rightarrow> eret (trigger_skipped t ''skipped'' (Some (Reason ''endpoint_inactive'')))
      | Inr (Some endpoint) \<Rightarrow> unified_endpoint env tx ch fin idn d t endpoint)"
      by (auto intro!: keeps_basic fetched split: sum.split option.split)
  qed (intro keeps_etry frame_intros stable_sent_with)
qed

lemma unified_triggers_sent:
  assumes P: "\<And>m t d ep fin idn. trigger_justified env E raw ts m t d ep fin idn \<Longrightarrow> answered env raw ts fin idn \<Longrightarrow> P m"
  shows "keeps (sent_with E s0 P) (unified_triggers env raw ts)"
proof -
  have act: "keeps (sent_with E s0 P) (unified_active env n d0 qs)"
    if ps: "unified_decode env raw ts = Inr ((d0, t0) # ps)" and qs: "set qs \<subseteq> set ((d0, t0) # ps)" for n d0 t0 ps qs
    unfolding unified_active_def Let_def
  proof (intro keeps_ebind_at keeps_if keeps_basic keeps_efor_set frame_intros stable_sent_with)
    fix fin idn p and w w1 u u1 :: world
    assume f: "run (unified_finality env d0) w = (Inr fin, w1)"
      and i: "run (resolve_optional env (de_identity_address d0) (chain_or_0 (de_chain_id d0))) u = (Inr idn, u1)"
      and p: "p \<in> set (filter (\<lambda>p. \<not> reputation_rejected (snd p) idn) qs)"
    obtain d t where dt: "p = (d, t)" by fastforce
    have "(d, t) \<in> set ((d0, t0) # ps)" "\<not> reputation_rejected t idn" using p qs dt by auto
    moreover have "answered env raw ts fin idn" unfolding answered_def using ps f i by blast
    ultimately show "keeps (sent_with E s0 P) (unified_trigger env (de_tx_hash d0) (de_chain_id d0) fin idn p)"
      unfolding dt using unified_decode_sound[OF ps] by (intro unified_trigger_sent[OF _ _ P]) blast+
  qed
  show ?thesis
    unfolding unified_triggers_def
  proof (intro keeps_ebind_elift)
    fix ps assume ps: "unified_decode env raw ts = Inr ps"
    show "keeps (sent_with E s0 P) (case ps of [] \<Rightarrow> eret (trigger_stop ''filtered'' (Some ''no_events_after_decode'')
               (py_str (en_py_str env) (dict_get ''transaction_hash'' (PyStr []) raw)))
      | (primary, _) # _ \<Rightarrow> ebind (unified_dedup env (chain_or_0 (de_chain_id primary)) ps) (\<lambda>fresh.
           if fresh = [] then eret (trigger_stop ''duplicate'' None (de_tx_hash primary))
           else unified_active env (length ts) primary fresh))"
    proof (cases ps)
      case (Cons p rest)
      obtain d t where p: "p = (d, t)" by fastforce
      show ?thesis unfolding Cons p list.case prod.case
      proof (rule keeps_ebind_at[OF sent_with_unified_dedup])
        fix qs and w w' :: world
        assume "run (unified_dedup env (chain_or_0 (de_chain_id d)) ((d, t) # rest)) w = (Inr qs, w')"
        then have "set qs \<subseteq> set ((d, t) # rest)" by (rule unified_dedup_subset)
        then show "keeps (sent_with E s0 P) (if qs = [] then eret (trigger_stop ''duplicate'' None (de_tx_hash d))
            else unified_active env (length ts) d qs)"
          using act ps Cons p by (intro keeps_if keeps_basic) blast
      qed
    qed (simp add: keeps_basic)
  qed
qed

text \<open>
  C3. A trigger webhook is always justified: every message the unified loop
  sends, whatever the services answer, is for one of the given triggers, whose
  ABI decodes the log, all of whose filters hold, whose payment gate and
  reputation threshold are met; it goes to the endpoint the table holds under the trigger's endpoint id,
  which is active, in execute mode, whose policy accepts the event and whose finality depth
  is reached when the finality is known (a failed check lets every depth pass); finality and identity are
  the services' own answers about the log's first event, and the message says that
  execution is safe only when that finality is final on its chain.
\<close>

theorem trigger_webhooks_justified:
  assumes "run (unified_triggers env raw ts) w = (r, w')"
    and "m \<in> set (drop (length (w_sent w)) (w_sent w'))"
  shows "\<exists>t d ep fin idn. trigger_justified env (w_endpoints w) raw ts m t d ep fin idn \<and> answered env raw ts fin idn \<and>
     (eb_safe_to_execute (wp_execution (sm_payload m)) \<longleftrightarrow> is_final fin)"
proof -
  let ?P = "\<lambda>m. \<exists>t d ep fin idn. trigger_justified env (w_endpoints w) raw ts m t d ep fin idn \<and> answered env raw ts fin idn \<and>
     (eb_safe_to_execute (wp_execution (sm_payload m)) \<longleftrightarrow> is_final fin)"
  have "keeps (sent_with (w_endpoints w) (w_sent w) ?P) (unified_triggers env raw ts)"
  proof (rule unified_triggers_sent)
    fix m t d ep fin idn
    assume j: "trigger_justified env (w_endpoints w) raw ts m t d ep fin idn" and a: "answered env raw ts fin idn"
    from j have "eb_safe_to_execute (wp_execution (sm_payload m)) \<longleftrightarrow> is_final fin"
      by (simp add: trigger_justified_def unified_block_def)
    with j a show "?P m" by blast
  qed
  moreover have "sent_with (w_endpoints w) (w_sent w) ?P w" by (simp add: sent_with_def)
  ultimately have "sent_with (w_endpoints w) (w_sent w) ?P (snd (run (unified_triggers env raw ts) w))" by (rule keepsD)
  with assms show ?thesis by (auto simp: sent_with_def dest: sent_sinceD)
qed

definition trig_log :: pydict where
  "trig_log = [(''topics'', PyList [PyStr ''0xab'']), (''data'', PyStr ''0x''), (''transaction_hash'', PyStr ''0xfeed''),
     (''block_number'', PyInt 90), (''block_hash'', PyStr ''0xb10c''), (''log_index'', PyInt 2),
     (''address'', PyStr ''0xcafe''), (''chain_id'', PyInt 8453)]"

definition sample_trigger :: Trigger where
  "sample_trigger = \<lparr>tg_id = ''t1'', tg_owner_address = ''0x0'', tg_endpoint_id = ep_id sample_endpoint, tg_name = None,
     tg_event_signature = ''Ping()'', tg_topic0 = Some ''0xab'', tg_abi = sample_abi, tg_contract_address = None,
     tg_chain_ids = [8453], tg_filter_rules = [], tg_webhook_event_type = ''ping'', tg_reputation_threshold = 0,
     tg_required_agent_class = None, tg_version = ''1.0.0'', tg_require_payment = False, tg_payment_token = None,
     tg_min_payment_amount = None, tg_active = True, tg_created_at = None\<rparr>"

definition trig_world :: "Endpoint \<Rightarrow> world" where
  "trig_world ep = empty_world\<lparr>w_endpoints := [ep], w_triggers := [sample_trigger]\<rparr>"

lemma trig_run:
  "map (\<lambda>m. wp_trigger_id (sm_payload m)) (w_sent (snd (run (unified_triggers calm_env trig_log [sample_trigger])
     (trig_world sample_endpoint)))) = [Some ''t1'']"
  by code_simp

theorem trigger_webhooks_justified_witness:
  "\<exists>m t d fin idn. trigger_justified calm_env [sample_endpoint] trig_log [sample_trigger] m t d sample_endpoint fin idn \<and>
     answered calm_env trig_log [sample_trigger] fin idn"
proof -
  let ?w = "trig_world sample_endpoint"
  obtain r w' where r: "run (unified_triggers calm_env trig_log [sample_trigger]) ?w = (r, w')" by fastforce
  have "w_sent w' \<noteq> []" using trig_run r by auto
  then obtain m where "m \<in> set (w_sent w')" by (cases "w_sent w'") auto
  then have "m \<in> set (drop (length (w_sent ?w)) (w_sent w'))" by (simp add: trig_world_def empty_world_def)
  from trigger_webhooks_justified[OF r this] show ?thesis
    by (auto simp: trig_world_def trigger_justified_def split: if_splits)
qed

section \<open>At most once\<close>

definition pair_key :: "int \<Rightarrow> DecodedEvent \<times> Trigger \<Rightarrow> nonce_key" where
  "pair_key c p = mk_key c (unified_key (fst p) (snd p)) (py_lower (identity_or ''dynamic_trigger'' (fst p)))"

definition claimed :: "nonce_key \<Rightarrow> world \<Rightarrow> bool" where
  "claimed k w \<longleftrightarrow> active (w_nonces w) k"

lemma run_record_nonce:
  "run (record_nonce env c n a e) w = (case en_db_fault env (w_tick w) of
      Some x \<Rightarrow> (Inl x, w\<lparr>w_tick := Suc (w_tick w)\<rparr>)
    | None \<Rightarrow> (case record_nonce_with_reorg (en_now env (Suc (w_tick w))) (mk_key c n (py_lower a)) e
                 (w_nonces_archive w) (w_nonces w) of
        (b, t) \<Rightarrow> (Inr b, w\<lparr>w_tick := Suc (Suc (w_tick w)), w_nonces := t\<rparr>)))"
  by (simp add: record_nonce_def split: option.split prod.split)

lemma record_nonce_held:
  assumes "active t k"
  shows "record_nonce_with_reorg time k e a t = (False, t)"
  using assms by (auto simp: nonce_eval)

lemma unified_dedup_held:
  "\<forall>p \<in> set ps. claimed (pair_key c p) w \<Longrightarrow> \<exists>n. run (unified_dedup env c ps) w = (Inr [], w\<lparr>w_tick := n\<rparr>)"
proof (induction ps arbitrary: w)
  case Nil
  show ?case by (rule exI[of _ "w_tick w"]) simp
next
  case (Cons p ps)
  have "active (w_nonces w) (pair_key c p)" using Cons.prems by (simp add: claimed_def)
  then have "\<exists>r n. run (record_nonce env c (unified_key (fst p) (snd p)) (identity_or ''dynamic_trigger'' (fst p)) None) w =
      (r, w\<lparr>w_tick := n\<rparr>) \<and> r \<noteq> Inr True"
    by (auto simp: run_record_nonce pair_key_def record_nonce_held split: option.split)
  then obtain r n where r: "run (record_nonce env c (unified_key (fst p) (snd p)) (identity_or ''dynamic_trigger'' (fst p)) None) w =
      (r, w\<lparr>w_tick := n\<rparr>)" "r \<noteq> Inr True" by blast
  obtain n' where "run (unified_dedup env c ps) (w\<lparr>w_tick := n\<rparr>) = (Inr [], w\<lparr>w_tick := n'\<rparr>)"
    using Cons.IH[of "w\<lparr>w_tick := n\<rparr>"] Cons.prems by (auto simp: claimed_def)
  with r show ?case by auto
qed

lemma record_nonce_keeps_claimed: "keeps (claimed k) (record_nonce env c n a e)"
  by (rule keepsI) (auto simp: run_record_nonce claimed_def reorg.claim_held[THEN iffD2] split: option.split prod.split
      dest!: arg_cong[where f = snd])

lemma unified_dedup_keeps_claimed: "keeps (claimed k) (unified_dedup env c ps)"
  by (induction ps) (auto intro!: act_rules record_nonce_keeps_claimed)

lemma record_nonce_claims:
  assumes "\<And>n. en_db_fault env n = None"
  shows "\<exists>b w'. run (record_nonce env c n a e) w = (Inr b, w') \<and> claimed (mk_key c n (py_lower a)) w'"
proof -
  let ?r = "record_nonce_with_reorg (en_now env (Suc (w_tick w))) (mk_key c n (py_lower a)) e (w_nonces_archive w) (w_nonces w)"
  have "active (snd ?r) (mk_key c n (py_lower a))" by (simp add: reorg.claim_held)
  then show ?thesis using assms by (cases ?r) (auto simp: run_record_nonce claimed_def)
qed

lemma unified_dedup_claims:
  assumes "\<And>n. en_db_fault env n = None"
  shows "\<exists>qs w'. run (unified_dedup env c ps) w = (Inr qs, w') \<and> (\<forall>p \<in> set ps. claimed (pair_key c p) w')"
proof (induction ps arbitrary: w)
  case (Cons p ps)
  obtain b w1 where 1: "run (record_nonce env c (unified_key (fst p) (snd p)) (identity_or ''dynamic_trigger'' (fst p)) None) w =
      (Inr b, w1)" "claimed (pair_key c p) w1"
    using record_nonce_claims[OF assms, of c "unified_key (fst p) (snd p)" "identity_or ''dynamic_trigger'' (fst p)" None w]
    by (auto simp: pair_key_def)
  obtain qs w2 where 2: "run (unified_dedup env c ps) w1 = (Inr qs, w2)" "\<forall>p \<in> set ps. claimed (pair_key c p) w2"
    using Cons.IH by blast
  have "claimed (pair_key c p) w2" using keepsD[OF unified_dedup_keeps_claimed 1(2), of env c ps] 2(1) by simp
  with 1 2 show ?case by auto
qed simp

lemma keeps_list_case: "keeps I h \<Longrightarrow> (\<And>x xs. keeps I (g x xs)) \<Longrightarrow> keeps I (case l of [] \<Rightarrow> h | x # xs \<Rightarrow> g x xs)"
  by (cases l) auto

lemma claimed_unified_active: "keeps (claimed k) (unified_active env n d qs)"
proof -
  have st: "stable_db (claimed k)" by (simp add: stable_db_def claimed_def)
  have send: "keeps (claimed k) (trigger_send env ep p)" for ep p
    unfolding trigger_send_def
    by (intro act_rules keeps_provider_send stable_db_tick st) (simp add: claimed_def)
  show ?thesis
    unfolding unified_active_def unified_trigger_def unified_endpoint_def unified_deliver_def Let_def
    by (intro act_rules frame_intros st send)
qed

text \<open>
  The first run claims every key it decodes, whatever happens to it afterwards;
  the second run then finds all of them taken and changes nothing but the clock.
\<close>

lemma unified_triggers_again:
  assumes "\<And>n. en_db_fault env n = None" and "run (unified_triggers env raw ts) w = (r, w')"
    and same: "unified_decode env' raw ts = unified_decode env raw ts"
  shows "\<exists>r' n. run (unified_triggers env' raw ts) w' = (r', w'\<lparr>w_tick := n\<rparr>) \<and>
     (case r' of Inl _ \<Rightarrow> True | Inr s \<Rightarrow> tsu_dispatched s = 0 \<and> tsu_status s \<in> {''duplicate'', ''filtered''})"
proof (cases "unified_decode env raw ts")
  case (Inl e)
  then show ?thesis using same by (auto simp: unified_triggers_def intro!: exI[of _ "w_tick w'"])
next
  case (Inr ps)
  show ?thesis
  proof (cases ps)
    case Nil
    then show ?thesis using same Inr
      by (auto simp: unified_triggers_def trigger_stop_def intro!: exI[of _ "w_tick w'"])
  next
    case (Cons p rest)
    obtain d t where p: "p = (d, t)" by fastforce
    let ?c = "chain_or_0 (de_chain_id d)"
    obtain qs w1 where d: "run (unified_dedup env ?c ps) w = (Inr qs, w1)" "\<forall>p \<in> set ps. claimed (pair_key ?c p) w1"
      using unified_dedup_claims[OF assms(1)] by blast
    have "\<forall>p \<in> set ps. claimed (pair_key ?c p) w'"
    proof
      fix q assume "q \<in> set ps"
      then have "claimed (pair_key ?c q) w1" using d(2) by blast
      from keepsD[OF claimed_unified_active this] this show "claimed (pair_key ?c q) w'"
        using assms(2) Inr Cons p d(1) by (auto simp: unified_triggers_def split: if_splits) (metis snd_conv)
    qed
    from unified_dedup_held[OF this, of env'] obtain n where "run (unified_dedup env' ?c ps) w' = (Inr [], w'\<lparr>w_tick := n\<rparr>)"
      by blast
    then show ?thesis using same Inr Cons p by (auto simp: unified_triggers_def trigger_stop_def)
  qed
qed

text \<open>
  C10. A log reaches a trigger at most once. After a run over a log during which
  the database answered, a second delivery of the same log (whatever the
  services do then) sends nothing, records nothing and dispatches nothing: it
  ends as a duplicate, as filtered, or raises.
\<close>

theorem trigger_redelivery_silent:
  assumes "\<forall>n. en_db_fault env n = None" and "unified_decode env' raw ts = unified_decode env raw ts"
    and "run (unified_triggers env raw ts) w = (r, w')" and "run (unified_triggers env' raw ts) w' = (r', w'')"
  shows "w_sent w'' = w_sent w' \<and> w_events w'' = w_events w' \<and> w_realtime w'' = w_realtime w' \<and>
     (\<forall>s. r' = Inr s \<longrightarrow> tsu_dispatched s = 0 \<and> tsu_status s \<in> {''duplicate'', ''filtered''})"
  using unified_triggers_again[OF _ assms(3,2)] assms(1,4) by auto

theorem trigger_redelivery_silent_witness:
  "\<exists>w' r' w''. run (unified_triggers calm_env trig_log [sample_trigger]) w' = (r', w'') \<and> w_sent w' \<noteq> [] \<and>
     w_sent w'' = w_sent w'"
proof -
  let ?m = "unified_triggers calm_env trig_log [sample_trigger]"
  obtain r w' where r: "run ?m (trig_world sample_endpoint) = (r, w')" by fastforce
  obtain r' w'' where r': "run ?m w' = (r', w'')" by fastforce
  have "w_sent w' \<noteq> []" using trig_run r by auto
  moreover have "w_sent w'' = w_sent w'"
    using trigger_redelivery_silent[OF _ refl r r'] by (simp add: calm_env_def)
  ultimately show ?thesis using r' by blast
qed

section \<open>Deferred deliveries\<close>

lemma unified_deferred_run:
  assumes "run (unified_trigger env tx ch fin idn p) w = (Inr res, w')" and "trr_status res = ''deferred''"
  shows "\<exists>n. w' = w\<lparr>w_tick := n\<rparr>"
  using assms
  by (auto simp: unified_trigger_def unified_endpoint_def unified_deliver_def trigger_skipped_def Let_def
      endpoint_get_by_id_def query_valid_def query_def split: prod.splits sum.splits option.splits if_splits)

lemma efor_deferred_run:
  assumes "run (efor ps (unified_trigger env tx ch fin idn)) w = (Inr rs, w')"
    and "\<forall>res \<in> set rs. trr_status res = ''deferred''"
  shows "\<exists>n. w' = w\<lparr>w_tick := n\<rparr>"
  using assms
proof (induction ps arbitrary: w rs)
  case Nil
  then show ?case by (auto intro!: exI[of _ "w_tick w"])
next
  case (Cons p ps)
  from Cons.prems(1) obtain res w1 rs1 where 1: "run (unified_trigger env tx ch fin idn p) w = (Inr res, w1)"
    "run (efor ps (unified_trigger env tx ch fin idn)) w1 = (Inr rs1, w')" "rs = res # rs1"
    by (auto split: prod.splits sum.splits)
  then obtain n where n: "w1 = w\<lparr>w_tick := n\<rparr>" using unified_deferred_run[OF 1(1)] Cons.prems(2) by auto
  have "\<exists>m. w' = w1\<lparr>w_tick := m\<rparr>" using Cons.IH[OF 1(2)] Cons.prems(2) 1(3) by simp
  then show ?case unfolding n by auto
qed

lemma hoare_bind_keeps:
  assumes "keeps I m" and "\<And>v. hoare I (k v) R" and "\<And>e w. R (Inl e) w"
  shows "hoare I (ebind m k) R"
proof (unfold hoare_def, intro allI impI)
  fix w assume "I w"
  obtain r w1 where r: "run m w = (r, w1)" by fastforce
  have "I w1" using keepsD[OF assms(1) \<open>I w\<close>] r by simp
  then show "case run (ebind m k) w of (r, w') \<Rightarrow> R r w'"
    using r assms(2,3) by (cases r) (auto simp: hoare_def)
qed

lemma hoare_eret: "(\<And>w. I w \<Longrightarrow> R (Inr v) w) \<Longrightarrow> hoare I (eret v) R"
  by (simp add: hoare_def)

lemma hoare_if: "hoare I a R \<Longrightarrow> hoare I b R \<Longrightarrow> hoare I (if c then a else b) R"
  by simp

definition only_deferred :: "TriggerSummary \<Rightarrow> bool" where
  "only_deferred s \<longleftrightarrow> (\<forall>res \<in> set (tsu_results s). trr_status res = ''deferred'')"

lemma unified_triggers_deferred:
  assumes "run (unified_triggers env raw ts) w = (Inr s, w')" and "only_deferred s"
  shows "w_events w' = w_events w \<and> w_sent w' = w_sent w \<and> w_realtime w' = w_realtime w"
proof -
  define I where "I v \<longleftrightarrow> w_events v = w_events w \<and> w_sent v = w_sent w \<and> w_realtime v = w_realtime w" for v :: world
  have tick: "tick_stable I" by (simp add: tick_stable_def I_def)
  have nonce: "keeps I (record_nonce env c n a e)" for c n a e
    by (auto intro!: keepsI simp: run_record_nonce I_def split: option.split prod.split)
  have dedup: "keeps I (unified_dedup env c ps)" for c ps
    by (induction ps) (auto intro!: act_rules nonce)
  let ?R = "\<lambda>r v. \<forall>s. r = Inr s \<longrightarrow> only_deferred s \<longrightarrow> I v"
  have loop: "hoare I (ebind (efor ps (unified_trigger env tx ch fin idn)) (\<lambda>rs. eret (trigger_summary tx n rs))) ?R"
    for ps tx ch fin idn n
    using efor_deferred_run[of ps env tx ch fin idn] tick
    by (auto simp: hoare_def trigger_summary_def Let_def tick_stable_def only_deferred_def split: prod.splits sum.splits)
      blast
  have act: "hoare I (unified_active env n d qs) ?R" for n d qs
    unfolding unified_active_def Let_def
    by (intro hoare_bind_keeps keeps_trigger_pieces tick hoare_if loop hoare_eret) simp_all
  have "hoare I (unified_triggers env raw ts) ?R"
    unfolding unified_triggers_def
    by (intro hoare_bind_keeps) (auto intro!: keeps_basic hoare_eret hoare_bind_keeps dedup act split: list.split
        simp del: unified_dedup.simps)
  then show ?thesis using assms by (auto simp: hoare_def I_def)
qed

text \<open>
  A deferred trigger delivery is lost. When the unified loop defers its
  triggers because an endpoint's finality depth is not yet reached, it has
  already claimed their keys but records no event and sends nothing; and any
  later delivery of the same log, however deep the block then is, changes
  nothing either.
\<close>

theorem deferred_trigger_lost:
  assumes "\<forall>n. en_db_fault env n = None" and "run (unified_triggers env raw ts) w = (Inr s, w')"
    and "only_deferred s" and "unified_decode env' raw ts = unified_decode env raw ts"
  shows "w_events w' = w_events w \<and> w_sent w' = w_sent w \<and> w_realtime w' = w_realtime w \<and>
     (\<exists>r' n. run (unified_triggers env' raw ts) w' = (r', w'\<lparr>w_tick := n\<rparr>))"
proof -
  have "\<exists>r' n. run (unified_triggers env' raw ts) w' = (r', w'\<lparr>w_tick := n\<rparr>)"
    using unified_triggers_again[OF _ assms(2,4)] assms(1) by blast
  then show ?thesis using unified_triggers_deferred[OF assms(2,3)] by simp
qed

definition deep_endpoint :: Endpoint where
  "deep_endpoint = sample_endpoint\<lparr>ep_policies := default_policies\<lparr>po_finality_depth := Some 50\<rparr>\<rparr>"

lemma deferred_run:
  "(case run (unified_triggers calm_env trig_log [sample_trigger]) (trig_world deep_endpoint) of
      (Inr s, _) \<Rightarrow> map trr_status (tsu_results s) = [''deferred''] | _ \<Rightarrow> False)"
  by code_simp

definition later_env :: env where
  "later_env = calm_env\<lparr>en_http_rpc := \<lambda>n url req. Inr [(''result'', PyStr ''0xffff'')]\<rparr>"

theorem deferred_trigger_lost_witness:
  "\<exists>s w' r' n. run (unified_triggers calm_env trig_log [sample_trigger]) (trig_world deep_endpoint) = (Inr s, w') \<and>
     map trr_status (tsu_results s) = [''deferred''] \<and> w_events w' = [] \<and> w_sent w' = [] \<and>
     run (unified_triggers later_env trig_log [sample_trigger]) w' = (r', w'\<lparr>w_tick := n\<rparr>)"
proof -
  obtain s w' where s: "run (unified_triggers calm_env trig_log [sample_trigger]) (trig_world deep_endpoint) = (Inr s, w')"
    "map trr_status (tsu_results s) = [''deferred'']"
    using deferred_run by (auto split: prod.splits sum.splits)
  have "only_deferred s" using s(2) by (auto simp: only_deferred_def)
  moreover have "unified_decode later_env trig_log [sample_trigger] = unified_decode calm_env trig_log [sample_trigger]"
    by code_simp
  ultimately show ?thesis
    using deferred_trigger_lost[OF _ s(1)] s by (auto simp: calm_env_def trig_world_def empty_world_def)
qed

section \<open>The unified loop and the payment handler\<close>

lemma erc3009_decode_facts:
  assumes "erc3009_decode env raw = Inr d"
  obtains t where "de_typed_model d = Some t" "wf_transfer t" "de_tx_hash d = tr_tx_hash t"
    "de_block_number d = tr_block_number t" "de_chain_id d = Some (chain_value (tr_chain_id t))"
    "de_identity_address d = Some (tr_authorizer t)" "tr_authorizer t \<noteq> []"
proof -
  from assms obtain t where t: "decode_transfer_event env raw = Inr t" "de_typed_model d = Some t"
    and f: "de_tx_hash d = tr_tx_hash t" "de_block_number d = tr_block_number t"
      "de_chain_id d = Some (chain_value (tr_chain_id t))"
      "de_identity_address d = (if tr_authorizer t = [] then None else Some (tr_authorizer t))"
    by (auto simp: erc3009_decode_def rbind_eq_Inr Let_def)
  have wf: "wf_transfer t" using all_okD[OF decode_transfer_event_wf t(1)] by blast
  then have "tr_authorizer t \<noteq> []" by (auto simp: wf_transfer_def is_eth_address_def)
  with wf t f show thesis by (intro that) simp_all
qed

text \<open>
  C11. The unified loop treats payments as the dedicated handler does: on a row
  that decodes, with a block number, and a database that answers the claim, both
  give the same result and leave the same state, promotion of pre-confirmed
  events included.
\<close>

theorem unified_agrees_with_payment_handler:
  assumes "erc3009_decode env raw = Inr d" and "de_block_number d \<noteq> 0" and "en_db_fault env (w_tick w) = None"
  shows "run (unified_erc3009 env raw) w = run (process_erc3009_event env raw) w"
proof -
  obtain t where t: "de_typed_model d = Some t" "de_tx_hash d = tr_tx_hash t"
    "de_block_number d = tr_block_number t" "de_chain_id d = Some (chain_value (tr_chain_id t))"
    "de_identity_address d = Some (tr_authorizer t)" "tr_authorizer t \<noteq> []"
    using erc3009_decode_facts[OF assms(1)] by metis
  have c: "chain_value (tr_chain_id t) \<noteq> 0" by (cases "tr_chain_id t") (simp_all add: chain_value_def)
  have "unified_finality env d = check_finality_opt env t"
    using t c assms(2) by (simp add: unified_finality_def check_finality_opt_def check_finality_def chain_or_0_def)
  moreover have "resolve_optional env (de_identity_address d) (chain_or_0 (de_chain_id d)) =
      resolve_identity env (tr_authorizer t) (chain_value (tr_chain_id t))"
    using t by (simp add: resolve_optional_def or_nil_def chain_or_0_def)
  moreover have "\<exists>row w1. run (record_nonce_or_correlate env (chain_value (tr_chain_id t)) (dedup_nonce t)
      (dedup_authorizer t) None ''goldsky'') w = (Inr row, w1)"
    unfolding run_record_nonce_or_correlate[OF assms(3)] by (auto simp: Let_def split: prod.split)
  then obtain row w1 where "run (record_nonce_or_correlate env (chain_value (tr_chain_id t)) (dedup_nonce t)
      (dedup_authorizer t) None ''goldsky'') w = (Inr row, w1)" by blast
  ultimately show ?thesis
    using assms(1) t
    by (cases row) (simp add: unified_erc3009_def unified_erc3009_active_def process_erc3009_event_def
        process_transfer_def or_nil_def chain_or_0_def Let_def)
qed

theorem unified_agrees_with_payment_handler_witness:
  "run (unified_erc3009 calm_env (mirror_row sample_transfer auth_topics)) empty_world =
   run (process_erc3009_event calm_env (mirror_row sample_transfer auth_topics)) empty_world"
proof -
  obtain d where d: "erc3009_decode calm_env (mirror_row sample_transfer auth_topics) = Inr d"
    using sample_decodes(1) by (auto simp: is_ok_def split: sum.splits)
  have "de_block_number d = 90"
    using d mirror_row_recovered[OF sample_transfer_wf auth_topics_parse, of calm_env]
    by (auto simp: erc3009_decode_def rbind_eq_Inr Let_def sample_transfer_def)
  with unified_agrees_with_payment_handler[OF d] show ?thesis by (simp add: calm_env_def)
qed

end
