(* ===== verification/Event_Bus.thy ===== *)
theory Event_Bus
  imports Decoder
begin

text \<open>
  \<open>ingestion/event_bus.py\<close>: raw logs travel through Redis streams, one per event
  signature, to a consumer group. A stream keeps its entries with increasing ids, the
  id up to which the group has been served, and the group's pending entries with
  their consumer and delivery time; \<open>XADD\<close>, \<open>XGROUP CREATE\<close>, \<open>XREADGROUP\<close>, \<open>XACK\<close> and
  \<open>XAUTOCLAIM\<close> are atomic functions on it. A payload that does not decode is \<open>None\<close>.
  The module's two caches and the tables of the pipeline (\<open>bu_world\<close>) belong to the state.
  The scan for keys is an argument and the monitoring report is left out.
\<close>

section \<open>Streams\<close>

record xstream =
  sx_entries :: "(nat \<times> pydict option) list"
  sx_next :: nat
  sx_group :: bool
  sx_last :: nat
  sx_pending :: "(nat \<times> string \<times> rat) list"

definition empty_stream :: xstream where
  "empty_stream = \<lparr>sx_entries = [], sx_next = 1, sx_group = False, sx_last = 0, sx_pending = []\<rparr>"

record bus =
  bu_tick :: nat
  bu_streams :: "string \<Rightarrow> xstream option"
  bu_known_groups :: "string set"
  bu_known_stream_keys :: "string set"
  bu_world :: world

record bus_env =
  be_clock :: "nat \<Rightarrow> rat"
  be_fault :: "nat \<Rightarrow> exn option"
  be_trim :: "nat \<Rightarrow> nat"

type_synonym 'a bio = "(bus, 'a) act"
type_synonym message = "string \<times> nat \<times> pydict"

definition STREAM_PREFIX :: string where "STREAM_PREFIX = ''tripwire:events:''"
definition MAX_STREAM_LEN :: nat where "MAX_STREAM_LEN = 100000"
definition MAX_STREAMS :: nat where "MAX_STREAMS = 500"
definition CLAIM_IDLE :: rat where "CLAIM_IDLE = 30"

definition NoGroup :: exn where "NoGroup = ExternalError ''NOGROUP''"
definition BusyGroup :: exn where "BusyGroup = ExternalError ''BUSYGROUP''"

definition bus_call :: "bus_env \<Rightarrow> rat bio" where
  "bus_call env = ebind (egets bu_tick) (\<lambda>n. ebind (emodify (\<lambda>b. b\<lparr>bu_tick := Suc n\<rparr>)) (\<lambda>_.
     case be_fault env n of Some e \<Rightarrow> eraise e | None \<Rightarrow> eret (be_clock env n)))"

definition put_stream :: "string \<Rightarrow> xstream \<Rightarrow> bus \<Rightarrow> bus" where
  "put_stream k s b = b\<lparr>bu_streams := (bu_streams b)(k \<mapsto> s)\<rparr>"

definition stream_at :: "string \<Rightarrow> bus \<Rightarrow> xstream" where
  "stream_at k b = (case bu_streams b k of Some s \<Rightarrow> s | None \<Rightarrow> empty_stream)"

text \<open>Approximate trimming never goes below the limit.\<close>

definition append_entry :: "nat \<Rightarrow> pydict option \<Rightarrow> xstream \<Rightarrow> nat \<times> xstream" where
  "append_entry trim payload s =
     (let es = sx_entries s @ [(sx_next s, payload)] in
      (sx_next s, s\<lparr>sx_entries := drop (min trim (length es - MAX_STREAM_LEN)) es, sx_next := Suc (sx_next s)\<rparr>))"

definition xadd :: "bus_env \<Rightarrow> string \<Rightarrow> pydict \<Rightarrow> nat bio" where
  "xadd env key payload = ebind (egets bu_tick) (\<lambda>n. ebind (bus_call env) (\<lambda>_.
     ebind (egets (\<lambda>b. append_entry (be_trim env n) (Some payload) (stream_at key b))) (\<lambda>(i, s).
     ebind (emodify (put_stream key s)) (\<lambda>_. eret i))))"

definition xgroup_create :: "bus_env \<Rightarrow> string \<Rightarrow> unit bio" where
  "xgroup_create env key = ebind (bus_call env) (\<lambda>_. ebind (egets (stream_at key)) (\<lambda>s.
     if sx_group s then eraise BusyGroup
     else emodify (put_stream key (s\<lparr>sx_group := True, sx_last := 0\<rparr>))))"

definition undelivered :: "xstream \<Rightarrow> (nat \<times> pydict option) list" where
  "undelivered s = filter (\<lambda>(i, _). sx_last s < i) (sx_entries s)"

definition deliver :: "rat \<Rightarrow> string \<Rightarrow> nat \<Rightarrow> xstream \<Rightarrow> (nat \<times> pydict option) list \<times> xstream" where
  "deliver time consumer count s =
     (let ms = take count (undelivered s) in
      (ms, if ms = [] then s else s\<lparr>sx_last := fst (last ms),
         sx_pending := sx_pending s @ map (\<lambda>(i, _). (i, consumer, time)) ms\<rparr>))"

fun deliver_all :: "rat \<Rightarrow> string \<Rightarrow> nat \<Rightarrow> string list \<Rightarrow> bus \<Rightarrow> (string \<times> nat \<times> pydict option) list \<times> bus" where
  "deliver_all time consumer count [] b = ([], b)"
| "deliver_all time consumer count (k # ks) b =
     (case deliver time consumer count (stream_at k b) of (ms, s) \<Rightarrow>
      case deliver_all time consumer count ks (put_stream k s b) of (rest, b') \<Rightarrow>
        (map (\<lambda>(i, p). (k, i, p)) ms @ rest, b'))"

definition xreadgroup :: "bus_env \<Rightarrow> string \<Rightarrow> string list \<Rightarrow> nat \<Rightarrow> (string \<times> nat \<times> pydict option) list bio" where
  "xreadgroup env consumer keys count = ebind (bus_call env) (\<lambda>time.
     ebind (egets (\<lambda>b. list_all (\<lambda>k. sx_group (stream_at k b)) keys)) (\<lambda>groups.
     if \<not> groups then eraise NoGroup
     else ebind (egets (deliver_all time consumer count keys)) (\<lambda>(ms, b).
       ebind (emodify (\<lambda>_. b)) (\<lambda>_. eret ms))))"

definition ack_ids :: "nat list \<Rightarrow> xstream \<Rightarrow> xstream" where
  "ack_ids ids s = s\<lparr>sx_pending := filter (\<lambda>(i, _). i \<notin> set ids) (sx_pending s)\<rparr>"

definition xack :: "bus_env \<Rightarrow> string \<Rightarrow> nat list \<Rightarrow> unit bio" where
  "xack env key ids = ebind (bus_call env) (\<lambda>_.
     emodify (\<lambda>b. case bu_streams b key of Some s \<Rightarrow> put_stream key (ack_ids ids s) b | None \<Rightarrow> b))"

text \<open>
  \<open>XAUTOCLAIM\<close> from the beginning: the first \<open>count\<close> pending entries that are idle long
  enough change hands; those whose entry was trimmed are dropped from the pending list.
\<close>

definition claim :: "rat \<Rightarrow> string \<Rightarrow> nat \<Rightarrow> xstream \<Rightarrow> (nat \<times> pydict option) list \<times> xstream" where
  "claim time consumer count s =
     (let ids = take count (map fst (filter (\<lambda>(_, _, t). CLAIM_IDLE \<le> time - t) (sx_pending s)));
          ms = filter (\<lambda>(i, _). i \<in> set ids) (sx_entries s) in
      (ms, s\<lparr>sx_pending := map (\<lambda>(i, c, t). if i \<in> set ids then (i, consumer, time) else (i, c, t))
         (filter (\<lambda>(i, _). i \<in> set ids \<longrightarrow> i \<in> set (map fst ms)) (sx_pending s))\<rparr>))"

definition xautoclaim :: "bus_env \<Rightarrow> string \<Rightarrow> string \<Rightarrow> nat \<Rightarrow> (nat \<times> pydict option) list bio" where
  "xautoclaim env key consumer count = ebind (bus_call env) (\<lambda>time. ebind (egets (stream_at key)) (\<lambda>s.
     if \<not> sx_group s then eraise NoGroup
     else (case claim time consumer count s of (ms, s') \<Rightarrow> ebind (emodify (put_stream key s')) (\<lambda>_. eret ms))))"

section \<open>Publishing\<close>

definition is_stream_topic :: "string \<Rightarrow> bool" where
  "is_stream_topic t =
     (let s = (if t \<noteq> [] \<and> last t = CHR 0x0A then butlast t else t) in
      length s = 66 \<and> py_startswith s ''0x'' \<and>
      list_all (\<lambda>c. is_digit c \<or> (97 \<le> code c \<and> code c \<le> 102)) (drop 2 s))"

definition stream_key_for :: "pydict \<Rightarrow> string result" where
  "stream_key_for raw_log = (case parse_topics (dict_get ''topics'' (PyList []) raw_log) of
      [] \<Rightarrow> Inr (STREAM_PREFIX @ ''unknown'')
    | t # _ \<Rightarrow> rbind (py_lower_val t) (\<lambda>topic0.
        Inr (STREAM_PREFIX @ (if is_stream_topic topic0 then topic0 else ''unknown''))))"

definition check_stream_cap :: "string \<Rightarrow> string bio" where
  "check_stream_cap key = ebind (egets bu_known_stream_keys) (\<lambda>known.
     if key \<in> known then eret key
     else if card known \<ge> MAX_STREAMS then eret (STREAM_PREFIX @ ''unknown'')
     else ebind (emodify (\<lambda>b. b\<lparr>bu_known_stream_keys := insert key known\<rparr>)) (\<lambda>_. eret key))"

text \<open>
  At start-up the caches are new, and the keys found by a scan are all loaded, whatever their
  number; the scan itself is an argument.
\<close>

definition init_stream_keys :: "string list \<Rightarrow> bus \<Rightarrow> bus" where
  "init_stream_keys discovered b = b\<lparr>bu_known_stream_keys := bu_known_stream_keys b \<union> set discovered\<rparr>"

definition restarted :: "string list \<Rightarrow> bus \<Rightarrow> bus" where
  "restarted discovered b = init_stream_keys discovered (b\<lparr>bu_known_groups := {}, bu_known_stream_keys := {}\<rparr>)"

definition publish_event :: "bus_env \<Rightarrow> pydict \<Rightarrow> nat bio" where
  "publish_event env raw_log = ebind (elift (stream_key_for raw_log)) (\<lambda>k.
     ebind (check_stream_cap k) (\<lambda>key. xadd env key raw_log))"

text \<open>
  The pipeline of a batch is not a transaction: every \<open>XADD\<close> is tried, and the first
  failure is raised afterwards.
\<close>

fun first_failure :: "'a result list \<Rightarrow> 'a list result" where
  "first_failure [] = Inr []"
| "first_failure (r # rs) = rbind r (\<lambda>v. rbind (first_failure rs) (\<lambda>vs. Inr (v # vs)))"

definition publish_batch :: "bus_env \<Rightarrow> pydict list \<Rightarrow> nat list bio" where
  "publish_batch env raw_logs =
     ebind (efor raw_logs (\<lambda>l. ebind (elift (stream_key_for l)) check_stream_cap)) (\<lambda>keys.
     ebind (efor (zip keys raw_logs) (\<lambda>(k, l). etry (xadd env k l))) (\<lambda>results.
       elift (first_failure results)))"

section \<open>Consuming\<close>

definition ensure_consumer_group :: "bus_env \<Rightarrow> string \<Rightarrow> unit bio" where
  "ensure_consumer_group env key = ebind (egets (\<lambda>b. key \<in> bu_known_groups b)) (\<lambda>known.
     if known then eret ()
     else ebind (ecatch (xgroup_create env key) (\<lambda>e. if e = BusyGroup then eret () else eraise e)) (\<lambda>_.
       emodify (\<lambda>b. b\<lparr>bu_known_groups := insert key (bu_known_groups b)\<rparr>)))"

definition invalidate_group :: "string \<Rightarrow> unit bio" where
  "invalidate_group key = emodify (\<lambda>b. b\<lparr>bu_known_groups := bu_known_groups b - {key}\<rparr>)"

text \<open>Decoding what was read: a poison message is acknowledged and dropped.\<close>

fun decode_messages :: "bus_env \<Rightarrow> (string \<times> nat \<times> pydict option) list \<Rightarrow> message list bio" where
  "decode_messages env [] = eret []"
| "decode_messages env ((k, i, p) # ms) = (case p of
      None \<Rightarrow> ebind (xack env k [i]) (\<lambda>_. decode_messages env ms)
    | Some raw_log \<Rightarrow> ebind (decode_messages env ms) (\<lambda>rest. eret ((k, i, raw_log) # rest)))"

definition consume_events :: "bus_env \<Rightarrow> string list \<Rightarrow> string \<Rightarrow> nat \<Rightarrow> message list bio" where
  "consume_events env stream_keys consumer_name batch_size =
     ebind (efor stream_keys (ensure_consumer_group env)) (\<lambda>_.
     ebind (ecatch (xreadgroup env consumer_name stream_keys batch_size) (\<lambda>e.
       if e = NoGroup
       then ebind (efor stream_keys (\<lambda>k. ebind (invalidate_group k) (\<lambda>_. ensure_consumer_group env k))) (\<lambda>_.
         xreadgroup env consumer_name stream_keys batch_size)
       else eraise e)) (decode_messages env))"

definition ack_batch :: "bus_env \<Rightarrow> (string \<times> nat list) list \<Rightarrow> unit bio" where
  "ack_batch env ack_map = ebind (efor ack_map (\<lambda>(k, ids). xack env k ids)) (\<lambda>_. eret ())"

definition claim_stale :: "bus_env \<Rightarrow> string list \<Rightarrow> string \<Rightarrow> nat \<Rightarrow> message list bio" where
  "claim_stale env stream_keys consumer_name count =
     ebind (efor stream_keys (\<lambda>k. ebind (ensure_consumer_group env k) (\<lambda>_.
       ecatch (ebind (xautoclaim env k consumer_name count) (\<lambda>ms. decode_messages env (map (\<lambda>(i, p). (k, i, p)) ms)))
         (\<lambda>e. if e = NoGroup then ebind (invalidate_group k) (\<lambda>_. eret []) else eraise e)))) (\<lambda>ms. eret (concat ms))"

section \<open>Well-formed streams\<close>

definition stream_wf :: "xstream \<Rightarrow> bool" where
  "stream_wf s \<longleftrightarrow> sorted_wrt (<) (map fst (sx_entries s)) \<and> (\<forall>e \<in> set (sx_entries s). 0 < fst e \<and> fst e < sx_next s) \<and>
     sx_last s < sx_next s \<and> distinct (map fst (sx_pending s)) \<and> (\<forall>p \<in> set (sx_pending s). fst p \<le> sx_last s) \<and>
     (\<not> sx_group s \<longrightarrow> sx_pending s = [] \<and> sx_last s = 0)"

definition bus_inv :: "bus \<Rightarrow> bool" where
  "bus_inv b \<longleftrightarrow> (\<forall>k s. bu_streams b k = Some s \<longrightarrow> stream_wf s) \<and>
     finite (bu_known_stream_keys b)"

lemma wf_empty [simp]: "stream_wf empty_stream"
  by (simp add: stream_wf_def empty_stream_def)

lemma wf_stream_at: "bus_inv b \<Longrightarrow> stream_wf (stream_at k b)"
  by (simp add: bus_inv_def stream_at_def split: option.split)

lemma inv_put_stream: "bus_inv b \<Longrightarrow> stream_wf s \<Longrightarrow> bus_inv (put_stream k s b)"
  by (simp add: bus_inv_def put_stream_def)

lemma wf_append:
  assumes "stream_wf s"
  shows "stream_wf (snd (append_entry trim p s))"
proof -
  let ?es = "sx_entries s @ [(sx_next s, p)]"
  have "sorted_wrt (<) (map fst ?es)" "\<forall>e \<in> set ?es. 0 < fst e \<and> fst e < Suc (sx_next s)"
    using assms by (auto simp: stream_wf_def sorted_wrt_append)
  then have "sorted_wrt (<) (map fst (drop n ?es))" "\<forall>e \<in> set (drop n ?es). 0 < fst e \<and> fst e < Suc (sx_next s)" for n
    using sorted_wrt_drop[of "(<)" "map fst ?es" n, unfolded drop_map] set_drop_subset[of n ?es] by blast+
  then show ?thesis using assms by (auto simp: stream_wf_def append_entry_def Let_def)
qed

lemma undelivered_sorted:
  "stream_wf s \<Longrightarrow> sorted_wrt (<) (map fst (undelivered s)) \<and> (\<forall>m \<in> set (undelivered s). sx_last s < fst m \<and> fst m < sx_next s)"
  by (auto simp: stream_wf_def undelivered_def sorted_wrt_map intro: sorted_wrt_filter)

lemma sorted_last: "sorted_wrt (<) (map fst ms) \<Longrightarrow> m \<in> set ms \<Longrightarrow> fst m \<le> (fst (last ms) :: nat)"
  by (induction ms) (auto intro: less_imp_le)

lemma wf_deliver:
  assumes "stream_wf s" and "sx_group s"
  shows "stream_wf (snd (deliver time c n s))"
proof -
  let ?ms = "take n (undelivered s)"
  have so: "sorted_wrt (<) (map fst ?ms)" and el: "\<forall>m \<in> set ?ms. sx_last s < fst m \<and> fst m < sx_next s"
    using undelivered_sorted[OF assms(1)] sorted_wrt_take[of "(<)" "map fst (undelivered s)" n, unfolded take_map]
      set_take_subset[of n "undelivered s"] by blast+
  note le = sorted_last[OF so]
  have f: "map fst (map (\<lambda>(i, _). (i, c, time)) ?ms) = map fst ?ms" by (simp add: case_prod_beta)
  have d: "distinct (map fst ?ms)" using so by (simp add: strict_sorted_iff)
  show ?thesis
  proof (cases "?ms = []")
    case False
    then have last: "last ?ms \<in> set ?ms" by simp
    have "distinct (map fst (sx_pending s @ map (\<lambda>(i, _). (i, c, time)) ?ms))"
      using assms(1) d el unfolding map_append f by (fastforce simp: stream_wf_def)
    moreover have "\<forall>p \<in> set (sx_pending s @ map (\<lambda>(i, _). (i, c, time)) ?ms). fst p \<le> fst (last ?ms)"
      using assms(1) el le last by (fastforce simp: stream_wf_def)
    ultimately show ?thesis using False assms el last by (simp add: deliver_def Let_def stream_wf_def)
  qed (use assms in \<open>simp add: deliver_def Let_def\<close>)
qed

lemma wf_pending:
  assumes "stream_wf s" and "map fst ps = map fst (filter P (sx_pending s))"
  shows "stream_wf (s\<lparr>sx_pending := ps\<rparr>)"
proof -
  have "fst ` set ps \<subseteq> fst ` set (sx_pending s)" using arg_cong[OF assms(2), of set] by auto
  then have "\<forall>p \<in> set ps. fst p \<le> sx_last s" using assms(1) by (fastforce simp: stream_wf_def)
  moreover have "distinct (map fst ps)"
    unfolding assms(2) using assms(1) by (simp add: stream_wf_def distinct_map_filter)
  moreover have "\<not> sx_group s \<longrightarrow> ps = []" using assms by (auto simp: stream_wf_def)
  ultimately show ?thesis using assms(1) by (simp add: stream_wf_def)
qed

lemma wf_ack: "stream_wf s \<Longrightarrow> stream_wf (ack_ids ids s)"
  unfolding ack_ids_def by (erule wf_pending) (rule refl)

lemma wf_claim:
  assumes "stream_wf s"
  shows "stream_wf (snd (claim time c n s))"
proof -
  have m: "map fst (map (\<lambda>(i, c', t). if i \<in> A then (i, c, time) else (i, c', t)) xs) = map fst xs" for A :: "nat set" and xs
    by (induction xs) auto
  show ?thesis unfolding claim_def Let_def snd_conv by (rule wf_pending[OF assms m])
qed

section \<open>Every operation keeps the streams well formed\<close>

lemma inv_basic [simp]:
  "bus_inv (b\<lparr>bu_tick := n\<rparr>) = bus_inv b" "bus_inv (b\<lparr>bu_known_groups := g\<rparr>) = bus_inv b"
  "bus_inv (b\<lparr>bu_world := w\<rparr>) = bus_inv b"
  by (simp_all add: bus_inv_def)

lemma keeps_bus_call [keeps_intros]: "keeps bus_inv (bus_call env)"
  unfolding bus_call_def by (intro keeps_intros) simp

lemma stream_at_tick [simp]: "stream_at k (b\<lparr>bu_tick := n\<rparr>) = stream_at k b"
  by (simp add: stream_at_def)

lemma run_bus_call [simp]:
  "run (bus_call env) b = (case be_fault env (bu_tick b) of Some e \<Rightarrow> Inl e | None \<Rightarrow> Inr (be_clock env (bu_tick b)),
     b\<lparr>bu_tick := Suc (bu_tick b)\<rparr>)"
  by (simp add: bus_call_def split: option.split)

lemma append_id [simp]: "fst (append_entry trim p s) = sx_next s"
  by (simp add: append_entry_def Let_def)

lemma run_xadd:
  "run (xadd env k p) b = (case be_fault env (bu_tick b) of
      Some e \<Rightarrow> (Inl e, b\<lparr>bu_tick := Suc (bu_tick b)\<rparr>)
    | None \<Rightarrow> (Inr (sx_next (stream_at k b)),
        put_stream k (snd (append_entry (be_trim env (bu_tick b)) (Some p) (stream_at k b))) (b\<lparr>bu_tick := Suc (bu_tick b)\<rparr>)))"
  by (simp add: xadd_def case_prod_beta split: option.split)

lemma keeps_xadd [keeps_intros]: "keeps bus_inv (xadd env k p)"
  by (rule keepsI) (auto simp: run_xadd intro!: inv_put_stream wf_append wf_stream_at split: option.split)

lemma keeps_xgroup_create [keeps_intros]: "keeps bus_inv (xgroup_create env k)"
proof -
  have "stream_wf s \<Longrightarrow> \<not> sx_group s \<Longrightarrow> stream_wf (s\<lparr>sx_group := True, sx_last := 0\<rparr>)" for s
    by (simp add: stream_wf_def)
  then show ?thesis
    by (intro keepsI) (auto simp: xgroup_create_def intro!: inv_put_stream wf_stream_at split: option.split)
qed

lemma inv_deliver_all:
  "bus_inv b \<Longrightarrow> list_all (\<lambda>k. sx_group (stream_at k b)) ks \<Longrightarrow> bus_inv (snd (deliver_all time c n ks b))"
proof (induction ks arbitrary: b)
  case (Cons k ks)
  let ?s = "snd (deliver time c n (stream_at k b))"
  have "bus_inv (put_stream k ?s b)"
    using Cons.prems by (intro inv_put_stream wf_deliver wf_stream_at) auto
  moreover have "list_all (\<lambda>k'. sx_group (stream_at k' (put_stream k ?s b))) ks"
    using Cons.prems by (auto simp: list_all_iff put_stream_def stream_at_def deliver_def Let_def split: if_splits option.splits)
  ultimately show ?case using Cons.IH by (simp add: case_prod_beta)
qed simp

lemma keeps_xreadgroup [keeps_intros]: "keeps bus_inv (xreadgroup env c ks n)"
  using inv_deliver_all by (intro keepsI) (auto simp: xreadgroup_def case_prod_beta list_all_iff split: option.splits)

lemma keeps_xack [keeps_intros]: "keeps bus_inv (xack env k ids)"
  by (rule keepsI) (auto simp: xack_def bus_inv_def intro!: inv_put_stream[unfolded bus_inv_def] wf_ack split: option.splits)

lemma keeps_xautoclaim [keeps_intros]: "keeps bus_inv (xautoclaim env k c n)"
  by (rule keepsI) (auto simp: xautoclaim_def case_prod_beta intro!: inv_put_stream wf_claim wf_stream_at split: option.splits)

lemma keeps_check_stream_cap [keeps_intros]: "keeps bus_inv (check_stream_cap k)"
  by (rule keepsI) (auto simp: check_stream_cap_def bus_inv_def)

lemma keeps_ensure [keeps_intros]: "keeps bus_inv (ensure_consumer_group env k)"
  unfolding ensure_consumer_group_def by (intro keeps_intros) simp

lemma keeps_invalidate [keeps_intros]: "keeps bus_inv (invalidate_group k)"
  unfolding invalidate_group_def by (intro keeps_intros) simp

lemma keeps_decode_messages [keeps_intros]: "keeps bus_inv (decode_messages env ms)"
  by (induction env ms rule: decode_messages.induct) (auto intro!: keeps_intros split: option.split)

lemma keeps_bus_operations [keeps_intros]:
  "keeps bus_inv (publish_event env l)" "keeps bus_inv (publish_batch env ls)" "keeps bus_inv (consume_events env ks c n)"
  "keeps bus_inv (ack_batch env am)" "keeps bus_inv (claim_stale env ks c n)"
  unfolding publish_event_def publish_batch_def consume_events_def ack_batch_def claim_stale_def
  by (intro keeps_intros)+

section \<open>What is published is consumed, in order\<close>

definition stream_append :: "pydict list \<Rightarrow> xstream \<Rightarrow> xstream" where
  "stream_append ls s = s\<lparr>sx_entries := sx_entries s @ zip [sx_next s..<sx_next s + length ls] (map Some ls),
     sx_next := sx_next s + length ls\<rparr>"

lemma publish_keys:
  assumes "\<forall>l \<in> set ls. stream_key_for l = Inr k"
    and "k \<in> bu_known_stream_keys b \<or> card (bu_known_stream_keys b) < MAX_STREAMS"
  shows "\<exists>b'. run (efor ls (\<lambda>l. ebind (elift (stream_key_for l)) check_stream_cap)) b = (Inr (replicate (length ls) k), b') \<and>
    bu_streams b' = bu_streams b \<and> bu_known_groups b' = bu_known_groups b"
  using assms
proof (induction ls arbitrary: b)
  case (Cons l ls)
  obtain b1 where b1: "run (check_stream_cap k) b = (Inr k, b1)" "bu_streams b1 = bu_streams b"
    "bu_known_groups b1 = bu_known_groups b" "k \<in> bu_known_stream_keys b1"
    using Cons.prems(2) by (cases "k \<in> bu_known_stream_keys b") (auto simp: check_stream_cap_def)
  from Cons.IH[of b1] Cons.prems(1) b1 show ?case by auto
qed simp

lemma publish_entries:
  assumes "\<forall>n. be_fault env n = None" and "length (sx_entries (stream_at k b)) + length ls \<le> MAX_STREAM_LEN"
  shows "\<exists>b'. run (efor (zip (replicate (length ls) k) ls) (\<lambda>(k, l). etry (xadd env k l))) b =
      (Inr (map Inr [sx_next (stream_at k b)..<sx_next (stream_at k b) + length ls]), b') \<and>
    stream_at k b' = stream_append ls (stream_at k b) \<and> bu_known_groups b' = bu_known_groups b"
  using assms(2)
proof (induction ls arbitrary: b)
  case Nil
  then show ?case by (simp add: stream_append_def)
next
  case (Cons l ls)
  let ?s = "stream_at k b" and ?i = "sx_next (stream_at k b)"
  let ?b = "put_stream k (snd (append_entry (be_trim env (bu_tick b)) (Some l) ?s)) (b\<lparr>bu_tick := Suc (bu_tick b)\<rparr>)"
  have x: "run (xadd env k l) b = (Inr ?i, ?b)" using assms(1) by (simp add: run_xadd)
  have s: "stream_at k ?b = stream_append [l] ?s"
    using Cons.prems by (simp add: put_stream_def stream_at_def append_entry_def stream_append_def Let_def)
  have "length (sx_entries (stream_at k ?b)) + length ls \<le> MAX_STREAM_LEN"
    using Cons.prems by (simp add: s stream_append_def)
  moreover have "sx_next (stream_at k ?b) = Suc ?i" by (simp add: s stream_append_def)
  moreover have "bu_known_groups ?b = bu_known_groups b" by (simp add: put_stream_def)
  ultimately obtain b' where b': "run (efor (zip (replicate (length ls) k) ls) (\<lambda>(k, l). etry (xadd env k l))) ?b =
      (Inr (map Inr [Suc ?i..<Suc ?i + length ls]), b')"
    "stream_at k b' = stream_append ls (stream_append [l] ?s)" "bu_known_groups b' = bu_known_groups b"
    using Cons.IH[of ?b] s by auto
  have "stream_append ls (stream_append [l] ?s) = stream_append (l # ls) ?s"
    by (simp add: stream_append_def upt_conv_Cons del: upt_Suc)
  with b' x show ?case by (simp add: upt_conv_Cons del: upt_Suc)
qed

text \<open>The group of a stream exists, or the stream is as created.\<close>

lemma ensure_run:
  assumes "\<forall>n. be_fault env n = None" and "stream_wf (stream_at k b)" and "k \<in> bu_known_groups b \<longrightarrow> sx_group (stream_at k b)"
  shows "\<exists>b'. run (ensure_consumer_group env k) b = (Inr (), b') \<and> stream_at k b' = (stream_at k b)\<lparr>sx_group := True\<rparr>"
proof (cases "sx_group (stream_at k b)")
  case True
  then have "(stream_at k b)\<lparr>sx_group := True\<rparr> = stream_at k b" by simp
  with True assms(1) show ?thesis
    by (auto simp: ensure_consumer_group_def xgroup_create_def BusyGroup_def stream_at_def)
next
  case False
  then have "(stream_at k b)\<lparr>sx_group := True, sx_last := 0\<rparr> = (stream_at k b)\<lparr>sx_group := True\<rparr>"
    using assms(2) by (simp add: stream_wf_def)
  with False assms(1,3) show ?thesis
    by (auto simp: ensure_consumer_group_def xgroup_create_def put_stream_def stream_at_def[of k "_ \<lparr>bu_known_groups := _\<rparr>"]
        split: option.split)
qed

lemma decode_all: "run (decode_messages env (map (\<lambda>(i, l). (k, i, Some l)) ms)) b = (Inr (map (\<lambda>(i, l). (k, i, l)) ms), b)"
  by (induction ms) auto

lemma undelivered_append:
  assumes "stream_wf s" and "undelivered s = []"
  shows "undelivered (stream_append ls s) = zip [sx_next s..<sx_next s + length ls] (map Some ls)"
proof -
  have "sx_last s < i" if "(i, p) \<in> set (zip [sx_next s..<sx_next s + length ls] (map Some ls))" for i p
    using assms(1) set_zip_leftD[OF that] by (simp add: stream_wf_def)
  then have "filter (\<lambda>(i, _). sx_last s < i) (zip [sx_next s..<sx_next s + length ls] (map Some ls)) =
      zip [sx_next s..<sx_next s + length ls] (map Some ls)" by (auto simp: filter_id_conv)
  with assms(2) show ?thesis by (simp add: undelivered_def stream_append_def)
qed

lemma consume_run:
  assumes "\<forall>n. be_fault env n = None" and "stream_wf (stream_at k b)" and "k \<in> bu_known_groups b \<longrightarrow> sx_group (stream_at k b)"
    and "undelivered (stream_at k b) = map (\<lambda>(i, l). (i, Some l)) ms" and "length ms \<le> n"
  shows "\<exists>b'. run (consume_events env [k] c n) b = (Inr (map (\<lambda>(i, l). (k, i, l)) ms), b') \<and>
    (\<forall>(i, l) \<in> set ms. \<exists>t. (i, c, t) \<in> set (sx_pending (stream_at k b')))"
proof -
  obtain b1 where b1: "run (ensure_consumer_group env k) b = (Inr (), b1)" "stream_at k b1 = (stream_at k b)\<lparr>sx_group := True\<rparr>"
    using ensure_run[OF assms(1-3)] by blast
  let ?t = "be_clock env (bu_tick b1)" and ?b = "b1\<lparr>bu_tick := Suc (bu_tick b1)\<rparr>"
  have u: "undelivered (stream_at k b1) = map (\<lambda>(i, l). (i, Some l)) ms" using assms(4) by (simp add: b1 undelivered_def)
  let ?ms = "map (\<lambda>(i, l). (i, Some l)) ms"
  obtain s where d: "deliver ?t c n (stream_at k b1) = (?ms, s)" "\<forall>(i, l) \<in> set ms. (i, c, ?t) \<in> set (sx_pending s)"
    using u assms(5) by (force simp: deliver_def Let_def)
  have "sx_group (stream_at k b1)" by (simp add: b1)
  then have x: "run (xreadgroup env c [k] n) b1 = (Inr (map (\<lambda>(i, p). (k, i, p)) ?ms), put_stream k s ?b)"
    using assms(1) d by (simp add: xreadgroup_def)
  have m: "map (\<lambda>(i, p). (k, i, p)) ?ms = map (\<lambda>(i, l). (k, i, Some l)) ms" by (simp add: case_prod_beta)
  have "run (consume_events env [k] c n) b = (Inr (map (\<lambda>(i, l). (k, i, l)) ms), put_stream k s ?b)"
    using b1(1) x[unfolded m] decode_all by (simp add: consume_events_def)
  then show ?thesis using d(2) by (auto simp: put_stream_def stream_at_def)
qed

text \<open>
  C32. What is published on a stream is consumed from it: when nothing else is waiting,
  a batch of logs of one signature is returned by the next read of the group,
  complete, in order and under the ids that publishing returned, and every message
  is then pending for the reader until it is acknowledged.
\<close>

theorem publish_then_consume:
  assumes "\<forall>n. be_fault env n = None" and "bus_inv b" and "\<forall>l \<in> set ls. stream_key_for l = Inr k"
    and "k \<in> bu_known_stream_keys b \<or> card (bu_known_stream_keys b) < MAX_STREAMS"
    and "k \<in> bu_known_groups b \<longrightarrow> sx_group (stream_at k b)" and "undelivered (stream_at k b) = []"
    and "length (sx_entries (stream_at k b)) + length ls \<le> MAX_STREAM_LEN" and "length ls \<le> n"
  shows "\<exists>ids b1 b2. run (publish_batch env ls) b = (Inr ids, b1) \<and> length ids = length ls \<and>
    run (consume_events env [k] c n) b1 = (Inr (zip (replicate (length ls) k) (zip ids ls)), b2) \<and>
    (\<forall>i \<in> set ids. \<exists>t. (i, c, t) \<in> set (sx_pending (stream_at k b2)))"
proof -
  let ?i = "sx_next (stream_at k b)"
  let ?ids = "[?i..<?i + length ls]"
  obtain b0 where b0: "run (efor ls (\<lambda>l. ebind (elift (stream_key_for l)) check_stream_cap)) b = (Inr (replicate (length ls) k), b0)"
    "bu_streams b0 = bu_streams b" "bu_known_groups b0 = bu_known_groups b" using publish_keys[OF assms(3,4)] by blast
  have s0: "stream_at k b0 = stream_at k b" using b0(2) by (simp add: stream_at_def)
  obtain b1 where b1: "run (efor (zip (replicate (length ls) k) ls) (\<lambda>(k, l). etry (xadd env k l))) b0 = (Inr (map Inr ?ids), b1)"
    "stream_at k b1 = stream_append ls (stream_at k b)" "bu_known_groups b1 = bu_known_groups b0"
    using publish_entries[OF assms(1), of k b0 ls] assms(7) s0 by auto
  have ff: "first_failure (map Inr xs) = Inr xs" for xs :: "nat list" by (induction xs) auto
  have p: "run (publish_batch env ls) b = (Inr ?ids, b1)" using b0(1) b1(1) by (simp add: publish_batch_def ff)
  have "bus_inv b1" using keepsD[OF keeps_bus_operations(2) assms(2), of env ls] p by simp
  then have wf: "stream_wf (stream_at k b1)" by (rule wf_stream_at)
  have "undelivered (stream_at k b1) = map (\<lambda>(i, l). (i, Some l)) (zip ?ids ls)"
    using undelivered_append[OF wf_stream_at[OF assms(2)] assms(6)] b1(2) by (simp add: zip_map2)
  from consume_run[OF assms(1) wf _ this, of n c] assms(5,8) b0(3) b1 s0
  obtain b2 where c: "run (consume_events env [k] c n) b1 = (Inr (map (\<lambda>(i, l). (k, i, l)) (zip ?ids ls)), b2)"
    and d: "\<forall>(i, l) \<in> set (zip ?ids ls). \<exists>t. (i, c, t) \<in> set (sx_pending (stream_at k b2))"
    by (auto simp: stream_append_def)
  have m: "map (\<lambda>(i, l). (k, i, l)) (zip ?ids ls) = zip (replicate (length ls) k) (zip ?ids ls)"
    by (simp add: zip_replicate1 case_prod_beta)
  have z: "\<exists>l. (i, l) \<in> set (zip ?ids ls)" if "i \<in> set ?ids" for i
    using that by (metis in_set_impl_in_set_zip1 length_upt add_diff_cancel_left')
  have "\<forall>i \<in> set ?ids. \<exists>t. (i, c, t) \<in> set (sx_pending (stream_at k b2))" using d z by blast
  with p c show ?thesis unfolding m by (intro exI[of _ ?ids] exI[of _ b1] exI[of _ b2]) simp
qed

definition calm_bus :: bus_env where
  "calm_bus = \<lparr>be_clock = (\<lambda>n. of_nat n), be_fault = (\<lambda>_. None), be_trim = (\<lambda>_. 0)\<rparr>"

definition empty_bus :: bus where
  "empty_bus = \<lparr>bu_tick = 0, bu_streams = (\<lambda>_. None), bu_known_groups = {}, bu_known_stream_keys = {}, bu_world = empty_world\<rparr>"

lemma empty_bus_inv: "bus_inv empty_bus"
  by (simp add: bus_inv_def empty_bus_def)

definition sample_logs :: "pydict list" where
  "sample_logs = [[(''log_index'', PyInt 1)], [(''log_index'', PyInt 2)]]"

theorem publish_then_consume_witness:
  "\<exists>ids b1 b2. run (publish_batch calm_bus sample_logs) empty_bus = (Inr ids, b1) \<and> length ids = length sample_logs \<and>
     run (consume_events calm_bus [STREAM_PREFIX @ ''unknown''] ''worker-0'' 50) b1 =
       (Inr (zip (replicate (length sample_logs) (STREAM_PREFIX @ ''unknown'')) (zip ids sample_logs)), b2)"
proof -
  let ?k = "STREAM_PREFIX @ ''unknown''"
  have "\<forall>n. be_fault calm_bus n = None" by (simp add: calm_bus_def)
  moreover have "\<forall>l \<in> set sample_logs. stream_key_for l = Inr ?k"
    by (simp add: sample_logs_def stream_key_for_def dict_get_def parse_topics_def)
  moreover have "card (bu_known_stream_keys empty_bus) < MAX_STREAMS" "?k \<notin> bu_known_groups empty_bus"
    by (simp_all add: empty_bus_def MAX_STREAMS_def)
  moreover have "stream_at ?k empty_bus = empty_stream" by (simp add: stream_at_def empty_bus_def)
  moreover have "undelivered empty_stream = []" "length sample_logs \<le> 50"
    "length (sx_entries empty_stream) + length sample_logs \<le> MAX_STREAM_LEN"
    by (simp_all add: undelivered_def empty_stream_def sample_logs_def MAX_STREAM_LEN_def)
  ultimately show ?thesis
    using publish_then_consume[of calm_bus empty_bus sample_logs ?k 50 "''worker-0''"] empty_bus_inv by metis
qed

end
