(* ===== verification/Workers.thy ===== *)
theory Workers
  imports Event_Bus
begin

text \<open>
  \<open>ingestion/trigger_worker.py\<close>: workers that feed the streams into the event processor,
  count failures and dead-letter what keeps failing, and the pool that partitions the
  streams over them; \<open>ingestion/dlq_consumer.py\<close>, which reads the dead letters. The
  processing of a log is an argument, an action of which a failure or a timeout is an
  exception. The tasks of the event loop and the trigger index are left out.
\<close>

section \<open>A worker\<close>

record worker =
  wk_id :: string
  wk_stream_keys :: "string list"
  wk_processed :: int
  wk_errors :: int
  wk_failure_counts :: "string \<times> nat \<Rightarrow> (int \<times> rat) option"

definition MAX_RETRIES :: int where "MAX_RETRIES = 5"
definition DLQ_STREAM :: string where "DLQ_STREAM = ''tripwire:dlq''"
definition FAILURE_COUNTS_MAX_AGE :: rat where "FAILURE_COUNTS_MAX_AGE = 300"

definition bus_now :: "bus_env \<Rightarrow> rat bio" where
  "bus_now env = ebind (egets bu_tick) (\<lambda>n. ebind (emodify (\<lambda>b. b\<lparr>bu_tick := Suc n\<rparr>)) (\<lambda>_. eret (be_clock env n)))"

definition dlq_payload :: "string \<Rightarrow> nat \<Rightarrow> pydict \<Rightarrow> int \<Rightarrow> rat \<Rightarrow> pydict" where
  "dlq_payload stream_key message_id raw_log error_count time =
     [(''source_stream'', PyStr stream_key), (''source_message_id'', PyInt (int message_id)), (''raw_log'', PyDict raw_log),
      (''error_count'', PyInt error_count), (''timestamp'', PyFloat (DFin time) [])]"

definition send_to_dlq :: "bus_env \<Rightarrow> string \<Rightarrow> nat \<Rightarrow> pydict \<Rightarrow> int \<Rightarrow> bool bio" where
  "send_to_dlq env stream_key message_id raw_log error_count =
     ebind (etry (ebind (bus_now env) (\<lambda>time. xadd env DLQ_STREAM (dlq_payload stream_key message_id raw_log error_count time))))
       (\<lambda>r. eret (is_ok r))"

text \<open>One message: the worker afterwards, and whether the message is to be acknowledged.\<close>

definition handle_message ::
  "bus_env \<Rightarrow> (pydict \<Rightarrow> unit bio) \<Rightarrow> worker \<Rightarrow> message \<Rightarrow> (worker \<times> bool) bio" where
  "handle_message env process wk m = (case m of (stream_key, message_id, raw_log) \<Rightarrow>
     let fail_key = (stream_key, message_id) in
     ebind (etry (process raw_log)) (\<lambda>r. case r of
         Inr _ \<Rightarrow> eret (wk\<lparr>wk_processed := wk_processed wk + 1,
           wk_failure_counts := (wk_failure_counts wk)(fail_key := None)\<rparr>, True)
       | Inl _ \<Rightarrow>
           ebind (bus_now env) (\<lambda>time.
           let new_count = (case wk_failure_counts wk fail_key of Some (n, _) \<Rightarrow> n | None \<Rightarrow> 0) + 1;
               wk' = wk\<lparr>wk_errors := wk_errors wk + 1,
                 wk_failure_counts := (wk_failure_counts wk)(fail_key \<mapsto> (new_count, time))\<rparr> in
           if new_count \<ge> MAX_RETRIES
           then ebind (send_to_dlq env stream_key message_id raw_log new_count) (\<lambda>dlq_ok.
             eret (if dlq_ok then (wk'\<lparr>wk_failure_counts := (wk_failure_counts wk')(fail_key := None)\<rparr>, True)
                   else (wk', False)))
           else eret (wk', False))))"

fun handle_messages ::
  "bus_env \<Rightarrow> (pydict \<Rightarrow> unit bio) \<Rightarrow> worker \<Rightarrow> message list \<Rightarrow> (worker \<times> (string \<times> nat) list) bio" where
  "handle_messages env process wk [] = eret (wk, [])"
| "handle_messages env process wk (m # ms) =
     ebind (handle_message env process wk m) (\<lambda>(wk', ack).
     ebind (handle_messages env process wk' ms) (\<lambda>(wk'', acks).
       eret (wk'', (if ack then [(fst m, fst (snd m))] else []) @ acks)))"

definition group_acks :: "(string \<times> nat) list \<Rightarrow> (string \<times> nat list) list" where
  "group_acks acks = map (\<lambda>k. (k, map snd (filter (\<lambda>(k', _). k' = k) acks))) (remdups (map fst acks))"

definition cleanup_failure_counts :: "rat \<Rightarrow> worker \<Rightarrow> worker" where
  "cleanup_failure_counts time wk = wk\<lparr>wk_failure_counts := (\<lambda>k. case wk_failure_counts wk k of
      Some (n, t) \<Rightarrow> if time - t > FAILURE_COUNTS_MAX_AGE then None else Some (n, t)
    | None \<Rightarrow> None)\<rparr>"

text \<open>
  One round of the loop. A failed read ends the round (the loop then backs off);
  stale messages are claimed in every tenth round and the counts cleaned in every
  hundredth.
\<close>

definition read_round :: "bus_env \<Rightarrow> nat \<Rightarrow> worker \<Rightarrow> (worker \<times> message list) option bio" where
  "read_round env iteration wk =
     ebind (etry (consume_events env (wk_stream_keys wk) (wk_id wk) 50)) (\<lambda>r. case r of
         Inl _ \<Rightarrow> eret None
       | Inr batch \<Rightarrow>
           ebind (if iteration mod 10 = 0
                  then ebind (etry (claim_stale env (wk_stream_keys wk) (wk_id wk) 10)) (\<lambda>s.
                    eret (case s of Inr ms \<Rightarrow> ms | Inl _ \<Rightarrow> []))
                  else eret []) (\<lambda>stale.
           ebind (if iteration mod 100 = 0 then ebind (bus_now env) (\<lambda>time. eret (cleanup_failure_counts time wk))
                  else eret wk) (\<lambda>wk1.
             eret (Some (wk1, batch @ stale)))))"

definition worker_round :: "bus_env \<Rightarrow> (pydict \<Rightarrow> unit bio) \<Rightarrow> nat \<Rightarrow> worker \<Rightarrow> worker bio" where
  "worker_round env process iteration wk =
     ebind (read_round env iteration wk) (\<lambda>r. case r of
         None \<Rightarrow> eret wk
       | Some (wk1, messages) \<Rightarrow>
           ebind (handle_messages env process wk1 messages) (\<lambda>(wk2, acks).
           ebind (if acks = [] then eret () else ebind (etry (ack_batch env (group_acks acks))) (\<lambda>_. eret ())) (\<lambda>_.
             eret wk2)))"

section \<open>The pool\<close>

text \<open>Round robin over \<open>n\<close> workers, of the streams in sorted order, at most \<open>MAX_STREAMS\<close> of them.\<close>

definition partition_streams :: "nat \<Rightarrow> string list \<Rightarrow> string list list" where
  "partition_streams n keys = map (\<lambda>w. map snd (filter (\<lambda>(i, _). i mod n = w) (enumerate 0 keys))) [0..<n]"

definition MAX_STREAMS_PER_WORKER :: nat where "MAX_STREAMS_PER_WORKER = 100"

text \<open>The first worker with the fewest streams.\<close>

fun least_loaded :: "worker list \<Rightarrow> worker option" where
  "least_loaded [] = None"
| "least_loaded (w # ws) = (case least_loaded ws of
      Some v \<Rightarrow> if length (wk_stream_keys v) < length (wk_stream_keys w) then Some v else Some w
    | None \<Rightarrow> Some w)"

fun assign_first :: "nat \<Rightarrow> string \<Rightarrow> worker list \<Rightarrow> worker list" where
  "assign_first n key [] = []"
| "assign_first n key (w # ws) =
     (if length (wk_stream_keys w) = n then w\<lparr>wk_stream_keys := wk_stream_keys w @ [key]\<rparr> # ws
      else w # assign_first n key ws)"

text \<open>
  The assignment of \<open>add_stream\<close>; it has asked for the consumer group of the stream before
  (\<open>ensure_consumer_group\<close>), whose failure it ignores.
\<close>

definition add_stream :: "string \<Rightarrow> worker list \<Rightarrow> worker list" where
  "add_stream key ws = (case least_loaded ws of
      None \<Rightarrow> ws
    | Some w \<Rightarrow> if length (wk_stream_keys w) \<ge> MAX_STREAMS_PER_WORKER then ws
               else assign_first (length (wk_stream_keys w)) key ws)"

text \<open>One scan of the discovery loop: new keys in sorted order, until the cap of known streams.\<close>

fun discover :: "string list \<Rightarrow> string set \<Rightarrow> worker list \<Rightarrow> string set \<times> worker list" where
  "discover [] known ws = (known, ws)"
| "discover (k # ks) known ws =
     (if card known \<ge> MAX_STREAMS then (known, ws) else discover ks (insert k known) (add_stream k ws))"

definition restart_delay :: "int \<Rightarrow> rat \<Rightarrow> rat \<Rightarrow> int \<times> rat" where
  "restart_delay restart_count last_restart time =
     (let n = (if time - last_restart > 300 then 0 else restart_count) + 1 in (n, min (2 * 2 ^ nat (n - 1)) 120))"

section \<open>The dead-letter consumer\<close>

record dlq_consumer =
  dc_last_id :: nat
  dc_total_processed :: nat
  dc_trims :: nat

definition BATCH_SIZE :: nat where "BATCH_SIZE = 50"
definition TRIM_THRESHOLD :: nat where "TRIM_THRESHOLD = 100"

text \<open>
  One poll over the stream as read: \<open>XREAD\<close> returns at most a batch of the entries after
  the last one seen. Alerts are sent for each and never raise. \<open>dc_trims\<close> counts the trims.
\<close>

definition dlq_consumer_poll :: "(nat \<times> pydict option) list \<Rightarrow> dlq_consumer \<Rightarrow> nat list \<times> dlq_consumer" where
  "dlq_consumer_poll entries dc =
     (let ms = take BATCH_SIZE (filter (\<lambda>(i, _). dc_last_id dc < i) entries); processed = map fst ms in
      (processed, dc\<lparr>dc_last_id := (if ms = [] then dc_last_id dc else last processed),
         dc_total_processed := dc_total_processed dc + length processed,
         dc_trims := dc_trims dc + (if length processed \<ge> TRIM_THRESHOLD then 1 else 0)\<rparr>))"

end
