(* ===== verification/Worker_Props.thy ===== *)
theory Worker_Props
  imports Workers "HOL-Library.Multiset"
begin

text \<open>Properties of the workers, the pool and the dead-letter consumer.\<close>

section \<open>Nothing is acknowledged without a reason\<close>

lemma run_bus_now [simp]: "run (bus_now env) b = (Inr (be_clock env (bu_tick b)), b\<lparr>bu_tick := Suc (bu_tick b)\<rparr>)"
  by (simp add: bus_now_def)




lemma stream_at_simps [simp]:
  "stream_at k (b\<lparr>bu_tick := n\<rparr>) = stream_at k b" "stream_at k (put_stream k s b) = s"
  by (simp_all add: stream_at_def put_stream_def)













definition idle_worker :: worker where
  "idle_worker = \<lparr>wk_id = ''worker-0'', wk_stream_keys = [''s''], wk_processed = 0, wk_errors = 0,
     wk_failure_counts = (\<lambda>_. None)\<rparr>"






section \<open>The pool\<close>

lemma enumerate_parts:
  assumes "0 < n"
  shows "mset (concat (map (\<lambda>w. map snd (filter (\<lambda>(i, _). i mod n = w) xs)) [0..<n])) = mset (map snd xs)"
proof (induction xs)
  case (Cons x xs)
  obtain i k where x: "x = (i, k)" by (cases x)
  have "mset (concat (map (\<lambda>w. map snd (filter (\<lambda>(i, _). i mod n = w) (x # xs))) ws)) =
      (\<Sum>w \<leftarrow> ws. if i mod n = w then {#k#} else {#}) +
      mset (concat (map (\<lambda>w. map snd (filter (\<lambda>(i, _). i mod n = w) xs)) ws))" for ws
    unfolding x by (induction ws) auto
  moreover have "(\<Sum>w \<leftarrow> [0..<n]. if i mod n = w then {#k#} else {#}) = {#k#}"
    using assms by (simp add: interv_sum_list_conv_sum_set_nat sum.delta)
  ultimately show ?case using Cons by (simp add: x)
next
  case Nil
  have "concat (map (\<lambda>w. []) ws) = []" for ws :: "nat list" by (induction ws) auto
  then show ?case by simp
qed

lemma residue_count:
  assumes "w < n"
  shows "length (filter (\<lambda>i. i mod n = w) [0..<L]) = L div n + (if w < L mod n then 1 else 0)"
  using assms by (induction L) (auto simp: mod_Suc div_Suc)

lemma partition_length:
  assumes "w < n"
  shows "length (partition_streams n keys ! w) = length keys div n + (if w < length keys mod n then 1 else 0)"
proof -
  have f: "length (filter (\<lambda>(i, _). i mod n = w) xs) = length (filter (\<lambda>i. i mod n = w) (map fst xs))" for xs :: "(nat \<times> string) list"
    by (induction xs) auto
  have "length (partition_streams n keys ! w) = length (filter (\<lambda>i. i mod n = w) (map fst (enumerate 0 keys)))"
    unfolding f[symmetric] using assms by (simp add: partition_streams_def)
  also have "map fst (enumerate 0 keys) = [0..<length keys]" by (simp add: enumerate_eq_zip)
  finally show ?thesis using residue_count[OF assms] by simp
qed

text \<open>
  The pool serves every stream exactly once and evenly: over \<open>n > 0\<close> workers, the
  parts together hold each stream as often as the list of streams does, and the sizes
  of any two parts differ by at most one.
\<close>

theorem partition_exact_and_balanced:
  assumes "0 < n"
  shows "length (partition_streams n keys) = n \<and> mset (concat (partition_streams n keys)) = mset keys \<and>
    (\<forall>v < n. \<forall>w < n. length (partition_streams n keys ! v) \<le> length (partition_streams n keys ! w) + 1)"
  using enumerate_parts[OF assms, of "enumerate 0 keys"] partition_length[of _ n keys]
  by (auto simp: partition_streams_def)

theorem partition_exact_and_balanced_witness:
  "partition_streams 2 [''a'', ''b'', ''c''] = [[''a'', ''c''], [''b'']] \<and>
   mset (concat (partition_streams 2 [''a'', ''b'', ''c''])) = mset [''a'', ''b'', ''c'']"
  using partition_exact_and_balanced[of 2 "[''a'', ''b'', ''c'']"] by (simp add: partition_streams_def upt_rec)

lemma least_loaded_None [simp]: "least_loaded ws = None \<longleftrightarrow> ws = []"
  by (cases ws) (auto split: option.splits)

lemma least_loaded_min:
  "least_loaded ws = Some w \<Longrightarrow> w \<in> set ws \<and> (\<forall>v \<in> set ws. length (wk_stream_keys w) \<le> length (wk_stream_keys v))"
proof (induction ws arbitrary: w)
  case (Cons x ws)
  show ?case
  proof (cases "least_loaded ws")
    case None
    with Cons.prems show ?thesis by simp
  next
    case (Some v)
    with Cons.prems Cons.IH[OF Some] show ?thesis by (auto split: if_splits)
  qed
qed simp

text \<open>
  When every worker has reached its limit, discovery forgets streams: the new
  stream is counted as known, so that no later scan looks at it again, but no worker
  gets it.
\<close>

theorem discovered_stream_dropped:
  assumes "\<forall>w \<in> set ws. MAX_STREAMS_PER_WORKER \<le> length (wk_stream_keys w)" and "card known < MAX_STREAMS"
  shows "discover [k] known ws = (insert k known, ws)"
  using assms least_loaded_min[of ws]
  by (auto simp: add_stream_def split: option.splits)

definition full_worker :: worker where
  "full_worker = idle_worker\<lparr>wk_stream_keys := replicate 100 ''s''\<rparr>"

theorem discovered_stream_dropped_witness:
  "discover [''k''] {''s''} [full_worker] = ({''k'', ''s''}, [full_worker])"
  using discovered_stream_dropped[of "[full_worker]" "{''s''}" "''k''"]
  by (simp add: full_worker_def MAX_STREAMS_PER_WORKER_def MAX_STREAMS_def)

text \<open>
  A crashed worker is restarted after 2 to 120 seconds: the delay doubles with
  each restart up to the maximum, and starts again at 2 after a stable period.
\<close>

theorem restart_delay_bounded:
  assumes "0 \<le> n"
  shows "2 \<le> snd (restart_delay n prev time) \<and> snd (restart_delay n prev time) \<le> 120 \<and>
    (time - prev > 300 \<longrightarrow> restart_delay n prev time = (1, 2)) \<and>
    (\<not> time - prev > 300 \<longrightarrow> restart_delay n prev time = (n + 1, min (2 * 2 ^ nat n) 120))"
proof -
  have "(1 :: rat) \<le> 2 ^ m" for m by simp
  then have "(2 :: rat) \<le> min (2 * 2 ^ m) 120" for m by simp
  with assms show ?thesis by (auto simp: restart_delay_def Let_def)
qed

theorem restart_delay_bounded_witness:
  "restart_delay 3 0 10 = (4, 16) \<and> 2 \<le> snd (restart_delay 3 0 10)"
  using restart_delay_bounded[of 3 0 10] by (simp add: eval_nat_numeral)

section \<open>Dead letters\<close>

fun dlq_polls :: "nat \<Rightarrow> (nat \<times> pydict option) list \<Rightarrow> dlq_consumer \<Rightarrow> nat list \<times> dlq_consumer" where
  "dlq_polls 0 entries dc = ([], dc)"
| "dlq_polls (Suc n) entries dc = (case dlq_consumer_poll entries dc of (ps, dc') \<Rightarrow>
     case dlq_polls n entries dc' of (qs, dc'') \<Rightarrow> (ps @ qs, dc''))"

lemma filter_after_take:
  assumes "sorted_wrt (<) xs" and "take n (filter (\<lambda>i. (l :: nat) < i) xs) = ys" and "ys \<noteq> []"
  shows "filter (\<lambda>i. last ys < i) xs = drop n (filter (\<lambda>i. l < i) xs)"
proof -
  let ?zs = "filter (\<lambda>i. l < i) xs"
  have so: "sorted_wrt (<) ?zs" using assms(1) by (rule sorted_wrt_filter)
  have sp: "?zs = ys @ drop n ?zs" using assms(2) append_take_drop_id[of n ?zs] by simp
  have "last ys \<in> set ?zs" using assms(2) last_in_set[OF assms(3)] by (metis in_set_takeD)
  then have "l < last ys" by simp
  then have "filter (\<lambda>i. last ys < i) xs = filter (\<lambda>i. last ys < i) ?zs"
    by (simp add: filter_filter) (metis (mono_tags, lifting) filter_cong less_trans)
  also have "\<dots> = filter (\<lambda>i. last ys < i) ys @ filter (\<lambda>i. last ys < i) (drop n ?zs)" by (subst sp) simp
  also have "filter (\<lambda>i. last ys < i) ys = []"
  proof -
    have "sorted_wrt (<) (butlast ys @ [last ys])" using so assms(3) by (subst (asm) sp) (simp add: sorted_wrt_append)
    then have "x \<le> last ys" if "x \<in> set (butlast ys @ [last ys])" for x using that by (auto simp: sorted_wrt_append)
    then show ?thesis using assms(3) by (auto simp: filter_empty_conv not_less)
  qed
  also have "filter (\<lambda>i. last ys < i) (drop n ?zs) = drop n ?zs"
    using so sp last_in_set[OF assms(3)] by (metis filter_True sorted_wrt_append)
  finally show ?thesis by simp
qed

lemma poll_ids:
  "dlq_consumer_poll entries dc =
    (let ps = take BATCH_SIZE (filter (\<lambda>i. dc_last_id dc < i) (map fst entries)) in
     (ps, dc\<lparr>dc_last_id := (if ps = [] then dc_last_id dc else last ps), dc_total_processed := dc_total_processed dc + length ps\<rparr>))"
proof -
  have m: "map fst (take n (filter (\<lambda>(i, _). l < i) xs)) = take n (filter (\<lambda>i. l < i) (map fst xs))"
    for n l and xs :: "(nat \<times> pydict option) list"
    by (simp add: filter_map take_map comp_def split_def)
  have t: "\<not> TRIM_THRESHOLD \<le> length (take BATCH_SIZE xs)" for xs :: "(nat \<times> pydict option) list"
    by (simp add: BATCH_SIZE_def TRIM_THRESHOLD_def)
  show ?thesis unfolding dlq_consumer_poll_def Let_def m[symmetric] length_map using t by simp
qed

text \<open>
  Dead letters are reported once each and never trimmed: \<open>n\<close> polls of a stream report
  its entries after the last one seen, each once and in order, fifty per poll; and no
  poll ever reaches the trimming threshold, which is twice the size of a batch.
\<close>

theorem dead_letters_reported_once:
  assumes "sorted_wrt (<) (map fst entries)" and "dlq_polls n entries dc = (ps, dc')"
  shows "ps = take (n * BATCH_SIZE) (filter (\<lambda>i. dc_last_id dc < i) (map fst entries)) \<and> dc_trims dc' = dc_trims dc"
  using assms(2)
proof (induction n arbitrary: dc ps)
  case (Suc n)
  let ?zs = "filter (\<lambda>i. dc_last_id dc < i) (map fst entries)"
  let ?ys = "take BATCH_SIZE ?zs"
  obtain qs where q: "dlq_polls n entries (snd (dlq_consumer_poll entries dc)) = (qs, dc')" "ps = ?ys @ qs"
    using Suc.prems by (auto simp: poll_ids Let_def split: prod.splits)
  have IH: "qs = take (n * BATCH_SIZE) (filter (\<lambda>i. dc_last_id (snd (dlq_consumer_poll entries dc)) < i) (map fst entries))"
    "dc_trims dc' = dc_trims dc" using Suc.IH[OF q(1)] by (simp_all add: poll_ids Let_def)
  have "filter (\<lambda>i. dc_last_id (snd (dlq_consumer_poll entries dc)) < i) (map fst entries) = drop BATCH_SIZE ?zs"
  proof (cases "?ys = []")
    case True
    then have "?zs = []" by (auto simp: BATCH_SIZE_def)
    with True show ?thesis by (simp add: poll_ids Let_def)
  next
    case False
    then show ?thesis using filter_after_take[OF assms(1) refl False] by (simp add: poll_ids Let_def)
  qed
  then show ?case using q(2) IH by (simp add: take_add[symmetric])
qed simp

theorem dead_letters_reported_once_witness:
  "\<exists>dc'. dlq_polls 2 [(3, None), (5, None)] \<lparr>dc_last_id = 3, dc_total_processed = 0, dc_trims = 0\<rparr> = ([5], dc') \<and> dc_trims dc' = 0"
proof -
  let ?dc = "\<lparr>dc_last_id = 3, dc_total_processed = 0, dc_trims = 0\<rparr>" and ?es = "[(3, None), (5, None)] :: (nat \<times> pydict option) list"
  obtain ps dc' where p: "dlq_polls 2 ?es ?dc = (ps, dc')" by fastforce
  from dead_letters_reported_once[OF _ p] p show ?thesis by (simp add: BATCH_SIZE_def)
qed

section \<open>Reachable states of the bus\<close>

text \<open>
  Publishers, workers and monitors act in any order, each in an environment of its
  own; the processing of a log may do anything that keeps the streams well formed.
\<close>

inductive bus_step :: "bus \<Rightarrow> bus \<Rightarrow> bool" where
  publish: "run (publish_event env l) b = (r, b') \<Longrightarrow> bus_step b b'"
| publish_many: "run (publish_batch env ls) b = (r, b') \<Longrightarrow> bus_step b b'"
| work: "(\<And>raw. keeps bus_inv (process raw)) \<Longrightarrow> run (worker_round env process n wk) b = (r, b') \<Longrightarrow> bus_step b b'"
| restart: "bus_step b (restarted discovered b)"

lemma keeps_bus_now [keeps_intros]: "keeps bus_inv (bus_now env)"
  unfolding bus_now_def by (intro keeps_intros) simp

lemma keeps_send_to_dlq [keeps_intros]: "keeps bus_inv (send_to_dlq env k i raw n)"
  unfolding send_to_dlq_def by (intro keeps_intros)

lemma keeps_handle_message:
  "(\<And>raw. keeps bus_inv (process raw)) \<Longrightarrow> keeps bus_inv (handle_message env process wk m)"
  unfolding handle_message_def Let_def by (cases m) (auto intro!: keeps_intros)

lemma keeps_handle_messages:
  "(\<And>raw. keeps bus_inv (process raw)) \<Longrightarrow> keeps bus_inv (handle_messages env process wk ms)"
  by (induction env process wk ms rule: handle_messages.induct) (auto intro!: keeps_intros keeps_handle_message)

lemma keeps_worker_round:
  "(\<And>raw. keeps bus_inv (process raw)) \<Longrightarrow> keeps bus_inv (worker_round env process n wk)"
  unfolding worker_round_def read_round_def by (intro keeps_intros keeps_handle_messages)

lemma keeps_run: "keeps I m \<Longrightarrow> run m b = (r, b') \<Longrightarrow> I b \<Longrightarrow> I b'"
  using keepsD[of I m b] by simp

lemma bus_step_inv: "bus_step b b' \<Longrightarrow> bus_inv b \<Longrightarrow> bus_inv b'"
proof (induction rule: bus_step.induct)
  case (publish env l b r b')
  then show ?case by (rule keeps_run[OF keeps_bus_operations(1)])
next
  case (publish_many env ls b r b')
  then show ?case by (rule keeps_run[OF keeps_bus_operations(2)])
next
  case (work process env n wk b r b')
  then show ?case by (rule keeps_run[OF keeps_worker_round])
next
  case (restart b)
  then show ?case by (simp add: bus_inv_def restarted_def init_stream_keys_def)
qed

text \<open>
  Whatever publishers and workers do, in any order and with any failures, every
  stream stays well formed: ids increase, the group has been served up to an id
  that exists, pending messages are distinct and have been delivered; and at most
  \<open>MAX_STREAMS\<close> streams are in use.
\<close>

theorem bus_reachable_wf:
  assumes "bus_step\<^sup>*\<^sup>* empty_bus b"
  shows "bus_inv b"
  using assms by (induction rule: rtranclp_induct) (auto intro: empty_bus_inv bus_step_inv)

theorem bus_reachable_wf_witness:
  "\<exists>b. bus_step\<^sup>*\<^sup>* empty_bus b \<and> bus_inv b \<and> b \<noteq> empty_bus"
proof -
  let ?b = "snd (run (publish_batch calm_bus sample_logs) empty_bus)"
  obtain ids b1 where r: "run (publish_batch calm_bus sample_logs) empty_bus = (ids, b1)" by fastforce
  then have "bus_step\<^sup>*\<^sup>* empty_bus b1" by (intro r_into_rtranclp publish_many)
  moreover have "bu_known_stream_keys ?b \<noteq> {}"
    by (simp add: publish_batch_def sample_logs_def stream_key_for_def dict_get_def parse_topics_def check_stream_cap_def
        empty_bus_def MAX_STREAMS_def run_xadd calm_bus_def put_stream_def)
  then have "b1 \<noteq> empty_bus" using r by (auto simp: empty_bus_def)
  ultimately show ?thesis using bus_reachable_wf by blast
qed

end
