(* ===== verification/Redis_Keys.thy ===== *)
theory Redis_Keys
  imports Store
begin

text \<open>
  The Redis commands the authentication layers use, each one atomic, on string
  keys with an optional expiry (\<open>SET NX EX\<close>, \<open>SETEX\<close>, \<open>DEL\<close>, \<open>INCR\<close>, \<open>EXPIRE\<close>). A key is
  gone once its expiry has passed. A round trip may fail before it has any effect.
\<close>

definition redis_call :: "env \<Rightarrow> int io" where
  "redis_call env = ebind tick (\<lambda>n. case en_redis_fault env n of Some e \<Rightarrow> eraise e | None \<Rightarrow> eret (en_now env n))"

definition live :: "int \<Rightarrow> int option \<Rightarrow> bool" where
  "live time expires = (case expires of Some e \<Rightarrow> time < e | None \<Rightarrow> True)"

definition redis_value :: "int \<Rightarrow> string \<Rightarrow> world \<Rightarrow> int option" where
  "redis_value time key w = (case w_redis w key of
      Some (v, e) \<Rightarrow> if live time e then Some v else None
    | None \<Rightarrow> None)"

definition redis_put :: "string \<Rightarrow> (int \<times> int option) option \<Rightarrow> world \<Rightarrow> world" where
  "redis_put key v w = w\<lparr>w_redis := (w_redis w)(key := v)\<rparr>"

definition redis_set_nx :: "env \<Rightarrow> string \<Rightarrow> int \<Rightarrow> bool io" where
  "redis_set_nx env key ex = ebind (redis_call env) (\<lambda>time. ebind (egets (redis_value time key)) (\<lambda>v. case v of
      Some _ \<Rightarrow> eret False
    | None \<Rightarrow> ebind (emodify (redis_put key (Some (1, Some (time + ex))))) (\<lambda>_. eret True)))"

definition redis_setex :: "env \<Rightarrow> string \<Rightarrow> int \<Rightarrow> unit io" where
  "redis_setex env key ex = ebind (redis_call env) (\<lambda>time. emodify (redis_put key (Some (1, Some (time + ex)))))"

text \<open>\<open>DEL\<close> answers how many keys it removed.\<close>

definition redis_delete :: "env \<Rightarrow> string \<Rightarrow> int io" where
  "redis_delete env key = ebind (redis_call env) (\<lambda>time. ebind (egets (redis_value time key)) (\<lambda>v.
     ebind (emodify (redis_put key None)) (\<lambda>_. eret (if v = None then 0 else 1))))"

definition redis_incr :: "env \<Rightarrow> string \<Rightarrow> int io" where
  "redis_incr env key = ebind (redis_call env) (\<lambda>time. ebind (egets (redis_value time key)) (\<lambda>v.
     ebind (egets (\<lambda>w. case (v, w_redis w key) of (Some x, Some (_, e)) \<Rightarrow> (x + 1, e) | _ \<Rightarrow> (1, None))) (\<lambda>p.
     ebind (emodify (redis_put key (Some p))) (\<lambda>_. eret (fst p)))))"

definition redis_expire :: "env \<Rightarrow> string \<Rightarrow> int \<Rightarrow> unit io" where
  "redis_expire env key secs = ebind (redis_call env) (\<lambda>time. ebind (egets (redis_value time key)) (\<lambda>v. case v of
      Some x \<Rightarrow> emodify (redis_put key (Some (x, Some (time + secs))))
    | None \<Rightarrow> eret ()))"

text \<open>A call whose failure is only logged.\<close>

definition best_effort :: "'a io \<Rightarrow> unit io" where
  "best_effort m = ebind (etry m) (\<lambda>_. eret ())"

lemma run_redis_call [simp, act_simps]:
  "run (redis_call env) w = (case en_redis_fault env (w_tick w) of Some e \<Rightarrow> Inl e | None \<Rightarrow> Inr (en_now env (w_tick w)),
     w\<lparr>w_tick := Suc (w_tick w)\<rparr>)"
  by (simp add: redis_call_def split: option.split)

lemma redis_value_tick [simp]: "redis_value t k (w\<lparr>w_tick := n\<rparr>) = redis_value t k w"
  by (simp add: redis_value_def)

text \<open>\<open>redis_stable I\<close>: the predicate looks neither at the counter nor at the string keys.\<close>

definition redis_stable :: "(world \<Rightarrow> bool) \<Rightarrow> bool" where
  "redis_stable I \<longleftrightarrow> tick_stable I \<and> (\<forall>w r. I w \<longrightarrow> I (w\<lparr>w_redis := r\<rparr>))"

lemma redis_stableD: "redis_stable I \<Longrightarrow> I w \<Longrightarrow> I (redis_put k v w)" "redis_stable I \<Longrightarrow> tick_stable I"
  by (simp_all add: redis_stable_def redis_put_def)

lemma keeps_redis_call [keeps_intros]: "tick_stable I \<Longrightarrow> keeps I (redis_call env)"
  unfolding redis_call_def by (intro keeps_intros)

lemma keeps_best_effort [keeps_intros]: "keeps I m \<Longrightarrow> keeps I (best_effort m)"
  unfolding best_effort_def by (intro keeps_intros)

lemma keeps_redis [keeps_intros]:
  "redis_stable I \<Longrightarrow> keeps I (redis_set_nx env k x)" "redis_stable I \<Longrightarrow> keeps I (redis_setex env k x)"
  "redis_stable I \<Longrightarrow> keeps I (redis_delete env k)" "redis_stable I \<Longrightarrow> keeps I (redis_incr env k)"
  "redis_stable I \<Longrightarrow> keeps I (redis_expire env k x)"
  unfolding redis_set_nx_def redis_setex_def redis_delete_def redis_incr_def redis_expire_def
  by (intro keeps_basic keeps_ebind keeps_option keeps_redis_call keeps_emodify; simp add: redis_stableD)+

lemma db_inv_redis_stable [simp]: "redis_stable db_inv"
  by (simp add: redis_stable_def db_inv_def event_ids_def endpoint_ids_def)

end
