(* ===== verification/Ip_Address.thy ===== *)
theory Ip_Address
  imports TW_Prelude "HOL-Library.Word"
begin

unbundle bit_operations_syntax

text \<open>
  The part of Python's \<open>ipaddress\<close> (3.11, the version of the Dockerfile) that
  \<open>api/validation.py\<close> uses: parsing of IPv4 and IPv6 literals and the address classes
  of its registry, with addresses as 32- and 128-bit words.
\<close>

section \<open>Literals\<close>

datatype ip = V4 "32 word" | V6 "128 word"

definition parse_octet :: "string \<Rightarrow> int option" where
  "parse_octet s =
     (if s = [] \<or> \<not> list_all is_digit s \<or> 3 < length s \<or> (s \<noteq> ''0'' \<and> hd s = CHR ''0'') \<or> 255 < digits_val 10 s
      then None else Some (digits_val 10 s))"

fun octets_int :: "string list \<Rightarrow> int \<Rightarrow> int option" where
  "octets_int [] acc = Some acc"
| "octets_int (p # ps) acc = (case parse_octet p of None \<Rightarrow> None | Some n \<Rightarrow> octets_int ps (acc * 256 + n))"

definition v4_int :: "string \<Rightarrow> int option" where
  "v4_int s = (let octets = py_split CHR ''.'' s in if length octets \<noteq> 4 then None else octets_int octets 0)"

definition IPv4Address :: "string \<Rightarrow> 32 word option" where
  "IPv4Address s = (if CHR 0x2F \<in> set s then None else map_option word_of_int (v4_int s))"

definition parse_hextet :: "string \<Rightarrow> int option" where
  "parse_hextet s = (if s = [] \<or> \<not> list_all is_hex s \<or> 4 < length s then None else Some (digits_val 16 s))"

fun hextets_int :: "string list \<Rightarrow> int \<Rightarrow> int option" where
  "hextets_int [] acc = Some acc"
| "hextets_int (p # ps) acc = (case parse_hextet p of None \<Rightarrow> None | Some n \<Rightarrow> hextets_int ps (acc * 65536 + n))"

definition hex_chr :: "nat \<Rightarrow> char" where
  "hex_chr d = char_of (if d < 10 then 48 + d else 87 + d)"

fun hex_str :: "nat \<Rightarrow> string" where
  "hex_str n = (if n < 16 then [hex_chr n] else hex_str (n div 16) @ [hex_chr (n mod 16)])"

declare hex_str.simps [simp del]

text \<open>An IPv4 suffix becomes two hextets.\<close>

definition expand_v4 :: "string list \<Rightarrow> string list option" where
  "expand_v4 parts =
     (if CHR ''.'' \<notin> set (last parts) then Some parts
      else (case IPv4Address (last parts) of
          None \<Rightarrow> None
        | Some a \<Rightarrow> Some (butlast parts @ [hex_str (unat (drop_bit 16 a)), hex_str (unat (take_bit 16 a))])))"

text \<open>The positions of \<open>::\<close>, the end points excluded.\<close>

definition skips :: "string list \<Rightarrow> nat list" where
  "skips parts = filter (\<lambda>i. parts ! i = []) [1..<length parts - 1]"

definition v6_parts :: "string list \<Rightarrow> int option" where
  "v6_parts parts =
     (if length parts > 9 then None
      else (case skips parts of
          [] \<Rightarrow> if length parts \<noteq> 8 \<or> hd parts = [] \<or> last parts = [] then None else hextets_int parts 0
        | [i] \<Rightarrow>
            (let hi = (if hd parts = [] then i - 1 else i);
                 lo = (if last parts = [] then length parts - i - 2 else length parts - i - 1) in
             if hd parts = [] \<and> hi \<noteq> 0 \<or> last parts = [] \<and> lo \<noteq> 0 \<or> hi + lo \<ge> 8 then None
             else Option.bind (hextets_int (take hi parts) 0) (\<lambda>h.
               hextets_int (drop (length parts - lo) parts) (h * 65536 ^ (8 - (hi + lo)))))
        | _ \<Rightarrow> None))"

definition v6_int :: "string \<Rightarrow> int option" where
  "v6_int s = (let parts = py_split CHR '':'' s in
     if length parts < 3 then None else Option.bind (expand_v4 parts) v6_parts)"

definition split_scope_id :: "string \<Rightarrow> string option" where
  "split_scope_id s = (case py_split CHR 0x25 s of
      [addr] \<Rightarrow> Some addr
    | [addr, scope] \<Rightarrow> if scope = [] then None else Some addr
    | _ \<Rightarrow> None)"

definition IPv6Address :: "string \<Rightarrow> 128 word option" where
  "IPv6Address s = (if CHR 0x2F \<in> set s then None
     else map_option word_of_int (Option.bind (split_scope_id s) v6_int))"

definition ip_address :: "string \<Rightarrow> ip option" where
  "ip_address s = (case IPv4Address s of
      Some a \<Rightarrow> Some (V4 a)
    | None \<Rightarrow> map_option V6 (IPv6Address s))"

section \<open>Address classes\<close>

text \<open>\<open>address in network\<close>: the address masked to the prefix is the network.\<close>

definition in_net :: "'a::len word \<Rightarrow> 'a word \<times> nat \<Rightarrow> bool" where
  "in_net a n = (a AND NOT (mask (LENGTH('a) - snd n)) = fst n)"

definition ipv4 :: "int \<Rightarrow> int \<Rightarrow> int \<Rightarrow> int \<Rightarrow> 32 word" where
  "ipv4 a b c d = word_of_int (((a * 256 + b) * 256 + c) * 256 + d)"

definition private_v4 :: "(32 word \<times> nat) list" where
  "private_v4 =
     [(ipv4 0 0 0 0, 8), (ipv4 10 0 0 0, 8), (ipv4 127 0 0 0, 8), (ipv4 169 254 0 0, 16), (ipv4 172 16 0 0, 12),
      (ipv4 192 0 0 0, 24), (ipv4 192 0 0 170, 31), (ipv4 192 0 2 0, 24), (ipv4 192 168 0 0, 16), (ipv4 198 18 0 0, 15),
      (ipv4 198 51 100 0, 24), (ipv4 203 0 113 0, 24), (ipv4 240 0 0 0, 4), (ipv4 255 255 255 255, 32)]"

definition private_v4_exceptions :: "(32 word \<times> nat) list" where
  "private_v4_exceptions = [(ipv4 192 0 0 9, 32), (ipv4 192 0 0 10, 32)]"

definition private_v6 :: "(128 word \<times> nat) list" where
  "private_v6 =
     [(0x1, 128), (0, 128), (0xFFFF00000000, 96), (0x0064FF9B000100000000000000000000, 48),
      (0x01000000000000000000000000000000, 64), (0x20010000000000000000000000000000, 23),
      (0x20010DB8000000000000000000000000, 32), (0x20020000000000000000000000000000, 16),
      (0xFC000000000000000000000000000000, 7), (0xFE800000000000000000000000000000, 10)]"

definition private_v6_exceptions :: "(128 word \<times> nat) list" where
  "private_v6_exceptions =
     [(0x20010001000000000000000000000001, 128), (0x20010001000000000000000000000002, 128),
      (0x20010003000000000000000000000000, 32), (0x20010004011200000000000000000000, 48),
      (0x20010020000000000000000000000000, 28), (0x20010030000000000000000000000000, 28)]"

definition reserved_v6 :: "(128 word \<times> nat) list" where
  "reserved_v6 =
     [(0, 8), (0x01000000000000000000000000000000, 8), (0x02000000000000000000000000000000, 7),
      (0x04000000000000000000000000000000, 6), (0x08000000000000000000000000000000, 5),
      (0x10000000000000000000000000000000, 4), (0x40000000000000000000000000000000, 3),
      (0x60000000000000000000000000000000, 3), (0x80000000000000000000000000000000, 3),
      (0xA0000000000000000000000000000000, 3), (0xC0000000000000000000000000000000, 3),
      (0xE0000000000000000000000000000000, 4), (0xF0000000000000000000000000000000, 5),
      (0xF8000000000000000000000000000000, 6), (0xFE000000000000000000000000000000, 9)]"

definition in_any :: "'a::len word \<Rightarrow> ('a word \<times> nat) list \<Rightarrow> bool" where
  "in_any a ns = list_ex (in_net a) ns"

definition ipv4_mapped :: "128 word \<Rightarrow> 32 word option" where
  "ipv4_mapped a = (if drop_bit 32 a \<noteq> 0xFFFF then None else Some (ucast (a AND 0xFFFFFFFF)))"

definition private4 :: "32 word \<Rightarrow> bool" where
  "private4 a \<longleftrightarrow> in_any a private_v4 \<and> \<not> in_any a private_v4_exceptions"

fun is_private :: "ip \<Rightarrow> bool" where
  "is_private (V4 a) = private4 a"
| "is_private (V6 a) = (case ipv4_mapped a of
      Some b \<Rightarrow> private4 b
    | None \<Rightarrow> in_any a private_v6 \<and> \<not> in_any a private_v6_exceptions)"

fun is_loopback :: "ip \<Rightarrow> bool" where
  "is_loopback (V4 a) = in_net a (ipv4 127 0 0 0, 8)"
| "is_loopback (V6 a) = (a = 1)"

fun is_link_local :: "ip \<Rightarrow> bool" where
  "is_link_local (V4 a) = in_net a (ipv4 169 254 0 0, 16)"
| "is_link_local (V6 a) = in_net a (0xFE800000000000000000000000000000, 10)"

fun is_reserved :: "ip \<Rightarrow> bool" where
  "is_reserved (V4 a) = in_net a (ipv4 240 0 0 0, 4)"
| "is_reserved (V6 a) = in_any a reserved_v6"

section \<open>Networks are intervals\<close>

lemma in_net_drop:
  fixes a :: "'a::len word"
  assumes "take_bit (LENGTH('a) - p) n = 0"
  shows "in_net a (n, p) \<longleftrightarrow> drop_bit (LENGTH('a) - p) a = drop_bit (LENGTH('a) - p) n"
proof -
  let ?k = "LENGTH('a) - p"
  have n: "n = push_bit ?k (drop_bit ?k n)" using assms bits_ident[of ?k n] by simp
  have "a AND NOT (mask ?k) = push_bit ?k (drop_bit ?k a)"
    by (rule bit_eqI) (auto simp: bit_simps)
  moreover have "drop_bit ?k (a AND NOT (mask ?k)) = drop_bit ?k a"
    by (rule bit_eqI) (auto simp: bit_simps dest: bit_imp_le_length)
  ultimately show ?thesis using n by (auto simp: in_net_def)
qed

lemma in_net_unat:
  fixes a :: "'a::len word"
  assumes "take_bit (LENGTH('a) - p) n = 0"
  shows "in_net a (n, p) \<longleftrightarrow> unat a div 2 ^ (LENGTH('a) - p) = unat n div 2 ^ (LENGTH('a) - p)"
  unfolding in_net_drop[OF assms] word_unat_eq_iff unat_drop_bit_eq by (simp add: drop_bit_eq_div)

text \<open>
  The same classes by their numbers, for IPv4 by the octets of an address: what the
  registry calls private or reserved.
\<close>

definition octet :: "nat \<Rightarrow> 32 word \<Rightarrow> nat" where
  "octet i a = unat a div 256 ^ (4 - i) mod 256"

definition public4 :: "32 word \<Rightarrow> bool" where
  "public4 a \<longleftrightarrow> octet 1 a \<notin> {0, 10, 127} \<and> octet 1 a < 240 \<and>
     \<not> (octet 1 a = 169 \<and> octet 2 a = 254) \<and> \<not> (octet 1 a = 172 \<and> 16 \<le> octet 2 a \<and> octet 2 a < 32) \<and>
     \<not> (octet 1 a = 192 \<and> octet 2 a = 168) \<and> \<not> (octet 1 a = 198 \<and> octet 2 a \<in> {18, 19})"

lemma octet1: "octet (Suc 0) a = unat a div 2 ^ 24"
proof -
  have "unat a < 2 ^ 32" using unsigned_less[of a, where 'a = nat] by simp
  then have "unat a div 2 ^ 24 < 256" by (simp add: less_mult_imp_div_less)
  then show ?thesis by (simp add: octet_def)
qed

lemma octet2: "octet 2 a = unat a div 2 ^ 16 mod 256"
  by (simp add: octet_def)

lemma digits_iff: "0 < b \<Longrightarrow> q < b \<Longrightarrow> x = p * b + q \<longleftrightarrow> x div b = p \<and> x mod b = q" for x :: nat
  using div_mult_mod_eq[of x b] by auto

lemma in_net_prefix:
  fixes a :: "32 word"
  assumes "p \<le> 32" and "unat n mod 2 ^ (32 - p) = 0"
  shows "in_net a (n, p) \<longleftrightarrow> unat a div 2 ^ (32 - p) = unat n div 2 ^ (32 - p)"
proof -
  have "unat (take_bit (32 - p) n) = unat n mod 2 ^ (32 - p)"
    by (simp add: unsigned_take_bit_eq flip: take_bit_eq_mod)
  then have "unat (take_bit (32 - p) n) = 0" using assms(2) by simp
  then show ?thesis using in_net_unat[of p n a] by (simp add: unat_eq_0)
qed

lemma unat_of_small: "0 \<le> x \<Longrightarrow> x < 2 ^ 32 \<Longrightarrow> unat (word_of_int x :: 32 word) = nat x"
  by (simp add: unsigned_of_int take_bit_int_eq_self)

lemma unat_ipv4:
  assumes "0 \<le> a" "a < 256" "0 \<le> b" "b < 256" "0 \<le> c" "c < 256" "0 \<le> d" "d < 256"
  shows "unat (ipv4 a b c d) = nat (((a * 256 + b) * 256 + c) * 256 + d)"
  unfolding ipv4_def using assms by (intro unat_of_small) auto

lemma octets: "octet (Suc 0) a = unat a div 65536 div 256" "octet 2 a = unat a div 65536 mod 256"
  by (simp_all add: octet1 octet2 div_mult2_eq[symmetric])

lemma private4_nets:
  "in_net a (ipv4 0 0 0 0, 8) \<longleftrightarrow> octet 1 a = 0"
  "in_net a (ipv4 10 0 0 0, 8) \<longleftrightarrow> octet 1 a = 10"
  "in_net a (ipv4 127 0 0 0, 8) \<longleftrightarrow> octet 1 a = 127"
  "in_net a (ipv4 169 254 0 0, 16) \<longleftrightarrow> octet 1 a = 169 \<and> octet 2 a = 254"
  "in_net a (ipv4 192 168 0 0, 16) \<longleftrightarrow> octet 1 a = 192 \<and> octet 2 a = 168"
  using digits_iff[of 256 254 "unat a div 65536" 169] digits_iff[of 256 168 "unat a div 65536" 192]
  by (simp_all add: in_net_prefix unat_ipv4 octets div_mult2_eq[symmetric])

lemma wide_digits:
  "x div 16 = 2753 \<longleftrightarrow> x div 256 = 172 \<and> 16 \<le> x mod 256 \<and> x mod 256 < 32"
  "x div 2 = 25353 \<longleftrightarrow> x div 256 = 198 \<and> x mod 256 \<in> {18, 19}"
  "x < 4294967296 \<Longrightarrow> x div 268435456 = 15 \<longleftrightarrow> 240 \<le> x div 16777216" for x :: nat
proof -
  have "x div 16 div 16 = x div 256" by (simp add: div_mult2_eq[symmetric])
  moreover have "x mod 256 div 16 = x div 16 mod 16" using mod_mult2_eq[of x 16 16] by simp
  moreover have "x mod 256 div 16 = 1 \<longleftrightarrow> 16 \<le> x mod 256 \<and> x mod 256 < 32" by linarith
  ultimately show "x div 16 = 2753 \<longleftrightarrow> x div 256 = 172 \<and> 16 \<le> x mod 256 \<and> x mod 256 < 32"
    using digits_iff[of 16 1 "x div 16" 172] by auto
  have "x = 50706 \<or> x = 50707 \<longleftrightarrow> x div 2 = 25353" by presburger
  then show "x div 2 = 25353 \<longleftrightarrow> x div 256 = 198 \<and> x mod 256 \<in> {18, 19}"
    using digits_iff[of 256 18 x 198] digits_iff[of 256 19 x 198] by auto
  assume x: "x < 4294967296"
  show "x div 268435456 = 15 \<longleftrightarrow> 240 \<le> x div 16777216"
    using x div_less_iff_less_mult[of 16777216 x 240] div_less_iff_less_mult[of 268435456 x 15]
      div_less_iff_less_mult[of 268435456 x 16] by auto
qed

lemma private4_wide:
  "in_net a (ipv4 172 16 0 0, 12) \<longleftrightarrow> octet 1 a = 172 \<and> 16 \<le> octet 2 a \<and> octet 2 a < 32"
  "in_net a (ipv4 198 18 0 0, 15) \<longleftrightarrow> octet 1 a = 198 \<and> octet 2 a \<in> {18, 19}"
  "in_net a (ipv4 240 0 0 0, 4) \<longleftrightarrow> 240 \<le> octet 1 a"
  using wide_digits(1,2)[of "unat a div 65536"] wide_digits(3)[of "unat a"] unsigned_less[of a, where 'a = nat]
  by (simp_all add: in_net_prefix unat_ipv4 octets div_mult2_eq[symmetric])


lemma not_private4: "\<not> private4 a \<Longrightarrow> public4 a"
proof -
  assume p: "\<not> private4 a"
  show "public4 a"
  proof (cases "in_any a private_v4_exceptions")
    case True
    then have "a = ipv4 192 0 0 9 \<or> a = ipv4 192 0 0 10" by (auto simp: in_any_def private_v4_exceptions_def in_net_def)
    then show ?thesis
      by (auto simp: public4_def octets unat_ipv4)
  next
    case False
    then show ?thesis using p
      by (auto simp: private4_def in_any_def private_v4_def public4_def private4_nets private4_wide simp del: One_nat_def)
  qed
qed

text \<open>IPv6 by its first hextet: global unicast, or one of the classes nobody checks (site-local, multicast).\<close>

definition hextet1 :: "128 word \<Rightarrow> nat" where
  "hextet1 a = unat a div 2 ^ 112"

definition public6 :: "128 word \<Rightarrow> bool" where
  "public6 a \<longleftrightarrow> (0x2000 \<le> hextet1 a \<and> hextet1 a < 0x4000 \<and> hextet1 a \<noteq> 0x2002) \<or> 0xFEC0 \<le> hextet1 a"

lemma in_net_top:
  assumes "p \<le> 16" and "unat n = m * 2 ^ (128 - p)"
  shows "in_net a (n, p) \<longleftrightarrow> hextet1 a div 2 ^ (16 - p) = m"
proof -
  have "unat (take_bit (128 - p) n) = unat n mod 2 ^ (128 - p)"
    by (simp add: unsigned_take_bit_eq flip: take_bit_eq_mod)
  then have "take_bit (128 - p) n = 0" using assms(2) by (simp add: unat_eq_0)
  moreover have "hextet1 a div 2 ^ (16 - p) = unat a div 2 ^ (128 - p)"
  proof -
    have "112 + (16 - p) = 128 - p" using assms(1) by simp
    then show ?thesis unfolding hextet1_def div_mult2_eq[symmetric] power_add[symmetric] by (rule arg_cong)
  qed
  ultimately show ?thesis using in_net_unat[of p n a] assms(2) by simp
qed

lemma reserved_top:
  "in_net a (0, 8) \<longleftrightarrow> hextet1 a div 2 ^ 8 = 0"
  "in_net a (0x01000000000000000000000000000000, 8) \<longleftrightarrow> hextet1 a div 2 ^ 8 = 1"
  "in_net a (0x02000000000000000000000000000000, 7) \<longleftrightarrow> hextet1 a div 2 ^ 9 = 1"
  "in_net a (0x04000000000000000000000000000000, 6) \<longleftrightarrow> hextet1 a div 2 ^ 10 = 1"
  "in_net a (0x08000000000000000000000000000000, 5) \<longleftrightarrow> hextet1 a div 2 ^ 11 = 1"
  "in_net a (0x10000000000000000000000000000000, 4) \<longleftrightarrow> hextet1 a div 2 ^ 12 = 1"
  "in_net a (0x40000000000000000000000000000000, 3) \<longleftrightarrow> hextet1 a div 2 ^ 13 = 2"
  "in_net a (0x60000000000000000000000000000000, 3) \<longleftrightarrow> hextet1 a div 2 ^ 13 = 3"
  "in_net a (0x80000000000000000000000000000000, 3) \<longleftrightarrow> hextet1 a div 2 ^ 13 = 4"
  "in_net a (0xA0000000000000000000000000000000, 3) \<longleftrightarrow> hextet1 a div 2 ^ 13 = 5"
  "in_net a (0xC0000000000000000000000000000000, 3) \<longleftrightarrow> hextet1 a div 2 ^ 13 = 6"
  "in_net a (0xE0000000000000000000000000000000, 4) \<longleftrightarrow> hextet1 a div 2 ^ 12 = 14"
  "in_net a (0xF0000000000000000000000000000000, 5) \<longleftrightarrow> hextet1 a div 2 ^ 11 = 30"
  "in_net a (0xF8000000000000000000000000000000, 6) \<longleftrightarrow> hextet1 a div 2 ^ 10 = 62"
  "in_net a (0xFE000000000000000000000000000000, 9) \<longleftrightarrow> hextet1 a div 2 ^ 7 = 508"
  "in_net a (0xFC000000000000000000000000000000, 7) \<longleftrightarrow> hextet1 a div 2 ^ 9 = 126"
  "in_net a (0xFE800000000000000000000000000000, 10) \<longleftrightarrow> hextet1 a div 2 ^ 6 = 1018"
  "in_net a (0x20020000000000000000000000000000, 16) \<longleftrightarrow> hextet1 a = 0x2002"
  by (subst in_net_top; simp)+

lemma exceptions_top:
  assumes "in_any a private_v6_exceptions"
  shows "hextet1 a = 0x2001"
proof -
  have *: "hextet1 a = hextet1 n" if "in_net a (n, p)" "16 \<le> p" for n p
  proof -
    have "drop_bit 112 (a AND NOT (mask (128 - p))) = drop_bit 112 a"
      using that(2) by (intro bit_eqI) (auto simp: bit_simps dest: bit_imp_le_length)
    moreover have "a AND NOT (mask (128 - p)) = n" using that(1) by (simp add: in_net_def)
    ultimately have "unat (drop_bit 112 a) = unat (drop_bit 112 n)" by metis
    then show ?thesis unfolding unat_drop_bit_eq hextet1_def by (simp add: drop_bit_eq_div)
  qed
  show ?thesis using assms unfolding in_any_def private_v6_exceptions_def
    by (auto dest!: * simp: hextet1_def)
qed

lemma unreserved_top:
  fixes k :: nat
  assumes "k < 65536" and "\<not> k div 2 ^ 8 = 0" "\<not> k div 2 ^ 8 = 1" "\<not> k div 2 ^ 9 = 1" "\<not> k div 2 ^ 10 = 1"
    "\<not> k div 2 ^ 11 = 1" "\<not> k div 2 ^ 12 = 1" "\<not> k div 2 ^ 13 = 2" "\<not> k div 2 ^ 13 = 3" "\<not> k div 2 ^ 13 = 4"
    "\<not> k div 2 ^ 13 = 5" "\<not> k div 2 ^ 13 = 6" "\<not> k div 2 ^ 12 = 14" "\<not> k div 2 ^ 11 = 30" "\<not> k div 2 ^ 10 = 62"
    "\<not> k div 2 ^ 7 = 508" "\<not> k div 2 ^ 9 = 126" "\<not> k div 2 ^ 6 = 1018"
  shows "(0x2000 \<le> k \<and> k < 0x4000) \<or> 0xFEC0 \<le> k"
proof -
  have out: "\<not> k div b = q \<Longrightarrow> 0 < b \<Longrightarrow> k < q * b \<or> (q + 1) * b \<le> k" for b q
    using div_nat_eqI[of b q k] by (simp add: algebra_simps) (meson not_le)
  from assms(1) assms(2-)[THEN out] show ?thesis by simp linarith
qed


lemma not_blocked6:
  assumes "\<not> is_private (V6 a)" "\<not> is_link_local (V6 a)" "\<not> is_reserved (V6 a)" and "ipv4_mapped a = None"
  shows "public6 a"
proof -
  have "unat a < 2 ^ 128" using unsigned_less[of a, where 'a = nat] by simp
  then have "hextet1 a < 65536" by (simp add: hextet1_def less_mult_imp_div_less)
  moreover have "\<not> in_any a private_v6 \<or> hextet1 a = 0x2001" using assms(1,4) exceptions_top[of a] by auto
  ultimately have "(0x2000 \<le> hextet1 a \<and> hextet1 a < 0x4000) \<or> 0xFEC0 \<le> hextet1 a"
    using assms(2,3) unfolding is_link_local.simps is_reserved.simps
    by (intro unreserved_top) (auto simp: in_any_def reserved_v6_def private_v6_def reserved_top)
  moreover have "hextet1 a \<noteq> 0x2002"
    using \<open>\<not> in_any a private_v6 \<or> hextet1 a = 0x2001\<close> by (auto simp: in_any_def private_v6_def reserved_top)
  ultimately show ?thesis by (auto simp: public6_def)
qed

end
