(* ===== verification/Url_Validation.thy ===== *)
theory Url_Validation
  imports Ip_Address
begin

text \<open>
  \<open>api/validation.py\<close>: the check of webhook URLs against requests to internal addresses,
  on top of \<open>urllib.parse\<close> (3.11; strings are ASCII). Name resolution is an argument: the
  addresses of a host name, or the exception \<open>getaddrinfo\<close> raises.
\<close>

section \<open>Splitting a URL\<close>

definition is_alpha :: "char \<Rightarrow> bool" where
  "is_alpha c = ((65 \<le> code c \<and> code c \<le> 90) \<or> (97 \<le> code c \<and> code c \<le> 122))"

definition scheme_char :: "char \<Rightarrow> bool" where
  "scheme_char c = (is_alpha c \<or> is_digit c \<or> c \<in> {CHR ''+'', CHR ''-'', CHR ''.''})"

definition clean_url :: "string \<Rightarrow> string" where
  "clean_url url = filter (\<lambda>c. c \<notin> {CHR 0x09, CHR 0x0D, CHR 0x0A}) (dropWhile (\<lambda>c. code c \<le> 32) url)"

text \<open>The scheme, in lower case, and what follows its colon.\<close>

definition split_scheme :: "string \<Rightarrow> string \<times> string" where
  "split_scheme u =
     (let s = takeWhile (\<lambda>c. c \<noteq> CHR '':'') u in
      if s \<noteq> u \<and> s \<noteq> [] \<and> is_alpha (hd s) \<and> list_all scheme_char s
      then (py_lower s, drop (length s + 1) u) else ([], u))"

definition before :: "char \<Rightarrow> string \<Rightarrow> string" where
  "before c s = takeWhile (\<lambda>d. d \<noteq> c) s"

definition after :: "char \<Rightarrow> string \<Rightarrow> string" where
  "after c s = drop 1 (dropWhile (\<lambda>d. d \<noteq> c) s)"

definition after_last :: "char \<Rightarrow> string \<Rightarrow> string" where
  "after_last c s = rev (before c (rev s))"

definition check_bracketed_host :: "string \<Rightarrow> unit result" where
  "check_bracketed_host h =
     (if py_startswith h ''v''
      then (let hex = takeWhile is_hex (drop 1 h); rest = drop (1 + length hex) h in
            if hex \<noteq> [] \<and> py_startswith rest ''.'' \<and> drop 1 rest \<noteq> [] \<and> CHR 0x0A \<notin> set rest then Inr () else Inl ValueError)
      else (case ip_address h of Some (V6 _) \<Rightarrow> Inr () | _ \<Rightarrow> Inl ValueError))"

definition netloc_of :: "string \<Rightarrow> string result" where
  "netloc_of rest =
     (if take 2 rest \<noteq> ''//'' then Inr []
      else (let netloc = takeWhile (\<lambda>c. c \<notin> {CHR 0x2F, CHR 0x3F, CHR 0x23}) (drop 2 rest) in
        if (CHR 0x5B \<in> set netloc) \<noteq> (CHR 0x5D \<in> set netloc) then Inl ValueError
        else if CHR 0x5B \<in> set netloc
        then rbind (check_bracketed_host (before CHR 0x5D (after CHR 0x5B netloc))) (\<lambda>_. Inr netloc)
        else Inr netloc))"

definition hostname_of :: "string \<Rightarrow> string option" where
  "hostname_of netloc =
     (let hostinfo = after_last CHR 0x40 netloc;
          h = (if CHR 0x5B \<in> set hostinfo then before CHR 0x5D (after CHR 0x5B hostinfo) else before CHR '':'' hostinfo);
          name = before CHR 0x25 h in
      if h = [] then None else Some (py_lower name @ drop (length name) h))"

definition urlparse :: "string \<Rightarrow> (string \<times> string option) result" where
  "urlparse url = (case split_scheme (clean_url url) of (scheme, rest) \<Rightarrow>
     rbind (netloc_of rest) (\<lambda>netloc. Inr (scheme, hostname_of netloc)))"

section \<open>The check\<close>

definition gaierror :: exn where "gaierror = ExternalError ''socket.gaierror''"

definition check_blocked_ip :: "ip \<Rightarrow> unit result" where
  "check_blocked_ip addr =
     (let a = (case addr of V6 x \<Rightarrow> (case ipv4_mapped x of Some y \<Rightarrow> V4 y | None \<Rightarrow> addr) | V4 _ \<Rightarrow> addr) in
      if is_loopback a then Inl ValueError
      else if is_private a then Inl ValueError
      else if is_link_local a then Inl ValueError
      else if is_reserved a then Inl ValueError
      else Inr ())"

definition blocked_hostnames :: "string list" where
  "blocked_hostnames = [''localhost'', ''127.0.0.1'', ''::1'', ''0.0.0.0'']"

fun check_resolved :: "string list \<Rightarrow> unit result" where
  "check_resolved [] = Inr ()"
| "check_resolved (s # ss) = rbind (of_option ValueError (ip_address s)) (\<lambda>a. rbind (check_blocked_ip a) (\<lambda>_. check_resolved ss))"

definition validate_endpoint_url :: "bool \<Rightarrow> (string \<Rightarrow> string list result) \<Rightarrow> string \<Rightarrow> string result" where
  "validate_endpoint_url development getaddrinfo url =
     rbind (urlparse url) (\<lambda>(scheme, hostname).
     if scheme \<noteq> ''https'' \<and> \<not> (development \<and> scheme = ''http'') then Inl ValueError
     else (case hostname of
         None \<Rightarrow> Inl ValueError
       | Some h \<Rightarrow>
           if h \<in> set blocked_hostnames then Inl ValueError
           else (case ip_address h of
               Some addr \<Rightarrow> rbind (check_blocked_ip addr) (\<lambda>_. Inr url)
             | None \<Rightarrow> (case getaddrinfo h of
                   Inr addrs \<Rightarrow> rbind (check_resolved addrs) (\<lambda>_. Inr url)
                 | Inl e \<Rightarrow> if e = gaierror then Inr url else Inl e))))"

section \<open>Accepted URLs\<close>

definition public :: "ip \<Rightarrow> bool" where
  "public addr = (case addr of V4 a \<Rightarrow> public4 a | V6 a \<Rightarrow> (case ipv4_mapped a of Some b \<Rightarrow> public4 b | None \<Rightarrow> public6 a))"

lemma check_blocked_public: "check_blocked_ip addr = Inr u \<Longrightarrow> public addr"
  by (cases addr) (auto simp: check_blocked_ip_def Let_def public_def split: option.splits if_splits
      intro: not_private4 not_blocked6)

lemma check_resolved_public: "check_resolved ss = Inr u \<Longrightarrow> \<forall>s \<in> set ss. \<exists>a. ip_address s = Some a \<and> public a"
  by (induction ss) (auto simp: rbind_eq_Inr intro: check_blocked_public)

text \<open>
  C27. An accepted webhook URL leads to a public address: it is \<open>https\<close> (or \<open>http\<close> in
  development), has a host that is not one of the local names, and that host is a literal
  address outside the private, loopback, link-local and reserved blocks, IPv4 addresses
  wrapped in IPv6 included, or a name all of whose addresses are, unless the name does not
  resolve. Site-local and multicast addresses pass.
\<close>

theorem accepted_url_public:
  assumes "validate_endpoint_url development getaddrinfo url = Inr url'"
  shows "url' = url \<and> (\<exists>scheme h. urlparse url = Inr (scheme, Some h) \<and>
    (scheme = ''https'' \<or> development \<and> scheme = ''http'') \<and> h \<notin> set blocked_hostnames \<and>
    (case ip_address h of
       Some a \<Rightarrow> public a
     | None \<Rightarrow> (case getaddrinfo h of
         Inr ss \<Rightarrow> \<forall>s \<in> set ss. \<exists>a. ip_address s = Some a \<and> public a
       | Inl e \<Rightarrow> e = gaierror)))"
proof -
  obtain scheme hn where u: "urlparse url = Inr (scheme, hn)"
    using assms by (auto simp: validate_endpoint_url_def rbind_eq_Inr)
  then have s: "scheme = ''https'' \<or> development \<and> scheme = ''http''"
    using assms by (auto simp: validate_endpoint_url_def split: if_splits)
  then obtain h where h: "hn = Some h" "h \<notin> set blocked_hostnames"
    using assms u by (auto simp: validate_endpoint_url_def split: if_splits option.splits)
  show ?thesis
  proof (cases "ip_address h")
    case (Some a)
    then show ?thesis using assms u s h check_blocked_public[of a] by (auto simp: validate_endpoint_url_def rbind_eq_Inr)
  next
    case None
    then show ?thesis using assms u s h check_resolved_public
      by (cases "getaddrinfo h") (auto simp: validate_endpoint_url_def rbind_eq_Inr split: if_splits)
  qed
qed

definition no_dns :: "string \<Rightarrow> string list result" where
  "no_dns h = Inl gaierror"

lemma sample_url:
  "urlparse ''https://8.8.8.8/hook'' = Inr (''https'', Some ''8.8.8.8'')" "ip_address ''8.8.8.8'' = Some (V4 (ipv4 8 8 8 8))"
  "validate_endpoint_url False no_dns ''https://8.8.8.8/hook'' = Inr ''https://8.8.8.8/hook''"
proof -
  show u: "urlparse ''https://8.8.8.8/hook'' = Inr (''https'', Some ''8.8.8.8'')"
    by (simp add: urlparse_def clean_url_def split_scheme_def netloc_of_def hostname_of_def after_last_def before_def
        scheme_char_def is_alpha_def is_digit_def code_def py_lower_def lower_char_def Let_def)
  show i: "ip_address ''8.8.8.8'' = Some (V4 (ipv4 8 8 8 8))"
    by (simp add: ip_address_def IPv4Address_def v4_int_def parse_octet_def digits_val_def digit_val_def is_digit_def code_def ipv4_def)
  have "check_blocked_ip (V4 (ipv4 8 8 8 8)) = Inr ()"
    by (simp add: check_blocked_ip_def private4_def in_any_def private_v4_def in_net_prefix unat_ipv4 Let_def)
  then show "validate_endpoint_url False no_dns ''https://8.8.8.8/hook'' = Inr ''https://8.8.8.8/hook''"
    by (simp add: validate_endpoint_url_def u i blocked_hostnames_def)
qed

theorem accepted_url_public_witness:
  "validate_endpoint_url False no_dns ''https://8.8.8.8/hook'' = Inr ''https://8.8.8.8/hook'' \<and> public (V4 (ipv4 8 8 8 8))"
  using accepted_url_public[OF sample_url(3)] sample_url by simp

end
