(* ===== verification/Trigger_Store.thy ===== *)
theory Trigger_Store
  imports Repositories Redis_Keys Url_Validation
begin

text \<open>
  The registry of endpoints, triggers and templates: \<open>db/repositories/triggers.py\<close> with its
  module-level caches, \<open>db/repositories/quotas.py\<close>, \<open>utils/topic.py\<close>, the inserts, updates and
  deletes on \<open>endpoints\<close> and \<open>triggers\<close> with the constraints of \<open>db/migrations\<close>, and the
  \<open>TriggerIndex\<close> of \<open>ingestion/trigger_worker.py\<close>. The record \<open>registry\<close> collects what is
  outside the repository: Keccak-256, the text syntax of Postgres UUIDs, the conversion of
  the columns a caller supplies by Postgres and Pydantic, the webhook provider,
  name resolution and the block explorers.
\<close>

section \<open>Services of the registry\<close>

text \<open>The columns a caller chooses, once they have been accepted.\<close>

record TriggerColumns =
  tc_name :: "string option"
  tc_abi :: "pydict list"
  tc_contract_address :: "string option"
  tc_chain_ids :: "int list"
  tc_filter_rules :: "TriggerFilter list"
  tc_webhook_event_type :: string
  tc_reputation_threshold :: rat

record EndpointColumns =
  ec_url :: string
  ec_mode :: EndpointMode
  ec_chains :: "int list"

text \<open>
  The answer of a block explorer: an exception of the HTTP client, or the decoded JSON body
  with what \<open>json.loads\<close> makes of its \<open>result\<close>.
\<close>

datatype explorer_reply =
    Explorer_timeout
  | Explorer_status int
  | Explorer_error
  | Explorer_data pyval "pyval result"

text \<open>
  \<open>rg_trigger_row\<close> and \<open>rg_endpoint_row\<close>: an exception when Postgres refuses the columns, \<open>None\<close>
  when it stores them but the model cannot be built from the row.
\<close>

record registry =
  rg_keccak_hex :: "string \<Rightarrow> string"
  rg_uuid_in :: "string \<Rightarrow> bool"
  rg_trigger_row :: "pydict \<Rightarrow> TriggerColumns option result"
  rg_endpoint_row :: "pydict \<Rightarrow> EndpointColumns option result"
  rg_policies :: "pyval \<Rightarrow> EndpointPolicies result"
  rg_provider :: bool
  rg_create_app :: "nat \<Rightarrow> string \<Rightarrow> string \<Rightarrow> string result"
  rg_create_endpoint :: "nat \<Rightarrow> string \<Rightarrow> string \<Rightarrow> string \<Rightarrow> string \<Rightarrow> string result"
  rg_getaddrinfo :: "nat \<Rightarrow> string \<Rightarrow> string list result"
  rg_explorer :: "nat \<Rightarrow> string \<Rightarrow> pydict \<Rightarrow> explorer_reply"
  rg_api_key :: "string \<Rightarrow> string"
  rg_exc_text :: "exn \<Rightarrow> string"

definition constraint :: exn where "constraint = ExternalError ''constraint''"

section \<open>Topics\<close>

definition is_hex_topic :: "string \<Rightarrow> bool" where
  "is_hex_topic s = (length s = 66 \<and> py_startswith s ''0x'' \<and> list_all is_hex (drop 2 s))"

definition compute_topic0 :: "registry \<Rightarrow> string \<Rightarrow> string" where
  "compute_topic0 rg event_signature =
     (let sig = py_strip event_signature in
      if is_hex_topic sig then py_lower sig else ''0x'' @ rg_keccak_hex rg sig)"

section \<open>Triggers\<close>

definition invalidate_trigger_cache :: "unit io" where
  "invalidate_trigger_cache =
     emodify (\<lambda>w. w\<lparr>w_active_cache := None, w_topic_cache := (\<lambda>_. None), w_templates_cache := None\<rparr>)"

text \<open>The column \<open>triggers.id\<close> has type \<open>UUID\<close>: comparing it with other text is an error.\<close>

definition trigger_get_by_id :: "env \<Rightarrow> registry \<Rightarrow> string \<Rightarrow> Trigger option io" where
  "trigger_get_by_id env rg i =
     ebind (query_valid env (\<lambda>w. filter (\<lambda>r. iv_id r = i) (w_invalid_triggers w)) (\<lambda>w. find (\<lambda>t. tg_id t = i) (w_triggers w))) (\<lambda>t.
       if rg_uuid_in rg i then eret t else eraise constraint)"

definition created_of :: "Trigger \<Rightarrow> int" where
  "created_of t = (case tg_created_at t of Some c \<Rightarrow> c | None \<Rightarrow> 0)"

definition ACTIVE_CACHE_TTL :: int where "ACTIVE_CACHE_TTL = 10"

definition triggers_list_active :: "env \<Rightarrow> Trigger list io" where
  "triggers_list_active env =
     (let refresh = (\<lambda>time.
        ebind (query_valid env (\<lambda>w. filter iv_active (w_invalid_triggers w))
          (\<lambda>w. sort_key (\<lambda>t. - created_of t) (filter tg_active (w_triggers w)))) (\<lambda>ts.
        ebind (emodify (\<lambda>w. w\<lparr>w_active_cache := Some (ts, time + ACTIVE_CACHE_TTL)\<rparr>)) (\<lambda>_. eret ts))) in
      ebind (now env) (\<lambda>time. ebind (egets w_active_cache) (\<lambda>cache. case cache of
          Some (ts, expires) \<Rightarrow> if time < expires then eret ts else refresh time
        | None \<Rightarrow> refresh time)))"

definition list_by_owner :: "env \<Rightarrow> string \<Rightarrow> Trigger list io" where
  "list_by_owner env owner =
     query_valid env (\<lambda>w. filter (\<lambda>r. iv_owner_address r = py_lower owner) (w_invalid_triggers w))
       (\<lambda>w. sort_key (\<lambda>t. - created_of t) (filter (\<lambda>t. tg_owner_address t = py_lower owner) (w_triggers w)))"

definition trigger_ids :: "world \<Rightarrow> string list" where
  "trigger_ids w = map tg_id (w_triggers w) @ map iv_id (w_invalid_triggers w)"

definition add_invalid_trigger :: "InvalidRow \<Rightarrow> world \<Rightarrow> world" where
  "add_invalid_trigger r w = w\<lparr>w_invalid_triggers := w_invalid_triggers w @ [r]\<rparr>"

definition add_trigger :: "Trigger \<Rightarrow> world \<Rightarrow> world" where
  "add_trigger t w = w\<lparr>w_triggers := w_triggers w @ [t]\<rparr>"

text \<open>
  \<open>TriggerRepository.create\<close>: the insert, the caches, then the model, so that a row without a
  model has been stored when the exception is raised.
\<close>

definition trigger_create :: "env \<Rightarrow> registry \<Rightarrow> string \<Rightarrow> string \<Rightarrow> string \<Rightarrow> string \<Rightarrow> string \<Rightarrow> int \<Rightarrow> pydict \<Rightarrow> Trigger io" where
  "trigger_create env rg i owner endpoint_id event_signature topic0 created columns =
     ebind (db_call env) (\<lambda>_.
     ebind (elift (rg_trigger_row rg columns)) (\<lambda>cols.
     ebind (egets (\<lambda>w. rg_uuid_in rg i \<and> i \<notin> set (trigger_ids w) \<and> endpoint_id \<in> set (endpoint_ids w))) (\<lambda>ok.
     if \<not> ok then eraise constraint
     else (case cols of
         None \<Rightarrow> ebind (emodify (add_invalid_trigger \<lparr>iv_id = i, iv_owner_address = owner, iv_key = topic0,
             iv_endpoint_id = endpoint_id, iv_active = True\<rparr>)) (\<lambda>_.
           ebind invalidate_trigger_cache (\<lambda>_. eraise ValidationError))
       | Some c \<Rightarrow>
           (let t = \<lparr>tg_id = i, tg_owner_address = owner, tg_endpoint_id = endpoint_id, tg_name = tc_name c,
              tg_event_signature = event_signature, tg_topic0 = Some topic0, tg_abi = tc_abi c,
              tg_contract_address = tc_contract_address c, tg_chain_ids = tc_chain_ids c,
              tg_filter_rules = tc_filter_rules c, tg_webhook_event_type = tc_webhook_event_type c,
              tg_reputation_threshold = tc_reputation_threshold c, tg_required_agent_class = None,
              tg_version = ''1.0.0'', tg_require_payment = False, tg_payment_token = None,
              tg_min_payment_amount = None, tg_active = True, tg_created_at = Some created\<rparr> in
            ebind (emodify (add_trigger t)) (\<lambda>_. ebind invalidate_trigger_cache (\<lambda>_. eret t)))))))"

definition set_inactive :: "string \<Rightarrow> world \<Rightarrow> world" where
  "set_inactive i w = w\<lparr>
     w_triggers := map (\<lambda>t. if tg_id t = i then t\<lparr>tg_active := False\<rparr> else t) (w_triggers w),
     w_invalid_triggers := map (\<lambda>r. if iv_id r = i then r\<lparr>iv_active := False\<rparr> else r) (w_invalid_triggers w)\<rparr>"

definition trigger_deactivate :: "env \<Rightarrow> registry \<Rightarrow> string \<Rightarrow> Trigger option io" where
  "trigger_deactivate env rg i =
     ebind (db_call env) (\<lambda>_. if \<not> rg_uuid_in rg i then eraise constraint else
     ebind (emodify (set_inactive i)) (\<lambda>_.
     ebind (egets (\<lambda>w. (i \<in> set (trigger_ids w), find (\<lambda>t. tg_id t = i) (w_triggers w)))) (\<lambda>(present, t).
     if \<not> present then eret None
     else ebind invalidate_trigger_cache (\<lambda>_. case t of Some t \<Rightarrow> eret (Some t) | None \<Rightarrow> eraise ValidationError))))"

section \<open>Templates\<close>

definition templates_list_public :: "env \<Rightarrow> TriggerTemplate list io" where
  "templates_list_public env = ebind (egets w_templates_cache) (\<lambda>cache. case cache of
      Some ts \<Rightarrow> eret ts
    | None \<Rightarrow> ebind (query env (\<lambda>w. sort_key (\<lambda>t. - tt_install_count t) (filter tt_is_public (w_templates w)))) (\<lambda>ts.
        ebind (emodify (\<lambda>w. w\<lparr>w_templates_cache := Some ts\<rparr>)) (\<lambda>_. eret ts)))"

definition get_by_slug :: "env \<Rightarrow> string \<Rightarrow> TriggerTemplate option io" where
  "get_by_slug env slug = query env (\<lambda>w. find (\<lambda>t. tt_slug t = slug) (w_templates w))"

section \<open>Quotas\<close>

definition owned_triggers :: "string \<Rightarrow> world \<Rightarrow> int" where
  "owned_triggers owner w =
     int (length (filter (\<lambda>t. tg_owner_address t = owner \<and> tg_active t) (w_triggers w)) +
          length (filter (\<lambda>r. iv_owner_address r = owner \<and> iv_active r) (w_invalid_triggers w)))"

definition owned_endpoints :: "string \<Rightarrow> world \<Rightarrow> int" where
  "owned_endpoints owner w =
     int (length (filter (\<lambda>e. ep_owner_address e = owner \<and> ep_active e) (w_endpoints w)) +
          length (filter (\<lambda>r. iv_owner_address r = owner \<and> iv_active r) (w_invalid_endpoints w)))"

definition check_quota :: "env \<Rightarrow> string \<Rightarrow> (world \<Rightarrow> int) \<Rightarrow> int \<Rightarrow> unit io" where
  "check_quota env what counter limit = ebind (query env counter) (\<lambda>n.
     if n \<ge> limit
     then eraise (HTTPException 429 (what @ '' quota exceeded: '' @ int_str n @ ''/'' @ int_str limit @ '' active '' @
       (if what = ''Trigger'' then ''triggers'' else ''endpoints'')))
     else eret ())"

definition check_trigger_quota :: "env \<Rightarrow> string \<Rightarrow> unit io" where
  "check_trigger_quota env wallet =
     check_quota env ''Trigger'' (owned_triggers (py_lower wallet)) (st_max_triggers_per_wallet (en_settings env))"

definition check_endpoint_quota :: "env \<Rightarrow> string \<Rightarrow> unit io" where
  "check_endpoint_quota env wallet =
     check_quota env ''Endpoint'' (owned_endpoints (py_lower wallet)) (st_max_endpoints_per_wallet (en_settings env))"

section \<open>Endpoints\<close>

definition add_endpoint :: "Endpoint \<Rightarrow> world \<Rightarrow> world" where
  "add_endpoint e w = w\<lparr>w_endpoints := w_endpoints w @ [e]\<rparr>"

definition add_invalid_endpoint :: "InvalidRow \<Rightarrow> world \<Rightarrow> world" where
  "add_invalid_endpoint r w = w\<lparr>w_invalid_endpoints := w_invalid_endpoints w @ [r]\<rparr>"

text \<open>The model of an endpoint needs two Ethereum addresses besides the columns of the caller.\<close>

definition endpoint_insert ::
  "env \<Rightarrow> registry \<Rightarrow> string \<Rightarrow> string \<Rightarrow> string \<Rightarrow> EndpointPolicies \<Rightarrow> pydict \<Rightarrow> Endpoint option io" where
  "endpoint_insert env rg i recipient owner policies columns =
     ebind (db_call env) (\<lambda>_.
     ebind (elift (rg_endpoint_row rg columns)) (\<lambda>cols.
     ebind (egets (\<lambda>w. i \<in> set (endpoint_ids w))) (\<lambda>taken.
     if taken then eraise constraint
     else (case (is_ok (EthAddress recipient) \<and> is_ok (EthAddress owner), cols) of
         (True, Some c) \<Rightarrow>
           (let e = \<lparr>ep_id = i, ep_url = ec_url c, ep_mode = ec_mode c, ep_chains = ec_chains c, ep_recipient = recipient,
              ep_owner_address = owner, ep_registration_tx_hash = None, ep_registration_chain_id = None,
              ep_policies = policies, ep_active = True, ep_convoy_project_id = None, ep_convoy_endpoint_id = None,
              ep_webhook_secret = None\<rparr> in
            ebind (emodify (add_endpoint e)) (\<lambda>_. eret (Some e)))
       | _ \<Rightarrow> ebind (emodify (add_invalid_endpoint \<lparr>iv_id = i, iv_owner_address = owner, iv_key = recipient,
             iv_endpoint_id = i, iv_active = True\<rparr>)) (\<lambda>_. eret None)))))"

definition endpoint_set_provider :: "env \<Rightarrow> string \<Rightarrow> string \<Rightarrow> string \<Rightarrow> unit io" where
  "endpoint_set_provider env i project convoy_endpoint = ebind (db_call env) (\<lambda>_.
     emodify (\<lambda>w. w\<lparr>w_endpoints := map (\<lambda>e. if ep_id e = i
       then e\<lparr>ep_convoy_project_id := Some project, ep_convoy_endpoint_id := Some convoy_endpoint\<rparr> else e) (w_endpoints w)\<rparr>))"

text \<open>
  Deleting an endpoint deletes what refers to it, except events, whose reference has no
  \<open>ON DELETE CASCADE\<close> and makes the delete fail.
\<close>

definition remove_endpoint :: "string \<Rightarrow> world \<Rightarrow> world" where
  "remove_endpoint i w = w\<lparr>
     w_endpoints := filter (\<lambda>e. ep_id e \<noteq> i) (w_endpoints w),
     w_invalid_endpoints := filter (\<lambda>r. iv_id r \<noteq> i) (w_invalid_endpoints w),
     w_triggers := filter (\<lambda>t. tg_endpoint_id t \<noteq> i) (w_triggers w),
     w_invalid_triggers := filter (\<lambda>r. iv_endpoint_id r \<noteq> i) (w_invalid_triggers w),
     w_subscriptions := filter (\<lambda>s. sub_endpoint_id s \<noteq> i) (w_subscriptions w),
     w_deliveries := filter (\<lambda>d. dl_endpoint_id d \<noteq> i) (w_deliveries w),
     w_realtime := filter (\<lambda>r. rt_endpoint_id r \<noteq> i) (w_realtime w),
     w_event_endpoints := filter (\<lambda>(_, ep). ep \<noteq> i) (w_event_endpoints w)\<rparr>"

definition endpoint_delete :: "env \<Rightarrow> string \<Rightarrow> unit io" where
  "endpoint_delete env i = ebind (db_call env) (\<lambda>_.
     ebind (egets (\<lambda>w. list_ex (\<lambda>r. er_endpoint_id r = Some i) (w_events w))) (\<lambda>used.
       if used then eraise constraint else emodify (remove_endpoint i)))"

section \<open>The trigger index\<close>

record trigger_index =
  ti_index :: "(string \<times> Trigger list) list"
  ti_last_refresh :: int

definition REFRESH_INTERVAL :: int where "REFRESH_INTERVAL = 10"

definition index_key :: "registry \<Rightarrow> Trigger \<Rightarrow> string" where
  "index_key rg t = py_lower (case tg_topic0 t of Some (c # cs) \<Rightarrow> c # cs | _ \<Rightarrow> compute_topic0 rg (tg_event_signature t))"

fun build_index :: "registry \<Rightarrow> Trigger list \<Rightarrow> (string \<times> Trigger list) list \<Rightarrow> (string \<times> Trigger list) list" where
  "build_index rg [] idx = idx"
| "build_index rg (t # ts) idx =
     (let k = index_key rg t in
      build_index rg ts (case map_of idx k of
          None \<Rightarrow> idx @ [(k, [t])]
        | Some us \<Rightarrow> map (\<lambda>(k', us'). if k' = k then (k', us' @ [t]) else (k', us')) idx))"

text \<open>The copy in Redis is written for other instances, and nothing reads it.\<close>

definition index_refresh :: "env \<Rightarrow> registry \<Rightarrow> trigger_index \<Rightarrow> trigger_index io" where
  "index_refresh env rg ti = ebind (etry (triggers_list_active env)) (\<lambda>r. case r of
      Inl _ \<Rightarrow> eret ti
    | Inr triggers \<Rightarrow>
        (let idx = build_index rg triggers [] in
         ebind (now env) (\<lambda>time. ebind (efor idx (\<lambda>_. best_effort (redis_call env))) (\<lambda>_.
           eret \<lparr>ti_index = idx, ti_last_refresh = time\<rparr>))))"

definition index_match :: "trigger_index \<Rightarrow> string \<Rightarrow> Trigger list" where
  "index_match ti topic0 = (case map_of (ti_index ti) (py_lower topic0) of Some ts \<Rightarrow> ts | None \<Rightarrow> [])"

definition maybe_refresh :: "env \<Rightarrow> registry \<Rightarrow> trigger_index \<Rightarrow> trigger_index io" where
  "maybe_refresh env rg ti = ebind (now env) (\<lambda>t1.
     if t1 - ti_last_refresh ti > REFRESH_INTERVAL
     then ebind (now env) (\<lambda>t2. if t2 - ti_last_refresh ti > REFRESH_INTERVAL then index_refresh env rg ti else eret ti)
     else eret ti)"

end
