(* ===== verification/Siwe_Auth.thy ===== *)
theory Siwe_Auth
  imports Redis_Keys
begin

text \<open>
  \<open>auth/siwe.py\<close> (messages, signatures, timestamps), \<open>api/auth.py\<close> (the dependency of the
  HTTP routes), \<open>api/routes/auth.py\<close> (nonces) and the wallet check of \<open>mcp/auth.py\<close>.
  Signature recovery and the reading of ISO-8601 times are parameters. The audit
  log has no effect on the outcome and is left out.
\<close>

record Request =
  rq_header :: "string \<Rightarrow> string option"
  rq_method :: string
  rq_path :: string
  rq_body :: string
  rq_json :: "pyval result"

section \<open>Messages\<close>

definition nl :: string where
  "nl = [CHR 0x0A]"

definition build_siwe_message ::
  "string \<Rightarrow> string \<Rightarrow> string \<Rightarrow> string \<Rightarrow> string \<Rightarrow> string \<Rightarrow> int \<Rightarrow> string" where
  "build_siwe_message domain address statement nonce issued_at expiration_time chain_id =
     py_join nl [domain @ '' wants you to sign in with your Ethereum account:'', address, [], statement, [],
       ''URI: https://'' @ domain, ''Version: 1'', ''Chain ID: '' @ int_str chain_id, ''Nonce: '' @ nonce,
       ''Issued At: '' @ issued_at, ''Expiration Time: '' @ expiration_time]"

definition build_request_statement :: "env \<Rightarrow> string \<Rightarrow> string \<Rightarrow> string \<Rightarrow> string" where
  "build_request_statement env verb path body = verb @ '' '' @ path @ '' '' @ en_sha256_hex env body"

definition verify_siwe_signature :: "env \<Rightarrow> string \<Rightarrow> string \<Rightarrow> string \<Rightarrow> string result" where
  "verify_siwe_signature env message signature expected =
     rbind (en_recover env message signature) (\<lambda>recovered.
       if py_lower recovered \<noteq> py_lower expected then Inl ValueError else Inr recovered)"

definition validate_timestamps :: "env \<Rightarrow> int option \<Rightarrow> string \<Rightarrow> string \<Rightarrow> unit io" where
  "validate_timestamps env tolerance issued_at expiration_time =
     ebind (now env) (\<lambda>time. elift (
       rbind (of_option ValueError (en_parse_iso env expiration_time)) (\<lambda>expires.
         if expires < time then Inl ValueError
         else (case tolerance of
             None \<Rightarrow> Inr ()
           | Some tol \<Rightarrow>
               rbind (of_option ValueError (en_parse_iso env issued_at)) (\<lambda>issued.
                 if abs (time - issued) > tol then Inl ValueError else Inr ())))))"

section \<open>Nonces\<close>

definition NONCE_TTL_SECONDS :: int where
  "NONCE_TTL_SECONDS = 300"

definition nonce_redis_key :: "string \<Rightarrow> string" where
  "nonce_redis_key nonce = ''siwe:nonce:'' @ nonce"

definition get_nonce :: "env \<Rightarrow> string io" where
  "get_nonce env = ebind (ebind tick (\<lambda>n. eret (en_token env n))) (\<lambda>nonce.
     ebind (redis_setex env (nonce_redis_key nonce) NONCE_TTL_SECONDS) (\<lambda>_. eret nonce))"

section \<open>Wallet authentication\<close>

definition header :: "Request \<Rightarrow> string \<Rightarrow> string" where
  "header request name = (case rq_header request name of Some v \<Rightarrow> v | None \<Rightarrow> [])"

definition siwe_headers :: "string list" where
  "siwe_headers = [''X-TripWire-Address'', ''X-TripWire-Signature'', ''X-TripWire-Nonce'',
     ''X-TripWire-Issued-At'', ''X-TripWire-Expiration'']"

definition unauthorized :: "string \<Rightarrow> 'a io" where
  "unauthorized detail = eraise (HTTPException 401 detail)"

definition siwe_text :: "env \<Rightarrow> Request \<Rightarrow> string" where
  "siwe_text env request = build_siwe_message (st_siwe_domain (en_settings env))
     (header request ''X-TripWire-Address'')
     (build_request_statement env (rq_method request) (rq_path request) (rq_body request))
     (header request ''X-TripWire-Nonce'') (header request ''X-TripWire-Issued-At'')
     (header request ''X-TripWire-Expiration'') (st_siwe_chain_id (en_settings env))"

text \<open>The steps after the timestamp check, the same in both copies of the code.\<close>

definition check_signature_and_nonce :: "env \<Rightarrow> Request \<Rightarrow> string io" where
  "check_signature_and_nonce env request =
     (case verify_siwe_signature env (siwe_text env request) (header request ''X-TripWire-Signature'')
             (header request ''X-TripWire-Address'') of
        Inl ValueError \<Rightarrow> unauthorized ''Invalid signature or address mismatch''
      | Inl _ \<Rightarrow> unauthorized ''Invalid signature''
      | Inr recovered \<Rightarrow>
          ebind (redis_delete env (nonce_redis_key (header request ''X-TripWire-Nonce''))) (\<lambda>consumed.
            if consumed = 0 then unauthorized ''Invalid or already-used nonce'' else eret recovered))"

definition require_wallet_auth :: "env \<Rightarrow> Request \<Rightarrow> string io" where
  "require_wallet_auth env request =
     (if \<not> list_all (\<lambda>h. header request h \<noteq> []) siwe_headers
      then unauthorized ''Missing authentication headers''
      else ebind (etry (validate_timestamps env None (header request ''X-TripWire-Issued-At'')
               (header request ''X-TripWire-Expiration''))) (\<lambda>r. case r of
             Inl ValueError \<Rightarrow> unauthorized ''Invalid or expired timestamps''
           | Inl e \<Rightarrow> eraise e
           | Inr _ \<Rightarrow> check_signature_and_nonce env request))"

definition verify_siwe :: "env \<Rightarrow> Request \<Rightarrow> string io" where
  "verify_siwe env request =
     (if \<not> list_all (\<lambda>h. header request h \<noteq> []) siwe_headers
      then unauthorized ''Missing SIWE authentication headers''
      else ebind (etry (validate_timestamps env (Some (st_auth_tolerance (en_settings env)))
               (header request ''X-TripWire-Issued-At'') (header request ''X-TripWire-Expiration''))) (\<lambda>r. case r of
             Inl ValueError \<Rightarrow> unauthorized ''Invalid or expired timestamps''
           | Inl e \<Rightarrow> eraise e
           | Inr _ \<Rightarrow> check_signature_and_nonce env request))"

section \<open>Properties\<close>

lemma check_signature_run:
  assumes "run (check_signature_and_nonce env rq) w = (Inr a, w')"
  shows "en_recover env (siwe_text env rq) (header rq ''X-TripWire-Signature'') = Inr a \<and>
     py_lower a = py_lower (header rq ''X-TripWire-Address'') \<and>
     redis_value (en_now env (w_tick w)) (nonce_redis_key (header rq ''X-TripWire-Nonce'')) w \<noteq> None \<and>
     w_redis w' = (w_redis w)(nonce_redis_key (header rq ''X-TripWire-Nonce'') := None)"
  using assms
  by (auto simp: check_signature_and_nonce_def unauthorized_def verify_siwe_signature_def rbind_def redis_delete_def
      redis_put_def redis_value_def split: sum.splits exn.splits option.splits if_splits)

lemma validate_timestamps_run:
  "run (validate_timestamps env tol iat ex) w = (r, w') \<Longrightarrow> w' = w\<lparr>w_tick := Suc (w_tick w)\<rparr> \<and>
   (r = Inr () \<longrightarrow> (\<exists>e. en_parse_iso env ex = Some e \<and> en_now env (w_tick w) \<le> e) \<and>
     (\<forall>t. tol = Some t \<longrightarrow> (\<exists>i. en_parse_iso env iat = Some i \<and> abs (en_now env (w_tick w) - i) \<le> t)))"
  by (auto simp: validate_timestamps_def rbind_def of_option_def split: option.splits if_splits)

lemma wallet_auth_run:
  assumes "run (require_wallet_auth env rq) w = (Inr a, w') \<or> run (verify_siwe env rq) w = (Inr a, w')"
  shows "\<exists>w1. w1 = w\<lparr>w_tick := Suc (w_tick w)\<rparr> \<and> run (check_signature_and_nonce env rq) w1 = (Inr a, w') \<and>
    (\<exists>e. en_parse_iso env (header rq ''X-TripWire-Expiration'') = Some e \<and> en_now env (w_tick w) \<le> e)"
  using assms
  by (auto simp: require_wallet_auth_def verify_siwe_def unauthorized_def
      split: sum.splits exn.splits prod.splits if_splits dest!: validate_timestamps_run)

lemma wallet_auth_facts:
  assumes "run (require_wallet_auth env rq) w = (Inr a, w') \<or> run (verify_siwe env rq) w = (Inr a, w')"
  shows "en_recover env (siwe_text env rq) (header rq ''X-TripWire-Signature'') = Inr a \<and>
     py_lower a = py_lower (header rq ''X-TripWire-Address'') \<and>
     (\<exists>e. en_parse_iso env (header rq ''X-TripWire-Expiration'') = Some e \<and> en_now env (w_tick w) \<le> e) \<and>
     redis_value (en_now env (Suc (w_tick w))) (nonce_redis_key (header rq ''X-TripWire-Nonce'')) w \<noteq> None \<and>
     w_redis w' (nonce_redis_key (header rq ''X-TripWire-Nonce'')) = None"
proof -
  let ?w1 = "w\<lparr>w_tick := Suc (w_tick w)\<rparr>"
  have r: "run (check_signature_and_nonce env rq) ?w1 = (Inr a, w')"
    and e: "\<exists>e. en_parse_iso env (header rq ''X-TripWire-Expiration'') = Some e \<and> en_now env (w_tick w) \<le> e"
    using wallet_auth_run[OF assms] by blast+
  have "redis_value t k ?w1 = redis_value t k w" for t k by (simp add: redis_value_def)
  with check_signature_run[OF r] e show ?thesis by simp
qed

text \<open>
  C21. A wallet is authenticated only on its own fresh signature: success means
  that the signature recovers, over the message built from this very request
  (method, path, body hash, nonce, times) and the server's domain and chain, to
  the claimed address; that the message has not expired; and that its nonce was
  issued, still alive, and is now consumed.
\<close>

theorem wallet_auth_sound:
  assumes "run (require_wallet_auth env rq) w = (Inr a, w') \<or> run (verify_siwe env rq) w = (Inr a, w')"
  shows "en_recover env (siwe_text env rq) (header rq ''X-TripWire-Signature'') = Inr a \<and>
     py_lower a = py_lower (header rq ''X-TripWire-Address'') \<and>
     (\<exists>e. en_parse_iso env (header rq ''X-TripWire-Expiration'') = Some e \<and> en_now env (w_tick w) \<le> e) \<and>
     redis_value (en_now env (Suc (w_tick w))) (nonce_redis_key (header rq ''X-TripWire-Nonce'')) w \<noteq> None \<and>
     w_redis w' (nonce_redis_key (header rq ''X-TripWire-Nonce'')) = None"
  using wallet_auth_facts[OF assms] .

text \<open>
  A signed request works once: after a success, no request that carries the
  same nonce is accepted, by either copy of the check, as long as that nonce is
  not issued again.
\<close>

theorem nonce_single_use:
  assumes "run (require_wallet_auth env rq) w = (Inr a, w') \<or> run (verify_siwe env rq) w = (Inr a, w')"
    and "header rq' ''X-TripWire-Nonce'' = header rq ''X-TripWire-Nonce''"
    and "w_redis v (nonce_redis_key (header rq ''X-TripWire-Nonce'')) =
         w_redis w' (nonce_redis_key (header rq ''X-TripWire-Nonce''))"
  shows "(\<nexists>b v'. run (require_wallet_auth env' rq') v = (Inr b, v')) \<and> (\<nexists>b v'. run (verify_siwe env' rq') v = (Inr b, v'))"
proof -
  let ?k = "nonce_redis_key (header rq ''X-TripWire-Nonce'')"
  have "w_redis w' ?k = None" using wallet_auth_facts[OF assms(1)] by blast
  then have none: "w_redis v ?k = None" using assms(3) by simp
  have "False" if "run (require_wallet_auth env' rq') v = (Inr b, v') \<or> run (verify_siwe env' rq') v = (Inr b, v')" for b v'
    using wallet_auth_facts[OF that] assms(2) none by (simp add: redis_value_def)
  then show ?thesis by blast
qed

text \<open>
  The two copies of the check agree: the tool server accepts a request
  exactly when the HTTP routes do and, in addition, its issue time is within the
  tolerance; the resulting address and state are then the same.
\<close>

theorem siwe_checks_agree:
  "(run (verify_siwe env rq) w = (Inr a, w')) \<longleftrightarrow>
   (run (require_wallet_auth env rq) w = (Inr a, w') \<and>
    (\<exists>i. en_parse_iso env (header rq ''X-TripWire-Issued-At'') = Some i \<and>
       abs (en_now env (w_tick w) - i) \<le> st_auth_tolerance (en_settings env)))"
  by (auto simp: require_wallet_auth_def verify_siwe_def unauthorized_def validate_timestamps_def rbind_def of_option_def
      split: option.splits if_splits)

definition auth_env :: env where
  "auth_env = calm_env\<lparr>en_parse_iso := \<lambda>_. Some 1000\<rparr>"

definition sample_request :: Request where
  "sample_request = \<lparr>rq_header = map_of [(''X-TripWire-Address'', ''0xAb''), (''X-TripWire-Signature'', ''0xaB''),
     (''X-TripWire-Nonce'', ''n1''), (''X-TripWire-Issued-At'', ''990''), (''X-TripWire-Expiration'', ''2000'')],
     rq_method = ''POST'', rq_path = ''/mcp'', rq_body = ''{}'',
     rq_json = Inr (PyDict [])\<rparr>"

definition nonce_world :: world where
  "nonce_world = empty_world\<lparr>w_redis := [''siwe:nonce:n1'' \<mapsto> (1, Some 1300)]\<rparr>"

lemma lower_sample:
  "py_lower ''0xaB'' = py_lower ''0xAb''"
  by code_simp

lemma sample_request_run:
  "\<exists>w'. run (require_wallet_auth auth_env sample_request) nonce_world = (Inr ''0xaB'', w')"
proof -
  have "fst (run (require_wallet_auth auth_env sample_request) nonce_world) = Inr ''0xaB''"
    by (simp add: require_wallet_auth_def siwe_headers_def header_def sample_request_def validate_timestamps_def
        auth_env_def calm_env_def nonce_world_def empty_world_def check_signature_and_nonce_def
        verify_siwe_signature_def lower_sample redis_delete_def redis_value_def
        nonce_redis_key_def live_def of_option_def)
  then show ?thesis by (metis prod.collapse)
qed

theorem wallet_auth_sound_witness:
  "\<exists>w'. run (require_wallet_auth auth_env sample_request) nonce_world = (Inr ''0xaB'', w') \<and>
     w_redis w' ''siwe:nonce:n1'' = None"
proof -
  obtain w' where r: "run (require_wallet_auth auth_env sample_request) nonce_world = (Inr ''0xaB'', w')"
    using sample_request_run by blast
  from wallet_auth_sound[OF disjI1[OF r]] r show ?thesis
    by (auto simp: nonce_redis_key_def header_def sample_request_def)
qed

theorem nonce_single_use_witness:
  "\<exists>w'. run (require_wallet_auth auth_env sample_request) nonce_world = (Inr ''0xaB'', w') \<and>
     (\<nexists>b v. run (require_wallet_auth auth_env sample_request) w' = (Inr b, v))"
proof -
  obtain w' where r: "run (require_wallet_auth auth_env sample_request) nonce_world = (Inr ''0xaB'', w')"
    using sample_request_run by blast
  from nonce_single_use[OF disjI1[OF r] refl refl, of auth_env] r show ?thesis by blast
qed

end
