(* ===== verification/Sessions.thy ===== *)
theory Sessions
  imports Redis_Keys
begin

text \<open>
  \<open>session/manager.py\<close>: sessions with a spending limit, one Redis hash each, and
  \<open>api/routes/session.py\<close>: opening, reading and closing them. The Lua script, \<open>HINCRBY\<close>,
  \<open>DEL\<close> and the creating transaction are atomic in Redis, so each is one function on
  the table of hashes; the manager's methods are sequences of them and other
  clients may act in between. Numbers are kept as numbers (the hash stores their
  decimal texts, which read back to the same values).
\<close>

type_synonym session_table = "string \<Rightarrow> SessionHash option"

record SessionData =
  sd_session_id :: string
  sd_wallet_address :: string
  sd_budget_total :: int
  sd_budget_remaining :: int
  sd_expires_at :: int
  sd_ttl_seconds :: int
  sd_chain_id :: int
  sd_reputation_score :: rat
  sd_agent_class :: string

section \<open>Atomic operations\<close>

definition session_live :: "int \<Rightarrow> session_table \<Rightarrow> string \<Rightarrow> SessionHash option" where
  "session_live time t i = (case t i of
      Some h \<Rightarrow> if live time (sh_key_expires h) then Some h else None
    | None \<Rightarrow> None)"

definition empty_hash :: SessionHash where
  "empty_hash = \<lparr>sh_wallet_address = None, sh_budget_total = None, sh_budget_remaining = None, sh_expires_at = None,
     sh_ttl_seconds = None, sh_chain_id = None, sh_reputation_score = None, sh_agent_class = None,
     sh_key_expires = None\<rparr>"

text \<open>
  The Lua script, run at Redis time \<open>time\<close> with the caller's clock \<open>clock\<close>: its integer
  answer and the table. A hash without a budget makes the comparison raise.
\<close>

definition decrement_lua :: "int \<Rightarrow> string \<Rightarrow> int \<Rightarrow> int \<Rightarrow> session_table \<Rightarrow> int result \<times> session_table" where
  "decrement_lua time i cost clock t = (case session_live time t i of
      None \<Rightarrow> (Inr (-1), t)
    | Some h \<Rightarrow>
        if (case sh_expires_at h of Some e \<Rightarrow> clock > e | None \<Rightarrow> False) then (Inr (-2), t)
        else (case sh_budget_remaining h of
            None \<Rightarrow> (Inl (ExternalError ''lua''), t)
          | Some remaining \<Rightarrow>
              if remaining < cost then (Inr (-3), t)
              else (Inr (remaining - cost), t(i \<mapsto> h\<lparr>sh_budget_remaining := Some (remaining - cost)\<rparr>))))"

definition hincrby_budget :: "int \<Rightarrow> string \<Rightarrow> int \<Rightarrow> session_table \<Rightarrow> int \<times> session_table" where
  "hincrby_budget time i amount t =
     (let h = (case session_live time t i of Some h \<Rightarrow> h | None \<Rightarrow> empty_hash);
          new = (case sh_budget_remaining h of Some b \<Rightarrow> b | None \<Rightarrow> 0) + amount in
      (new, t(i \<mapsto> h\<lparr>sh_budget_remaining := Some new\<rparr>)))"

section \<open>The manager\<close>

definition effective_budget :: "Settings \<Rightarrow> int option \<Rightarrow> int" where
  "effective_budget st budget =
     max 1 (min (case budget of Some b \<Rightarrow> b | None \<Rightarrow> st_session_default_budget st) (st_session_max_budget st))"

definition effective_ttl :: "Settings \<Rightarrow> int option \<Rightarrow> int" where
  "effective_ttl st ttl =
     max 60 (min (case ttl of Some s \<Rightarrow> s | None \<Rightarrow> st_session_default_ttl st) (st_session_max_ttl st))"

definition new_session ::
  "string \<Rightarrow> string \<Rightarrow> int \<Rightarrow> int \<Rightarrow> int \<Rightarrow> int \<Rightarrow> rat \<Rightarrow> string \<Rightarrow> SessionData" where
  "new_session i wallet budget ttl chain expires reputation agent_class =
     \<lparr>sd_session_id = i, sd_wallet_address = wallet, sd_budget_total = budget, sd_budget_remaining = budget,
      sd_expires_at = expires, sd_ttl_seconds = ttl, sd_chain_id = chain,
      sd_reputation_score = reputation, sd_agent_class = agent_class\<rparr>"

definition hash_of_session :: "SessionData \<Rightarrow> int \<Rightarrow> SessionHash" where
  "hash_of_session s key_expires =
     \<lparr>sh_wallet_address = Some (sd_wallet_address s), sh_budget_total = Some (sd_budget_total s),
      sh_budget_remaining = Some (sd_budget_remaining s), sh_expires_at = Some (sd_expires_at s),
      sh_ttl_seconds = Some (sd_ttl_seconds s), sh_chain_id = Some (sd_chain_id s),
      sh_reputation_score = Some (sd_reputation_score s), sh_agent_class = Some (sd_agent_class s),
      sh_key_expires = Some key_expires\<rparr>"

definition session_create ::
  "env \<Rightarrow> string \<Rightarrow> int option \<Rightarrow> int option \<Rightarrow> int option \<Rightarrow> rat \<Rightarrow> string \<Rightarrow> SessionData io" where
  "session_create env wallet budget ttl_seconds chain_id reputation agent_class =
     (let st = en_settings env; ttl = effective_ttl st ttl_seconds;
          chain = (case chain_id of Some c \<Rightarrow> c | None \<Rightarrow> st_siwe_chain_id st) in
      ebind (ebind tick (\<lambda>n. eret (en_token env n))) (\<lambda>i.
      ebind (now env) (\<lambda>clock.
      let s = new_session i wallet (effective_budget st budget) ttl chain (clock + ttl) reputation agent_class in
      ebind (redis_call env) (\<lambda>time.
      ebind (emodify (\<lambda>w. w\<lparr>w_sessions := (w_sessions w)(i \<mapsto> hash_of_session s (time + (ttl + 60)))\<rparr>)) (\<lambda>_.
        eret s)))))"

text \<open>Reading a hash back: a missing mandatory field is a \<open>KeyError\<close>.\<close>

definition session_of_hash :: "string \<Rightarrow> SessionHash \<Rightarrow> SessionData result" where
  "session_of_hash i h =
     rbind (of_option KeyError (sh_wallet_address h)) (\<lambda>wallet.
     rbind (of_option KeyError (sh_budget_total h)) (\<lambda>total.
     rbind (of_option KeyError (sh_budget_remaining h)) (\<lambda>remaining.
     rbind (of_option KeyError (sh_expires_at h)) (\<lambda>expires.
     rbind (of_option KeyError (sh_ttl_seconds h)) (\<lambda>ttl.
     rbind (of_option KeyError (sh_chain_id h)) (\<lambda>chain.
       Inr \<lparr>sd_session_id = i, sd_wallet_address = wallet, sd_budget_total = total,
         sd_budget_remaining = remaining, sd_expires_at = expires, sd_ttl_seconds = ttl, sd_chain_id = chain,
         sd_reputation_score = (case sh_reputation_score h of Some r \<Rightarrow> r | None \<Rightarrow> 0),
         sd_agent_class = (case sh_agent_class h of Some c \<Rightarrow> c | None \<Rightarrow> ''unknown'')\<rparr>))))))"

definition session_get :: "env \<Rightarrow> string \<Rightarrow> SessionData option io" where
  "session_get env i =
     ebind (redis_call env) (\<lambda>time. ebind (egets (\<lambda>w. session_live time (w_sessions w) i)) (\<lambda>h. case h of
       None \<Rightarrow> eret None
     | Some h \<Rightarrow> ebind (elift (session_of_hash i h)) (\<lambda>s. eret (Some s))))"

definition run_decrement :: "env \<Rightarrow> string \<Rightarrow> int \<Rightarrow> int io" where
  "run_decrement env i cost =
     ebind (now env) (\<lambda>clock. ebind (redis_call env) (\<lambda>time.
     ebind (egets (\<lambda>w. decrement_lua time i cost clock (w_sessions w))) (\<lambda>(r, t).
     ebind (emodify (\<lambda>w. w\<lparr>w_sessions := t\<rparr>)) (\<lambda>_. elift r))))"

definition validate_and_decrement :: "env \<Rightarrow> string \<Rightarrow> int \<Rightarrow> SessionData io" where
  "validate_and_decrement env i cost =
     ebind (run_decrement env i cost) (\<lambda>result.
       if result = -1 then eraise SessionNotFound
       else if result = -2 then eraise SessionExpired
       else if result = -3 then eraise InsufficientBudget
       else ebind (session_get env i) (\<lambda>s. case s of
           None \<Rightarrow> eraise SessionNotFound
         | Some session \<Rightarrow> eret session))"

definition session_refund :: "env \<Rightarrow> string \<Rightarrow> int \<Rightarrow> int io" where
  "session_refund env i amount =
     ebind (redis_call env) (\<lambda>time.
     ebind (egets (\<lambda>w. hincrby_budget time i amount (w_sessions w))) (\<lambda>(new, t).
     ebind (emodify (\<lambda>w. w\<lparr>w_sessions := t\<rparr>)) (\<lambda>_. eret new)))"

definition session_close :: "env \<Rightarrow> string \<Rightarrow> SessionData option io" where
  "session_close env i =
     ebind (session_get env i) (\<lambda>s. case s of
       None \<Rightarrow> eret None
     | Some session \<Rightarrow>
         ebind (redis_call env) (\<lambda>_.
         ebind (emodify (\<lambda>w. w\<lparr>w_sessions := (w_sessions w)(i := None)\<rparr>)) (\<lambda>_. eret (Some session))))"

section \<open>Routes\<close>

text \<open>
  \<open>manager\<close> and \<open>resolver\<close> say whether the application has a session manager and an
  identity resolver; \<open>wallet\<close> is the authenticated caller. A response is the
  session with its status.
\<close>

definition open_session ::
  "env \<Rightarrow> bool \<Rightarrow> bool \<Rightarrow> string \<Rightarrow> int option \<Rightarrow> int option \<Rightarrow> int option \<Rightarrow> (SessionData \<times> string) io" where
  "open_session env manager resolver wallet budget ttl_seconds chain_id =
     (if \<not> st_session_enabled (en_settings env) \<or> \<not> manager
      then eraise (HTTPException 501 ''Session system is not enabled'')
      else
        ebind (if resolver then ecatch (ebind tick (\<lambda>n. elift (en_resolve env n wallet
                 (case chain_id of Some c \<Rightarrow> c | None \<Rightarrow> st_siwe_chain_id (en_settings env))))) (\<lambda>_. eret None)
               else eret None) (\<lambda>identity.
        let reputation = (case identity of Some a \<Rightarrow> ai_reputation_score a | None \<Rightarrow> 0);
            agent_class = (case identity of Some a \<Rightarrow> py_or (ai_agent_class a) ''unknown'' | None \<Rightarrow> ''unknown'') in
        ebind (session_create env wallet budget ttl_seconds chain_id reputation agent_class) (\<lambda>s.
          eret (s, ''active''))))"

definition owned_session :: "env \<Rightarrow> bool \<Rightarrow> string \<Rightarrow> string \<Rightarrow> SessionData io" where
  "owned_session env manager wallet i =
     (if \<not> manager then eraise (HTTPException 501 ''Session system is not enabled'')
      else ebind (session_get env i) (\<lambda>s. case s of
          None \<Rightarrow> eraise (HTTPException 404 ''Session not found'')
        | Some session \<Rightarrow>
            if py_lower (sd_wallet_address session) \<noteq> py_lower wallet
            then eraise (HTTPException 403 ''Not the session owner'') else eret session))"

definition get_session :: "env \<Rightarrow> bool \<Rightarrow> string \<Rightarrow> string \<Rightarrow> (SessionData \<times> string) io" where
  "get_session env manager wallet i =
     ebind (owned_session env manager wallet i) (\<lambda>s. ebind (now env) (\<lambda>clock.
       eret (s, if clock > sd_expires_at s then ''expired'' else ''active'')))"

definition close_session :: "env \<Rightarrow> bool \<Rightarrow> string \<Rightarrow> string \<Rightarrow> (SessionData \<times> string) io" where
  "close_session env manager wallet i =
     ebind (owned_session env manager wallet i) (\<lambda>_. ebind (session_close env i) (\<lambda>final. case final of
       None \<Rightarrow> eraise (HTTPException 404 ''Session already closed'')
     | Some s \<Rightarrow> eret (s, ''closed'')))"

section \<open>The budget contract\<close>

text \<open>
  What the callers of the manager rely on. An account \<open>k\<close> in state \<open>s\<close> has a \<open>limit\<close>
  and an amount \<open>spent\<close>; a charge either books its cost or changes nothing, a
  refund of something spent takes it off again, and both leave the other
  accounts alone. \<open>present x s k\<close> says that the account can be reached in
  context \<open>x\<close> (here: at that time).
\<close>

datatype ('c, 'k) budget_op = Charge 'c 'k int | Refund 'c 'k int

locale budget_store =
  fixes charge :: "'c \<Rightarrow> 'k \<Rightarrow> int \<Rightarrow> 's \<Rightarrow> bool \<times> 's"
    and refund :: "'c \<Rightarrow> 'k \<Rightarrow> int \<Rightarrow> 's \<Rightarrow> 's"
    and spent :: "'s \<Rightarrow> 'k \<Rightarrow> int"
    and limit :: "'s \<Rightarrow> 'k \<Rightarrow> int"
    and sound :: "'s \<Rightarrow> 'k \<Rightarrow> bool"
    and present :: "'c \<Rightarrow> 's \<Rightarrow> 'k \<Rightarrow> bool"
  assumes sound_bounds: "sound s k \<Longrightarrow> 0 \<le> spent s k \<and> spent s k \<le> limit s k"
    and charge_yes: "sound s k \<Longrightarrow> 0 \<le> c \<Longrightarrow> charge x k c s = (True, s') \<Longrightarrow>
      sound s' k \<and> spent s' k = spent s k + c \<and> limit s' k = limit s k"
    and charge_no: "charge x k c s = (False, s') \<Longrightarrow> s' = s"
    and charge_other: "k' \<noteq> k \<Longrightarrow> sound s k' \<Longrightarrow> charge x k c s = (b, s') \<Longrightarrow>
      sound s' k' \<and> spent s' k' = spent s k' \<and> limit s' k' = limit s k'"
    and refund_back: "sound s k \<Longrightarrow> present x s k \<Longrightarrow> 0 \<le> a \<Longrightarrow> a \<le> spent s k \<Longrightarrow>
      sound (refund x k a s) k \<and> spent (refund x k a s) k = spent s k - a \<and> limit (refund x k a s) k = limit s k"
    and refund_other: "k' \<noteq> k \<Longrightarrow> sound s k' \<Longrightarrow>
      sound (refund x k a s) k' \<and> spent (refund x k a s) k' = spent s k' \<and> limit (refund x k a s) k' = limit s k'"
begin

text \<open>
  A sequence of operations on all accounts, with the net amount booked on \<open>k\<close>;
  \<open>None\<close> when an operation is not one the callers make: a negative amount, or a
  refund on \<open>k\<close> of more than is spent or of an account that is gone.
\<close>

fun books :: "'k \<Rightarrow> ('c, 'k) budget_op list \<Rightarrow> 's \<Rightarrow> (int \<times> 's) option" where
  "books k [] s = Some (0, s)"
| "books k (Charge x k' c # ops) s =
     (if c < 0 then None else
      case charge x k' c s of (b, s') \<Rightarrow>
        map_option (\<lambda>(n, s''). (n + (if b \<and> k' = k then c else 0), s'')) (books k ops s'))"
| "books k (Refund x k' a # ops) s =
     (if k' = k \<and> (a < 0 \<or> spent s k < a \<or> \<not> present x s k) then None else
      map_option (\<lambda>(n, s''). (n - (if k' = k then a else 0), s'')) (books k ops (refund x k' a s)))"

lemma books_balance:
  "sound s k \<Longrightarrow> books k ops s = Some (n, s') \<Longrightarrow>
   sound s' k \<and> limit s' k = limit s k \<and> spent s' k = spent s k + n"
proof (induction k ops s arbitrary: n s' rule: books.induct)
  case (2 k x k' c ops s)
  obtain b s1 where c: "charge x k' c s = (b, s1)" by fastforce
  have "sound s1 k \<and> limit s1 k = limit s k \<and> spent s1 k = spent s k + (if b \<and> k' = k then c else 0)"
    using 2(2,3) c charge_yes[of s k c x s1] charge_no[of x k' c s s1] charge_other[of k k' s x c b s1]
    by (cases b; cases "k' = k") (auto split: if_splits)
  then show ?case using 2 c by (auto split: if_splits)
next
  case (3 k x k' a ops s)
  have "sound (refund x k' a s) k \<and> limit (refund x k' a s) k = limit s k \<and>
      spent (refund x k' a s) k = spent s k - (if k' = k then a else 0)"
    using 3(2,3) refund_back[of s k x a] refund_other[of k k' s x a]
    by (cases "k' = k") (auto split: if_splits)
  then show ?case using 3 by (auto split: if_splits)
qed auto

lemma books_bounded:
  assumes "sound s k" and "books k ops s = Some (n, s')"
  shows "spent s k + n \<le> limit s k"
  using books_balance[OF assms] sound_bounds[of s' k] by simp

end

section \<open>Interpretation on the Redis operations\<close>

text \<open>A session that was created by the manager: total and remaining budget are there.\<close>

definition hash_sound :: "SessionHash \<Rightarrow> bool" where
  "hash_sound h = (case (sh_budget_total h, sh_budget_remaining h) of
     (Some b, Some r) \<Rightarrow> 0 \<le> r \<and> r \<le> b | _ \<Rightarrow> False)"

definition session_sound :: "session_table \<Rightarrow> string \<Rightarrow> bool" where
  "session_sound t i = (case t i of Some h \<Rightarrow> hash_sound h | None \<Rightarrow> False)"

definition session_total :: "session_table \<Rightarrow> string \<Rightarrow> int" where
  "session_total t i = (case t i of Some h \<Rightarrow> (case sh_budget_total h of Some b \<Rightarrow> b | None \<Rightarrow> 0) | None \<Rightarrow> 0)"

definition session_spent :: "session_table \<Rightarrow> string \<Rightarrow> int" where
  "session_spent t i = session_total t i -
     (case t i of Some h \<Rightarrow> (case sh_budget_remaining h of Some b \<Rightarrow> b | None \<Rightarrow> 0) | None \<Rightarrow> 0)"

definition charge_session :: "int \<times> int \<Rightarrow> string \<Rightarrow> int \<Rightarrow> session_table \<Rightarrow> bool \<times> session_table" where
  "charge_session x i cost t = (case decrement_lua (fst x) i cost (snd x) t of
     (Inr r, t') \<Rightarrow> (0 \<le> r, t') | (Inl _, t') \<Rightarrow> (False, t'))"

definition refund_session :: "int \<times> int \<Rightarrow> string \<Rightarrow> int \<Rightarrow> session_table \<Rightarrow> session_table" where
  "refund_session x i amount t = snd (hincrby_budget (fst x) i amount t)"

definition session_present :: "int \<times> int \<Rightarrow> session_table \<Rightarrow> string \<Rightarrow> bool" where
  "session_present x t i \<longleftrightarrow> session_live (fst x) t i \<noteq> None"

lemmas session_eval = charge_session_def refund_session_def session_present_def session_spent_def session_total_def
  session_sound_def hash_sound_def decrement_lua_def hincrby_budget_def session_live_def

interpretation sessions: budget_store charge_session refund_session session_spent session_total session_sound session_present
proof
  fix t t' :: session_table and i j x c b a
  show "session_sound t i \<Longrightarrow> 0 \<le> session_spent t i \<and> session_spent t i \<le> session_total t i"
    by (auto simp: session_eval split: option.splits)
  show "charge_session x i c t = (False, t') \<Longrightarrow> t' = t"
    by (auto simp: session_eval split: option.splits if_splits sum.splits)
  show "session_sound t i \<Longrightarrow> 0 \<le> c \<Longrightarrow> charge_session x i c t = (True, t') \<Longrightarrow>
      session_sound t' i \<and> session_spent t' i = session_spent t i + c \<and> session_total t' i = session_total t i"
    by (auto simp: session_eval split: option.splits if_splits sum.splits)
  show "j \<noteq> i \<Longrightarrow> session_sound t j \<Longrightarrow> charge_session x i c t = (b, t') \<Longrightarrow>
      session_sound t' j \<and> session_spent t' j = session_spent t j \<and> session_total t' j = session_total t j"
    by (auto simp: session_eval split: option.splits if_splits sum.splits)
  show "session_sound t i \<Longrightarrow> session_present x t i \<Longrightarrow> 0 \<le> a \<Longrightarrow> a \<le> session_spent t i \<Longrightarrow>
      session_sound (refund_session x i a t) i \<and> session_spent (refund_session x i a t) i = session_spent t i - a \<and>
      session_total (refund_session x i a t) i = session_total t i"
    by (auto simp: session_eval Let_def split: option.splits if_splits)
  show "j \<noteq> i \<Longrightarrow> session_sound t j \<Longrightarrow>
      session_sound (refund_session x i a t) j \<and> session_spent (refund_session x i a t) j = session_spent t j \<and>
      session_total (refund_session x i a t) j = session_total t j"
    by (auto simp: session_eval Let_def split: option.splits if_splits)
qed

section \<open>Properties\<close>

definition session_books ::
  "string \<Rightarrow> (int \<times> int, string) budget_op list \<Rightarrow> session_table \<Rightarrow> (int \<times> session_table) option" where
  "session_books = sessions.books"

text \<open>
  C19. A session never spends more than its budget. Over any interleaving of
  charges (through the Lua script) and refunds on all sessions, at any times,
  in which what is refunded to a session was charged to it before, the net
  amount charged stays within the budget the session was created with, and its
  hash keeps saying so.
\<close>

theorem session_spending_bounded:
  assumes "session_sound t i" and "session_books i ops t = Some (n, t')"
  shows "session_spent t i + n \<le> session_total t i \<and> session_sound t' i \<and>
     session_total t' i = session_total t i \<and> session_spent t' i = session_spent t i + n"
  using sessions.books_balance[OF assms[unfolded session_books_def]]
    sessions.books_bounded[OF assms[unfolded session_books_def]] by simp

definition sample_session :: SessionHash where
  "sample_session = empty_hash\<lparr>sh_wallet_address := Some ''0xa'', sh_budget_total := Some 10, sh_budget_remaining := Some 10,
     sh_expires_at := Some 100, sh_ttl_seconds := Some 90, sh_chain_id := Some 8453, sh_key_expires := Some 160\<rparr>"

definition sample_ops :: "(int \<times> int, string) budget_op list" where
  "sample_ops = [Charge (1, 1) ''s'' 7, Charge (2, 2) ''s'' 7, Refund (3, 3) ''s'' 5, Charge (4, 4) ''s'' 8]"

lemma sample_books: "\<exists>t'. session_books ''s'' sample_ops [''s'' \<mapsto> sample_session] = Some (10, t')"
  by (simp add: session_books_def sample_ops_def session_eval sample_session_def empty_hash_def live_def Let_def)

theorem session_spending_bounded_witness:
  "\<exists>t'. session_books ''s'' sample_ops [''s'' \<mapsto> sample_session] = Some (10, t') \<and>
     session_spent [''s'' \<mapsto> sample_session] ''s'' + 10 \<le> session_total [''s'' \<mapsto> sample_session] ''s''"
proof -
  obtain t' where t': "session_books ''s'' sample_ops [''s'' \<mapsto> sample_session] = Some (10, t')"
    using sample_books by blast
  have "session_sound [''s'' \<mapsto> sample_session] ''s''"
    by (simp add: session_eval sample_session_def empty_hash_def)
  from session_spending_bounded[OF this t'] t' show ?thesis by blast
qed

lemma session_roundtrip: "session_of_hash (sd_session_id s) (hash_of_session s e) = Inr s"
  by (simp add: session_of_hash_def hash_of_session_def)

lemma session_create_run:
  assumes "run (session_create env wallet b ttl ch rep cls) w = (Inr s, w')"
  shows "sd_budget_total s = effective_budget (en_settings env) b \<and> sd_budget_remaining s = sd_budget_total s \<and>
    sd_ttl_seconds s = effective_ttl (en_settings env) ttl \<and>
    w_sessions w' = (w_sessions w)(sd_session_id s \<mapsto>
      hash_of_session s (en_now env (w_tick w + 2) + (sd_ttl_seconds s + 60)))"
  using assms by (auto simp: session_create_def new_session_def Let_def split: option.splits)

lemma effective_bounds:
  "1 \<le> effective_budget st b" "effective_budget st b \<le> max 1 (st_session_max_budget st)"
  "60 \<le> effective_ttl st ttl" "effective_ttl st ttl \<le> max 60 (st_session_max_ttl st)"
  by (simp_all add: effective_budget_def effective_ttl_def)

text \<open>
  A created session reads back: its budget and lifetime are within the
  configured bounds, and reading it while its key lives gives exactly what
  creation returned.
\<close>

theorem session_create_get:
  assumes "run (session_create env wallet b ttl ch rep cls) w = (Inr s, w')"
    and "en_redis_fault env (w_tick w') = None"
    and "en_now env (w_tick w') < en_now env (w_tick w + 2) + (sd_ttl_seconds s + 60)"
  shows "fst (run (session_get env (sd_session_id s)) w') = Inr (Some s) \<and>
     1 \<le> sd_budget_total s \<and> sd_budget_total s \<le> max 1 (st_session_max_budget (en_settings env)) \<and>
     60 \<le> sd_ttl_seconds s \<and> sd_ttl_seconds s \<le> max 60 (st_session_max_ttl (en_settings env)) \<and>
     session_sound (w_sessions w') (sd_session_id s) \<and> session_spent (w_sessions w') (sd_session_id s) = 0"
proof -
  note r = session_create_run[OF assms(1)]
  let ?h = "hash_of_session s (en_now env (w_tick w + 2) + (sd_ttl_seconds s + 60))"
  have t: "w_sessions w' (sd_session_id s) = Some ?h" using r by simp
  have "session_live (en_now env (w_tick w')) (w_sessions w') (sd_session_id s) = Some ?h"
    using t assms(3) by (simp add: session_live_def live_def hash_of_session_def)
  then have "fst (run (session_get env (sd_session_id s)) w') = Inr (Some s)"
    using assms(2) by (simp add: session_get_def session_roundtrip)
  moreover have "hash_sound ?h" using r effective_bounds(1)[of "en_settings env" b]
    by (simp add: hash_sound_def hash_of_session_def)
  moreover have "session_spent (w_sessions w') (sd_session_id s) = 0"
    using r t by (simp add: session_spent_def session_total_def hash_of_session_def)
  ultimately show ?thesis using r t effective_bounds[of "en_settings env"] by (simp add: session_sound_def)
qed

theorem session_create_get_witness:
  "\<exists>s w'. run (session_create calm_env ''0xa'' (Some 500000000) None None 0 ''bot'') empty_world = (Inr s, w') \<and>
     sd_budget_total s = 100000000 \<and> fst (run (session_get calm_env (sd_session_id s)) w') = Inr (Some s)"
proof -
  let ?m = "session_create calm_env ''0xa'' (Some 500000000) None None 0 ''bot''"
  have "\<exists>s w'. run ?m empty_world = (Inr s, w') \<and> sd_budget_total s = 100000000 \<and> w_tick w' = 3 \<and> sd_ttl_seconds s = 900"
    by (simp add: session_create_def calm_env_def empty_world_def default_settings_def effective_budget_def
        effective_ttl_def new_session_def Let_def)
  then obtain s w' where "run ?m empty_world = (Inr s, w')" "sd_budget_total s = 100000000" "w_tick w' = 3"
    "sd_ttl_seconds s = 900" by blast
  then show ?thesis using session_create_get[of calm_env "''0xa''" "Some 500000000" None None 0 "''bot''" empty_world s w']
    by (auto simp: calm_env_def empty_world_def)
qed

lemma validate_and_decrement_run:
  assumes "\<forall>n. en_redis_fault env n = None"
    and "\<forall>n. session_live (en_now env n) (w_sessions w) i = Some h" and "session_of_hash i h = Inr s"
  shows "run (validate_and_decrement env i cost) w =
      (if sd_expires_at s < en_now env (w_tick w) then (Inl SessionExpired, w\<lparr>w_tick := w_tick w + 2\<rparr>)
       else if sd_budget_remaining s < cost then (Inl InsufficientBudget, w\<lparr>w_tick := w_tick w + 2\<rparr>)
       else (Inr (s\<lparr>sd_budget_remaining := sd_budget_remaining s - cost\<rparr>),
         w\<lparr>w_tick := w_tick w + 3, w_sessions := (w_sessions w)(i \<mapsto>
           h\<lparr>sh_budget_remaining := Some (sd_budget_remaining s - cost)\<rparr>)\<rparr>))"
proof -
  have f: "sh_expires_at h = Some (sd_expires_at s)" "sh_budget_remaining h = Some (sd_budget_remaining s)"
    and s: "session_of_hash i (h\<lparr>sh_budget_remaining := Some b\<rparr>) = Inr (s\<lparr>sd_budget_remaining := b\<rparr>)" for b
    using assms(3) by (auto simp: session_of_hash_def rbind_eq_Inr of_option_def split: option.splits)
  have lv: "session_live (en_now env n) (w_sessions w) i = Some h" for n using assms(2) by simp
  have "live (en_now env n) (sh_key_expires h)" for n
    using lv[of n] by (auto simp: session_live_def split: option.splits if_splits)
  then have up: "session_live (en_now env n) ((w_sessions w)(i \<mapsto> h\<lparr>sh_budget_remaining := Some b\<rparr>)) i =
      Some (h\<lparr>sh_budget_remaining := Some b\<rparr>)" for n b
    by (simp add: session_live_def)
  show ?thesis using f s lv up assms(1)
    by (simp add: validate_and_decrement_def run_decrement_def decrement_lua_def session_get_def eval_nat_numeral)
qed

text \<open>
  Validation and charging are exact: for a readable session, an expired
  one or one whose budget is too small is refused with the matching error and
  nothing changes; otherwise exactly the cost is taken and the returned snapshot
  shows the new balance. An unknown session is refused as not found.
\<close>

theorem validate_and_decrement_exact:
  assumes "\<forall>n. en_redis_fault env n = None"
    and "\<forall>n. session_live (en_now env n) (w_sessions w) i = Some h" and "session_of_hash i h = Inr s"
  shows "run (validate_and_decrement env i cost) w =
      (if sd_expires_at s < en_now env (w_tick w) then (Inl SessionExpired, w\<lparr>w_tick := w_tick w + 2\<rparr>)
       else if sd_budget_remaining s < cost then (Inl InsufficientBudget, w\<lparr>w_tick := w_tick w + 2\<rparr>)
       else (Inr (s\<lparr>sd_budget_remaining := sd_budget_remaining s - cost\<rparr>),
         w\<lparr>w_tick := w_tick w + 3, w_sessions := (w_sessions w)(i \<mapsto>
           h\<lparr>sh_budget_remaining := Some (sd_budget_remaining s - cost)\<rparr>)\<rparr>)) \<and>
    (\<forall>j. (\<forall>n. session_live (en_now env n) (w_sessions w) j = None) \<longrightarrow>
       run (validate_and_decrement env j cost) w = (Inl SessionNotFound, w\<lparr>w_tick := w_tick w + 2\<rparr>))"
proof
  show "\<forall>j. (\<forall>n. session_live (en_now env n) (w_sessions w) j = None) \<longrightarrow>
       run (validate_and_decrement env j cost) w = (Inl SessionNotFound, w\<lparr>w_tick := w_tick w + 2\<rparr>)"
    using assms(1) by (simp add: validate_and_decrement_def run_decrement_def decrement_lua_def eval_nat_numeral)
qed (rule validate_and_decrement_run[OF assms])

theorem validate_and_decrement_exact_witness:
  "fst (run (validate_and_decrement (calm_env\<lparr>en_now := \<lambda>_. 50\<rparr>) ''s'' 4)
     (empty_world\<lparr>w_sessions := [''s'' \<mapsto> sample_session]\<rparr>)) =
   Inr ((new_session ''s'' ''0xa'' 10 90 8453 100 0 ''unknown'')\<lparr>sd_budget_remaining := 6\<rparr>)"
proof -
  let ?env = "calm_env\<lparr>en_now := \<lambda>_. 50\<rparr>" and ?w = "empty_world\<lparr>w_sessions := [''s'' \<mapsto> sample_session]\<rparr>"
  let ?s = "new_session ''s'' ''0xa'' 10 90 8453 100 0 ''unknown''"
  have "\<forall>n. en_redis_fault ?env n = None" by (simp add: calm_env_def)
  moreover have "\<forall>n. session_live (en_now ?env n) (w_sessions ?w) ''s'' = Some sample_session"
    by (simp add: session_live_def live_def sample_session_def empty_hash_def)
  moreover have "session_of_hash ''s'' sample_session = Inr ?s"
    by (simp add: session_of_hash_def sample_session_def empty_hash_def new_session_def)
  ultimately have "run (validate_and_decrement ?env ''s'' 4) ?w =
      (if sd_expires_at ?s < en_now ?env (w_tick ?w) then (Inl SessionExpired, ?w\<lparr>w_tick := w_tick ?w + 2\<rparr>)
       else if sd_budget_remaining ?s < 4 then (Inl InsufficientBudget, ?w\<lparr>w_tick := w_tick ?w + 2\<rparr>)
       else (Inr (?s\<lparr>sd_budget_remaining := sd_budget_remaining ?s - 4\<rparr>),
         ?w\<lparr>w_tick := w_tick ?w + 3, w_sessions := (w_sessions ?w)(''s'' \<mapsto>
           sample_session\<lparr>sh_budget_remaining := Some (sd_budget_remaining ?s - 4)\<rparr>)\<rparr>))"
    using validate_and_decrement_exact[of ?env ?w "''s''" sample_session ?s 4] by blast
  then show ?thesis by (simp add: new_session_def)
qed

text \<open>
  A refund revives a vanished session as an immortal fragment: when the key
  has expired in the meantime, the refund creates a hash that holds nothing but
  the refunded amount and never expires, and every later read of that session
  raises.
\<close>

theorem refund_revives_fragment:
  assumes "en_redis_fault env (w_tick w) = None"
    and "session_live (en_now env (w_tick w)) (w_sessions w) i = None"
  shows "\<exists>w'. run (session_refund env i a) w = (Inr a, w') \<and>
     (\<forall>time. session_live time (w_sessions w') i = Some (empty_hash\<lparr>sh_budget_remaining := Some a\<rparr>)) \<and>
     (\<forall>env' w''. w_sessions w'' i = w_sessions w' i \<longrightarrow> en_redis_fault env' (w_tick w'') = None \<longrightarrow>
        fst (run (session_get env' i) w'') = Inl KeyError)"
proof -
  let ?h = "empty_hash\<lparr>sh_budget_remaining := Some a\<rparr>"
  let ?w = "w\<lparr>w_tick := Suc (w_tick w), w_sessions := (w_sessions w)(i \<mapsto> ?h)\<rparr>"
  have "hincrby_budget (en_now env (w_tick w)) i a (w_sessions w) = (a, (w_sessions w)(i \<mapsto> ?h))"
    using assms(2) by (simp add: hincrby_budget_def empty_hash_def)
  then have r: "run (session_refund env i a) w = (Inr a, ?w)" using assms(1) by (simp add: session_refund_def)
  have l: "session_live time t i = Some ?h" if "t i = Some ?h" for time t
    using that by (simp add: session_live_def live_def empty_hash_def)
  have g: "session_of_hash i ?h = Inl KeyError" by (simp add: session_of_hash_def empty_hash_def of_option_def)
  have "fst (run (session_get env' i) w'') = Inl KeyError"
    if "w_sessions w'' i = Some ?h" "en_redis_fault env' (w_tick w'') = None" for env' w''
    using that l[of "w_sessions w''"] g by (simp add: session_get_def)
  with r l show ?thesis by (intro exI[of _ ?w]) auto
qed

theorem refund_revives_fragment_witness:
  "\<exists>w'. run (session_refund calm_env ''s'' 3000) (empty_world\<lparr>w_sessions := [''s'' \<mapsto> sample_session]\<rparr>) = (Inr 3000, w') \<and>
     fst (run (session_get calm_env ''s'') w') = Inl KeyError"
proof -
  let ?w = "empty_world\<lparr>w_sessions := [''s'' \<mapsto> sample_session]\<rparr>"
  have "en_redis_fault calm_env (w_tick ?w) = None" "session_live (en_now calm_env (w_tick ?w)) (w_sessions ?w) ''s'' = None"
    by (simp_all add: calm_env_def session_live_def live_def sample_session_def empty_hash_def empty_world_def)
  from refund_revives_fragment[OF this, of 3000] obtain w' where w': "run (session_refund calm_env ''s'' 3000) ?w = (Inr 3000, w')"
    "\<forall>env' w''. w_sessions w'' ''s'' = w_sessions w' ''s'' \<longrightarrow> en_redis_fault env' (w_tick w'') = None \<longrightarrow>
        fst (run (session_get env' ''s'') w'') = Inl KeyError" by blast
  then have "fst (run (session_get calm_env ''s'') w') = Inl KeyError" by (simp add: calm_env_def)
  with w' show ?thesis by blast
qed

end
