(* ===== verification/Floats.thy ===== *)
theory Floats
  imports TW_Prelude "HOL-Library.Log_Nat"
begin

text \<open>
  Python's floats (IEEE doubles) on exact rationals: \<open>f64\<close> rounds to the nearest
  double, ties to even. Values from \<open>2 ^ 1024\<close> on stand for infinity; the callers test
  for them. The relative error of a rounding in the normal range is at most \<open>2 ^ -53\<close>.
\<close>

definition two_pow :: "int \<Rightarrow> rat" where
  "two_pow e = (if 0 \<le> e then 2 ^ nat e else 1 / 2 ^ nat (- e))"

definition ilog2 :: "rat \<Rightarrow> int" where
  "ilog2 r = (case quotient_of r of (n, d) \<Rightarrow>
     let k = int (floorlog 2 (nat n)) - int (floorlog 2 (nat d)) in if two_pow k \<le> r then k else k - 1)"

definition half_even :: "rat \<Rightarrow> int" where
  "half_even x = (let f = \<lfloor>x\<rfloor>; d = x - of_int f in
     if d < 1 / 2 \<or> (d = 1 / 2 \<and> even f) then f else f + 1)"

definition f64 :: "rat \<Rightarrow> rat" where
  "f64 r = (if r = 0 then 0 else
     let ulp = two_pow (max (ilog2 \<bar>r\<bar>) (- 1022) - 52) in sgn r * of_int (half_even (\<bar>r\<bar> / ulp)) * ulp)"

section \<open>Powers of two\<close>

lemma two_pow_powi: "two_pow e = 2 powi e"
  by (simp add: two_pow_def power_int_def field_simps)

lemma two_pow_pos [simp]: "0 < two_pow e"
  by (simp add: two_pow_def)

lemma two_pow_nonzero [simp]: "two_pow e \<noteq> 0"
  using two_pow_pos[of e] by linarith

lemma two_pow_less: "two_pow a < two_pow b \<longleftrightarrow> a < b"
proof
  assume "two_pow a < two_pow b"
  then show "a < b" using power_int_increasing[of b a "2 :: rat"] by (force simp: two_pow_powi)
qed (simp add: two_pow_powi power_int_strict_increasing)

lemma two_pow_diff: "two_pow (x - y) = two_pow x / two_pow y"
  by (simp add: two_pow_powi power_int_diff)

lemma two_pow_bound:
  assumes "0 < n"
  shows "two_pow (int (floorlog 2 (nat n)) - 1) \<le> of_int n \<and> of_int n < two_pow (int (floorlog 2 (nat n)))"
proof -
  let ?a = "floorlog 2 (nat n)"
  have b: "2 ^ (?a - 1) \<le> nat n \<and> nat n < 2 ^ ?a" using assms floorlog_bounds[of "nat n" 2] by simp
  have a: "0 < ?a" using assms by (simp add: floorlog_def)
  have "two_pow (int ?a - 1) = of_nat (2 ^ (?a - 1))" "two_pow (int ?a) = of_nat (2 ^ ?a)"
    using a by (simp_all add: two_pow_def nat_diff_distrib)
  moreover have "(of_int n :: rat) = of_nat (nat n)" using assms by simp
  ultimately show ?thesis using b by (simp only: of_nat_le_iff of_nat_less_iff)
qed

lemma ilog2_correct:
  assumes "0 < r"
  shows "two_pow (ilog2 r) \<le> r \<and> r < two_pow (ilog2 r + 1)"
proof -
  obtain n d where q: "quotient_of r = (n, d)" by fastforce
  have d: "0 < d" and r: "r = of_int n / of_int d" using quotient_of_denom_pos[OF q] quotient_of_div[OF q] by auto
  with assms have n: "0 < n" by (simp add: zero_less_divide_iff)
  let ?a = "int (floorlog 2 (nat n))" and ?b = "int (floorlog 2 (nat d))"
  note N = two_pow_bound[OF n] and D = two_pow_bound[OF d]
  have "two_pow (?a - 1 - ?b) < r" unfolding r two_pow_diff[of "?a - 1"] using N D d n by (intro frac_less2) auto
  moreover have "r < two_pow (?a - (?b - 1))"
    unfolding r two_pow_diff[of ?a "?b - 1"] using N D d n by (intro frac_less) auto
  moreover have "?a - 1 - ?b = ?a - ?b - 1" "?a - (?b - 1) = ?a - ?b + 1" by simp_all
  ultimately show ?thesis using q by (auto simp: ilog2_def Let_def)
qed

lemma ilog2_unique:
  assumes "two_pow e \<le> r" and "r < two_pow (e + 1)"
  shows "ilog2 r = e"
proof -
  have "0 < r" using assms(1) two_pow_pos[of e] by linarith
  from ilog2_correct[OF this] assms
  have "two_pow (ilog2 r) < two_pow (e + 1)" "two_pow e < two_pow (ilog2 r + 1)" by linarith+
  then show ?thesis by (simp add: two_pow_less)
qed

section \<open>Rounding\<close>

lemma half_even_error: "\<bar>of_int (half_even x) - x\<bar> \<le> 1 / 2"
proof -
  have f: "of_int \<lfloor>x\<rfloor> \<le> x" "x < of_int \<lfloor>x\<rfloor> + 1" by linarith+
  show ?thesis
  proof (cases "x - of_int \<lfloor>x\<rfloor> < 1 / 2 \<or> (x - of_int \<lfloor>x\<rfloor> = 1 / 2 \<and> even \<lfloor>x\<rfloor>)")
    case True
    then have "half_even x = \<lfloor>x\<rfloor>" by (simp add: half_even_def Let_def)
    then show ?thesis using True f by (simp only: abs_le_iff) linarith
  next
    case False
    then have "half_even x = \<lfloor>x\<rfloor> + 1" by (simp add: half_even_def Let_def)
    then show ?thesis using False f by (simp only: abs_le_iff of_int_add of_int_1) linarith
  qed
qed

lemma half_even_near:
  assumes "\<bar>x - of_int m\<bar> < 1 / 2"
  shows "half_even x = m"
proof -
  have "\<bar>of_int (half_even x) - of_int m :: rat\<bar> < 1" using half_even_error[of x] assms by linarith
  then show ?thesis by (simp flip: of_int_diff)
qed

lemma f64_near:
  assumes "two_pow e \<le> r" "r < two_pow (e + 1)" "- 1022 \<le> e" "\<bar>r / two_pow (e - 52) - of_int m\<bar> < 1 / 2"
  shows "f64 r = of_int m * two_pow (e - 52)"
proof -
  have "0 < r" using assms(1) two_pow_pos[of e] by linarith
  then show ?thesis using assms ilog2_unique[OF assms(1,2)] half_even_near[OF assms(4)]
    by (simp add: f64_def Let_def)
qed

lemma f64_error:
  assumes "two_pow (- 1022) \<le> r"
  shows "\<bar>f64 r - r\<bar> \<le> r / 2 ^ 53"
proof -
  have r: "0 < r" using assms two_pow_pos[of "- 1022"] by linarith
  let ?e = "ilog2 r" and ?u = "two_pow (ilog2 r - 52)"
  have e: "two_pow ?e \<le> r" "r < two_pow (?e + 1)" using ilog2_correct[OF r] by auto
  with assms have "two_pow (- 1022) < two_pow (?e + 1)" by linarith
  then have f: "f64 r = of_int (half_even (r / ?u)) * ?u" using r by (simp add: f64_def Let_def two_pow_less)
  have "\<bar>f64 r - r\<bar> = \<bar>of_int (half_even (r / ?u)) - r / ?u\<bar> * ?u"
    using two_pow_pos[of "?e - 52"] abs_mult_pos'[of ?u "of_int (half_even (r / ?u)) - r / ?u"]
    by (simp add: f right_diff_distrib mult.commute less_imp_le)
  also have "\<dots> \<le> 1 / 2 * ?u" using half_even_error by (intro mult_right_mono) (auto simp: less_imp_le)
  also have "\<dots> = two_pow ?e / 2 ^ 53" by (simp add: two_pow_diff[of ?e]) (simp add: two_pow_def)
  also have "\<dots> \<le> r / 2 ^ 53" using e by (simp add: divide_right_mono)
  finally show ?thesis .
qed

end
