(* ===== verification/Mcp_Auth.thy ===== *)
theory Mcp_Auth
  imports Siwe_Auth Sessions Floats
begin

text \<open>
  \<open>mcp/types.py\<close> and \<open>mcp/auth.py\<close>: how a tool call is authenticated and paid for, and
  \<open>utils/caip.py\<close>. A tool handler is a function of the arguments and the
  authentication context that acts on the world; every statement below holds for
  all of them. The x402 facilitator and the identity resolver are parameters, audit
  and log lines have no effect on the outcome and are left out.
\<close>

section \<open>Types\<close>

datatype AuthTier = PUBLIC | SIWX | SESSION | X402

record MCPAuthContext =
  ac_auth_tier :: AuthTier
  ac_agent_address :: "string option"
  ac_identity :: "AgentIdentity option"
  ac_reputation_score :: rat
  ac_payment_verified :: bool
  ac_payer_address :: "string option"
  ac_session_id :: "string option"
  ac_budget_remaining :: "int option"

definition anonymous_context :: "AuthTier \<Rightarrow> MCPAuthContext" where
  "anonymous_context tier = \<lparr>ac_auth_tier = tier, ac_agent_address = None, ac_identity = None,
     ac_reputation_score = 0, ac_payment_verified = False, ac_payer_address = None, ac_session_id = None,
     ac_budget_remaining = None\<rparr>"

type_synonym handler = "pyval \<Rightarrow> MCPAuthContext \<Rightarrow> pydict io"

record ToolDef =
  td_name :: string
  td_description :: string
  td_input_schema :: pydict
  td_handler :: handler
  td_auth_tier :: AuthTier
  td_price :: "string option"
  td_networks :: "string list"
  td_min_reputation :: rat
  td_product :: string

definition td_network :: "ToolDef \<Rightarrow> string" where
  "td_network td = (case td_networks td of [] \<Rightarrow> ''eip155:8453'' | n # _ \<Rightarrow> n)"

definition caip2_to_chain_id :: "string \<Rightarrow> int result" where
  "caip2_to_chain_id network = (case py_split (CHR '':'') network of
      [_, chain] \<Rightarrow> of_option ValueError (py_int chain)
    | _ \<Rightarrow> Inl ValueError)"

section \<open>Prices\<close>

text \<open>
  A price is read as a double, scaled in doubles and truncated.
\<close>

definition price_to_smallest_units :: "string option \<Rightarrow> int result" where
  "price_to_smallest_units price = (case price of
      None \<Rightarrow> Inr 0
    | Some p \<Rightarrow>
        if p = [] then Inr 0
        else (case decimal_of_string (dropWhile (\<lambda>c. c = CHR ''$'') p) of
            Some (DFin r) \<Rightarrow>
              let x = f64 (f64 r * 1000000) in if 2 ^ 1024 \<le> \<bar>x\<bar> then Inl OverflowError else Inr (trunc_rat x)
          | Some (DInf _) \<Rightarrow> Inl OverflowError
          | _ \<Rightarrow> Inl ValueError))"

section \<open>Session, wallet and public callers\<close>

definition verify_session :: "env \<Rightarrow> Request \<Rightarrow> ToolDef \<Rightarrow> MCPAuthContext io" where
  "verify_session env request td =
     (let session_id = header request ''X-TripWire-Session'' in
      if session_id = [] then unauthorized ''Missing X-TripWire-Session header''
      else ebind (elift (price_to_smallest_units (td_price td))) (\<lambda>cost.
        ebind (etry (validate_and_decrement env session_id cost)) (\<lambda>r. case r of
            Inl SessionNotFound \<Rightarrow> unauthorized ''Session not found''
          | Inl SessionExpired \<Rightarrow> unauthorized ''Session expired''
          | Inl InsufficientBudget \<Rightarrow> eraise (HTTPException 402 ''Insufficient session budget'')
          | Inl e \<Rightarrow> eraise e
          | Inr s \<Rightarrow> eret ((anonymous_context SESSION)\<lparr>
              ac_agent_address := Some (sd_wallet_address s), ac_reputation_score := sd_reputation_score s,
              ac_payment_verified := True, ac_payer_address := Some (sd_wallet_address s),
              ac_session_id := Some session_id, ac_budget_remaining := Some (sd_budget_remaining s)\<rparr>))))"

definition resolve_caller :: "env \<Rightarrow> bool \<Rightarrow> ToolDef \<Rightarrow> string \<Rightarrow> AgentIdentity option io" where
  "resolve_caller env resolver td address =
     (if resolver then ebind (elift (caip2_to_chain_id (td_network td))) (\<lambda>chain.
        ebind tick (\<lambda>n. elift (en_resolve env n address chain)))
      else eret None)"

definition identity_reputation :: "AgentIdentity option \<Rightarrow> rat" where
  "identity_reputation i = (case i of Some a \<Rightarrow> ai_reputation_score a | None \<Rightarrow> 0)"

definition build_auth_context :: "env \<Rightarrow> bool \<Rightarrow> Request \<Rightarrow> ToolDef \<Rightarrow> MCPAuthContext io" where
  "build_auth_context env resolver request td = (case td_auth_tier td of
      PUBLIC \<Rightarrow> eret (anonymous_context PUBLIC)
    | SIWX \<Rightarrow>
        ebind (verify_siwe env request) (\<lambda>wallet.
        ebind (resolve_caller env resolver td wallet) (\<lambda>identity.
          eret ((anonymous_context SIWX)\<lparr>ac_agent_address := Some wallet, ac_identity := identity,
            ac_reputation_score := identity_reputation identity\<rparr>)))
    | _ \<Rightarrow> eraise (HTTPException 500 ''Unknown auth tier''))"

section \<open>Rate limit\<close>

definition rate_key :: "string \<Rightarrow> string" where
  "rate_key address = ''mcp:rate:'' @ address"

definition rate_exceeded :: "env \<Rightarrow> string \<Rightarrow> bool io" where
  "rate_exceeded env address =
     ebind (redis_incr env (rate_key address)) (\<lambda>current.
     ebind (ewhen (current = 1) (redis_expire env (rate_key address) 60)) (\<lambda>_. eret (current > 60)))"

definition rate_message :: string where
  "rate_message = ''Rate limit exceeded: max 60 tool calls per minute''"

text \<open>\<open>format(x, '.1f')\<close>.\<close>

definition fmt_1f :: "rat \<Rightarrow> string" where
  "fmt_1f x = (let n = half_even (\<bar>x\<bar> * 10) in
     (if x < 0 then ''-'' else []) @ int_str (n div 10) @ ''.'' @ int_str (n mod 10))"

definition reputation_message :: "rat \<Rightarrow> ToolDef \<Rightarrow> string" where
  "reputation_message score td = ''Reputation too low: '' @ fmt_1f score @ '' < '' @ fmt_1f (td_min_reputation td)"

definition reputation_blocked :: "ToolDef \<Rightarrow> rat \<Rightarrow> bool" where
  "reputation_blocked td score \<longleftrightarrow> td_min_reputation td > 0 \<and> score < td_min_reputation td"

section \<open>Payment hooks\<close>

record PaymentContext =
  pc_payment_header :: string
  pc_payment_hash :: string
  pc_dedup_key :: string
  pc_payer_address :: string
  pc_tool_name :: string
  pc_tool_args :: pyval
  pc_auth_context :: "MCPAuthContext option"
  pc_result :: "pydict option"
  pc_has_error :: bool

definition x402_context :: "string \<Rightarrow> AgentIdentity option \<Rightarrow> MCPAuthContext" where
  "x402_context payer identity = (let a = (if payer = [] then None else Some payer) in
     (anonymous_context X402)\<lparr>ac_agent_address := a, ac_identity := identity,
       ac_reputation_score := identity_reputation identity, ac_payment_verified := True, ac_payer_address := a\<rparr>)"

definition hook_rate_limit :: "env \<Rightarrow> string \<Rightarrow> string \<Rightarrow> unit io" where
  "hook_rate_limit env address dedup_key =
     ebind (etry (rate_exceeded env address)) (\<lambda>r. case r of
         Inr False \<Rightarrow> eret ()
       | Inr True \<Rightarrow> ebind (best_effort (redis_delete env dedup_key)) (\<lambda>_. eraise (HTTPException 429 rate_message))
       | Inl (HTTPException status detail) \<Rightarrow>
           ebind (ewhen (status = 429) (best_effort (redis_delete env dedup_key))) (\<lambda>_.
             eraise (HTTPException status detail))
       | Inl _ \<Rightarrow> eret ())"

definition payment_key :: "env \<Rightarrow> string \<Rightarrow> string \<Rightarrow> string" where
  "payment_key env payment_header tool = ''x402:payment:'' @ en_sha256_hex env payment_header @ '':'' @ tool"

definition before_execution ::
  "env \<Rightarrow> bool \<Rightarrow> ToolDef \<Rightarrow> PaymentContext \<Rightarrow> (MCPAuthContext \<times> PaymentContext) io" where
  "before_execution env resolver td pctx =
     (let payment_hash = en_sha256_hex env (pc_payment_header pctx);
          dedup_key = payment_key env (pc_payment_header pctx) (td_name td);
          payer = pc_payer_address pctx in
      ebind (redis_set_nx env dedup_key 86400) (\<lambda>was_set.
      if \<not> was_set then eraise (HTTPException 402 ''Payment already used'')
      else
        ebind (if payer \<noteq> [] then resolve_caller env resolver td payer else eret None) (\<lambda>identity.
        let ctx = x402_context payer identity in
        if reputation_blocked td (ac_reputation_score ctx)
        then ebind (redis_delete env dedup_key) (\<lambda>_.
          eraise (HTTPException 403 (reputation_message (ac_reputation_score ctx) td)))
        else
          ebind (if payer \<noteq> [] then hook_rate_limit env payer dedup_key else eret ()) (\<lambda>_.
            eret (ctx, pctx\<lparr>pc_payment_hash := payment_hash, pc_dedup_key := dedup_key,
              pc_auth_context := Some ctx\<rparr>)))))"

definition after_execution :: "PaymentContext \<Rightarrow> pydict \<Rightarrow> PaymentContext" where
  "after_execution pctx result = pctx\<lparr>pc_result := Some result, pc_has_error := dict_has ''error'' result\<rparr>"

definition on_settlement_failure :: "env \<Rightarrow> PaymentContext \<Rightarrow> PaymentContext io" where
  "on_settlement_failure env pctx =
     ebind (best_effort (redis_delete env (pc_dedup_key pctx))) (\<lambda>_. eret (pctx\<lparr>pc_has_error := True\<rparr>))"

section \<open>The x402 life cycle\<close>

datatype outcome = Outcome_result pydict | Outcome_error string string

definition get_x402_server :: "env \<Rightarrow> unit io" where
  "get_x402_server env = (if en_x402_available env then eret ()
     else eraise (HTTPException 501 ''x402 payment support is not installed''))"

definition payment_option :: "env \<Rightarrow> ToolDef \<Rightarrow> PaymentOption" where
  "payment_option env td = \<lparr>pay_scheme = ''exact'',
     pay_price = (case td_price td of Some p \<Rightarrow> py_or p ''$0.00'' | None \<Rightarrow> ''$0.00''),
     pay_network = td_network td, pay_to = st_treasury (en_settings env)\<rparr>"

definition x402_verify :: "env \<Rightarrow> string \<Rightarrow> PaymentOption \<Rightarrow> VerifyResult io" where
  "x402_verify env payment_header option = ebind tick (\<lambda>n. elift (en_x402_verify env n payment_header option))"

text \<open>
  The answer of \<open>server.settle\<close> says whether the payment was settled; the caller does not look
  at it, so an unsuccessful settlement ends normally too. \<open>w_settled\<close> logs what was settled.
\<close>

definition x402_settle :: "env \<Rightarrow> string \<Rightarrow> bool io" where
  "x402_settle env payment_header = ebind tick (\<lambda>n. ebind (elift (en_x402_settle env n payment_header)) (\<lambda>success.
     ebind (ewhen success (emodify (\<lambda>w. w\<lparr>w_settled := w_settled w @ [payment_header]\<rparr>))) (\<lambda>_. eret success)))"

definition verified_payer :: "VerifyResult \<Rightarrow> string" where
  "verified_payer v = (case vr_payer v of
      Some (c # cs) \<Rightarrow> c # cs
    | _ \<Rightarrow> (case vr_from_address v of Some a \<Rightarrow> a | None \<Rightarrow> []))"

definition verify_payment :: "env \<Rightarrow> ToolDef \<Rightarrow> string \<Rightarrow> string io" where
  "verify_payment env td payment_header =
     ebind (get_x402_server env) (\<lambda>_.
     ebind (etry (x402_verify env payment_header (payment_option env td))) (\<lambda>r. case r of
         Inl _ \<Rightarrow> eraise (HTTPException 402 ''Payment verification failed'')
       | Inr v \<Rightarrow> if \<not> vr_valid v then eraise (HTTPException 402 ''Payment verification failed'')
                 else eret (verified_payer v)))"

definition settle_or_withhold :: "env \<Rightarrow> PaymentContext \<Rightarrow> pydict \<Rightarrow> outcome io" where
  "settle_or_withhold env pctx tool_result =
     ebind (etry (x402_settle env (pc_payment_header pctx))) (\<lambda>r. case r of
         Inl _ \<Rightarrow> ebind (on_settlement_failure env pctx) (\<lambda>_.
           eret (Outcome_error ''Payment settlement failed -- tool result withheld'' ''SETTLEMENT_FAILED''))
       | Inr _ \<Rightarrow> eret (Outcome_result tool_result))"

text \<open>Steps 5 to 8, after the handler returned or raised.\<close>

definition finish_x402_call :: "env \<Rightarrow> PaymentContext \<Rightarrow> pydict result \<Rightarrow> outcome io" where
  "finish_x402_call env pctx r = (case r of
      Inl _ \<Rightarrow> ebind (best_effort (redis_delete env (pc_dedup_key pctx))) (\<lambda>_.
        eret (Outcome_error ''Tool execution failed'' ''INTERNAL_ERROR''))
    | Inr tool_result \<Rightarrow>
        let pctx' = after_execution pctx tool_result in
        if pc_has_error pctx'
        then ebind (best_effort (redis_delete env (pc_dedup_key pctx'))) (\<lambda>_. eret (Outcome_result tool_result))
        else settle_or_withhold env pctx' tool_result)"

definition x402_tool_executor :: "env \<Rightarrow> bool \<Rightarrow> Request \<Rightarrow> ToolDef \<Rightarrow> pyval \<Rightarrow> outcome io" where
  "x402_tool_executor env resolver request td tool_args =
     (let payment_header = header request ''PAYMENT-SIGNATURE'' in
      if payment_header = []
      then eraise (HTTPException 402 ''Payment required. Include a PAYMENT-SIGNATURE header.'')
      else
        ebind (verify_payment env td payment_header) (\<lambda>payer.
        ebind (before_execution env resolver td
          \<lparr>pc_payment_header = payment_header, pc_payment_hash = [], pc_dedup_key = [], pc_payer_address = payer,
           pc_tool_name = td_name td, pc_tool_args = tool_args, pc_auth_context = None, pc_result = None,
           pc_has_error = False\<rparr>) (\<lambda>(ctx, pctx).
        if ac_agent_address ctx = None
        then eraise (HTTPException 401 ''Could not determine agent address from payment'')
        else
          ebind (etry (td_handler td tool_args ctx)) (finish_x402_call env pctx))))"

end
