(* ===== verification/Mcp_Tools.thy ===== *)
theory Mcp_Tools
  imports Trigger_Store Mcp_Auth
begin

text \<open>
  \<open>mcp/tools.py\<close>: the handlers that create, list and remove endpoints and triggers and search
  events. A handler takes the arguments of the call as a JSON value and answers with a
  dictionary; a missing key or a value of the wrong type raises as in Python. Times are
  seconds; the last answers of a query are ordered by time of creation, ties in the order
  of insertion.
\<close>

section \<open>Helpers\<close>

definition tool_error :: "string \<Rightarrow> string \<Rightarrow> pydict" where
  "tool_error msg code' = [(''error'', PyStr msg), (''code'', PyStr code')]"

definition agent_lower :: "MCPAuthContext \<Rightarrow> string result" where
  "agent_lower ctx = (case ac_agent_address ctx of Some a \<Rightarrow> Inr (py_lower a) | None \<Rightarrow> Inl AttributeError)"

definition py_of_option :: "('a \<Rightarrow> pyval) \<Rightarrow> 'a option \<Rightarrow> pyval" where
  "py_of_option f x = (case x of Some v \<Rightarrow> f v | None \<Rightarrow> PyNone)"

definition filter_dump :: "TriggerFilter \<Rightarrow> pyval" where
  "filter_dump f = PyDict [(''field'', PyStr (tf_field f)), (''op'', PyStr (tf_op f)), (''value'', tf_value f)]"

definition py_ints :: "int list \<Rightarrow> pyval" where
  "py_ints is = PyList (map PyInt is)"

text \<open>\<open>cache.invalidate_pattern("topic:*")\<close> on the Redis copy of the trigger index, best effort.\<close>

definition invalidate_topics :: "env \<Rightarrow> unit io" where
  "invalidate_topics env = best_effort (redis_call env)"

section \<open>Registering endpoints\<close>

text \<open>What \<open>urlparse\<close> makes of its argument: falsy values are the empty string.\<close>

definition url_text :: "pyval \<Rightarrow> string result" where
  "url_text v = (case v of PyStr s \<Rightarrow> Inr s | _ \<Rightarrow> if py_truthy v then Inl AttributeError else Inr [])"

definition wire_provider :: "env \<Rightarrow> registry \<Rightarrow> string \<Rightarrow> string \<Rightarrow> string \<Rightarrow> string \<Rightarrow> unit io" where
  "wire_provider env rg endpoint_id url recipient secret =
     ebind (ebind tick (\<lambda>n. elift (rg_create_app rg n endpoint_id (''tripwire-'' @ endpoint_id)))) (\<lambda>project.
     ebind (ebind tick (\<lambda>n. elift (rg_create_endpoint rg n project url (''TripWire endpoint for '' @ recipient) secret))) (\<lambda>ce.
       endpoint_set_provider env endpoint_id project ce))"

record core_result =
  cr_endpoint_id :: string
  cr_webhook_secret :: string
  cr_mode :: pyval
  cr_url :: pyval
  cr_chains :: pyval

definition create_endpoint_core :: "env \<Rightarrow> registry \<Rightarrow> pyval \<Rightarrow> MCPAuthContext \<Rightarrow> (pydict + core_result) io" where
  "create_endpoint_core env rg params ctx =
     ebind (elift (subscript ''url'' params)) (\<lambda>url.
     ebind (elift (get_or ''mode'' (PyStr ''execute'') params)) (\<lambda>mode.
     ebind (elift (get_or ''chains'' (PyList [PyInt 8453]) params)) (\<lambda>chain_list.
     ebind (elift (get_or ''recipient'' (py_of_option PyStr (ac_agent_address ctx)) params)) (\<lambda>recipient.
     ebind (elift (get_or ''policies'' (PyDict []) params)) (\<lambda>policies.
     ebind (elift (url_text url)) (\<lambda>text.
     ebind tick (\<lambda>n.
     case validate_endpoint_url (st_app_env (en_settings env) = ''development'') (rg_getaddrinfo rg n) text of
       Inl e \<Rightarrow> if e = ValueError then eret (Inl (tool_error (rg_exc_text rg e) ''INVALID_URL'')) else eraise e
     | Inr _ \<Rightarrow>
         ebind (elift (agent_lower ctx)) (\<lambda>owner.
         ebind (check_endpoint_quota env owner) (\<lambda>_.
         ebind (now env) (\<lambda>_.
         ebind (uuid4 env) (\<lambda>endpoint_id.
         ebind (ebind tick (\<lambda>n. eret (en_token env n))) (\<lambda>secret.
         ebind (elift (py_lower_val recipient)) (\<lambda>recipient_lower.
         ebind (elift (rg_policies rg policies)) (\<lambda>po.
         ebind (endpoint_insert env rg endpoint_id recipient_lower owner po
           [(''url'', url), (''mode'', mode), (''chains'', chain_list)]) (\<lambda>_.
         (let done = Inr \<lparr>cr_endpoint_id = endpoint_id, cr_webhook_secret = secret, cr_mode = mode, cr_url = url, cr_chains = chain_list\<rparr> in
          if mode = PyStr ''execute'' \<and> rg_provider rg
          then ebind (etry (wire_provider env rg endpoint_id text (py_str (en_py_str env) recipient) secret)) (\<lambda>r. case r of
              Inr _ \<Rightarrow> eret done
            | Inl _ \<Rightarrow> ebind (endpoint_delete env endpoint_id) (\<lambda>_.
                eret (Inl (tool_error ''Webhook provider setup failed. Endpoint was not created.'' ''WEBHOOK_SETUP_FAILED''))))
          else eret done))))))))))))))))"

definition register_endpoint :: "env \<Rightarrow> registry \<Rightarrow> handler" where
  "register_endpoint env rg params ctx = ebind (create_endpoint_core env rg params ctx) (\<lambda>core. case core of
      Inl err \<Rightarrow> eret err
    | Inr c \<Rightarrow> eret [(''endpoint_id'', PyStr (cr_endpoint_id c)), (''webhook_secret'', PyStr (cr_webhook_secret c)),
        (''mode'', cr_mode c), (''url'', cr_url c)])"

section \<open>Creating triggers\<close>

text \<open>The columns of a trigger described by a dictionary of the caller.\<close>

definition custom_columns :: "pyval \<Rightarrow> pydict \<Rightarrow> pydict" where
  "custom_columns chain_list d =
     [(''name'', dict_get ''name'' PyNone d), (''abi'', dict_get ''abi'' (PyList []) d),
      (''contract_address'', dict_get ''contract_address'' PyNone d), (''chain_ids'', dict_get ''chain_ids'' chain_list d),
      (''filter_rules'', dict_get ''filter_rules'' (PyList []) d),
      (''webhook_event_type'', dict_get ''webhook_event_type'' (PyStr ''payment.confirmed'') d),
      (''reputation_threshold'', dict_get ''reputation_threshold'' (PyFloat (DFin 0) ''0.0'') d)]"

definition template_columns :: "TriggerTemplate \<Rightarrow> string \<Rightarrow> pyval \<Rightarrow> pyval \<Rightarrow> pyval \<Rightarrow> pydict" where
  "template_columns t name contract chain_list filters =
     [(''name'', PyStr name), (''abi'', PyList (map PyDict (tt_abi t))), (''contract_address'', contract),
      (''chain_ids'', chain_list), (''filter_rules'', filters), (''webhook_event_type'', PyStr (tt_webhook_event_type t)),
      (''reputation_threshold'', PyFloat (DFin (tt_reputation_threshold t)) [])]"

definition default_filter_rules :: "TriggerTemplate \<Rightarrow> pyval" where
  "default_filter_rules t = PyList (map filter_dump (tt_default_filters t))"

text \<open>The event signature must be a string, since \<open>compute_topic0\<close> strips it.\<close>

definition signature_of :: "pyval \<Rightarrow> string result" where
  "signature_of d = rbind (subscript ''event_signature'' d) (expect_str AttributeError)"

definition create_owned_trigger ::
  "env \<Rightarrow> registry \<Rightarrow> string \<Rightarrow> string \<Rightarrow> int \<Rightarrow> string \<Rightarrow> pydict \<Rightarrow> Trigger io" where
  "create_owned_trigger env rg owner endpoint_id time sig columns = ebind (uuid4 env) (\<lambda>trigger_id.
     trigger_create env rg trigger_id owner endpoint_id sig (compute_topic0 rg sig) time columns)"

definition middleware_template ::
  "env \<Rightarrow> registry \<Rightarrow> string \<Rightarrow> string \<Rightarrow> pyval \<Rightarrow> int \<Rightarrow> pyval \<Rightarrow> string option io" where
  "middleware_template env rg owner endpoint_id chain_list time slug =
     ebind (check_trigger_quota env owner) (\<lambda>_.
     ebind (get_by_slug env (py_str (en_py_str env) slug)) (\<lambda>template. case template of
         None \<Rightarrow> eret None
       | Some t \<Rightarrow> ebind (create_owned_trigger env rg owner endpoint_id time (tt_event_signature t)
             (template_columns t (tt_name t) PyNone (if py_truthy chain_list then chain_list else py_ints (tt_default_chains t))
               (default_filter_rules t))) (\<lambda>tr. eret (Some (tg_id tr)))))"

definition middleware_custom ::
  "env \<Rightarrow> registry \<Rightarrow> string \<Rightarrow> string \<Rightarrow> pyval \<Rightarrow> int \<Rightarrow> pyval \<Rightarrow> string option io" where
  "middleware_custom env rg owner endpoint_id chain_list time ct =
     ebind (check_trigger_quota env owner) (\<lambda>_.
     ebind (elift (expect_dict AttributeError ct)) (\<lambda>d.
     ebind (elift (signature_of ct)) (\<lambda>sig.
     ebind (create_owned_trigger env rg owner endpoint_id time sig (custom_columns chain_list d)) (\<lambda>tr. eret (Some (tg_id tr))))))"

definition is_http_exception :: "exn \<Rightarrow> bool" where
  "is_http_exception e = (case e of HTTPException _ _ \<Rightarrow> True | _ \<Rightarrow> False)"

text \<open>The triggers of the new endpoint; on an \<open>HTTPException\<close> the endpoint is deleted again.\<close>

definition finish_middleware :: "env \<Rightarrow> registry \<Rightarrow> pyval \<Rightarrow> string \<Rightarrow> core_result \<Rightarrow> pydict io" where
  "finish_middleware env rg params owner c =
     (let endpoint_id = cr_endpoint_id c; chain_list = cr_chains c in
      ebind (now env) (\<lambda>time.
      ebind (elift (get_or ''template_slugs'' (PyList []) params)) (\<lambda>slugs.
      ebind (elift (get_or ''custom_triggers'' (PyList []) params)) (\<lambda>customs.
      ebind (etry (
        ebind (elift (iterate slugs)) (\<lambda>ss.
        ebind (efor ss (middleware_template env rg owner endpoint_id chain_list time)) (\<lambda>ids1.
        ebind (elift (iterate customs)) (\<lambda>cs.
        ebind (efor cs (middleware_custom env rg owner endpoint_id chain_list time)) (\<lambda>ids2.
          eret (List.map_filter (\<lambda>x. x) (ids1 @ ids2)))))))) (\<lambda>r. case r of
          Inl e \<Rightarrow> if is_http_exception e then ebind (best_effort (endpoint_delete env endpoint_id)) (\<lambda>_. eraise e) else eraise e
        | Inr made \<Rightarrow>
            ebind (ewhen (made \<noteq> []) (invalidate_topics env)) (\<lambda>_.
            eret [(''endpoint_id'', PyStr endpoint_id), (''webhook_secret'', PyStr (cr_webhook_secret c)),
              (''trigger_ids'', PyList (map PyStr made)), (''mode'', cr_mode c), (''url'', cr_url c),
              (''_deprecated'', PyBool True), (''migration_hint'', PyStr ''Use register_endpoint + create_trigger separately'')]))))))"

definition register_middleware :: "env \<Rightarrow> registry \<Rightarrow> handler" where
  "register_middleware env rg params ctx = ebind (create_endpoint_core env rg params ctx) (\<lambda>core. case core of
      Inl err \<Rightarrow> eret err
    | Inr c \<Rightarrow> ebind (elift (agent_lower ctx)) (\<lambda>owner. finish_middleware env rg params owner c))"

definition create_trigger :: "env \<Rightarrow> registry \<Rightarrow> handler" where
  "create_trigger env rg params ctx =
     ebind (elift (agent_lower ctx)) (\<lambda>owner.
     ebind (check_trigger_quota env owner) (\<lambda>_.
     ebind (elift (subscript ''endpoint_id'' params)) (\<lambda>eid.
     let endpoint_id = py_str (en_py_str env) eid in
     ebind (endpoint_get_by_id env endpoint_id) (\<lambda>endpoint. case endpoint of
         None \<Rightarrow> eret (tool_error ''Endpoint not found'' ''NOT_FOUND'')
       | Some ep \<Rightarrow>
           if py_lower (ep_owner_address ep) \<noteq> owner then eret (tool_error ''Not authorized'' ''FORBIDDEN'')
           else
             ebind (now env) (\<lambda>time.
             ebind (elift (expect_dict AttributeError params)) (\<lambda>d.
             ebind (elift (signature_of params)) (\<lambda>sig.
             ebind (create_owned_trigger env rg owner endpoint_id time sig (custom_columns (py_ints (ep_chains ep)) d)) (\<lambda>t.
             ebind (invalidate_topics env) (\<lambda>_.
               eret [(''trigger_id'', PyStr (tg_id t)), (''endpoint_id'', eid), (''event_signature'', PyStr (tg_event_signature t)),
                 (''active'', PyBool (tg_active t))]))))))))) "

definition activate_template :: "env \<Rightarrow> registry \<Rightarrow> handler" where
  "activate_template env rg params ctx =
     ebind (elift (agent_lower ctx)) (\<lambda>owner.
     ebind (check_trigger_quota env owner) (\<lambda>_.
     ebind (elift (subscript ''slug'' params)) (\<lambda>slug.
     ebind (elift (subscript ''endpoint_id'' params)) (\<lambda>eid.
     ebind (elift (get_or ''params'' (PyDict []) params)) (\<lambda>custom.
     let endpoint_id = py_str (en_py_str env) eid in
     ebind (get_by_slug env (py_str (en_py_str env) slug)) (\<lambda>template. case template of
         None \<Rightarrow> eret (tool_error ''Template not found'' ''NOT_FOUND'')
       | Some t \<Rightarrow>
           ebind (endpoint_get_by_id env endpoint_id) (\<lambda>endpoint. case endpoint of
               None \<Rightarrow> eret (tool_error ''Endpoint not found'' ''NOT_FOUND'')
             | Some ep \<Rightarrow>
                 if py_lower (ep_owner_address ep) \<noteq> owner then eret (tool_error ''Not authorized'' ''FORBIDDEN'')
                 else
                   ebind (elift (expect_dict AttributeError custom)) (\<lambda>cd.
                   let filters = dict_get ''filter_rules'' (default_filter_rules t) cd;
                       chain_list = dict_get ''chain_ids'' (py_ints (tt_default_chains t)) cd;
                       contract = dict_get ''contract_address'' PyNone cd in
                   ebind (now env) (\<lambda>time.
                   ebind (create_owned_trigger env rg owner endpoint_id time (tt_event_signature t)
                     (template_columns t (tt_name t @ '' (from template)'') contract chain_list filters)) (\<lambda>tr.
                   ebind (best_effort (db_call env)) (\<lambda>_.
                   ebind (invalidate_topics env) (\<lambda>_.
                     eret [(''trigger_id'', PyStr (tg_id tr)), (''template_slug'', slug), (''endpoint_id'', eid),
                       (''event_signature'', PyStr (tg_event_signature tr)), (''active'', PyBool True)])))))))))))) "

section \<open>Listing, deleting, status\<close>

definition list_triggers :: "env \<Rightarrow> handler" where
  "list_triggers env params ctx =
     ebind (elift (agent_lower ctx)) (\<lambda>owner.
     ebind (list_by_owner env owner) (\<lambda>triggers.
     ebind (elift (get_or ''active_only'' (PyBool True) params)) (\<lambda>active_only.
     let items = map (\<lambda>t. PyDict [(''id'', PyStr (tg_id t)), (''name'', py_of_option PyStr (tg_name t)),
           (''endpoint_id'', PyStr (tg_endpoint_id t)), (''event_signature'', PyStr (tg_event_signature t)),
           (''chain_ids'', py_ints (tg_chain_ids t)), (''active'', PyBool (tg_active t)),
           (''created_at'', py_of_option PyInt (tg_created_at t))])
         (filter (\<lambda>t. \<not> py_truthy active_only \<or> tg_active t) triggers) in
     eret [(''triggers'', PyList items), (''count'', PyInt (int (length items)))])))"

definition delete_trigger :: "env \<Rightarrow> registry \<Rightarrow> handler" where
  "delete_trigger env rg params ctx =
     ebind (elift (subscript ''trigger_id'' params)) (\<lambda>tid.
     let trigger_id = py_str (en_py_str env) tid in
     ebind (trigger_get_by_id env rg trigger_id) (\<lambda>trigger. case trigger of
         None \<Rightarrow> eret (tool_error ''Trigger not found'' ''NOT_FOUND'')
       | Some t \<Rightarrow>
           ebind (elift (agent_lower ctx)) (\<lambda>owner.
           if py_lower (tg_owner_address t) \<noteq> owner then eret (tool_error ''Not authorized'' ''FORBIDDEN'')
           else ebind (trigger_deactivate env rg trigger_id) (\<lambda>deactivated. case deactivated of
               None \<Rightarrow> eret (tool_error ''Failed to deactivate trigger'' ''INTERNAL'')
             | Some _ \<Rightarrow> ebind (invalidate_topics env) (\<lambda>_.
                 eret [(''trigger_id'', tid), (''active'', PyBool False)])))))"

definition list_templates :: "env \<Rightarrow> handler" where
  "list_templates env params ctx =
     ebind (templates_list_public env) (\<lambda>templates.
     ebind (elift (get_or ''category'' PyNone params)) (\<lambda>category.
     let items = map (\<lambda>t. PyDict [(''slug'', PyStr (tt_slug t)), (''name'', PyStr (tt_name t)),
           (''description'', py_of_option PyStr (tt_description t)), (''category'', PyStr (tt_category t)),
           (''event_signature'', PyStr (tt_event_signature t)), (''default_chains'', py_ints (tt_default_chains t)),
           (''parameter_schema'', PyList (map PyDict (tt_parameter_schema t))),
           (''reputation_threshold'', PyFloat (DFin (tt_reputation_threshold t)) []),
           (''install_count'', PyInt (tt_install_count t))])
         (filter (\<lambda>t. \<not> py_truthy category \<or> PyStr (tt_category t) = category) templates) in
     eret [(''templates'', PyList items), (''count'', PyInt (int (length items)))]))"

fun state_value :: "ExecutionState \<Rightarrow> string" where
  "state_value PROVISIONAL = ''provisional''"
| "state_value CONFIRMED = ''confirmed''"
| "state_value FINALIZED = ''finalized''"
| "state_value REORGED = ''reorged''"

fun source_value :: "TrustSource \<Rightarrow> string" where
  "source_value FACILITATOR = ''facilitator''"
| "source_value ONCHAIN = ''onchain''"

definition get_trigger_status :: "env \<Rightarrow> registry \<Rightarrow> handler" where
  "get_trigger_status env rg params ctx =
     ebind (elift (subscript ''trigger_id'' params)) (\<lambda>tid.
     let trigger_id = py_str (en_py_str env) tid in
     ebind (trigger_get_by_id env rg trigger_id) (\<lambda>trigger. case trigger of
         None \<Rightarrow> eret (tool_error ''Trigger not found'' ''NOT_FOUND'')
       | Some t \<Rightarrow>
           ebind (elift (agent_lower ctx)) (\<lambda>owner.
           if py_lower (tg_owner_address t) \<noteq> owner then eret (tool_error ''Not authorized'' ''FORBIDDEN'')
           else
             (let by_trigger = (\<lambda>w. filter (\<lambda>r. er_trigger_id r = Some trigger_id) (w_events w));
                  by_endpoint = (\<lambda>w. filter (\<lambda>r. er_endpoint_id r = Some (tg_endpoint_id t)) (w_events w)) in
              ebind (etry (query env by_trigger)) (\<lambda>r1.
              ebind (case r1 of Inr rows \<Rightarrow> eret (int (length rows))
                     | Inl _ \<Rightarrow> ebind (etry (query env by_endpoint)) (\<lambda>r2.
                         eret (case r2 of Inr rows \<Rightarrow> int (length rows) | Inl _ \<Rightarrow> -1))) (\<lambda>event_count.
              ebind (etry (ebind (query env (\<lambda>w. take 1 (newest_first (by_trigger w)))) (\<lambda>rows.
                if rows \<noteq> [] then eret rows else query env (\<lambda>w. take 1 (newest_first (by_endpoint w)))))) (\<lambda>r3.
              let state = (case r3 of
                    Inr (row # _) \<Rightarrow> PyStr (state_value (fst (execution_state_from_status (er_status row))))
                  | _ \<Rightarrow> PyNone) in
              eret [(''trigger_id'', PyStr (tg_id t)), (''name'', py_of_option PyStr (tg_name t)),
                (''event_signature'', PyStr (tg_event_signature t)), (''chain_ids'', py_ints (tg_chain_ids t)),
                (''active'', PyBool (tg_active t)), (''event_count'', PyInt event_count),
                (''last_event_execution_state'', state), (''created_at'', py_of_option PyInt (tg_created_at t))])))))))"

section \<open>Searching events\<close>

definition event_summary :: "EventRow \<Rightarrow> pyval" where
  "event_summary e = (case execution_state_from_status (er_status e) of (state, safe, source) \<Rightarrow>
     PyDict [(''id'', PyStr (er_id e)), (''tx_hash'', PyStr (er_tx_hash e)), (''chain_id'', py_of_option PyInt (er_chain_id e)),
       (''status'', PyStr (er_status e)), (''block_number'', PyInt (er_block_number e)), (''created_at'', PyInt (er_created_at e)),
       (''execution_state'', PyStr (state_value state)), (''safe_to_execute'', PyBool safe), (''trust_source'', PyStr (source_value source))])"

text \<open>\<open>min(limit, 100)\<close>; a negative limit is refused by the database.\<close>

definition row_limit :: "pyval \<Rightarrow> int result" where
  "row_limit v = (case v of PyInt i \<Rightarrow> Inr (min i 100) | PyBool b \<Rightarrow> Inr (if b then 1 else 0) | _ \<Rightarrow> Inl TypeError)"

definition chain_filter :: "env \<Rightarrow> pyval \<Rightarrow> (EventRow \<Rightarrow> bool) result" where
  "chain_filter env v = (if \<not> py_truthy v then Inr (\<lambda>_. True)
     else (case py_int (py_str (en_py_str env) v) of
         Some c \<Rightarrow> Inr (\<lambda>r. er_chain_id r = Some c)
       | None \<Rightarrow> Inl constraint))"

definition status_filter :: "env \<Rightarrow> pyval \<Rightarrow> EventRow \<Rightarrow> bool" where
  "status_filter env v r = (\<not> py_truthy v \<or> er_status r = py_str (en_py_str env) v)"

definition owned_endpoint_ids :: "string \<Rightarrow> world \<Rightarrow> string list" where
  "owned_endpoint_ids owner w =
     map ep_id (filter (\<lambda>e. ep_owner_address e = owner \<and> ep_active e) (w_endpoints w)) @
     map iv_id (filter (\<lambda>r. iv_owner_address r = owner \<and> iv_active r) (w_invalid_endpoints w))"

definition linked_events :: "string list \<Rightarrow> int \<Rightarrow> world \<Rightarrow> string list" where
  "linked_events ids limit w = remdups (take (nat limit) (map fst (filter (\<lambda>(_, ep). ep \<in> set ids) (rev (w_event_endpoints w)))))"

definition no_events :: pydict where
  "no_events = [(''events'', PyList []), (''count'', PyInt 0)]"

definition search_events :: "env \<Rightarrow> handler" where
  "search_events env params ctx =
     ebind (elift (agent_lower ctx)) (\<lambda>owner.
     ebind (query env (owned_endpoint_ids owner)) (\<lambda>endpoint_ids'.
     if endpoint_ids' = [] then eret no_events
     else
       ebind (elift (rbind (get_or ''limit'' (PyInt 50) params) row_limit)) (\<lambda>limit.
       ebind (elift (get_or ''status'' PyNone params)) (\<lambda>status.
       ebind (elift (get_or ''chain_id'' PyNone params)) (\<lambda>chain.
       let prefetch = (if py_truthy status \<or> py_truthy chain then 500 else limit) in
       ebind (if prefetch < 0 then eraise constraint else query env (linked_events endpoint_ids' prefetch)) (\<lambda>ids.
       if ids = [] then eret no_events
       else
         ebind (elift (chain_filter env chain)) (\<lambda>on_chain.
         ebind (if limit < 0 then eraise constraint
           else query env (\<lambda>w. take (nat limit) (newest_first (filter (\<lambda>r. er_id r \<in> set ids \<and> status_filter env status r \<and> on_chain r)
             (w_events w))))) (\<lambda>rows.
         eret [(''events'', PyList (map event_summary rows)), (''count'', PyInt (int (length rows)))]))))))))"

end
