(* ===== verification/Mcp_Explore.thy ===== *)
theory Mcp_Explore
  imports Mcp_Tools
begin

text \<open>
  The handlers of \<open>mcp/tools.py\<close> that only answer questions: the events of a verified
  contract, the pools of a known protocol (\<open>mcp/protocols.py\<close>), and the validation of a
  trigger before it is created; and the table of all handlers.
\<close>

section \<open>Contract ABIs\<close>

definition EXPLORER_URLS :: "(string \<times> string) list" where
  "EXPLORER_URLS = [(''base'', ''https://api.basescan.org/api''), (''ethereum'', ''https://api.etherscan.io/api''),
     (''arbitrum'', ''https://api.arbiscan.io/api'')]"

text \<open>\<open>^0x[0-9a-fA-F]{40}$\<close>, where \<open>$\<close> also matches before a final newline.\<close>

definition drop_newline :: "string \<Rightarrow> string" where
  "drop_newline s = (if s \<noteq> [] \<and> last s = CHR 0x0A then butlast s else s)"

definition is_address_text :: "string \<Rightarrow> bool" where
  "is_address_text s = (let t = drop_newline s in length t = 42 \<and> py_startswith t ''0x'' \<and> list_all is_hex (drop 2 t))"

fun rmap :: "('a \<Rightarrow> 'b result) \<Rightarrow> 'a list \<Rightarrow> 'b list result" where
  "rmap f [] = Inr []"
| "rmap f (x # xs) = rbind (f x) (\<lambda>y. rbind (rmap f xs) (\<lambda>ys. Inr (y # ys)))"

definition parse_event_signature :: "pyval \<Rightarrow> pyval list \<Rightarrow> env \<Rightarrow> string result" where
  "parse_event_signature name inputs env =
     rbind (rmap (\<lambda>i. rbind (get_or ''type'' (PyStr []) i) (expect_str TypeError)) inputs) (\<lambda>types.
       Inr (py_str (en_py_str env) name @ ''('' @ py_join '','' types @ '')''))"

definition abi_input :: "pyval \<Rightarrow> (pyval \<times> pyval list) result" where
  "abi_input i =
     rbind (get_or ''name'' (PyStr []) i) (\<lambda>name. rbind (get_or ''type'' (PyStr []) i) (\<lambda>ty.
     rbind (get_or ''indexed'' (PyBool False) i) (\<lambda>indexed.
       Inr (PyDict [(''name'', name), (''type'', ty), (''indexed'', indexed)], if py_truthy indexed then [] else [name]))))"

definition abi_event :: "env \<Rightarrow> pyval \<Rightarrow> pyval list result" where
  "abi_event env item =
     rbind (get_or ''type'' PyNone item) (\<lambda>ty.
     if ty \<noteq> PyStr ''event'' then Inr []
     else rbind (get_or ''name'' (PyStr []) item) (\<lambda>name.
       rbind (get_or ''inputs'' (PyList []) item) (\<lambda>v. rbind (iterate v) (\<lambda>inputs.
       rbind (parse_event_signature name inputs env) (\<lambda>sig.
       rbind (rmap abi_input inputs) (\<lambda>is.
         Inr [PyDict [(''name'', name), (''signature'', PyStr sig), (''inputs'', PyList (map fst is)),
           (''filterable_fields'', PyList (concat (map snd is)))]]))))))"

definition fetch_abi :: "env \<Rightarrow> registry \<Rightarrow> handler" where
  "fetch_abi env rg params ctx =
     ebind (elift (subscript ''contract_address'' params)) (\<lambda>av.
     ebind (elift (subscript ''chain'' params)) (\<lambda>cv.
     ebind (elift (expect_str TypeError av)) (\<lambda>contract.
     if \<not> is_address_text contract
     then eret (tool_error ''Invalid contract address format. Expected 0x followed by 40 hex characters.'' ''INVALID_INPUT'')
     else (case cv of
         PyList _ \<Rightarrow> eraise TypeError
       | PyDict _ \<Rightarrow> eraise TypeError
       | _ \<Rightarrow>
         (let chain = py_str (en_py_str env) cv in
          case (case cv of PyStr s \<Rightarrow> map_of EXPLORER_URLS s | _ \<Rightarrow> None) of
            None \<Rightarrow> eret (tool_error (''Unsupported chain '' @ [CHR 0x27] @ chain @ [CHR 0x27] @ ''. Supported: base, ethereum, arbitrum'') ''INVALID_INPUT'')
          | Some url \<Rightarrow>
              (let req = [(''module'', PyStr ''contract''), (''action'', PyStr ''getabi''), (''address'', PyStr contract)] @
                     (if rg_api_key rg chain = [] then [] else [(''apikey'', PyStr (rg_api_key rg chain))]) in
               ebind tick (\<lambda>n. case rg_explorer rg n url req of
                   Explorer_timeout \<Rightarrow> eret (tool_error ''Block explorer API timed out. Try again later.'' ''TIMEOUT'')
                 | Explorer_status code' \<Rightarrow>
                     if code' = 429
                     then eret (tool_error ''Block explorer API rate limit exceeded. Try again in a few seconds.'' ''RATE_LIMITED'')
                     else eret (tool_error (''Block explorer API returned HTTP '' @ int_str code' @ ''.'') ''API_ERROR'')
                 | Explorer_error \<Rightarrow> eret (tool_error ''Failed to reach block explorer API.'' ''API_ERROR'')
                 | Explorer_data data loaded \<Rightarrow>
                     ebind (elift (get_or ''status'' PyNone data)) (\<lambda>status.
                     ebind (elift (get_or ''message'' (PyStr []) data)) (\<lambda>message.
                     ebind (elift (get_or ''result'' (PyStr []) data)) (\<lambda>result.
                     ebind (if status \<noteq> PyStr ''1'' then eret True
                            else ebind (elift (py_lower_val message)) (\<lambda>m.
                              eret (py_contains ''not verified'' m \<or>
                                py_contains ''not verified'' (py_lower (py_str (en_py_str env) result))))) (\<lambda>unverified.
                     if unverified
                     then eret [(''contract'', PyStr contract), (''chain'', PyStr chain), (''verified'', PyBool False), (''events'', PyList []),
                       (''total_events'', PyInt 0), (''error'', PyStr ''Contract source code not verified on block explorer.'')]
                     else (case (case result of PyStr _ \<Rightarrow> loaded | _ \<Rightarrow> Inr result) of
                         Inl _ \<Rightarrow> eret (tool_error ''Failed to parse ABI from block explorer response.'' ''PARSE_ERROR'')
                       | Inr abi \<Rightarrow>
                           ebind (elift (iterate abi)) (\<lambda>items.
                           ebind (elift (rmap (abi_event env) items)) (\<lambda>evs.
                           let events = concat evs in
                           eret [(''contract'', PyStr contract), (''chain'', PyStr chain), (''verified'', PyBool True),
                             (''events'', PyList events), (''total_events'', PyInt (int (length events)))]))))))))))))))"

section \<open>Known pools\<close>

definition KNOWN_POOLS :: "(string \<times> pydict) list" where
  "KNOWN_POOLS =
     [(''aerodrome'', [(''chain'', PyStr ''base''), (''type'', PyStr ''Slipstream (Concentrated Liquidity)''), (''pools'', PyList [PyDict [(''name'', PyStr ''USDC/WETH''), (''address'', PyStr ''0x6cDcb1C4A4D1C3C6d054b27AC5B77e89eAFb971d''), (''tick_spacing'', PyInt 100)],
         PyDict [(''name'', PyStr ''USDC/USDT''), (''address'', PyStr ''0x0B25c51637c43decd6CC1C1e3da4518D54ddb528''), (''tick_spacing'', PyInt 1)],
         PyDict [(''name'', PyStr ''WETH/AERO''), (''address'', PyStr ''0x7f670f78B17dEC44d5Ef68a48740b6f8849cc2e6''), (''tick_spacing'', PyInt 200)],
         PyDict [(''name'', PyStr ''cbETH/WETH''), (''address'', PyStr ''0x44Ecc644449fC3a9858d2007CaA8CFAa4C561f91''), (''tick_spacing'', PyInt 1)],
         PyDict [(''name'', PyStr ''USDC/cbBTC''), (''address'', PyStr ''0x0c...''), (''tick_spacing'', PyInt 200)]]), (''events'', PyList [PyStr ''Swap'',
         PyStr ''Mint'',
         PyStr ''Burn'',
         PyStr ''Collect''])]),
      (''aave-v3'', [(''chain'', PyStr ''base''), (''type'', PyStr ''Lending Protocol''), (''pools'', PyList [PyDict [(''name'', PyStr ''Aave V3 Pool''), (''address'', PyStr ''0xA238Dd80C259a72e81d7e4664a9801593F98d1c5'')]]), (''events'', PyList [PyStr ''LiquidationCall'',
         PyStr ''Borrow'',
         PyStr ''Repay'',
         PyStr ''Supply'',
         PyStr ''Withdraw''])]),
      (''uniswap-v3'', [(''chain'', PyStr ''base''), (''type'', PyStr ''DEX (Concentrated Liquidity)''), (''pools'', PyList [PyDict [(''name'', PyStr ''USDC/WETH 0.05%''), (''address'', PyStr ''0xd0b53D9277642d899DF5C87A3966A349A798F224''), (''fee'', PyInt 500)],
         PyDict [(''name'', PyStr ''USDC/WETH 0.3%''), (''address'', PyStr ''0x4C36388bE6F416A29C8d8Ae5C112AB4c1cAECf30''), (''fee'', PyInt 3000)],
         PyDict [(''name'', PyStr ''USDC/WETH 1%''), (''address'', PyStr ''0x0c...''), (''fee'', PyInt 10000)]]), (''events'', PyList [PyStr ''Swap'',
         PyStr ''Mint'',
         PyStr ''Burn'',
         PyStr ''Collect''])])]"

text \<open>\<open>xs[:v]\<close>\<close>

definition py_prefix :: "'a list \<Rightarrow> pyval \<Rightarrow> 'a list result" where
  "py_prefix xs v = (case v of
      PyInt i \<Rightarrow> Inr (if 0 \<le> i then take (nat i) xs else take (nat (int (length xs) + i)) xs)
    | PyBool b \<Rightarrow> Inr (if b then take 1 xs else [])
    | PyNone \<Rightarrow> Inr xs
    | _ \<Rightarrow> Inl TypeError)"

definition quote :: "string \<Rightarrow> string" where
  "quote s = [CHR 0x27] @ s @ [CHR 0x27]"

definition list_pools :: "env \<Rightarrow> handler" where
  "list_pools env params ctx =
     ebind (elift (rbind (subscript ''protocol'' params) py_lower_val)) (\<lambda>p.
     ebind (elift (rbind (get_or ''chain'' (PyStr ''base'') params) py_lower_val)) (\<lambda>c.
     ebind (elift (get_or ''limit'' (PyInt 10) params)) (\<lambda>limit.
     let protocol = py_strip p; chain = py_strip c in
     case map_of KNOWN_POOLS protocol of
       None \<Rightarrow> eret (tool_error (''Unknown protocol '' @ quote protocol @ ''. Supported protocols: aave-v3, aerodrome, uniswap-v3. '' @
           ''Use fetch_abi with a specific contract address to explore unknown contracts.'') ''UNKNOWN_PROTOCOL'')
     | Some data \<Rightarrow>
         (let protocol_chain = py_str (en_py_str env) (dict_get ''chain'' (PyStr ''base'') data) in
          if chain \<noteq> protocol_chain
          then eret (tool_error (''Protocol '' @ quote protocol @ '' is configured for '' @ protocol_chain @ '', not '' @ chain @
            ''. Try chain='' @ quote protocol_chain @ ''.'') ''CHAIN_MISMATCH'')
          else
            ebind (elift (rbind (of_option KeyError (map_of data ''pools'')) iterate)) (\<lambda>pools.
            ebind (elift (py_prefix pools limit)) (\<lambda>shown.
            eret [(''protocol'', PyStr protocol), (''chain'', PyStr chain), (''type'', dict_get ''type'' (PyStr []) data),
              (''pools'', PyList shown), (''available_events'', dict_get ''events'' (PyList []) data),
              (''hint'', PyStr (''Use fetch_abi with the pool address to get the full event ABI, then create_trigger '' @
                ''to set up a webhook.''))])))))) "

section \<open>Validating a trigger\<close>

definition SUPPORTED_CHAINS :: "(int \<times> string) list" where
  "SUPPORTED_CHAINS = [(8453, ''Base''), (1, ''Ethereum''), (42161, ''Arbitrum'')]"

definition VALID_OPS :: "string list" where
  "VALID_OPS = [''eq'', ''neq'', ''gt'', ''gte'', ''lt'', ''lte'', ''in'', ''not_in'', ''between'', ''not_between'',
     ''contains'', ''regex'', ''jmespath'']"

definition is_upper :: "char \<Rightarrow> bool" where
  "is_upper c = (65 \<le> code c \<and> code c \<le> 90)"

definition is_word_char :: "char \<Rightarrow> bool" where
  "is_word_char c = (is_alpha c \<or> is_digit c \<or> c = CHR ''_'')"

text \<open>\<open>^([A-Z][a-zA-Z0-9_]*)\(([^)]*)\)$\<close>\<close>

definition parse_sig_fields :: "string \<Rightarrow> (string \<times> string list) option" where
  "parse_sig_fields sig =
     (let t = drop_newline sig; name = takeWhile (\<lambda>c. c \<noteq> CHR 0x28) t; rest = drop (length name) t; body = drop 1 (butlast rest) in
      if name \<noteq> [] \<and> is_upper (hd name) \<and> list_all is_word_char name \<and> 2 \<le> length rest \<and> last rest = CHR 0x29 \<and>
         CHR 0x29 \<notin> set body
      then Some (name, let ps = py_strip body in
        if ps = [] then [] else filter (\<lambda>x. x \<noteq> []) (map py_strip (py_split CHR '','' ps)))
      else None)"

text \<open>\<open>chain_id in _SUPPORTED_CHAINS\<close>: numbers compare by value, lists and dicts are unhashable.\<close>

definition chain_name_of :: "pyval \<Rightarrow> string option result" where
  "chain_name_of v = (case v of
      PyInt i \<Rightarrow> Inr (map_of SUPPORTED_CHAINS i)
    | PyBool b \<Rightarrow> Inr (map_of SUPPORTED_CHAINS (if b then 1 else 0))
    | PyFloat (DFin r) _ \<Rightarrow> Inr (if r = of_int (floor r) then map_of SUPPORTED_CHAINS (floor r) else None)
    | PyList _ \<Rightarrow> Inl TypeError
    | PyDict _ \<Rightarrow> Inl TypeError
    | _ \<Rightarrow> Inr None)"

definition sorted_ops :: string where
  "sorted_ops = ''between, contains, eq, gt, gte, in, jmespath, lt, lte, neq, not_between, not_in, regex''"

definition op_error :: "env \<Rightarrow> nat \<Rightarrow> pyval \<Rightarrow> string list result" where
  "op_error env i op' =
     (if \<not> py_truthy op' then Inr []
      else (case op' of
          PyList _ \<Rightarrow> Inl TypeError
        | PyDict _ \<Rightarrow> Inl TypeError
        | _ \<Rightarrow> if (case op' of PyStr s \<Rightarrow> s \<in> set VALID_OPS | _ \<Rightarrow> False) then Inr []
               else Inr [''Filter rule '' @ nat_str i @ '': Operator '' @ quote (py_str (en_py_str env) op') @ '' not supported. '' @
                 ''Valid operators: '' @ sorted_ops]))"

definition field_error :: "env \<Rightarrow> nat \<Rightarrow> pyval list \<Rightarrow> string option \<Rightarrow> pyval \<Rightarrow> string list result" where
  "field_error env i names event_name field =
     (if \<not> py_truthy field \<or> names = [] \<or> field \<in> set names then Inr []
      else rbind (expect_str AttributeError field) (\<lambda>f.
        if PyStr (hd (py_split CHR ''.'' f)) \<in> set names then Inr []
        else rbind (rmap (expect_str TypeError) names) (\<lambda>ns.
          Inr [''Filter rule '' @ nat_str i @ '': Field '' @ quote f @ '' not found in event '' @
            (case event_name of Some n \<Rightarrow> n | None \<Rightarrow> ''unknown'') @ ''. Available fields: '' @ py_join '', '' ns])))"

definition rule_errors :: "env \<Rightarrow> pyval list \<Rightarrow> string option \<Rightarrow> nat \<times> pyval \<Rightarrow> string list result" where
  "rule_errors env names event_name r = (case r of (i, rule) \<Rightarrow>
     rbind (get_or ''field'' (PyStr []) rule) (\<lambda>field.
     rbind (get_or ''op'' (PyStr []) rule) (\<lambda>op'.
     rbind (op_error env i op') (\<lambda>e1.
     rbind (field_error env i names event_name field) (\<lambda>e2. Inr (e1 @ e2))))))"

definition upper_char :: "char \<Rightarrow> char" where
  "upper_char c = (if 97 \<le> code c \<and> code c \<le> 122 then char_of (code c - 32) else c)"

definition rule_summary :: "env \<Rightarrow> pyval \<Rightarrow> string result" where
  "rule_summary env rule =
     rbind (get_or ''field'' (PyStr ''?'') rule) (\<lambda>field.
     rbind (get_or ''op'' (PyStr ''eq'') rule) (\<lambda>opv.
     rbind (expect_str AttributeError opv) (\<lambda>op'.
     rbind (get_or ''value'' (PyStr ''?'') rule) (\<lambda>value.
     rbind (get_or ''op'' PyNone rule) (\<lambda>raw.
     let v = py_str (en_py_str env) value;
         v' = (if raw = PyStr ''between'' \<or> raw = PyStr ''not_between''
               then concat (map (\<lambda>c. if c = CHR '','' then '' AND '' else [c]) v) else v) in
     Inr (py_str (en_py_str env) field @ '' '' @ map (\<lambda>c. if c = CHR ''_'' then CHR '' '' else upper_char c) op' @ '' '' @ v'))))))"

definition abi_names :: "pyval \<Rightarrow> pyval list result" where
  "abi_names event_abi = (case event_abi of
      PyList l \<Rightarrow> rmap (\<lambda>(i, inp). get_or ''name'' (PyStr (''param'' @ nat_str i)) inp) (enumerate 0 l)
    | _ \<Rightarrow> Inr [])"

definition validate_trigger :: "env \<Rightarrow> handler" where
  "validate_trigger env params ctx =
     ebind (elift (subscript ''event_signature'' params)) (\<lambda>sv.
     ebind (elift (subscript ''contract_address'' params)) (\<lambda>av.
     ebind (elift (subscript ''chain_id'' params)) (\<lambda>cv.
     ebind (elift (get_or ''filter_rules'' (PyList []) params)) (\<lambda>rv.
     ebind (elift (expect_str TypeError sv)) (\<lambda>sig.
     ebind (elift (expect_str TypeError av)) (\<lambda>contract.
     ebind (elift (chain_name_of cv)) (\<lambda>chain.
     ebind (elift (get_or ''event_abi'' PyNone params)) (\<lambda>abi.
     let parsed = parse_sig_fields sig; event_name = map_option fst parsed;
         types = (case parsed of Some (_, ts) \<Rightarrow> ts | None \<Rightarrow> []);
         positional = map (\<lambda>i. PyStr (''param'' @ nat_str i)) [0..<length types] in
     ebind (elift (if py_truthy abi \<and> (case abi of PyList _ \<Rightarrow> True | _ \<Rightarrow> False) then abi_names abi else Inr positional)) (\<lambda>names.
     ebind (elift (iterate rv)) (\<lambda>rules.
     ebind (elift (rmap (rule_errors env names event_name) (enumerate 0 rules))) (\<lambda>rule_errs.
     let errors =
           (if parsed = None then [''Invalid event signature format: '' @ quote sig @
              ''. Expected format: EventName(type1,type2,...) e.g. Swap(address,address,int256,int256,uint160,uint128,int24)''] else []) @
           (if is_address_text contract then [] else [''Invalid contract address: '' @ quote contract @
              ''. Expected 0x followed by 40 hex characters.'']) @
           (case chain of Some _ \<Rightarrow> [] | None \<Rightarrow> [''Unsupported chain_id: '' @ py_str (en_py_str env) cv @
              ''. Supported chains: 8453 (Base), 1 (Ethereum), 42161 (Arbitrum)'']) @
           concat rule_errs in
     if errors \<noteq> [] then eret [(''valid'', PyBool False), (''errors'', PyList (map PyStr errors))]
     else ebind (elift (rmap (rule_summary env) rules)) (\<lambda>summaries.
       eret [(''valid'', PyBool True), (''event_name'', py_of_option PyStr event_name),
         (''event_fields'', PyList (if names = [] then map PyStr types else names)),
         (''filter_summary'', PyStr (if summaries = [] then ''No filters'' else py_join ''; '' summaries)),
         (''chain'', py_of_option PyStr chain), (''hint'', PyStr ''Trigger is valid. Call create_trigger to deploy it.'')])))))))))))) "

section \<open>The handlers by name\<close>

definition tool_handlers :: "env \<Rightarrow> registry \<Rightarrow> string \<Rightarrow> handler" where
  "tool_handlers env rg name =
     (if name = ''register_endpoint'' then register_endpoint env rg
      else if name = ''register_middleware'' then register_middleware env rg
      else if name = ''create_trigger'' then create_trigger env rg
      else if name = ''list_triggers'' then list_triggers env
      else if name = ''delete_trigger'' then delete_trigger env rg
      else if name = ''list_templates'' then list_templates env
      else if name = ''activate_template'' then activate_template env rg
      else if name = ''get_trigger_status'' then get_trigger_status env rg
      else if name = ''search_events'' then search_events env
      else if name = ''fetch_abi'' then fetch_abi env rg
      else if name = ''list_pools'' then list_pools env
      else validate_trigger env)"

end
