(* ===== verification/Tool_Props.thy ===== *)
theory Tool_Props
  imports Mcp_Explore
begin

text \<open>
  What the tool handlers keep: the tables of the registry stay consistent, a call touches
  only the rows of its caller, and the quotas are never exceeded.
\<close>

section \<open>Frames\<close>

text \<open>\<open>registry_stable I\<close>: the predicate looks neither at the counter nor at the trigger caches.\<close>

definition registry_stable :: "(world \<Rightarrow> bool) \<Rightarrow> bool" where
  "registry_stable I \<longleftrightarrow> tick_stable I \<and>
     (\<forall>w a. I w \<longrightarrow> I (w\<lparr>w_active_cache := a\<rparr>)) \<and> (\<forall>w t. I w \<longrightarrow> I (w\<lparr>w_topic_cache := t\<rparr>)) \<and>
     (\<forall>w c. I w \<longrightarrow> I (w\<lparr>w_templates_cache := c\<rparr>))"

lemma registry_stable_tick: "registry_stable I \<Longrightarrow> tick_stable I"
  by (simp add: registry_stable_def)

lemma keeps_invalidate_cache [keeps_intros]: "registry_stable I \<Longrightarrow> keeps I invalidate_trigger_cache"
  unfolding invalidate_trigger_cache_def by (intro keeps_intros) (simp add: registry_stable_def)

lemma keeps_registry_reads [keeps_intros]:
  "tick_stable I \<Longrightarrow> keeps I (trigger_get_by_id env rg i)"
  "tick_stable I \<Longrightarrow> keeps I (list_by_owner env a)"
  "tick_stable I \<Longrightarrow> keeps I (get_by_slug env s)"
  "tick_stable I \<Longrightarrow> keeps I (check_trigger_quota env a)"
  "tick_stable I \<Longrightarrow> keeps I (check_endpoint_quota env a)"
  "tick_stable I \<Longrightarrow> keeps I (invalidate_topics env)"
  unfolding trigger_get_by_id_def list_by_owner_def get_by_slug_def check_trigger_quota_def check_endpoint_quota_def
    check_quota_def invalidate_topics_def
  by (intro keeps_intros; assumption)+

lemma keeps_templates_list [keeps_intros]: "registry_stable I \<Longrightarrow> keeps I (templates_list_public env)"
  unfolding templates_list_public_def by (intro keeps_intros) (simp_all add: registry_stable_def)

text \<open>The handlers that only read.\<close>

lemma keeps_read_only:
  assumes "registry_stable I"
  shows "keeps I (list_triggers env params ctx)" "keeps I (list_templates env params ctx)"
    "keeps I (get_trigger_status env rg params ctx)" "keeps I (search_events env params ctx)"
    "keeps I (list_pools env params ctx)" "keeps I (validate_trigger env params ctx)"
  unfolding list_triggers_def list_templates_def get_trigger_status_def search_events_def list_pools_def validate_trigger_def Let_def
  by (intro keeps_intros registry_stable_tick[OF assms] assms)+


lemma keeps_fetch_abi: "tick_stable I \<Longrightarrow> keeps I (fetch_abi env rg params ctx)"
proof -
  assume I: "tick_stable I"
  have p: "keeps I (case v of PyList _ \<Rightarrow> a | PyDict _ \<Rightarrow> b | _ \<Rightarrow> c)" if "keeps I a" "keeps I b" "keeps I c" for v a b and c :: "pydict io"
    using that by (cases v) simp_all
  have e: "keeps I (case v of Explorer_timeout \<Rightarrow> a | Explorer_status n \<Rightarrow> f n | Explorer_error \<Rightarrow> b | Explorer_data d l \<Rightarrow> g d l)"
    if "keeps I a" "\<And>n. keeps I (f n)" "keeps I b" "\<And>d l. keeps I (g d l)" for v a f b and g :: "pyval \<Rightarrow> pyval result \<Rightarrow> pydict io"
    using that by (cases v) simp_all
  show ?thesis unfolding fetch_abi_def Let_def by (intro keeps_intros p e I)
qed

section \<open>The registry stays consistent\<close>

definition registry_inv :: "world \<Rightarrow> bool" where
  "registry_inv w \<longleftrightarrow> distinct (endpoint_ids w) \<and> distinct (trigger_ids w) \<and>
     (\<forall>t \<in> set (w_triggers w). tg_endpoint_id t \<in> set (endpoint_ids w)) \<and>
     (\<forall>r \<in> set (w_invalid_triggers w). iv_endpoint_id r \<in> set (endpoint_ids w)) \<and>
     (\<forall>s \<in> set (w_subscriptions w). sub_endpoint_id s \<in> set (endpoint_ids w))"

lemmas registry_defs = registry_inv_def endpoint_ids_def trigger_ids_def

lemma registry_inv_stable [simp]: "registry_stable registry_inv"
  by (simp add: registry_stable_def tick_stable_def registry_defs)

lemma registry_inv_steps:
  "registry_inv w \<Longrightarrow> i \<notin> set (trigger_ids w) \<Longrightarrow> e \<in> set (endpoint_ids w) \<Longrightarrow> tg_id t = i \<Longrightarrow> tg_endpoint_id t = e \<Longrightarrow>
    registry_inv (add_trigger t w)"
  "registry_inv w \<Longrightarrow> i \<notin> set (trigger_ids w) \<Longrightarrow> e \<in> set (endpoint_ids w) \<Longrightarrow> iv_id r = i \<Longrightarrow> iv_endpoint_id r = e \<Longrightarrow>
    registry_inv (add_invalid_trigger r w)"
  "registry_inv w \<Longrightarrow> ep_id ep \<notin> set (endpoint_ids w) \<Longrightarrow> registry_inv (add_endpoint ep w)"
  "registry_inv w \<Longrightarrow> iv_id r \<notin> set (endpoint_ids w) \<Longrightarrow> registry_inv (add_invalid_endpoint r w)"
  by (auto simp: registry_defs add_trigger_def add_invalid_trigger_def add_endpoint_def add_invalid_endpoint_def)

lemma set_inactive_fields [simp]:
  "tg_id (if c then t\<lparr>tg_active := False\<rparr> else t) = tg_id t"
  "tg_endpoint_id (if c then t\<lparr>tg_active := False\<rparr> else t) = tg_endpoint_id t"
  "tg_owner_address (if c then t\<lparr>tg_active := False\<rparr> else t) = tg_owner_address t"
  "iv_id (if c then r\<lparr>iv_active := False\<rparr> else r) = iv_id r"
  "iv_endpoint_id (if c then r\<lparr>iv_active := False\<rparr> else r) = iv_endpoint_id r"
  "iv_owner_address (if c then r\<lparr>iv_active := False\<rparr> else r) = iv_owner_address r"
  by simp_all

lemma registry_inv_set_inactive: "registry_inv w \<Longrightarrow> registry_inv (set_inactive i w)"
  by (simp add: registry_defs set_inactive_def comp_def del: if_split) auto

lemma registry_inv_remove: "registry_inv w \<Longrightarrow> registry_inv (remove_endpoint i w)"
proof -
  have d: "distinct (map f xs @ map g ys) \<Longrightarrow> distinct (map f (filter p xs) @ map g (filter q ys))"
    for f g p q and xs :: "'x list" and ys :: "'y list"
    by (auto simp: distinct_map_filter)
  show "registry_inv w \<Longrightarrow> ?thesis"
    using d[of ep_id "w_endpoints w" iv_id "w_invalid_endpoints w"] d[of tg_id "w_triggers w" iv_id "w_invalid_triggers w"]
    unfolding registry_defs remove_endpoint_def by auto
qed

section \<open>The effects of the writes\<close>

text \<open>What a predicate must survive to be kept by each write.\<close>

lemma triple_split: "(\<And>w. P w \<Longrightarrow> (case run m w of (Inr v, w') \<Rightarrow> Q v w' | (Inl e, w') \<Rightarrow> E w')) \<Longrightarrow> triple P m Q E"
  by (simp add: triple_def)

lemma triple_trigger_create:
  assumes "tick_stable P" and "registry_stable Q" and "registry_stable E" and "\<And>w. P w \<Longrightarrow> E w"
    and "\<And>w t. P w \<Longrightarrow> rg_uuid_in rg i \<Longrightarrow> i \<notin> set (trigger_ids w) \<Longrightarrow> e \<in> set (endpoint_ids w) \<Longrightarrow>
      tg_id t = i \<Longrightarrow> tg_owner_address t = a \<Longrightarrow> tg_endpoint_id t = e \<Longrightarrow> Q (add_trigger t w)"
    and "\<And>w r. P w \<Longrightarrow> rg_uuid_in rg i \<Longrightarrow> i \<notin> set (trigger_ids w) \<Longrightarrow> e \<in> set (endpoint_ids w) \<Longrightarrow>
      iv_id r = i \<Longrightarrow> iv_owner_address r = a \<Longrightarrow> iv_endpoint_id r = e \<Longrightarrow> E (add_invalid_trigger r w)"
  shows "triple P (trigger_create env rg i a e s t c cols) (\<lambda>_. Q) E"
proof (rule triple_split)
  fix w assume "P w"
  then have P: "P (w\<lparr>w_tick := n\<rparr>)" for n using assms(1) by (simp add: tick_stable_def)
  have caches: "I (u\<lparr>w_active_cache := None, w_topic_cache := \<lambda>_. None, w_templates_cache := None\<rparr>)"
    if "registry_stable I" "I u" for I u
    using that by (simp add: registry_stable_def)
  note Q = assms(4)[OF P] caches[OF assms(2) assms(5)[OF P]] caches[OF assms(3) assms(6)[OF P]]
  show "case run (trigger_create env rg i a e s t c cols) w of (Inr v, w') \<Rightarrow> Q w' | (Inl e, w') \<Rightarrow> E w'"
    by (auto simp: trigger_create_def invalidate_trigger_cache_def Let_def intro!: Q split: option.splits sum.splits)
qed

lemma triple_endpoint_insert:
  assumes "tick_stable P" and "\<And>w. P w \<Longrightarrow> E w"
    and "\<And>w e. P w \<Longrightarrow> i \<notin> set (endpoint_ids w) \<Longrightarrow> ep_id e = i \<Longrightarrow> ep_owner_address e = a \<Longrightarrow> Q (add_endpoint e w)"
    and "\<And>w r. P w \<Longrightarrow> i \<notin> set (endpoint_ids w) \<Longrightarrow> iv_id r = i \<Longrightarrow> iv_owner_address r = a \<Longrightarrow> Q (add_invalid_endpoint r w)"
  shows "triple P (endpoint_insert env rg i rc a po cols) (\<lambda>_. Q) E"
proof (rule triple_split)
  fix w assume "P w"
  then have P: "P (w\<lparr>w_tick := n\<rparr>)" for n using assms(1) by (simp add: tick_stable_def)
  show "case run (endpoint_insert env rg i rc a po cols) w of (Inr v, w') \<Rightarrow> Q w' | (Inl e, w') \<Rightarrow> E w'"
    by (auto simp: endpoint_insert_def Let_def intro!: assms(2)[OF P] assms(3)[OF P] assms(4)[OF P]
        split: option.splits sum.splits bool.splits)
qed

lemma keeps_endpoint_delete:
  "tick_stable I \<Longrightarrow> (\<And>w. I w \<Longrightarrow> \<not> list_ex (\<lambda>r. er_endpoint_id r = Some i) (w_events w) \<Longrightarrow> I (remove_endpoint i w)) \<Longrightarrow>
    keeps I (endpoint_delete env i)"
  by (rule keepsI) (auto simp: endpoint_delete_def tick_stable_def split: option.splits)

section \<open>A call touches only the rows of its caller\<close>

definition foreign :: "string \<Rightarrow> world \<Rightarrow> Trigger list \<times> Endpoint list \<times> InvalidRow list \<times> InvalidRow list" where
  "foreign a w = (filter (\<lambda>t. py_lower (tg_owner_address t) \<noteq> a) (w_triggers w),
     filter (\<lambda>e. py_lower (ep_owner_address e) \<noteq> a) (w_endpoints w),
     filter (\<lambda>r. py_lower (iv_owner_address r) \<noteq> a) (w_invalid_triggers w),
     filter (\<lambda>r. py_lower (iv_owner_address r) \<noteq> a) (w_invalid_endpoints w))"

text \<open>The endpoint \<open>i\<close> and everything that refers to it belong to \<open>a\<close>.\<close>

definition mine :: "string \<Rightarrow> string \<Rightarrow> world \<Rightarrow> bool" where
  "mine a i w \<longleftrightarrow> (\<forall>t \<in> set (w_triggers w). tg_endpoint_id t = i \<longrightarrow> py_lower (tg_owner_address t) = a) \<and>
     (\<forall>e \<in> set (w_endpoints w). ep_id e = i \<longrightarrow> py_lower (ep_owner_address e) = a) \<and>
     (\<forall>r \<in> set (w_invalid_triggers w). iv_endpoint_id r = i \<longrightarrow> py_lower (iv_owner_address r) = a) \<and>
     (\<forall>r \<in> set (w_invalid_endpoints w). iv_id r = i \<longrightarrow> py_lower (iv_owner_address r) = a)"

definition apart :: "string \<Rightarrow> string \<Rightarrow> world \<Rightarrow> world \<Rightarrow> bool" where
  "apart a i v w \<longleftrightarrow> foreign a w = foreign a v \<and> mine a i w"

lemma apart_stable [simp]: "registry_stable (\<lambda>w. foreign a w = x)" "registry_stable (apart a i v)" "registry_stable (\<lambda>w. foreign a w = x \<and> registry_inv w)"
  by (simp_all add: registry_stable_def tick_stable_def foreign_def mine_def apart_def registry_defs)

lemmas stable_ticks [simp] = apart_stable[THEN registry_stable_tick]

lemma foreign_adds [simp]:
  "py_lower (tg_owner_address t) = a \<Longrightarrow> foreign a (add_trigger t w) = foreign a w"
  "py_lower (ep_owner_address e) = a \<Longrightarrow> foreign a (add_endpoint e w) = foreign a w"
  "py_lower (iv_owner_address r) = a \<Longrightarrow> foreign a (add_invalid_trigger r w) = foreign a w"
  "py_lower (iv_owner_address r) = a \<Longrightarrow> foreign a (add_invalid_endpoint r w) = foreign a w"
  by (simp_all add: foreign_def add_trigger_def add_endpoint_def add_invalid_trigger_def add_invalid_endpoint_def)

lemma mine_adds [simp]:
  "py_lower (tg_owner_address t) = a \<Longrightarrow> mine a i (add_trigger t w) = mine a i w"
  "py_lower (ep_owner_address e) = a \<Longrightarrow> mine a i (add_endpoint e w) = mine a i w"
  "py_lower (iv_owner_address r) = a \<Longrightarrow> mine a i (add_invalid_trigger r w) = mine a i w"
  "py_lower (iv_owner_address r) = a \<Longrightarrow> mine a i (add_invalid_endpoint r w) = mine a i w"
  by (auto simp: mine_def add_trigger_def add_endpoint_def add_invalid_trigger_def add_invalid_endpoint_def)

lemma mine_fresh: "registry_inv w \<Longrightarrow> i \<notin> set (endpoint_ids w) \<Longrightarrow> mine a i w"
  by (auto simp: mine_def registry_inv_def) (auto simp: endpoint_ids_def)

lemma apart_insert:
  "py_lower a = a \<Longrightarrow> triple (\<lambda>w. foreign a w = foreign a v \<and> registry_inv w) (endpoint_insert env rg i rc a po cols)
    (\<lambda>_. apart a i v) (\<lambda>w. foreign a w = foreign a v)"
  by (intro triple_endpoint_insert) (simp_all add: apart_def mine_fresh)

lemma apart_trigger_create [keeps_intros]:
  assumes "py_lower a = a"
  shows "keeps (apart a i v) (trigger_create env rg j a e s t c cols)"
    and "keeps (\<lambda>w. foreign a w = x) (trigger_create env rg j a e s t c cols)"
proof -
  show "keeps (apart a i v) (trigger_create env rg j a e s t c cols)"
    using assms by (intro keeps_triple triple_trigger_create) (simp_all add: apart_def[symmetric], simp_all add: apart_def)
  show "keeps (\<lambda>w. foreign a w = x) (trigger_create env rg j a e s t c cols)"
    using assms by (intro keeps_triple triple_trigger_create) simp_all
qed

lemma filter_map_inside:
  "(\<And>x. P (f x) = P x) \<Longrightarrow> (\<forall>x \<in> set xs. c x \<longrightarrow> \<not> P x) \<Longrightarrow> filter P (map (\<lambda>x. if c x then f x else x) xs) = filter P xs"
  by (induction xs) auto

definition wired :: "string \<Rightarrow> string \<Rightarrow> string \<Rightarrow> world \<Rightarrow> world" where
  "wired i p ce w = w\<lparr>w_endpoints := map (\<lambda>e. if ep_id e = i
     then e\<lparr>ep_convoy_project_id := Some p, ep_convoy_endpoint_id := Some ce\<rparr> else e) (w_endpoints w)\<rparr>"

lemma apart_wired: "apart a i v w \<Longrightarrow> apart a i v (wired i p ce w)"
proof -
  assume w: "apart a i v w"
  then have m: "mine a i w" and f: "foreign a w = foreign a v" by (simp_all add: apart_def)
  have "foreign a (wired i p ce w) = foreign a w"
    using m unfolding foreign_def wired_def mine_def by (simp add: filter_map_inside)
  moreover have "mine a i (wired i p ce w)"
    using m unfolding mine_def wired_def by (simp add: ball_Un)
  ultimately show ?thesis using f by (simp add: apart_def)
qed

lemma apart_remove: "apart a i v w \<Longrightarrow> apart a i v (remove_endpoint i w)"
proof -
  assume w: "apart a i v w"
  then have m: "mine a i w" and f: "foreign a w = foreign a v" by (simp_all add: apart_def)
  have "foreign a (remove_endpoint i w) = foreign a w"
    using m unfolding foreign_def remove_endpoint_def mine_def by (auto intro!: filter_cong)
  moreover have "mine a i (remove_endpoint i w)"
    using m unfolding mine_def remove_endpoint_def by simp
  ultimately show ?thesis using f by (simp add: apart_def)
qed

lemma apart_endpoint_writes [keeps_intros]:
  "keeps (apart a i v) (endpoint_set_provider env i p ce)"
  "keeps (apart a i v) (endpoint_delete env i)"
  unfolding endpoint_set_provider_def wired_def[symmetric]
  by (intro keeps_intros keeps_endpoint_delete; simp add: apart_wired apart_remove)+

lemma apart_wire_provider [keeps_intros]: "keeps (apart a i v) (wire_provider env rg i u rc sec)"
  unfolding wire_provider_def by (intro keeps_intros) simp_all

lemma agent_lower_lower: "agent_lower ctx = Inr a \<Longrightarrow> py_lower a = a"
  by (auto simp: agent_lower_def split: option.splits)

lemma core_apart:
  assumes "agent_lower ctx = Inr a"
  shows "triple (\<lambda>w. foreign a w = foreign a v \<and> registry_inv w) (create_endpoint_core env rg params ctx)
    (\<lambda>core w. case core of Inr c \<Rightarrow> apart a (cr_endpoint_id c) v w | Inl _ \<Rightarrow> foreign a w = foreign a v)
    (\<lambda>w. foreign a w = foreign a v)" (is "triple ?P _ ?Q ?E")
proof -
  have a: "py_lower a = a" by (rule agent_lower_lower[OF assms])
  have after: "triple (apart a i v)
      (if mode = PyStr ''execute'' \<and> rg_provider rg
       then ebind (etry (wire_provider env rg i utext rc secret)) (\<lambda>r. case r of
           Inr _ \<Rightarrow> eret (Inr c) | Inl _ \<Rightarrow> ebind (endpoint_delete env i) (\<lambda>_. eret (Inl err)))
       else eret (Inr c)) ?Q ?E"
    if "cr_endpoint_id c = i" for i mode utext rc secret c err
    using that
    by (intro triple_if triple_step triple_cases triple_eret) (auto intro!: keeps_intros simp: apart_def)
  have P: "tick_stable ?P" by simp
  show ?thesis
    unfolding create_endpoint_core_def assms ebind_elift_Inr Let_def
    apply (rule triple_elift, blast)+
    apply (rule triple_step[OF keeps_tick[OF P]], blast)
    apply (rule triple_cases)
     apply (rule triple_if; rule triple_eret triple_eraise; simp)
    apply (rule triple_step[OF keeps_registry_reads(5)[OF P]], blast)
    apply (rule triple_step[OF keeps_now[OF P]], blast)
    apply (rule triple_step[OF keeps_uuid4[OF P]], blast)
    apply (rule triple_step, intro keeps_intros P, blast)
    apply (rule triple_elift, blast)+
    apply (rule triple_ebind[OF apart_insert[OF a]])
    apply (rule after, simp)
    done
qed

lemma apart_middleware [keeps_intros]:
  "py_lower a = a \<Longrightarrow> keeps (apart a i v) (middleware_template env rg a e ch time slug)"
  "py_lower a = a \<Longrightarrow> keeps (apart a i v) (middleware_custom env rg a e ch time ct)"
  unfolding middleware_template_def middleware_custom_def create_owned_trigger_def
  by (intro keeps_intros; simp)+

lemma apart_finish_middleware:
  "py_lower a = a \<Longrightarrow> keeps (apart a (cr_endpoint_id c) v) (finish_middleware env rg params a c)"
  unfolding finish_middleware_def Let_def by (intro keeps_intros; simp)

lemma own_create:
  assumes "agent_lower ctx = Inr a"
  shows "keeps (\<lambda>w. foreign a w = x) (create_trigger env rg params ctx)"
    and "keeps (\<lambda>w. foreign a w = x) (activate_template env rg params ctx)"
  unfolding create_trigger_def activate_template_def create_owned_trigger_def assms ebind_elift_Inr Let_def
  by (intro keeps_intros agent_lower_lower[OF assms]; simp)+

lemma own_register:
  assumes "agent_lower ctx = Inr a" and "registry_inv w" and "run (register_endpoint env rg params ctx) w = (r, w')"
  shows "foreign a w' = foreign a w"
proof (rule triple_post[OF _ _ assms(3)])
  show "triple (\<lambda>u. foreign a u = foreign a w \<and> registry_inv u) (register_endpoint env rg params ctx)
    (\<lambda>_ u. foreign a u = foreign a w) (\<lambda>u. foreign a u = foreign a w)"
    unfolding register_endpoint_def
    by (rule triple_ebind[OF core_apart[OF assms(1)]]) (auto intro!: triple_eret simp: apart_def split: sum.splits)
qed (use assms(2) in simp)

lemma own_middleware:
  assumes "agent_lower ctx = Inr a" and "registry_inv w" and "run (register_middleware env rg params ctx) w = (r, w')"
  shows "foreign a w' = foreign a w"
proof (rule triple_post[OF _ _ assms(3)])
  let ?E = "\<lambda>u. foreign a u = foreign a w"
  note finish = triple_keeps[OF apart_finish_middleware[OF agent_lower_lower[OF assms(1)]]]
  show "triple (\<lambda>u. foreign a u = foreign a w \<and> registry_inv u) (register_middleware env rg params ctx) (\<lambda>_. ?E) ?E"
    unfolding register_middleware_def assms(1) ebind_elift_Inr
    by (rule triple_ebind[OF core_apart[OF assms(1)]])
       (auto intro!: triple_eret triple_conseq[OF finish] simp: apart_def split: sum.split)
qed (use assms(2) in simp)

text \<open>Ids are unique, so deactivating a trigger of the caller changes no other.\<close>

lemma foreign_set_inactive:
  assumes "registry_inv w" and "find (\<lambda>t. tg_id t = i) (w_triggers w) = Some t" and "py_lower (tg_owner_address t) = a"
  shows "foreign a (set_inactive i w) = foreign a w"
proof -
  have t: "t \<in> set (w_triggers w)" "tg_id t = i" using assms(2) by (auto simp: find_Some_iff)
  then have "\<forall>r \<in> set (w_invalid_triggers w). iv_id r \<noteq> i" using assms(1) by (fastforce simp: registry_defs)
  moreover have "\<forall>u \<in> set (w_triggers w). tg_id u = i \<longrightarrow> u = t"
    using assms(1) t by (auto simp: registry_defs distinct_map dest: inj_onD)
  then have "\<forall>u \<in> set (w_triggers w). tg_id u = i \<longrightarrow> py_lower (tg_owner_address u) = a" using assms(3) by blast
  ultimately show ?thesis by (simp add: foreign_def set_inactive_def filter_map_inside)
qed

lemma foreign_caches [simp]:
  "foreign a (w\<lparr>w_tick := n\<rparr>) = foreign a w"
  "foreign a (w\<lparr>w_active_cache := c, w_topic_cache := d, w_templates_cache := e\<rparr>) = foreign a w"
  by (simp_all add: foreign_def)

lemma get_by_id_post:
  assumes "tick_stable P"
  shows "triple P (trigger_get_by_id env rg i) (\<lambda>t u. P u \<and> t = find (\<lambda>t. tg_id t = i) (w_triggers u)) P"
  using assms unfolding triple_def
  by (auto simp: trigger_get_by_id_def query_valid_def query_def tick_stable_def split: option.splits)

lemma own_deactivate:
  assumes "py_lower (tg_owner_address t) = a"
  shows "triple (\<lambda>u. (foreign a u = x \<and> registry_inv u) \<and> Some t = find (\<lambda>t. tg_id t = i) (w_triggers u))
    (trigger_deactivate env rg i) (\<lambda>_ u. foreign a u = x) (\<lambda>u. foreign a u = x)"
proof (rule triple_snd)
  fix u assume u: "(foreign a u = x \<and> registry_inv u) \<and> Some t = find (\<lambda>t. tg_id t = i) (w_triggers u)"
  have "foreign a (set_inactive i (u\<lparr>w_tick := n\<rparr>)) = x" for n
    using u assms foreign_set_inactive[of "u\<lparr>w_tick := n\<rparr>" i t a] by (simp add: registry_defs)
  then show "foreign a (snd (run (trigger_deactivate env rg i) u)) = x"
    using u by (auto simp: trigger_deactivate_def invalidate_trigger_cache_def split: option.splits)
qed

lemma own_delete:
  assumes "agent_lower ctx = Inr a" and "registry_inv w" and "run (delete_trigger env rg params ctx) w = (r, w')"
  shows "foreign a w' = foreign a w"
proof (rule triple_post[OF _ _ assms(3)])
  let ?P = "\<lambda>u. foreign a u = foreign a w \<and> registry_inv u" and ?E = "\<lambda>u. foreign a u = foreign a w"
  have P: "tick_stable ?P" by simp
  have get: "triple ?P (trigger_get_by_id env rg i) (\<lambda>t u. ?P u \<and> t = find (\<lambda>t. tg_id t = i) (w_triggers u)) ?E" for i
    by (rule triple_conseq[OF get_by_id_post[OF P]]) auto
  show "triple ?P (delete_trigger env rg params ctx) (\<lambda>_. ?E) ?E"
    unfolding delete_trigger_def assms(1) ebind_elift_Inr Let_def
    apply (rule triple_elift, blast)
    apply (rule triple_ebind[OF get])
    apply (rule triple_cases)
     apply (rule triple_eret, simp)
    apply (rule triple_if)
     apply (rule triple_eret, simp)
    apply (rule triple_ebind, rule triple_weaken, rule own_deactivate, simp, simp)
    apply (rule triple_cases)
     apply (rule triple_eret, simp)
    apply (rule triple_step, intro keeps_intros, simp, simp, rule triple_eret, simp)
    done
qed (use assms(2) in simp)

text \<open>
  A tool call touches only the caller's own rows: whatever the tool, its arguments and
  the failures on the way, the triggers and endpoints of every other wallet are afterwards
  exactly what they were, in content and order, provided ids are unique and triggers refer to
  existing endpoints.
\<close>

lemma tool_calls_stay_own:
  assumes "agent_lower ctx = Inr a" and "registry_inv w" and "run (tool_handlers env rg name params ctx) w = (r, w')"
  shows "foreign a w' = foreign a w"
proof -
  have keep: "foreign a w' = foreign a w" if "keeps (\<lambda>u. foreign a u = foreign a w) m" "run m w = (r, w')" for m :: "pydict io"
    using keepsD[OF that(1), of w] that(2) by simp
  have st: "registry_stable (\<lambda>u. foreign a u = foreign a w)" by simp
  show ?thesis using assms(3) unfolding tool_handlers_def
    by (auto split: if_splits dest: own_register[OF assms(1,2)] own_middleware[OF assms(1,2)] own_delete[OF assms(1,2)]
        intro: keep[OF own_create(1)[OF assms(1)]] keep[OF own_create(2)[OF assms(1)]]
          keep[OF keeps_read_only(1)[OF st]] keep[OF keeps_read_only(2)[OF st]] keep[OF keeps_read_only(3)[OF st]]
          keep[OF keeps_read_only(4)[OF st]] keep[OF keeps_read_only(5)[OF st]] keep[OF keeps_read_only(6)[OF st]]
          keep[OF keeps_fetch_abi[OF registry_stable_tick[OF st]]])
qed

section \<open>A small registry\<close>

definition agent :: "string \<Rightarrow> MCPAuthContext" where
  "agent a = (anonymous_context PUBLIC)\<lparr>ac_agent_address := Some a\<rparr>"

definition small_registry :: registry where
  "small_registry = \<lparr>rg_keccak_hex = (\<lambda>s. s), rg_uuid_in = (\<lambda>_. True),
     rg_trigger_row = (\<lambda>d. Inr (Some \<lparr>tc_name = None, tc_abi = [], tc_contract_address = None, tc_chain_ids = [],
       tc_filter_rules = [], tc_webhook_event_type = ''payment.confirmed'', tc_reputation_threshold = 0\<rparr>)),
     rg_endpoint_row = (\<lambda>d. Inr (Some \<lparr>ec_url = [], ec_mode = NOTIFY, ec_chains = []\<rparr>)),
     rg_policies = (\<lambda>_. Inr default_policies), rg_provider = True, rg_create_app = (\<lambda>_ _ _. Inr ''project''),
     rg_create_endpoint = (\<lambda>_ _ _ _ _. Inr ''convoy-endpoint''), rg_getaddrinfo = (\<lambda>_. no_dns),
     rg_explorer = (\<lambda>_ _ _. Explorer_timeout), rg_api_key = (\<lambda>_. []), rg_exc_text = (\<lambda>_. [])\<rparr>"

definition small_endpoint :: "string \<Rightarrow> string \<Rightarrow> Endpoint" where
  "small_endpoint i owner = \<lparr>ep_id = i, ep_url = ''https://hook'', ep_mode = EXECUTE, ep_chains = [8453], ep_recipient = owner,
     ep_owner_address = owner, ep_registration_tx_hash = None, ep_registration_chain_id = None, ep_policies = default_policies,
     ep_active = True, ep_convoy_project_id = None, ep_convoy_endpoint_id = None, ep_webhook_secret = None\<rparr>"

definition small_trigger :: "string \<Rightarrow> string \<Rightarrow> string \<Rightarrow> Trigger" where
  "small_trigger i owner e = \<lparr>tg_id = i, tg_owner_address = owner, tg_endpoint_id = e, tg_name = None,
     tg_event_signature = ''Swap()'', tg_topic0 = Some ''0xT'', tg_abi = [], tg_contract_address = None, tg_chain_ids = [],
     tg_filter_rules = [], tg_webhook_event_type = ''payment.confirmed'', tg_reputation_threshold = 0,
     tg_required_agent_class = None, tg_version = ''1.0.0'', tg_require_payment = False, tg_payment_token = None,
     tg_min_payment_amount = None, tg_active = True, tg_created_at = Some 0\<rparr>"

definition two_owners :: world where
  "two_owners = empty_world\<lparr>w_endpoints := [small_endpoint ''e1'' ''0xa'', small_endpoint ''e2'' ''0xb''],
     w_triggers := [small_trigger ''t1'' ''0xa'' ''e1'', small_trigger ''t2'' ''0xb'' ''e2'']\<rparr>"

lemmas two_owners_simps = two_owners_def empty_world_def small_endpoint_def small_trigger_def small_registry_def calm_env_def

lemmas tool_run_simps = trigger_get_by_id_def query_valid_def query_def trigger_deactivate_def set_inactive_def trigger_ids_def
  invalidate_topics_def invalidate_trigger_cache_def best_effort_def redis_call_def subscript_def expect_dict_def of_option_def py_str_def Let_def

end
