(* ===== verification/Dlq_Handler.thy ===== *)
theory Dlq_Handler
  imports Repositories
begin

text \<open>
  \<open>webhook/dlq_handler.py\<close>: one poll over the failed deliveries of every endpoint.
  The two Convoy calls it makes (modelled in theory Convoy, which has a state of its
  own) and the alert it posts are arguments, and so are its settings.
\<close>

record dlq_services =
  dq_list_failed :: "string \<Rightarrow> pyval list io"
  dq_force_resend :: "string \<Rightarrow> string list \<Rightarrow> unit io"
  dq_post_alert :: "string \<Rightarrow> pydict \<Rightarrow> unit io"
  dq_max_retries :: int
  dq_alert_url :: string

definition extract_event_id :: "env \<Rightarrow> pydict \<Rightarrow> string" where
  "extract_event_id env delivery =
     (let eid = (case dict_get ''event_metadata'' (PyDict []) delivery of
          PyDict m \<Rightarrow> dict_get ''uid'' (PyStr []) m | _ \<Rightarrow> PyStr []) in
      py_str (en_py_str env) (if py_truthy eid then eid else dict_get ''event_id'' (PyStr ''unknown'') delivery))"

definition send_alert :: "dlq_services \<Rightarrow> string \<Rightarrow> string \<Rightarrow> string \<Rightarrow> string \<Rightarrow> unit io" where
  "send_alert sv endpoint_id delivery_id event_id err =
     (if dq_alert_url sv = [] then eret ()
      else ebind (etry (dq_post_alert sv (dq_alert_url sv)
        [(''type'', PyStr ''dlq.dead_lettered''), (''endpoint_id'', PyStr endpoint_id),
         (''delivery_id'', PyStr delivery_id), (''event_id'', PyStr event_id), (''error'', PyStr err)])) (\<lambda>_. eret ()))"

definition dead_letter_message :: "dlq_services \<Rightarrow> string \<Rightarrow> string \<Rightarrow> string" where
  "dead_letter_message sv delivery_uid event_id = ''Delivery '' @ delivery_uid @ '' for event '' @ event_id @
     '' exceeded '' @ int_str (dq_max_retries sv) @ '' retries and has been dead-lettered.''"

definition dead_letter :: "env \<Rightarrow> dlq_services \<Rightarrow> string \<Rightarrow> string \<Rightarrow> string \<Rightarrow> unit io" where
  "dead_letter env sv endpoint_id delivery_uid event_id =
     ebind (etry (ebind (get_by_provider_message_id env delivery_uid) (\<lambda>row. case row of
         Some d \<Rightarrow> ebind (delivery_update_status env (dl_id d) ''dead_lettered'') (\<lambda>_. eret ())
       | None \<Rightarrow> eret ()))) (\<lambda>_.
     send_alert sv endpoint_id delivery_uid event_id (dead_letter_message sv delivery_uid event_id))"

text \<open>One failed delivery: the id to retry, if it is to be retried.\<close>

definition triage_one :: "env \<Rightarrow> dlq_services \<Rightarrow> string \<Rightarrow> pyval \<Rightarrow> string option io" where
  "triage_one env sv endpoint_id v =
     ebind (elift (expect_dict AttributeError v)) (\<lambda>delivery.
     let uid = dict_get ''uid'' (PyStr []) delivery; delivery_uid = py_str (en_py_str env) uid in
     if \<not> py_truthy uid then eret None
     else ebind (get_by_provider_message_id env delivery_uid) (\<lambda>row.
       if (case row of Some d \<Rightarrow> dl_dlq_retry_count d | None \<Rightarrow> 0) \<ge> dq_max_retries sv
       then ebind (dead_letter env sv endpoint_id delivery_uid (extract_event_id env delivery)) (\<lambda>_. eret None)
       else ebind (case row of
              Some d \<Rightarrow> ebind (increment_dlq_retry env (dl_id d)) (\<lambda>_. eret ())
            | None \<Rightarrow> eret ()) (\<lambda>_. eret (Some delivery_uid))))"

definition process_endpoint :: "env \<Rightarrow> dlq_services \<Rightarrow> string \<Rightarrow> string \<Rightarrow> int io" where
  "process_endpoint env sv endpoint_id convoy_project_id =
     ebind (dq_list_failed sv convoy_project_id) (\<lambda>failed.
     if failed = [] then eret 0
     else ebind (efor failed (triage_one env sv endpoint_id)) (\<lambda>ids.
       let retryable = List.map_filter (\<lambda>x. x) ids in
       ebind (if retryable = [] then eret ()
              else ebind (etry (dq_force_resend sv convoy_project_id retryable)) (\<lambda>_. eret ())) (\<lambda>_.
         eret (int (length failed)))))"

text \<open>The backlog gauge is the sum over the endpoints that could be processed.\<close>

definition dlq_poll_once :: "env \<Rightarrow> dlq_services \<Rightarrow> int io" where
  "dlq_poll_once env sv =
     ebind (endpoints_list_active env) (\<lambda>endpoints.
     ebind (efor endpoints (\<lambda>ep. case ep_convoy_project_id ep of
         Some (c # cs) \<Rightarrow> ebind (etry (process_endpoint env sv (ep_id ep) (c # cs))) (\<lambda>r.
           eret (case r of Inr n \<Rightarrow> n | Inl _ \<Rightarrow> 0))
       | _ \<Rightarrow> eret 0)) (\<lambda>counts. eret (sum_list counts)))"

section \<open>Properties\<close>

definition calm_db :: "env \<Rightarrow> bool" where
  "calm_db env \<longleftrightarrow> (\<forall>n. en_db_fault env n = None)"

definition row_of :: "string \<Rightarrow> world \<Rightarrow> DeliveryRow option" where
  "row_of m w = find (\<lambda>d. dl_provider_message_id d = Some m) (w_deliveries w)"

lemma get_by_provider_run:
  "calm_db env \<Longrightarrow> run (get_by_provider_message_id env m) w = (Inr (row_of m w), w\<lparr>w_tick := Suc (w_tick w)\<rparr>)"
  by (simp add: calm_db_def get_by_provider_message_id_def query_def row_of_def)

lemma row_of_tick [simp]: "row_of m (w\<lparr>w_tick := n\<rparr>) = row_of m w"
  by (simp add: row_of_def)

lemma triage_unknown:
  assumes "calm_db env" and "d = PyDict m" and "map_of m ''uid'' = Some (PyStr u)" and "u \<noteq> []"
    and "row_of u w = None" and "0 < dq_max_retries sv"
  shows "run (triage_one env sv ep d) w = (Inr (Some u), w\<lparr>w_tick := Suc (w_tick w)\<rparr>)"
  using assms by (simp add: triage_one_def dict_get_def py_truthy_def py_str_def get_by_provider_run)

definition failed_delivery :: "string \<Rightarrow> pyval" where
  "failed_delivery u = PyDict [(''uid'', PyStr u), (''status'', PyStr ''Failed'')]"

text \<open>
  A delivery Convoy reports under an id that the table does not store is retried
  for ever: as long as the retry limit is positive, every poll resends it, it is never
  marked dead-lettered and no row changes. The table stores the id of the event, the
  report carries the id of the event delivery.
\<close>

theorem unmatched_delivery_retried_forever:
  assumes "calm_db env" and "0 < dq_max_retries sv" and "u \<noteq> []" and "row_of u w = None"
  shows "\<exists>w'. run (efor (replicate n (failed_delivery u)) (triage_one env sv ep)) w = (Inr (replicate n (Some u)), w') \<and>
    w' = w\<lparr>w_tick := w_tick w + n\<rparr>"
  using assms(4)
proof (induction n arbitrary: w)
  case (Suc n)
  have "run (triage_one env sv ep (failed_delivery u)) w = (Inr (Some u), w\<lparr>w_tick := Suc (w_tick w)\<rparr>)"
    using triage_unknown[OF assms(1) _ _ assms(3) Suc.prems assms(2)] by (simp add: failed_delivery_def)
  with Suc.IH[of "w\<lparr>w_tick := Suc (w_tick w)\<rparr>"] Suc.prems show ?case by simp
qed simp

definition no_services :: dlq_services where
  "no_services = \<lparr>dq_list_failed = (\<lambda>_. eret []), dq_force_resend = (\<lambda>_ _. eret ()), dq_post_alert = (\<lambda>_ _. eret ()),
     dq_max_retries = 3, dq_alert_url = []\<rparr>"

theorem unmatched_delivery_retried_forever_witness:
  "\<exists>w'. run (efor (replicate 10 (failed_delivery ''ed1'')) (triage_one calm_env no_services ''ep'')) empty_world =
     (Inr (replicate 10 (Some ''ed1'')), w')"
  using unmatched_delivery_retried_forever[of calm_env no_services "''ed1''" empty_world 10 "''ep''"]
  by (auto simp: calm_db_def calm_env_def no_services_def row_of_def empty_world_def)

lemma find_distinct: "distinct (map f xs) \<Longrightarrow> x \<in> set xs \<Longrightarrow> find (\<lambda>y. f y = f x) xs = Some x"
  by (induction xs) (auto simp: image_iff)

lemma find_delivery_self:
  "distinct (map dl_id (w_deliveries w)) \<Longrightarrow> d \<in> set (w_deliveries w) \<Longrightarrow> find_delivery (dl_id d) w = Some d"
  by (simp add: find_delivery_def find_distinct)

text \<open>
  For a delivery the table knows, the triage is exact: below the limit it is
  retried and its counter goes up by one; at the limit it is not retried and its row
  becomes dead-lettered. All other rows stay as they are.
\<close>

theorem known_delivery_triaged:
  assumes "calm_db env" and "distinct (map dl_id (w_deliveries w))" and "row_of u w = Some d" and "u \<noteq> []"
    and "dq_alert_url sv = []"
  shows "\<exists>w'. run (triage_one env sv ep (failed_delivery u)) w =
      (Inr (if dl_dlq_retry_count d < dq_max_retries sv then Some u else None), w') \<and>
    w_deliveries w' = map (\<lambda>x. if dl_id x = dl_id d
      then (if dl_dlq_retry_count d < dq_max_retries sv then x\<lparr>dl_dlq_retry_count := dl_dlq_retry_count d + 1\<rparr>
            else x\<lparr>dl_status := ''dead_lettered''\<rparr>) else x) (w_deliveries w)"
proof -
  have f: "find_delivery (dl_id d) w = Some d"
    using find_delivery_self[OF assms(2)] assms(3) by (auto simp: row_of_def find_Some_iff)
  have ft: "find_delivery (dl_id d) (w\<lparr>w_tick := n\<rparr>) = Some d" for n using f by (simp add: find_delivery_def)
  have db: "en_db_fault env n = None" for n using assms(1) by (simp add: calm_db_def)
  show ?thesis
    using assms(3-5) db ft get_by_provider_run[OF assms(1)]
    by (simp add: triage_one_def failed_delivery_def dict_get_def py_truthy_def py_str_def dead_letter_def send_alert_def
        increment_dlq_retry_def delivery_get_by_id_def query_def delivery_update_status_def modify_delivery_def Let_def
        cong: if_cong)
qed

definition tired_delivery :: DeliveryRow where
  "tired_delivery = \<lparr>dl_id = ''d1'', dl_endpoint_id = ''ep'', dl_event_id = ''e1'', dl_provider_message_id = Some ''ev1'',
     dl_status = ''sent'', dl_created_at = 0, dl_dlq_retry_count = 3\<rparr>"

theorem known_delivery_triaged_witness:
  "\<exists>w'. run (triage_one calm_env no_services ''ep'' (failed_delivery ''ev1'')) (empty_world\<lparr>w_deliveries := [tired_delivery]\<rparr>) =
     (Inr None, w') \<and> w_deliveries w' = [tired_delivery\<lparr>dl_status := ''dead_lettered''\<rparr>]"
proof -
  let ?w = "empty_world\<lparr>w_deliveries := [tired_delivery]\<rparr>"
  have "calm_db calm_env" "distinct (map dl_id (w_deliveries ?w))" "row_of ''ev1'' ?w = Some tired_delivery"
    "''ev1'' \<noteq> []" "dq_alert_url no_services = []"
    by (simp_all add: calm_db_def calm_env_def row_of_def tired_delivery_def no_services_def)
  from known_delivery_triaged[OF this, of "''ep''"] show ?thesis
    by (simp add: tired_delivery_def no_services_def)
qed

end
