(* ===== verification/Tool_Claims.thy ===== *)
theory Tool_Claims
  imports Tool_Props Dlq_Handler
begin

text \<open>
  What the tool handlers keep and what their answers mean: the invariants of the tables,
  the quotas, the events a caller may see, and what becomes of triggers once they are stored.
\<close>

section \<open>Invariants of the tables\<close>

text \<open>
  The writes the handlers make, as an interface: a predicate that survives the five of them
  survives every tool call.
\<close>

locale tool_frame =
  fixes I :: "world \<Rightarrow> bool" and env :: env and rg :: registry
  assumes stable: "registry_stable I"
    and keeps_create: "keeps I (create_owned_trigger env rg a e time s cols)"
    and keeps_insert: "keeps I (endpoint_insert env rg i rc a po cols)"
    and keeps_provider: "keeps I (endpoint_set_provider env i p ce)"
    and keeps_delete: "keeps I (endpoint_delete env i)"
    and keeps_deactivate: "keeps I (trigger_deactivate env rg i)"
begin

lemma tick_stable: "tick_stable I"
  by (rule registry_stable_tick[OF stable])

lemmas keeps_writes = keeps_create keeps_insert keeps_provider keeps_delete keeps_deactivate

lemma keeps_core: "keeps I (create_endpoint_core env rg params ctx)"
  unfolding create_endpoint_core_def wire_provider_def Let_def by (intro keeps_intros keeps_writes tick_stable)

lemma keeps_middleware: "keeps I (register_middleware env rg params ctx)"
  unfolding register_middleware_def finish_middleware_def middleware_template_def middleware_custom_def Let_def
  by (intro keeps_intros keeps_core keeps_writes tick_stable)

lemma keeps_tools: "keeps I (tool_handlers env rg name params ctx)"
proof -
  have "keeps I (register_endpoint env rg params ctx)"
    unfolding register_endpoint_def by (intro keeps_intros keeps_core)
  moreover have "keeps I (create_trigger env rg params ctx)" "keeps I (activate_template env rg params ctx)"
    "keeps I (delete_trigger env rg params ctx)"
    unfolding create_trigger_def activate_template_def delete_trigger_def Let_def
    by (intro keeps_intros keeps_writes tick_stable)+
  ultimately show ?thesis
    using keeps_read_only[OF stable] keeps_fetch_abi[OF tick_stable] keeps_middleware
    by (simp add: tool_handlers_def)
qed

end

text \<open>For a predicate on the tables it is enough to survive each change of a row.\<close>

locale registry_closed =
  fixes I :: "world \<Rightarrow> bool"
  assumes stable: "registry_stable I"
    and add_trigger: "I w \<Longrightarrow> tg_id t \<notin> set (trigger_ids w) \<Longrightarrow> tg_endpoint_id t \<in> set (endpoint_ids w) \<Longrightarrow> I (add_trigger t w)"
    and add_invalid_trigger: "I w \<Longrightarrow> iv_id r \<notin> set (trigger_ids w) \<Longrightarrow> iv_endpoint_id r \<in> set (endpoint_ids w) \<Longrightarrow>
      I (add_invalid_trigger r w)"
    and add_endpoint: "I w \<Longrightarrow> ep_id e \<notin> set (endpoint_ids w) \<Longrightarrow> I (add_endpoint e w)"
    and add_invalid_endpoint: "I w \<Longrightarrow> iv_id r \<notin> set (endpoint_ids w) \<Longrightarrow> I (add_invalid_endpoint r w)"
    and set_inactive: "I w \<Longrightarrow> I (set_inactive i w)"
    and wired: "I w \<Longrightarrow> I (wired i p ce w)"
    and remove_endpoint: "I w \<Longrightarrow> \<not> list_ex (\<lambda>r. er_endpoint_id r = Some i) (w_events w) \<Longrightarrow> I (remove_endpoint i w)"

lemma keeps_pair: "(\<And>x y. keeps I (f x y)) \<Longrightarrow> keeps I (case p of (x, y) \<Rightarrow> f x y)"
  by (cases p) simp

lemma keeps_row_writes:
  "tick_stable I \<Longrightarrow> (\<And>w. I w \<Longrightarrow> I (wired i p ce w)) \<Longrightarrow> keeps I (endpoint_set_provider env i p ce)"
  "registry_stable I \<Longrightarrow> (\<And>w. I w \<Longrightarrow> I (set_inactive i w)) \<Longrightarrow> keeps I (trigger_deactivate env rg i)"
proof -
  show "tick_stable I \<Longrightarrow> (\<And>w. I w \<Longrightarrow> I (wired i p ce w)) \<Longrightarrow> keeps I (endpoint_set_provider env i p ce)"
    unfolding endpoint_set_provider_def wired_def[symmetric] by (intro keeps_intros)
  show "registry_stable I \<Longrightarrow> (\<And>w. I w \<Longrightarrow> I (set_inactive i w)) \<Longrightarrow> keeps I (trigger_deactivate env rg i)"
    unfolding trigger_deactivate_def by (intro keeps_intros keeps_pair registry_stable_tick)
qed

sublocale registry_closed \<subseteq> frame: tool_frame I env rg for env rg
proof
  note tick_stable = registry_stable_tick[OF stable]
  show "registry_stable I" by (rule stable)
  have "keeps I (trigger_create env rg i a e s t c cols)" for i a e s t c cols
    by (intro keeps_triple triple_trigger_create tick_stable stable) (auto intro: add_trigger add_invalid_trigger)
  then show "keeps I (create_owned_trigger env rg a e time s cols)" for a e time s cols
    unfolding create_owned_trigger_def by (intro keeps_intros tick_stable)
  show "keeps I (endpoint_insert env rg i rc a po cols)" for i rc a po cols
    by (intro keeps_triple triple_endpoint_insert tick_stable) (auto intro: add_endpoint add_invalid_endpoint)
qed (auto intro: keeps_row_writes keeps_endpoint_delete registry_stable_tick[OF stable] stable wired set_inactive remove_endpoint)

interpretation reg: registry_closed registry_inv
proof
  show "registry_inv w \<Longrightarrow> registry_inv (wired i p ce w)" for i p ce w
    by (simp add: registry_defs wired_def comp_def if_distrib[of ep_id] cong: if_cong)
qed (auto intro: registry_inv_steps registry_inv_set_inactive registry_inv_remove)

interpretation integrity: registry_closed db_inv
proof
  show "registry_stable db_inv"
    by (simp add: registry_stable_def tick_stable_def db_inv_def event_ids_def endpoint_ids_def)
  show "db_inv w \<Longrightarrow> db_inv (wired i p ce w)" for i p ce w
    by (simp add: db_inv_def event_ids_def endpoint_ids_def wired_def comp_def if_distrib[of ep_id] cong: if_cong)
  show "db_inv w \<Longrightarrow> \<not> list_ex (\<lambda>r. er_endpoint_id r = Some i) (w_events w) \<Longrightarrow> db_inv (remove_endpoint i w)" for i w
    by (fastforce simp: db_inv_def event_ids_def endpoint_ids_def remove_endpoint_def list_ex_iff)
qed (auto simp: db_inv_def event_ids_def endpoint_ids_def add_trigger_def add_invalid_trigger_def add_endpoint_def
    add_invalid_endpoint_def set_inactive_def)

section \<open>Quotas\<close>

text \<open>
  \<open>below k n\<close>: no wallet exceeds its limit, and the wallet \<open>a\<close> stays under it by one where
  the flag says so. \<open>k\<close> counts the active rows of a wallet.
\<close>

definition below :: "(string \<Rightarrow> world \<Rightarrow> int) \<Rightarrow> int \<Rightarrow> string \<Rightarrow> world \<Rightarrow> bool" where
  "below k limit b w \<longleftrightarrow> k b w \<le> limit"

definition spare :: "(string \<Rightarrow> world \<Rightarrow> int) \<Rightarrow> int \<Rightarrow> string \<Rightarrow> string \<Rightarrow> world \<Rightarrow> bool" where
  "spare k limit a b w \<longleftrightarrow> k b w \<le> limit \<and> (b = a \<longrightarrow> k b w < limit)"

lemma spare_below: "spare k limit a b w \<Longrightarrow> below k limit b w"
  by (simp add: spare_def below_def)

lemma owned_stable [simp]:
  "registry_stable (below owned_triggers n b)" "registry_stable (below owned_endpoints n b)"
  "registry_stable (spare owned_triggers n a b)" "registry_stable (spare owned_endpoints n a b)"
  by (simp_all add: registry_stable_def tick_stable_def below_def spare_def owned_triggers_def owned_endpoints_def)

lemmas owned_ticks [simp] = owned_stable[THEN registry_stable_tick]

lemma quota_checked:
  "py_lower a = a \<Longrightarrow> tick_stable (below k n b) \<Longrightarrow> triple (below k n b) (check_quota env what (k (py_lower a)) n)
    (\<lambda>_. spare k n a b) (below k n b)"
  by (auto simp: triple_def check_quota_def query_def tick_stable_def below_def spare_def split: option.splits if_splits)

lemma length_filter_mono: "(\<And>x. P x \<Longrightarrow> Q x) \<Longrightarrow> length (filter P xs) \<le> length (filter Q xs)"
  by (induction xs) auto

text \<open>Only the inserts add rows, each at most one and to the wallet of the caller.\<close>

lemma owned_adds:
  "owned_triggers b (add_trigger t w) = owned_triggers b w + (if tg_owner_address t = b \<and> tg_active t then 1 else 0)"
  "owned_triggers b (add_invalid_trigger r w) = owned_triggers b w + (if iv_owner_address r = b \<and> iv_active r then 1 else 0)"
  "owned_endpoints b (add_endpoint e w) = owned_endpoints b w + (if ep_owner_address e = b \<and> ep_active e then 1 else 0)"
  "owned_endpoints b (add_invalid_endpoint r w) = owned_endpoints b w + (if iv_owner_address r = b \<and> iv_active r then 1 else 0)"
  by (simp_all add: owned_triggers_def owned_endpoints_def add_trigger_def add_invalid_trigger_def add_endpoint_def
      add_invalid_endpoint_def)

lemma owned_other_table [simp]:
  "owned_endpoints b (add_trigger t w) = owned_endpoints b w"
  "owned_endpoints b (add_invalid_trigger r w) = owned_endpoints b w"
  "owned_triggers b (add_endpoint e w) = owned_triggers b w"
  "owned_triggers b (add_invalid_endpoint r w) = owned_triggers b w"
  "owned_endpoints b (set_inactive i w) = owned_endpoints b w"
  "owned_triggers b (wired i p ce w) = owned_triggers b w"
  by (simp_all add: owned_triggers_def owned_endpoints_def add_trigger_def add_invalid_trigger_def add_endpoint_def
      add_invalid_endpoint_def set_inactive_def wired_def)

lemma owned_removes:
  "owned_triggers b (set_inactive i w) \<le> owned_triggers b w"
  "owned_triggers b (remove_endpoint i w) \<le> owned_triggers b w"
  "owned_endpoints b (remove_endpoint i w) \<le> owned_endpoints b w"
  "owned_endpoints b (wired i p ce w) \<le> owned_endpoints b w"
  unfolding owned_triggers_def owned_endpoints_def set_inactive_def remove_endpoint_def wired_def of_nat_le_iff
  by (simp_all, (intro add_mono length_filter_mono; auto split: if_splits)+)

lemma quota_writes:
  shows "triple (spare owned_triggers n a b) (trigger_create env rg i a e s t c cols) (\<lambda>_. below owned_triggers n b) (below owned_triggers n b)"
    and "triple (spare owned_endpoints n a b) (endpoint_insert env rg i rc a po cols) (\<lambda>_. below owned_endpoints n b) (below owned_endpoints n b)"
proof -
  show "triple (spare owned_triggers n a b) (trigger_create env rg i a e s t c cols) (\<lambda>_. below owned_triggers n b) (below owned_triggers n b)"
    by (intro triple_trigger_create owned_stable owned_ticks) (auto simp: spare_def below_def owned_adds)
  show "triple (spare owned_endpoints n a b) (endpoint_insert env rg i rc a po cols) (\<lambda>_. below owned_endpoints n b) (below owned_endpoints n b)"
    by (intro triple_endpoint_insert owned_stable owned_ticks) (auto simp: spare_def below_def owned_adds)
qed

lemma quota_keeps:
  "keeps (below owned_triggers n b) (endpoint_insert env rg i rc a po cols)"
  "keeps (below owned_endpoints n b) (trigger_create env rg i a e s t c cols)"
  "keeps (below owned_triggers n b) (trigger_deactivate env rg i)"
  "keeps (below owned_endpoints n b) (trigger_deactivate env rg i)"
  "keeps (below owned_triggers n b) (endpoint_delete env i)"
  "keeps (below owned_endpoints n b) (endpoint_delete env i)"
  "keeps (below owned_triggers n b) (endpoint_set_provider env i p ce)"
  "keeps (below owned_endpoints n b) (endpoint_set_provider env i p ce)"
proof -
  have le: "below owned_triggers n b (set_inactive i w)" "below owned_triggers n b (remove_endpoint i w)"
    if "below owned_triggers n b w" for w
    using that owned_removes(1,2)[of b i w] by (simp_all add: below_def)
  have le': "below owned_endpoints n b (remove_endpoint i w)" "below owned_endpoints n b (wired i p ce w)"
    if "below owned_endpoints n b w" for w
    using that owned_removes(3)[of b i w] owned_removes(4)[of b i p ce w] by (simp_all add: below_def)
  have eq: "below owned_triggers n b (wired i p ce w) = below owned_triggers n b w"
    "below owned_endpoints n b (set_inactive i w) = below owned_endpoints n b w" for w
    by (simp_all add: below_def)
  show "keeps (below owned_triggers n b) (endpoint_insert env rg i rc a po cols)"
    by (intro keeps_triple triple_endpoint_insert) (simp_all add: below_def[symmetric], simp_all add: below_def)
  show "keeps (below owned_endpoints n b) (trigger_create env rg i a e s t c cols)"
    by (intro keeps_triple triple_trigger_create) (simp_all add: below_def[symmetric], simp_all add: below_def)
  show "keeps (below owned_triggers n b) (endpoint_delete env i)" "keeps (below owned_endpoints n b) (endpoint_delete env i)"
    by (intro keeps_endpoint_delete; simp add: le le')+
  show "keeps (below owned_triggers n b) (endpoint_set_provider env i p ce)" "keeps (below owned_endpoints n b) (endpoint_set_provider env i p ce)"
    by (intro keeps_row_writes; simp add: le' eq)+
  show "keeps (below owned_triggers n b) (trigger_deactivate env rg i)" "keeps (below owned_endpoints n b) (trigger_deactivate env rg i)"
    by (intro keeps_row_writes; simp add: le eq)+
qed

text \<open>The limits of the settings.\<close>

definition trigger_quota :: "env \<Rightarrow> string \<Rightarrow> world \<Rightarrow> bool" where
  "trigger_quota env = below owned_triggers (st_max_triggers_per_wallet (en_settings env))"

definition endpoint_quota :: "env \<Rightarrow> string \<Rightarrow> world \<Rightarrow> bool" where
  "endpoint_quota env = below owned_endpoints (st_max_endpoints_per_wallet (en_settings env))"

lemmas quota_defs = trigger_quota_def endpoint_quota_def

lemma quota_stable [simp]: "registry_stable (trigger_quota env b)" "registry_stable (endpoint_quota env b)"
  "tick_stable (trigger_quota env b)" "tick_stable (endpoint_quota env b)"
  by (simp_all add: quota_defs)

lemma quota_keeps_writes [keeps_intros]:
  "keeps (trigger_quota env' b) (endpoint_insert env rg i rc a po cols)"
  "keeps (endpoint_quota env' b) (trigger_create env rg i a e s t c cols)"
  "keeps (trigger_quota env' b) (trigger_deactivate env rg i)"
  "keeps (endpoint_quota env' b) (trigger_deactivate env rg i)"
  "keeps (trigger_quota env' b) (endpoint_delete env i)"
  "keeps (endpoint_quota env' b) (endpoint_delete env i)"
  "keeps (trigger_quota env' b) (endpoint_set_provider env i p ce)"
  "keeps (endpoint_quota env' b) (endpoint_set_provider env i p ce)"
  unfolding quota_defs by (rule quota_keeps)+

abbreviation trigger_room :: "env \<Rightarrow> string \<Rightarrow> string \<Rightarrow> world \<Rightarrow> bool" where
  "trigger_room env \<equiv> spare owned_triggers (st_max_triggers_per_wallet (en_settings env))"

abbreviation endpoint_room :: "env \<Rightarrow> string \<Rightarrow> string \<Rightarrow> world \<Rightarrow> bool" where
  "endpoint_room env \<equiv> spare owned_endpoints (st_max_endpoints_per_wallet (en_settings env))"

lemma room_quota:
  "trigger_room env a b w \<Longrightarrow> trigger_quota env b w" "endpoint_room env a b w \<Longrightarrow> endpoint_quota env b w"
  by (simp_all add: quota_defs spare_below)

lemma check_makes_room:
  assumes "py_lower a = a"
  shows "triple (trigger_quota env b) (check_trigger_quota env a) (\<lambda>_. trigger_room env a b) (trigger_quota env b)"
    and "triple (endpoint_quota env b) (check_endpoint_quota env a) (\<lambda>_. endpoint_room env a b) (endpoint_quota env b)"
  unfolding check_trigger_quota_def check_endpoint_quota_def quota_defs by (intro quota_checked assms owned_ticks)+

lemma room_create:
  "triple (trigger_room env a b) (create_owned_trigger env rg a e time s cols) (\<lambda>_. trigger_quota env b) (trigger_quota env b)"
  unfolding create_owned_trigger_def trigger_quota_def
  by (rule triple_step, intro keeps_intros owned_ticks, rule spare_below, assumption, rule quota_writes)

lemma room_insert:
  "triple (endpoint_room env a b) (endpoint_insert env rg i rc a po cols) (\<lambda>_. endpoint_quota env b) (endpoint_quota env b)"
  unfolding endpoint_quota_def by (rule quota_writes(2))

lemmas room_step = triple_step[OF _ room_quota(1)] triple_elift[OF room_quota(1)] triple_step[OF _ room_quota(2)] triple_elift[OF room_quota(2)]

lemma quota_middleware [keeps_intros]:
  assumes "py_lower a = a"
  shows "keeps (trigger_quota env b) (middleware_template env rg a e ch time slug)"
    and "keeps (trigger_quota env b) (middleware_custom env rg a e ch time ct)"
proof -
  show "keeps (trigger_quota env b) (middleware_template env rg a e ch time slug)"
    unfolding middleware_template_def
    apply (rule keeps_triple, rule triple_ebind[OF check_makes_room(1)[OF assms]])
    apply (rule room_step, intro keeps_intros owned_ticks, assumption)
    apply (rule triple_cases, rule triple_eret, rule room_quota, assumption)
    apply (rule triple_ebind[OF room_create], rule triple_eret, assumption)
    done
  show "keeps (trigger_quota env b) (middleware_custom env rg a e ch time ct)"
    unfolding middleware_custom_def
    apply (rule keeps_triple, rule triple_ebind[OF check_makes_room(1)[OF assms]])
    apply (rule room_step, assumption)+
    apply (rule triple_ebind[OF room_create], rule triple_eret, assumption)
    done
qed

lemma quota_create:
  shows "keeps (trigger_quota env b) (create_trigger env rg params ctx)"
    and "keeps (trigger_quota env b) (activate_template env rg params ctx)"
proof -
  have low: "py_lower a = a" if "agent_lower ctx = Inr a" for a using that by (rule agent_lower_lower)
  show "keeps (trigger_quota env b) (create_trigger env rg params ctx)"
    unfolding create_trigger_def Let_def
    apply (rule keeps_triple, rule triple_elift, assumption)
    apply (rule triple_ebind[OF check_makes_room(1)], erule low)
    apply (rule room_step, assumption)
    apply (rule room_step, intro keeps_intros owned_ticks, assumption)
    apply (rule triple_cases, rule triple_eret, rule room_quota, assumption)
    apply (rule triple_if, rule triple_eret, rule room_quota, assumption)
    apply (rule room_step, intro keeps_intros owned_ticks, assumption)
    apply (rule room_step, assumption)+
    apply (rule triple_ebind[OF room_create])
    apply (rule triple_step, intro keeps_intros quota_stable, assumption, rule triple_eret, assumption)
    done
  show "keeps (trigger_quota env b) (activate_template env rg params ctx)"
    unfolding activate_template_def Let_def
    apply (rule keeps_triple, rule triple_elift, assumption)
    apply (rule triple_ebind[OF check_makes_room(1)], erule low)
    apply (rule room_step, assumption)+
    apply (rule room_step, intro keeps_intros owned_ticks, assumption)
    apply (rule triple_cases, rule triple_eret, rule room_quota, assumption)
    apply (rule room_step, intro keeps_intros owned_ticks, assumption)
    apply (rule triple_cases, rule triple_eret, rule room_quota, assumption)
    apply (rule triple_if, rule triple_eret, rule room_quota, assumption)
    apply (rule room_step, assumption)
    apply (rule room_step, intro keeps_intros owned_ticks, assumption)
    apply (rule triple_ebind[OF room_create])
    apply (rule triple_step, intro keeps_intros quota_stable, assumption)+
    apply (rule triple_eret, assumption)
    done
qed

lemma quota_core:
  shows "keeps (trigger_quota env' b) (create_endpoint_core env rg params ctx)"
    and "keeps (endpoint_quota env b) (create_endpoint_core env rg params ctx)"
proof -
  show "keeps (trigger_quota env' b) (create_endpoint_core env rg params ctx)"
    unfolding create_endpoint_core_def wire_provider_def Let_def by (intro keeps_intros quota_stable)
  have after: "triple (endpoint_quota env b) (if c then m else eret v) (\<lambda>_. endpoint_quota env b) (endpoint_quota env b)"
    if "keeps (endpoint_quota env b) m" for c v and m :: "(pydict + core_result) io"
    using that by (auto intro: triple_keeps triple_eret)
  show "keeps (endpoint_quota env b) (create_endpoint_core env rg params ctx)"
    unfolding create_endpoint_core_def wire_provider_def Let_def
    apply (rule keeps_triple)
    apply (rule triple_elift, assumption)+
    apply (rule triple_step, intro keeps_intros quota_stable, assumption)
    apply (rule triple_cases, rule triple_if; (rule triple_eret triple_eraise)?; assumption?)
    apply (rule triple_elift, assumption)
    apply (rule triple_ebind[OF check_makes_room(2)], erule agent_lower_lower)
    apply (rule room_step, intro keeps_intros owned_ticks, assumption)+
    apply (rule triple_ebind[OF room_insert])
    apply (rule after, intro keeps_intros quota_stable)
    done
qed

lemma quota_middleware_tool:
  shows "keeps (trigger_quota env b) (register_middleware env rg params ctx)"
    and "keeps (endpoint_quota env b) (register_middleware env rg params ctx)"
proof -
  have low: "agent_lower ctx = Inr a \<Longrightarrow> py_lower a = a" for a by (rule agent_lower_lower)
  show "keeps (endpoint_quota env b) (register_middleware env rg params ctx)"
    unfolding register_middleware_def finish_middleware_def middleware_template_def middleware_custom_def create_owned_trigger_def Let_def
    by (intro keeps_intros quota_core quota_stable)
  have "keeps (trigger_quota env b) (ebind (elift (agent_lower ctx)) (\<lambda>owner. finish_middleware env rg params owner c))" for c
    unfolding finish_middleware_def Let_def
    by (rule keeps_triple, rule triple_elift, assumption, rule triple_keeps) (intro keeps_intros quota_stable low, assumption+)
  then show "keeps (trigger_quota env b) (register_middleware env rg params ctx)"
    unfolding register_middleware_def by (intro keeps_ebind quota_core) (auto intro: keeps_intros split: sum.split)
qed

lemma tool_quotas:
  "keeps (trigger_quota env b) (tool_handlers env rg name params ctx)"
  "keeps (endpoint_quota env b) (tool_handlers env rg name params ctx)"
proof -
  have t: "keeps (trigger_quota env b) (register_endpoint env rg params ctx)" "keeps (endpoint_quota env b) (register_endpoint env rg params ctx)"
    "keeps (trigger_quota env b) (delete_trigger env rg params ctx)" "keeps (endpoint_quota env b) (delete_trigger env rg params ctx)"
    unfolding register_endpoint_def delete_trigger_def Let_def by (intro keeps_intros quota_core quota_stable)+
  have e: "keeps (endpoint_quota env b) (create_trigger env rg params ctx)" "keeps (endpoint_quota env b) (activate_template env rg params ctx)"
    unfolding create_trigger_def activate_template_def create_owned_trigger_def Let_def by (intro keeps_intros quota_stable)+
  show "keeps (trigger_quota env b) (tool_handlers env rg name params ctx)"
    using t quota_create quota_middleware_tool(1) keeps_read_only[OF quota_stable(1)] keeps_fetch_abi[OF quota_stable(3)]
    by (simp add: tool_handlers_def)
  show "keeps (endpoint_quota env b) (tool_handlers env rg name params ctx)"
    using t e quota_middleware_tool(2) keeps_read_only[OF quota_stable(2)] keeps_fetch_abi[OF quota_stable(4)]
    by (simp add: tool_handlers_def)
qed

definition tight_env :: env where
  "tight_env = calm_env\<lparr>en_settings := default_settings\<lparr>st_max_triggers_per_wallet := 2\<rparr>\<rparr>"

lemma agent_samples: "agent_lower (agent ''0xA'') = Inr ''0xa''" "py_lower ''0xa'' = ''0xa''" "py_lower ''0xb'' = ''0xb''"
  by (simp add: agent_lower_def agent_def, code_simp) code_simp+

definition swap_call :: pyval where
  "swap_call = PyDict [(''endpoint_id'', PyStr ''e1''), (''event_signature'', PyStr ''Swap()'')]"

lemmas create_run_simps = create_trigger_def create_owned_trigger_def trigger_create_def check_trigger_quota_def check_quota_def
  endpoint_get_by_id_def signature_of_def expect_str_def owned_triggers_def owned_endpoints_def endpoint_ids_def add_trigger_def
  tool_run_simps

lemma swap_call_run:
  "is_ok (fst (run (create_trigger tight_env small_registry swap_call (agent ''0xA'')) two_owners))"
  "owned_triggers ''0xa'' (snd (run (create_trigger tight_env small_registry swap_call (agent ''0xA'')) two_owners)) = 2"
  by (simp_all add: create_run_simps agent_samples two_owners_simps swap_call_def tight_env_def default_settings_def)

end
