(* ===== verification/Mcp_Registry.thy ===== *)
theory Mcp_Registry
  imports Mcp_Auth
begin

text \<open>The tools of \<open>mcp/server.py\<close>, with the arguments of each \<open>_register\<close>
  call; \<open>doc_\<close> holds the description and the input schema, and the handlers are arguments.\<close>

definition register ::
  "string \<Rightarrow> string \<times> pydict \<Rightarrow> handler \<Rightarrow> AuthTier \<Rightarrow> string option \<Rightarrow> rat \<Rightarrow> string \<Rightarrow> ToolDef" where
  "register name doc h tier price min_reputation product' =
     \<lparr>td_name = name, td_description = fst doc, td_input_schema = snd doc, td_handler = h,
      td_auth_tier = tier, td_price = price, td_networks = [''eip155:8453''],
      td_min_reputation = min_reputation, td_product = product'\<rparr>"

definition doc_register_endpoint :: "string \<times> pydict" where
  "doc_register_endpoint = (''Create a webhook endpoint. Returns endpoint_id and webhook_secret. Use create_trigger or activate_template separately to add event triggers.'',
     [(''type'', PyStr ''object''), (''properties'', PyDict [(''url'', PyDict [(''type'', PyStr ''string''),
       (''description'', PyStr ''Your webhook/callback URL'')]), (''mode'', PyDict [(''type'',
       PyStr ''string''), (''enum'', PyList [PyStr ''notify'', PyStr ''execute'']), (''description'',
       PyStr ''Delivery mode: notify (Supabase Realtime) or execute (webhook POST)''), (''default'',
       PyStr ''execute'')]), (''chains'', PyDict [(''type'', PyStr ''array''), (''items'', PyDict [(''type'',
       PyStr ''integer'')]), (''description'', PyStr ''Chain IDs to monitor (default: [8453] for Base)''),
       (''default'', PyList [PyInt 8453])]), (''recipient'', PyDict [(''type'', PyStr ''string''),
       (''description'', PyStr ''Recipient address to watch (defaults to your agent address)'')]),
       (''policies'', PyDict [(''type'', PyStr ''object''), (''description'',
       PyStr ''Endpoint policies (min_amount, max_amount, allowed_senders, etc.)'')])]), (''required'',
       PyList [PyStr ''url''])])"

definition tool_register_endpoint :: "handler \<Rightarrow> ToolDef" where
  "tool_register_endpoint h = register ''register_endpoint'' doc_register_endpoint h X402 (Some ''$0.003'') 10 ''both''"

definition doc_register_middleware :: "string \<times> pydict" where
  "doc_register_middleware = (''(Deprecated -- use register_endpoint instead) Register TripWire as middleware for your API. Creates an endpoint and triggers from template slugs or custom definitions.'',
     [(''type'', PyStr ''object''), (''properties'', PyDict [(''url'', PyDict [(''type'', PyStr ''string''),
       (''description'', PyStr ''Your webhook/callback URL'')]), (''mode'', PyDict [(''type'',
       PyStr ''string''), (''enum'', PyList [PyStr ''notify'', PyStr ''execute'']), (''description'',
       PyStr ''Delivery mode: notify (Supabase Realtime) or execute (webhook POST)''), (''default'',
       PyStr ''execute'')]), (''chains'', PyDict [(''type'', PyStr ''array''), (''items'', PyDict [(''type'',
       PyStr ''integer'')]), (''description'', PyStr ''Chain IDs to monitor (default: [8453] for Base)''),
       (''default'', PyList [PyInt 8453])]), (''recipient'', PyDict [(''type'', PyStr ''string''),
       (''description'', PyStr ''Recipient address to watch (defaults to your agent address)'')]),
       (''policies'', PyDict [(''type'', PyStr ''object''), (''description'',
       PyStr ''Endpoint policies (min_amount, max_amount, allowed_senders, etc.)'')]), (''template_slugs'',
       PyDict [(''type'', PyStr ''array''), (''items'', PyDict [(''type'', PyStr ''string'')]),
       (''description'', PyStr ''Template slugs to instantiate as triggers'')]), (''custom_triggers'',
       PyDict [(''type'', PyStr ''array''), (''items'', PyDict [(''type'', PyStr ''object''), (''properties'',
       PyDict [(''event_signature'', PyDict [(''type'', PyStr ''string'')]), (''name'', PyDict [(''type'',
       PyStr ''string'')]), (''abi'', PyDict [(''type'', PyStr ''array'')]), (''contract_address'',
       PyDict [(''type'', PyStr ''string'')]), (''chain_ids'', PyDict [(''type'', PyStr ''array''), (''items'',
       PyDict [(''type'', PyStr ''integer'')])]), (''filter_rules'', PyDict [(''type'', PyStr ''array'')]),
       (''webhook_event_type'', PyDict [(''type'', PyStr ''string'')])]), (''required'',
       PyList [PyStr ''event_signature''])]), (''description'', PyStr ''Custom trigger definitions'')])]),
       (''required'', PyList [PyStr ''url''])])"

definition tool_register_middleware :: "handler \<Rightarrow> ToolDef" where
  "tool_register_middleware h = register ''register_middleware'' doc_register_middleware h X402 (Some ''$0.003'') 10 ''keeper''"

definition doc_create_trigger :: "string \<times> pydict" where
  "doc_create_trigger = (''Create a custom trigger for an existing endpoint.'',
     [(''type'', PyStr ''object''), (''properties'', PyDict [(''endpoint_id'', PyDict [(''type'',
       PyStr ''string''), (''description'', PyStr ''Target endpoint ID'')]), (''event_signature'',
       PyDict [(''type'', PyStr ''string''), (''description'',
       PyStr ''Solidity event signature (e.g. Transfer(address,address,uint256))'')]), (''name'',
       PyDict [(''type'', PyStr ''string''), (''description'', PyStr ''Human-readable trigger name'')]),
       (''abi'', PyDict [(''type'', PyStr ''array''), (''description'',
       PyStr ''ABI fragment for the event'')]), (''contract_address'', PyDict [(''type'', PyStr ''string''),
       (''description'', PyStr ''Contract to watch (null for any)'')]), (''chain_ids'', PyDict [(''type'',
       PyStr ''array''), (''items'', PyDict [(''type'', PyStr ''integer'')]), (''description'',
       PyStr ''Chain IDs to monitor'')]), (''filter_rules'', PyDict [(''type'', PyStr ''array''),
       (''description'', PyStr ''Filter predicates on decoded event fields'')]), (''webhook_event_type'',
       PyDict [(''type'', PyStr ''string'')]), (''reputation_threshold'', PyDict [(''type'',
       PyStr ''number'')])]), (''required'', PyList [PyStr ''endpoint_id'', PyStr ''event_signature''])])"

definition tool_create_trigger :: "handler \<Rightarrow> ToolDef" where
  "tool_create_trigger h = register ''create_trigger'' doc_create_trigger h X402 (Some ''$0.003'') 10 ''pulse''"

definition doc_list_triggers :: "string \<times> pydict" where
  "doc_list_triggers = (''List your active triggers.'',
     [(''type'', PyStr ''object''), (''properties'', PyDict [(''active_only'', PyDict [(''type'',
       PyStr ''boolean''), (''description'', PyStr ''Only return active triggers''), (''default'',
       PyBool True)])])])"

definition tool_list_triggers :: "handler \<Rightarrow> ToolDef" where
  "tool_list_triggers h = register ''list_triggers'' doc_list_triggers h SIWX (None) 0 ''pulse''"

definition doc_delete_trigger :: "string \<times> pydict" where
  "doc_delete_trigger = (''Deactivate a trigger (soft delete).'',
     [(''type'', PyStr ''object''), (''properties'', PyDict [(''trigger_id'', PyDict [(''type'',
       PyStr ''string''), (''description'', PyStr ''Trigger ID to deactivate'')])]), (''required'',
       PyList [PyStr ''trigger_id''])])"

definition tool_delete_trigger :: "handler \<Rightarrow> ToolDef" where
  "tool_delete_trigger h = register ''delete_trigger'' doc_delete_trigger h SIWX (None) 0 ''pulse''"

definition doc_list_templates :: "string \<times> pydict" where
  "doc_list_templates = (''Browse available trigger templates from the Bazaar.'',
     [(''type'', PyStr ''object''), (''properties'', PyDict [(''category'', PyDict [(''type'',
       PyStr ''string''), (''description'',
       PyStr (''Filter by category (e.g. '' @ [CHR 0x27] @ ''defi'' @ [CHR 0x27] @ '', '' @ [CHR 0x27] @ ''payments'' @ [CHR 0x27] @ '', '' @ [CHR 0x27] @ ''nft'' @ [CHR 0x27] @ '')''))])])])"

definition tool_list_templates :: "handler \<Rightarrow> ToolDef" where
  "tool_list_templates h = register ''list_templates'' doc_list_templates h SIWX (None) 0 ''pulse''"

definition doc_activate_template :: "string \<times> pydict" where
  "doc_activate_template = (''Instantiate a Bazaar template with custom params for an endpoint.'',
     [(''type'', PyStr ''object''), (''properties'', PyDict [(''slug'', PyDict [(''type'', PyStr ''string''),
       (''description'', PyStr ''Template slug'')]), (''endpoint_id'', PyDict [(''type'', PyStr ''string''),
       (''description'', PyStr ''Target endpoint ID'')]), (''params'', PyDict [(''type'', PyStr ''object''),
       (''description'', PyStr ''Custom parameters (chain_ids, contract_address, filter_rules)'')])]),
       (''required'', PyList [PyStr ''slug'', PyStr ''endpoint_id''])])"

definition tool_activate_template :: "handler \<Rightarrow> ToolDef" where
  "tool_activate_template h = register ''activate_template'' doc_activate_template h X402 (Some ''$0.001'') 10 ''pulse''"

definition doc_get_trigger_status :: "string \<times> pydict" where
  "doc_get_trigger_status = (''Check trigger health and event count.'',
     [(''type'', PyStr ''object''), (''properties'', PyDict [(''trigger_id'', PyDict [(''type'',
       PyStr ''string''), (''description'', PyStr ''Trigger ID to check'')])]), (''required'',
       PyList [PyStr ''trigger_id''])])"

definition tool_get_trigger_status :: "handler \<Rightarrow> ToolDef" where
  "tool_get_trigger_status h = register ''get_trigger_status'' doc_get_trigger_status h SIWX (None) 0 ''pulse''"

definition doc_search_events :: "string \<times> pydict" where
  "doc_search_events = (''Query recent events for your triggers and endpoints.'',
     [(''type'', PyStr ''object''), (''properties'', PyDict [(''limit'', PyDict [(''type'', PyStr ''integer''),
       (''description'', PyStr ''Max results (1-100, default 50)''), (''default'', PyInt 50)]), (''status'',
       PyDict [(''type'', PyStr ''string''), (''description'',
       PyStr (''Filter by event status (e.g. '' @ [CHR 0x27] @ ''confirmed'' @ [CHR 0x27] @ '', '' @ [CHR 0x27] @ ''pending'' @ [CHR 0x27] @ '')''))]),
       (''chain_id'', PyDict [(''type'', PyStr ''integer''), (''description'',
       PyStr ''Filter by chain ID'')])])])"

definition tool_search_events :: "handler \<Rightarrow> ToolDef" where
  "tool_search_events h = register ''search_events'' doc_search_events h SIWX (None) 0 ''both''"

definition doc_fetch_abi :: "string \<times> pydict" where
  "doc_fetch_abi = (''Fetch the ABI for any smart contract and list its events. Use this to discover what events a contract emits before creating a trigger.'',
     [(''type'', PyStr ''object''), (''properties'', PyDict [(''contract_address'', PyDict [(''type'',
       PyStr ''string''), (''description'', PyStr ''Contract address (0x...)'')]), (''chain'',
       PyDict [(''type'', PyStr ''string''), (''enum'', PyList [PyStr ''base'', PyStr ''ethereum'',
       PyStr ''arbitrum'']), (''description'', PyStr ''Chain name'')])]), (''required'',
       PyList [PyStr ''contract_address'', PyStr ''chain''])])"

definition tool_fetch_abi :: "handler \<Rightarrow> ToolDef" where
  "tool_fetch_abi h = register ''fetch_abi'' doc_fetch_abi h SIWX (None) 0 ''pulse''"

definition doc_list_pools :: "string \<times> pydict" where
  "doc_list_pools = (''List popular pools for a DeFi protocol. Returns pool addresses and available events. Currently supports: aerodrome, aave-v3, uniswap-v3.'',
     [(''type'', PyStr ''object''), (''properties'', PyDict [(''protocol'', PyDict [(''type'',
       PyStr ''string''), (''description'', PyStr ''Protocol name (aerodrome, aave-v3, uniswap-v3)'')]),
       (''chain'', PyDict [(''type'', PyStr ''string''), (''enum'', PyList [PyStr ''base'', PyStr ''ethereum'',
       PyStr ''arbitrum'']), (''default'', PyStr ''base''), (''description'', PyStr ''Chain name'')]),
       (''limit'', PyDict [(''type'', PyStr ''integer''), (''default'', PyInt 10), (''description'',
       PyStr ''Max pools to return'')])]), (''required'', PyList [PyStr ''protocol''])])"

definition tool_list_pools :: "handler \<Rightarrow> ToolDef" where
  "tool_list_pools h = register ''list_pools'' doc_list_pools h SIWX (None) 0 ''pulse''"

definition doc_validate_trigger :: "string \<times> pydict" where
  "doc_validate_trigger = (''Validate a trigger configuration before creating it. Checks event signature format, contract address, chain support, and filter rules.'',
     [(''type'', PyStr ''object''), (''properties'', PyDict [(''event_signature'', PyDict [(''type'',
       PyStr ''string''), (''description'',
       PyStr ''Solidity event signature, e.g. Swap(address,address,int256,int256,uint160,uint128,int24)'')]),
       (''contract_address'', PyDict [(''type'', PyStr ''string''), (''description'',
       PyStr ''Contract address (0x...)'')]), (''chain_id'', PyDict [(''type'', PyStr ''integer''),
       (''description'', PyStr ''Chain ID (8453=Base, 1=Ethereum, 42161=Arbitrum)'')]), (''filter_rules'',
       PyDict [(''type'', PyStr ''array''), (''items'', PyDict [(''type'', PyStr ''object''), (''properties'',
       PyDict [(''field'', PyDict [(''type'', PyStr ''string'')]), (''op'', PyDict [(''type'',
       PyStr ''string'')]), (''value'', PyDict [(''type'', PyStr ''string'')])])]), (''description'',
       PyStr ''Optional filter rules to validate'')]), (''event_abi'', PyDict [(''type'', PyStr ''array''),
       (''items'', PyDict [(''type'', PyStr ''object''), (''properties'', PyDict [(''name'', PyDict [(''type'',
       PyStr ''string'')]), (''type'', PyDict [(''type'', PyStr ''string'')]), (''indexed'', PyDict [(''type'',
       PyStr ''boolean'')])])]), (''description'',
       PyStr ''Optional event ABI inputs (from fetch_abi) for field name validation'')])]), (''required'',
       PyList [PyStr ''event_signature'', PyStr ''contract_address'', PyStr ''chain_id''])])"

definition tool_validate_trigger :: "handler \<Rightarrow> ToolDef" where
  "tool_validate_trigger h = register ''validate_trigger'' doc_validate_trigger h SIWX (None) 0 ''pulse''"

definition TOOLS :: "(string \<Rightarrow> handler) \<Rightarrow> ToolDef list" where
  "TOOLS h = [tool_register_endpoint (h ''register_endpoint''), tool_register_middleware (h ''register_middleware''),
     tool_create_trigger (h ''create_trigger''), tool_list_triggers (h ''list_triggers''),
     tool_delete_trigger (h ''delete_trigger''), tool_list_templates (h ''list_templates''),
     tool_activate_template (h ''activate_template''), tool_get_trigger_status (h ''get_trigger_status''),
     tool_search_events (h ''search_events''), tool_fetch_abi (h ''fetch_abi''), tool_list_pools (h ''list_pools''),
     tool_validate_trigger (h ''validate_trigger'')]"

definition find_tool :: "(string \<Rightarrow> handler) \<Rightarrow> string \<Rightarrow> ToolDef option" where
  "find_tool h name = find (\<lambda>td. td_name td = name) (TOOLS h)"

lemma find_tool_sound: "find_tool h name = Some td \<Longrightarrow> td \<in> set (TOOLS h) \<and> td_name td = name"
  by (auto simp: find_tool_def find_Some_iff)

lemmas tool_defs = tool_register_endpoint_def tool_register_middleware_def tool_create_trigger_def tool_list_triggers_def
  tool_delete_trigger_def tool_list_templates_def tool_activate_template_def tool_get_trigger_status_def
  tool_search_events_def tool_fetch_abi_def tool_list_pools_def tool_validate_trigger_def

lemma tool_basics:
  assumes "td \<in> set (TOOLS h)"
  shows "td_handler td = h (td_name td) \<and>
    (td_auth_tier td = SIWX \<and> td_price td = None \<or>
     td_auth_tier td = X402 \<and> td_price td \<in> {Some ''$0.003'', Some ''$0.001''} \<and> td_min_reputation td = 10)"
  using assms unfolding TOOLS_def by (auto simp: tool_defs register_def)

end
