(* ===== verification/Mcp_Props.thy ===== *)
theory Mcp_Props
  imports Mcp_Auth
begin

text \<open>Properties of prices, of the x402 life cycle and of the rate limit.\<close>

section \<open>Prices are exact to one unit\<close>

lemma scaled_price_error:
  assumes "0 < k" and "k < 2 ^ 50"
  shows "\<bar>f64 (f64 (of_int k / 1000000) * 1000000) - of_int k\<bar> < 1"
proof -
  let ?r = "of_int k / 1000000 :: rat"
  let ?y = "f64 ?r * 1000000"
  have k: "1 \<le> (of_int k :: rat)" "(of_int k :: rat) \<le> 2 ^ 50"
    using assms(1) assms(2)[THEN less_imp_le] of_int_le_iff[of k "2 ^ 50", where ?'a = rat] by simp_all
  have lo: "two_pow (- 1022) \<le> 1 / 1000000"
    using two_pow_less[of "- 1022" "- 30"] by (simp add: two_pow_def)
  have "\<bar>f64 ?r - ?r\<bar> \<le> ?r / 2 ^ 53" by (rule f64_error) (use lo k in simp)
  then have y: "\<bar>?y - of_int k\<bar> \<le> of_int k / 2 ^ 53" by (simp add: abs_le_iff field_simps)
  have "of_int k / 2 ^ 53 \<le> (of_int k :: rat) / 2" using assms(1) by (simp add: field_simps)
  with y k have "1 / 2 \<le> ?y" "?y \<le> 2 * of_int k" unfolding abs_le_iff by linarith+
  moreover have "two_pow (- 1022) \<le> ?y" using lo \<open>1 / 2 \<le> ?y\<close> by simp
  then have "\<bar>f64 ?y - ?y\<bar> \<le> ?y / 2 ^ 53" by (rule f64_error)
  ultimately have "\<bar>f64 ?y - ?y\<bar> \<le> 2 * of_int k / 2 ^ 53"
    by (meson divide_right_mono order_trans zero_le_numeral zero_le_power)
  then have "\<bar>f64 ?y - of_int k\<bar> \<le> 3 * of_int k / 2 ^ 53" using y unfolding abs_le_iff by linarith
  also have "\<dots> < 1" using k by simp
  finally show ?thesis .
qed

lemma trunc_near:
  assumes "0 < k" and "\<bar>x - of_int k\<bar> < 1"
  shows "trunc_rat x = k \<or> trunc_rat x = k - 1"
proof -
  have k: "1 \<le> (of_int k :: rat)" using assms(1) by simp
  have "of_int k - 1 < x" "x < of_int k + 1" using assms(2) unfolding abs_less_iff by linarith+
  with k have "0 < x" "k - 1 \<le> \<lfloor>x\<rfloor>" "\<lfloor>x\<rfloor> \<le> k" by (simp_all add: le_floor_iff floor_le_iff)
  then show ?thesis by (auto simp: trunc_rat_def)
qed

text \<open>
  A price is charged to within one unit, and never too high: for every price
  of a whole number of USDC units below 2^50, the charged amount is that number or
  one less.
\<close>

theorem price_exact_to_one_unit:
  assumes "p \<noteq> []" and "decimal_of_string (dropWhile (\<lambda>c. c = CHR ''$'') p) = Some (DFin (of_int k / 1000000))"
    and "0 \<le> k" and "k < 2 ^ 50"
  shows "price_to_smallest_units (Some p) = Inr k \<or> price_to_smallest_units (Some p) = Inr (k - 1)"
proof (cases "k = 0")
  case True
  then show ?thesis using assms by (simp add: price_to_smallest_units_def f64_def trunc_rat_def)
next
  case False
  let ?x = "f64 (f64 (of_int k / 1000000) * 1000000)"
  have e: "\<bar>?x - of_int k\<bar> < 1" using scaled_price_error[of k] assms False by simp
  have "(of_int k :: rat) < 2 ^ 50" using assms(4) by (metis of_int_less_iff of_int_numeral of_int_power)
  moreover have "\<bar>?x\<bar> < \<bar>of_int k\<bar> + 1" using e by linarith
  ultimately have "\<bar>?x\<bar> < 2 ^ 51" using assms(3) by simp
  also have "(2 :: rat) ^ 51 \<le> 2 ^ 1024" by (rule power_increasing) simp_all
  finally show ?thesis using trunc_near[of k ?x] e assms False
    by (auto simp: price_to_smallest_units_def Let_def)
qed

lemma f64_samples:
  "f64 (f64 (3/1000) * 1000000) = 3000" "f64 (f64 (1/1000) * 1000000) = 1000"
  "f64 (f64 (1001/1000) * 1000000) = 8598524526591999 / 2 ^ 33"
proof -
  have a: "f64 (3/1000) = 6917529027641082 / 2 ^ 61" "f64 (1/1000) = 4611686018427388 / 2 ^ 62"
      "f64 (1001/1000) = 4508103226997866 / 2 ^ 52"
    using f64_near[of "-9" "3/1000" 6917529027641082] f64_near[of "-10" "1/1000" 4611686018427388]
      f64_near[of 0 "1001/1000" 4508103226997866] by (simp_all add: two_pow_def)
  show "f64 (f64 (3/1000) * 1000000) = 3000"
    unfolding a using f64_near[of 11 "6917529027641082 / 2 ^ 61 * 1000000" 6597069766656000] by (simp add: two_pow_def)
  show "f64 (f64 (1/1000) * 1000000) = 1000"
    unfolding a using f64_near[of 9 "4611686018427388 / 2 ^ 62 * 1000000" 8796093022208000] by (simp add: two_pow_def)
  show "f64 (f64 (1001/1000) * 1000000) = 8598524526591999 / 2 ^ 33"
    unfolding a using f64_near[of 19 "4508103226997866 / 2 ^ 52 * 1000000" 8598524526591999] by (simp add: two_pow_def)
qed

lemma price_texts:
  "decimal_of_string (dropWhile (\<lambda>c. c = CHR ''$'') ''$0.003'') = Some (DFin (3/1000))"
  "decimal_of_string (dropWhile (\<lambda>c. c = CHR ''$'') ''$0.001'') = Some (DFin (1/1000))"
  "decimal_of_string (dropWhile (\<lambda>c. c = CHR ''$'') ''$1.001'') = Some (DFin (1001/1000))"
  by code_simp+

lemma price_values:
  "price_to_smallest_units (Some ''$0.003'') = Inr 3000" "price_to_smallest_units (Some ''$0.001'') = Inr 1000"
  by (simp_all add: price_to_smallest_units_def trunc_rat_def price_texts[simplified] f64_samples)

theorem price_exact_to_one_unit_witness:
  "price_to_smallest_units (Some ''$1.001'') = Inr 1001000 \<or> price_to_smallest_units (Some ''$1.001'') = Inr 1000999"
  using price_exact_to_one_unit[of "''$1.001''" 1001000] price_texts(3) by simp

text \<open>
  The registered prices are charged exactly, but truncation undercharges
  others by one unit, \<open>$1.001\<close> for instance.
\<close>

theorem price_truncated:
  "price_to_smallest_units (Some ''$0.003'') = Inr 3000 \<and> price_to_smallest_units (Some ''$0.001'') = Inr 1000 \<and>
   price_to_smallest_units None = Inr 0 \<and> price_to_smallest_units (Some ''$1.001'') = Inr 1000999"
proof -
  have "\<lfloor>8598524526591999 / 2 ^ 33 :: rat\<rfloor> = 1000999" by (rule floor_unique) simp_all
  then show ?thesis using price_values
    by (simp add: price_to_smallest_units_def trunc_rat_def price_texts[simplified] f64_samples)
qed

section \<open>What the stages leave alone\<close>

lemma keeps_rate_exceeded [keeps_intros]: "redis_stable I \<Longrightarrow> keeps I (rate_exceeded env a)"
  unfolding rate_exceeded_def by (intro keeps_intros)

lemma keeps_hook_rate_limit [keeps_intros]:
  assumes "redis_stable I"
  shows "keeps I (hook_rate_limit env a k)"
proof -
  have d: "keeps I (best_effort (redis_delete env k))" using assms by (intro keeps_intros)
  show ?thesis unfolding hook_rate_limit_def
    using assms by (intro keeps_ebind keeps_etry keeps_rate_exceeded)
      (auto split: sum.splits exn.splits bool.splits intro!: keeps_ebind keeps_ewhen keeps_basic d)
qed

lemma keeps_resolve_caller [keeps_intros]: "tick_stable I \<Longrightarrow> keeps I (resolve_caller env b td a)"
  unfolding resolve_caller_def by (intro keeps_intros)

lemma keeps_before_execution [keeps_intros]:
  assumes "redis_stable I"
  shows "keeps I (before_execution env resolver td pctx)"
proof -
  have "tick_stable I" using assms redis_stableD(2) by blast
  then show ?thesis using assms unfolding before_execution_def Let_def by (intro keeps_intros)
qed

lemma keeps_verify_payment [keeps_intros]:
  assumes "tick_stable I"
  shows "keeps I (verify_payment env td h)"
  using assms unfolding verify_payment_def get_x402_server_def x402_verify_def by (intro keeps_intros)

lemma settled_stable [simp]: "redis_stable (\<lambda>w. w_settled w = s)" "tick_stable (\<lambda>w. w_settled w = s)"
  by (simp_all add: redis_stable_def tick_stable_def)

lemma keeps_eq: "keeps (\<lambda>w. f w = s) m \<Longrightarrow> run m w = (r, w') \<Longrightarrow> f w = s \<Longrightarrow> f w' = s"
  using keepsD[of "\<lambda>w. f w = s" m w] by simp

section \<open>The x402 life cycle\<close>

lemma verify_payment_run:
  assumes "run (verify_payment env td h) w = (Inr payer, w')"
  shows "\<exists>v. en_x402_verify env (w_tick w) h (payment_option env td) = Inr v \<and> vr_valid v \<and> payer = verified_payer v"
  using assms by (auto simp: verify_payment_def get_x402_server_def x402_verify_def split: if_splits sum.splits)

text \<open>The resolver, asked at tick \<open>n\<close> who the address is, answered \<open>identity\<close> (\<open>None\<close> without a resolver).\<close>

definition resolved_at :: "env \<Rightarrow> bool \<Rightarrow> ToolDef \<Rightarrow> nat \<Rightarrow> string \<Rightarrow> AgentIdentity option \<Rightarrow> bool" where
  "resolved_at env resolver td n a identity \<longleftrightarrow>
     (\<exists>u u'. w_tick u = n \<and> run (resolve_caller env resolver td a) u = (Inr identity, u'))"

lemma before_execution_result:
  assumes "run (before_execution env resolver td pctx) w = (Inr (ctx, pctx'), w')"
  shows "(\<exists>identity. ctx = x402_context (pc_payer_address pctx) identity \<and>
      (pc_payer_address pctx \<noteq> [] \<longrightarrow> resolved_at env resolver td (Suc (w_tick w)) (pc_payer_address pctx) identity)) \<and>
    pc_payment_header pctx' = pc_payment_header pctx \<and> \<not> reputation_blocked td (ac_reputation_score ctx)"
proof -
  let ?payer = "pc_payer_address pctx" and ?k = "payment_key env (pc_payment_header pctx) (td_name td)"
  obtain w1 where s: "run (redis_set_nx env ?k 86400) w = (Inr True, w1)"
    using assms by (auto simp: before_execution_def Let_def split: prod.splits sum.splits if_splits)
  then have t: "w_tick w1 = Suc (w_tick w)" by (auto simp: redis_set_nx_def redis_put_def split: option.splits if_splits)
  obtain identity w2 where i: "run (if ?payer \<noteq> [] then resolve_caller env resolver td ?payer else eret None) w1 = (Inr identity, w2)"
    using assms s by (auto simp: before_execution_def Let_def split: prod.splits sum.splits if_splits)
  have "ctx = x402_context ?payer identity" "pc_payment_header pctx' = pc_payment_header pctx"
    "\<not> reputation_blocked td (ac_reputation_score ctx)"
    using assms s i by (auto simp: before_execution_def Let_def split: prod.splits sum.splits if_splits)
  moreover have "?payer \<noteq> [] \<longrightarrow> resolved_at env resolver td (Suc (w_tick w)) ?payer identity"
    using i t by (auto simp: resolved_at_def)
  ultimately show ?thesis by blast
qed

lemma run_best_effort: "run (best_effort m) w = (Inr (), snd (run m w))"
  by (simp add: best_effort_def split: prod.split)

lemma delete_settled: "w_settled (snd (run (redis_delete env k) w)) = w_settled w"
  using keepsD[OF keeps_redis(3)[of "\<lambda>v. w_settled v = w_settled w" env k], of w] by simp

lemma finish_run:
  assumes "run (finish_x402_call env pctx rh) w = (r, w')"
  shows "(\<exists>res paid. rh = Inr res \<and> \<not> dict_has ''error'' res \<and> r = Inr (Outcome_result res) \<and>
            en_x402_settle env (w_tick w) (pc_payment_header pctx) = Inr paid \<and>
            w' = w\<lparr>w_tick := Suc (w_tick w), w_settled := w_settled w @ (if paid then [pc_payment_header pctx] else [])\<rparr>) \<or>
         (w_settled w' = w_settled w \<and> (\<forall>res. r = Inr (Outcome_result res) \<longrightarrow> rh = Inr res \<and> dict_has ''error'' res))"
  using assms
  by (auto simp: finish_x402_call_def settle_or_withhold_def after_execution_def on_settlement_failure_def x402_settle_def
      ewhen_def run_best_effort delete_settled Let_def split: sum.splits if_splits)

lemma executor_run:
  assumes "run (x402_tool_executor env resolver rq td args) w = (r, w')"
  obtains (early) e where "r = Inl e" "w_settled w' = w_settled w"
  | (ran) v identity pctx w1 rh w2 where "vr_valid v"
      "en_x402_verify env (w_tick w) (header rq ''PAYMENT-SIGNATURE'') (payment_option env td) = Inr v"
      "verified_payer v \<noteq> []" "\<not> reputation_blocked td (identity_reputation identity)"
      "resolved_at env resolver td (w_tick w + 2) (verified_payer v) identity"
      "w_settled w1 = w_settled w" "pc_payment_header pctx = header rq ''PAYMENT-SIGNATURE''"
      "run (td_handler td args (x402_context (verified_payer v) identity)) w1 = (rh, w2)"
      "run (finish_x402_call env pctx rh) w2 = (r, w')"
proof -
  let ?h = "header rq ''PAYMENT-SIGNATURE''" and ?s = "\<lambda>u. w_settled u = w_settled w"
  consider (missing) "?h = []" | (bad) e where "run (verify_payment env td ?h) w = (Inl e, w')" "r = Inl e"
    | (hook) payer wv where "?h \<noteq> []" "run (verify_payment env td ?h) w = (Inr payer, wv)"
    using assms by (cases "run (verify_payment env td ?h) w"; cases "fst (run (verify_payment env td ?h) w)")
      (auto simp: x402_tool_executor_def Let_def split: if_splits)
  then show ?thesis
  proof cases
    case missing
    with assms show ?thesis by (intro early) (auto simp: x402_tool_executor_def)
  next
    case bad
    then show ?thesis using keeps_eq[OF keeps_verify_payment[of ?s]] by (intro early) auto
  next
    case hook
    obtain v where v: "en_x402_verify env (w_tick w) ?h (payment_option env td) = Inr v" "vr_valid v"
      "payer = verified_payer v" using verify_payment_run[OF hook(2)] by blast
    have tv: "w_tick wv = Suc (w_tick w)"
      using hook(2) by (auto simp: verify_payment_def get_x402_server_def x402_verify_def split: if_splits sum.splits)
    have sv: "w_settled wv = w_settled w" using keeps_eq[OF keeps_verify_payment[of ?s] hook(2)] by simp
    let ?p = "\<lparr>pc_payment_header = ?h, pc_payment_hash = [], pc_dedup_key = [], pc_payer_address = payer,
           pc_tool_name = td_name td, pc_tool_args = args, pc_auth_context = None, pc_result = None, pc_has_error = False\<rparr>"
    obtain rb wb where b: "run (before_execution env resolver td ?p) wv = (rb, wb)" by fastforce
    have sb: "w_settled wb = w_settled w" using keeps_eq[OF keeps_before_execution[of ?s] b] sv by simp
    show ?thesis
    proof (cases rb)
      case (Inl e)
      with assms hook b sb show ?thesis by (intro early) (auto simp: x402_tool_executor_def Let_def)
    next
      case (Inr c)
      obtain ctx pctx where c: "c = (ctx, pctx)" by fastforce
      obtain identity where i: "ctx = x402_context payer identity" "pc_payment_header pctx = ?h"
        "\<not> reputation_blocked td (ac_reputation_score ctx)"
        "payer \<noteq> [] \<longrightarrow> resolved_at env resolver td (w_tick w + 2) payer identity"
        using before_execution_result[of env resolver td ?p wv ctx pctx wb] b Inr c tv by auto
      obtain rh w2 where h: "run (td_handler td args ctx) wb = (rh, w2)" by fastforce
      show ?thesis
      proof (cases "payer = []")
        case True
        with assms hook b Inr c i sb show ?thesis
          by (intro early) (auto simp: x402_tool_executor_def Let_def x402_context_def anonymous_context_def)
      next
        case False
        have "run (finish_x402_call env pctx rh) w2 = (r, w')" using assms hook b Inr c i h False
          by (auto simp: x402_tool_executor_def Let_def x402_context_def anonymous_context_def)
        moreover have "ac_reputation_score ctx = identity_reputation identity"
          by (simp add: i(1) x402_context_def anonymous_context_def Let_def)
        ultimately show ?thesis using v i h sb False by (intro ran) auto
      qed
    qed
  qed
qed

text \<open>
  C15. The order of a paid call. Either its result is handed out: then the handler
  returned it without an error, it ran for the payer of a payment the facilitator had
  verified at the start of this call for this tool's price, network and treasury, and
  whom the resolver's answer takes past the reputation gate, and in the state the handler left the
  settlement of that payment was answered. The payment is settled exactly once if that
  answer reports success; if it reports failure, the result is handed out all the same
  and nothing is settled, because the code does not look at the answer. Or nothing is
  settled and no result is returned but a handled error. This holds for every
  handler that does not settle payments itself.
\<close>

theorem x402_served_after_settlement:
  assumes "run (x402_tool_executor env resolver rq td args) w = (r, w')"
    and "\<And>ctx s. keeps (\<lambda>u. w_settled u = s) (td_handler td args ctx)"
  shows "(\<exists>res v identity w1 w2 paid. r = Inr (Outcome_result res) \<and> \<not> dict_has ''error'' res \<and>
        en_x402_verify env (w_tick w) (header rq ''PAYMENT-SIGNATURE'') (payment_option env td) = Inr v \<and> vr_valid v \<and>
        verified_payer v \<noteq> [] \<and> resolved_at env resolver td (w_tick w + 2) (verified_payer v) identity \<and>
        \<not> reputation_blocked td (identity_reputation identity) \<and>
        w_settled w1 = w_settled w \<and>
        run (td_handler td args (x402_context (verified_payer v) identity)) w1 = (Inr res, w2) \<and>
        en_x402_settle env (w_tick w2) (header rq ''PAYMENT-SIGNATURE'') = Inr paid \<and>
        w' = w2\<lparr>w_tick := Suc (w_tick w2),
          w_settled := w_settled w @ (if paid then [header rq ''PAYMENT-SIGNATURE''] else [])\<rparr>) \<or>
     ((\<forall>res. r = Inr (Outcome_result res) \<longrightarrow> dict_has ''error'' res) \<and> w_settled w' = w_settled w)"
  using assms(1)
proof (cases rule: executor_run)
  case early
  then show ?thesis by simp
next
  case (ran v identity pctx w1 rh w2)
  have "w_settled w2 = w_settled w" using keeps_eq[OF assms(2) ran(8)] ran(6) by simp
  with finish_run[OF ran(9)] show ?thesis
  proof (elim disjE exE conjE)
    fix res paid
    assume fin: "rh = Inr res" "\<not> dict_has ''error'' res" "r = Inr (Outcome_result res)"
      "en_x402_settle env (w_tick w2) (pc_payment_header pctx) = Inr paid"
      "w' = w2\<lparr>w_tick := Suc (w_tick w2), w_settled := w_settled w2 @ (if paid then [pc_payment_header pctx] else [])\<rparr>"
    show ?thesis
      by (intro disjI1 exI[of _ res] exI[of _ v] exI[of _ identity] exI[of _ w1] exI[of _ w2] exI[of _ paid])
        (use fin ran \<open>w_settled w2 = w_settled w\<close> in simp)
  qed auto
qed

section \<open>Replay\<close>

lemma key_stable: "tick_stable (\<lambda>w. w_redis w k = x)"
  by (simp add: tick_stable_def)

lemma keeps_other_key:
  assumes "k \<noteq> k'"
  shows "keeps (\<lambda>w. w_redis w k = x) (redis_incr env k')" "keeps (\<lambda>w. w_redis w k = x) (redis_expire env k' s)"
  unfolding redis_incr_def redis_expire_def using assms key_stable
  by (intro keeps_intros; simp add: redis_put_def)+

lemma keeps_key_rate: "k \<noteq> rate_key a \<Longrightarrow> keeps (\<lambda>w. w_redis w k = x) (rate_exceeded env a)"
  unfolding rate_exceeded_def by (intro keeps_ebind keeps_ewhen keeps_basic keeps_other_key)

lemma hook_run_ok:
  assumes "run (hook_rate_limit env a k) w = (Inr (), w')"
  shows "w' = snd (run (rate_exceeded env a) w)"
  using assms by (auto simp: hook_rate_limit_def run_best_effort split: prod.splits sum.splits exn.splits bool.splits if_splits)

lemma before_execution_key:
  assumes "run (before_execution env resolver td pctx) w = (Inr c, w')"
  shows "w_redis w' (payment_key env (pc_payment_header pctx) (td_name td)) =
    Some (1, Some (en_now env (w_tick w) + 86400))"
proof -
  let ?k = "payment_key env (pc_payment_header pctx) (td_name td)"
  let ?x = "Some (1, Some (en_now env (w_tick w) + 86400))" and ?payer = "pc_payer_address pctx"
  let ?w1 = "w\<lparr>w_tick := Suc (w_tick w), w_redis := (w_redis w)(?k := ?x)\<rparr>"
  have nx: "run (redis_set_nx env ?k 86400) w = (Inr True, ?w1)"
    using assms by (auto simp: before_execution_def Let_def redis_set_nx_def redis_put_def split: option.splits if_splits)
  obtain identity w2 where i: "run (if ?payer \<noteq> [] then resolve_caller env resolver td ?payer else eret None) ?w1 = (Inr identity, w2)"
    and h: "run (if ?payer \<noteq> [] then hook_rate_limit env ?payer ?k else eret ()) w2 = (Inr (), w')"
    using assms by (auto simp: before_execution_def Let_def nx split: prod.splits sum.splits if_splits)
  have "keeps (\<lambda>w. w_redis w ?k = ?x) (if ?payer \<noteq> [] then resolve_caller env resolver td ?payer else eret None)"
    using key_stable by (intro keeps_intros)
  from keeps_eq[OF this i] have w2: "w_redis w2 ?k = ?x" by simp
  have "?k \<noteq> rate_key ?payer" by (simp add: rate_key_def payment_key_def)
  then show ?thesis using h w2 hook_run_ok[of env ?payer ?k w2 w'] keepsD[OF keeps_key_rate[of ?k ?payer ?x env], of w2]
    by (auto split: if_splits)
qed

lemma before_execution_replay:
  assumes "w_redis w k = Some (x, Some e)" and "\<And>n. en_now env n < e"
    and "k = payment_key env (pc_payment_header pctx) (td_name td)"
  shows "\<exists>err. run (before_execution env resolver td pctx) w = (Inl err, w\<lparr>w_tick := Suc (w_tick w)\<rparr>)"
  using assms
  by (auto simp: before_execution_def Let_def redis_set_nx_def redis_value_def live_def split: option.splits)

lemma world_tick_same: "w = w\<lparr>w_tick := w_tick w\<rparr>" for w :: world
  by simp

lemma executor_served_key:
  assumes "run (x402_tool_executor env resolver rq td args) w = (Inr (Outcome_result res), w')"
    and "\<not> dict_has ''error'' res"
    and "\<And>ctx x. keeps (\<lambda>u. w_redis u (payment_key env (header rq ''PAYMENT-SIGNATURE'') (td_name td)) = x) (td_handler td args ctx)"
  shows "w_redis w' (payment_key env (header rq ''PAYMENT-SIGNATURE'') (td_name td)) =
    Some (1, Some (en_now env (Suc (w_tick w)) + 86400))"
proof -
  let ?h = "header rq ''PAYMENT-SIGNATURE''" and ?k = "payment_key env (header rq ''PAYMENT-SIGNATURE'') (td_name td)"
  obtain payer wv where v: "?h \<noteq> []" "run (verify_payment env td ?h) w = (Inr payer, wv)"
    using assms(1) by (auto simp: x402_tool_executor_def Let_def split: prod.splits sum.splits if_splits)
  then have wv: "wv = w\<lparr>w_tick := Suc (w_tick w)\<rparr>"
    by (auto simp: verify_payment_def get_x402_server_def x402_verify_def split: if_splits sum.splits)
  obtain ctx pctx wb where b: "run (before_execution env resolver td
      \<lparr>pc_payment_header = ?h, pc_payment_hash = [], pc_dedup_key = [], pc_payer_address = payer,
       pc_tool_name = td_name td, pc_tool_args = args, pc_auth_context = None, pc_result = None, pc_has_error = False\<rparr>) wv
      = (Inr (ctx, pctx), wb)"
    and h: "run (ebind (etry (td_handler td args ctx)) (finish_x402_call env pctx)) wb = (Inr (Outcome_result res), w')"
    using assms(1) v by (auto simp: x402_tool_executor_def Let_def split: prod.splits sum.splits if_splits)
  have "w_redis wb ?k = Some (1, Some (en_now env (Suc (w_tick w)) + 86400))"
    using before_execution_key[OF b] wv by simp
  moreover obtain rh w2 where rh: "run (td_handler td args ctx) wb = (rh, w2)" by fastforce
  moreover have "w_redis w' = w_redis w2" using h rh assms(2)
    by (auto simp: finish_x402_call_def settle_or_withhold_def after_execution_def on_settlement_failure_def x402_settle_def
      ewhen_def Let_def run_best_effort split: sum.splits if_splits)
  ultimately show ?thesis using keeps_eq[OF assms(3) rh] by simp
qed

text \<open>
  C24. A payment proof buys one call: after a tool call was served, no call of that
  tool with the same proof is served for 24 hours, as long as the key of the
  payment is left in Redis; neither the handler nor a settlement happens.
\<close>

theorem payment_replay_rejected:
  assumes "run (x402_tool_executor env resolver rq td args) w = (Inr (Outcome_result res), w')"
    and "\<not> dict_has ''error'' res"
    and "\<And>ctx x. keeps (\<lambda>u. w_redis u (payment_key env (header rq ''PAYMENT-SIGNATURE'') (td_name td)) = x) (td_handler td args ctx)"
    and "header rq' ''PAYMENT-SIGNATURE'' = header rq ''PAYMENT-SIGNATURE''" and "td_name td' = td_name td"
    and "w_redis v (payment_key env (header rq ''PAYMENT-SIGNATURE'') (td_name td)) =
         w_redis w' (payment_key env (header rq ''PAYMENT-SIGNATURE'') (td_name td))"
    and "\<And>n. en_now env' n < en_now env (Suc (w_tick w)) + 86400" and "en_sha256_hex env' = en_sha256_hex env"
  shows "\<exists>e t. run (x402_tool_executor env' resolver' rq' td' args') v = (Inl e, v\<lparr>w_tick := t\<rparr>)"
proof -
  let ?h = "header rq ''PAYMENT-SIGNATURE''"
  have k: "w_redis v (payment_key env' ?h (td_name td')) = Some (1, Some (en_now env (Suc (w_tick w)) + 86400))"
    using executor_served_key[OF assms(1-3)] assms(5,6,8) by (simp add: payment_key_def)
  obtain rv wv where rv: "run (verify_payment env' td' ?h) v = (rv, wv)" by fastforce
  have wv: "wv = v\<lparr>w_tick := w_tick wv\<rparr>" using rv
    by (auto simp: verify_payment_def get_x402_server_def x402_verify_def split: if_splits sum.splits)
  have "w_redis wv = w_redis v" using arg_cong[OF wv, of w_redis] by simp
  then have kv: "w_redis wv (payment_key env' ?h (td_name td')) = Some (1, Some (en_now env (Suc (w_tick w)) + 86400))"
    using k by simp
  show ?thesis
  proof (cases rv)
    case (Inl e)
    then have "\<exists>e. run (x402_tool_executor env' resolver' rq' td' args') v = (Inl e, wv) \<or>
        run (x402_tool_executor env' resolver' rq' td' args') v = (Inl e, v)"
      using rv assms(4) by (auto simp: x402_tool_executor_def Let_def)
    then show ?thesis using wv by (metis world_tick_same)
  next
    case (Inr payer)
    let ?p = "\<lparr>pc_payment_header = ?h, pc_payment_hash = [], pc_dedup_key = [], pc_payer_address = payer,
       pc_tool_name = td_name td', pc_tool_args = args', pc_auth_context = None, pc_result = None, pc_has_error = False\<rparr>"
    obtain err where "run (before_execution env' resolver' td' ?p) wv = (Inl err, wv\<lparr>w_tick := Suc (w_tick wv)\<rparr>)"
      using before_execution_replay[OF kv assms(7), of ?p] by auto
    then have "\<exists>e. run (x402_tool_executor env' resolver' rq' td' args') v = (Inl e, wv\<lparr>w_tick := Suc (w_tick wv)\<rparr>) \<or>
        run (x402_tool_executor env' resolver' rq' td' args') v = (Inl e, v)"
      using rv Inr assms(4) by (auto simp: x402_tool_executor_def Let_def)
    moreover have "wv\<lparr>w_tick := Suc (w_tick wv)\<rparr> = v\<lparr>w_tick := Suc (w_tick wv)\<rparr>"
      using arg_cong[OF wv, of "\<lambda>u. u\<lparr>w_tick := Suc (w_tick wv)\<rparr>"] by simp
    ultimately show ?thesis by (metis world_tick_same)
  qed
qed

definition sample_tool :: ToolDef where
  "sample_tool = \<lparr>td_name = ''t'', td_description = [], td_input_schema = [],
     td_handler = (\<lambda>_ _. eret [(''ok'', PyBool True)]), td_auth_tier = X402, td_price = Some ''$0.003'',
     td_networks = [''eip155:8453''], td_min_reputation = 0, td_product = ''both''\<rparr>"

definition paid_request :: Request where
  "paid_request = \<lparr>rq_header = [''PAYMENT-SIGNATURE'' \<mapsto> ''p''], rq_method = ''POST'', rq_path = ''/mcp'',
     rq_body = [], rq_json = Inr PyNone\<rparr>"

definition still_env :: env where
  "still_env = calm_env\<lparr>en_now := \<lambda>_. 1000\<rparr>"

text \<open>A facilitator that answers every settlement with \<open>success = False\<close>.\<close>

definition unsettled_env :: env where
  "unsettled_env = still_env\<lparr>en_x402_settle := \<lambda>n h. Inr False\<rparr>"

lemma sample_call:
  "\<exists>w'. run (x402_tool_executor still_env False paid_request sample_tool PyNone) empty_world =
     (Inr (Outcome_result [(''ok'', PyBool True)]), w')"
proof -
  have "fst (run (x402_tool_executor still_env False paid_request sample_tool PyNone) empty_world) =
      Inr (Outcome_result [(''ok'', PyBool True)])"
    by (simp add: x402_tool_executor_def header_def paid_request_def Let_def verify_payment_def get_x402_server_def
        x402_verify_def still_env_def calm_env_def before_execution_def redis_set_nx_def redis_value_def empty_world_def
        verified_payer_def resolve_caller_def reputation_blocked_def sample_tool_def hook_rate_limit_def rate_exceeded_def
        redis_incr_def redis_expire_def rate_key_def ewhen_def live_def redis_put_def x402_context_def anonymous_context_def payment_key_def
        finish_x402_call_def after_execution_def dict_has_def settle_or_withhold_def x402_settle_def)
  then show ?thesis by (metis prod.collapse)
qed

lemma unsettled_call:
  "\<exists>w'. run (x402_tool_executor unsettled_env False paid_request sample_tool PyNone) empty_world =
     (Inr (Outcome_result [(''ok'', PyBool True)]), w')"
proof -
  have "fst (run (x402_tool_executor unsettled_env False paid_request sample_tool PyNone) empty_world) =
      Inr (Outcome_result [(''ok'', PyBool True)])"
    by (simp add: x402_tool_executor_def header_def paid_request_def Let_def verify_payment_def get_x402_server_def
        x402_verify_def unsettled_env_def still_env_def calm_env_def before_execution_def redis_set_nx_def redis_value_def empty_world_def
        verified_payer_def resolve_caller_def reputation_blocked_def sample_tool_def hook_rate_limit_def rate_exceeded_def
        redis_incr_def redis_expire_def rate_key_def ewhen_def live_def redis_put_def x402_context_def anonymous_context_def payment_key_def
        finish_x402_call_def after_execution_def dict_has_def settle_or_withhold_def x402_settle_def)
  then show ?thesis by (metis prod.collapse)
qed

lemma sample_handler_keeps: "keeps I (td_handler sample_tool args ctx)"
  by (simp add: sample_tool_def keeps_basic)

theorem x402_served_after_settlement_witness:
  "(\<exists>w'. run (x402_tool_executor still_env False paid_request sample_tool PyNone) empty_world =
     (Inr (Outcome_result [(''ok'', PyBool True)]), w') \<and> w_settled w' = [''p'']) \<and>
   (\<exists>w'. run (x402_tool_executor unsettled_env False paid_request sample_tool PyNone) empty_world =
     (Inr (Outcome_result [(''ok'', PyBool True)]), w') \<and> w_settled w' = [])"
proof -
  obtain w' where r: "run (x402_tool_executor still_env False paid_request sample_tool PyNone) empty_world =
     (Inr (Outcome_result [(''ok'', PyBool True)]), w')" using sample_call by blast
  obtain v' where v: "run (x402_tool_executor unsettled_env False paid_request sample_tool PyNone) empty_world =
     (Inr (Outcome_result [(''ok'', PyBool True)]), v')" using unsettled_call by blast
  have s: "en_x402_settle still_env n h = Inr True" "en_x402_settle unsettled_env n h = Inr False" for n h
    by (simp_all add: unsettled_env_def still_env_def calm_env_def)
  from x402_served_after_settlement[OF r sample_handler_keeps] r
    x402_served_after_settlement[OF v sample_handler_keeps] v show ?thesis
    by (auto simp: s dict_has_def header_def paid_request_def empty_world_def)
qed

theorem payment_replay_rejected_witness:
  "\<exists>w' e t. run (x402_tool_executor still_env False paid_request sample_tool PyNone) empty_world =
     (Inr (Outcome_result [(''ok'', PyBool True)]), w') \<and>
     run (x402_tool_executor still_env False paid_request sample_tool PyNone) w' = (Inl e, w'\<lparr>w_tick := t\<rparr>)"
proof -
  obtain w' where r: "run (x402_tool_executor still_env False paid_request sample_tool PyNone) empty_world =
     (Inr (Outcome_result [(''ok'', PyBool True)]), w')" using sample_call by blast
  have "\<not> dict_has ''error'' [(''ok'', PyBool True)]" "\<And>n. en_now still_env n < en_now still_env (Suc (w_tick empty_world)) + 86400"
    by (simp_all add: dict_has_def still_env_def)
  with payment_replay_rejected[OF r _ sample_handler_keeps refl refl refl, of still_env False PyNone] r show ?thesis by blast
qed

section \<open>Rate limit\<close>

text \<open>
  A rate limit that never lets go: when Redis fails between counting an
  address's first call and setting the one-minute expiry, the call goes through,
  but the counter is left without an expiry; once it has reached 60, every later
  call of that address is over the limit, at any time, and leaves it so.
\<close>

theorem rate_limit_permanent:
  assumes "en_redis_fault env (w_tick w) = None" and "redis_value (en_now env (w_tick w)) (rate_key a) w = None"
    and "en_redis_fault env (Suc (w_tick w)) = Some e" and "\<forall>s d. e \<noteq> HTTPException s d"
  shows "fst (run (hook_rate_limit env a k) w) = Inr () \<and>
     w_redis (snd (run (hook_rate_limit env a k) w)) (rate_key a) = Some (1, None) \<and>
     (\<forall>env' v c. w_redis v (rate_key a) = Some (c, None) \<longrightarrow> 60 \<le> c \<longrightarrow> en_redis_fault env' (w_tick v) = None \<longrightarrow>
        run (rate_exceeded env' a) v =
          (Inr True, v\<lparr>w_tick := Suc (w_tick v), w_redis := (w_redis v)(rate_key a \<mapsto> (c + 1, None))\<rparr>))"
proof (intro conjI allI impI)
  let ?w = "w\<lparr>w_tick := Suc (Suc (w_tick w)), w_redis := (w_redis w)(rate_key a \<mapsto> (1, None))\<rparr>"
  have r: "run (rate_exceeded env a) w = (Inl e, ?w)"
    using assms(1-3) by (simp add: rate_exceeded_def redis_incr_def redis_expire_def redis_put_def ewhen_def)
  then have "run (hook_rate_limit env a k) w = (Inr (), ?w)"
    using assms(4) by (cases e) (simp_all add: hook_rate_limit_def)
  then show "fst (run (hook_rate_limit env a k) w) = Inr ()"
    "w_redis (snd (run (hook_rate_limit env a k) w)) (rate_key a) = Some (1, None)" by simp_all
next
  fix env' :: env and v :: world and c
  assume "w_redis v (rate_key a) = Some (c, None)" "60 \<le> c" "en_redis_fault env' (w_tick v) = None"
  then show "run (rate_exceeded env' a) v =
      (Inr True, v\<lparr>w_tick := Suc (w_tick v), w_redis := (w_redis v)(rate_key a \<mapsto> (c + 1, None))\<rparr>)"
    by (simp add: rate_exceeded_def redis_incr_def redis_value_def live_def redis_put_def ewhen_def)
qed

definition flaky_redis :: env where
  "flaky_redis = calm_env\<lparr>en_redis_fault := \<lambda>n. if n = 1 then Some (ExternalError ''redis'') else None\<rparr>"

theorem rate_limit_permanent_witness:
  "w_redis (snd (run (hook_rate_limit flaky_redis ''0xa'' ''k'') empty_world)) (rate_key ''0xa'') = Some (1, None)"
proof -
  have "en_redis_fault flaky_redis (w_tick empty_world) = None"
    "redis_value (en_now flaky_redis (w_tick empty_world)) (rate_key ''0xa'') empty_world = None"
    "en_redis_fault flaky_redis (Suc (w_tick empty_world)) = Some (ExternalError ''redis'')"
    "\<forall>s d. ExternalError ''redis'' \<noteq> HTTPException s d"
    by (simp_all add: flaky_redis_def empty_world_def calm_env_def redis_value_def)
  from rate_limit_permanent[OF this] show ?thesis by blast
qed

end
