(* ===== verification/Mcp_Server.thy ===== *)
theory Mcp_Server
  imports Mcp_Registry Mcp_Props
begin

text \<open>
  The JSON-RPC endpoint of \<open>mcp/server.py\<close> and its three ways of calling a tool.
  A reply is kept as a value, before its fields are laid out as JSON; the text of
  a tool's content is the result it serialises. Exceptions that leave the endpoint
  (a body that is no JSON object) are the web framework's error responses.
\<close>

section \<open>Replies\<close>

datatype error_data = No_data | Detail string | Reputation rat rat

datatype mcp_result =
    Initialized
  | Tool_list "pydict list"
  | Tool_content pydict bool "(string option \<times> int option) option"

datatype rpc_reply =
    Rpc_success pyval mcp_result
  | Rpc_error pyval int string error_data

definition PARSE_ERROR :: int where "PARSE_ERROR = - 32700"
definition INVALID_REQUEST :: int where "INVALID_REQUEST = - 32600"
definition METHOD_NOT_FOUND :: int where "METHOD_NOT_FOUND = - 32601"
definition INTERNAL_ERROR :: int where "INTERNAL_ERROR = - 32603"
definition AUTH_REQUIRED :: int where "AUTH_REQUIRED = - 32000"
definition REPUTATION_TOO_LOW :: int where "REPUTATION_TOO_LOW = - 32001"
definition PAYMENT_REQUIRED :: int where "PAYMENT_REQUIRED = - 32002"
definition RATE_LIMITED :: int where "RATE_LIMITED = - 32003"

definition rpc_code :: "int \<Rightarrow> int" where
  "rpc_code status = (if status = 402 then PAYMENT_REQUIRED else if status = 403 then REPUTATION_TOO_LOW
     else AUTH_REQUIRED)"

definition x402_rpc_code :: "int \<Rightarrow> int" where
  "x402_rpc_code status = (if status = 429 then RATE_LIMITED else rpc_code status)"

definition tool_reply :: "pyval \<Rightarrow> pydict \<Rightarrow> (string option \<times> int option) option \<Rightarrow> rpc_reply" where
  "tool_reply req_id result session = Rpc_success req_id (Tool_content result (dict_has ''error'' result) session)"

section \<open>Paid calls\<close>

definition handle_x402_tool_call :: "env \<Rightarrow> bool \<Rightarrow> Request \<Rightarrow> pyval \<Rightarrow> ToolDef \<Rightarrow> pyval \<Rightarrow> rpc_reply io" where
  "handle_x402_tool_call env resolver request req_id td tool_args =
     ebind (etry (x402_tool_executor env resolver request td tool_args)) (\<lambda>r. eret (case r of
         Inl (HTTPException status detail) \<Rightarrow>
           Rpc_error req_id (x402_rpc_code status) detail
             (if status = 403 \<and> py_contains ''Reputation too low'' detail then Detail detail else No_data)
       | Inl _ \<Rightarrow> Rpc_error req_id INTERNAL_ERROR ''Payment service unavailable'' No_data
       | Inr (Outcome_error msg reason) \<Rightarrow>
           Rpc_error req_id (if reason = ''SETTLEMENT_FAILED'' then PAYMENT_REQUIRED else INTERNAL_ERROR) msg No_data
       | Inr (Outcome_result result) \<Rightarrow> tool_reply req_id result None))"

section \<open>Session calls\<close>

definition refund_call :: "env \<Rightarrow> MCPAuthContext \<Rightarrow> ToolDef \<Rightarrow> unit io" where
  "refund_call env ctx td = ebind (elift (price_to_smallest_units (td_price td))) (\<lambda>cost.
     case ac_session_id ctx of
       Some i \<Rightarrow> ewhen (cost > 0) (best_effort (session_refund env i cost))
     | None \<Rightarrow> eret ())"

definition caller :: "MCPAuthContext \<Rightarrow> string" where
  "caller ctx = (case ac_agent_address ctx of Some a \<Rightarrow> a | None \<Rightarrow> [])"

definition session_rate_limited :: "env \<Rightarrow> MCPAuthContext \<Rightarrow> ToolDef \<Rightarrow> bool io" where
  "session_rate_limited env ctx td = (if caller ctx = [] then eret False else
     ecatch (ebind (rate_exceeded env (caller ctx)) (\<lambda>exceeded.
       if exceeded then ebind (refund_call env ctx td) (\<lambda>_. eret True) else eret False)) (\<lambda>_. eret False))"

definition low_reputation :: "pyval \<Rightarrow> MCPAuthContext \<Rightarrow> ToolDef \<Rightarrow> rpc_reply" where
  "low_reputation req_id ctx td = Rpc_error req_id REPUTATION_TOO_LOW
     (reputation_message (ac_reputation_score ctx) td) (Reputation (ac_reputation_score ctx) (td_min_reputation td))"

definition handle_session_tool_call :: "env \<Rightarrow> Request \<Rightarrow> pyval \<Rightarrow> ToolDef \<Rightarrow> pyval \<Rightarrow> rpc_reply io" where
  "handle_session_tool_call env request req_id td tool_args =
     ebind (etry (verify_session env request td)) (\<lambda>r. case r of
         Inl (HTTPException status detail) \<Rightarrow> eret (Rpc_error req_id (rpc_code status) detail No_data)
       | Inl _ \<Rightarrow> eret (Rpc_error req_id INTERNAL_ERROR ''Session validation failed'' No_data)
       | Inr ctx \<Rightarrow>
           if reputation_blocked td (ac_reputation_score ctx)
           then ebind (refund_call env ctx td) (\<lambda>_. eret (low_reputation req_id ctx td))
           else
             ebind (session_rate_limited env ctx td) (\<lambda>limited.
             if limited then eret (Rpc_error req_id RATE_LIMITED rate_message No_data)
             else
               ebind (etry (td_handler td tool_args ctx)) (\<lambda>result. case result of
                   Inl _ \<Rightarrow> ebind (best_effort (refund_call env ctx td)) (\<lambda>_.
                     eret (Rpc_error req_id INTERNAL_ERROR ''Tool execution failed'' No_data))
                 | Inr res \<Rightarrow> eret (tool_reply req_id res (Some (ac_session_id ctx, ac_budget_remaining ctx))))))"

section \<open>Wallet and public calls\<close>

definition public_rate_limited :: "env \<Rightarrow> MCPAuthContext \<Rightarrow> bool io" where
  "public_rate_limited env ctx = (if caller ctx = [] then eret False
     else ecatch (rate_exceeded env (caller ctx)) (\<lambda>_. eret False))"

definition handle_siwx_public_tool_call :: "env \<Rightarrow> bool \<Rightarrow> Request \<Rightarrow> pyval \<Rightarrow> ToolDef \<Rightarrow> pyval \<Rightarrow> rpc_reply io" where
  "handle_siwx_public_tool_call env resolver request req_id td tool_args =
     ebind (etry (build_auth_context env resolver request td)) (\<lambda>r. case r of
         Inl (HTTPException status detail) \<Rightarrow> eret (Rpc_error req_id (rpc_code status) detail No_data)
       | Inl _ \<Rightarrow> eret (Rpc_error req_id INTERNAL_ERROR ''Authentication service unavailable'' No_data)
       | Inr ctx \<Rightarrow>
           if td_auth_tier td \<noteq> PUBLIC \<and> caller ctx = []
           then eret (Rpc_error req_id AUTH_REQUIRED ''Could not determine agent address from authentication'' No_data)
           else if reputation_blocked td (ac_reputation_score ctx) then eret (low_reputation req_id ctx td)
           else
             ebind (public_rate_limited env ctx) (\<lambda>limited.
             if limited then eret (Rpc_error req_id RATE_LIMITED rate_message No_data)
             else
               ebind (etry (td_handler td tool_args ctx)) (\<lambda>result. case result of
                   Inl _ \<Rightarrow> eret (Rpc_error req_id INTERNAL_ERROR ''Tool execution failed'' No_data)
                 | Inr res \<Rightarrow> eret (tool_reply req_id res None))))"

section \<open>The endpoint\<close>

definition is_pulse :: "Settings \<Rightarrow> bool" where
  "is_pulse st \<longleftrightarrow> st_product_mode st \<in> {''pulse'', ''both''}"

definition is_keeper :: "Settings \<Rightarrow> bool" where
  "is_keeper st \<longleftrightarrow> st_product_mode st \<in> {''keeper'', ''both''}"

definition tool_visible :: "Settings \<Rightarrow> ToolDef \<Rightarrow> bool" where
  "tool_visible st td \<longleftrightarrow> td_product td = ''both'' \<or> (td_product td = ''pulse'' \<and> is_pulse st) \<or>
     (td_product td = ''keeper'' \<and> is_keeper st)"

definition tool_entry :: "ToolDef \<Rightarrow> pydict" where
  "tool_entry td =
     [(''name'', PyStr (td_name td)), (''description'', PyStr (td_description td)),
      (''inputSchema'', PyDict (td_input_schema td))] @
     (case td_price td of
        Some p \<Rightarrow> if td_auth_tier td = X402 \<and> p \<noteq> []
          then [(''x-tripwire-price'', PyStr p), (''x-tripwire-network'', PyStr (td_network td))] else []
      | None \<Rightarrow> []) @
     [(''x-tripwire-product'', PyStr (td_product td))]"

text \<open>\<open>sessions\<close> and \<open>resolver\<close> say whether the application has a session manager and an identity resolver.\<close>

definition call_tool :: "env \<Rightarrow> bool \<Rightarrow> bool \<Rightarrow> Request \<Rightarrow> pyval \<Rightarrow> ToolDef \<Rightarrow> pyval \<Rightarrow> rpc_reply io" where
  "call_tool env sessions resolver request req_id td tool_args =
     (if header request ''X-TripWire-Session'' \<noteq> [] \<and> st_session_enabled (en_settings env) \<and> sessions
      then handle_session_tool_call env request req_id td tool_args
      else if td_auth_tier td = X402 then handle_x402_tool_call env resolver request req_id td tool_args
      else handle_siwx_public_tool_call env resolver request req_id td tool_args)"

definition tools_call ::
  "env \<Rightarrow> bool \<Rightarrow> bool \<Rightarrow> (string \<Rightarrow> handler) \<Rightarrow> Request \<Rightarrow> pyval \<Rightarrow> pyval \<Rightarrow> rpc_reply io" where
  "tools_call env sessions resolver handlers request req_id params =
     ebind (elift (expect_dict AttributeError params)) (\<lambda>p.
     let name = dict_get ''name'' PyNone p;
         unknown = eret (Rpc_error req_id METHOD_NOT_FOUND (''Unknown tool: '' @ py_str (en_py_str env) name) No_data) in
     if \<not> py_truthy name then unknown
     else (case name of
         PyStr s \<Rightarrow> (case find_tool handlers s of
             None \<Rightarrow> unknown
           | Some td \<Rightarrow> call_tool env sessions resolver request req_id td (dict_get ''arguments'' (PyDict []) p))
       | PyList _ \<Rightarrow> eraise TypeError
       | PyDict _ \<Rightarrow> eraise TypeError
       | _ \<Rightarrow> unknown))"

definition mcp_endpoint :: "env \<Rightarrow> bool \<Rightarrow> bool \<Rightarrow> (string \<Rightarrow> handler) \<Rightarrow> Request \<Rightarrow> rpc_reply io" where
  "mcp_endpoint env sessions resolver handlers request = (case rq_json request of
      Inl _ \<Rightarrow> eret (Rpc_error PyNone PARSE_ERROR ''Parse error'' No_data)
    | Inr v \<Rightarrow> ebind (elift (expect_dict AttributeError v)) (\<lambda>body.
        let verb = dict_get ''method'' PyNone body; req_id = dict_get ''id'' PyNone body in
        if dict_get ''jsonrpc'' PyNone body \<noteq> PyStr ''2.0'' \<or> \<not> py_truthy verb
        then eret (Rpc_error req_id INVALID_REQUEST ''Invalid Request'' No_data)
        else if verb = PyStr ''initialize'' then eret (Rpc_success req_id Initialized)
        else if verb = PyStr ''tools/list''
        then eret (Rpc_success req_id (Tool_list
          (map tool_entry (filter (tool_visible (en_settings env)) (TOOLS handlers)))))
        else if verb = PyStr ''tools/call''
        then tools_call env sessions resolver handlers request req_id (dict_get ''params'' (PyDict []) body)
        else eret (Rpc_error req_id METHOD_NOT_FOUND (''Method not found: '' @ py_str (en_py_str env) verb) No_data)))"

section \<open>Every served call is authenticated\<close>

text \<open>
  What entitles a context to call a tool, per tier. \<open>w\<close> is the state the request arrives in: the
  signature, the session or the payment is checked against that state and at that time.
\<close>

definition entitled :: "env \<Rightarrow> bool \<Rightarrow> world \<Rightarrow> Request \<Rightarrow> ToolDef \<Rightarrow> MCPAuthContext \<Rightarrow> bool" where
  "entitled env resolver w rq td ctx \<longleftrightarrow> \<not> reputation_blocked td (ac_reputation_score ctx) \<and> (case ac_auth_tier ctx of
      PUBLIC \<Rightarrow> td_auth_tier td = PUBLIC \<and> ctx = anonymous_context PUBLIC
    | SIWX \<Rightarrow> td_auth_tier td = SIWX \<and>
        (\<exists>a u u'. run (verify_siwe env rq) w = (Inr a, u) \<and> ac_agent_address ctx = Some a \<and>
           run (resolve_caller env resolver td a) u = (Inr (ac_identity ctx), u') \<and>
           ac_reputation_score ctx = identity_reputation (ac_identity ctx))
    | X402 \<Rightarrow> td_auth_tier td = X402 \<and>
        (\<exists>v. en_x402_verify env (w_tick w) (header rq ''PAYMENT-SIGNATURE'') (payment_option env td) = Inr v \<and> vr_valid v \<and>
           ac_agent_address ctx = Some (verified_payer v) \<and> verified_payer v \<noteq> [] \<and>
           resolved_at env resolver td (w_tick w + 2) (verified_payer v) (ac_identity ctx) \<and>
           ac_reputation_score ctx = identity_reputation (ac_identity ctx))
    | SESSION \<Rightarrow> header rq ''X-TripWire-Session'' \<noteq> [] \<and>
        (\<exists>cost s u. price_to_smallest_units (td_price td) = Inr cost \<and>
           run (validate_and_decrement env (header rq ''X-TripWire-Session'') cost) w = (Inr s, u) \<and>
           ac_agent_address ctx = Some (sd_wallet_address s) \<and> ac_reputation_score ctx = sd_reputation_score s))"

lemma siwx_entitled:
  assumes "run (build_auth_context env resolver rq td) w = (Inr ctx, w')"
    and "\<not> reputation_blocked td (ac_reputation_score ctx)"
  shows "entitled env resolver w rq td ctx"
proof (cases "td_auth_tier td")
  case SIWX
  then obtain a w1 w2 where "run (verify_siwe env rq) w = (Inr a, w1)" "ac_agent_address ctx = Some a" "ac_auth_tier ctx = SIWX"
    "run (resolve_caller env resolver td a) w1 = (Inr (ac_identity ctx), w2)"
    "ac_reputation_score ctx = identity_reputation (ac_identity ctx)"
    using assms(1) by (auto simp: build_auth_context_def anonymous_context_def split: prod.splits sum.splits)
  with SIWX assms(2) show ?thesis by (auto simp: entitled_def)
qed (use assms in \<open>auto simp: build_auth_context_def entitled_def anonymous_context_def\<close>)

lemma session_entitled:
  assumes "run (verify_session env rq td) w = (Inr ctx, w')"
    and "\<not> reputation_blocked td (ac_reputation_score ctx)"
  shows "entitled env resolver w rq td ctx"
proof -
  let ?i = "header rq ''X-TripWire-Session''"
  obtain cost where c: "?i \<noteq> []" "price_to_smallest_units (td_price td) = Inr cost"
    using assms(1) by (auto simp: verify_session_def unauthorized_def Let_def split: if_splits sum.splits)
  moreover obtain s where "run (validate_and_decrement env ?i cost) w = (Inr s, w')"
    "ac_agent_address ctx = Some (sd_wallet_address s)" "ac_auth_tier ctx = SESSION"
    "ac_reputation_score ctx = sd_reputation_score s"
    using assms(1) c
    by (auto simp: verify_session_def unauthorized_def Let_def anonymous_context_def split: prod.splits sum.splits exn.splits)
  ultimately show ?thesis using assms(2) by (auto simp: entitled_def)
qed

lemma siwx_call_entitled:
  assumes "run (handle_siwx_public_tool_call env resolver rq i td args) w = (Inr (Rpc_success i' (Tool_content res err s)), w')"
  shows "\<exists>ctx w1 w2. entitled env resolver w rq td ctx \<and> run (td_handler td args ctx) w1 = (Inr res, w2)"
proof -
  obtain ctx wa where a: "run (build_auth_context env resolver rq td) w = (Inr ctx, wa)"
    using assms by (auto simp: handle_siwx_public_tool_call_def low_reputation_def split: prod.splits sum.splits exn.splits if_splits)
  with assms have "\<not> reputation_blocked td (ac_reputation_score ctx)"
    "\<exists>w1 w2. run (td_handler td args ctx) w1 = (Inr res, w2)"
    by (auto simp: handle_siwx_public_tool_call_def low_reputation_def tool_reply_def split: prod.splits sum.splits if_splits)
  then show ?thesis using siwx_entitled[OF a] by blast
qed

lemma session_call_entitled:
  assumes "run (handle_session_tool_call env rq i td args) w = (Inr (Rpc_success i' (Tool_content res err s)), w')"
  shows "\<exists>ctx w1 w2. entitled env resolver w rq td ctx \<and> run (td_handler td args ctx) w1 = (Inr res, w2)"
proof -
  obtain ctx wa where a: "run (verify_session env rq td) w = (Inr ctx, wa)"
    using assms by (auto simp: handle_session_tool_call_def split: prod.splits sum.splits exn.splits if_splits)
  with assms have "\<not> reputation_blocked td (ac_reputation_score ctx)"
    "\<exists>w1 w2. run (td_handler td args ctx) w1 = (Inr res, w2)"
    by (auto simp: handle_session_tool_call_def low_reputation_def tool_reply_def split: prod.splits sum.splits if_splits)
  then show ?thesis using session_entitled[OF a] by blast
qed

lemma x402_call_entitled:
  assumes "run (handle_x402_tool_call env resolver rq i td args) w = (Inr (Rpc_success i' (Tool_content res err s)), w')"
    and "td_auth_tier td = X402"
  shows "\<exists>ctx w1 w2. entitled env resolver w rq td ctx \<and> run (td_handler td args ctx) w1 = (Inr res, w2)"
proof -
  have "run (x402_tool_executor env resolver rq td args) w = (Inr (Outcome_result res), w')"
    using assms(1) by (auto simp: handle_x402_tool_call_def tool_reply_def split: prod.splits sum.splits exn.splits outcome.splits)
  then show ?thesis
  proof (cases rule: executor_run)
    case (ran v identity pctx w1 rh w2)
    have "rh = Inr res" using finish_run[OF ran(9)] by auto
    moreover have "entitled env resolver w rq td (x402_context (verified_payer v) identity)"
      using ran assms(2) by (auto simp: entitled_def x402_context_def anonymous_context_def Let_def)
    ultimately show ?thesis using ran(8) by blast
  qed simp
qed

lemma call_tool_entitled:
  assumes "run (call_tool env sessions resolver rq i td args) w = (Inr (Rpc_success i' (Tool_content res err s)), w')"
  shows "\<exists>ctx w1 w2. entitled env resolver w rq td ctx \<and> run (td_handler td args ctx) w1 = (Inr res, w2)"
  using assms siwx_call_entitled session_call_entitled x402_call_entitled
  by (auto simp: call_tool_def split: if_splits)

text \<open>
  C16. No tool runs for a caller who is not entitled to it: whenever the endpoint
  answers with the content of a tool, a registered tool's handler returned it, and
  it ran for a context that its tier entitles in the state in which the request arrived:
  the wallet recovered there from a fresh signature over this request for a wallet
  tool, the payer of a payment verified at that time for a paid one, or the owner of the session
  named by the request, which that state holds live and with a balance from which the
  price was taken; and with enough reputation, as the resolver or the session reports it.
\<close>

theorem mcp_calls_entitled:
  assumes "run (mcp_endpoint env sessions resolver handlers rq) w = (Inr (Rpc_success i (Tool_content res err s)), w')"
  shows "\<exists>td args ctx w1 w2. td \<in> set (TOOLS handlers) \<and> entitled env resolver w rq td ctx \<and>
    run (handlers (td_name td) args ctx) w1 = (Inr res, w2)"
proof -
  obtain j params where "run (tools_call env sessions resolver handlers rq j params) w = (Inr (Rpc_success i (Tool_content res err s)), w')"
    using assms by (auto simp: mcp_endpoint_def Let_def split: sum.splits if_splits)
  then obtain td args where td: "td \<in> set (TOOLS handlers)"
    "run (call_tool env sessions resolver rq j td args) w = (Inr (Rpc_success i (Tool_content res err s)), w')"
    by (auto simp: tools_call_def Let_def split: sum.splits if_splits pyval.splits option.splits dest: find_tool_sound)
  from call_tool_entitled[OF td(2)] tool_basics[OF td(1)] td(1) show ?thesis by metis
qed

definition list_request :: Request where
  "list_request = sample_request\<lparr>rq_json := Inr (PyDict [(''jsonrpc'', PyStr ''2.0''), (''method'', PyStr ''tools/call''),
     (''params'', PyDict [(''name'', PyStr ''list_triggers'')]), (''id'', PyInt 7)])\<rparr>"

definition echo_handlers :: "string \<Rightarrow> handler" where
  "echo_handlers name args ctx = eret [(''tool'', PyStr name), (''agent'', PyStr (caller ctx))]"

lemma verify_siwe_list:
  "run (verify_siwe auth_env list_request) nonce_world =
     (Inr ''0xaB'', nonce_world\<lparr>w_tick := 2, w_redis := (w_redis nonce_world)(''siwe:nonce:n1'' := None)\<rparr>)"
  by (simp add: verify_siwe_def siwe_headers_def header_def list_request_def sample_request_def validate_timestamps_def
      auth_env_def calm_env_def nonce_world_def empty_world_def check_signature_and_nonce_def default_settings_def
      verify_siwe_signature_def lower_sample redis_delete_def redis_value_def redis_put_def
      nonce_redis_key_def live_def of_option_def eval_nat_numeral)

lemma find_list_triggers: "find_tool h ''list_triggers'' = Some (tool_list_triggers (h ''list_triggers''))"
  by (simp add: find_tool_def TOOLS_def tool_defs register_def)

lemma list_call_run:
  "\<exists>w'. run (mcp_endpoint auth_env False False echo_handlers list_request) nonce_world =
     (Inr (Rpc_success (PyInt 7) (Tool_content [(''tool'', PyStr ''list_triggers''), (''agent'', PyStr ''0xaB'')] False None)), w')"
proof -
  let ?td = "tool_list_triggers (echo_handlers ''list_triggers'')"
  let ?ctx = "(anonymous_context SIWX)\<lparr>ac_agent_address := Some ''0xaB''\<rparr>"
  let ?w = "nonce_world\<lparr>w_tick := 2, w_redis := (w_redis nonce_world)(''siwe:nonce:n1'' := None)\<rparr>"
  have b: "run (build_auth_context auth_env False list_request ?td) nonce_world = (Inr ?ctx, ?w)"
    by (simp add: build_auth_context_def verify_siwe_list resolve_caller_def tool_list_triggers_def register_def
        anonymous_context_def identity_reputation_def)
  have l: "\<exists>w'. run (public_rate_limited auth_env ?ctx) ?w = (Inr False, w')"
    by (simp add: public_rate_limited_def caller_def anonymous_context_def rate_exceeded_def redis_incr_def redis_expire_def
        ewhen_def redis_value_def redis_put_def rate_key_def nonce_world_def empty_world_def auth_env_def calm_env_def live_def)
  then obtain wl where l: "run (public_rate_limited auth_env ?ctx) ?w = (Inr False, wl)" by blast
  have t: "td_auth_tier ?td = SIWX" "td_min_reputation ?td = 0" "td_handler ?td = echo_handlers ''list_triggers''"
    by (simp_all add: tool_list_triggers_def register_def)
  have c: "caller ?ctx = ''0xaB''" by (simp add: caller_def)
  have j: "rq_json list_request = Inr (PyDict [(''jsonrpc'', PyStr ''2.0''), (''method'', PyStr ''tools/call''),
     (''params'', PyDict [(''name'', PyStr ''list_triggers'')]), (''id'', PyInt 7)])" by (simp add: list_request_def)
  have "fst (run (call_tool auth_env False False list_request (PyInt 7) ?td (PyDict [])) nonce_world) =
     Inr (Rpc_success (PyInt 7) (Tool_content [(''tool'', PyStr ''list_triggers''), (''agent'', PyStr ''0xaB'')] False None))"
    by (simp add: call_tool_def handle_siwx_public_tool_call_def b l t c reputation_blocked_def echo_handlers_def
        tool_reply_def dict_has_def)
  moreover have "run (mcp_endpoint auth_env False False echo_handlers list_request) nonce_world =
      run (call_tool auth_env False False list_request (PyInt 7) ?td (PyDict [])) nonce_world"
    by (simp add: mcp_endpoint_def j Let_def dict_get_def py_truthy_def tools_call_def find_list_triggers)
  ultimately show ?thesis by (metis prod.collapse)
qed

theorem mcp_calls_entitled_witness:
  "\<exists>td args ctx w1 w2. td \<in> set (TOOLS echo_handlers) \<and> entitled auth_env False nonce_world list_request td ctx \<and>
    run (echo_handlers (td_name td) args ctx) w1 = (Inr [(''tool'', PyStr ''list_triggers''), (''agent'', PyStr ''0xaB'')], w2)"
  using list_call_run mcp_calls_entitled by blast

section \<open>Session calls are charged exactly when served\<close>

lemma sessions_stable [simp]: "redis_stable (\<lambda>u. w_sessions u = t)" "tick_stable (\<lambda>u. w_sessions u = t)"
  by (simp_all add: redis_stable_def tick_stable_def)

text \<open>A session \<open>i\<close> that stays live during the call, its hash \<open>h\<close> and the table after charging it \<open>cost\<close>.\<close>

definition charged :: "session_table \<Rightarrow> string \<Rightarrow> int \<Rightarrow> session_table" where
  "charged t i cost = (case t i of
      Some h \<Rightarrow> t(i \<mapsto> h\<lparr>sh_budget_remaining := map_option (\<lambda>b. b - cost) (sh_budget_remaining h)\<rparr>)
    | None \<Rightarrow> t)"

lemma charged_zero [simp]: "charged t i 0 = t"
  by (auto simp: charged_def option.map_ident fun_upd_idem split: option.split)

text \<open>
  A balance restored to \<open>t\<close>, or left at \<open>t'\<close> because Redis failed: the refund is a best effort.
\<close>

definition restored :: "env \<Rightarrow> session_table \<Rightarrow> session_table \<Rightarrow> world \<Rightarrow> bool" where
  "restored env t t' u \<longleftrightarrow> w_sessions u = t \<or> (w_sessions u = t' \<and> (\<exists>n. en_redis_fault env n \<noteq> None))"

lemma refund_call_run:
  assumes "\<forall>n. session_live (en_now env n) t i = Some h"
    and "sh_budget_remaining h = Some b" and "price_to_smallest_units (td_price td) = Inr cost" and "0 \<le> cost"
    and "ac_session_id ctx = Some i" and "w_sessions u = charged t i cost"
  shows "\<exists>u'. run (refund_call env ctx td) u = (Inr (), u') \<and> restored env t (charged t i cost) u'"
proof -
  have l: "live (en_now env n) (sh_key_expires h)" and ti: "t i = Some h" for n
    using assms(1) by (auto simp: session_live_def split: option.splits if_splits)
  show ?thesis
  proof (cases "cost = 0")
    case True
    then show ?thesis using assms by (simp add: refund_call_def ewhen_def restored_def)
  next
    case False
    have h: "hincrby_budget (en_now env (w_tick u)) i cost (w_sessions u) = (b, t)"
      using assms(2,6) l ti by (simp add: charged_def hincrby_budget_def session_live_def Let_def fun_upd_idem)
    show ?thesis
    proof (cases "en_redis_fault env (w_tick u)")
      case None
      with h False show ?thesis using assms
        by (simp add: refund_call_def ewhen_def run_best_effort session_refund_def restored_def)
    next
      case (Some e)
      with False show ?thesis using assms
        by (auto simp: refund_call_def ewhen_def run_best_effort session_refund_def restored_def)
    qed
  qed
qed

lemma session_rate_limited_run:
  assumes "\<And>u. w_sessions u = t1 \<Longrightarrow> \<exists>u'. run (refund_call env ctx td) u = (Inr (), u') \<and> restored env t t1 u'"
    and "w_sessions u = t1"
  shows "\<exists>b u'. run (session_rate_limited env ctx td) u = (Inr b, u') \<and> (if b then restored env t t1 u' else w_sessions u' = t1)"
proof (cases "caller ctx = []")
  case False
  obtain r u1 where r: "run (rate_exceeded env (caller ctx)) u = (r, u1)" by fastforce
  have u1: "w_sessions u1 = t1" using keeps_eq[OF keeps_rate_exceeded[of "\<lambda>u. w_sessions u = t1"] r] assms(2) by simp
  then obtain u2 where "run (refund_call env ctx td) u1 = (Inr (), u2)" "restored env t t1 u2" using assms(1) by blast
  with False r u1 show ?thesis by (cases r) (auto simp: session_rate_limited_def)
qed (use assms in \<open>auto simp: session_rate_limited_def\<close>)

lemma validate_and_decrement_cases:
  assumes "\<forall>n. session_live (en_now env n) (w_sessions w) i = Some h" and "session_of_hash i h = Inr s"
  shows "\<exists>r w'. run (validate_and_decrement env i cost) w = (r, w') \<and> (case r of
      Inl _ \<Rightarrow> restored env (w_sessions w) (charged (w_sessions w) i cost) w'
    | Inr _ \<Rightarrow> w_sessions w' = charged (w_sessions w) i cost \<and> cost \<le> sd_budget_remaining s)"
proof -
  have f: "sh_expires_at h = Some (sd_expires_at s)" "sh_budget_remaining h = Some (sd_budget_remaining s)"
    and s: "session_of_hash i (h\<lparr>sh_budget_remaining := Some b\<rparr>) = Inr (s\<lparr>sd_budget_remaining := b\<rparr>)" for b
    using assms(2) by (auto simp: session_of_hash_def rbind_eq_Inr of_option_def split: option.splits)
  have lv: "session_live (en_now env n) (w_sessions w) i = Some h" "w_sessions w i = Some h" for n
    using assms(1) by (auto simp: session_live_def split: option.splits if_splits)
  have "live (en_now env n) (sh_key_expires h)" for n
    using lv(1)[of n] by (auto simp: session_live_def split: option.splits if_splits)
  then have up: "session_live (en_now env n) ((w_sessions w)(i \<mapsto> h\<lparr>sh_budget_remaining := Some b\<rparr>)) i =
      Some (h\<lparr>sh_budget_remaining := Some b\<rparr>)" for n b
    by (simp add: session_live_def)
  have c: "charged (w_sessions w) i cost = (w_sessions w)(i \<mapsto> h\<lparr>sh_budget_remaining := Some (sd_budget_remaining s - cost)\<rparr>)"
    using f(2) lv(2) by (simp add: charged_def)
  show ?thesis
  proof (cases "en_redis_fault env (Suc (w_tick w))")
    case (Some e)
    then show ?thesis by (auto simp: validate_and_decrement_def run_decrement_def restored_def)
  next
    case ok: None
    show ?thesis
    proof (cases "en_redis_fault env (Suc (Suc (w_tick w)))")
      case None
      then show ?thesis using ok f s lv up
        by (simp add: validate_and_decrement_def run_decrement_def decrement_lua_def session_get_def restored_def c)
    next
      case (Some e)
      then show ?thesis using ok f s lv up
        by (auto simp: validate_and_decrement_def run_decrement_def decrement_lua_def session_get_def restored_def c)
    qed
  qed
qed

lemma verify_session_run:
  assumes "header rq ''X-TripWire-Session'' = i" and "i \<noteq> []"
    and "\<forall>n. session_live (en_now env n) (w_sessions w) i = Some h" and "session_of_hash i h = Inr s"
    and "price_to_smallest_units (td_price td) = Inr cost"
  shows "(\<exists>e w'. run (verify_session env rq td) w = (Inl e, w') \<and> restored env (w_sessions w) (charged (w_sessions w) i cost) w') \<or>
    (\<exists>ctx w'. run (verify_session env rq td) w = (Inr ctx, w') \<and> w_sessions w' = charged (w_sessions w) i cost \<and>
       ac_session_id ctx = Some i \<and> cost \<le> sd_budget_remaining s)"
proof -
  obtain r w' where r: "run (validate_and_decrement env i cost) w = (r, w')" and "case r of
      Inl _ \<Rightarrow> restored env (w_sessions w) (charged (w_sessions w) i cost) w'
    | Inr _ \<Rightarrow> w_sessions w' = charged (w_sessions w) i cost \<and> cost \<le> sd_budget_remaining s"
    using validate_and_decrement_cases[OF assms(3,4)] by blast
  then show ?thesis using assms(1,2,5)
    by (cases r) (auto simp: verify_session_def unauthorized_def split: exn.split)
qed

text \<open>
  C20. A session pays for a call exactly when the call is answered, as far as Redis
  holds. For a session that is live in Redis throughout, a price that parses and a
  handler that does not touch sessions, the server always replies. A reply with a tool's
  content has cost exactly the tool's price, which the balance covered. After an error
  reply (a session too poor or past its own expiry, too little reputation, the rate limit, a
  handler that raises) the balances of all sessions are what they were, unless Redis failed:
  then the session of the call may have been charged all the same, since neither the
  read after the charge nor the refund is retried.
\<close>

theorem session_call_charged_iff_served:
  assumes "header rq ''X-TripWire-Session'' = i" and "i \<noteq> []"
    and "\<forall>n. session_live (en_now env n) (w_sessions w) i = Some h" and "session_of_hash i h = Inr s"
    and "price_to_smallest_units (td_price td) = Inr cost" and "0 \<le> cost"
    and "\<And>ctx t. keeps (\<lambda>u. w_sessions u = t) (td_handler td args ctx)"
  shows "\<exists>reply w'. run (handle_session_tool_call env rq rid td args) w = (Inr reply, w') \<and> (case reply of
      Rpc_success _ _ \<Rightarrow> w_sessions w' = charged (w_sessions w) i cost \<and> cost \<le> sd_budget_remaining s
    | Rpc_error _ _ _ _ \<Rightarrow> w_sessions w' = w_sessions w \<or>
        (w_sessions w' = charged (w_sessions w) i cost \<and> (\<exists>n. en_redis_fault env n \<noteq> None)))"
  using verify_session_run[OF assms(1-5)]
proof (elim disjE exE conjE)
  fix e w'
  assume "run (verify_session env rq td) w = (Inl e, w')" "restored env (w_sessions w) (charged (w_sessions w) i cost) w'"
  then show ?thesis by (cases e) (simp_all add: handle_session_tool_call_def restored_def)
next
  fix ctx w1
  assume v: "run (verify_session env rq td) w = (Inr ctx, w1)" "w_sessions w1 = charged (w_sessions w) i cost"
    and i: "ac_session_id ctx = Some i" and c: "cost \<le> sd_budget_remaining s"
  have b: "sh_budget_remaining h = Some (sd_budget_remaining s)"
    using assms(4) by (auto simp: session_of_hash_def rbind_eq_Inr of_option_def split: option.splits)
  note refund = refund_call_run[OF assms(3) b assms(5,6) i]
  obtain lim w2 where l: "run (session_rate_limited env ctx td) w1 = (Inr lim, w2)"
    "if lim then restored env (w_sessions w) (charged (w_sessions w) i cost) w2 else w_sessions w2 = charged (w_sessions w) i cost"
    using session_rate_limited_run[OF refund v(2)] by blast
  obtain rh w3 where h: "run (td_handler td args ctx) w2 = (rh, w3)" by fastforce
  have w3: "w_sessions w3 = w_sessions w2" using keeps_eq[OF assms(7) h] by simp
  show ?thesis
  proof (cases "reputation_blocked td (ac_reputation_score ctx)")
    case True
    then show ?thesis using v refund[OF v(2)] by (auto simp: restored_def handle_session_tool_call_def low_reputation_def)
  next
    case False
    show ?thesis
    proof (cases "lim \<or> (\<exists>x. rh = Inr x)")
      case True
      then show ?thesis using False v l h w3 c
        by (auto simp: restored_def handle_session_tool_call_def tool_reply_def split: sum.splits)
    next
      case raised: False
      then obtain e where e: "rh = Inl e" "\<not> lim" by (cases rh) auto
      obtain w4 where "run (refund_call env ctx td) w3 = (Inr (), w4)"
        "restored env (w_sessions w) (charged (w_sessions w) i cost) w4"
        using refund[of w3] w3 l e by auto
      then show ?thesis using False v l h e by (simp add: restored_def handle_session_tool_call_def run_best_effort)
    qed
  qed
qed

definition rich_session :: SessionHash where
  "rich_session = sample_session\<lparr>sh_budget_total := Some 10000, sh_budget_remaining := Some 10000\<rparr>"

definition session_request :: Request where
  "session_request = paid_request\<lparr>rq_header := [''X-TripWire-Session'' \<mapsto> ''s'']\<rparr>"

lemma rich_session_facts:
  assumes "\<forall>n. en_now env n = 50"
  shows "\<forall>n. session_live (en_now env n) [''s'' \<mapsto> rich_session] ''s'' = Some rich_session"
    and "session_of_hash ''s'' rich_session = Inr (new_session ''s'' ''0xa'' 10000 90 8453 100 0 ''unknown'')"
    and "price_to_smallest_units (td_price sample_tool) = Inr 3000"
proof -
  show "\<forall>n. session_live (en_now env n) [''s'' \<mapsto> rich_session] ''s'' = Some rich_session"
    using assms by (simp add: session_live_def live_def rich_session_def sample_session_def empty_hash_def)
  show "session_of_hash ''s'' rich_session = Inr (new_session ''s'' ''0xa'' 10000 90 8453 100 0 ''unknown'')"
    by (simp add: session_of_hash_def rich_session_def sample_session_def empty_hash_def new_session_def)
  show "price_to_smallest_units (td_price sample_tool) = Inr 3000" by (simp add: sample_tool_def price_values)
qed

lemma rich_call_served:
  "\<exists>x y. fst (run (handle_session_tool_call (calm_env\<lparr>en_now := \<lambda>_. 50\<rparr>) session_request PyNone sample_tool PyNone)
       (empty_world\<lparr>w_sessions := [''s'' \<mapsto> rich_session]\<rparr>)) = Inr (Rpc_success x y)"
proof -
  let ?env = "calm_env\<lparr>en_now := \<lambda>_. 50\<rparr>" and ?w = "empty_world\<lparr>w_sessions := [''s'' \<mapsto> rich_session]\<rparr>"
  have up: "\<forall>n. en_redis_fault ?env n = None" "\<forall>n. en_now ?env n = 50" by (simp_all add: calm_env_def)
  have "\<forall>n. session_live (en_now ?env n) (w_sessions ?w) ''s'' = Some rich_session"
    using rich_session_facts(1)[OF up(2)] by simp
  note v = validate_and_decrement_run[OF up(1) this rich_session_facts(2)[OF up(2)], of 3000]
  let ?s = "new_session ''s'' ''0xa'' 10000 90 8453 100 0 ''unknown''\<lparr>sd_budget_remaining := 7000\<rparr>"
  obtain w1 where d: "run (validate_and_decrement ?env ''s'' 3000) ?w = (Inr ?s, w1)" "w_redis w1 = (\<lambda>_. None)"
    using v by (simp add: new_session_def empty_world_def)
  define ctx where "ctx = (anonymous_context SESSION)\<lparr>ac_agent_address := Some ''0xa'', ac_payment_verified := True,
      ac_payer_address := Some ''0xa'', ac_session_id := Some ''s'', ac_budget_remaining := Some 7000\<rparr>"
  have a: "run (verify_session ?env session_request sample_tool) ?w = (Inr ctx, w1)"
    using d(1) by (simp add: verify_session_def header_def session_request_def rich_session_facts(3)[OF up(2)] new_session_def Let_def
        ctx_def anonymous_context_def)
  have "\<exists>w2. run (session_rate_limited ?env ctx sample_tool) w1 = (Inr False, w2)"
    by (simp add: session_rate_limited_def caller_def ctx_def anonymous_context_def rate_exceeded_def redis_incr_def
        redis_expire_def redis_put_def redis_value_def rate_key_def live_def ewhen_def d(2) calm_env_def)
  then obtain w2 where l: "run (session_rate_limited ?env ctx sample_tool) w1 = (Inr False, w2)" by blast
  have n: "\<not> reputation_blocked sample_tool (ac_reputation_score ctx)"
    "td_handler sample_tool PyNone ctx = eret [(''ok'', PyBool True)]"
    by (simp_all add: reputation_blocked_def sample_tool_def)
  show ?thesis using a l n by (simp add: handle_session_tool_call_def tool_reply_def)
qed

theorem session_call_charged_iff_served_witness:
  "\<exists>x y w'. run (handle_session_tool_call (calm_env\<lparr>en_now := \<lambda>_. 50\<rparr>) session_request PyNone sample_tool PyNone)
       (empty_world\<lparr>w_sessions := [''s'' \<mapsto> rich_session]\<rparr>) = (Inr (Rpc_success x y), w') \<and>
     w_sessions w' = [''s'' \<mapsto> rich_session\<lparr>sh_budget_remaining := Some 7000\<rparr>]"
proof -
  let ?env = "calm_env\<lparr>en_now := \<lambda>_. 50\<rparr>" and ?w = "empty_world\<lparr>w_sessions := [''s'' \<mapsto> rich_session]\<rparr>"
  have up: "\<forall>n. en_now ?env n = 50" by simp
  have "header session_request ''X-TripWire-Session'' = ''s''" by (simp add: header_def session_request_def)
  moreover have "\<forall>n. session_live (en_now ?env n) (w_sessions ?w) ''s'' = Some rich_session"
    using rich_session_facts(1)[OF up] by simp
  ultimately obtain reply w' where r: "run (handle_session_tool_call ?env session_request PyNone sample_tool PyNone) ?w = (Inr reply, w')"
    "case reply of Rpc_success _ _ \<Rightarrow> w_sessions w' = charged (w_sessions ?w) ''s'' 3000 \<and>
        3000 \<le> sd_budget_remaining (new_session ''s'' ''0xa'' 10000 90 8453 100 0 ''unknown'')
      | Rpc_error _ _ _ _ \<Rightarrow> w_sessions w' = w_sessions ?w \<or>
          (w_sessions w' = charged (w_sessions ?w) ''s'' 3000 \<and> (\<exists>n. en_redis_fault ?env n \<noteq> None))"
    using session_call_charged_iff_served[of session_request "''s''" ?env ?w rich_session
        "new_session ''s'' ''0xa'' 10000 90 8453 100 0 ''unknown''" sample_tool 3000 PyNone PyNone]
      rich_session_facts(2,3)[OF up] sample_handler_keeps by auto
  obtain x y where "reply = Rpc_success x y" using rich_call_served r(1) by auto
  moreover have "charged [''s'' \<mapsto> rich_session] ''s'' 3000 = [''s'' \<mapsto> rich_session\<lparr>sh_budget_remaining := Some 7000\<rparr>]"
    by (simp add: charged_def rich_session_def)
  ultimately show ?thesis using r by auto
qed

end
