(* ===== verification/Mcp_Requests.thy ===== *)
theory Mcp_Requests
  imports Tool_Claims Mcp_Server
begin

text \<open>
  A request to the MCP endpoint from end to end: \<open>mcp_endpoint\<close> with the handlers of
  \<open>mcp/tools.py\<close>. Authentication, rate limits, budgets and payments touch only Redis and the
  log of settlements, so what a request does to the tables is what its tool does for
  the wallet the request is entitled to act for.
\<close>

section \<open>What the stages around a handler leave alone\<close>

definition account_stable :: "(world \<Rightarrow> bool) \<Rightarrow> bool" where
  "account_stable I \<longleftrightarrow> redis_stable I \<and> (\<forall>w s. I w \<longrightarrow> I (w\<lparr>w_sessions := s\<rparr>)) \<and> (\<forall>w s. I w \<longrightarrow> I (w\<lparr>w_settled := s\<rparr>))"

lemma account_stableD: "account_stable I \<Longrightarrow> redis_stable I" "account_stable I \<Longrightarrow> tick_stable I"
  by (simp_all add: account_stable_def redis_stable_def)

lemma keeps_session_operations [keeps_intros]:
  assumes "account_stable I"
  shows "keeps I (validate_and_decrement env i c)" and "keeps I (session_refund env i c)"
proof -
  have t: "tick_stable I" using assms by (rule account_stableD)
  have s: "I w \<Longrightarrow> I (w\<lparr>w_sessions := s\<rparr>)" for w s using assms by (simp add: account_stable_def)
  have p: "keeps I (case x of (u, v) \<Rightarrow> f u v)" if "\<And>u v. keeps I (f u v)" for x and f :: "'x \<Rightarrow> 'y \<Rightarrow> int io"
    using that by (cases x) simp
  show "keeps I (validate_and_decrement env i c)"
    unfolding validate_and_decrement_def run_decrement_def session_get_def by (intro keeps_intros p t s)
  show "keeps I (session_refund env i c)" unfolding session_refund_def by (intro keeps_intros p t s)
qed

lemma keeps_verify_session: "account_stable I \<Longrightarrow> keeps I (verify_session env rq td)"
  unfolding verify_session_def unauthorized_def Let_def
  by (intro keeps_ebind keeps_etry keeps_intros) (auto intro!: keeps_intros split: sum.split exn.split)

lemma keeps_verify_siwe: "account_stable I \<Longrightarrow> keeps I (verify_siwe env rq)"
  unfolding verify_siwe_def validate_timestamps_def check_signature_and_nonce_def unauthorized_def Let_def
  by (intro keeps_intros; (simp add: account_stableD)?) (auto intro!: keeps_intros split: exn.split)

lemma keeps_auth_stages [keeps_intros]:
  assumes "account_stable I"
  shows "keeps I (build_auth_context env resolver rq td)" and "keeps I (refund_call env ctx td)"
    and "keeps I (session_rate_limited env ctx td)" and "keeps I (public_rate_limited env ctx)"
    and "keeps I (finish_x402_call env pctx rh)"
proof -
  note st = assms account_stableD[OF assms]
  have settle: "I w \<Longrightarrow> I (w\<lparr>w_settled := s\<rparr>)" for w s using assms by (simp add: account_stable_def)
  show "keeps I (build_auth_context env resolver rq td)"
    unfolding build_auth_context_def by (cases "td_auth_tier td") (auto intro!: keeps_intros keeps_verify_siwe st)
  show r: "keeps I (refund_call env ctx td)" unfolding refund_call_def by (intro keeps_intros st)
  show "keeps I (session_rate_limited env ctx td)" unfolding session_rate_limited_def by (intro keeps_intros r st)
  show "keeps I (public_rate_limited env ctx)" unfolding public_rate_limited_def by (intro keeps_intros st)
  show "keeps I (finish_x402_call env pctx rh)"
    unfolding finish_x402_call_def settle_or_withhold_def x402_settle_def on_settlement_failure_def Let_def
    by (intro keeps_intros settle st)
qed

section \<open>What a request does is what its tool does\<close>

text \<open>
  A rule for requests: from a state \<open>w\<close> with \<open>P\<close>, if the tool takes \<open>P\<close> to \<open>Q\<close> for every context
  entitled to it in \<open>w\<close>, the request ends with \<open>Q\<close>. Authentication is the first action of a call,
  so what it finds it finds in \<open>w\<close> itself.
\<close>

lemma triple_fact:
  assumes "keeps P m" and "\<And>w. S w \<Longrightarrow> P w" and "\<And>w v w'. S w \<Longrightarrow> run m w = (Inr v, w') \<Longrightarrow> R v w'"
  shows "triple S m (\<lambda>v w. P w \<and> R v w) P"
  unfolding triple_def
proof (intro allI impI)
  fix w assume w: "S w"
  then show "case run m w of (Inl e, w') \<Rightarrow> P w' | (Inr v, w') \<Rightarrow> P w' \<and> R v w'"
    using keepsD[OF assms(1) assms(2)[OF w]] assms(3)[OF w] by (cases "run m w"; cases "fst (run m w)") auto
qed

lemma triple_pure: "(R \<Longrightarrow> triple P m Q E) \<Longrightarrow> triple (\<lambda>w. P w \<and> R) m Q E"
  by (auto simp: triple_def)

lemma triple_etry_same: "triple P m (\<lambda>_. Q) Q \<Longrightarrow> triple P (etry m) (\<lambda>_. Q) E"
  unfolding triple_def by (auto split: prod.splits sum.splits)

lemma triple_auth:
  assumes "keeps P m" and "P w" and "\<And>v w'. run m w = (Inr v, w') \<Longrightarrow> R v"
    and "\<And>e. triple P (k (Inl e)) Q E" and "\<And>v. R v \<Longrightarrow> triple P (k (Inr v)) Q E"
  shows "triple (\<lambda>u. u = w) (ebind (etry m) k) Q E"
proof (rule triple_ebind[OF triple_etry[OF triple_fact[OF assms(1), where R = "\<lambda>v _. R v" and S = "\<lambda>u. u = w"]]])
  show "triple (\<lambda>u. case r of Inl _ \<Rightarrow> P u | Inr v \<Rightarrow> P u \<and> R v) (k r) Q E" for r
    using assms(4,5) by (cases r) (auto intro: triple_pure)
qed (use assms(2,3) in auto)

lemma handler_then:
  assumes "\<And>r. triple Q (k r) (\<lambda>_. Q) Q" and "triple P m (\<lambda>_. Q) Q"
  shows "triple P (ebind (etry m) k) (\<lambda>_. Q) Q"
  by (rule triple_ebind[OF triple_etry_same[OF assms(2)] assms(1)])

lemma siwx_triple:
  assumes "account_stable P" and "account_stable Q" and "\<And>w. P w \<Longrightarrow> Q w" and "P w"
    and "\<And>ctx. entitled env resolver w rq td ctx \<Longrightarrow> triple P (td_handler td args ctx) (\<lambda>_. Q) Q"
  shows "triple (\<lambda>u. u = w) (handle_siwx_public_tool_call env resolver rq i td args) (\<lambda>_. Q) Q"
proof -
  have "triple P (ebind (public_rate_limited env ctx) (\<lambda>limited.
      if limited then eret (Rpc_error i RATE_LIMITED rate_message No_data)
      else ebind (etry (td_handler td args ctx)) (\<lambda>result. case result of
          Inl _ \<Rightarrow> eret (Rpc_error i INTERNAL_ERROR ''Tool execution failed'' No_data)
        | Inr res \<Rightarrow> eret (tool_reply i res None)))) (\<lambda>_. Q) Q" if "entitled env resolver w rq td ctx" for ctx
    by (intro triple_step[OF keeps_auth_stages(4)[OF assms(1)] assms(3)] triple_if handler_then assms(5) that triple_cases triple_eret)
       (auto intro: assms(3))
  then show ?thesis
    unfolding handle_siwx_public_tool_call_def
    by (intro triple_auth[where P = P and R = "\<lambda>ctx. \<not> reputation_blocked td (ac_reputation_score ctx) \<longrightarrow> entitled env resolver w rq td ctx"])
       (auto intro!: keeps_auth_stages assms(1,3,4) triple_eret siwx_entitled split: exn.split)
qed

lemma session_triple:
  assumes "account_stable P" and "account_stable Q" and "\<And>w. P w \<Longrightarrow> Q w" and "P w"
    and "\<And>ctx. entitled env resolver w rq td ctx \<Longrightarrow> triple P (td_handler td args ctx) (\<lambda>_. Q) Q"
  shows "triple (\<lambda>u. u = w) (handle_session_tool_call env rq i td args) (\<lambda>_. Q) Q"
proof -
  have "triple P (ebind (session_rate_limited env ctx td) (\<lambda>limited.
      if limited then eret (Rpc_error i RATE_LIMITED rate_message No_data)
      else ebind (etry (td_handler td args ctx)) (\<lambda>result. case result of
          Inl _ \<Rightarrow> ebind (best_effort (refund_call env ctx td)) (\<lambda>_.
            eret (Rpc_error i INTERNAL_ERROR ''Tool execution failed'' No_data))
        | Inr res \<Rightarrow> eret (tool_reply i res (Some (ac_session_id ctx, ac_budget_remaining ctx)))))) (\<lambda>_. Q) Q"
    if "entitled env resolver w rq td ctx" for ctx
    by (intro triple_step[OF keeps_auth_stages(3)[OF assms(1)] assms(3)] triple_if handler_then assms(5) that triple_cases triple_eret
          triple_step[OF keeps_best_effort[OF keeps_auth_stages(2)[OF assms(2)]]])
       (auto intro: assms(3))
  then show ?thesis
    unfolding handle_session_tool_call_def
    by (intro triple_auth[where P = P and R = "\<lambda>ctx. \<not> reputation_blocked td (ac_reputation_score ctx) \<longrightarrow> entitled env resolver w rq td ctx"])
       (auto intro!: keeps_auth_stages keeps_verify_session assms(1,3,4) triple_eret session_entitled
          triple_step[OF keeps_auth_stages(2)[OF assms(1)]] split: exn.split)
qed

lemma executor_triple:
  assumes "account_stable P" and "account_stable Q" and "\<And>w. P w \<Longrightarrow> Q w" and "P w" and "td_auth_tier td = X402"
    and "\<And>ctx. entitled env resolver w rq td ctx \<Longrightarrow> triple P (td_handler td args ctx) (\<lambda>_. Q) Q"
  shows "triple (\<lambda>u. u = w) (x402_tool_executor env resolver rq td args) (\<lambda>_. Q) Q"
proof -
  let ?h = "header rq ''PAYMENT-SIGNATURE''"
  let ?at = "\<lambda>u. P u \<and> w_tick u = Suc (w_tick w)"
  note st = account_stableD[OF assms(1)]
  define paid where "paid payer \<longleftrightarrow> (\<exists>v. en_x402_verify env (w_tick w) ?h (payment_option env td) = Inr v \<and> vr_valid v \<and>
    payer = verified_payer v)" for payer
  have found: "w_tick w' = Suc (w_tick w) \<and> paid payer" if r: "run (verify_payment env td ?h) w = (Inr payer, w')" for payer w'
  proof
    show "w_tick w' = Suc (w_tick w)"
      using r by (auto simp: verify_payment_def get_x402_server_def x402_verify_def split: if_splits sum.splits)
    show "paid payer" using verify_payment_run[OF r] by (simp add: paid_def)
  qed
  have verify: "triple (\<lambda>u. u = w) (verify_payment env td ?h) (\<lambda>payer u. ?at u \<and> paid payer) Q"
    by (rule triple_conseq[OF triple_fact[OF keeps_verify_payment[OF st(2)],
          where R = "\<lambda>payer u. w_tick u = Suc (w_tick w) \<and> paid payer" and S = "\<lambda>u. u = w"]])
       (use found assms(3,4) in auto)
  let ?ctx = "\<lambda>payer ctx. \<exists>identity. ctx = x402_context payer identity \<and>
      (payer \<noteq> [] \<longrightarrow> resolved_at env resolver td (Suc (Suc (w_tick w))) payer identity) \<and>
      \<not> reputation_blocked td (ac_reputation_score ctx)"
  have before: "triple ?at (before_execution env resolver td p) (\<lambda>c u. P u \<and> ?ctx (pc_payer_address p) (fst c)) Q" for p
  proof (rule triple_conseq[OF triple_fact[OF keeps_before_execution[OF st(1)],
        where R = "\<lambda>c _. ?ctx (pc_payer_address p) (fst c)" and S = ?at]])
    fix u c u' assume "?at u" and r: "run (before_execution env resolver td p) u = (Inr c, u')"
    then show "?ctx (pc_payer_address p) (fst c)" using before_execution_result[of env resolver td p u "fst c" "snd c" u'] by simp
  qed (use assms(3) in auto)
  have ent: "entitled env resolver w rq td ctx" if "paid payer" "ac_agent_address ctx \<noteq> None" "?ctx payer ctx" for payer ctx
    using that assms(5)
    by (fastforce simp: entitled_def x402_context_def anonymous_context_def paid_def Let_def split: if_splits)
  have served: "triple (\<lambda>u. P u \<and> ?ctx payer (fst c)) (case c of (ctx, pctx) \<Rightarrow> if ac_agent_address ctx = None
      then eraise (HTTPException 401 ''Could not determine agent address from payment'')
      else ebind (etry (td_handler td args ctx)) (finish_x402_call env pctx)) (\<lambda>_. Q) Q"
    if payer: "paid payer" for payer c
  proof (rule triple_pure)
    obtain ctx pctx where c: "c = (ctx, pctx)" by fastforce
    assume ctx: "?ctx payer (fst c)"
    have "triple P (ebind (etry (td_handler td args ctx)) (finish_x402_call env pctx)) (\<lambda>_. Q) Q"
      if "ac_agent_address ctx \<noteq> None"
      using ent[OF payer that] ctx c
      by (intro handler_then triple_keeps[OF keeps_auth_stages(5)[OF assms(2)]] assms(6)) auto
    then show "triple P (case c of (ctx, pctx) \<Rightarrow> if ac_agent_address ctx = None
        then eraise (HTTPException 401 ''Could not determine agent address from payment'')
        else ebind (etry (td_handler td args ctx)) (finish_x402_call env pctx)) (\<lambda>_. Q) Q"
      unfolding c prod.case by (intro triple_if triple_eraise assms(3))
  qed
  show ?thesis
    unfolding x402_tool_executor_def Let_def
    apply (rule triple_if, rule triple_eraise, use assms(3,4) in blast)
    apply (rule triple_ebind[OF verify], rule triple_pure)
    apply (rule triple_ebind[OF before])
    subgoal for payer c using served[of payer c] by simp
    done
qed

lemma call_tool_triple:
  assumes "account_stable P" and "account_stable Q" and "\<And>w. P w \<Longrightarrow> Q w" and "P w"
    and "\<And>ctx. entitled env resolver w rq td ctx \<Longrightarrow> triple P (td_handler td args ctx) (\<lambda>_. Q) Q"
  shows "triple (\<lambda>u. u = w) (call_tool env sessions resolver rq i td args) (\<lambda>_. Q) Q"
proof -
  have "triple (\<lambda>u. u = w) (handle_x402_tool_call env resolver rq i td args) (\<lambda>_. Q) Q" if "td_auth_tier td = X402"
    unfolding handle_x402_tool_call_def
    by (rule handler_then[OF _ executor_triple[OF assms(1-4) that assms(5)]]) (auto intro: triple_eret)
  then show ?thesis unfolding call_tool_def
    by (auto intro!: triple_if siwx_triple[OF assms] session_triple[OF assms])
qed

lemma endpoint_triple:
  assumes "account_stable P" and "account_stable Q" and "\<And>w. P w \<Longrightarrow> Q w" and "P w"
    and "\<And>td args ctx. td \<in> set (TOOLS handlers) \<Longrightarrow> entitled env resolver w rq td ctx \<Longrightarrow>
      triple P (handlers (td_name td) args ctx) (\<lambda>_. Q) Q"
  shows "triple (\<lambda>u. u = w) (mcp_endpoint env sessions resolver handlers rq) (\<lambda>_. Q) Q"
proof -
  let ?P = "\<lambda>u. u = w"
  have Q: "\<And>u. ?P u \<Longrightarrow> Q u" using assms(3,4) by blast
  have ret: "triple ?P (eret v) (\<lambda>_. Q) Q" "triple ?P (eraise e) (\<lambda>_. Q) Q" for v e
    by (auto intro: triple_eret triple_eraise Q)
  have "triple ?P (call_tool env sessions resolver rq i td args) (\<lambda>_. Q) Q" if "td \<in> set (TOOLS handlers)" for i td args
    using assms(5)[OF that] tool_basics[OF that] by (intro call_tool_triple[OF assms(1-4)]) auto
  then have "triple ?P (tools_call env sessions resolver handlers rq i params) (\<lambda>_. Q) Q" for i params
    unfolding tools_call_def Let_def
    by (intro triple_elift Q) (auto intro!: ret split: pyval.split option.split dest: find_tool_sound)
  then show ?thesis unfolding mcp_endpoint_def Let_def
    by (auto intro!: ret triple_elift Q split: sum.split)
qed

lemma keeps_from_state: "(\<And>w. I w \<Longrightarrow> triple (\<lambda>u. u = w) m (\<lambda>_. I) I) \<Longrightarrow> keeps I m"
  by (rule keeps_triple) (auto simp: triple_def)

section \<open>The tables\<close>

lemma registry_account: "account_stable registry_inv" "account_stable db_inv" "account_stable (\<lambda>w. foreign a w = x)"
  "account_stable (trigger_quota env b)" "account_stable (endpoint_quota env b)"
  by (simp_all add: account_stable_def redis_stable_def tick_stable_def registry_defs db_inv_def event_ids_def foreign_def
      quota_defs below_def owned_triggers_def owned_endpoints_def)

lemma keeps_mcp_endpoint:
  assumes "tool_frame I env rg" and "account_stable I"
  shows "keeps I (mcp_endpoint env sessions resolver (tool_handlers env rg) rq)"
  by (rule keeps_from_state, rule endpoint_triple[OF assms(2,2)])
     (auto intro: triple_keeps tool_frame.keeps_tools[OF assms(1)])

lemma keeps_quotas:
  "keeps (trigger_quota env b) (mcp_endpoint env sessions resolver (tool_handlers env rg) rq)"
  "keeps (endpoint_quota env b) (mcp_endpoint env sessions resolver (tool_handlers env rg) rq)"
  by (rule keeps_from_state, rule endpoint_triple[OF registry_account(4,4)] endpoint_triple[OF registry_account(5,5)],
      auto intro: triple_keeps tool_quotas)+

text \<open>
  C25. Quotas hold: a wallet within its limits of active triggers and endpoints is within
  them after any request to the MCP endpoint, whatever it asks for and whatever fails on the
  way; rows without a model count too. The tool that creates several triggers checks before
  each insert, so a batch cannot exceed the limit either, although the API reference says it can.
  The statement is about one request served at a time: two requests that interleave between check
  and insert can exceed the limit. It counts the rows whose owner column is exactly \<open>b\<close>; the tools
  write and count owners in lower case.
\<close>

theorem requests_within_quota:
  assumes "owned_triggers b w \<le> st_max_triggers_per_wallet (en_settings env)"
    and "owned_endpoints b w \<le> st_max_endpoints_per_wallet (en_settings env)"
    and "run (mcp_endpoint env sessions resolver (tool_handlers env rg) rq) w = (r, w')"
  shows "owned_triggers b w' \<le> st_max_triggers_per_wallet (en_settings env) \<and>
    owned_endpoints b w' \<le> st_max_endpoints_per_wallet (en_settings env)"
  using keepsD[OF keeps_quotas(1), of env b w sessions resolver rg rq] keepsD[OF keeps_quotas(2), of env b w sessions resolver rg rq] assms
  by (simp add: quota_defs below_def)

definition registry_part :: "world \<Rightarrow> Endpoint list \<times> InvalidRow list \<times> Trigger list \<times> InvalidRow list \<times> Subscription list" where
  "registry_part w = (w_endpoints w, w_invalid_endpoints w, w_triggers w, w_invalid_triggers w, w_subscriptions w)"

lemma registry_part_eq: "registry_part u = registry_part w \<Longrightarrow> foreign a u = foreign a w \<and> registry_inv u = registry_inv w"
  by (simp add: registry_part_def foreign_def registry_defs)

lemma entitled_agent:
  assumes "td \<in> set (TOOLS h)" and "entitled env resolver w rq td ctx"
  obtains a where "agent_lower ctx = Inr a"
proof -
  have "td_auth_tier td \<noteq> PUBLIC" using tool_basics[OF assms(1)] by auto
  then show thesis using assms(2) that
    by (auto simp: entitled_def agent_lower_def split: AuthTier.splits)
qed

text \<open>
  C17. A request touches only the rows of the wallet it is entitled to act for: either it
  leaves endpoints, triggers and subscriptions as they are, or it is entitled in the state in which
  it arrived, by a fresh signature, a payment verified now or a live session it was charged to,
  to act for a wallet, and the triggers and
  endpoints of all other wallets are afterwards exactly what they were, in content and
  order. Ids must be unique and triggers refer to existing endpoints.
\<close>

theorem requests_stay_own:
  assumes "run (mcp_endpoint env sessions resolver (tool_handlers env rg) rq) w = (r, w')" and "registry_inv w"
  shows "registry_part w' = registry_part w \<or>
    (\<exists>td ctx a. td \<in> set (TOOLS (tool_handlers env rg)) \<and> entitled env resolver w rq td ctx \<and> agent_lower ctx = Inr a \<and>
       foreign a w' = foreign a w)" (is "?Q w'")
proof (rule triple_post[OF endpoint_triple refl assms(1)])
  let ?P = "\<lambda>u. registry_part u = registry_part w"
  show "account_stable ?P" "account_stable ?Q"
    by (simp_all add: account_stable_def redis_stable_def tick_stable_def registry_part_def foreign_def)
  fix td args ctx assume td: "td \<in> set (TOOLS (tool_handlers env rg))" and e: "entitled env resolver w rq td ctx"
  obtain a where a: "agent_lower ctx = Inr a" using entitled_agent[OF td e] .
  show "triple ?P (tool_handlers env rg (td_name td) args ctx) (\<lambda>_. ?Q) ?Q"
  proof (rule triple_snd)
    fix u assume u: "?P u"
    then have "foreign a (snd (run (tool_handlers env rg (td_name td) args ctx) u)) = foreign a u"
      using tool_calls_stay_own[OF a] assms(2) registry_part_eq[OF u] by (metis prod.collapse)
    then show "?Q (snd (run (tool_handlers env rg (td_name td) args ctx) u))"
      using td e a registry_part_eq[OF u, of a] by auto
  qed
qed simp_all

section \<open>A request from end to end\<close>

definition delete_request :: Request where
  "delete_request = sample_request\<lparr>rq_json := Inr (PyDict [(''jsonrpc'', PyStr ''2.0''), (''method'', PyStr ''tools/call''),
     (''params'', PyDict [(''name'', PyStr ''delete_trigger''), (''arguments'', PyDict [(''trigger_id'', PyStr ''t1'')])]),
     (''id'', PyInt 7)])\<rparr>"

definition shop :: world where
  "shop = nonce_world\<lparr>w_endpoints := [small_endpoint ''e1'' ''0xab'', small_endpoint ''e2'' ''0xb''],
     w_triggers := [small_trigger ''t1'' ''0xab'' ''e1'', small_trigger ''t2'' ''0xb'' ''e2'']\<rparr>"

abbreviation shop_endpoint :: "rpc_reply io" where
  "shop_endpoint \<equiv> mcp_endpoint auth_env False False (tool_handlers auth_env small_registry) delete_request"

lemma shop_inv: "registry_inv shop" "owned_triggers ''0xab'' shop = 1" "owned_endpoints ''0xab'' shop = 1"
  by (simp_all add: registry_defs owned_triggers_def owned_endpoints_def shop_def nonce_world_def two_owners_simps)

lemma verify_siwe_delete:
  "run (verify_siwe auth_env delete_request) shop =
     (Inr ''0xaB'', shop\<lparr>w_tick := 2, w_redis := (w_redis shop)(''siwe:nonce:n1'' := None)\<rparr>)"
  by (simp add: verify_siwe_def siwe_headers_def header_def delete_request_def sample_request_def validate_timestamps_def
      auth_env_def calm_env_def shop_def nonce_world_def empty_world_def check_signature_and_nonce_def default_settings_def
      verify_siwe_signature_def lower_sample redis_delete_def redis_value_def redis_put_def
      nonce_redis_key_def live_def of_option_def eval_nat_numeral)

lemma shop_lower: "py_lower ''0xaB'' = ''0xab''" "py_lower ''0xab'' = ''0xab''"
  by code_simp+

lemma delete_run:
  "map tg_active (w_triggers (snd (run shop_endpoint shop))) = [False, True]"
proof -
  let ?h = "tool_handlers auth_env small_registry" let ?td = "tool_delete_trigger (?h ''delete_trigger'')"
  let ?ctx = "(anonymous_context SIWX)\<lparr>ac_agent_address := Some ''0xaB''\<rparr>"
  let ?w = "shop\<lparr>w_tick := 2, w_redis := (w_redis shop)(''siwe:nonce:n1'' := None)\<rparr>"
  let ?w' = "shop\<lparr>w_tick := 4, w_redis := ((w_redis shop)(''siwe:nonce:n1'' := None))(rate_key ''0xaB'' \<mapsto> (1, Some 1063))\<rparr>"
  have b: "run (build_auth_context auth_env False delete_request ?td) shop = (Inr ?ctx, ?w)"
    by (simp add: build_auth_context_def verify_siwe_delete resolve_caller_def tool_delete_trigger_def register_def
        anonymous_context_def identity_reputation_def)
  have l: "run (public_rate_limited auth_env ?ctx) ?w = (Inr False, ?w')"
    by (simp add: public_rate_limited_def caller_def anonymous_context_def rate_exceeded_def redis_incr_def redis_expire_def
        ewhen_def redis_value_def redis_put_def rate_key_def shop_def nonce_world_def empty_world_def auth_env_def calm_env_def live_def)
  have a: "agent_lower ?ctx = Inr ''0xab''" by (simp add: agent_lower_def shop_lower)
  have "map tg_active (w_triggers (snd (run (delete_trigger auth_env small_registry (PyDict [(''trigger_id'', PyStr ''t1'')]) ?ctx) ?w'))) =
      [False, True]"
    by (simp add: delete_trigger_def a shop_lower shop_def nonce_world_def auth_env_def two_owners_simps tool_run_simps)
  moreover have "td_auth_tier ?td = SIWX" "td_min_reputation ?td = 0" "td_handler ?td = delete_trigger auth_env small_registry"
    by (simp_all add: tool_delete_trigger_def register_def tool_handlers_def)
  moreover have "find_tool ?h ''delete_trigger'' = Some ?td"
    by (simp add: find_tool_def TOOLS_def tool_defs register_def)
  moreover have "rq_json delete_request = Inr (PyDict [(''jsonrpc'', PyStr ''2.0''), (''method'', PyStr ''tools/call''),
     (''params'', PyDict [(''name'', PyStr ''delete_trigger''), (''arguments'', PyDict [(''trigger_id'', PyStr ''t1'')])]),
     (''id'', PyInt 7)])" by (simp add: delete_request_def)
  moreover have "caller ?ctx = ''0xaB''" "ac_reputation_score ?ctx = 0" by (simp_all add: caller_def anonymous_context_def)
  ultimately show ?thesis
    by (simp add: mcp_endpoint_def Let_def dict_get_def py_truthy_def tools_call_def call_tool_def
        handle_siwx_public_tool_call_def b l reputation_blocked_def case_prod_beta split: sum.split)
qed

theorem requests_within_quota_witness:
  "owned_triggers ''0xab'' (snd (run shop_endpoint shop)) \<le> 50 \<and> owned_endpoints ''0xab'' (snd (run shop_endpoint shop)) \<le> 20"
proof -
  have lim: "st_max_triggers_per_wallet (en_settings auth_env) = 50" "st_max_endpoints_per_wallet (en_settings auth_env) = 20"
    by (simp_all add: auth_env_def calm_env_def default_settings_def)
  obtain r w' where r: "run shop_endpoint shop = (r, w')" by fastforce
  from requests_within_quota[OF _ _ r, of "''0xab''"] show ?thesis by (simp add: lim shop_inv r)
qed

theorem requests_stay_own_witness:
  "\<exists>td ctx a. entitled auth_env False shop delete_request td ctx \<and> agent_lower ctx = Inr a \<and>
     foreign a (snd (run shop_endpoint shop)) = foreign a shop"
proof -
  obtain r w' where r: "run shop_endpoint shop = (r, w')" by fastforce
  have "registry_part w' \<noteq> registry_part shop"
    using delete_run r by (auto simp: registry_part_def shop_def small_trigger_def)
  with requests_stay_own[OF r shop_inv(1)] r show ?thesis by auto
qed

end
