(* ===== verification/System_Steps.thy ===== *)
theory System_Steps
  imports Trigger_Props Background_Props Worker_Props Mcp_Requests
begin

text \<open>
  The running service: publishers, workers that process logs, the finality poller, the
  sweeper, the facilitator fast path, the nonce archiver, the delivery dead-letter
  handler, callers of the MCP endpoint and of the session routes, each acting atomically, in any order and in any environment, on the streams
  and on the tables of the pipeline (\<open>bu_world\<close>). An action on the tables becomes one
  on the whole state by \<open>in_world\<close>.
\<close>

section \<open>Actions on a part of the state\<close>

definition in_world :: "'a io \<Rightarrow> 'a bio" where
  "in_world m = ebind (egets (\<lambda>b. run m (bu_world b))) (\<lambda>(r, w).
     ebind (emodify (\<lambda>b. b\<lparr>bu_world := w\<rparr>)) (\<lambda>_. elift r))"

lemma run_in_world [simp]:
  "run (in_world m) b = (case run m (bu_world b) of (r, w) \<Rightarrow> (r, b\<lparr>bu_world := w\<rparr>))"
  by (simp add: in_world_def case_prod_beta)

lemma keeps_in_world_bus [keeps_intros]: "keeps bus_inv (in_world m)"
  by (rule keepsI) (simp add: case_prod_beta)

lemma keeps_in_world: "keeps P m \<Longrightarrow> keeps (\<lambda>b. P (bu_world b)) (in_world m)"
  by (rule keepsI) (simp add: case_prod_beta keepsD)

lemma keeps_conj: "keeps I m \<Longrightarrow> keeps J m \<Longrightarrow> keeps (\<lambda>w. I w \<and> J w) m"
  by (rule keepsI) (simp add: keepsD)

section \<open>The bus leaves the tables alone\<close>

lemma bu_world_put [simp]: "bu_world (put_stream k s b) = bu_world b"
  by (simp add: put_stream_def)

lemma bu_world_deliver_all [simp]: "bu_world (snd (deliver_all time c n ks b)) = bu_world b"
  by (induction ks arbitrary: b) (simp_all add: case_prod_beta)

lemma world_bus_primitives [keeps_intros]:
  "keeps (\<lambda>b. P (bu_world b)) (bus_call env)" "keeps (\<lambda>b. P (bu_world b)) (bus_now env)"
  "keeps (\<lambda>b. P (bu_world b)) (xadd env k p)" "keeps (\<lambda>b. P (bu_world b)) (xgroup_create env k)"
  "keeps (\<lambda>b. P (bu_world b)) (xack env k ids)" "keeps (\<lambda>b. P (bu_world b)) (xautoclaim env k c n)"
  "keeps (\<lambda>b. P (bu_world b)) (check_stream_cap k)" "keeps (\<lambda>b. P (bu_world b)) (invalidate_group k)"
  by (auto intro!: keepsI simp: bus_now_def run_xadd xgroup_create_def xack_def xautoclaim_def check_stream_cap_def
      invalidate_group_def case_prod_beta split: option.split)

lemma world_xreadgroup [keeps_intros]: "keeps (\<lambda>b. P (bu_world b)) (xreadgroup env c ks n)"
  by (rule keepsI) (auto simp: xreadgroup_def case_prod_beta split: option.split)

lemma world_ensure [keeps_intros]: "keeps (\<lambda>b. P (bu_world b)) (ensure_consumer_group env k)"
  unfolding ensure_consumer_group_def by (intro keeps_intros) simp

lemma world_decode_messages [keeps_intros]: "keeps (\<lambda>b. P (bu_world b)) (decode_messages env ms)"
  by (induction env ms rule: decode_messages.induct) (auto intro!: keeps_intros split: option.split)

lemma world_bus_operations [keeps_intros]:
  "keeps (\<lambda>b. P (bu_world b)) (publish_event env l)" "keeps (\<lambda>b. P (bu_world b)) (publish_batch env ls)"
  "keeps (\<lambda>b. P (bu_world b)) (consume_events env ks c n)" "keeps (\<lambda>b. P (bu_world b)) (ack_batch env am)"
  "keeps (\<lambda>b. P (bu_world b)) (claim_stale env ks c n)" "keeps (\<lambda>b. P (bu_world b)) (send_to_dlq env k i raw c')"
  unfolding publish_event_def publish_batch_def consume_events_def ack_batch_def claim_stale_def send_to_dlq_def
  by (intro keeps_intros)+

lemma world_handle_message:
  "(\<And>raw. keeps (\<lambda>b. P (bu_world b)) (process raw)) \<Longrightarrow> keeps (\<lambda>b. P (bu_world b)) (handle_message env process wk m)"
  unfolding handle_message_def Let_def by (cases m) (auto intro!: keeps_intros)

lemma world_handle_messages:
  "(\<And>raw. keeps (\<lambda>b. P (bu_world b)) (process raw)) \<Longrightarrow> keeps (\<lambda>b. P (bu_world b)) (handle_messages env process wk ms)"
  by (induction env process wk ms rule: handle_messages.induct) (auto intro!: keeps_intros world_handle_message)

lemma world_worker_round:
  "(\<And>raw. keeps (\<lambda>b. P (bu_world b)) (process raw)) \<Longrightarrow> keeps (\<lambda>b. P (bu_world b)) (worker_round env process n wk)"
  unfolding worker_round_def read_round_def by (intro keeps_intros world_handle_messages)

section \<open>Dead letters and archival keep the tables consistent\<close>

definition services_keep :: "(world \<Rightarrow> bool) \<Rightarrow> dlq_services \<Rightarrow> bool" where
  "services_keep I sv \<longleftrightarrow> (\<forall>p. keeps I (dq_list_failed sv p)) \<and> (\<forall>p ids. keeps I (dq_force_resend sv p ids)) \<and>
     (\<forall>u d. keeps I (dq_post_alert sv u d))"

lemma keeps_triage_one [keeps_intros]: "services_keep db_inv sv \<Longrightarrow> keeps db_inv (triage_one env sv ep v)"
  unfolding triage_one_def dead_letter_def send_alert_def Let_def services_keep_def
  by (auto intro!: keeps_intros)

lemma keeps_dlq_poll_once: "services_keep db_inv sv \<Longrightarrow> keeps db_inv (dlq_poll_once env sv)"
  unfolding dlq_poll_once_def process_endpoint_def Let_def endpoints_list_active_def
  by (intro keeps_intros keeps_triage_one) (auto intro!: keeps_intros simp: services_keep_def split: list.split)

definition archive_nonces :: "int \<Rightarrow> nat \<Rightarrow> world \<Rightarrow> world" where
  "archive_nonces cutoff n w = (case archive_old_nonces cutoff n (w_nonces w, w_nonces_archive w) of
     (_, t, a) \<Rightarrow> w\<lparr>w_nonces := t, w_nonces_archive := a\<rparr>)"

lemma db_inv_archive: "db_inv w \<Longrightarrow> db_inv (archive_nonces cutoff n w)"
proof -
  assume w: "db_inv w"
  let ?in = "filter (\<lambda>r. lookup_nonce (w_nonces_archive w) (nr_key r) = None) (take n (filter (archivable cutoff) (w_nonces w)))"
  have "distinct (map nr_key (w_nonces w))" "distinct (map nr_key (w_nonces_archive w))" using w by (simp_all add: db_inv_def)
  moreover have "distinct (map nr_key ?in)"
    using calculation(1) by (intro distinct_map_filter) (simp add: take_map[symmetric] distinct_map_filter)
  moreover have "nr_key ` set ?in \<inter> nr_key ` set (w_nonces_archive w) = {}"
    by (auto simp: lookup_nonce_def find_None_iff)
  ultimately have "distinct (map nr_key (w_nonces_archive w @ ?in))" by auto
  then show ?thesis using w
    by (simp add: archive_nonces_def archive_old_nonces_def Let_def db_inv_def event_ids_def endpoint_ids_def distinct_map_filter)
qed

section \<open>Steps of the service\<close>

definition service_inv :: "bus \<Rightarrow> bool" where
  "service_inv b \<longleftrightarrow> bus_inv b \<and> db_inv (bu_world b)"

definition process_log :: "env \<Rightarrow> bool \<Rightarrow> (string \<Rightarrow> Trigger list) option \<Rightarrow> pydict \<Rightarrow> unit bio" where
  "process_log env unified index raw_log = ebind (in_world (process_event env unified index raw_log)) (\<lambda>_. eret ())"

inductive service_step :: "bus \<Rightarrow> bus \<Rightarrow> bool" where
  publish: "run (publish_event be l) b = (r, b') \<Longrightarrow> service_step b b'"
| publish_many: "run (publish_batch be ls) b = (r, b') \<Longrightarrow> service_step b b'"
| work: "run (worker_round be (process_log env unified index) n wk) b = (r', b') \<Longrightarrow> service_step b b'"
| direct: "run (in_world (process_batch env unified index ls)) b = (r'', b') \<Longrightarrow> service_step b b'"
| fast_path: "run (in_world (process_pre_confirmed_event env t)) b = (r''', b') \<Longrightarrow> service_step b b'"
| poll: "run (in_world (poll_chain env c)) b = (p, b') \<Longrightarrow> service_step b b'"
| sweep: "run (in_world (sweep_once env ttl)) b = (s, b') \<Longrightarrow> service_step b b'"
| triage: "services_keep db_inv sv \<Longrightarrow> run (in_world (dlq_poll_once env sv)) b = (d, b') \<Longrightarrow> service_step b b'"
| archive: "service_step b (b\<lparr>bu_world := archive_nonces cutoff m (bu_world b)\<rparr>)"
| request: "run (in_world (mcp_endpoint env sessions resolver (tool_handlers env rg) rq)) b = (q, b') \<Longrightarrow> service_step b b'"
| nonce: "run (in_world (get_nonce env)) b = (n', b') \<Longrightarrow> service_step b b'"
| session_opened: "run (in_world (open_session env sessions resolver wallet budget seconds chain)) b = (o', b') \<Longrightarrow> service_step b b'"
| session_closed: "run (in_world (close_session env sessions wallet i)) b = (c', b') \<Longrightarrow> service_step b b'"
| restart: "service_step b (restarted discovered b)"

lemma keeps_service:
  "keeps bus_inv m \<Longrightarrow> keeps (\<lambda>b. db_inv (bu_world b)) m \<Longrightarrow> keeps service_inv m"
  unfolding service_inv_def[abs_def] by (rule keeps_conj)

lemma keeps_process_batch [keeps_intros]: "keeps db_inv (process_batch env u idx ls)"
  unfolding process_batch_def by (intro keeps_intros)

lemma service_operations:
  "keeps service_inv (publish_event be l)" "keeps service_inv (publish_batch be ls)"
  "keeps db_inv m \<Longrightarrow> keeps service_inv (in_world m)"
  by (intro keeps_service keeps_intros keeps_in_world; assumption?)+

lemma keeps_session_routes [keeps_intros]:
  "keeps db_inv (get_nonce env)" "keeps db_inv (open_session env sessions resolver wallet budget seconds chain)"
  "keeps db_inv (close_session env sessions wallet i)"
proof -
  have s: "db_inv w \<Longrightarrow> db_inv (w\<lparr>w_sessions := t\<rparr>)" for w t
    using registry_account(2) by (simp add: account_stable_def)
  show "keeps db_inv (get_nonce env)" unfolding get_nonce_def by (intro keeps_intros db_inv_tick_stable db_inv_redis_stable)
  show "keeps db_inv (open_session env sessions resolver wallet budget seconds chain)"
    unfolding open_session_def session_create_def Let_def by (intro keeps_intros db_inv_tick_stable s)
  show "keeps db_inv (close_session env sessions wallet i)"
    unfolding close_session_def owned_session_def session_close_def session_get_def by (intro keeps_intros db_inv_tick_stable s)
qed

lemma keeps_requests [keeps_intros]: "keeps db_inv (mcp_endpoint env sessions resolver (tool_handlers env rg) rq)"
  by (rule keeps_mcp_endpoint[OF integrity.frame.tool_frame_axioms registry_account(2)])

lemma service_work: "keeps service_inv (worker_round be (process_log env u idx) n wk)"
  unfolding process_log_def
  by (intro keeps_service keeps_worker_round world_worker_round keeps_intros keeps_in_world)

lemma service_step_inv: "service_step b b' \<Longrightarrow> service_inv b \<Longrightarrow> service_inv b'"
proof (induction rule: service_step.induct)
  case archive
  then show ?case by (simp add: service_inv_def db_inv_archive)
next
  case restart
  then show ?case by (simp add: service_inv_def bus_inv_def restarted_def init_stream_keys_def)
qed (erule (1) keeps_run[rotated], intro service_operations service_work keeps_intros keeps_dlq_poll_once; assumption)+

end
