(* ===== verification/Rest_Routes.thy ===== *)
theory Rest_Routes
  imports Tool_Props Siwe_Auth Processor
begin

text \<open>
  The HTTP routes over endpoints and subscriptions (\<open>api/routes/endpoints.py\<close>,
  \<open>api/routes/subscriptions.py\<close>) with the request models they validate. A route runs after
  \<open>require_wallet_auth\<close>; the request body is validated next and a violation is answered with 422.
  The routes read raw rows, of which some have no model; \<open>raw_rows\<close> gives the columns of such a
  row that the model does not carry. The rate limiter, the audit log and the times of creation
  and update are left out.
\<close>

section \<open>Requests\<close>

record RegisterEndpointRequest =
  re_url :: string
  re_mode :: EndpointMode
  re_chains :: "int list"
  re_recipient :: string
  re_owner_address :: "string option"
  re_policies :: "EndpointPolicies option"

record UpdateEndpointRequest =
  ue_url :: "string option"
  ue_mode :: "EndpointMode option"
  ue_chains :: "int list option"
  ue_policies :: "EndpointPolicies option"
  ue_active :: "bool option"

text \<open>A validator's \<open>ValueError\<close> is a violation, and every violation is answered with 422.\<close>

definition unprocessable :: exn where "unprocessable = HTTPException 422 []"

definition validation :: "'a result \<Rightarrow> 'a result" where
  "validation r = (case r of
      Inl e \<Rightarrow> Inl (if e = ValueError \<or> e = ValidationError then unprocessable else e)
    | Inr v \<Rightarrow> Inr v)"

definition url_must_be_safe :: "env \<Rightarrow> (string \<Rightarrow> string list result) \<Rightarrow> string \<Rightarrow> string result" where
  "url_must_be_safe env dns url = validate_endpoint_url (st_app_env (en_settings env) = ''development'') dns url"

definition option_ok :: "('a \<Rightarrow> 'b result) \<Rightarrow> 'a option \<Rightarrow> 'b option result" where
  "option_ok f x = (case x of None \<Rightarrow> Inr None | Some v \<Rightarrow> rbind (f v) (\<lambda>u. Inr (Some u)))"

definition mk_RegisterEndpointRequest ::
  "env \<Rightarrow> (string \<Rightarrow> string list result) \<Rightarrow> RegisterEndpointRequest \<Rightarrow> RegisterEndpointRequest result" where
  "mk_RegisterEndpointRequest env dns b =
     rbind (url_must_be_safe env dns (py_strip (re_url b))) (\<lambda>url.
     if re_chains b = [] then Inl ValidationError
     else rbind (EthAddress (re_recipient b)) (\<lambda>recipient.
          rbind (option_ok EthAddress (re_owner_address b)) (\<lambda>owner.
            Inr (b\<lparr>re_url := url, re_recipient := recipient, re_owner_address := owner\<rparr>))))"

definition mk_UpdateEndpointRequest ::
  "env \<Rightarrow> (string \<Rightarrow> string list result) \<Rightarrow> UpdateEndpointRequest \<Rightarrow> UpdateEndpointRequest result" where
  "mk_UpdateEndpointRequest env dns b =
     rbind (option_ok (url_must_be_safe env dns) (ue_url b)) (\<lambda>url. Inr (b\<lparr>ue_url := url\<rparr>))"

section \<open>Raw rows\<close>

datatype raw_endpoint = Valid Endpoint | Invalid InvalidRow

definition find_raw :: "string \<Rightarrow> world \<Rightarrow> raw_endpoint option" where
  "find_raw i w = (case find (\<lambda>e. ep_id e = i) (w_endpoints w) of
      Some e \<Rightarrow> Some (Valid e)
    | None \<Rightarrow> map_option Invalid (find (\<lambda>r. iv_id r = i) (w_invalid_endpoints w)))"

definition raw_owner :: "raw_endpoint \<Rightarrow> string" where
  "raw_owner r = (case r of Valid e \<Rightarrow> ep_owner_address e | Invalid v \<Rightarrow> iv_owner_address v)"

definition raw_active :: "raw_endpoint \<Rightarrow> bool" where
  "raw_active r = (case r of Valid e \<Rightarrow> ep_active e | Invalid v \<Rightarrow> iv_active v)"

text \<open>\<open>Endpoint(**row)\<close>.\<close>

definition raw_model :: "raw_endpoint \<Rightarrow> Endpoint result" where
  "raw_model r = (case r of Valid e \<Rightarrow> Inr e | Invalid _ \<Rightarrow> Inl ValidationError)"

text \<open>
  What the model does not keep of an invalid row: its mode, and the columns of the model that
  can be built after an update, if any.
\<close>

record raw_rows =
  rr_mode :: "InvalidRow \<Rightarrow> string"
  rr_updated :: "InvalidRow \<Rightarrow> UpdateEndpointRequest \<Rightarrow> (EndpointColumns \<times> EndpointPolicies) option"

definition not_found :: "string \<Rightarrow> 'a io" where
  "not_found what = eraise (HTTPException 404 (what @ '' not found''))"

definition verify_ownership :: "raw_endpoint \<Rightarrow> string \<Rightarrow> unit result" where
  "verify_ownership row wallet =
     (if py_lower (raw_owner row) \<noteq> py_lower wallet
      then Inl (HTTPException 403 ''Not authorized to access this endpoint'') else Inr ())"

definition owned_endpoint :: "env \<Rightarrow> string \<Rightarrow> string \<Rightarrow> raw_endpoint io" where
  "owned_endpoint env wallet endpoint_id =
     ebind (query env (find_raw endpoint_id)) (\<lambda>row. case row of
        None \<Rightarrow> not_found ''Endpoint''
      | Some r \<Rightarrow> ebind (elift (verify_ownership r wallet)) (\<lambda>_. eret r))"

text \<open>
  The routes build a cache object of their own, so only the copy in Redis is dropped; the local
  copy belongs to the processor.
\<close>

definition endpoint_cache_key :: "string \<Rightarrow> bool" where
  "endpoint_cache_key k = py_startswith k ''tripwire:cache:endpoints:''"

definition invalidate_endpoint_cache :: "env \<Rightarrow> unit io" where
  "invalidate_endpoint_cache env = ebind tick (\<lambda>n. ewhen (en_redis env n)
     (emodify (\<lambda>w. w\<lparr>w_redis_cache := (\<lambda>k. if endpoint_cache_key k then None else w_redis_cache w k)\<rparr>)))"

section \<open>Endpoints\<close>

definition mode_value :: "EndpointMode \<Rightarrow> string" where
  "mode_value m = (case m of NOTIFY \<Rightarrow> ''notify'' | EXECUTE \<Rightarrow> ''execute'')"

definition map_endpoint :: "string \<Rightarrow> (Endpoint \<Rightarrow> Endpoint) \<Rightarrow> world \<Rightarrow> world" where
  "map_endpoint i f w = w\<lparr>w_endpoints := map (\<lambda>e. if ep_id e = i then f e else e) (w_endpoints w)\<rparr>"

text \<open>What a payment middleware leaves in the request's state.\<close>

type_synonym payment_state = "string option \<times> int option"

definition record_payment :: "env \<Rightarrow> payment_state \<Rightarrow> string \<Rightarrow> Endpoint \<Rightarrow> Endpoint io" where
  "record_payment env pay i endpoint = (case pay of (tx, chain) \<Rightarrow>
     if tx = None \<or> tx = Some [] then eret endpoint
     else (let f = (\<lambda>e. e\<lparr>ep_registration_tx_hash := tx, ep_registration_chain_id := chain\<rparr>) in
       ebind (db_call env) (\<lambda>_. ebind (emodify (map_endpoint i f)) (\<lambda>_. eret (f endpoint)))))"

definition provider_setup :: "env \<Rightarrow> registry \<Rightarrow> string \<Rightarrow> RegisterEndpointRequest \<Rightarrow> Endpoint \<Rightarrow> Endpoint io" where
  "provider_setup env rg i body endpoint =
     ebind (ebind tick (\<lambda>n. elift (rg_create_app rg n i (''tripwire-'' @ i)))) (\<lambda>project.
     ebind (ebind tick (\<lambda>n. eret (en_token env n))) (\<lambda>secret.
     ebind (ebind tick (\<lambda>n. elift (rg_create_endpoint rg n project (re_url body)
       (''TripWire endpoint for '' @ re_recipient body) secret))) (\<lambda>ce.
     ebind (endpoint_set_provider env i project ce) (\<lambda>_.
       eret (endpoint\<lparr>ep_convoy_project_id := Some project, ep_convoy_endpoint_id := Some ce,
         ep_webhook_secret := Some secret\<rparr>)))))"

definition wire_execute :: "env \<Rightarrow> registry \<Rightarrow> string \<Rightarrow> RegisterEndpointRequest \<Rightarrow> Endpoint \<Rightarrow> Endpoint io" where
  "wire_execute env rg i body endpoint =
     (if re_mode body = EXECUTE
      then ecatch (provider_setup env rg i body endpoint) (\<lambda>_.
        ebind (best_effort (endpoint_delete env i)) (\<lambda>_.
          eraise (HTTPException 502 ''Webhook provider setup failed. Endpoint was not created.'')))
      else eret endpoint)"

definition body_columns :: "RegisterEndpointRequest \<Rightarrow> pydict" where
  "body_columns body = [(''url'', PyStr (re_url body)), (''mode'', PyStr (mode_value (re_mode body))),
     (''chains'', py_ints (re_chains body))]"

definition insert_row :: "env \<Rightarrow> registry \<Rightarrow> string \<Rightarrow> string \<Rightarrow> RegisterEndpointRequest \<Rightarrow> Endpoint io" where
  "insert_row env rg i wallet body =
     ebind (ecatch (endpoint_insert env rg i (re_recipient body) wallet
         (case re_policies body of Some p \<Rightarrow> p | None \<Rightarrow> default_policies) (body_columns body))
       (\<lambda>e. eraise (if e = constraint then HTTPException 409 ''Endpoint already exists'' else e))) (\<lambda>row.
     elift (of_option ValidationError row))"

definition rest_register_endpoint ::
  "env \<Rightarrow> registry \<Rightarrow> payment_state \<Rightarrow> string \<Rightarrow> RegisterEndpointRequest \<Rightarrow> Endpoint io" where
  "rest_register_endpoint env rg pay wallet body =
     ebind (check_endpoint_quota env wallet) (\<lambda>_.
     ebind (now env) (\<lambda>_.
     ebind (uuid4 env) (\<lambda>i.
     ebind (insert_row env rg i wallet body) (\<lambda>e0.
     ebind (record_payment env pay i e0) (\<lambda>e1.
     ebind (wire_execute env rg i body e1) (\<lambda>e2.
     ebind (invalidate_endpoint_cache env) (\<lambda>_. eret e2)))))))"

definition rest_list_endpoints :: "env \<Rightarrow> string \<Rightarrow> Endpoint list io" where
  "rest_list_endpoints env wallet =
     query_valid env (\<lambda>w. filter (\<lambda>r. iv_active r \<and> iv_owner_address r = wallet) (w_invalid_endpoints w))
       (\<lambda>w. filter (\<lambda>e. ep_active e \<and> ep_owner_address e = wallet) (w_endpoints w))"

definition rest_get_endpoint :: "env \<Rightarrow> string \<Rightarrow> string \<Rightarrow> Endpoint io" where
  "rest_get_endpoint env wallet endpoint_id =
     ebind (owned_endpoint env wallet endpoint_id) (\<lambda>r. elift (raw_model r))"

definition no_updates :: "UpdateEndpointRequest \<Rightarrow> bool" where
  "no_updates u = (ue_url u = None \<and> ue_mode u = None \<and> ue_chains u = None \<and> ue_policies u = None \<and> ue_active u = None)"

definition given_or :: "'a option \<Rightarrow> 'a \<Rightarrow> 'a" where
  "given_or x d = (case x of Some v \<Rightarrow> v | None \<Rightarrow> d)"

definition apply_updates :: "UpdateEndpointRequest \<Rightarrow> Endpoint \<Rightarrow> Endpoint" where
  "apply_updates u e = e\<lparr>ep_url := given_or (ue_url u) (ep_url e), ep_mode := given_or (ue_mode u) (ep_mode e),
     ep_chains := given_or (ue_chains u) (ep_chains e), ep_policies := given_or (ue_policies u) (ep_policies e),
     ep_active := given_or (ue_active u) (ep_active e)\<rparr>"

text \<open>An invalid row keeps its key columns; it may turn into one that has a model.\<close>

definition update_invalid :: "raw_rows \<Rightarrow> UpdateEndpointRequest \<Rightarrow> InvalidRow \<Rightarrow> Endpoint + InvalidRow" where
  "update_invalid rr u r = (let act = given_or (ue_active u) (iv_active r) in
     case rr_updated rr r u of
       None \<Rightarrow> Inr (r\<lparr>iv_active := act\<rparr>)
     | Some (c, po) \<Rightarrow> Inl \<lparr>ep_id = iv_id r, ep_url = ec_url c, ep_mode = ec_mode c, ep_chains = ec_chains c,
         ep_recipient = iv_key r, ep_owner_address = iv_owner_address r, ep_registration_tx_hash = None,
         ep_registration_chain_id = None, ep_policies = po, ep_active = act, ep_convoy_project_id = None,
         ep_convoy_endpoint_id = None, ep_webhook_secret = None\<rparr>)"

definition update_rows :: "raw_rows \<Rightarrow> string \<Rightarrow> UpdateEndpointRequest \<Rightarrow> world \<Rightarrow> world" where
  "update_rows rr i u w = (case find (\<lambda>r. iv_id r = i) (w_invalid_endpoints w) of
      None \<Rightarrow> map_endpoint i (apply_updates u) w
    | Some r \<Rightarrow> (case update_invalid rr u r of
        Inl e \<Rightarrow> w\<lparr>w_endpoints := w_endpoints w @ [e],
                   w_invalid_endpoints := filter (\<lambda>r. iv_id r \<noteq> i) (w_invalid_endpoints w)\<rparr>
      | Inr r' \<Rightarrow> w\<lparr>w_invalid_endpoints := map (\<lambda>r. if iv_id r = i then r' else r) (w_invalid_endpoints w)\<rparr>))"

definition rest_update_endpoint ::
  "env \<Rightarrow> raw_rows \<Rightarrow> string \<Rightarrow> string \<Rightarrow> UpdateEndpointRequest \<Rightarrow> Endpoint io" where
  "rest_update_endpoint env rr wallet endpoint_id u =
     ebind (owned_endpoint env wallet endpoint_id) (\<lambda>_.
     if no_updates u then eraise (HTTPException 400 ''No fields to update'')
     else
       ebind (now env) (\<lambda>_.
       ebind (db_call env) (\<lambda>_.
       ebind (emodify (update_rows rr endpoint_id u)) (\<lambda>_.
       ebind (egets (find_raw endpoint_id)) (\<lambda>row.
       ebind (invalidate_endpoint_cache env) (\<lambda>_.
       ebind (elift (of_option IndexError row)) (\<lambda>r. elift (raw_model r))))))))"

definition deactivate_rows :: "string \<Rightarrow> world \<Rightarrow> world" where
  "deactivate_rows i w = w\<lparr>
     w_endpoints := map (\<lambda>e. if ep_id e = i then e\<lparr>ep_active := False\<rparr> else e) (w_endpoints w),
     w_invalid_endpoints := map (\<lambda>r. if iv_id r = i then r\<lparr>iv_active := False\<rparr> else r) (w_invalid_endpoints w)\<rparr>"

definition rest_deactivate_endpoint :: "env \<Rightarrow> string \<Rightarrow> string \<Rightarrow> unit io" where
  "rest_deactivate_endpoint env wallet endpoint_id =
     ebind (owned_endpoint env wallet endpoint_id) (\<lambda>_.
     ebind (now env) (\<lambda>_.
     ebind (db_call env) (\<lambda>_.
     ebind (emodify (deactivate_rows endpoint_id)) (\<lambda>_.
       invalidate_endpoint_cache env))))"

section \<open>Subscriptions\<close>

definition raw_mode :: "raw_rows \<Rightarrow> raw_endpoint \<Rightarrow> string" where
  "raw_mode rr r = (case r of Valid e \<Rightarrow> mode_value (ep_mode e) | Invalid v \<Rightarrow> rr_mode rr v)"

definition find_active :: "string \<Rightarrow> world \<Rightarrow> raw_endpoint option" where
  "find_active i w = (case find_raw i w of Some r \<Rightarrow> if raw_active r then Some r else None | None \<Rightarrow> None)"

definition insert_subscription :: "env \<Rightarrow> Subscription \<Rightarrow> unit io" where
  "insert_subscription env s = ebind (db_call env) (\<lambda>_.
     ebind (egets (\<lambda>w. (sub_endpoint_id s \<in> set (endpoint_ids w), sub_id s \<in> set (map sub_id (w_subscriptions w))))) (\<lambda>(parent, taken).
     if taken then eraise (HTTPException 409 ''Subscription already exists'')
     else if \<not> parent then eraise (ExternalError ''foreign key'')
     else emodify (\<lambda>w. w\<lparr>w_subscriptions := w_subscriptions w @ [s]\<rparr>)))"

definition rest_create_subscription ::
  "env \<Rightarrow> raw_rows \<Rightarrow> string \<Rightarrow> string \<Rightarrow> SubscriptionFilter \<Rightarrow> Subscription io" where
  "rest_create_subscription env rr wallet endpoint_id filters =
     ebind (query env (find_active endpoint_id)) (\<lambda>ep. case ep of
        None \<Rightarrow> not_found ''Endpoint''
      | Some r \<Rightarrow>
          ebind (elift (verify_ownership r wallet)) (\<lambda>_.
          if raw_mode rr r \<noteq> ''notify''
          then eraise (HTTPException 400 ''Subscriptions are only for notify-mode endpoints'')
          else
            ebind (now env) (\<lambda>_.
            ebind (uuid4 env) (\<lambda>i.
            (let s = \<lparr>sub_id = i, sub_endpoint_id = endpoint_id, sub_filters = filters, sub_active = True\<rparr> in
             ebind (insert_subscription env s) (\<lambda>_. eret s))))))"

definition rest_list_subscriptions :: "env \<Rightarrow> string \<Rightarrow> string \<Rightarrow> Subscription list io" where
  "rest_list_subscriptions env wallet endpoint_id =
     ebind (owned_endpoint env wallet endpoint_id) (\<lambda>_.
       query env (\<lambda>w. filter (\<lambda>s. sub_endpoint_id s = endpoint_id \<and> sub_active s) (w_subscriptions w)))"

definition rest_remove_subscription :: "env \<Rightarrow> string \<Rightarrow> string \<Rightarrow> unit io" where
  "rest_remove_subscription env wallet subscription_id =
     ebind (query env (\<lambda>w. find (\<lambda>s. sub_id s = subscription_id) (w_subscriptions w))) (\<lambda>existing. case existing of
        None \<Rightarrow> not_found ''Subscription''
      | Some s \<Rightarrow>
          ebind (query env (find_raw (sub_endpoint_id s))) (\<lambda>ep. case ep of
             None \<Rightarrow> not_found ''Parent endpoint''
           | Some r \<Rightarrow>
               ebind (elift (verify_ownership r wallet)) (\<lambda>_.
               ebind (db_call env) (\<lambda>_.
                 emodify (\<lambda>w. w\<lparr>w_subscriptions := map (\<lambda>s. if sub_id s = subscription_id
                   then s\<lparr>sub_active := False\<rparr> else s) (w_subscriptions w)\<rparr>)))))"

section \<open>The routes\<close>

datatype rest_call =
    Register_endpoint payment_state RegisterEndpointRequest
  | List_endpoints
  | Get_endpoint string
  | Update_endpoint string UpdateEndpointRequest
  | Deactivate_endpoint string
  | Create_subscription string SubscriptionFilter
  | List_subscriptions string
  | Remove_subscription string

datatype rest_answer = An_endpoint Endpoint | Endpoints "Endpoint list" | A_subscription Subscription
  | Subscriptions "Subscription list" | No_content

definition rest_handler :: "env \<Rightarrow> registry \<Rightarrow> raw_rows \<Rightarrow> string \<Rightarrow> rest_call \<Rightarrow> rest_answer io" where
  "rest_handler env rg rr wallet call = (case call of
      Register_endpoint pay b \<Rightarrow>
        ebind (ebind tick (\<lambda>n. elift (validation (mk_RegisterEndpointRequest env (rg_getaddrinfo rg n) b)))) (\<lambda>body.
        ebind (rest_register_endpoint env rg pay wallet body) (\<lambda>e. eret (An_endpoint e)))
    | List_endpoints \<Rightarrow> ebind (rest_list_endpoints env wallet) (\<lambda>es. eret (Endpoints es))
    | Get_endpoint i \<Rightarrow> ebind (rest_get_endpoint env wallet i) (\<lambda>e. eret (An_endpoint e))
    | Update_endpoint i b \<Rightarrow>
        ebind (ebind tick (\<lambda>n. elift (validation (mk_UpdateEndpointRequest env (rg_getaddrinfo rg n) b)))) (\<lambda>u.
        ebind (rest_update_endpoint env rr wallet i u) (\<lambda>e. eret (An_endpoint e)))
    | Deactivate_endpoint i \<Rightarrow> ebind (rest_deactivate_endpoint env wallet i) (\<lambda>_. eret No_content)
    | Create_subscription i f \<Rightarrow> ebind (rest_create_subscription env rr wallet i f) (\<lambda>s. eret (A_subscription s))
    | List_subscriptions i \<Rightarrow> ebind (rest_list_subscriptions env wallet i) (\<lambda>ss. eret (Subscriptions ss))
    | Remove_subscription i \<Rightarrow> ebind (rest_remove_subscription env wallet i) (\<lambda>_. eret No_content))"

definition serve_rest :: "env \<Rightarrow> registry \<Rightarrow> raw_rows \<Rightarrow> Request \<Rightarrow> rest_call \<Rightarrow> rest_answer io" where
  "serve_rest env rg rr rq call = ebind (require_wallet_auth env rq) (\<lambda>wallet. rest_handler env rg rr wallet call)"

end
