(* ===== verification/Rest_Props.thy ===== *)
theory Rest_Props
  imports Rest_Routes
begin

text \<open>
  What the HTTP routes over endpoints and subscriptions keep and what they do with addresses:
  every route leaves the rows of other wallets alone and the tables consistent; the webhook
  secret is never stored; addresses are stored as received while quotas and payments look for
  lower-case ones.
\<close>

section \<open>Owners\<close>

definition owner_of :: "world \<Rightarrow> string \<Rightarrow> string option" where
  "owner_of w i = map_option (\<lambda>r. py_lower (raw_owner r)) (find_raw i w)"

text \<open>The subscriptions to endpoints of other wallets.\<close>

definition foreign_subs :: "string \<Rightarrow> world \<Rightarrow> Subscription list" where
  "foreign_subs a w = filter (\<lambda>s. owner_of w (sub_endpoint_id s) \<noteq> Some a) (w_subscriptions w)"

definition rest_inv :: "world \<Rightarrow> bool" where
  "rest_inv w \<longleftrightarrow> registry_inv w \<and> distinct (map sub_id (w_subscriptions w))"

definition untouched :: "string \<Rightarrow> world \<Rightarrow> world \<Rightarrow> bool" where
  "untouched a v w \<longleftrightarrow> foreign a w = foreign a v \<and> foreign_subs a w = foreign_subs a v \<and> rest_inv w"

lemma owner_of_simps [simp]:
  "owner_of (w\<lparr>w_tick := n\<rparr>) i = owner_of w i" "owner_of (w\<lparr>w_redis_cache := c\<rparr>) i = owner_of w i"
  "owner_of (w\<lparr>w_subscriptions := ss\<rparr>) i = owner_of w i" "owner_of (w\<lparr>w_redis := rs\<rparr>) i = owner_of w i"
  by (simp_all add: owner_of_def find_raw_def cong: option.case_cong)

lemma find_key: "find (\<lambda>x. f x = i) xs = map_of (map (\<lambda>x. (f x, x)) xs) i"
  by (induction xs) auto

text \<open>With unique ids the owner is that of any row with the id.\<close>

lemma owner_of_valid:
  assumes "registry_inv w" and "e \<in> set (w_endpoints w)"
  shows "owner_of w (ep_id e) = Some (py_lower (ep_owner_address e))"
proof -
  have "distinct (map ep_id (w_endpoints w))" using assms(1) by (simp add: registry_defs)
  then have "find (\<lambda>x. ep_id x = ep_id e) (w_endpoints w) = Some e"
    using assms(2) by (simp add: find_key comp_def)
  then show ?thesis by (simp add: owner_of_def find_raw_def raw_owner_def)
qed

lemma owner_of_invalid:
  assumes "registry_inv w" and "r \<in> set (w_invalid_endpoints w)"
  shows "owner_of w (iv_id r) = Some (py_lower (iv_owner_address r))"
proof -
  have "distinct (map iv_id (w_invalid_endpoints w))" and d: "\<And>e. e \<in> set (w_endpoints w) \<Longrightarrow> ep_id e \<noteq> iv_id r"
    using assms by (fastforce simp: registry_defs)+
  then have "find (\<lambda>x. iv_id x = iv_id r) (w_invalid_endpoints w) = Some r" "find (\<lambda>x. ep_id x = iv_id r) (w_endpoints w) = None"
    using assms(2) by (simp add: find_key comp_def, simp add: find_None_iff d)
  then show ?thesis by (simp add: owner_of_def find_raw_def raw_owner_def)
qed

lemma owner_of_None: "owner_of w i = None \<longleftrightarrow> i \<notin> set (endpoint_ids w)"
  by (auto simp: owner_of_def find_raw_def endpoint_ids_def find_None_iff find_Some_iff split: option.split)

lemma owner_of_eqI:
  assumes "registry_inv w"
    and "\<And>e. e \<in> set (w_endpoints w) \<Longrightarrow> ep_id e = i \<Longrightarrow> owner_of v i = Some (py_lower (ep_owner_address e))"
    and "\<And>r. r \<in> set (w_invalid_endpoints w) \<Longrightarrow> iv_id r = i \<Longrightarrow> owner_of v i = Some (py_lower (iv_owner_address r))"
    and "i \<notin> set (endpoint_ids w) \<Longrightarrow> i \<notin> set (endpoint_ids v)"
  shows "owner_of v i = owner_of w i"
proof (cases "i \<in> set (endpoint_ids w)")
  case True
  then consider e where "e \<in> set (w_endpoints w)" "ep_id e = i" | r where "r \<in> set (w_invalid_endpoints w)" "iv_id r = i"
    by (auto simp: endpoint_ids_def)
  then show ?thesis using assms(2,3) owner_of_valid[OF assms(1)] owner_of_invalid[OF assms(1)] by cases auto
next
  case False
  then show ?thesis using assms(4) by (simp add: owner_of_None[THEN iffD2])
qed

section \<open>Writes to rows of the caller\<close>

lemma untouched_stable [simp]: "registry_stable (untouched a v)"
  by (simp add: registry_stable_def tick_stable_def untouched_def foreign_def foreign_subs_def owner_of_def find_raw_def
      rest_inv_def registry_defs cong: option.case_cong)

lemma untouched_tick [simp]: "tick_stable (untouched a v)"
  by (rule registry_stable_tick) simp

lemma untouched_refl: "rest_inv w \<Longrightarrow> untouched a w w"
  by (simp add: untouched_def)

text \<open>A change of endpoint rows that keeps every id and owner and every row of others.\<close>

lemma untouched_rows:
  assumes w: "untouched a v w" and w': "w' = w\<lparr>w_endpoints := es, w_invalid_endpoints := rs\<rparr>"
    and f: "filter (\<lambda>e. py_lower (ep_owner_address e) \<noteq> a) es = filter (\<lambda>e. py_lower (ep_owner_address e) \<noteq> a) (w_endpoints w)"
      "filter (\<lambda>r. py_lower (iv_owner_address r) \<noteq> a) rs = filter (\<lambda>r. py_lower (iv_owner_address r) \<noteq> a) (w_invalid_endpoints w)"
    and ids: "distinct (endpoint_ids w')" "set (endpoint_ids w') = set (endpoint_ids w)"
    and own: "\<And>i. owner_of w' i = owner_of w i"
  shows "untouched a v w'"
proof -
  have "foreign a w' = foreign a w" "foreign_subs a w' = foreign_subs a w"
    using f own by (simp_all add: foreign_def foreign_subs_def w')
  moreover have "rest_inv w'" using w ids by (simp add: untouched_def rest_inv_def registry_inv_def trigger_ids_def w')
  ultimately show ?thesis using w by (simp add: untouched_def)
qed

lemma mine_rows:
  assumes "untouched a v w" and "owner_of w i = Some a"
  shows "e \<in> set (w_endpoints w) \<Longrightarrow> ep_id e = i \<Longrightarrow> py_lower (ep_owner_address e) = a"
    and "r \<in> set (w_invalid_endpoints w) \<Longrightarrow> iv_id r = i \<Longrightarrow> py_lower (iv_owner_address r) = a"
  using assms owner_of_valid owner_of_invalid by (fastforce simp: untouched_def rest_inv_def)+

lemma find_map_keep:
  "(\<And>x. c x \<Longrightarrow> k (f x) = k x) \<Longrightarrow> find (\<lambda>x. k x = j) (map (\<lambda>x. if c x then f x else x) xs) =
    map_option (\<lambda>x. if c x then f x else x) (find (\<lambda>x. k x = j) xs)"
  by (induction xs) auto

lemma untouched_map:
  assumes w: "untouched a v w" and i: "owner_of w i = Some a"
    and f: "\<And>e. ep_id (f e) = ep_id e \<and> ep_owner_address (f e) = ep_owner_address e"
    and g: "\<And>r. iv_id (g r) = iv_id r \<and> iv_owner_address (g r) = iv_owner_address r"
    and w': "w' = w\<lparr>w_endpoints := map (\<lambda>e. if ep_id e = i then f e else e) (w_endpoints w),
        w_invalid_endpoints := map (\<lambda>r. if iv_id r = i then g r else r) (w_invalid_endpoints w)\<rparr>"
  shows "untouched a v w' \<and> owner_of w' i = Some a"
proof -
  have own: "owner_of w' j = owner_of w j" for j
    using f g by (auto simp: owner_of_def find_raw_def w' find_map_keep raw_owner_def option.map_comp comp_def split: option.split intro!: option.map_cong)
  have ids: "endpoint_ids w' = endpoint_ids w"
    using f g by (auto simp: endpoint_ids_def w' intro!: map_cong)
  have "untouched a v w'"
    by (rule untouched_rows[OF w w'])
       (use mine_rows[OF w i] f g ids own w in \<open>auto intro!: filter_map_inside simp: untouched_def rest_inv_def registry_inv_def\<close>)
  then show ?thesis using own i by simp
qed

lemma map_id_if: "map (\<lambda>x. if c x then x else x) xs = xs"
  by (induction xs) auto

lemma untouched_map_endpoint:
  assumes "untouched a v w" and "owner_of w i = Some a"
    and "\<And>e. ep_id (f e) = ep_id e \<and> ep_owner_address (f e) = ep_owner_address e"
  shows "untouched a v (map_endpoint i f w) \<and> owner_of (map_endpoint i f w) i = Some a"
  by (rule untouched_map[OF assms, of "\<lambda>r. r"]) (simp_all add: map_endpoint_def map_id_if)

lemma untouched_deactivate:
  "untouched a v w \<Longrightarrow> owner_of w i = Some a \<Longrightarrow> untouched a v (deactivate_rows i w)"
  by (rule untouched_map[THEN conjunct1, of a v w i "\<lambda>e. e\<lparr>ep_active := False\<rparr>" "\<lambda>r. r\<lparr>iv_active := False\<rparr>"])
     (simp_all add: deactivate_rows_def)

lemma untouched_update:
  assumes w: "untouched a v w" and i: "owner_of w i = Some a"
  shows "untouched a v (update_rows rr i u w)"
proof (cases "find (\<lambda>r. iv_id r = i) (w_invalid_endpoints w)")
  case None
  then show ?thesis
    using untouched_map_endpoint[OF w i, of "apply_updates u"] by (simp add: update_rows_def apply_updates_def)
next
  case (Some r)
  then have r: "r \<in> set (w_invalid_endpoints w)" "iv_id r = i" by (auto simp: find_Some_iff)
  have inv: "registry_inv w" using w by (simp add: untouched_def rest_inv_def)
  have ra: "py_lower (iv_owner_address r) = a" using mine_rows(2)[OF w i r] .
  have uniq: "s = r" if "s \<in> set (w_invalid_endpoints w)" "iv_id s = i" for s
    using inv that r by (auto simp: registry_defs distinct_map dest: inj_onD)
  have nov: "e \<in> set (w_endpoints w) \<Longrightarrow> ep_id e \<noteq> i" for e
    using inv r by (fastforce simp: registry_defs)
  show ?thesis
  proof (cases "update_invalid rr u r")
    case (Inr r')
    have r': "r' = r\<lparr>iv_active := iv_active r'\<rparr>" using Inr by (auto simp: update_invalid_def Let_def split: option.splits prod.splits)
    have m: "map (\<lambda>s. if iv_id s = i then r' else s) (w_invalid_endpoints w) =
        map (\<lambda>s. if iv_id s = i then s\<lparr>iv_active := iv_active r'\<rparr> else s) (w_invalid_endpoints w)"
      using uniq r' by (intro map_cong) auto
    have "untouched a v (w\<lparr>w_endpoints := map (\<lambda>e. if ep_id e = i then e else e) (w_endpoints w),
        w_invalid_endpoints := map (\<lambda>s. if iv_id s = i then s\<lparr>iv_active := iv_active r'\<rparr> else s) (w_invalid_endpoints w)\<rparr>)"
      by (rule untouched_map[THEN conjunct1, OF w i _ _ refl]) simp_all
    then show ?thesis using Some Inr by (simp add: update_rows_def m map_id_if)
  next
    case (Inl e)
    then have e: "ep_id e = i" "py_lower (ep_owner_address e) = a"
      using r ra by (auto simp: update_invalid_def Let_def split: option.splits prod.splits)
    let ?w = "w\<lparr>w_endpoints := w_endpoints w @ [e], w_invalid_endpoints := filter (\<lambda>r. iv_id r \<noteq> i) (w_invalid_endpoints w)\<rparr>"
    have ids: "distinct (endpoint_ids ?w)" "set (endpoint_ids ?w) = set (endpoint_ids w)"
    proof -
      have "i \<in> iv_id ` set (w_invalid_endpoints w)" "i \<notin> ep_id ` set (w_endpoints w)" using r nov by blast+
      then show "distinct (endpoint_ids ?w)" "set (endpoint_ids ?w) = set (endpoint_ids w)"
        using inv e by (auto simp: registry_inv_def endpoint_ids_def distinct_map_filter)
    qed
    have inv': "registry_inv ?w" using inv ids by (simp add: registry_inv_def trigger_ids_def)
    have own: "owner_of ?w j = owner_of w j" for j
    proof (rule owner_of_eqI[OF inv])
      fix s assume "s \<in> set (w_invalid_endpoints w)" "iv_id s = j"
      then show "owner_of ?w j = Some (py_lower (iv_owner_address s))"
        using owner_of_valid[OF inv', of e] owner_of_invalid[OF inv', of s] e uniq ra by (cases "j = i") auto
    next
      fix x assume "x \<in> set (w_endpoints w)" "ep_id x = j"
      then show "owner_of ?w j = Some (py_lower (ep_owner_address x))" using owner_of_valid[OF inv', of x] by simp
    qed (use ids in blast)
    have "untouched a v ?w"
      by (rule untouched_rows[OF w refl _ _ ids own]) (use e mine_rows(2)[OF w i] in \<open>auto simp: filter_filter intro!: filter_cong\<close>)
    then show ?thesis using Some Inl by (simp add: update_rows_def)
  qed
qed

section \<open>Registration\<close>

text \<open>The new endpoint and all that refers to it belong to the caller.\<close>

definition held :: "string \<Rightarrow> string \<Rightarrow> world \<Rightarrow> world \<Rightarrow> bool" where
  "held a i v w \<longleftrightarrow> untouched a v w \<and> owner_of w i = Some a \<and> mine a i w"

lemma held_tick [simp]: "tick_stable (held a i v)"
  using untouched_tick[of a v] by (simp add: tick_stable_def held_def mine_def)

lemma heldD: "held a i v w \<Longrightarrow> untouched a v w"
  by (simp add: held_def)

lemma foreign_subs_eqI:
  assumes "w_subscriptions w' = w_subscriptions w"
    and "\<And>s. s \<in> set (w_subscriptions w) \<Longrightarrow> owner_of w' (sub_endpoint_id s) = owner_of w (sub_endpoint_id s)"
  shows "foreign_subs a w' = foreign_subs a w"
  using assms by (auto simp: foreign_subs_def intro: filter_cong)

lemma owner_of_superset:
  assumes "registry_inv w" and "registry_inv w'" and "set (w_endpoints w) \<subseteq> set (w_endpoints w')"
    and "set (w_invalid_endpoints w) \<subseteq> set (w_invalid_endpoints w')" and "j \<in> set (endpoint_ids w)"
  shows "owner_of w' j = owner_of w j"
  by (rule owner_of_eqI[OF assms(1)])
     (use assms(3,4,5) owner_of_valid[OF assms(2)] owner_of_invalid[OF assms(2)] in blast)+

lemma subs_parent: "rest_inv w \<Longrightarrow> s \<in> set (w_subscriptions w) \<Longrightarrow> sub_endpoint_id s \<in> set (endpoint_ids w)"
  by (simp add: rest_inv_def registry_inv_def)

lemma held_added:
  assumes w: "untouched a v w" and w': "registry_inv w'" "foreign a w' = foreign a w" "mine a i w'" "owner_of w' i = Some a"
    and sup: "set (w_endpoints w) \<subseteq> set (w_endpoints w')" "set (w_invalid_endpoints w) \<subseteq> set (w_invalid_endpoints w')"
      "w_subscriptions w' = w_subscriptions w"
  shows "held a i v w'"
proof -
  have inv: "registry_inv w" "rest_inv w" using w by (simp_all add: untouched_def rest_inv_def)
  have "foreign_subs a w' = foreign_subs a w"
    by (rule foreign_subs_eqI[OF sup(3)]) (rule owner_of_superset[OF inv(1) w'(1) sup(1,2) subs_parent[OF inv(2)]])
  then show ?thesis using w w' sup(3) by (simp add: held_def untouched_def rest_inv_def)
qed

lemma held_add:
  assumes w: "untouched a v w" and i: "i \<notin> set (endpoint_ids w)"
  shows "ep_id e = i \<Longrightarrow> py_lower (ep_owner_address e) = a \<Longrightarrow> held a i v (add_endpoint e w)"
    and "iv_id r = i \<Longrightarrow> py_lower (iv_owner_address r) = a \<Longrightarrow> held a i v (add_invalid_endpoint r w)"
proof -
  have inv: "registry_inv w" using w by (simp add: untouched_def rest_inv_def)
  note m = mine_fresh[OF inv i]
  show "held a i v (add_endpoint e w)" if "ep_id e = i" "py_lower (ep_owner_address e) = a"
  proof (rule held_added[OF w])
    show reg: "registry_inv (add_endpoint e w)" using registry_inv_steps(3)[OF inv] that i by simp
    show "owner_of (add_endpoint e w) i = Some a" using owner_of_valid[OF reg, of e] that by (simp add: add_endpoint_def)
  qed (use that m in \<open>simp_all\<close>, auto simp: add_endpoint_def)
  show "held a i v (add_invalid_endpoint r w)" if "iv_id r = i" "py_lower (iv_owner_address r) = a"
  proof (rule held_added[OF w])
    show reg: "registry_inv (add_invalid_endpoint r w)" using registry_inv_steps(4)[OF inv] that i by simp
    show "owner_of (add_invalid_endpoint r w) i = Some a" using owner_of_invalid[OF reg, of r] that by (simp add: add_invalid_endpoint_def)
  qed (use that m in \<open>simp_all\<close>, auto simp: add_invalid_endpoint_def)
qed

lemma held_map_endpoint:
  assumes "held a i v w" and "\<And>e. ep_id (f e) = ep_id e \<and> ep_owner_address (f e) = ep_owner_address e"
  shows "held a i v (map_endpoint i f w)"
proof -
  have "mine a i (map_endpoint i f w)"
    using assms unfolding held_def mine_def map_endpoint_def by (simp add: ball_Un)
  then show ?thesis using assms untouched_map_endpoint[of a v w i f] by (simp add: held_def)
qed

lemma find_filter_other: "(\<And>x. k x = j \<Longrightarrow> p x) \<Longrightarrow> find (\<lambda>x. k x = j) (filter p xs) = find (\<lambda>x. k x = j) xs"
  by (induction xs) auto

lemma untouched_remove: "held a i v w \<Longrightarrow> untouched a v (remove_endpoint i w)"
proof -
  assume h: "held a i v w"
  then have w: "registry_inv w" "distinct (map sub_id (w_subscriptions w))" "owner_of w i = Some a"
    by (simp_all add: held_def untouched_def rest_inv_def)
  have own: "owner_of (remove_endpoint i w) j = owner_of w j" if "j \<noteq> i" for j
    using that by (simp add: owner_of_def find_raw_def remove_endpoint_def find_filter_other cong: option.case_cong)
  have "foreign_subs a (remove_endpoint i w) = foreign_subs a w"
  proof -
    have subs: "w_subscriptions (remove_endpoint i w) = filter (\<lambda>s. sub_endpoint_id s \<noteq> i) (w_subscriptions w)"
      by (simp add: remove_endpoint_def)
    show ?thesis unfolding foreign_subs_def subs filter_filter
    proof (rule filter_cong[OF refl])
      fix s
      show "(sub_endpoint_id s \<noteq> i \<and> owner_of (remove_endpoint i w) (sub_endpoint_id s) \<noteq> Some a) =
          (owner_of w (sub_endpoint_id s) \<noteq> Some a)"
        using own w(3) by (cases "sub_endpoint_id s = i") simp_all
    qed
  qed
  moreover have "foreign a (remove_endpoint i w) = foreign a v"
    using apart_remove[of a i v w] h by (simp add: apart_def held_def untouched_def)
  moreover have "distinct (map sub_id (w_subscriptions (remove_endpoint i w)))"
    using w(2) by (simp add: remove_endpoint_def distinct_map_filter)
  ultimately show ?thesis using h registry_inv_remove[OF w(1)] by (simp add: held_def untouched_def rest_inv_def)
qed

lemma triple_ecatch:
  assumes "triple P m Q E'" and "\<And>e. triple E' (h e) Q E"
  shows "triple P (ecatch m h) Q E"
  unfolding triple_def
proof (intro allI impI)
  fix w assume "P w"
  obtain r w' where r: "run m w = (r, w')" by fastforce
  show "case run (ecatch m h) w of (Inr v, w') \<Rightarrow> Q v w' | (Inl _, w') \<Rightarrow> E w'"
    using \<open>P w\<close> r tripleD[OF assms(1)] assms(2)[unfolded triple_def] by (cases r) auto
qed

lemma held_insert_row:
  assumes "py_lower wallet = a"
  shows "triple (untouched a v) (insert_row env rg i wallet body) (\<lambda>_. held a i v) (untouched a v)"
proof -
  have ins: "triple (untouched a v) (endpoint_insert env rg i rc wallet po cols) (\<lambda>_. held a i v) (untouched a v)" for rc po cols
    by (intro triple_endpoint_insert) (simp_all add: held_add assms)
  show ?thesis unfolding insert_row_def
    by (rule triple_ebind[OF triple_ecatch[OF ins]])
       (auto intro!: triple_eraise triple_keeps keeps_intros triple_conseq[OF triple_keeps[OF keeps_basic(4)]] heldD)
qed

lemma keeps_held [keeps_intros]:
  "keeps (held a i v) (record_payment env pay i e)" "keeps (held a i v) (provider_setup env rg i body e)"
  unfolding record_payment_def provider_setup_def endpoint_set_provider_def map_endpoint_def[symmetric] Let_def
  by (intro keeps_intros held_map_endpoint; simp)+

lemma held_wire_execute:
  "triple (held a i v) (wire_execute env rg i body e) (\<lambda>_. untouched a v) (untouched a v)"
proof -
  have del: "triple (held a i v) (best_effort (endpoint_delete env i)) (\<lambda>_. untouched a v) (untouched a v)"
  proof (rule triple_snd)
    fix w assume h: "held a i v w"
    then have t: "held a i v (w\<lparr>w_tick := n\<rparr>)" for n using held_tick[of a i v] unfolding tick_stable_def by blast
    show "untouched a v (snd (run (best_effort (endpoint_delete env i)) w))"
      using heldD[OF t] untouched_remove[OF t]
      by (auto simp: best_effort_def endpoint_delete_def case_prod_beta split: option.splits)
  qed
  show ?thesis unfolding wire_execute_def
    apply (rule triple_if)
     apply (rule triple_ecatch[where E' = "held a i v"])
      apply (rule triple_conseq[OF triple_keeps[OF keeps_held(2)]], assumption+, erule heldD, assumption)
     apply (rule triple_ebind[OF del], rule triple_eraise, assumption)
    apply (rule triple_eret, erule heldD)
    done
qed

lemma untouched_cache [keeps_intros]: "keeps (untouched a v) (invalidate_endpoint_cache env)"
proof -
  have "untouched a v w \<Longrightarrow> untouched a v (w\<lparr>w_redis_cache := c\<rparr>)" for w c
    by (simp add: untouched_def foreign_def foreign_subs_def rest_inv_def registry_defs)
  then show ?thesis unfolding invalidate_endpoint_cache_def by (intro keeps_intros) simp_all
qed

lemma untouched_register:
  assumes "py_lower wallet = a"
  shows "triple (untouched a v) (rest_register_endpoint env rg pay wallet body) (\<lambda>_. untouched a v) (untouched a v)"
  unfolding rest_register_endpoint_def
  apply (rule triple_step, intro keeps_intros untouched_tick, assumption)
  apply (rule triple_step, intro keeps_intros untouched_tick, assumption)
  apply (rule triple_step, intro keeps_intros untouched_tick, assumption)
  apply (rule triple_ebind[OF held_insert_row[OF assms]])
  apply (rule triple_step[OF keeps_held(1)], erule heldD)
  apply (rule triple_ebind[OF held_wire_execute])
  apply (rule triple_step[OF untouched_cache], assumption, rule triple_eret, assumption)
  done

section \<open>The other routes\<close>

lemma query_post:
  assumes "tick_stable P"
  shows "triple P (query env f) (\<lambda>v w. P w \<and> (\<exists>n. v = f (w\<lparr>w_tick := n\<rparr>))) P"
  using assms unfolding triple_def
  by (auto simp: query_def tick_stable_def split: option.splits intro: exI[of _ "Suc _"])

lemma find_raw_tick [simp]: "find_raw i (w\<lparr>w_tick := n\<rparr>) = find_raw i w"
  by (simp add: find_raw_def cong: option.case_cong)

lemma find_active_tick [simp]: "find_active i (w\<lparr>w_tick := n\<rparr>) = find_active i w"
  by (simp add: find_active_def)

lemma verify_ownership_Inr: "verify_ownership r wallet = Inr u \<longleftrightarrow> py_lower (raw_owner r) = py_lower wallet"
  by (auto simp: verify_ownership_def)

text \<open>The assertion between the ownership check and the write.\<close>

definition owning :: "string \<Rightarrow> string \<Rightarrow> world \<Rightarrow> world \<Rightarrow> bool" where
  "owning a i v w \<longleftrightarrow> untouched a v w \<and> owner_of w i = Some a"

lemma owning_tick [simp]: "tick_stable (owning a i v)"
  using untouched_tick[of a v] by (simp add: tick_stable_def owning_def)

lemma owningD: "owning a i v w \<Longrightarrow> untouched a v w"
  by (simp add: owning_def)

lemma owned_endpoint_post:
  assumes "py_lower wallet = a"
  shows "triple (untouched a v) (owned_endpoint env wallet i) (\<lambda>_. owning a i v) (untouched a v)"
  unfolding owned_endpoint_def not_found_def
  apply (rule triple_ebind[OF query_post[OF untouched_tick]])
  apply (rule triple_cases)
   apply (rule triple_eraise, simp)
  apply (rule triple_elift, simp)
  apply (rule triple_eret)
  apply (auto simp: owning_def verify_ownership_Inr assms owner_of_def eq_commute[of "Some _"])
  done

lemma untouched_routes:
  assumes "py_lower wallet = a"
  shows "triple (untouched a v) (rest_get_endpoint env wallet i) (\<lambda>_. untouched a v) (untouched a v)"
    and "triple (untouched a v) (rest_update_endpoint env rr wallet i u) (\<lambda>_. untouched a v) (untouched a v)"
    and "triple (untouched a v) (rest_deactivate_endpoint env wallet i) (\<lambda>_. untouched a v) (untouched a v)"
    and "triple (untouched a v) (rest_list_subscriptions env wallet i) (\<lambda>_. untouched a v) (untouched a v)"
proof -
  note own = triple_ebind[OF owned_endpoint_post[OF assms]]
  note tail = triple_conseq[OF triple_keeps, of "untouched a v"]
  have wr: "(\<And>w. owning a i v w \<Longrightarrow> untouched a v (f w)) \<Longrightarrow> triple (owning a i v) (emodify f) (\<lambda>_. untouched a v) (untouched a v)" for f
    by (rule triple_emodify)
  show "triple (untouched a v) (rest_get_endpoint env wallet i) (\<lambda>_. untouched a v) (untouched a v)"
    unfolding rest_get_endpoint_def by (rule own, rule tail[OF keeps_basic(4)]) (auto dest: owningD)
  show "triple (untouched a v) (rest_list_subscriptions env wallet i) (\<lambda>_. untouched a v) (untouched a v)"
    unfolding rest_list_subscriptions_def
    by (rule own, rule tail[OF keeps_query[OF untouched_tick]]) (auto dest: owningD)
  show "triple (untouched a v) (rest_deactivate_endpoint env wallet i) (\<lambda>_. untouched a v) (untouched a v)"
    unfolding rest_deactivate_endpoint_def
    apply (rule own)
    apply (rule triple_step[OF keeps_now[OF owning_tick]], erule owningD)
    apply (rule triple_step[OF keeps_db_call[OF owning_tick]], erule owningD)
    apply (rule triple_ebind[OF wr], simp add: owning_def untouched_deactivate)
    apply (rule tail[OF untouched_cache], assumption+)
    done
  show "triple (untouched a v) (rest_update_endpoint env rr wallet i u) (\<lambda>_. untouched a v) (untouched a v)"
    unfolding rest_update_endpoint_def
    apply (rule own)
    apply (rule triple_if, rule triple_eraise, erule owningD)
    apply (rule triple_step[OF keeps_now[OF owning_tick]], erule owningD)
    apply (rule triple_step[OF keeps_db_call[OF owning_tick]], erule owningD)
    apply (rule triple_ebind[OF wr], simp add: owning_def untouched_update)
    apply (rule triple_keeps, intro keeps_intros, assumption)
    done
qed

lemma untouched_add_sub:
  assumes "owning a (sub_endpoint_id s) v w" and "sub_id s \<notin> set (map sub_id (w_subscriptions w))"
  shows "untouched a v (w\<lparr>w_subscriptions := w_subscriptions w @ [s]\<rparr>)"
proof -
  have "sub_endpoint_id s \<in> set (endpoint_ids w)"
    using assms(1) owner_of_None[of w "sub_endpoint_id s"] by (auto simp: owning_def)
  then show ?thesis using assms
    by (auto simp: owning_def untouched_def foreign_def foreign_subs_def rest_inv_def registry_inv_def endpoint_ids_def trigger_ids_def)
qed

lemma untouched_remove_sub:
  assumes "untouched a v w" and "s \<in> set (w_subscriptions w)" and "owner_of w (sub_endpoint_id s) = Some a"
  shows "untouched a v (w\<lparr>w_subscriptions := map (\<lambda>t. if sub_id t = sub_id s then t\<lparr>sub_active := False\<rparr> else t) (w_subscriptions w)\<rparr>)"
    (is "untouched a v ?w")
proof -
  have "t = s" if "t \<in> set (w_subscriptions w)" "sub_id t = sub_id s" for t
    using assms that by (auto simp: untouched_def rest_inv_def distinct_map dest: inj_onD)
  then have "foreign_subs a ?w = foreign_subs a w"
    using assms(3) unfolding foreign_subs_def by (auto intro!: filter_map_inside)
  moreover have "map (\<lambda>s. (sub_id s, sub_endpoint_id s)) (w_subscriptions ?w) = map (\<lambda>s. (sub_id s, sub_endpoint_id s)) (w_subscriptions w)"
    by simp
  then have "map sub_id (w_subscriptions ?w) = map sub_id (w_subscriptions w)"
    and "map sub_endpoint_id (w_subscriptions ?w) = map sub_endpoint_id (w_subscriptions w)"
    by (auto dest: arg_cong[of _ _ "map fst"] arg_cong[of _ _ "map snd"] simp: comp_def)
  then have "distinct (map sub_id (w_subscriptions ?w)) = distinct (map sub_id (w_subscriptions w))"
    and "sub_endpoint_id ` set (w_subscriptions ?w) = sub_endpoint_id ` set (w_subscriptions w)"
    by (metis, metis list.set_map)
  moreover have "rest_inv u \<longleftrightarrow> distinct (endpoint_ids u) \<and> distinct (trigger_ids u) \<and>
      (\<forall>t \<in> set (w_triggers u). tg_endpoint_id t \<in> set (endpoint_ids u)) \<and>
      (\<forall>r \<in> set (w_invalid_triggers u). iv_endpoint_id r \<in> set (endpoint_ids u)) \<and>
      sub_endpoint_id ` set (w_subscriptions u) \<subseteq> set (endpoint_ids u) \<and> distinct (map sub_id (w_subscriptions u))" for u
    by (auto simp: rest_inv_def registry_inv_def)
  moreover have "endpoint_ids ?w = endpoint_ids w" "trigger_ids ?w = trigger_ids w" "foreign a ?w = foreign a w"
    by (simp_all add: endpoint_ids_def trigger_ids_def foreign_def)
  ultimately show ?thesis using assms(1) unfolding untouched_def by simp
qed

lemma untouched_create_subscription:
  assumes "py_lower wallet = a"
  shows "triple (untouched a v) (rest_create_subscription env rr wallet i f) (\<lambda>_. untouched a v) (untouched a v)"
proof -
  have ins: "triple (owning a (sub_endpoint_id s) v) (insert_subscription env s) (\<lambda>_. untouched a v) (untouched a v)" for s
  proof (rule triple_snd)
    fix w assume w: "owning a (sub_endpoint_id s) v w"
    then have t: "owning a (sub_endpoint_id s) v (w\<lparr>w_tick := n\<rparr>)" for n using owning_tick unfolding tick_stable_def by blast
    show "untouched a v (snd (run (insert_subscription env s) w))"
      using owningD[OF t] untouched_add_sub[OF t] by (auto simp: insert_subscription_def split: option.splits)
  qed
  show ?thesis unfolding rest_create_subscription_def not_found_def
    apply (rule triple_ebind[OF query_post[OF untouched_tick]])
    apply (rule triple_cases)
     apply (rule triple_eraise, simp)
    apply (rule triple_elift, simp)
    apply (rule triple_weaken[where P' = "owning a i v"])
     apply (rule triple_if, rule triple_eraise, erule owningD)
     apply (rule triple_step[OF keeps_now[OF owning_tick]], erule owningD)
     apply (rule triple_step[OF keeps_uuid4[OF owning_tick]], erule owningD)
     apply (rule triple_Let)
     apply (rule triple_ebind, rule triple_weaken[OF ins], simp, rule triple_eret, assumption)
    apply (auto simp: owning_def find_active_def owner_of_def verify_ownership_Inr assms split: option.splits if_splits)
    done
qed

lemma untouched_remove_subscription:
  assumes "py_lower wallet = a"
  shows "triple (untouched a v) (rest_remove_subscription env wallet i) (\<lambda>_. untouched a v) (untouched a v)"
proof (rule triple_snd)
  fix w assume "untouched a v w"
  then have t: "untouched a v (w\<lparr>w_tick := n\<rparr>)" for n using untouched_tick unfolding tick_stable_def by blast
  have "untouched a v (w\<lparr>w_tick := n, w_subscriptions := map (\<lambda>s. if sub_id s = i then s\<lparr>sub_active := False\<rparr> else s) (w_subscriptions w)\<rparr>)"
    if "find (\<lambda>s. sub_id s = i) (w_subscriptions w) = Some s" "find_raw (sub_endpoint_id s) w = Some r"
      "py_lower (raw_owner r) = a" for n s r
    using untouched_remove_sub[OF t, of s n] that by (auto simp: find_Some_iff owner_of_def)
  then show "untouched a v (snd (run (rest_remove_subscription env wallet i) w))"
    using t by (auto simp: rest_remove_subscription_def query_def not_found_def verify_ownership_def assms split: option.splits if_splits)
qed

lemma untouched_redis: "redis_stable (untouched a v)"
  using untouched_tick[of a v]
  by (simp add: redis_stable_def) (simp add: untouched_def foreign_def foreign_subs_def rest_inv_def registry_defs)

lemma keeps_wallet_auth: "redis_stable I \<Longrightarrow> keeps I (require_wallet_auth env rq)"
proof -
  assume I: "redis_stable I"
  have "keeps I (check_signature_and_nonce env rq)"
    unfolding check_signature_and_nonce_def unauthorized_def redis_delete_def
    by (auto intro!: keeps_intros redis_stableD[OF I] split: sum.split exn.split)
  then show ?thesis unfolding require_wallet_auth_def unauthorized_def validate_timestamps_def
    by (auto intro!: keeps_intros redis_stableD[OF I] split: sum.split exn.split)
qed

lemma untouched_handler:
  assumes "py_lower wallet = a"
  shows "triple (untouched a v) (rest_handler env rg rr wallet call) (\<lambda>_. untouched a v) (untouched a v)"
proof -
  have ret: "triple (untouched a v) (eret x) (\<lambda>_. untouched a v) (untouched a v)" for x :: rest_answer by (rule triple_eret)
  have body: "triple (untouched a v) (ebind tick (\<lambda>n. elift (r n))) (\<lambda>_. untouched a v) (untouched a v)" for r :: "nat \<Rightarrow> 'x result"
    by (rule triple_keeps) (intro keeps_intros untouched_tick, assumption)
  have list: "triple (untouched a v) (rest_list_endpoints env wallet) (\<lambda>_. untouched a v) (untouched a v)"
    unfolding rest_list_endpoints_def by (rule triple_keeps) (intro keeps_intros untouched_tick, assumption)
  show ?thesis unfolding rest_handler_def
    by (cases call; simp only: rest_call.case;
        (rule triple_ebind[OF body], rule triple_ebind[OF untouched_register[OF assms] ret] triple_ebind[OF untouched_routes(2)[OF assms] ret]
         | rule triple_ebind[OF list ret] triple_ebind[OF untouched_routes(1)[OF assms] ret]
             triple_ebind[OF untouched_routes(3)[OF assms] ret] triple_ebind[OF untouched_routes(4)[OF assms] ret]
             triple_ebind[OF untouched_create_subscription[OF assms] ret] triple_ebind[OF untouched_remove_subscription[OF assms] ret]))
qed

text \<open>
  C18. The HTTP routes stay with the caller's rows: whatever the route, its arguments and the
  failures on the way, the triggers, endpoints and subscriptions of every wallet other than the one
  named in the request's signed address are afterwards exactly what they were, and ids stay
  unique and references valid.
\<close>

theorem rest_routes_stay_own:
  assumes "rest_inv w" and "run (serve_rest env rg rr rq call) w = (r, w')" and "a = py_lower (header rq ''X-TripWire-Address'')"
  shows "foreign a w' = foreign a w \<and> foreign_subs a w' = foreign_subs a w \<and> rest_inv w'"
proof -
  obtain q w1 where q: "run (require_wallet_auth env rq) w = (q, w1)" by fastforce
  have w1: "untouched a w w1"
    using keepsD[OF keeps_wallet_auth[OF untouched_redis], of a w w env rq] untouched_refl[OF assms(1)] q by simp
  have "untouched a w w'"
  proof (cases q)
    case (Inl e)
    then show ?thesis using q assms(2) w1 by (simp add: serve_rest_def)
  next
    case (Inr wallet)
    have "py_lower wallet = a" using wallet_auth_facts[OF disjI1, of env rq w wallet w1] q Inr assms(3) by simp
    from triple_post[OF untouched_handler[OF this] w1] show ?thesis
      using q Inr assms(2) by (simp add: serve_rest_def)
  qed
  then show ?thesis by (simp add: untouched_def)
qed

definition rest_world :: world where
  "rest_world = nonce_world\<lparr>w_endpoints := [small_endpoint ''e1'' ''0xaB'', small_endpoint ''e2'' ''0xb''],
     w_subscriptions := [\<lparr>sub_id = ''s2'', sub_endpoint_id = ''e2'', sub_filters = \<lparr>sf_chains = None, sf_senders = None,
       sf_recipients = None, sf_min_amount = None, sf_agent_class = None\<rparr>, sub_active = True\<rparr>]\<rparr>"

definition no_raw_rows :: raw_rows where
  "no_raw_rows = \<lparr>rr_mode = (\<lambda>_. []), rr_updated = (\<lambda>_ _. None)\<rparr>"

lemma rest_world_inv: "rest_inv rest_world"
  by (simp add: rest_inv_def registry_defs rest_world_def nonce_world_def empty_world_def small_endpoint_def)

theorem rest_routes_stay_own_witness:
  "foreign ''0xab'' (snd (run (serve_rest auth_env small_registry no_raw_rows sample_request (Deactivate_endpoint ''e1'')) rest_world)) =
     ([], [small_endpoint ''e2'' ''0xb''], [], [])"
proof -
  have l: "py_lower (header sample_request ''X-TripWire-Address'') = ''0xab''" "py_lower ''0xaB'' = ''0xab''" "py_lower ''0xb'' = ''0xb''"
    by code_simp+
  have "foreign ''0xab'' rest_world = ([], [small_endpoint ''e2'' ''0xb''], [], [])"
    using l by (simp add: foreign_def rest_world_def nonce_world_def empty_world_def small_endpoint_def)
  then show ?thesis
    using rest_routes_stay_own[OF rest_world_inv prod.collapse[symmetric] refl, where env = auth_env and rg = small_registry and
        rr = no_raw_rows and rq = sample_request and call = "Deactivate_endpoint ''e1''"] l by simp
qed

section \<open>What a registration stores\<close>

text \<open>The stages of a registration: one new row at the end of the table, the answer equal to it but for the secret.\<close>

definition appended :: "Endpoint list \<Rightarrow> InvalidRow list \<Rightarrow> string \<Rightarrow> Endpoint \<Rightarrow> world \<Rightarrow> bool" where
  "appended es rs i e w \<longleftrightarrow> w_endpoints w = es @ [e\<lparr>ep_webhook_secret := None\<rparr>] \<and> w_invalid_endpoints w = rs \<and>
     ep_id e = i \<and> (\<forall>x \<in> set es. ep_id x \<noteq> i)"

definition same_key :: "Endpoint \<Rightarrow> string \<Rightarrow> string \<Rightarrow> bool" where
  "same_key e owner recipient \<longleftrightarrow> ep_owner_address e = owner \<and> ep_recipient e = recipient \<and> ep_active e"

lemma insert_row_run:
  assumes "run (insert_row env rg i wallet body) w = (Inr e, w')"
  shows "appended (w_endpoints w) (w_invalid_endpoints w) i e w' \<and> same_key e wallet (re_recipient body) \<and> ep_webhook_secret e = None"
  using assms
  by (auto simp: insert_row_def endpoint_insert_def Let_def appended_def same_key_def add_endpoint_def endpoint_ids_def
      split: option.splits sum.splits bool.splits if_splits)

lemma map_endpoint_appended:
  assumes "appended es rs i e w" and "\<And>x. ep_id (f x) = ep_id x" and "\<And>x s. f (x\<lparr>ep_webhook_secret := s\<rparr>) = (f x)\<lparr>ep_webhook_secret := s\<rparr>"
  shows "appended es rs i (f e) (map_endpoint i f w)"
proof -
  have "map (\<lambda>x. if ep_id x = i then f x else x) es = es"
    using assms(1) by (intro map_idI) (auto simp: appended_def)
  then show ?thesis using assms by (simp add: appended_def map_endpoint_def)
qed

lemma appended_tick: "appended es rs i e (w\<lparr>w_tick := n\<rparr>) = appended es rs i e w"
  by (simp add: appended_def)

lemma record_payment_run:
  assumes "run (record_payment env pay i e) w = (Inr e', w')" and "appended es rs i e w" and "ep_webhook_secret e = None"
  shows "appended es rs i e' w' \<and> ep_owner_address e' = ep_owner_address e \<and> ep_recipient e' = ep_recipient e \<and>
    ep_active e' = ep_active e \<and> ep_webhook_secret e' = None"
proof -
  have "appended es rs i (e\<lparr>ep_registration_tx_hash := tx, ep_registration_chain_id := c\<rparr>)
      (map_endpoint i (\<lambda>e. e\<lparr>ep_registration_tx_hash := tx, ep_registration_chain_id := c\<rparr>) (w\<lparr>w_tick := n\<rparr>))" for tx c n
    by (rule map_endpoint_appended) (simp_all add: appended_tick assms(2))
  then show ?thesis using assms
    by (auto simp: record_payment_def Let_def split: prod.splits if_splits option.splits)
qed

lemma appended_secret: "appended es rs i (e\<lparr>ep_webhook_secret := s\<rparr>) w = appended es rs i e w"
  by (simp add: appended_def)

lemma provider_setup_run:
  assumes "run (provider_setup env rg i body e) w = (Inr e', w')" and "appended es rs i e w"
  shows "appended es rs i e' w' \<and> ep_owner_address e' = ep_owner_address e \<and> ep_recipient e' = ep_recipient e \<and>
    ep_active e' = ep_active e \<and> ep_webhook_secret e' \<noteq> None \<and> ep_convoy_project_id e' \<noteq> None \<and> ep_convoy_endpoint_id e' \<noteq> None"
proof -
  obtain project ce secret n where e': "e' = e\<lparr>ep_convoy_project_id := Some project, ep_convoy_endpoint_id := Some ce, ep_webhook_secret := Some secret\<rparr>"
    and w': "w' = map_endpoint i (\<lambda>x. x\<lparr>ep_convoy_project_id := Some project, ep_convoy_endpoint_id := Some ce\<rparr>) (w\<lparr>w_tick := n\<rparr>)"
    using assms(1)
    by (auto simp: provider_setup_def endpoint_set_provider_def map_endpoint_def split: sum.splits option.splits)
  have "appended es rs i (e\<lparr>ep_convoy_project_id := Some project, ep_convoy_endpoint_id := Some ce\<rparr>) w'"
    unfolding w' by (rule map_endpoint_appended) (simp_all add: appended_tick assms(2))
  then show ?thesis using appended_secret[of es rs i _ _ w'] by (simp add: e')
qed

lemma wire_execute_run:
  assumes "run (wire_execute env rg i body e) w = (Inr e', w')" and "appended es rs i e w" and "ep_webhook_secret e = None"
  shows "appended es rs i e' w' \<and> ep_owner_address e' = ep_owner_address e \<and> ep_recipient e' = ep_recipient e \<and>
    ep_active e' = ep_active e \<and> (ep_webhook_secret e' \<noteq> None \<longleftrightarrow> re_mode body = EXECUTE) \<and>
    (re_mode body = EXECUTE \<longrightarrow> ep_convoy_project_id e' \<noteq> None \<and> ep_convoy_endpoint_id e' \<noteq> None)"
proof (cases "re_mode body = EXECUTE")
  case True
  obtain r w1 where r: "run (provider_setup env rg i body e) w = (r, w1)" by fastforce
  then have "r = Inr e'" "w1 = w'"
    using assms(1) True by (auto simp: wire_execute_def split: sum.splits prod.splits)
  then show ?thesis using provider_setup_run[of env rg i body e w e' w' es rs] r assms(2) True by simp
next
  case False
  then show ?thesis using assms by (simp add: wire_execute_def)
qed

lemma run_invalidate_endpoint_cache:
  "\<exists>c. run (invalidate_endpoint_cache env) w = (Inr (), w\<lparr>w_tick := Suc (w_tick w), w_redis_cache := c\<rparr>)"
proof (cases "en_redis env (w_tick w)")
  case True
  then show ?thesis by (simp add: invalidate_endpoint_cache_def ewhen_def) blast
next
  case False
  then show ?thesis by (simp add: invalidate_endpoint_cache_def ewhen_def) (rule exI[of _ "w_redis_cache w"], simp)
qed

lemma check_endpoint_quota_run:
  "run (check_endpoint_quota env wallet) w = (r, w') \<Longrightarrow> w' = w\<lparr>w_tick := Suc (w_tick w)\<rparr>"
  by (auto simp: check_endpoint_quota_def check_quota_def query_def split: option.splits if_splits)

lemma registration_run:
  assumes "run (rest_register_endpoint env rg pay wallet body) w = (Inr e, w')"
  shows "w_endpoints w' = w_endpoints w @ [e\<lparr>ep_webhook_secret := None\<rparr>] \<and> w_invalid_endpoints w' = w_invalid_endpoints w \<and>
    (\<forall>x \<in> set (w_endpoints w). ep_id x \<noteq> ep_id e) \<and> same_key e wallet (re_recipient body) \<and>
    (ep_webhook_secret e \<noteq> None \<longleftrightarrow> re_mode body = EXECUTE) \<and>
    (re_mode body = EXECUTE \<longrightarrow> ep_convoy_project_id e \<noteq> None \<and> ep_convoy_endpoint_id e \<noteq> None)"
proof -
  let ?w = "w\<lparr>w_tick := Suc (Suc (Suc (w_tick w)))\<rparr>" and ?i = "en_uuid env (Suc (Suc (w_tick w)))"
  obtain e0 w0 e1 w1 w2 where s: "run (insert_row env rg ?i wallet body) ?w = (Inr e0, w0)"
    "run (record_payment env pay ?i e0) w0 = (Inr e1, w1)" "run (wire_execute env rg ?i body e1) w1 = (Inr e, w2)"
    "run (invalidate_endpoint_cache env) w2 = (Inr (), w')"
    using assms unfolding rest_register_endpoint_def
    by (auto split: prod.splits sum.splits dest!: check_endpoint_quota_run)
  note a = insert_row_run[OF s(1)]
  note b = record_payment_run[OF s(2), of "w_endpoints w" "w_invalid_endpoints w"]
  note c = wire_execute_run[OF s(3), of "w_endpoints w" "w_invalid_endpoints w"]
  obtain cc where "w' = w2\<lparr>w_tick := Suc (w_tick w2), w_redis_cache := cc\<rparr>"
    using run_invalidate_endpoint_cache[of env w2] s(4) by auto
  then show ?thesis using a b c by (auto simp: appended_def same_key_def)
qed

text \<open>
  A registration stores exactly one new endpoint: it ends the table, belongs to the
  authenticated wallet, carries the provider's identifiers when it is to execute, and differs
  from the answer only in the webhook secret, which is handed out once and never stored.
\<close>

theorem registration_stores_one_endpoint:
  assumes "run (rest_register_endpoint env rg pay wallet body) w = (Inr e, w')"
  shows "w_endpoints w' = w_endpoints w @ [e\<lparr>ep_webhook_secret := None\<rparr>] \<and> w_invalid_endpoints w' = w_invalid_endpoints w \<and>
    (\<forall>x \<in> set (w_endpoints w). ep_id x \<noteq> ep_id e) \<and> same_key e wallet (re_recipient body) \<and>
    (ep_webhook_secret e \<noteq> None \<longleftrightarrow> re_mode body = EXECUTE) \<and>
    (re_mode body = EXECUTE \<longrightarrow> ep_convoy_project_id e \<noteq> None \<and> ep_convoy_endpoint_id e \<noteq> None)"
  using registration_run[OF assms] .

definition mixed_wallet :: string where "mixed_wallet = ''0xAAAAAAAAAAAAAAAAAAAAAAAAAAAAAAAAAAAAAAAA''"

definition mixed_body :: RegisterEndpointRequest where
  "mixed_body = \<lparr>re_url = ''https://hook'', re_mode = EXECUTE, re_chains = [8453], re_recipient = mixed_wallet,
     re_owner_address = None, re_policies = None\<rparr>"

lemma mixed_wallet_facts: "is_eth_address mixed_wallet" "py_lower mixed_wallet \<noteq> mixed_wallet"
  by code_simp+

lemma mixed_registration:
  "\<exists>e w'. run (rest_register_endpoint calm_env small_registry (None, None) mixed_wallet mixed_body) empty_world = (Inr e, w')"
  using mixed_wallet_facts(1)
  by (simp add: rest_register_endpoint_def check_endpoint_quota_def check_quota_def query_def owned_endpoints_def insert_row_def
      endpoint_insert_def record_payment_def wire_execute_def provider_setup_def endpoint_set_provider_def
      invalidate_endpoint_cache_def ewhen_def endpoint_ids_def add_endpoint_def small_registry_def calm_env_def default_settings_def
      empty_world_def mixed_body_def Let_def)

theorem registration_stores_one_endpoint_witness:
  "\<exists>e w'. run (rest_register_endpoint calm_env small_registry (None, None) mixed_wallet mixed_body) empty_world = (Inr e, w') \<and>
     w_endpoints w' = [e\<lparr>ep_webhook_secret := None\<rparr>] \<and> ep_webhook_secret e \<noteq> None"
proof -
  obtain e w' where r: "run (rest_register_endpoint calm_env small_registry (None, None) mixed_wallet mixed_body) empty_world = (Inr e, w')"
    using mixed_registration by blast
  have "w_endpoints w' = [e\<lparr>ep_webhook_secret := None\<rparr>]" "ep_webhook_secret e \<noteq> None"
    using registration_stores_one_endpoint[OF r] by (simp_all add: empty_world_def mixed_body_def)
  with r show ?thesis by (intro exI conjI)
qed

text \<open>
  C40. Addresses are stored as received and looked up in lower case. An endpoint registered over
  HTTP by a wallet whose address has an upper-case letter never counts against a quota: the
  endpoint quota check of that wallet, however the address is spelled, decides after the
  registration as it did before. And an endpoint whose recipient has an upper-case letter
  is not found for any transfer, so that it never gets a payment's webhook.
\<close>

theorem mixed_case_endpoint_never_matched:
  assumes "run (rest_register_endpoint env rg pay wallet body) w = (Inr e, w')"
  shows "(py_lower wallet \<noteq> wallet \<longrightarrow> (\<forall>env' a n. py_lower a = py_lower wallet \<longrightarrow>
      fst (run (check_endpoint_quota env' a) (w'\<lparr>w_tick := n\<rparr>)) = fst (run (check_endpoint_quota env' a) (w\<lparr>w_tick := n\<rparr>)))) \<and>
    (py_lower (re_recipient body) \<noteq> re_recipient body \<longrightarrow>
      (\<forall>env' a eps w''. run (list_by_recipient env' a) w' = (Inr eps, w'') \<longrightarrow> (\<forall>x \<in> set eps. ep_recipient x \<noteq> ep_recipient e)))"
proof -
  note r = registration_run[OF assms]
  have "fst (run (check_endpoint_quota env' a) (w'\<lparr>w_tick := n\<rparr>)) = fst (run (check_endpoint_quota env' a) (w\<lparr>w_tick := n\<rparr>))"
    if "py_lower wallet \<noteq> wallet" "py_lower a = py_lower wallet" for env' a n
  proof -
    have "owned_endpoints (py_lower a) (w'\<lparr>w_tick := k\<rparr>) = owned_endpoints (py_lower a) (w\<lparr>w_tick := k\<rparr>)" for k
      using r that by (simp add: owned_endpoints_def same_key_def)
    then show ?thesis by (simp add: check_endpoint_quota_def check_quota_def query_def split: option.split)
  qed
  moreover have "ep_recipient x \<noteq> ep_recipient e"
    if "py_lower (re_recipient body) \<noteq> re_recipient body" "run (list_by_recipient env' a) w' = (Inr eps, w'')" "x \<in> set eps" for env' a eps w'' x
  proof -
    have "ep_recipient x = py_lower a"
      using that(2,3) by (auto simp: list_by_recipient_def query_valid_def query_def split: option.splits if_splits)
    then show ?thesis using that(1) r by (metis py_lower_idem same_key_def)
  qed
  ultimately show ?thesis by blast
qed

text \<open>A wallet that may have no endpoint at all still may after its registration.\<close>

theorem mixed_case_endpoint_never_matched_witness:
  "\<exists>e w'. run (rest_register_endpoint calm_env small_registry (None, None) mixed_wallet mixed_body) empty_world = (Inr e, w') \<and>
     fst (run (check_endpoint_quota (calm_env\<lparr>en_settings := default_settings\<lparr>st_max_endpoints_per_wallet := 1\<rparr>\<rparr>) mixed_wallet) (w'\<lparr>w_tick := 0\<rparr>)) = Inr () \<and>
     (\<forall>a eps w''. run (list_by_recipient calm_env a) w' = (Inr eps, w'') \<longrightarrow> (\<forall>x \<in> set eps. ep_recipient x \<noteq> ep_recipient e))"
proof -
  obtain e w' where r: "run (rest_register_endpoint calm_env small_registry (None, None) mixed_wallet mixed_body) empty_world = (Inr e, w')"
    using mixed_registration by blast
  let ?strict = "calm_env\<lparr>en_settings := default_settings\<lparr>st_max_endpoints_per_wallet := 1\<rparr>\<rparr>"
  note m = mixed_case_endpoint_never_matched[OF r]
  have "fst (run (check_endpoint_quota ?strict mixed_wallet) (empty_world\<lparr>w_tick := 0\<rparr>)) = Inr ()"
    by (simp add: check_endpoint_quota_def check_quota_def query_def owned_endpoints_def empty_world_def calm_env_def default_settings_def)
  then have "fst (run (check_endpoint_quota ?strict mixed_wallet) (w'\<lparr>w_tick := 0\<rparr>)) = Inr ()" using m mixed_wallet_facts(2) by simp
  moreover have "py_lower (re_recipient mixed_body) \<noteq> re_recipient mixed_body" by (simp add: mixed_body_def mixed_wallet_facts)
  ultimately show ?thesis using m r by blast
qed

section \<open>Deactivation\<close>

lemma owned_endpoint_run: "run (owned_endpoint env wallet i) w = (r, w') \<Longrightarrow> w' = w\<lparr>w_tick := Suc (w_tick w)\<rparr>"
  by (auto simp: owned_endpoint_def not_found_def query_def split: option.splits sum.splits)

lemma deactivate_run:
  assumes "run (rest_deactivate_endpoint env wallet i) w = (Inr (), w')"
  shows "w_local_cache w' = w_local_cache w \<and> w_endpoints w' = w_endpoints (deactivate_rows i w)"
proof -
  obtain r w1 where r: "run (owned_endpoint env wallet i) w = (r, w1)" by fastforce
  obtain v where "r = Inr v" using assms r by (cases r) (simp_all add: rest_deactivate_endpoint_def)
  moreover have "w1 = w\<lparr>w_tick := Suc (w_tick w)\<rparr>" by (rule owned_endpoint_run[OF r])
  ultimately have "run (ebind (emodify (deactivate_rows i)) (\<lambda>_. invalidate_endpoint_cache env)) (w\<lparr>w_tick := Suc (Suc (Suc (w_tick w)))\<rparr>) = (Inr (), w')"
    using assms r by (simp add: rest_deactivate_endpoint_def split: option.splits)
  then obtain c u where "w' = u\<lparr>w_tick := Suc (w_tick u), w_redis_cache := c\<rparr>" "u = deactivate_rows i (w\<lparr>w_tick := Suc (Suc (Suc (w_tick w)))\<rparr>)"
    using run_invalidate_endpoint_cache[of env "deactivate_rows i (w\<lparr>w_tick := Suc (Suc (Suc (w_tick w)))\<rparr>)"] by auto
  then show ?thesis by (simp add: deactivate_rows_def)
qed

lemma all_map_if: "(\<And>x. c x \<Longrightarrow> P (f x)) \<Longrightarrow> (\<And>x. \<not> c x \<Longrightarrow> P x) \<Longrightarrow> \<forall>y \<in> set (map (\<lambda>x. if c x then f x else x) xs). P y"
  by auto

lemma deactivate_rows_inactive: "\<forall>e \<in> set (w_endpoints (deactivate_rows i w)). ep_id e = i \<longrightarrow> \<not> ep_active e"
proof -
  have eq: "w_endpoints (deactivate_rows i w) = map (\<lambda>e. if ep_id e = i then e\<lparr>ep_active := False\<rparr> else e) (w_endpoints w)"
    by (simp add: deactivate_rows_def)
  show ?thesis unfolding eq by (rule all_map_if) simp_all
qed

text \<open>
  A deactivated endpoint keeps being served for as long as the processor's own copy is
  fresh: the route drops the copies in Redis, but the lookup falls back to the local copy when
  Redis has none, so up to thirty seconds later a transfer to the recipient still gets the old rows,
  active as they were.
\<close>

theorem deactivated_endpoint_still_served:
  assumes "run (rest_deactivate_endpoint env wallet i) w = (Inr (), w')"
    and "w_local_cache w (''tripwire:cache:endpoints:'' @ py_lower (tr_to_address t)) = Some (eps, expires)"
    and "w_redis_cache w' (''tripwire:cache:endpoints:'' @ py_lower (tr_to_address t)) = None"
    and "en_now env' (Suc (w_tick w')) < expires"
  shows "(\<forall>e \<in> set (w_endpoints w'). ep_id e = i \<longrightarrow> \<not> ep_active e) \<and> fst (run (fetch_matching_endpoints env' t) w') = Inr eps"
proof -
  have "w_local_cache w' (''tripwire:cache:endpoints:'' @ py_lower (tr_to_address t)) = Some (eps, expires)"
    using deactivate_run[OF assms(1)] assms(2) by simp
  then have "fst (run (fetch_matching_endpoints env' t) w') = Inr eps"
    using assms(3,4) by (simp add: fetch_matching_endpoints_def cache_get_def Let_def)
  then show ?thesis using deactivate_run[OF assms(1)] deactivate_rows_inactive[of i w] by simp
qed

definition cached_world :: world where
  "cached_world = empty_world\<lparr>w_endpoints := [small_endpoint ''e1'' ''0xa''],
     w_local_cache := [''tripwire:cache:endpoints:0xa'' \<mapsto> ([small_endpoint ''e1'' ''0xa''], 2000)]\<rparr>"

definition small_transfer :: ERC3009Transfer where
  "small_transfer = \<lparr>tr_chain_id = BASE, tr_tx_hash = ''0x1'', tr_block_number = 1, tr_block_hash = ''0x2'', tr_log_index = 0,
     tr_from_address = ''0xf'', tr_to_address = ''0xa'', tr_value = ''5'', tr_authorizer = ''0xf'', tr_valid_after = 0,
     tr_valid_before = 9, tr_nonce = ''0x3'', tr_token = ''0x4'', tr_timestamp = 0\<rparr>"

theorem deactivated_endpoint_still_served_witness:
  "fst (run (fetch_matching_endpoints calm_env small_transfer)
     (snd (run (rest_deactivate_endpoint calm_env ''0xa'' ''e1'') cached_world))) = Inr [small_endpoint ''e1'' ''0xa'']"
proof -
  have l: "py_lower ''0xa'' = ''0xa''" by code_simp
  let ?w = "snd (run (rest_deactivate_endpoint calm_env ''0xa'' ''e1'') cached_world)"
  have r: "run (rest_deactivate_endpoint calm_env ''0xa'' ''e1'') cached_world = (Inr (), ?w)"
    and f: "w_redis_cache ?w k = None" "w_tick ?w = 4" for k
    by (simp_all add: rest_deactivate_endpoint_def owned_endpoint_def query_def find_raw_def verify_ownership_def raw_owner_def
        deactivate_rows_def invalidate_endpoint_cache_def ewhen_def cached_world_def empty_world_def small_endpoint_def calm_env_def)
  show ?thesis
    by (rule deactivated_endpoint_still_served[OF r, where expires = 2000, THEN conjunct2])
       (simp_all add: f, simp_all add: cached_world_def small_transfer_def l calm_env_def)
qed

end
