(* ===== verification/Simulation.thy ===== *)
theory Simulation
  imports TW_Prelude
begin

text \<open>
  Functional refinement: a detailed machine and a specification that take the same
  inputs and give the same outputs. Machines are total functions of input and
  state; \<open>ok\<close> restricts the input sequences (a clock that does not run backwards, for
  instance), given what is known of the past as a value of its own.
\<close>

fun outputs :: "('i \<Rightarrow> 's \<Rightarrow> 'o \<times> 's) \<Rightarrow> 'i list \<Rightarrow> 's \<Rightarrow> 'o list" where
  "outputs step [] s = []"
| "outputs step (i # is) s = (case step i s of (out, s') \<Rightarrow> out # outputs step is s')"

fun inputs_ok :: "('i \<Rightarrow> 'h \<Rightarrow> 'h option) \<Rightarrow> 'i list \<Rightarrow> 'h \<Rightarrow> bool" where
  "inputs_ok ok [] h = True"
| "inputs_ok ok (i # is) h = (case ok i h of None \<Rightarrow> False | Some h' \<Rightarrow> inputs_ok ok is h')"

locale simulation =
  fixes rel :: "'h \<Rightarrow> 's \<Rightarrow> 'a \<Rightarrow> bool"
    and ok :: "'i \<Rightarrow> 'h \<Rightarrow> 'h option"
    and step :: "'i \<Rightarrow> 's \<Rightarrow> 'o \<times> 's"
    and spec :: "'i \<Rightarrow> 'a \<Rightarrow> 'o \<times> 'a"
  assumes sim: "rel h s a \<Longrightarrow> ok i h = Some h' \<Longrightarrow> step i s = (out, s') \<Longrightarrow>
    \<exists>a'. spec i a = (out, a') \<and> rel h' s' a'"
begin

lemma refines: "rel h s a \<Longrightarrow> inputs_ok ok is h \<Longrightarrow> outputs step is s = outputs spec is a"
proof (induction "is" arbitrary: h s a)
  case (Cons i "is")
  obtain out s' where st: "step i s = (out, s')" by fastforce
  obtain h' where h: "ok i h = Some h'" "inputs_ok ok is h'" using Cons.prems(2) by (auto split: option.splits)
  from sim[OF Cons.prems(1) h(1) st] obtain a' where "spec i a = (out, a')" "rel h' s' a'" by blast
  with Cons.IH[of h' s' a'] h st show ?case by simp
qed simp

end

end
