(* ===== verification/Convoy.thy ===== *)
theory Convoy
  imports Simulation
begin

text \<open>
  \<open>webhook/convoy_client.py\<close>: the circuit breaker in front of Convoy and the calls of
  its REST API. The module's globals are the state, the HTTP client is a parameter
  whose answer to a request is the decoded JSON body or the exception that
  \<open>post\<close>, \<open>raise_for_status\<close> or \<open>json\<close> raise. Every request sent is logged in the state.
  Metrics, traces and logs are left out.
\<close>

section \<open>The circuit breaker\<close>

datatype circuit = Closed | Open | Half_open

record breaker =
  cb_state :: circuit
  cb_failure_count :: int
  cb_last_failure_time :: rat

definition FAILURE_THRESHOLD :: int where "FAILURE_THRESHOLD = 5"
definition RECOVERY_TIMEOUT :: rat where "RECOVERY_TIMEOUT = 30"
definition HALF_OPEN_TIMEOUT :: rat where "HALF_OPEN_TIMEOUT = 10"

definition initial_breaker :: breaker where
  "initial_breaker = \<lparr>cb_state = Closed, cb_failure_count = 0, cb_last_failure_time = 0\<rparr>"

definition check_circuit :: "rat \<Rightarrow> breaker \<Rightarrow> bool \<times> breaker" where
  "check_circuit time b = (case cb_state b of
      Closed \<Rightarrow> (True, b)
    | Open \<Rightarrow> if time - cb_last_failure_time b > RECOVERY_TIMEOUT then (True, b\<lparr>cb_state := Half_open\<rparr>)
             else (False, b)
    | Half_open \<Rightarrow> (True, b))"

definition record_success :: "breaker \<Rightarrow> breaker" where
  "record_success b = b\<lparr>cb_state := Closed, cb_failure_count := 0\<rparr>"

definition record_failure :: "rat \<Rightarrow> breaker \<Rightarrow> breaker" where
  "record_failure time b =
     (let n = cb_failure_count b + 1; b' = b\<lparr>cb_failure_count := n, cb_last_failure_time := time\<rparr> in
      if n \<ge> FAILURE_THRESHOLD then b'\<lparr>cb_state := Open\<rparr> else b')"

section \<open>The API calls\<close>

record ConvoyRequest =
  cr_verb :: string
  cr_path :: string
  cr_body :: pydict
  cr_timeout :: "rat option"

record convoy =
  cv_tick :: nat
  cv_breaker :: breaker
  cv_requests :: "ConvoyRequest list"

record convoy_env =
  ce_clock :: "nat \<Rightarrow> rat"
  ce_http :: "nat \<Rightarrow> ConvoyRequest \<Rightarrow> pyval result"

type_synonym 'a cv = "(convoy, 'a) act"

definition CircuitOpenError :: exn where "CircuitOpenError = ExternalError ''ConvoyCircuitOpenError''"
definition ConnectError :: exn where "ConnectError = ExternalError ''httpx.ConnectError''"
definition TimeoutException :: exn where "TimeoutException = ExternalError ''httpx.TimeoutException''"

definition monotonic :: "convoy_env \<Rightarrow> rat cv" where
  "monotonic env = ebind (egets cv_tick) (\<lambda>n. ebind (emodify (\<lambda>s. s\<lparr>cv_tick := Suc n\<rparr>)) (\<lambda>_. eret (ce_clock env n)))"

definition http_call :: "convoy_env \<Rightarrow> ConvoyRequest \<Rightarrow> pyval cv" where
  "http_call env request = ebind (egets cv_tick) (\<lambda>n.
     ebind (emodify (\<lambda>s. s\<lparr>cv_tick := Suc n, cv_requests := cv_requests s @ [request]\<rparr>)) (\<lambda>_.
       elift (ce_http env n request)))"

definition guard_circuit :: "convoy_env \<Rightarrow> unit cv" where
  "guard_circuit env = ebind (monotonic env) (\<lambda>time.
     ebind (egets (\<lambda>s. check_circuit time (cv_breaker s))) (\<lambda>(allowed, b).
     ebind (emodify (\<lambda>s. s\<lparr>cv_breaker := b\<rparr>)) (\<lambda>_.
       if allowed then eret () else eraise CircuitOpenError)))"

definition note_failure :: "convoy_env \<Rightarrow> unit cv" where
  "note_failure env = ebind (monotonic env) (\<lambda>time. emodify (\<lambda>s. s\<lparr>cv_breaker := record_failure time (cv_breaker s)\<rparr>))"

definition note_success :: "unit cv" where
  "note_success = emodify (\<lambda>s. s\<lparr>cv_breaker := record_success (cv_breaker s)\<rparr>)"

text \<open>\<open>data["data"]["uid"]\<close>\<close>

definition data_uid :: "pyval \<Rightarrow> pyval result" where
  "data_uid v = rbind (subscript ''data'' v) (subscript ''uid'')"

text \<open>The common body of the three calls that report to the breaker.\<close>

definition post_for_uid :: "convoy_env \<Rightarrow> ConvoyRequest \<Rightarrow> pyval cv" where
  "post_for_uid env request = ebind (http_call env request) (\<lambda>v. ebind (elift (data_uid v)) (\<lambda>uid.
     ebind note_success (\<lambda>_. eret uid)))"

definition reported_post :: "convoy_env \<Rightarrow> ConvoyRequest \<Rightarrow> pyval cv" where
  "reported_post env request =
     ebind (etry (post_for_uid env request)) (\<lambda>r. case r of
         Inr uid \<Rightarrow> eret uid
       | Inl e \<Rightarrow> if e = ConnectError \<or> e = TimeoutException then ebind (note_failure env) (\<lambda>_. eraise e) else eraise e)"

definition create_application :: "convoy_env \<Rightarrow> string \<Rightarrow> string \<Rightarrow> pyval cv" where
  "create_application env developer_id name =
     ebind (guard_circuit env) (\<lambda>_. reported_post env \<lparr>cr_verb = ''POST'', cr_path = ''/api/v1/projects'',
       cr_body = [(''name'', PyStr name), (''type'', PyStr ''outgoing''),
         (''config'', PyDict [(''strategy'', PyDict [(''type'', PyStr ''exponential''), (''duration'', PyInt 10),
           (''retry_count'', PyInt 10)])])],
       cr_timeout = None\<rparr>)"

definition create_endpoint :: "convoy_env \<Rightarrow> string \<Rightarrow> string \<Rightarrow> string option \<Rightarrow> string option \<Rightarrow> pyval cv" where
  "create_endpoint env app_id url description secret =
     ebind (guard_circuit env) (\<lambda>_. case secret of
         Some (c # cs) \<Rightarrow>
           (let desc = (case description of Some d \<Rightarrow> d | None \<Rightarrow> []) in
            reported_post env \<lparr>cr_verb = ''POST'', cr_path = ''/api/v1/projects/'' @ app_id @ ''/endpoints'',
              cr_body = [(''name'', PyStr (py_or desc (''endpoint-'' @ url))), (''url'', PyStr url),
                (''description'', PyStr desc), (''secret'', PyStr (c # cs))],
              cr_timeout = None\<rparr>)
       | _ \<Rightarrow> eraise ValueError)"

definition optional_field :: "string \<Rightarrow> string option \<Rightarrow> pydict" where
  "optional_field k v = (case v of Some (c # cs) \<Rightarrow> [(k, PyStr (c # cs))] | _ \<Rightarrow> [])"

definition send_webhook ::
  "convoy_env \<Rightarrow> string \<Rightarrow> string \<Rightarrow> pydict \<Rightarrow> string option \<Rightarrow> string option \<Rightarrow> pyval cv" where
  "send_webhook env app_id event_type payload endpoint_id idempotency_key =
     ebind (guard_circuit env) (\<lambda>_.
     ebind (egets (\<lambda>s. cb_state (cv_breaker s) = Half_open)) (\<lambda>probing.
       reported_post env \<lparr>cr_verb = ''POST'', cr_path = ''/api/v1/projects/'' @ app_id @ ''/events'',
         cr_body = [(''event_type'', PyStr event_type), (''data'', PyDict payload)] @
           optional_field ''endpoint_id'' endpoint_id @ optional_field ''idempotency_key'' idempotency_key,
         cr_timeout = (if probing then Some HALF_OPEN_TIMEOUT else None)\<rparr>))"

section \<open>Dead letters and retries\<close>

text \<open>These calls neither ask the breaker nor report to it.\<close>

definition delivery_content :: "pyval \<Rightarrow> pyval result" where
  "delivery_content v = rbind (get_or ''data'' (PyDict []) v) (get_or ''content'' (PyList []))"

definition list_failed_deliveries :: "convoy_env \<Rightarrow> string \<Rightarrow> int \<Rightarrow> int \<Rightarrow> pyval cv" where
  "list_failed_deliveries env project_id per_page page' =
     ebind (http_call env \<lparr>cr_verb = ''GET'', cr_path = ''/api/v1/projects/'' @ project_id @ ''/eventdeliveries'',
       cr_body = [(''status'', PyStr ''Failed''), (''perPage'', PyInt per_page), (''page'', PyInt page')],
       cr_timeout = None\<rparr>) (\<lambda>v. elift (delivery_content v))"

definition force_resend :: "convoy_env \<Rightarrow> string \<Rightarrow> string list \<Rightarrow> unit cv" where
  "force_resend env project_id delivery_ids =
     ebind (http_call env \<lparr>cr_verb = ''POST'',
       cr_path = ''/api/v1/projects/'' @ project_id @ ''/eventdeliveries/batchretry'',
       cr_body = [(''ids'', PyList (map PyStr delivery_ids))], cr_timeout = None\<rparr>) (\<lambda>_. eret ())"

text \<open>\<open>d["uid"]\<close> of the deliveries whose status is a failure, in order.\<close>

fun failed_uids :: "pyval list \<Rightarrow> pyval list result" where
  "failed_uids [] = Inr []"
| "failed_uids (d # ds) =
     rbind (get_or ''status'' (PyStr []) d) (\<lambda>st. rbind (py_lower_val st) (\<lambda>status.
       if status \<in> {''failure'', ''failed''}
       then rbind (subscript ''uid'' d) (\<lambda>uid. rbind (failed_uids ds) (\<lambda>us. Inr (uid # us)))
       else failed_uids ds))"

fun all_uids :: "pyval list \<Rightarrow> pyval list result" where
  "all_uids [] = Inr []"
| "all_uids (d # ds) =
     rbind (get_or ''uid'' PyNone d) (\<lambda>uid.
       if py_truthy uid then rbind (all_uids ds) (\<lambda>us. Inr (uid # us)) else all_uids ds)"

definition retry_message :: "convoy_env \<Rightarrow> (pyval \<Rightarrow> string) \<Rightarrow> string \<Rightarrow> string \<Rightarrow> unit cv" where
  "retry_message env str app_id delivery_id =
     ebind (http_call env \<lparr>cr_verb = ''GET'', cr_path = ''/api/v1/projects/'' @ app_id @ ''/eventdeliveries'',
       cr_body = [(''event_id'', PyStr delivery_id)], cr_timeout = None\<rparr>) (\<lambda>v.
     ebind (elift (delivery_content v)) (\<lambda>content.
     ebind (elift (iterate content)) (\<lambda>ds.
     ebind (elift (failed_uids ds)) (\<lambda>failed.
     ebind (if failed = [] then elift (all_uids ds) else eret failed) (\<lambda>ids.
       if ids = [] then eraise ValueError
       else ebind (efor ids (\<lambda>i. http_call env \<lparr>cr_verb = ''PUT'',
              cr_path = ''/api/v1/projects/'' @ app_id @ ''/eventdeliveries/'' @ py_str str i @ ''/resend'',
              cr_body = [], cr_timeout = None\<rparr>)) (\<lambda>_. eret ()))))))"

section \<open>The breaker refines its specification\<close>

text \<open>
  What the breaker promises, without the third state: with \<open>c\<close> failures since the last
  success and the latest at time \<open>l\<close>, a request is let through unless \<open>c\<close> has reached
  the threshold and the recovery time since \<open>l\<close> has not passed.
\<close>

datatype breaker_event = Ask rat | Success | Failure rat

fun breaker_step :: "breaker_event \<Rightarrow> breaker \<Rightarrow> bool \<times> breaker" where
  "breaker_step (Ask t) b = check_circuit t b"
| "breaker_step Success b = (True, record_success b)"
| "breaker_step (Failure t) b = (True, record_failure t b)"

fun spec_step :: "breaker_event \<Rightarrow> int \<times> rat \<Rightarrow> bool \<times> int \<times> rat" where
  "spec_step (Ask t) (c, l) = (c < FAILURE_THRESHOLD \<or> t - l > RECOVERY_TIMEOUT, (c, l))"
| "spec_step Success (c, l) = (True, (0, l))"
| "spec_step (Failure t) (c, l) = (True, (c + 1, t))"

text \<open>The clock is monotonic.\<close>

fun clock_ok :: "breaker_event \<Rightarrow> rat \<Rightarrow> rat option" where
  "clock_ok (Ask t) h = (if h \<le> t then Some t else None)"
| "clock_ok Success h = Some h"
| "clock_ok (Failure t) h = (if h \<le> t then Some t else None)"

definition breaker_rel :: "rat \<Rightarrow> breaker \<Rightarrow> int \<times> rat \<Rightarrow> bool" where
  "breaker_rel h b a \<longleftrightarrow> a = (cb_failure_count b, cb_last_failure_time b) \<and>
     (cb_state b = Closed \<longleftrightarrow> cb_failure_count b < FAILURE_THRESHOLD) \<and>
     (cb_state b = Half_open \<longrightarrow> h - cb_last_failure_time b > RECOVERY_TIMEOUT)"

interpretation circuit_breaker: simulation breaker_rel clock_ok breaker_step spec_step
proof
  fix h b a i h' out b'
  assume "breaker_rel h b a" "clock_ok i h = Some h'" "breaker_step i b = (out, b')"
  then show "\<exists>a'. spec_step i a = (out, a') \<and> breaker_rel h' b' a'"
    by (cases i) (auto simp: breaker_rel_def check_circuit_def record_success_def record_failure_def Let_def
        FAILURE_THRESHOLD_def split: circuit.splits if_splits)
qed

lemma outputs_append: "\<exists>s'. \<forall>ys. outputs step (xs @ ys) s = outputs step xs s @ outputs step ys s'"
proof (induction xs arbitrary: s)
  case (Cons x xs)
  obtain out s1 where "step x s = (out, s1)" by fastforce
  with Cons.IH[of s1] show ?case by auto
qed auto

lemma same_time_ok: "inputs_ok clock_ok (events @ [Ask t]) h \<Longrightarrow> inputs_ok clock_ok (events @ replicate n (Ask t)) h"
proof (induction events arbitrary: h)
  case Nil
  have "inputs_ok clock_ok (replicate n (Ask t)) t" by (induction n) simp_all
  with Nil show ?case by (cases n) (auto split: if_splits)
qed (auto split: option.splits)

lemma spec_asks: "outputs spec_step (replicate n (Ask t)) a = replicate n (fst (spec_step (Ask t) a))"
  by (induction n) (simp_all add: case_prod_beta, cases a, simp)

text \<open>
  The breaker rejects exactly while the latest outcomes are five or more failures in a row
  and at most 30 seconds have passed since the last one, over every sequence of requests,
  successes and failures with a monotonic clock. The documents promise that the
  half-open state lets a single probe through; it does not: any number of requests asked at the same time,
  before an outcome is recorded, get the same answer, whatever happened before.
\<close>

theorem breaker_refines_spec:
  assumes "inputs_ok clock_ok events time"
  shows "outputs breaker_step events initial_breaker = outputs spec_step events (0, 0) \<and>
    (\<forall>t. inputs_ok clock_ok (events @ [Ask t]) time \<longrightarrow>
      (\<exists>ok. \<forall>n. outputs breaker_step (events @ replicate n (Ask t)) initial_breaker = outputs breaker_step events initial_breaker @ replicate n ok))"
proof -
  have eq: "outputs breaker_step is initial_breaker = outputs spec_step is (0, 0)" if "inputs_ok clock_ok is time" for "is"
  proof (rule circuit_breaker.refines)
    show "breaker_rel time initial_breaker (0, 0)"
      by (simp add: breaker_rel_def initial_breaker_def FAILURE_THRESHOLD_def)
  qed (rule that)
  obtain a where a: "\<forall>ys. outputs spec_step (events @ ys) (0, 0) = outputs spec_step events (0, 0) @ outputs spec_step ys a"
    using outputs_append[of spec_step events "(0, 0)"] by blast
  have "outputs breaker_step (events @ replicate n (Ask t)) initial_breaker =
      outputs breaker_step events initial_breaker @ replicate n (fst (spec_step (Ask t) a))"
    if "inputs_ok clock_ok (events @ [Ask t]) time" for t n
    using eq[OF same_time_ok[OF that]] eq[OF assms] a by (simp add: spec_asks)
  with eq[OF assms] show ?thesis by blast
qed

definition sample_events :: "breaker_event list" where
  "sample_events = replicate 5 (Failure 7) @ [Ask 8, Ask 37, Ask 38, Ask 38, Failure 40, Ask 41, Success, Ask 42]"

theorem breaker_refines_spec_witness:
  "outputs breaker_step sample_events initial_breaker = outputs spec_step sample_events (0, 0) \<and>
   outputs spec_step sample_events (0, 0) =
     [True, True, True, True, True, False, False, True, True, True, False, True, True]"
proof
  show "outputs breaker_step sample_events initial_breaker = outputs spec_step sample_events (0, 0)"
    by (rule breaker_refines_spec[of _ 0, THEN conjunct1]) (simp add: sample_events_def eval_nat_numeral)
  show "outputs spec_step sample_events (0, 0) =
     [True, True, True, True, True, False, False, True, True, True, False, True, True]"
    by (simp add: sample_events_def eval_nat_numeral FAILURE_THRESHOLD_def RECOVERY_TIMEOUT_def)
qed

text \<open>
  The half-open state is not one probe: once the recovery time has passed, every
  request is let through until an outcome is recorded, however many there are.
\<close>

theorem half_open_admits_all:
  assumes "t - cb_last_failure_time b > RECOVERY_TIMEOUT"
  shows "outputs breaker_step (replicate n (Ask t)) b = replicate n True"
  using assms
proof (induction n arbitrary: b)
  case (Suc n)
  obtain b' where "check_circuit t b = (True, b')" "cb_last_failure_time b' = cb_last_failure_time b"
    using Suc.prems by (cases "cb_state b") (auto simp: check_circuit_def)
  with Suc show ?case by simp
qed simp

theorem half_open_admits_all_witness:
  "outputs breaker_step (replicate 3 (Ask 100)) \<lparr>cb_state = Open, cb_failure_count = 9, cb_last_failure_time = 50\<rparr> =
     replicate 3 True"
  by (rule half_open_admits_all) (simp add: RECOVERY_TIMEOUT_def)

section \<open>Sending through the breaker\<close>

lemma reported_post_run:
  assumes "run (reported_post env rq) s = (r, s')"
  shows "cv_requests s' = cv_requests s @ [rq] \<and>
    (case r of
       Inr uid \<Rightarrow> cv_breaker s' = record_success (cv_breaker s) \<and> (\<exists>v. ce_http env (cv_tick s) rq = Inr v \<and> data_uid v = Inr uid)
     | Inl e \<Rightarrow> if e = ConnectError \<or> e = TimeoutException
         then \<exists>t. cv_breaker s' = record_failure t (cv_breaker s) else cv_breaker s' = cv_breaker s)"
proof -
  let ?s = "s\<lparr>cv_tick := Suc (cv_tick s), cv_requests := cv_requests s @ [rq]\<rparr>"
  let ?x = "rbind (ce_http env (cv_tick s) rq) data_uid"
  have t: "run (post_for_uid env rq) s =
    (?x, case ?x of Inr uid \<Rightarrow> ?s\<lparr>cv_breaker := record_success (cv_breaker s)\<rparr> | Inl e \<Rightarrow> ?s)"
    by (simp add: post_for_uid_def http_call_def note_success_def rbind_def split: sum.split)
  show ?thesis
  proof (cases ?x)
    case (Inl e)
    then have "run (post_for_uid env rq) s = (Inl e, ?s)" using t by simp
    then show ?thesis using assms by (auto simp: reported_post_def note_failure_def monotonic_def split: if_splits)
  next
    case (Inr uid)
    then have "run (post_for_uid env rq) s = (Inr uid, ?s\<lparr>cv_breaker := record_success (cv_breaker s)\<rparr>)" using t by simp
    then have "r = Inr uid" "s' = ?s\<lparr>cv_breaker := record_success (cv_breaker s)\<rparr>"
      using assms by (simp_all add: reported_post_def)
    then show ?thesis using Inr by (simp add: rbind_eq_Inr)
  qed
qed

text \<open>
  A webhook goes to Convoy exactly when the breaker lets it: a rejected one
  raises at once, with no request and no change of the breaker; an admitted one makes
  exactly one request, targeted as asked and with the probe's timeout only in the
  half-open state, and its success closes the breaker, a transport error counts as
  one failure, and any other error leaves the breaker alone.
\<close>

theorem send_webhook_guarded:
  assumes "run (send_webhook env app ty payload ep key) s = (r, s')"
    and "check_circuit (ce_clock env (cv_tick s)) (cv_breaker s) = (allowed, b)"
  shows "(\<not> allowed \<longrightarrow> r = Inl CircuitOpenError \<and> cv_requests s' = cv_requests s \<and> cv_breaker s' = cv_breaker s) \<and>
    (allowed \<longrightarrow> (\<exists>rq. cv_requests s' = cv_requests s @ [rq] \<and> cr_path rq = ''/api/v1/projects/'' @ app @ ''/events'' \<and>
       map_of (cr_body rq) ''data'' = Some (PyDict payload) \<and>
       (cr_timeout rq = Some HALF_OPEN_TIMEOUT \<longleftrightarrow> cb_state b = Half_open)) \<and>
     (case r of
        Inr uid \<Rightarrow> cb_state (cv_breaker s') = Closed \<and> cb_failure_count (cv_breaker s') = 0
      | Inl e \<Rightarrow> cb_failure_count (cv_breaker s') = cb_failure_count b +
          (if e = ConnectError \<or> e = TimeoutException then 1 else 0)))"
proof (cases allowed)
  case False
  then have "b = cv_breaker s" using assms(2) by (auto simp: check_circuit_def split: circuit.splits if_splits)
  with assms False show ?thesis
    by (auto simp: send_webhook_def guard_circuit_def monotonic_def)
next
  case True
  let ?s = "s\<lparr>cv_tick := Suc (cv_tick s), cv_breaker := b\<rparr>"
  let ?rq = "\<lparr>cr_verb = ''POST'', cr_path = ''/api/v1/projects/'' @ app @ ''/events'',
         cr_body = [(''event_type'', PyStr ty), (''data'', PyDict payload)] @
           optional_field ''endpoint_id'' ep @ optional_field ''idempotency_key'' key,
         cr_timeout = (if cb_state b = Half_open then Some HALF_OPEN_TIMEOUT else None)\<rparr>"
  have "run (reported_post env ?rq) ?s = (r, s')"
    using assms True by (simp add: send_webhook_def guard_circuit_def monotonic_def)
  note p = reported_post_run[OF this]
  have "\<exists>rq. cv_requests s' = cv_requests s @ [rq] \<and> cr_path rq = ''/api/v1/projects/'' @ app @ ''/events'' \<and>
       map_of (cr_body rq) ''data'' = Some (PyDict payload) \<and>
       (cr_timeout rq = Some HALF_OPEN_TIMEOUT \<longleftrightarrow> cb_state b = Half_open)"
    using p by (intro exI[of _ ?rq]) simp
  moreover have "case r of
        Inr uid \<Rightarrow> cb_state (cv_breaker s') = Closed \<and> cb_failure_count (cv_breaker s') = 0
      | Inl e \<Rightarrow> cb_failure_count (cv_breaker s') = cb_failure_count b +
          (if e = ConnectError \<or> e = TimeoutException then 1 else 0)"
    using p by (auto simp: record_success_def record_failure_def Let_def split: sum.splits if_splits)
  ultimately show ?thesis using True by simp
qed

definition convoy_up :: convoy_env where
  "convoy_up = \<lparr>ce_clock = (\<lambda>n. of_nat n),
     ce_http = (\<lambda>_ _. Inr (PyDict [(''data'', PyDict [(''uid'', PyStr ''ev1'')])]))\<rparr>"

definition idle_convoy :: convoy where
  "idle_convoy = \<lparr>cv_tick = 0, cv_breaker = initial_breaker, cv_requests = []\<rparr>"

theorem send_webhook_guarded_witness:
  "\<exists>s'. run (send_webhook convoy_up ''p'' ''payment.confirmed'' [] (Some ''e'') None) idle_convoy = (Inr (PyStr ''ev1''), s') \<and>
     cb_failure_count (cv_breaker s') = 0"
proof -
  let ?m = "send_webhook convoy_up ''p'' ''payment.confirmed'' [] (Some ''e'') None"
  have "fst (run ?m idle_convoy) = Inr (PyStr ''ev1'')"
    by (simp add: send_webhook_def guard_circuit_def monotonic_def reported_post_def post_for_uid_def http_call_def convoy_up_def
        idle_convoy_def initial_breaker_def check_circuit_def data_uid_def subscript_def note_success_def)
  then obtain s' where r: "run ?m idle_convoy = (Inr (PyStr ''ev1''), s')" by (metis prod.collapse)
  have "check_circuit (ce_clock convoy_up (cv_tick idle_convoy)) (cv_breaker idle_convoy) = (True, initial_breaker)"
    by (simp add: check_circuit_def idle_convoy_def initial_breaker_def)
  from send_webhook_guarded[OF r this] r show ?thesis by auto
qed

end
