(* ===== verification/Rest_Reads.thy ===== *)
theory Rest_Reads
  imports Rest_Routes Mcp_Server Convoy Floats
begin

text \<open>
  The HTTP routes that report events, deliveries and statistics (\<open>api/routes/events.py\<close>,
  \<open>deliveries.py\<close>, \<open>stats.py\<close>) with the queries of \<open>db/repositories/webhooks.py\<close> they use. Listings
  are paginated by key: a page holds the newest rows older than the cursor's row, and one row
  more than the limit is asked for to see whether there is a next page. The last section lets a
  caller follow the cursors.
\<close>

section \<open>Pages\<close>

record 'a list_response =
  lr_data :: "'a list"
  lr_cursor :: "string option"
  lr_has_more :: bool

definition empty_response :: "'a list_response" where
  "empty_response = \<lparr>lr_data = [], lr_cursor = None, lr_has_more = False\<rparr>"

definition given :: "string option \<Rightarrow> bool" where
  "given x = (case x of Some s \<Rightarrow> s \<noteq> [] | None \<Rightarrow> False)"

definition matches :: "string option \<Rightarrow> string \<Rightarrow> bool" where
  "matches x v = (case x of Some s \<Rightarrow> s = [] \<or> v = s | None \<Rightarrow> True)"

definition older :: "int option \<Rightarrow> int \<Rightarrow> bool" where
  "older bound t = (case bound of None \<Rightarrow> True | Some b \<Rightarrow> t < b)"

definition keyset :: "('a \<Rightarrow> int) \<Rightarrow> ('a \<Rightarrow> bool) \<Rightarrow> int option \<Rightarrow> nat \<Rightarrow> 'a list \<Rightarrow> 'a list" where
  "keyset created P bound n rows =
     take n (sort_key (\<lambda>r. - created r) (filter (\<lambda>r. P r \<and> older bound (created r)) rows))"

text \<open>\<open>limit: int = Query(50, ge=1, le=200)\<close>.\<close>

definition check_limit :: "int \<Rightarrow> nat result" where
  "check_limit limit = (if 1 \<le> limit \<and> limit \<le> 200 then Inr (nat limit) else Inl unprocessable)"

definition cut_page :: "('a \<Rightarrow> string) \<Rightarrow> nat \<Rightarrow> 'a list \<Rightarrow> 'a list \<times> string option \<times> bool" where
  "cut_page key limit rows =
     (let has_more = length rows > limit; rows' = (if has_more then take limit rows else rows) in
      (rows', if has_more \<and> rows' \<noteq> [] then Some (key (last rows')) else None, has_more))"

definition wallet_endpoint_ids :: "string \<Rightarrow> world \<Rightarrow> string list" where
  "wallet_endpoint_ids wallet w =
     map ep_id (filter (\<lambda>e. ep_owner_address e = wallet) (w_endpoints w)) @
     map iv_id (filter (\<lambda>r. iv_owner_address r = wallet) (w_invalid_endpoints w))"

section \<open>Deliveries\<close>

record DeliveryResponse =
  dr_delivery :: DeliveryRow
  dr_execution_state :: "string option"
  dr_safe_to_execute :: "bool option"

definition plain_delivery :: "DeliveryRow \<Rightarrow> DeliveryResponse" where
  "plain_delivery d = \<lparr>dr_delivery = d, dr_execution_state = None, dr_safe_to_execute = None\<rparr>"

definition enriched_delivery :: "(string \<times> string) list \<Rightarrow> DeliveryRow \<Rightarrow> DeliveryResponse" where
  "enriched_delivery status_map d =
     (let status = (case map_of status_map (dl_event_id d) of Some s \<Rightarrow> s | None \<Rightarrow> ''pending'') in
      case execution_state_from_status status of (state, safe, _) \<Rightarrow>
        \<lparr>dr_delivery = d, dr_execution_state = Some (state_value state), dr_safe_to_execute = Some safe\<rparr>)"

definition enrich_deliveries :: "env \<Rightarrow> DeliveryRow list \<Rightarrow> DeliveryResponse list io" where
  "enrich_deliveries env rows =
     (let ids = remdups (filter (\<lambda>i. i \<noteq> []) (map dl_event_id rows)) in
      if ids = [] then eret (map plain_delivery rows)
      else ebind (etry (query env (\<lambda>w. map (\<lambda>r. (er_id r, er_status r)) (filter (\<lambda>r. er_id r \<in> set ids) (w_events w))))) (\<lambda>r.
        case r of
          Inl _ \<Rightarrow> eret (map plain_delivery rows)
        | Inr status_map \<Rightarrow> eret (map (enriched_delivery status_map) rows)))"

definition delivery_before :: "env \<Rightarrow> string option \<Rightarrow> int option io" where
  "delivery_before env cursor = (case cursor of
      Some c \<Rightarrow> if c = [] then eret None else query env (\<lambda>w. map_option dl_created_at (find_delivery c w))
    | None \<Rightarrow> eret None)"

definition delivery_page :: "env \<Rightarrow> nat \<Rightarrow> DeliveryRow list \<Rightarrow> DeliveryResponse list_response io" where
  "delivery_page env limit rows = (case cut_page dl_id limit rows of (rows', cursor, has_more) \<Rightarrow>
     ebind (enrich_deliveries env rows') (\<lambda>rs. eret \<lparr>lr_data = rs, lr_cursor = cursor, lr_has_more = has_more\<rparr>))"

definition rest_list_deliveries ::
  "env \<Rightarrow> string \<Rightarrow> string option \<Rightarrow> string option \<Rightarrow> string option \<Rightarrow> string option \<Rightarrow> nat \<Rightarrow> DeliveryResponse list_response io" where
  "rest_list_deliveries env wallet endpoint_id event_id status cursor limit =
     ebind (if given endpoint_id then ebind (owned_endpoint env wallet (the endpoint_id)) (\<lambda>_. eret ()) else eret ()) (\<lambda>_.
     ebind (query env (wallet_endpoint_ids wallet)) (\<lambda>ids.
     if ids = [] then eret empty_response
     else ebind (delivery_before env cursor) (\<lambda>bound.
       ebind (query env (\<lambda>w. keyset dl_created_at (\<lambda>d. dl_endpoint_id d \<in> set ids \<and> matches endpoint_id (dl_endpoint_id d) \<and>
         matches event_id (dl_event_id d) \<and> matches status (dl_status d)) bound (limit + 1) (w_deliveries w))) (\<lambda>rows.
       delivery_page env limit rows))))"

text \<open>The delivery with its parent, which must be the caller's.\<close>

definition owned_delivery :: "env \<Rightarrow> string \<Rightarrow> string \<Rightarrow> (DeliveryRow \<times> raw_endpoint) io" where
  "owned_delivery env wallet delivery_id =
     ebind (delivery_get_by_id env delivery_id) (\<lambda>row. case row of
        None \<Rightarrow> not_found ''Delivery''
      | Some d \<Rightarrow> ebind (query env (find_raw (dl_endpoint_id d))) (\<lambda>ep. case ep of
          None \<Rightarrow> not_found ''Parent endpoint''
        | Some r \<Rightarrow> ebind (elift (verify_ownership r wallet)) (\<lambda>_. eret (d, r))))"

definition rest_get_delivery :: "env \<Rightarrow> string \<Rightarrow> string \<Rightarrow> DeliveryResponse io" where
  "rest_get_delivery env wallet delivery_id =
     ebind (owned_delivery env wallet delivery_id) (\<lambda>(d, _).
     ebind (enrich_deliveries env [d]) (\<lambda>rs. eret (hd rs)))"

definition list_paginated ::
  "env \<Rightarrow> string option \<Rightarrow> string option \<Rightarrow> string option \<Rightarrow> string option \<Rightarrow> nat \<Rightarrow> DeliveryRow list io" where
  "list_paginated env endpoint_id event_id status cursor limit =
     ebind (delivery_before env cursor) (\<lambda>bound.
       query env (\<lambda>w. keyset dl_created_at (\<lambda>d. matches endpoint_id (dl_endpoint_id d) \<and> matches event_id (dl_event_id d) \<and>
         matches status (dl_status d)) bound (limit + 1) (w_deliveries w)))"

definition rest_list_endpoint_deliveries ::
  "env \<Rightarrow> string \<Rightarrow> string \<Rightarrow> string option \<Rightarrow> string option \<Rightarrow> nat \<Rightarrow> DeliveryResponse list_response io" where
  "rest_list_endpoint_deliveries env wallet endpoint_id status cursor limit =
     ebind (owned_endpoint env wallet endpoint_id) (\<lambda>_.
     ebind (list_paginated env (Some endpoint_id) None status cursor limit) (delivery_page env limit))"

record delivery_stats =
  ds_endpoint_id :: string
  ds_total :: nat
  ds_pending :: nat
  ds_sent :: nat
  ds_delivered :: nat
  ds_failed :: nat
  ds_success_rate :: rat

text \<open>\<open>round(x, 4)\<close> of a non-negative float.\<close>

definition round4 :: "rat \<Rightarrow> rat" where
  "round4 x = f64 (of_int (half_even (x * 10000)) / 10000)"

definition with_status :: "string \<Rightarrow> DeliveryRow list \<Rightarrow> nat" where
  "with_status s rows = length (filter (\<lambda>d. dl_status d = s) rows)"

definition stats_of :: "string \<Rightarrow> DeliveryRow list \<Rightarrow> delivery_stats" where
  "stats_of endpoint_id rows =
     (let n = length rows; success = with_status ''delivered'' rows + with_status ''sent'' rows in
      \<lparr>ds_endpoint_id = endpoint_id, ds_total = n, ds_pending = with_status ''pending'' rows,
       ds_sent = with_status ''sent'' rows, ds_delivered = with_status ''delivered'' rows, ds_failed = with_status ''failed'' rows,
       ds_success_rate = (if n > 0 then round4 (f64 (of_nat success / of_nat n)) else 0)\<rparr>)"

definition get_stats_for_endpoint :: "env \<Rightarrow> string \<Rightarrow> delivery_stats io" where
  "get_stats_for_endpoint env endpoint_id =
     ebind (query env (\<lambda>w. filter (\<lambda>d. dl_endpoint_id d = endpoint_id) (w_deliveries w))) (\<lambda>rows. eret (stats_of endpoint_id rows))"

definition rest_get_delivery_stats :: "env \<Rightarrow> string \<Rightarrow> string \<Rightarrow> delivery_stats io" where
  "rest_get_delivery_stats env wallet endpoint_id =
     ebind (owned_endpoint env wallet endpoint_id) (\<lambda>_. get_stats_for_endpoint env endpoint_id)"

section \<open>Retrying a delivery\<close>

text \<open>Retrying acts on the tables and, through the Convoy client, on the provider.\<close>

type_synonym 'a desk = "(world \<times> convoy, 'a) act"

definition on_tables :: "'a io \<Rightarrow> 'a desk" where
  "on_tables m = ebind (egets (\<lambda>(w, c). run m w)) (\<lambda>(r, w'). ebind (emodify (\<lambda>(_, c). (w', c))) (\<lambda>_. elift r))"

definition on_convoy :: "'a cv \<Rightarrow> 'a desk" where
  "on_convoy m = ebind (egets (\<lambda>(w, c). run m c)) (\<lambda>(r, c'). ebind (emodify (\<lambda>(w, _). (w, c'))) (\<lambda>_. elift r))"

text \<open>\<open>cp\<close> is the project of a row without a model.\<close>

definition raw_project :: "(InvalidRow \<Rightarrow> string option) \<Rightarrow> raw_endpoint \<Rightarrow> string option" where
  "raw_project cp r = (case r of Valid e \<Rightarrow> ep_convoy_project_id e | Invalid v \<Rightarrow> cp v)"

definition bad_request :: "string \<Rightarrow> exn" where
  "bad_request detail = HTTPException 400 detail"

definition rest_retry_delivery ::
  "env \<Rightarrow> convoy_env \<Rightarrow> (InvalidRow \<Rightarrow> string option) \<Rightarrow> string \<Rightarrow> string \<Rightarrow> string desk" where
  "rest_retry_delivery env ce cp wallet delivery_id =
     ebind (on_tables (owned_delivery env wallet delivery_id)) (\<lambda>(d, r).
     if dl_status d \<noteq> ''failed'' then eraise (bad_request ''Only failed deliveries can be retried'')
     else if \<not> given (raw_project cp r) then eraise (bad_request ''Endpoint has no Convoy project configured'')
     else if \<not> given (dl_provider_message_id d) then eraise (bad_request ''Delivery has no provider message ID for retry'')
     else
       ebind (ecatch (on_convoy (retry_message ce (en_py_str env) (the (raw_project cp r)) (the (dl_provider_message_id d))))
         (\<lambda>_. eraise (HTTPException 502 ''Failed to retry delivery via Convoy''))) (\<lambda>_.
       ebind (on_tables (delivery_update_status env delivery_id ''pending'')) (\<lambda>_. eret delivery_id)))"

section \<open>Events\<close>

record EventResponse =
  ev_id :: string
  ev_endpoint_id :: "string option"
  ev_type :: WebhookEventType
  ev_created_at :: int
  ev_execution_state :: string
  ev_safe_to_execute :: bool
  ev_trust_source :: string

definition trust_value :: "TrustSource \<Rightarrow> string" where
  "trust_value s = (case s of FACILITATOR \<Rightarrow> ''facilitator'' | ONCHAIN \<Rightarrow> ''onchain'')"

definition enrich_event :: "EventRow \<Rightarrow> EventResponse result" where
  "enrich_event r = (case execution_state_from_status (er_status r) of (state, safe, source) \<Rightarrow>
     rbind (of_option ValidationError (webhook_type_of (er_type r))) (\<lambda>t.
       Inr \<lparr>ev_id = er_id r, ev_endpoint_id = er_endpoint_id r, ev_type = t, ev_created_at = er_created_at r,
            ev_execution_state = state_value state, ev_safe_to_execute = safe, ev_trust_source = trust_value source\<rparr>))"

fun map_result :: "('a \<Rightarrow> 'b result) \<Rightarrow> 'a list \<Rightarrow> 'b list result" where
  "map_result f [] = Inr []"
| "map_result f (x # xs) = rbind (f x) (\<lambda>y. rbind (map_result f xs) (\<lambda>ys. Inr (y # ys)))"

definition event_before :: "env \<Rightarrow> string option \<Rightarrow> int option io" where
  "event_before env cursor = (case cursor of
      Some c \<Rightarrow> if c = [] then eret None else query env (\<lambda>w. map_option er_created_at (find_event c w))
    | None \<Rightarrow> eret None)"

definition event_page :: "nat \<Rightarrow> EventRow list \<Rightarrow> EventResponse list_response result" where
  "event_page limit rows = (case cut_page er_id limit rows of (rows', cursor, has_more) \<Rightarrow>
     rbind (map_result enrich_event rows') (\<lambda>rs. Inr \<lparr>lr_data = rs, lr_cursor = cursor, lr_has_more = has_more\<rparr>))"

definition linked_to :: "string list \<Rightarrow> world \<Rightarrow> string list" where
  "linked_to ids w = map fst (filter (\<lambda>(_, ep). ep \<in> set ids) (w_event_endpoints w))"

definition matches_chain :: "int option \<Rightarrow> EventRow \<Rightarrow> bool" where
  "matches_chain c r = (case c of Some i \<Rightarrow> i = 0 \<or> er_chain_id r = Some i | None \<Rightarrow> True)"

definition matches_type :: "WebhookEventType option \<Rightarrow> EventRow \<Rightarrow> bool" where
  "matches_type t r = (case t of Some x \<Rightarrow> er_type r = webhook_type_value x | None \<Rightarrow> True)"

text \<open>The events of the ids found, one page.\<close>

definition linked_page ::
  "env \<Rightarrow> string list \<Rightarrow> string option \<Rightarrow> nat \<Rightarrow> (EventRow \<Rightarrow> bool) \<Rightarrow> EventResponse list_response io" where
  "linked_page env found_ids cursor limit P =
     (if found_ids = [] then eret empty_response
      else ebind (event_before env cursor) (\<lambda>bound.
        ebind (query env (\<lambda>w. keyset er_created_at (\<lambda>r. er_id r \<in> set found_ids \<and> P r) bound (limit + 1) (w_events w))) (\<lambda>rows.
        elift (event_page limit rows))))"

definition rest_list_events ::
  "env \<Rightarrow> string \<Rightarrow> string option \<Rightarrow> nat \<Rightarrow> WebhookEventType option \<Rightarrow> int option \<Rightarrow> EventResponse list_response io" where
  "rest_list_events env wallet cursor limit event_type chain_id =
     ebind (query env (wallet_endpoint_ids wallet)) (\<lambda>ids.
     if ids = [] then eret empty_response
     else ebind (query env (linked_to ids)) (\<lambda>found_ids.
       linked_page env found_ids cursor limit (\<lambda>r. matches_type event_type r \<and> matches_chain chain_id r)))"

definition rest_get_event :: "env \<Rightarrow> string \<Rightarrow> string \<Rightarrow> EventResponse io" where
  "rest_get_event env wallet event_id =
     ebind (query env (find_event event_id)) (\<lambda>event. case event of
        None \<Rightarrow> not_found ''Event''
      | Some r \<Rightarrow>
          ebind (query env (linked event_id)) (\<lambda>ids.
          (let ids' = (if ids = [] \<and> given (er_endpoint_id r) then [the (er_endpoint_id r)] else ids) in
           if ids' = [] then eraise (HTTPException 403 ''Not authorized to access this event'')
           else ebind (query env (wallet_endpoint_ids wallet)) (\<lambda>own.
             if set ids' \<inter> set own = {} then eraise (HTTPException 403 ''Not authorized to access this event'')
             else elift (enrich_event r)))))"

definition rest_list_endpoint_events ::
  "env \<Rightarrow> string \<Rightarrow> string \<Rightarrow> string option \<Rightarrow> nat \<Rightarrow> EventResponse list_response io" where
  "rest_list_endpoint_events env wallet endpoint_id cursor limit =
     ebind (owned_endpoint env wallet endpoint_id) (\<lambda>_.
     ebind (query env (linked_to [endpoint_id])) (\<lambda>found_ids.
       linked_page env found_ids cursor limit (\<lambda>_. True)))"

section \<open>Statistics\<close>

text \<open>\<open>sr_more\<close> is the breakdown by execution state and the product mode with its two switches.\<close>

record stats_response =
  sr_total_events :: nat
  sr_events_last_hour :: nat
  sr_active_endpoints :: nat
  sr_last_event_at :: "int option"
  sr_more :: "((string \<times> nat) list \<times> string \<times> bool \<times> bool) option"

definition bump :: "string \<Rightarrow> (string \<times> nat) list \<Rightarrow> (string \<times> nat) list" where
  "bump k d = (if k \<in> set (map fst d) then map (\<lambda>(k', n). if k' = k then (k', n + 1) else (k', n)) d else d @ [(k, 1)])"

definition breakdown :: "EventRow list \<Rightarrow> (string \<times> nat) list" where
  "breakdown rows = foldl (\<lambda>d r. bump (state_value (fst (execution_state_from_status (er_status r)))) d) [] rows"

definition active_owned :: "string \<Rightarrow> world \<Rightarrow> nat" where
  "active_owned wallet w = length (filter (\<lambda>e. ep_active e \<and> ep_owner_address e = wallet) (w_endpoints w)) +
     length (filter (\<lambda>r. iv_active r \<and> iv_owner_address r = wallet) (w_invalid_endpoints w))"

definition among :: "string list \<Rightarrow> world \<Rightarrow> EventRow list" where
  "among ids w = filter (\<lambda>r. er_id r \<in> set ids) (w_events w)"

definition product_of :: "env \<Rightarrow> string \<times> bool \<times> bool" where
  "product_of env = (let st = en_settings env in (st_product_mode st, is_pulse st, is_keeper st))"

definition rest_get_stats :: "env \<Rightarrow> string \<Rightarrow> stats_response io" where
  "rest_get_stats env wallet =
     ebind (query env (wallet_endpoint_ids wallet)) (\<lambda>ids.
     if ids = [] then eret \<lparr>sr_total_events = 0, sr_events_last_hour = 0, sr_active_endpoints = 0, sr_last_event_at = None, sr_more = None\<rparr>
     else ebind (query env (active_owned wallet)) (\<lambda>live.
       ebind (query env (linked_to ids)) (\<lambda>found.
       (let found_ids = remdups found in
        if found_ids = [] then eret \<lparr>sr_total_events = 0, sr_events_last_hour = 0, sr_active_endpoints = live,
          sr_last_event_at = None, sr_more = Some ([], product_of env)\<rparr>
        else
          ebind (now env) (\<lambda>time.
          ebind (query env (\<lambda>w. length (filter (\<lambda>r. er_created_at r \<ge> time - 3600) (among found_ids w)))) (\<lambda>recent.
          ebind (query env (\<lambda>w. map er_created_at (keyset er_created_at (\<lambda>r. er_id r \<in> set found_ids) None 1 (w_events w)))) (\<lambda>newest.
          ebind (etry (query env (\<lambda>w. breakdown (among found_ids w)))) (\<lambda>parts.
            eret \<lparr>sr_total_events = length found_ids, sr_events_last_hour = recent, sr_active_endpoints = live,
              sr_last_event_at = (case newest of [] \<Rightarrow> None | t # _ \<Rightarrow> Some t),
              sr_more = Some (case parts of Inr d \<Rightarrow> d | Inl _ \<Rightarrow> [], product_of env)\<rparr>))))))))"

text \<open>\<open>view\<close> is the materialized view \<open>agent_metrics\<close>: addresses with their row.\<close>

record agent_metrics =
  am_agent_address :: string
  am_total_events :: nat
  am_finalized_events :: nat
  am_successful_deliveries :: nat
  am_active_triggers :: nat

definition rest_get_agent_metrics :: "env \<Rightarrow> agent_metrics list \<Rightarrow> string \<Rightarrow> agent_metrics io" where
  "rest_get_agent_metrics env view wallet =
     ecatch (ebind (query env (\<lambda>_. find (\<lambda>m. am_agent_address m = wallet) view)) (\<lambda>r. case r of
         Some m \<Rightarrow> eret m
       | None \<Rightarrow> eret \<lparr>am_agent_address = wallet, am_total_events = 0, am_finalized_events = 0,
           am_successful_deliveries = 0, am_active_triggers = 0\<rparr>))
       (\<lambda>_. eraise (HTTPException 503 ''Agent metrics unavailable''))"

end
