(* ===== verification/Read_Props.thy ===== *)
theory Read_Props
  imports Rest_Reads Rest_Props
begin

text \<open>
  What the reporting routes return: following the cursors of a listing ends and, when no two
  rows were created at the same time, visits every row once, newest first; answers contain only
  rows of the caller's endpoints; a retry touches one failed delivery of the caller or none.
\<close>

section \<open>Walking through pages\<close>

text \<open>The rows a listing still has to show, newest first.\<close>

definition remaining :: "('a \<Rightarrow> int) \<Rightarrow> ('a \<Rightarrow> bool) \<Rightarrow> 'a list \<Rightarrow> int option \<Rightarrow> 'a list" where
  "remaining created P rows bound = sort_key (\<lambda>r. - created r) (filter (\<lambda>r. P r \<and> older bound (created r)) rows)"

lemma keyset_remaining: "keyset created P bound n rows = take n (remaining created P rows bound)"
  by (simp add: keyset_def remaining_def)

fun walk :: "('a \<Rightarrow> int) \<Rightarrow> ('a \<Rightarrow> bool) \<Rightarrow> 'a list \<Rightarrow> nat \<Rightarrow> nat \<Rightarrow> int option \<Rightarrow> 'a list option" where
  "walk created P rows limit 0 bound = None"
| "walk created P rows limit (Suc n) bound =
     (let rest = remaining created P rows bound in
      if length rest > limit
      then map_option ((@) (take limit rest)) (walk created P rows limit n (Some (created (last (take limit rest)))))
      else Some rest)"

lemma older_trans: "older bound t \<Longrightarrow> s < t \<Longrightarrow> older bound s"
  by (auto simp: older_def split: option.splits)

lemma remaining_next:
  assumes "x \<in> set (remaining created P rows bound)"
  shows "remaining created P rows (Some (created x)) = filter (\<lambda>r. created r < created x) (remaining created P rows bound)"
    and "length (remaining created P rows (Some (created x))) < length (remaining created P rows bound)"
proof -
  have "older bound (created x)" using assms by (simp add: remaining_def)
  then have "filter (\<lambda>r. P r \<and> older (Some (created x)) (created r)) rows =
      filter (\<lambda>r. created r < created x) (filter (\<lambda>r. P r \<and> older bound (created r)) rows)"
    by (auto simp: older_def[of "Some _"] intro!: filter_cong dest: older_trans)
  then show eq: "remaining created P rows (Some (created x)) = filter (\<lambda>r. created r < created x) (remaining created P rows bound)"
    by (simp only: remaining_def filter_sort)
  show "length (remaining created P rows (Some (created x))) < length (remaining created P rows bound)"
    unfolding eq by (rule length_filter_less[OF assms]) simp
qed

lemma page_last:
  assumes "0 < limit" and "limit < length rest"
  shows "last (take limit rest) \<in> set rest" "take limit rest \<noteq> []"
proof -
  show ne: "take limit rest \<noteq> []" using assms by auto
  show "last (take limit rest) \<in> set rest" by (rule in_set_takeD[OF last_in_set[OF ne]])
qed

text \<open>Every page has a row that the next bound excludes, so the walk ends.\<close>

lemma walk_ends:
  assumes "0 < limit" and "length (remaining created P rows bound) < n"
  shows "\<exists>rs. walk created P rows limit n bound = Some rs \<and>
    set rs \<subseteq> set (remaining created P rows bound)"
  using assms(2)
proof (induction n arbitrary: bound)
  case (Suc n)
  let ?rest = "remaining created P rows bound"
  show ?case
  proof (cases "limit < length ?rest")
    case True
    let ?x = "last (take limit ?rest)"
    have x: "?x \<in> set ?rest" using page_last(1)[OF assms(1) True] .
    from remaining_next(2)[OF x] Suc.prems have "length (remaining created P rows (Some (created ?x))) < n" by simp
    from Suc.IH[OF this] obtain rs where "walk created P rows limit n (Some (created ?x)) = Some rs"
      "set rs \<subseteq> set (remaining created P rows (Some (created ?x)))" by blast
    then show ?thesis using True remaining_next(1)[OF x] by (auto simp: Let_def dest: in_set_takeD)
  qed (simp add: Let_def)
qed simp

text \<open>Without ties the bound separates the page from the rest.\<close>

lemma take_filter_split:
  fixes created :: "'a \<Rightarrow> int"
  assumes "sorted_wrt (\<lambda>a b. created b < created a) xs" and "0 < limit" and "limit < length xs"
  shows "take limit xs @ filter (\<lambda>r. created r < created (last (take limit xs))) xs = xs"
proof -
  let ?A = "take limit xs" and ?B = "drop limit xs"
  obtain C z where C: "?A = C @ [z]" using page_last(2)[OF assms(2,3)] by (cases ?A rule: rev_cases) auto
  have "sorted_wrt (\<lambda>a b. created b < created a) (?A @ ?B)" using assms(1) by simp
  then have s: "\<forall>r \<in> set C. created z < created r" "\<forall>r \<in> set ?B. created r < created z"
    unfolding C by (simp_all add: sorted_wrt_append)
  have "filter (\<lambda>r. created r < created z) (?A @ ?B) = ?B"
    using s unfolding C by (fastforce simp: filter_empty_conv)
  then have "filter (\<lambda>r. created r < created z) xs = ?B" by simp
  moreover have "last ?A = z" using C by simp
  ultimately show ?thesis by simp
qed

lemma sorted_distinct_desc:
  assumes "distinct (map created (filter P rows))"
  shows "sorted_wrt (\<lambda>a b. created b < created a) (remaining created P rows bound)"
proof -
  let ?f = "\<lambda>r. - created r" and ?xs = "remaining created P rows bound"
  have "sorted (map ?f ?xs)" unfolding remaining_def by (rule sorted_sort_key)
  moreover have "distinct (map ?f ?xs)"
  proof -
    have "distinct (map created (filter (\<lambda>r. P r \<and> older bound (created r)) rows))"
      using assms distinct_map_filter[of created "filter P rows" "\<lambda>r. older bound (created r)"] by (simp add: conj_commute)
    then have "distinct (map created ?xs)" unfolding remaining_def by (auto simp: distinct_map)
    then show ?thesis by (auto simp: distinct_map inj_on_def)
  qed
  ultimately have "sorted_wrt (<) (map ?f ?xs)" by (simp add: strict_sorted_iff)
  then show ?thesis by (simp add: sorted_wrt_map)
qed

lemma walk_complete:
  assumes "0 < limit" and "distinct (map created (filter P rows))" and "walk created P rows limit n bound = Some rs"
  shows "rs = remaining created P rows bound"
  using assms(3)
proof (induction n arbitrary: bound rs)
  case (Suc n)
  let ?rest = "remaining created P rows bound"
  show ?case
  proof (cases "limit < length ?rest")
    case True
    let ?x = "last (take limit ?rest)"
    have x: "?x \<in> set ?rest" using page_last(1)[OF assms(1) True] .
    obtain rs' where rs': "walk created P rows limit n (Some (created ?x)) = Some rs'" "rs = take limit ?rest @ rs'"
      using Suc.prems True by (auto simp: Let_def)
    from Suc.IH[OF rs'(1)] rs'(2) show ?thesis
      using take_filter_split[OF sorted_distinct_desc[OF assms(2)] assms(1) True] by (simp add: remaining_next(1)[OF x])
  next
    case False
    then show ?thesis using Suc.prems by (simp add: Let_def)
  qed
qed simp

section \<open>Following the cursors of an endpoint's deliveries\<close>

text \<open>A caller that asks for the first page and then for the page after each cursor it is given.\<close>

fun collect_deliveries ::
  "env \<Rightarrow> string \<Rightarrow> string \<Rightarrow> string option \<Rightarrow> nat \<Rightarrow> nat \<Rightarrow> string option \<Rightarrow> DeliveryResponse list option io" where
  "collect_deliveries env wallet endpoint_id status limit 0 cursor = eret None"
| "collect_deliveries env wallet endpoint_id status limit (Suc n) cursor =
     ebind (rest_list_endpoint_deliveries env wallet endpoint_id status cursor limit) (\<lambda>p. case lr_cursor p of
        None \<Rightarrow> eret (Some (lr_data p))
      | Some c \<Rightarrow> ebind (collect_deliveries env wallet endpoint_id status limit n (Some c)) (\<lambda>rest.
          eret (map_option ((@) (lr_data p)) rest)))"

definition delivery_matches :: "string \<Rightarrow> string option \<Rightarrow> DeliveryRow \<Rightarrow> bool" where
  "delivery_matches endpoint_id status d \<longleftrightarrow> matches (Some endpoint_id) (dl_endpoint_id d) \<and> matches status (dl_status d)"

lemma same_tick: "w = w\<lparr>w_tick := w_tick w\<rparr>" for w :: world
  by simp

lemma enrich_deliveries_run:
  "\<exists>rs n. run (enrich_deliveries env rows) w = (Inr rs, w\<lparr>w_tick := n\<rparr>) \<and> map dr_delivery rs = rows"
proof -
  have m: "map (dr_delivery \<circ> plain_delivery) rows = rows" "map (dr_delivery \<circ> enriched_delivery sm) rows = rows" for sm
    by (auto simp: plain_delivery_def enriched_delivery_def Let_def comp_def split: prod.split intro!: map_idI)
  obtain r w' where r: "run (query env (\<lambda>w. map (\<lambda>r. (er_id r, er_status r)) (filter (\<lambda>r. er_id r \<in>
      set (remdups (filter (\<lambda>i. i \<noteq> []) (map dl_event_id rows)))) (w_events w)))) w = (r, w')" by fastforce
  then have "w' = w\<lparr>w_tick := Suc (w_tick w)\<rparr>" by (auto simp: query_def split: option.splits)
  then show ?thesis using r m
    by (cases r) (auto simp: enrich_deliveries_def Let_def intro: exI[of _ "w_tick w"] same_tick)
qed

lemma page_run:
  "\<exists>rs n. run (delivery_page env limit rows) w =
     (Inr \<lparr>lr_data = rs, lr_cursor = fst (snd (cut_page dl_id limit rows)), lr_has_more = snd (snd (cut_page dl_id limit rows))\<rparr>, w\<lparr>w_tick := n\<rparr>) \<and>
   map dr_delivery rs = fst (cut_page dl_id limit rows)"
proof -
  obtain rows' c m where c: "cut_page dl_id limit rows = (rows', c, m)" by (cases "cut_page dl_id limit rows") auto
  obtain rs n where "run (enrich_deliveries env rows') w = (Inr rs, w\<lparr>w_tick := n\<rparr>)" "map dr_delivery rs = rows'"
    using enrich_deliveries_run by blast
  then show ?thesis using c by (auto simp: delivery_page_def)
qed

definition cursor_bound :: "string option \<Rightarrow> world \<Rightarrow> int option" where
  "cursor_bound cursor w = (case cursor of
      None \<Rightarrow> None | Some c \<Rightarrow> if c = [] then None else map_option dl_created_at (find_delivery c w))"

lemma find_delivery_tick [simp]: "find_delivery c (w\<lparr>w_tick := n\<rparr>) = find_delivery c w"
  by (simp add: find_delivery_def)

lemma cursor_bound_tick [simp]: "cursor_bound c (w\<lparr>w_tick := n\<rparr>) = cursor_bound c w"
  by (auto simp: cursor_bound_def split: option.split)

lemma delivery_before_run:
  assumes "\<And>n. en_db_fault env n = None"
  shows "\<exists>n. run (delivery_before env cursor) w = (Inr (cursor_bound cursor w), w\<lparr>w_tick := n\<rparr>)"
  using assms by (auto simp: delivery_before_def cursor_bound_def query_def intro: exI[of _ "w_tick w"] split: option.split)

lemma route_run:
  assumes "\<And>n. en_db_fault env n = None" and "find_raw i w = Some r" and "py_lower (raw_owner r) = py_lower wallet"
    and rows: "rows = keyset dl_created_at (delivery_matches i status) (cursor_bound cursor w) (limit + 1) (w_deliveries w)"
  shows "\<exists>rs n. run (rest_list_endpoint_deliveries env wallet i status cursor limit) w =
     (Inr \<lparr>lr_data = rs, lr_cursor = fst (snd (cut_page dl_id limit rows)), lr_has_more = snd (snd (cut_page dl_id limit rows))\<rparr>, w\<lparr>w_tick := n\<rparr>) \<and>
   map dr_delivery rs = fst (cut_page dl_id limit rows)"
proof -
  let ?w = "w\<lparr>w_tick := Suc (w_tick w)\<rparr>"
  have "run (owned_endpoint env wallet i) w = (Inr r, ?w)"
    using assms(1-3) by (simp add: owned_endpoint_def query_def verify_ownership_def)
  moreover obtain n where "run (list_paginated env (Some i) None status cursor limit) ?w = (Inr rows, w\<lparr>w_tick := n\<rparr>)"
  proof -
    obtain n where "run (delivery_before env cursor) ?w = (Inr (cursor_bound cursor w), w\<lparr>w_tick := n\<rparr>)"
      using delivery_before_run[OF assms(1), of cursor ?w] by auto
    then show thesis using that assms(1)
      by (simp add: list_paginated_def query_def rows delivery_matches_def[abs_def] matches_def[of None])
  qed
  ultimately show ?thesis
    using page_run[of env limit rows "w\<lparr>w_tick := n\<rparr>"] by (simp add: rest_list_endpoint_deliveries_def)
qed

lemma cut_keyset:
  assumes "0 < limit"
  shows "cut_page key limit (take (limit + 1) rest) =
    (if length rest > limit then (take limit rest, Some (key (last (take limit rest))), True) else (rest, None, False))"
  using assms by (auto simp: cut_page_def Let_def min_def)

lemma collect_walk:
  assumes calm: "\<And>n. en_db_fault env n = None" and own: "find_raw i w = Some r" "py_lower (raw_owner r) = py_lower wallet"
    and ids: "distinct (map dl_id (w_deliveries w))" "\<forall>d \<in> set (w_deliveries w). dl_id d \<noteq> []" and l: "0 < limit"
  shows "\<exists>rs m. run (collect_deliveries env wallet i status limit n cursor) (w\<lparr>w_tick := k\<rparr>) = (Inr rs, w\<lparr>w_tick := m\<rparr>) \<and>
    map_option (map dr_delivery) rs = walk dl_created_at (delivery_matches i status) (w_deliveries w) limit n (cursor_bound cursor w)"
proof (induction n arbitrary: cursor k)
  case 0
  then show ?case by auto
next
  case (Suc n)
  let ?P = "delivery_matches i status" and ?rest = "remaining dl_created_at (delivery_matches i status) (w_deliveries w) (cursor_bound cursor w)"
  let ?x = "last (take limit ?rest)"
  obtain rs m where page: "run (rest_list_endpoint_deliveries env wallet i status cursor limit) (w\<lparr>w_tick := k\<rparr>) =
      (Inr \<lparr>lr_data = rs, lr_cursor = fst (snd (cut_page dl_id limit (take (limit + 1) ?rest))),
        lr_has_more = snd (snd (cut_page dl_id limit (take (limit + 1) ?rest)))\<rparr>, w\<lparr>w_tick := m\<rparr>)"
      "map dr_delivery rs = fst (cut_page dl_id limit (take (limit + 1) ?rest))"
    using route_run[OF calm _ own(2) refl, of i "w\<lparr>w_tick := k\<rparr>" status cursor limit] own(1) by (auto simp: keyset_remaining)
  note page = page[unfolded cut_keyset[OF l]]
  show ?case
  proof (cases "limit < length ?rest")
    case False
    then show ?thesis using page by (auto simp: Let_def)
  next
    case True
    have "?x \<in> set (w_deliveries w)" using page_last(1)[OF l True] by (simp add: remaining_def)
    then have "find_delivery (dl_id ?x) w = Some ?x" "dl_id ?x \<noteq> []"
      using ids by (simp_all add: find_delivery_def find_key comp_def)
    then have b: "cursor_bound (Some (dl_id ?x)) w = Some (dl_created_at ?x)" by (simp add: cursor_bound_def)
    obtain rs' m' where rec: "run (collect_deliveries env wallet i status limit n (Some (dl_id ?x))) (w\<lparr>w_tick := m\<rparr>) = (Inr rs', w\<lparr>w_tick := m'\<rparr>)"
      "map_option (map dr_delivery) rs' = walk dl_created_at ?P (w_deliveries w) limit n (Some (dl_created_at ?x))"
      using Suc.IH[of "Some (dl_id ?x)" m] unfolding b by blast
    have "map_option (map dr_delivery) (map_option ((@) rs) rs') = map_option ((@) (take limit ?rest)) (map_option (map dr_delivery) rs')"
      using page(2) True by (cases rs') simp_all
    then show ?thesis using page(1) rec True by (auto simp: Let_def)
  qed
qed

text \<open>
  C30. Following the cursors ends: on tables at rest, a caller who keeps asking for the page
  after the last cursor gets, after at most one request per delivery and one more, an answer
  without a cursor; it has then seen only deliveries that match, and if no two of these were
  created at the same instant, exactly those, once each and newest first.
\<close>

theorem cursors_exhaust_deliveries:
  assumes "\<And>n. en_db_fault env n = None" and "find_raw i w = Some r" and "py_lower (raw_owner r) = py_lower wallet"
    and "distinct (map dl_id (w_deliveries w))" and "\<forall>d \<in> set (w_deliveries w). dl_id d \<noteq> []" and "0 < limit"
  shows "\<exists>rs w'. run (collect_deliveries env wallet i status limit (Suc (length (w_deliveries w))) None) w = (Inr (Some rs), w') \<and>
    (\<forall>d \<in> set rs. dr_delivery d \<in> set (w_deliveries w) \<and> delivery_matches i status (dr_delivery d)) \<and>
    (distinct (map dl_created_at (filter (delivery_matches i status) (w_deliveries w))) \<longrightarrow>
      map dr_delivery rs = sort_key (\<lambda>d. - dl_created_at d) (filter (delivery_matches i status) (w_deliveries w)))"
proof -
  let ?P = "delivery_matches i status"
  have r: "remaining dl_created_at ?P (w_deliveries w) None = sort_key (\<lambda>d. - dl_created_at d) (filter ?P (w_deliveries w))"
    by (simp add: remaining_def older_def)
  have "length (remaining dl_created_at ?P (w_deliveries w) None) < Suc (length (w_deliveries w))"
    by (simp add: r less_Suc_eq_le)
  from walk_ends[OF assms(6) this] obtain vs where vs: "walk dl_created_at ?P (w_deliveries w) limit (Suc (length (w_deliveries w))) None = Some vs"
    "set vs \<subseteq> set (remaining dl_created_at ?P (w_deliveries w) None)" by blast
  obtain rs m where c: "run (collect_deliveries env wallet i status limit (Suc (length (w_deliveries w))) None) w = (Inr rs, w\<lparr>w_tick := m\<rparr>)"
    "map_option (map dr_delivery) rs = Some vs"
    using collect_walk[OF assms(1-6), of status "Suc (length (w_deliveries w))" None "w_tick w"] vs(1) by (auto simp: cursor_bound_def)
  then obtain rs' where rs': "rs = Some rs'" "map dr_delivery rs' = vs" by (cases rs) auto
  have "dr_delivery d \<in> set (w_deliveries w) \<and> ?P (dr_delivery d)" if "d \<in> set rs'" for d
  proof -
    have "dr_delivery d \<in> set vs" unfolding rs'(2)[symmetric] set_map using that by (rule imageI)
    then show ?thesis using vs(2) by (auto simp: r)
  qed
  moreover have "distinct (map dl_created_at (filter ?P (w_deliveries w))) \<Longrightarrow> map dr_delivery rs' = sort_key (\<lambda>d. - dl_created_at d) (filter ?P (w_deliveries w))"
    using walk_complete[OF assms(6) _ vs(1)] rs'(2) r by simp
  ultimately show ?thesis using c(1) rs'(1) by blast
qed

definition small_delivery :: "string \<Rightarrow> int \<Rightarrow> DeliveryRow" where
  "small_delivery i t = \<lparr>dl_id = i, dl_endpoint_id = ''e1'', dl_event_id = ''ev'', dl_provider_message_id = Some ''m'',
     dl_status = ''failed'', dl_created_at = t, dl_dlq_retry_count = 0\<rparr>"

definition delivery_world :: world where
  "delivery_world = empty_world\<lparr>w_endpoints := [(small_endpoint ''e1'' ''0xa'')\<lparr>ep_convoy_project_id := Some ''p''\<rparr>],
     w_deliveries := [small_delivery ''d1'' 1, small_delivery ''d2'' 2, small_delivery ''d3'' 3]\<rparr>"

theorem cursors_exhaust_deliveries_witness:
  "\<exists>rs w'. run (collect_deliveries calm_env ''0xa'' ''e1'' None 1 4 None) delivery_world = (Inr (Some rs), w') \<and>
     map dr_delivery rs = [small_delivery ''d3'' 3, small_delivery ''d2'' 2, small_delivery ''d1'' 1]"
proof -
  have "\<exists>rs w'. run (collect_deliveries calm_env ''0xa'' ''e1'' None 1 (Suc (length (w_deliveries delivery_world))) None) delivery_world = (Inr (Some rs), w') \<and>
    (\<forall>d \<in> set rs. dr_delivery d \<in> set (w_deliveries delivery_world) \<and> delivery_matches ''e1'' None (dr_delivery d)) \<and>
    (distinct (map dl_created_at (filter (delivery_matches ''e1'' None) (w_deliveries delivery_world))) \<longrightarrow>
      map dr_delivery rs = sort_key (\<lambda>d. - dl_created_at d) (filter (delivery_matches ''e1'' None) (w_deliveries delivery_world)))"
    by (rule cursors_exhaust_deliveries[where r = "Valid ((small_endpoint ''e1'' ''0xa'')\<lparr>ep_convoy_project_id := Some ''p''\<rparr>)"])
       (simp_all add: calm_env_def delivery_world_def empty_world_def small_endpoint_def small_delivery_def find_raw_def raw_owner_def)
  moreover have "Suc (length (w_deliveries delivery_world)) = 4" by (simp add: delivery_world_def)
  moreover have f: "filter (delivery_matches ''e1'' None) (w_deliveries delivery_world) = [small_delivery ''d1'' 1, small_delivery ''d2'' 2, small_delivery ''d3'' 3]"
    by (simp add: delivery_world_def delivery_matches_def matches_def small_delivery_def)
  moreover have "sort_key (\<lambda>d. - dl_created_at d) [small_delivery ''d1'' 1, small_delivery ''d2'' 2, small_delivery ''d3'' 3] =
      [small_delivery ''d3'' 3, small_delivery ''d2'' 2, small_delivery ''d1'' 1]"
    by (simp add: small_delivery_def)
  moreover have "distinct (map dl_created_at [small_delivery ''d1'' 1, small_delivery ''d2'' 2, small_delivery ''d3'' 3])"
    by (simp add: small_delivery_def)
  ultimately show ?thesis by metis
qed

section \<open>Only the caller's rows\<close>

lemma keyset_subset: "x \<in> set (keyset created P bound n rows) \<Longrightarrow> x \<in> set rows \<and> P x"
  by (auto simp: keyset_def dest!: in_set_takeD)

lemma cut_page_subset:
  assumes "cut_page key limit rows = (rows', c, m)"
  shows "set rows' \<subseteq> set rows" "length rows' \<le> limit \<or> length rows' = length rows \<and> length rows \<le> limit"
  using assms by (auto simp: cut_page_def Let_def dest: in_set_takeD split: if_splits)

lemma delivery_page_result:
  assumes "run (delivery_page env limit rows) w = (Inr p, w')"
  shows "(\<forall>d \<in> set (lr_data p). dr_delivery d \<in> set rows) \<and> length (lr_data p) \<le> limit \<and> (\<exists>n. w' = w\<lparr>w_tick := n\<rparr>)"
proof -
  obtain rows' c m where cut: "cut_page dl_id limit rows = (rows', c, m)" by (cases "cut_page dl_id limit rows") auto
  obtain rs n where r: "run (delivery_page env limit rows) w = (Inr \<lparr>lr_data = rs, lr_cursor = c, lr_has_more = m\<rparr>, w\<lparr>w_tick := n\<rparr>)"
    "map dr_delivery rs = rows'" using page_run[of env limit rows w] cut by auto
  then have "length rs = length rows'" "set (map dr_delivery rs) = set rows'" by (metis length_map, simp)
  then show ?thesis using r(1) assms cut_page_subset[OF cut] by fastforce
qed

lemma rest_list_deliveries_result:
  assumes "run (rest_list_deliveries env wallet i ev st cursor limit) w = (Inr p, w')"
  shows "(\<forall>d \<in> set (lr_data p). dr_delivery d \<in> set (w_deliveries w) \<and> dl_endpoint_id (dr_delivery d) \<in> set (wallet_endpoint_ids wallet w)) \<and>
    length (lr_data p) \<le> limit \<and> (\<exists>n. w' = w\<lparr>w_tick := n\<rparr>)"
proof -
  have ids: "wallet_endpoint_ids wallet (w\<lparr>w_tick := n\<rparr>) = wallet_endpoint_ids wallet w" for n by (simp add: wallet_endpoint_ids_def)
  let ?P = "\<lambda>d. dl_endpoint_id d \<in> set (wallet_endpoint_ids wallet w) \<and> matches i (dl_endpoint_id d) \<and> matches ev (dl_event_id d) \<and> matches st (dl_status d)"
  have "(p = empty_response \<and> (\<exists>n. w' = w\<lparr>w_tick := n\<rparr>)) \<or>
      (\<exists>b n. run (delivery_page env limit (keyset dl_created_at ?P b (limit + 1) (w_deliveries w))) (w\<lparr>w_tick := n\<rparr>) = (Inr p, w'))"
    using assms unfolding rest_list_deliveries_def delivery_before_def query_def
    by (auto simp: ids split: if_splits option.splits prod.splits sum.splits dest!: owned_endpoint_run)
  then show ?thesis using delivery_page_result by (fastforce simp: empty_response_def dest: keyset_subset)
qed

lemma map_result_ids: "map_result enrich_event rows = Inr es \<Longrightarrow> map ev_id es = map er_id rows"
  by (induction rows arbitrary: es) (auto simp: rbind_eq_Inr enrich_event_def split: prod.splits)

definition event_of :: "string list \<Rightarrow> world \<Rightarrow> string \<Rightarrow> bool" where
  "event_of ids w e \<longleftrightarrow> (\<exists>i \<in> set ids. (e, i) \<in> set (w_event_endpoints w))"

lemma linked_page_result:
  assumes "run (linked_page env found_ids cursor limit P) w = (Inr p, w')"
  shows "(\<forall>e \<in> set (lr_data p). ev_id e \<in> set found_ids) \<and> length (lr_data p) \<le> limit \<and> (\<exists>n. w' = w\<lparr>w_tick := n\<rparr>)"
proof -
  have "(p = empty_response \<or> (\<exists>b. event_page limit (keyset er_created_at (\<lambda>r. er_id r \<in> set found_ids \<and> P r) b (limit + 1) (w_events w)) = Inr p)) \<and>
      (\<exists>n. w' = w\<lparr>w_tick := n\<rparr>)"
    using assms unfolding linked_page_def event_before_def query_def
    by (auto split: if_splits option.splits sum.splits intro: exI[of _ "w_tick w"])
  moreover have "(\<forall>e \<in> set (lr_data p). ev_id e \<in> set found_ids) \<and> length (lr_data p) \<le> limit"
    if page: "event_page limit (keyset er_created_at (\<lambda>r. er_id r \<in> set found_ids \<and> P r) b (limit + 1) (w_events w)) = Inr p" for b
  proof -
    let ?rows = "keyset er_created_at (\<lambda>r. er_id r \<in> set found_ids \<and> P r) b (limit + 1) (w_events w)"
    obtain rows' c m where cut: "cut_page er_id limit ?rows = (rows', c, m)" by (cases "cut_page er_id limit ?rows") auto
    have "map ev_id (lr_data p) = map er_id rows'"
      using page cut by (auto simp: event_page_def rbind_eq_Inr dest: map_result_ids)
    moreover have "er_id ` set rows' \<subseteq> set found_ids" using cut_page_subset(1)[OF cut] keyset_subset by fastforce
    moreover have "length rows' \<le> limit" using cut_page_subset(2)[OF cut] by auto
    ultimately show ?thesis by (metis image_subset_iff length_map list.set_map imageI)
  qed
  ultimately show ?thesis by (auto simp: empty_response_def)
qed

lemma linked_to_event: "e \<in> set (linked_to ids w) \<longleftrightarrow> event_of ids w e"
  by (force simp: linked_to_def event_of_def)

lemma rest_list_events_result:
  assumes "run (rest_list_events env wallet cursor limit t c) w = (Inr p, w')"
  shows "(\<forall>e \<in> set (lr_data p). event_of (wallet_endpoint_ids wallet w) w (ev_id e)) \<and> length (lr_data p) \<le> limit \<and>
    (\<exists>n. w' = w\<lparr>w_tick := n\<rparr>)"
proof -
  have st: "wallet_endpoint_ids wallet (w\<lparr>w_tick := n\<rparr>) = wallet_endpoint_ids wallet w" "linked_to ids (w\<lparr>w_tick := n\<rparr>) = linked_to ids w" for n ids
    by (simp_all add: wallet_endpoint_ids_def linked_to_def)
  have "(p = empty_response \<and> (\<exists>n. w' = w\<lparr>w_tick := n\<rparr>)) \<or> (\<exists>n. run (linked_page env (linked_to (wallet_endpoint_ids wallet w) w) cursor limit
      (\<lambda>r. matches_type t r \<and> matches_chain c r)) (w\<lparr>w_tick := n\<rparr>) = (Inr p, w'))"
    using assms unfolding rest_list_events_def query_def by (auto simp: st split: if_splits option.splits)
  then show ?thesis using linked_page_result by (fastforce simp: empty_response_def linked_to_event)
qed

lemma rest_get_event_result:
  assumes "run (rest_get_event env wallet i) w = (Inr e, w')"
  shows "(\<exists>r. find_event i w = Some r \<and> enrich_event r = Inr e \<and>
    (event_of (wallet_endpoint_ids wallet w) w i \<or> (linked i w = [] \<and> (\<exists>j \<in> set (wallet_endpoint_ids wallet w). er_endpoint_id r = Some j)))) \<and>
    (\<exists>n. w' = w\<lparr>w_tick := n\<rparr>)"
proof -
  have st: "wallet_endpoint_ids wallet (w\<lparr>w_tick := n\<rparr>) = wallet_endpoint_ids wallet w" "linked i (w\<lparr>w_tick := n\<rparr>) = linked i w"
    "find_event i (w\<lparr>w_tick := n\<rparr>) = find_event i w" for n
    by (simp_all add: wallet_endpoint_ids_def linked_def find_event_def)
  have "j \<in> set (linked i w) \<Longrightarrow> (i, j) \<in> set (w_event_endpoints w)" for j by (auto simp: linked_def)
  then show ?thesis
    using assms unfolding rest_get_event_def query_def not_found_def
    by (auto simp: st Let_def given_def event_of_def split: option.splits if_splits)
qed

text \<open>A row of the endpoints table that the caller may see.\<close>

definition own_endpoint :: "string \<Rightarrow> string \<Rightarrow> world \<Rightarrow> bool" where
  "own_endpoint wallet i w \<longleftrightarrow> (\<exists>r. find_raw i w = Some r \<and> py_lower (raw_owner r) = py_lower wallet)"

lemma owned_endpoint_result:
  assumes "run (owned_endpoint env wallet i) w = (Inr r, w')"
  shows "own_endpoint wallet i w \<and> (\<exists>n. w' = w\<lparr>w_tick := n\<rparr>)"
  using assms by (auto simp: owned_endpoint_def not_found_def query_def verify_ownership_def own_endpoint_def
      split: option.splits sum.splits if_splits)

lemma owned_delivery_run:
  assumes "run (owned_delivery env wallet i) w = (r, w')"
  shows "(\<exists>n. w' = w\<lparr>w_tick := n\<rparr>) \<and> (\<forall>d e. r = Inr (d, e) \<longrightarrow> find_delivery i w = Some d \<and> find_raw (dl_endpoint_id d) w = Some e \<and>
    py_lower (raw_owner e) = py_lower wallet)"
  using assms
  by (auto simp: owned_delivery_def delivery_get_by_id_def query_def not_found_def verify_ownership_def split: option.splits if_splits)

lemma rest_get_delivery_result:
  assumes "run (rest_get_delivery env wallet i) w = (Inr x, w')"
  shows "find_delivery i w = Some (dr_delivery x) \<and> own_endpoint wallet (dl_endpoint_id (dr_delivery x)) w \<and> (\<exists>n. w' = w\<lparr>w_tick := n\<rparr>)"
proof -
  obtain r w1 where own: "run (owned_delivery env wallet i) w = (r, w1)" by fastforce
  then obtain d e where r: "r = Inr (d, e)" using assms by (cases r) (auto simp: rest_get_delivery_def)
  note o = owned_delivery_run[OF own]
  obtain n where n: "w1 = w\<lparr>w_tick := n\<rparr>" using o by blast
  obtain rs m where e: "run (enrich_deliveries env [d]) w1 = (Inr rs, w1\<lparr>w_tick := m\<rparr>)" "map dr_delivery rs = [d]"
    using enrich_deliveries_run by blast
  then have "x = hd rs \<and> w' = w1\<lparr>w_tick := m\<rparr>" using assms own r by (simp add: rest_get_delivery_def)
  then have "dr_delivery x = d" "w' = w\<lparr>w_tick := m\<rparr>" using e(2) n by auto
  then show ?thesis using o r by (auto simp: own_endpoint_def)
qed

lemma rest_list_endpoint_deliveries_result:
  assumes "run (rest_list_endpoint_deliveries env wallet i st cursor limit) w = (Inr p, w')" and "i \<noteq> []"
  shows "own_endpoint wallet i w \<and> (\<forall>d \<in> set (lr_data p). dr_delivery d \<in> set (w_deliveries w) \<and> dl_endpoint_id (dr_delivery d) = i) \<and>
    length (lr_data p) \<le> limit \<and> (\<exists>n. w' = w\<lparr>w_tick := n\<rparr>)"
proof -
  obtain r w1 where own: "run (owned_endpoint env wallet i) w = (r, w1)" by fastforce
  then obtain e where r: "r = Inr e" using assms by (cases r) (auto simp: rest_list_endpoint_deliveries_def)
  note o = owned_endpoint_result[OF own[unfolded r]]
  then obtain n where w1: "w1 = w\<lparr>w_tick := n\<rparr>" by blast
  let ?P = "\<lambda>d. matches (Some i) (dl_endpoint_id d) \<and> matches None (dl_event_id d) \<and> matches st (dl_status d)"
  have "\<exists>b n. run (delivery_page env limit (keyset dl_created_at ?P b (limit + 1) (w_deliveries w))) (w\<lparr>w_tick := n\<rparr>) = (Inr p, w')"
    using assms(1) own r w1 unfolding rest_list_endpoint_deliveries_def list_paginated_def delivery_before_def query_def
    by (auto split: if_splits option.splits sum.splits prod.splits)
  then obtain b n where page: "run (delivery_page env limit (keyset dl_created_at ?P b (limit + 1) (w_deliveries w))) (w\<lparr>w_tick := n\<rparr>) = (Inr p, w')"
    by blast
  show ?thesis using delivery_page_result[OF page] o assms(2) by (auto simp: matches_def dest!: keyset_subset)
qed

lemma rest_list_endpoint_events_result:
  assumes "run (rest_list_endpoint_events env wallet i cursor limit) w = (Inr q, w')"
  shows "own_endpoint wallet i w \<and> (\<forall>e \<in> set (lr_data q). event_of [i] w (ev_id e)) \<and> length (lr_data q) \<le> limit \<and> (\<exists>n. w' = w\<lparr>w_tick := n\<rparr>)"
proof -
  have st: "linked_to ids (w\<lparr>w_tick := n\<rparr>) = linked_to ids w" for n ids by (simp add: linked_to_def)
  obtain r w1 where own: "run (owned_endpoint env wallet i) w = (r, w1)" by fastforce
  then obtain e where r: "r = Inr e" using assms by (cases r) (auto simp: rest_list_endpoint_events_def)
  note o = owned_endpoint_result[OF own[unfolded r]]
  then obtain n where w1: "w1 = w\<lparr>w_tick := n\<rparr>" by blast
  have "\<exists>n. run (linked_page env (linked_to [i] w) cursor limit (\<lambda>_. True)) (w\<lparr>w_tick := n\<rparr>) = (Inr q, w')"
    using assms own r w1 unfolding rest_list_endpoint_events_def query_def by (auto simp: st split: option.splits)
  then obtain n where page: "run (linked_page env (linked_to [i] w) cursor limit (\<lambda>_. True)) (w\<lparr>w_tick := n\<rparr>) = (Inr q, w')" by blast
  show ?thesis using linked_page_result[OF page] o by (auto simp: linked_to_event)
qed

lemma rest_get_delivery_stats_result:
  assumes "run (rest_get_delivery_stats env wallet i) w = (Inr s, w')"
  shows "own_endpoint wallet i w \<and> s = stats_of i (filter (\<lambda>d. dl_endpoint_id d = i) (w_deliveries w)) \<and> (\<exists>n. w' = w\<lparr>w_tick := n\<rparr>)"
proof -
  obtain r w1 where own: "run (owned_endpoint env wallet i) w = (r, w1)" by fastforce
  then obtain e where r: "r = Inr e" using assms by (cases r) (auto simp: rest_get_delivery_stats_def)
  note o = owned_endpoint_result[OF own[unfolded r]]
  then obtain n where "w1 = w\<lparr>w_tick := n\<rparr>" by blast
  then show ?thesis using o own r assms by (auto simp: rest_get_delivery_stats_def get_stats_for_endpoint_def query_def split: option.splits)
qed

text \<open>The statistics of the events linked to the wallet's endpoints.\<close>

definition own_event :: "string \<Rightarrow> world \<Rightarrow> EventRow \<Rightarrow> bool" where
  "own_event wallet w r \<longleftrightarrow> event_of (wallet_endpoint_ids wallet w) w (er_id r)"

definition stats_justified :: "env \<Rightarrow> string \<Rightarrow> world \<Rightarrow> stats_response \<Rightarrow> bool" where
  "stats_justified env wallet w s \<longleftrightarrow>
     sr_total_events s = card {e. event_of (wallet_endpoint_ids wallet w) w e} \<and>
     sr_active_endpoints s = active_owned wallet w \<and>
     (\<exists>n. sr_events_last_hour s = length (filter (\<lambda>r. own_event wallet w r \<and> er_created_at r \<ge> en_now env n - 3600) (w_events w))) \<and>
     (\<forall>t. sr_last_event_at s = Some t \<longrightarrow>
       (\<exists>r \<in> set (w_events w). own_event wallet w r \<and> er_created_at r = t) \<and>
       (\<forall>r \<in> set (w_events w). own_event wallet w r \<longrightarrow> er_created_at r \<le> t)) \<and>
     (\<forall>d m. sr_more s = Some (d, m) \<longrightarrow> d = [] \<or> d = breakdown (filter (own_event wallet w) (w_events w)))"

lemma newest_page:
  assumes "keyset created P None 1 rows = r # rs"
  shows "r \<in> set rows \<and> P r \<and> (\<forall>x \<in> set rows. P x \<longrightarrow> created x \<le> created r)"
proof -
  obtain ys where ys: "sort_key (\<lambda>r. - created r) (filter P rows) = r # ys"
    using assms by (cases "sort_key (\<lambda>r. - created r) (filter P rows)") (auto simp: keyset_def older_def)
  have "sorted (map (\<lambda>r. - created r) (r # ys))" unfolding ys[symmetric] by (rule sorted_sort_key)
  then have "\<forall>x \<in> set (r # ys). created x \<le> created r" by auto
  moreover have "set (r # ys) = {x \<in> set rows. P x}" unfolding ys[symmetric] by auto
  ultimately show ?thesis by auto
qed

lemma rest_get_stats_result:
  assumes "run (rest_get_stats env wallet) w = (Inr s, w')"
  shows "stats_justified env wallet w s \<and> (\<exists>n. w' = w\<lparr>w_tick := n\<rparr>)"
proof -
  let ?ids = "wallet_endpoint_ids wallet w"
  let ?found = "linked_to ?ids w"
  have own: "own_event wallet w r \<longleftrightarrow> er_id r \<in> set ?found" for r by (simp add: own_event_def linked_to_event)
  have st: "wallet_endpoint_ids wallet (w\<lparr>w_tick := n\<rparr>) = ?ids" "linked_to ids (w\<lparr>w_tick := n\<rparr>) = linked_to ids w"
    "active_owned wallet (w\<lparr>w_tick := n\<rparr>) = active_owned wallet w" "among ids (w\<lparr>w_tick := n\<rparr>) = among ids w" for n ids
    by (simp_all add: wallet_endpoint_ids_def linked_to_def active_owned_def among_def)
  have total: "card {e. event_of ?ids w e} = length (remdups ?found)"
    by (simp add: linked_to_event[symmetric] length_remdups_card_conv)
  have none: "?ids = [] \<Longrightarrow> ?found = [] \<and> active_owned wallet w = 0"
    by (simp add: linked_to_def active_owned_def wallet_endpoint_ids_def filter_empty_conv)
  have tail: "(case map er_created_at (keyset er_created_at (\<lambda>r. er_id r \<in> set ?found) None 1 (w_events w)) of [] \<Rightarrow> None | t # _ \<Rightarrow> Some t) = Some t \<Longrightarrow>
      (\<exists>r \<in> set (w_events w). er_id r \<in> set ?found \<and> er_created_at r = t) \<and>
      (\<forall>r \<in> set (w_events w). er_id r \<in> set ?found \<longrightarrow> er_created_at r \<le> t)" for t
    using newest_page[of er_created_at "\<lambda>r. er_id r \<in> set ?found" "w_events w"]
    by (cases "keyset er_created_at (\<lambda>r. er_id r \<in> set ?found) None 1 (w_events w)") auto
  have some: "\<exists>recent newest parts. s = \<lparr>sr_total_events = length (remdups ?found), sr_events_last_hour = recent,
      sr_active_endpoints = active_owned wallet w, sr_last_event_at = newest, sr_more = Some (parts, product_of env)\<rparr> \<and>
      recent = length (filter (\<lambda>r. er_id r \<in> set ?found \<and> er_created_at r \<ge> en_now env (Suc (Suc (Suc (w_tick w)))) - 3600) (w_events w)) \<and>
      newest = (case map er_created_at (keyset er_created_at (\<lambda>r. er_id r \<in> set ?found) None 1 (w_events w)) of [] \<Rightarrow> None | t # _ \<Rightarrow> Some t) \<and>
      (parts = [] \<or> parts = breakdown (among ?found w)) \<and> (\<exists>n. w' = w\<lparr>w_tick := n\<rparr>)" if "?ids \<noteq> []" "?found \<noteq> []"
    using assms that unfolding rest_get_stats_def query_def now_def
    by (auto simp: st Let_def among_def conj_commute split: option.splits sum.splits)
  consider "?ids = []" | "?ids \<noteq> []" "?found = []" | "?ids \<noteq> []" "?found \<noteq> []" by blast
  then show ?thesis
  proof cases
    case 1
    moreover have "Collect (event_of [] w) = {}" by (auto simp: event_of_def)
    ultimately show ?thesis using assms none unfolding rest_get_stats_def query_def
      by (auto simp: stats_justified_def own total st split: option.splits)
  next
    case 2
    then show ?thesis using assms unfolding rest_get_stats_def query_def
      by (auto simp: stats_justified_def own total st split: option.splits)
  next
    case 3
    have "own_event wallet w = (\<lambda>r. er_id r \<in> set ?found)" by (simp add: fun_eq_iff own)
    with some[OF 3] show ?thesis using tail by (auto simp: stats_justified_def total among_def)
  qed
qed

text \<open>
  C29. The reporting routes answer only with the caller's rows: every delivery of a listing,
  of an endpoint's listing or asked for by its id is a row of the deliveries table of an endpoint
  stored under the caller's address; every event listed is linked to such an endpoint, and a
  single event only if it is linked or recorded under one; statistics of deliveries count the
  deliveries of one endpoint of the caller, and those of events exactly the events linked to the
  caller's endpoints; a page has at most the rows asked for, and no route changes a table. The
  address is compared as stored in the listings, and without regard to case where an endpoint or
  a delivery is named; an endpoint id in a path is not empty.
\<close>

theorem reports_stay_own:
  "(run (rest_list_deliveries env wallet i ev st cursor limit) w = (Inr p, w') \<longrightarrow>
      (\<forall>d \<in> set (lr_data p). dr_delivery d \<in> set (w_deliveries w) \<and> dl_endpoint_id (dr_delivery d) \<in> set (wallet_endpoint_ids wallet w)) \<and>
      length (lr_data p) \<le> limit \<and> (\<exists>n. w' = w\<lparr>w_tick := n\<rparr>)) \<and>
   (run (rest_list_endpoint_deliveries env wallet k st cursor limit) w = (Inr p, w') \<and> k \<noteq> [] \<longrightarrow> own_endpoint wallet k w \<and>
      (\<forall>d \<in> set (lr_data p). dr_delivery d \<in> set (w_deliveries w) \<and> dl_endpoint_id (dr_delivery d) = k) \<and>
      length (lr_data p) \<le> limit \<and> (\<exists>n. w' = w\<lparr>w_tick := n\<rparr>)) \<and>
   (run (rest_get_delivery env wallet k) w = (Inr x, w') \<longrightarrow> find_delivery k w = Some (dr_delivery x) \<and>
      own_endpoint wallet (dl_endpoint_id (dr_delivery x)) w \<and> (\<exists>n. w' = w\<lparr>w_tick := n\<rparr>)) \<and>
   (run (rest_list_events env wallet cursor limit t c) w = (Inr q, w') \<longrightarrow>
      (\<forall>e \<in> set (lr_data q). event_of (wallet_endpoint_ids wallet w) w (ev_id e)) \<and> length (lr_data q) \<le> limit \<and>
      (\<exists>n. w' = w\<lparr>w_tick := n\<rparr>)) \<and>
   (run (rest_list_endpoint_events env wallet k cursor limit) w = (Inr q, w') \<longrightarrow> own_endpoint wallet k w \<and>
      (\<forall>e \<in> set (lr_data q). event_of [k] w (ev_id e)) \<and> length (lr_data q) \<le> limit \<and> (\<exists>n. w' = w\<lparr>w_tick := n\<rparr>)) \<and>
   (run (rest_get_event env wallet j) w = (Inr e, w') \<longrightarrow> (\<exists>r. find_event j w = Some r \<and> enrich_event r = Inr e \<and>
      (event_of (wallet_endpoint_ids wallet w) w j \<or>
       (linked j w = [] \<and> (\<exists>x \<in> set (wallet_endpoint_ids wallet w). er_endpoint_id r = Some x)))) \<and> (\<exists>n. w' = w\<lparr>w_tick := n\<rparr>)) \<and>
   (run (rest_get_delivery_stats env wallet k) w = (Inr ds, w') \<longrightarrow> own_endpoint wallet k w \<and>
      ds = stats_of k (filter (\<lambda>d. dl_endpoint_id d = k) (w_deliveries w)) \<and> (\<exists>n. w' = w\<lparr>w_tick := n\<rparr>)) \<and>
   (run (rest_get_stats env wallet) w = (Inr sr, w') \<longrightarrow> stats_justified env wallet w sr \<and> (\<exists>n. w' = w\<lparr>w_tick := n\<rparr>))"
  by (intro conjI[of "_ \<longrightarrow> _"] impI rest_list_deliveries_result rest_list_endpoint_deliveries_result rest_get_delivery_result
      rest_list_events_result rest_list_endpoint_events_result rest_get_event_result rest_get_delivery_stats_result rest_get_stats_result) auto

lemma reports_sample:
  "\<exists>p w'. run (rest_list_deliveries calm_env ''0xa'' None None None None 2) delivery_world = (Inr p, w') \<and> length (lr_data p) = 2"
  "\<exists>x w'. run (rest_get_delivery calm_env ''0xA'' ''d2'') delivery_world = (Inr x, w')"
proof -
  have l: "py_lower ''0xA'' = ''0xa''" "py_lower ''0xa'' = ''0xa''" by code_simp+
  show "\<exists>p w'. run (rest_list_deliveries calm_env ''0xa'' None None None None 2) delivery_world = (Inr p, w') \<and> length (lr_data p) = 2"
    "\<exists>x w'. run (rest_get_delivery calm_env ''0xA'' ''d2'') delivery_world = (Inr x, w')"
    by (simp_all add: rest_list_deliveries_def given_def query_def calm_env_def delivery_world_def empty_world_def small_endpoint_def
      wallet_endpoint_ids_def delivery_before_def keyset_def older_def matches_def small_delivery_def delivery_page_def cut_page_def
      enrich_deliveries_def Let_def rest_get_delivery_def owned_delivery_def delivery_get_by_id_def find_delivery_def find_raw_def
      verify_ownership_def raw_owner_def l)
qed

theorem reports_stay_own_witness:
  "(\<exists>p w'. run (rest_list_deliveries calm_env ''0xa'' None None None None 2) delivery_world = (Inr p, w') \<and> length (lr_data p) = 2 \<and>
     (\<forall>d \<in> set (lr_data p). dl_endpoint_id (dr_delivery d) = ''e1'')) \<and>
   (\<exists>x w'. run (rest_get_delivery calm_env ''0xA'' ''d2'') delivery_world = (Inr x, w') \<and>
     own_endpoint ''0xA'' (dl_endpoint_id (dr_delivery x)) delivery_world)"
proof -
  obtain p w' where r: "run (rest_list_deliveries calm_env ''0xa'' None None None None 2) delivery_world = (Inr p, w')" "length (lr_data p) = 2"
    using reports_sample(1) by blast
  obtain x w'' where x: "run (rest_get_delivery calm_env ''0xA'' ''d2'') delivery_world = (Inr x, w'')" using reports_sample(2) by blast
  have "set (wallet_endpoint_ids ''0xa'' delivery_world) = {''e1''}"
    by (simp add: wallet_endpoint_ids_def delivery_world_def empty_world_def small_endpoint_def)
  with reports_stay_own[THEN conjunct1, THEN mp, OF r(1)] have "\<forall>d \<in> set (lr_data p). dl_endpoint_id (dr_delivery d) = ''e1''" by auto
  moreover have "own_endpoint ''0xA'' (dl_endpoint_id (dr_delivery x)) delivery_world"
    using reports_stay_own[THEN conjunct2, THEN conjunct2, THEN conjunct1, THEN mp, OF x] by blast
  ultimately show ?thesis using r x by blast
qed

section \<open>Retrying\<close>

lemma run_on_tables: "run (on_tables m) (w, c) = (case run m w of (r, w') \<Rightarrow> (r, (w', c)))"
  by (simp add: on_tables_def case_prod_beta)

lemma run_on_convoy: "run (on_convoy m) (w, c) = (case run m c of (r, c') \<Rightarrow> (r, (w, c')))"
  by (simp add: on_convoy_def case_prod_beta)

text \<open>
  A retry concerns one failed delivery of the caller: whatever happens, the deliveries are
  afterwards what they were, or the retry was accepted by the provider and exactly the named
  delivery, which had failed and whose endpoint is the caller's, is now pending.
\<close>

theorem retry_touches_own_failed:
  assumes "run (rest_retry_delivery env ce cp wallet i) (w, c) = (res, (w', c'))"
  shows "w_deliveries w' = w_deliveries w \<or>
    (\<exists>d e. find_delivery i w = Some d \<and> dl_status d = ''failed'' \<and> find_raw (dl_endpoint_id d) w = Some e \<and>
      py_lower (raw_owner e) = py_lower wallet \<and>
      (\<exists>c1. run (retry_message ce (en_py_str env) (the (raw_project cp e)) (the (dl_provider_message_id d))) c = (Inr (), c1)) \<and>
      w_deliveries w' = map (\<lambda>x. if dl_id x = i then x\<lparr>dl_status := ''pending''\<rparr> else x) (w_deliveries w))"
proof -
  obtain r w1 where own: "run (owned_delivery env wallet i) w = (r, w1)" by fastforce
  then obtain n where w1: "w1 = w\<lparr>w_tick := n\<rparr>" using owned_delivery_run by blast
  show ?thesis
  proof (cases r)
    case (Inl e)
    then show ?thesis using assms own w1 by (auto simp: rest_retry_delivery_def run_on_tables)
  next
    case (Inr de)
    obtain d e where de: "de = (d, e)" by fastforce
    note f = owned_delivery_run[OF own, THEN conjunct2, rule_format, OF Inr[unfolded de]]
    obtain q c1 where q: "run (retry_message ce (en_py_str env) (the (raw_project cp e)) (the (dl_provider_message_id d))) c = (q, c1)" by fastforce
    show ?thesis
    proof (cases "dl_status d = ''failed'' \<and> given (raw_project cp e) \<and> given (dl_provider_message_id d)")
      case False
      then show ?thesis using assms own w1 Inr de by (auto simp: rest_retry_delivery_def run_on_tables split: if_splits)
    next
      case True
      show ?thesis
      proof (cases q)
        case (Inl x)
        then show ?thesis using assms own w1 Inr de True q by (auto simp: rest_retry_delivery_def run_on_tables run_on_convoy)
      next
        case (Inr u)
        have "run (ebind (on_tables (delivery_update_status env i ''pending'')) (\<lambda>_. eret i)) (w1, c1) = (res, (w', c'))"
          using assms own \<open>r = Inr de\<close> de True q Inr by (simp add: rest_retry_delivery_def run_on_tables run_on_convoy)
        then have "w_deliveries w' = w_deliveries w \<or>
            w_deliveries w' = map (\<lambda>x. if dl_id x = i then x\<lparr>dl_status := ''pending''\<rparr> else x) (w_deliveries w)"
          using w1 by (auto simp: run_on_tables delivery_update_status_def modify_delivery_def split: option.splits)
        then show ?thesis
        proof
          assume "w_deliveries w' = map (\<lambda>x. if dl_id x = i then x\<lparr>dl_status := ''pending''\<rparr> else x) (w_deliveries w)"
          then show ?thesis using f True q Inr by (intro disjI2 exI[of _ d] exI[of _ e] conjI) (auto intro: exI[of _ c1])
        qed (rule disjI1)
      qed
    qed
  qed
qed

definition answering_convoy :: convoy_env where
  "answering_convoy = \<lparr>ce_clock = (\<lambda>n. of_nat n), ce_http = (\<lambda>n rq. Inr (PyDict [(''data'',
     PyDict [(''content'', PyList [PyDict [(''uid'', PyStr ''x''), (''status'', PyStr ''Failure'')]])])]))\<rparr>"

theorem retry_touches_own_failed_witness:
  "\<exists>w' c'. run (rest_retry_delivery calm_env answering_convoy (\<lambda>_. None) ''0xa'' ''d1'') (delivery_world, idle_convoy) = (Inr ''d1'', (w', c')) \<and>
     w_deliveries w' = map (\<lambda>x. if dl_id x = ''d1'' then x\<lparr>dl_status := ''pending''\<rparr> else x) (w_deliveries delivery_world)"
proof -
  let ?run = "run (rest_retry_delivery calm_env answering_convoy (\<lambda>_. None) ''0xa'' ''d1'') (delivery_world, idle_convoy)"
  have l: "py_lower ''Failure'' = ''failure''" by code_simp
  have v: "fst ?run = Inr ''d1'' \<and> map dl_status (w_deliveries (fst (snd ?run))) = [''pending'', ''failed'', ''failed'']"
    by (simp add: rest_retry_delivery_def run_on_tables run_on_convoy owned_delivery_def delivery_get_by_id_def query_def calm_env_def
        delivery_world_def empty_world_def small_endpoint_def small_delivery_def find_delivery_def find_raw_def verify_ownership_def raw_owner_def
        raw_project_def given_def retry_message_def http_call_def answering_convoy_def delivery_content_def get_or_def expect_dict_def dict_get_def
        iterate_def subscript_def l idle_convoy_def delivery_update_status_def modify_delivery_def)
  obtain w' c' where r: "?run = (Inr ''d1'', (w', c'))" "map dl_status (w_deliveries w') = [''pending'', ''failed'', ''failed'']"
    using v by (cases "?run") auto
  have "w_deliveries w' \<noteq> w_deliveries delivery_world"
    using r(2) by (auto simp: delivery_world_def small_delivery_def)
  with retry_touches_own_failed[OF r(1)] r(1) show ?thesis by auto
qed

end
