(* ===== verification/Webhook_Verify.thy ===== *)
theory Webhook_Verify
  imports TW_Prelude
begin

text \<open>
  Verification of received webhooks, in its two copies: \<open>webhook/verify.py\<close> on the server and
  \<open>tripwire_sdk/verify.py\<close> for consumers, with the \<open>sign_payload\<close> of the latter. HMAC-SHA256 is an
  argument \<open>hm\<close> (secret and content to hexadecimal digest); a body is the string of its bytes.
  Headers are an association list; the last of several spellings of a name wins, as in the
  comprehension that lowers the names. \<open>hmac.compare_digest\<close> on strings raises \<open>TypeError\<close>
  when one of them has a character outside ASCII, which header values (decoded as Latin-1)
  can have.
\<close>

type_synonym hmac_fun = "string \<Rightarrow> string \<Rightarrow> string"

definition TOLERANCE_SECONDS :: int where "TOLERANCE_SECONDS = 300"

definition SIG_HEADER :: string where "SIG_HEADER = ''x-tripwire-signature''"

definition normalise_headers :: "(string \<times> string) list \<Rightarrow> string \<Rightarrow> string option" where
  "normalise_headers headers = map_of (rev (map (\<lambda>(k, v). (py_lower k, v)) headers))"

section \<open>The signature header\<close>

text \<open>The loop over the parts: \<open>None\<close> when a timestamp is no integer.\<close>

fun scan_parts :: "string list \<Rightarrow> int option \<Rightarrow> string list \<Rightarrow> (int option \<times> string list) option" where
  "scan_parts [] t sigs = Some (t, sigs)"
| "scan_parts (p # ps) t sigs =
     (if py_startswith p ''t='' then (case py_int (drop 2 p) of None \<Rightarrow> None | Some n \<Rightarrow> scan_parts ps (Some n) sigs)
      else if py_startswith p ''v1='' then scan_parts ps t (if drop 3 p = [] then sigs else sigs @ [drop 3 p])
      else scan_parts ps t sigs)"

definition header_parts :: "string \<Rightarrow> string list" where
  "header_parts h = map py_strip (py_split CHR '','' h)"

text \<open>\<open>any(hmac.compare_digest(expected, provided) for provided in signatures)\<close>.\<close>

definition is_ascii :: "string \<Rightarrow> bool" where
  "is_ascii s = list_all (\<lambda>c. code c < 128) s"

definition compare_digest :: "string \<Rightarrow> string \<Rightarrow> bool result" where
  "compare_digest a b = (if is_ascii a \<and> is_ascii b then Inr (a = b) else Inl TypeError)"

fun any_digest :: "string \<Rightarrow> string list \<Rightarrow> bool result" where
  "any_digest e [] = Inr False"
| "any_digest e (s # sigs) = rbind (compare_digest e s) (\<lambda>b. if b then Inr True else any_digest e sigs)"

section \<open>The server's copy\<close>

definition parse_signature_header :: "string \<Rightarrow> (int \<times> string list) result" where
  "parse_signature_header h = (case scan_parts (header_parts h) None [] of
      Some (Some t, s # sigs) \<Rightarrow> Inr (t, s # sigs)
    | _ \<Rightarrow> Inl ValueError)"

definition signed_content :: "int \<Rightarrow> string \<Rightarrow> string" where
  "signed_content t payload = int_str t @ ''.'' @ payload"

definition verify_webhook :: "hmac_fun \<Rightarrow> int \<Rightarrow> string \<Rightarrow> (string \<times> string) list \<Rightarrow> string \<Rightarrow> bool result" where
  "verify_webhook hm time payload headers secret = (case normalise_headers headers SIG_HEADER of
      None \<Rightarrow> Inr False
    | Some h \<Rightarrow>
        if h = [] then Inr False
        else (case parse_signature_header h of
            Inl _ \<Rightarrow> Inr False
          | Inr (t, sigs) \<Rightarrow>
              if abs (time - t) > TOLERANCE_SECONDS then Inr False
              else any_digest (hm secret (signed_content t payload)) sigs))"

section \<open>The consumers' copy\<close>

datatype reason = Missing_signature_header | Malformed_signature_header | Timestamp_too_old | Signature_mismatch

definition sdk_parse_signature_header :: "string \<Rightarrow> reason + (int \<times> string list)" where
  "sdk_parse_signature_header h = (case scan_parts (header_parts h) None [] of
      None \<Rightarrow> Inl Malformed_signature_header
    | Some (None, _) \<Rightarrow> Inl Malformed_signature_header
    | Some (Some t, []) \<Rightarrow> Inl Malformed_signature_header
    | Some (Some t, s # sigs) \<Rightarrow> Inr (t, s # sigs))"

text \<open>What the SDK raises: its own exception with a reason, or one of the library's.\<close>

datatype sdk_exn = WebhookVerificationError reason | Raised exn

definition verify_internal ::
  "hmac_fun \<Rightarrow> int \<Rightarrow> string \<Rightarrow> (string \<Rightarrow> string option) \<Rightarrow> string \<Rightarrow> sdk_exn + unit" where
  "verify_internal hm time payload norm_headers secret =
     (let sig_header = (case norm_headers SIG_HEADER of Some h \<Rightarrow> h | None \<Rightarrow> []) in
      if sig_header = [] then Inl (WebhookVerificationError Missing_signature_header)
      else (case sdk_parse_signature_header sig_header of
          Inl e \<Rightarrow> Inl (WebhookVerificationError e)
        | Inr (t, sigs) \<Rightarrow>
            if abs (time - t) > TOLERANCE_SECONDS then Inl (WebhookVerificationError Timestamp_too_old)
            else (case any_digest (hm secret (signed_content t payload)) sigs of
                Inl e \<Rightarrow> Inl (Raised e)
              | Inr verified \<Rightarrow>
                  if \<not> verified then Inl (WebhookVerificationError Signature_mismatch) else Inr ())))"

definition verify_webhook_signature ::
  "hmac_fun \<Rightarrow> int \<Rightarrow> string \<Rightarrow> (string \<times> string) list \<Rightarrow> string \<Rightarrow> sdk_exn + bool" where
  "verify_webhook_signature hm time payload headers secret =
     (case verify_internal hm time payload (normalise_headers headers) secret of Inl e \<Rightarrow> Inl e | Inr _ \<Rightarrow> Inr True)"

definition verify_webhook_signature_safe ::
  "hmac_fun \<Rightarrow> int \<Rightarrow> string \<Rightarrow> (string \<times> string) list \<Rightarrow> string \<Rightarrow> bool result" where
  "verify_webhook_signature_safe hm time payload headers secret =
     (case verify_webhook_signature hm time payload headers secret of
        Inl (WebhookVerificationError _) \<Rightarrow> Inr False | Inl (Raised e) \<Rightarrow> Inl e | Inr b \<Rightarrow> Inr b)"

definition sign_payload :: "hmac_fun \<Rightarrow> int \<Rightarrow> string \<Rightarrow> string \<Rightarrow> string \<Rightarrow> (string \<times> string) list" where
  "sign_payload hm time msg_id payload secret =
     [(''X-TripWire-ID'', msg_id), (''X-TripWire-Timestamp'', int_str time),
      (''X-TripWire-Signature'', ''t='' @ int_str time @ '',v1='' @ hm secret (signed_content time payload))]"

section \<open>The two copies agree\<close>

lemma sdk_parse_eq:
  "sdk_parse_signature_header h = (case parse_signature_header h of Inl _ \<Rightarrow> Inl Malformed_signature_header | Inr p \<Rightarrow> Inr p)"
  by (auto simp: sdk_parse_signature_header_def parse_signature_header_def split: option.split list.split)

text \<open>
  C35. The server and the SDK decide alike: on every body, headers, secret and clock the
  boolean check of the SDK and the check of the server return the same answer or raise the same
  exception, and the raising variant of the SDK returns exactly when the server accepts.
\<close>

theorem sdk_verifies_like_server:
  "verify_webhook_signature_safe hm time payload headers secret = verify_webhook hm time payload headers secret \<and>
   (verify_webhook_signature hm time payload headers secret = Inr True \<longleftrightarrow>
      verify_webhook hm time payload headers secret = Inr True)"
  by (auto simp: verify_webhook_signature_safe_def verify_webhook_signature_def verify_internal_def verify_webhook_def
      sdk_parse_eq Let_def split: option.split sum.split if_splits)

section \<open>What an accepted webhook is\<close>

lemma scan_parts_sigs:
  "scan_parts ps t sigs = Some (t', sigs') \<Longrightarrow> s \<in> set sigs' \<Longrightarrow> s \<in> set sigs \<or> ''v1='' @ s \<in> set ps"
proof (induction ps t sigs rule: scan_parts.induct)
  case (2 p ps t sigs)
  have d: "py_startswith p ''v1='' \<Longrightarrow> p = ''v1='' @ drop 3 p" by (metis append_take_drop_id length_Cons list.size(3) numeral_3_eq_3 py_startswith_def)
  show ?case using 2 d by (auto split: if_splits option.splits)
qed simp

lemma scan_parts_time:
  "scan_parts ps t sigs = Some (Some n, sigs') \<Longrightarrow> t = Some n \<or> (\<exists>p \<in> set ps. py_startswith p ''t='' \<and> py_int (drop 2 p) = Some n)"
  by (induction ps t sigs rule: scan_parts.induct) (auto split: if_splits option.splits)

lemma any_digest_True: "any_digest e sigs = Inr True \<Longrightarrow> e \<in> set sigs"
  by (induction sigs) (auto simp: rbind_eq_Inr compare_digest_def split: if_splits)

text \<open>
  C34. An accepted webhook was signed with the secret, recently and over this body: the header
  carries a timestamp at most five minutes away from the clock and, as one of its \<open>v1\<close> entries, the
  HMAC under the secret of that timestamp and exactly this body.
\<close>

theorem verified_webhook_signed:
  assumes "verify_webhook hm time payload headers secret = Inr True"
  shows "\<exists>h t. normalise_headers headers SIG_HEADER = Some h \<and> abs (time - t) \<le> 300 \<and>
    (\<exists>p \<in> set (header_parts h). py_startswith p ''t='' \<and> py_int (drop 2 p) = Some t) \<and>
    ''v1='' @ hm secret (signed_content t payload) \<in> set (header_parts h)"
proof -
  obtain h where h: "normalise_headers headers SIG_HEADER = Some h"
    using assms by (auto simp: verify_webhook_def split: option.splits)
  obtain t sigs where p: "parse_signature_header h = Inr (t, sigs)" "abs (time - t) \<le> 300"
    "hm secret (signed_content t payload) \<in> set sigs"
    using assms h by (auto simp: verify_webhook_def TOLERANCE_SECONDS_def any_digest_True split: option.splits sum.splits if_splits)
  have "scan_parts (header_parts h) None [] = Some (Some t, sigs)"
    using p(1) by (auto simp: parse_signature_header_def split: option.splits list.splits)
  then show ?thesis using h p scan_parts_sigs[of "header_parts h"] scan_parts_time[of "header_parts h"]
    by (intro exI[of _ h] exI[of _ t]) fastforce
qed

text \<open>An HMAC for the examples: the content's length, in digits.\<close>

definition demo_hmac :: hmac_fun where
  "demo_hmac secret content = nat_str (length secret + length content)"

theorem verified_webhook_signed_witness:
  "verify_webhook demo_hmac 1000 ''{}'' [(''X-TripWire-Signature'', ''t=990,v1=8'')] ''ab'' = Inr True \<and>
   (\<exists>h t. normalise_headers [(''X-TripWire-Signature'', ''t=990,v1=8'')] SIG_HEADER = Some h \<and> abs (1000 - t) \<le> 300 \<and>
    (\<exists>p \<in> set (header_parts h). py_startswith p ''t='' \<and> py_int (drop 2 p) = Some t) \<and>
    ''v1='' @ demo_hmac ''ab'' (signed_content t ''{}'') \<in> set (header_parts h))"
proof -
  have "verify_webhook demo_hmac 1000 ''{}'' [(''X-TripWire-Signature'', ''t=990,v1=8'')] ''ab'' = Inr True"
    by code_simp
  from this and verified_webhook_signed[OF this] show ?thesis by (rule conjI)
qed

section \<open>Signing and verifying\<close>

lemma py_strip_int_part: "py_strip (''t='' @ int_str n) = ''t='' @ int_str n"
  using nat_str_digits is_digit_facts(4)
  by (intro py_strip_none) (auto simp: int_str_def is_space_def code_def)

lemma int_str_no_comma: "CHR '','' \<notin> set (int_str n)"
  using nat_str_digits is_digit_facts(6) by (auto simp: int_str_def)

lemma is_hex_facts:
  assumes "is_hex c"
  shows "c \<noteq> CHR '',''" "\<not> is_space c" "code c < 128"
  using assms by (auto simp: is_hex_def is_digit_def is_space_def code_def Let_def)

lemma header_parts_sign:
  assumes "\<forall>c \<in> set d. is_hex c"
  shows "header_parts (''t='' @ int_str n @ '',v1='' @ d) = [''t='' @ int_str n, ''v1='' @ d]"
proof -
  have "py_strip (''v1='' @ d) = ''v1='' @ d"
    using assms is_hex_facts(2) by (intro py_strip_none) (auto simp: is_space_def code_def)
  moreover have "py_split CHR '','' (''v1='' @ d) = [''v1='' @ d]"
    using assms is_hex_facts(1) by (intro py_split_no_sep) auto
  moreover have "py_split CHR '','' (''t='' @ int_str n @ '',v1='' @ d) = (''t='' @ int_str n) # py_split CHR '','' (''v1='' @ d)"
    using py_split_append[of "CHR '',''" "''t='' @ int_str n" "''v1='' @ d"] int_str_no_comma by simp
  ultimately show ?thesis using py_strip_int_part[of n] by (simp add: header_parts_def)
qed

lemma parse_signed:
  assumes "\<forall>c \<in> set d. is_hex c" and "d \<noteq> []"
  shows "parse_signature_header (''t='' @ int_str n @ '',v1='' @ d) = Inr (n, [d])"
  using assms(2) by (simp add: parse_signature_header_def header_parts_sign[OF assms(1), simplified] py_startswith_def)

lemma sign_payload_header:
  "normalise_headers (sign_payload hm time msg_id payload secret) SIG_HEADER =
     Some (''t='' @ int_str time @ '',v1='' @ hm secret (signed_content time payload))"
proof -
  have "py_lower ''X-TripWire-Signature'' = SIG_HEADER" by code_simp
  then show ?thesis by (simp add: normalise_headers_def sign_payload_def)
qed

text \<open>
  C33. Round trip: what \<open>sign_payload\<close> signs at \<open>t\<close> is accepted by the server's check and by the
  SDK's with the same secret and body, at any clock up to five minutes away, and refused later
  with \<open>timestamp_too_old\<close>. The assumption is that a digest is a non-empty hexadecimal string.
\<close>

theorem signed_webhook_verifies:
  assumes "\<And>k m. hm k m \<noteq> [] \<and> (\<forall>c \<in> set (hm k m). is_hex c)"
  shows "verify_webhook hm now payload (sign_payload hm t msg_id payload secret) secret = Inr (abs (now - t) \<le> 300) \<and>
    verify_webhook_signature hm now payload (sign_payload hm t msg_id payload secret) secret =
      (if abs (now - t) \<le> 300 then Inr True else Inl (WebhookVerificationError Timestamp_too_old))"
proof -
  let ?d = "hm secret (signed_content t payload)"
  have a: "any_digest ?d [?d] = Inr True"
    using assms is_hex_facts(3) by (auto simp: compare_digest_def is_ascii_def list_all_iff)
  have p: "parse_signature_header (''t='' @ int_str t @ '',v1='' @ ?d) = Inr (t, [?d])"
    using assms[of secret "signed_content t payload"] by (intro parse_signed) auto
  note [simp del] = append.simps any_digest.simps
  show ?thesis
    by (simp add: verify_webhook_def verify_webhook_signature_def verify_internal_def sign_payload_header sdk_parse_eq
        p a TOLERANCE_SECONDS_def Let_def)
qed

theorem signed_webhook_verifies_witness:
  "verify_webhook demo_hmac 1200 ''{}'' (sign_payload demo_hmac 1000 ''m1'' ''{}'' ''ab'') ''ab'' = Inr True \<and>
   verify_webhook_signature demo_hmac 1301 ''{}'' (sign_payload demo_hmac 1000 ''m1'' ''{}'' ''ab'') ''ab'' =
     Inl (WebhookVerificationError Timestamp_too_old)"
proof -
  have "demo_hmac k m \<noteq> [] \<and> (\<forall>c \<in> set (demo_hmac k m). is_hex c)" for k m
    using nat_str_digits by (auto simp: demo_hmac_def is_hex_def)
  from signed_webhook_verifies[of demo_hmac 1200, OF this] signed_webhook_verifies[of demo_hmac 1301, OF this]
  show ?thesis by simp
qed

text \<open>
  A header outside ASCII is not refused but raises: with such a signature entry and a
  recent timestamp both boolean checks raise \<open>TypeError\<close>, although they document \<open>False\<close> on any
  failure.
\<close>

theorem non_ascii_signature_raises:
  "verify_webhook demo_hmac 1000 ''{}'' [(SIG_HEADER, ''t=990,v1='' @ [char_of (233::nat)])] ''ab'' = Inl TypeError \<and>
   verify_webhook_signature_safe demo_hmac 1000 ''{}'' [(SIG_HEADER, ''t=990,v1='' @ [char_of (233::nat)])] ''ab'' = Inl TypeError"
  by code_simp

end
