(* ===== verification/Ingest_Routes.thy ===== *)
theory Ingest_Routes
  imports System_Steps Webhook_Verify
begin

text \<open>
  The routes through which events enter (\<open>api/routes/ingest.py\<close>, \<open>api/routes/facilitator.py\<close>): the
  secret each sender presents, the batch and single-event routes that publish to the event bus and
  fall back to processing at once, and the facilitator's route, which builds a transfer that is
  not on chain yet and hands it to the fast path. The first two act on the streams and the tables
  together (\<open>bus\<close>). The rate limiter is left out.
\<close>

section \<open>Secrets\<close>

record ingest_config =
  ic_goldsky_secret :: string
  ic_facilitator_secret :: string
  ic_event_bus_enabled :: bool
  ic_worker_pool :: bool

definition bearer_check :: "env \<Rightarrow> string \<Rightarrow> string \<Rightarrow> Request \<Rightarrow> unit result" where
  "bearer_check env name secret request =
     (if secret = []
      then if st_app_env (en_settings env) \<noteq> ''development''
           then Inl (HTTPException 500 (name @ '' must be set in production'')) else Inr ()
      else rbind (compare_digest (header request ''Authorization'') (''Bearer '' @ secret)) (\<lambda>ok.
        if ok then Inr () else Inl (HTTPException 401 ''Invalid or missing Authorization'')))"

definition verify_goldsky_request :: "env \<Rightarrow> ingest_config \<Rightarrow> Request \<Rightarrow> unit result" where
  "verify_goldsky_request env cfg request = bearer_check env ''GOLDSKY_WEBHOOK_SECRET'' (ic_goldsky_secret cfg) request"

definition verify_facilitator_request :: "env \<Rightarrow> ingest_config \<Rightarrow> Request \<Rightarrow> unit result" where
  "verify_facilitator_request env cfg request =
     bearer_check env ''FACILITATOR_WEBHOOK_SECRET'' (ic_facilitator_secret cfg) request"

section \<open>Goldsky\<close>

datatype ingest_body = Rows "pydict list" | Row pydict

datatype ingest_item = Queued nat | Processed Trigger_Handler.outcome

definition raw_logs_of :: "ingest_body \<Rightarrow> pydict list" where
  "raw_logs_of body = (case body of Row r \<Rightarrow> [r] | Rows rs \<Rightarrow> rs)"

definition use_bus :: "ingest_config \<Rightarrow> bool" where
  "use_bus cfg \<longleftrightarrow> ic_event_bus_enabled cfg \<and> ic_worker_pool cfg"

definition process_now ::
  "env \<Rightarrow> bool \<Rightarrow> (string \<Rightarrow> Trigger list) option \<Rightarrow> pydict list \<Rightarrow> ingest_item list bio" where
  "process_now env unified index raw_logs =
     ebind (in_world (process_batch env unified index raw_logs)) (\<lambda>rs. eret (map Processed rs))"

definition ingest_goldsky_batch ::
  "env \<Rightarrow> bus_env \<Rightarrow> ingest_config \<Rightarrow> bool \<Rightarrow> (string \<Rightarrow> Trigger list) option \<Rightarrow> Request \<Rightarrow> ingest_body \<Rightarrow> ingest_item list bio" where
  "ingest_goldsky_batch env be cfg unified index request body =
     ebind (elift (verify_goldsky_request env cfg request)) (\<lambda>_.
     (let raw_logs = raw_logs_of body in
      if length raw_logs > 1000 then eraise (HTTPException 400 ''Batch too large (max 1000)'')
      else if use_bus cfg
      then ebind (etry (publish_batch be raw_logs)) (\<lambda>r. case r of
          Inl _ \<Rightarrow> process_now env unified index raw_logs
        | Inr ids \<Rightarrow> eret (map Queued ids))
      else process_now env unified index raw_logs))"

definition ingest_single_event ::
  "env \<Rightarrow> bus_env \<Rightarrow> ingest_config \<Rightarrow> bool \<Rightarrow> (string \<Rightarrow> Trigger list) option \<Rightarrow> Request \<Rightarrow> pydict \<Rightarrow> ingest_item bio" where
  "ingest_single_event env be cfg unified index request body =
     ebind (elift (verify_goldsky_request env cfg request)) (\<lambda>_.
     (let once = ebind (in_world (process_event env unified index body)) (\<lambda>r. eret (Processed r)) in
      if use_bus cfg
      then ebind (etry (publish_event be body)) (\<lambda>r. case r of Inl _ \<Rightarrow> once | Inr i \<Rightarrow> eret (Queued i))
      else once))"

section \<open>The facilitator\<close>

record FacilitatorPayload =
  fp_from_address :: string
  fp_to_address :: string
  fp_amount :: string
  fp_nonce :: string
  fp_chain_id :: int
  fp_token :: string
  fp_valid_after :: int
  fp_valid_before :: int
  fp_signature_verified :: bool

definition KNOWN_USDC :: "string list" where
  "KNOWN_USDC = map (\<lambda>c. py_lower (USDC_CONTRACTS c)) [BASE, ETHEREUM, ARBITRUM]"

definition mk_FacilitatorPayload :: "FacilitatorPayload \<Rightarrow> FacilitatorPayload result" where
  "mk_FacilitatorPayload p =
     (if is_eth_address (fp_from_address p) \<and> is_eth_address (fp_to_address p) \<and> is_eth_address (fp_token p) \<and>
         py_lower (fp_token p) \<in> set KNOWN_USDC \<and> chain_of_int (fp_chain_id p) \<noteq> None
      then Inr p else Inl (HTTPException 422 []))"

definition pseudo_tx_hash :: "string \<Rightarrow> string" where
  "pseudo_tx_hash u = ''0x'' @ replicate 24 (CHR ''0'') @ take 40 (filter (\<lambda>c. c \<noteq> CHR ''-'') u)"

definition facilitator_transfer :: "FacilitatorPayload \<Rightarrow> string \<Rightarrow> int \<Rightarrow> ERC3009Transfer result" where
  "facilitator_transfer p tx time =
     rbind (of_option ValueError (chain_of_int (fp_chain_id p))) (\<lambda>chain.
     mk_ERC3009Transfer \<lparr>tr_chain_id = chain, tr_tx_hash = tx, tr_block_number = 0,
       tr_block_hash = ''0x'' @ replicate 64 (CHR ''0''), tr_log_index = 0, tr_from_address = fp_from_address p,
       tr_to_address = fp_to_address p, tr_value = fp_amount p, tr_authorizer = fp_from_address p,
       tr_valid_after = fp_valid_after p, tr_valid_before = fp_valid_before p, tr_nonce = fp_nonce p,
       tr_token = fp_token p, tr_timestamp = time\<rparr>)"

record FacilitatorResponse =
  fr_status :: string
  fr_event_id :: "string option"
  fr_tx_hash :: "string option"

definition ingest_facilitator ::
  "env \<Rightarrow> ingest_config \<Rightarrow> Request \<Rightarrow> FacilitatorPayload \<Rightarrow> FacilitatorResponse io" where
  "ingest_facilitator env cfg request payload =
     ebind (elift (verify_facilitator_request env cfg request)) (\<lambda>_.
     ebind (elift (mk_FacilitatorPayload payload)) (\<lambda>body.
     if \<not> fp_signature_verified body then eraise (HTTPException 422 ''signature_verified must be true'')
     else
       ebind (uuid4 env) (\<lambda>u.
       ebind (now env) (\<lambda>time.
       ebind (elift (facilitator_transfer body (pseudo_tx_hash u) time)) (\<lambda>transfer.
       ebind (process_pre_confirmed_event env transfer) (\<lambda>result.
         eret \<lparr>fr_status = pr_status result, fr_event_id = pr_event_id result,
           fr_tx_hash = (case pr_tx_hash result of Some t \<Rightarrow> Some t | None \<Rightarrow> Some (pseudo_tx_hash u))\<rparr>))))))"

section \<open>Properties\<close>

lemma bearer_check_Inr:
  "bearer_check env name secret rq = Inr u \<longleftrightarrow>
     (if secret = [] then st_app_env (en_settings env) = ''development''
      else is_ascii (''Bearer '' @ secret) \<and> header rq ''Authorization'' = ''Bearer '' @ secret)"
  by (auto simp: bearer_check_def compare_digest_def rbind_eq_Inr split: if_splits)

lemma bearer_check_cases: "bearer_check env name secret rq = Inr () \<or> (\<exists>e. bearer_check env name secret rq = Inl e)"
  by (cases "bearer_check env name secret rq") auto

text \<open>
  C23. Nothing enters without the sender's secret: unless the request presents the configured
  bearer secret, or none is configured and the service runs in development, all three routes
  raise and leave streams and tables untouched.
\<close>

theorem ingest_needs_secret:
  assumes "\<not> (if secret = [] then st_app_env (en_settings env) = ''development'' else header rq ''Authorization'' = ''Bearer '' @ secret)"
  shows "(ic_goldsky_secret cfg = secret \<longrightarrow>
      (\<exists>e. run (ingest_goldsky_batch env be cfg unified index rq body) b = (Inl e, b)) \<and>
      (\<exists>e. run (ingest_single_event env be cfg unified index rq row) b = (Inl e, b))) \<and>
    (ic_facilitator_secret cfg = secret \<longrightarrow> (\<exists>e. run (ingest_facilitator env cfg rq payload) w = (Inl e, w)))"
proof -
  have "\<exists>e. bearer_check env name secret rq = Inl e" for name
    using bearer_check_cases[of env name secret rq] assms by (auto simp: bearer_check_Inr split: if_splits)
  then obtain f where f: "bearer_check env name secret rq = Inl (f name)" for name by metis
  have "run (ebind (elift (Inl e)) k) x = (Inl e, x)" for e :: exn and k :: "unit \<Rightarrow> ('s, 'v) act" and x by simp
  then show ?thesis
    by (auto simp: ingest_goldsky_batch_def ingest_single_event_def ingest_facilitator_def verify_goldsky_request_def
        verify_facilitator_request_def f)
qed

lemma efor_length: "run (efor xs f) w = (Inr ys, w') \<Longrightarrow> length ys = length xs"
  by (induction xs arbitrary: ys w) (auto split: prod.splits sum.splits)

lemma first_failure_length: "first_failure rs = Inr vs \<Longrightarrow> length vs = length rs"
  by (induction rs arbitrary: vs) (auto simp: rbind_eq_Inr)

lemma publish_batch_length:
  assumes "run (publish_batch be ls) b = (Inr ids, b')"
  shows "length ids = length ls"
proof -
  obtain keys b1 where k: "run (efor ls (\<lambda>l. ebind (elift (stream_key_for l)) check_stream_cap)) b = (Inr keys, b1)"
    using assms by (auto simp: publish_batch_def split: prod.splits sum.splits)
  obtain rs b2 where "run (efor (zip keys ls) (\<lambda>(k, l). etry (xadd be k l))) b1 = (Inr rs, b2)" "first_failure rs = Inr ids"
    using assms k by (auto simp: publish_batch_def split: prod.splits sum.splits)
  then show ?thesis using efor_length[OF k] efor_length first_failure_length by fastforce
qed

lemma process_now_run:
  "\<exists>rs b'. run (process_now env unified index ls) b = (Inr rs, b') \<and> length rs = length ls"
proof -
  have "no_raise (process_batch env unified index ls)" unfolding process_batch_def by (intro total_intros)
  then obtain rs w' where r: "run (process_batch env unified index ls) (bu_world b) = (Inr rs, w')" by (rule no_raiseE)
  then have "length rs = length ls" unfolding process_batch_def by (rule efor_length)
  then show ?thesis using r by (simp add: process_now_def)
qed

text \<open>
  An accepted batch is accounted for: with a valid secret and at most a thousand rows, the route
  answers, whatever fails on the way, and names every row once, either all as queued, or all as
  processed at once because the bus is off or refused.
\<close>

theorem ingest_batch_accounted:
  assumes "verify_goldsky_request env cfg rq = Inr ()" and "length (raw_logs_of body) \<le> 1000"
  shows "\<exists>items b'. run (ingest_goldsky_batch env be cfg unified index rq body) b = (Inr items, b') \<and>
    length items = length (raw_logs_of body) \<and>
    ((\<exists>ids. items = map Queued ids \<and> use_bus cfg) \<or> (\<exists>rs. items = map Processed rs))"
proof -
  let ?ls = "raw_logs_of body"
  have now: "\<exists>items b'. run (process_now env unified index ?ls) c = (Inr items, b') \<and> length items = length ?ls \<and> (\<exists>rs. items = map Processed rs)" for c
  proof -
    obtain items b' where r: "run (process_now env unified index ?ls) c = (Inr items, b')" "length items = length ?ls"
      using process_now_run by blast
    then have "\<exists>rs. items = map Processed rs" by (auto simp: process_now_def split: prod.splits sum.splits)
    with r show ?thesis by blast
  qed
  obtain r b1 where p: "run (publish_batch be ?ls) b = (r, b1)" by fastforce
  show ?thesis
  proof (cases "use_bus cfg")
    case True
    show ?thesis
    proof (cases r)
      case (Inl e)
      then show ?thesis using assms p True now[of b1] by (auto simp: ingest_goldsky_batch_def Let_def)
    next
      case (Inr ids)
      then show ?thesis using assms p True publish_batch_length[of be ?ls b ids b1] by (auto simp: ingest_goldsky_batch_def Let_def)
    qed
  next
    case False
    then show ?thesis using assms now[of b] by (auto simp: ingest_goldsky_batch_def Let_def)
  qed
qed

lemma keeps_facilitator_sent: "keeps (sent_since s0 provisional_message) (ingest_facilitator env cfg rq p)"
  unfolding ingest_facilitator_def
  by (intro keeps_intros fast_path_sent) (simp_all add: tick_stable_def sent_since_def)

lemma facilitator_transfer_ok:
  assumes "facilitator_transfer p tx time = Inr t"
  shows "wf_transfer t \<and> tr_authorizer t = tr_from_address t \<and> tr_block_number t = 0 \<and> chain_value (tr_chain_id t) = fp_chain_id p"
  using assms mk_ERC3009Transfer_wf
  by (auto simp: facilitator_transfer_def rbind_eq_Inr mk_ERC3009Transfer_def wf_transfer_def EthAddress_Inr dest: chain_of_int_SomeD)

text \<open>
  C8. The facilitator's word never authorizes execution: whatever the facilitator's route is
  sent, the webhooks it causes are all provisional, unsafe to execute and name the facilitator as
  their source; an answer is given only for an authorization it declares verified, on a
  supported chain, in a known token, between well-formed addresses.
\<close>

theorem facilitator_route_provisional:
  assumes "run (ingest_facilitator env cfg rq p) w = (r, w')"
  shows "(\<forall>m \<in> set (drop (length (w_sent w)) (w_sent w')). provisional_message m) \<and>
    (\<forall>resp. r = Inr resp \<longrightarrow> fp_signature_verified p \<and> chain_of_int (fp_chain_id p) \<noteq> None \<and>
      py_lower (fp_token p) \<in> set KNOWN_USDC \<and> is_eth_address (fp_from_address p) \<and> is_eth_address (fp_to_address p))"
proof -
  have "\<forall>m \<in> set (drop (length (w_sent w)) (w_sent w')). provisional_message m"
    using keepsD[OF keeps_facilitator_sent sent_since_start, of w env cfg rq p] assms by (auto dest: sent_sinceD)
  moreover have "fp_signature_verified p \<and> chain_of_int (fp_chain_id p) \<noteq> None \<and>
      py_lower (fp_token p) \<in> set KNOWN_USDC \<and> is_eth_address (fp_from_address p) \<and> is_eth_address (fp_to_address p)" if "r = Inr resp" for resp
    using assms that unfolding ingest_facilitator_def
    by (auto simp: mk_FacilitatorPayload_def split: sum.splits if_splits)
  ultimately show ?thesis by blast
qed

definition open_config :: ingest_config where
  "open_config = \<lparr>ic_goldsky_secret = ''s'', ic_facilitator_secret = ''s'', ic_event_bus_enabled = True, ic_worker_pool = True\<rparr>"

definition bearer_request :: "string \<Rightarrow> Request" where
  "bearer_request h = \<lparr>rq_header = [''Authorization'' \<mapsto> h], rq_method = ''POST'', rq_path = ''/ingest'', rq_body = [], rq_json = Inr PyNone\<rparr>"

theorem ingest_needs_secret_witness:
  "\<exists>e. run (ingest_goldsky_batch calm_env calm_bus open_config False None (bearer_request ''Bearer x'') (Rows sample_logs)) empty_bus = (Inl e, empty_bus)"
  using ingest_needs_secret[where secret = "''s''" and rq = "bearer_request ''Bearer x''" and cfg = open_config and env = calm_env and be = calm_bus
      and b = empty_bus and unified = False and index = None and body = "Rows sample_logs"]
  by (simp add: bearer_request_def header_def open_config_def)

lemma bearer_accepted: "verify_goldsky_request calm_env open_config (bearer_request ''Bearer s'') = Inr ()"
  by (simp add: verify_goldsky_request_def bearer_check_Inr open_config_def bearer_request_def header_def is_ascii_def code_def)

theorem ingest_batch_accounted_witness:
  "\<exists>items b'. run (ingest_goldsky_batch calm_env calm_bus open_config False None (bearer_request ''Bearer s'') (Rows sample_logs)) empty_bus = (Inr items, b') \<and>
     length items = 2"
proof -
  have "length (raw_logs_of (Rows sample_logs)) = 2" by (simp add: raw_logs_of_def sample_logs_def)
  with ingest_batch_accounted[OF bearer_accepted, of "Rows sample_logs" calm_bus False None empty_bus] show ?thesis by auto
qed

definition pay_body :: FacilitatorPayload where
  "pay_body = \<lparr>fp_from_address = ''0x1111111111111111111111111111111111111111'', fp_to_address = ''0x2222222222222222222222222222222222222222'',
     fp_amount = ''5'', fp_nonce = ''0xaa'', fp_chain_id = 8453, fp_token = ''0xA0b86991c6218b36c1d19D4a2e9Eb0cE3606eB48'',
     fp_valid_after = 0, fp_valid_before = 9, fp_signature_verified = True\<rparr>"

text \<open>The token of the sample is Ethereum's, its chain is Base: the validation does not relate the two.\<close>

lemma pay_body_accepted: "mk_FacilitatorPayload pay_body = Inr pay_body"
  by code_simp

lemma pay_body_run:
  "\<exists>resp w'. run (ingest_facilitator calm_env open_config (bearer_request ''Bearer s'') pay_body) empty_world = (Inr resp, w')"
proof -
  have up: "en_db_fault calm_env n = None" for n by (simp add: calm_env_def)
  have calm: "en_redis calm_env n = False" "en_resolve calm_env n x c = Inr None" for n x c by (simp_all add: calm_env_def)
  have b: "verify_facilitator_request calm_env open_config (bearer_request ''Bearer s'') = Inr ()"
    by (simp add: verify_facilitator_request_def bearer_check_Inr open_config_def bearer_request_def header_def is_ascii_def code_def)
  have v: "fp_signature_verified pay_body" by (simp add: pay_body_def)
  have a: "is_eth_address (fp_from_address pay_body)" "is_eth_address (fp_to_address pay_body)" "chain_of_int (fp_chain_id pay_body) = Some BASE"
    by code_simp+
  obtain t where t: "facilitator_transfer pay_body (pseudo_tx_hash (en_uuid calm_env 0)) (en_now calm_env 1) = Inr t"
    using a by (simp add: facilitator_transfer_def mk_ERC3009Transfer_def)
  have "no_raise (record_event calm_env a b c d e f)" for a b c d e f
    unfolding record_event_def by (intro total_intros)
  then have "\<forall>a b c d e f w. \<exists>v u. run (record_event calm_env a b c d e f) w = (Inr v, u)" by (metis no_raiseE)
  then obtain g h where rec: "run (record_event calm_env a b c d e f) w = (Inr (g a b c d e f w), h a b c d e f w)" for a b c d e f w by metis
  have "\<exists>x w'. run (process_pre_confirmed_event calm_env t) (empty_world\<lparr>w_tick := 2\<rparr>) = (Inr x, w')"
    using run_record_nonce_or_correlate[OF up]
    by (simp add: process_pre_confirmed_event_def resolve_identity_def sql_record_nonce_or_correlate_def lookup_nonce_def Let_def
        dispatch_for_transfer_def fetch_matching_endpoints_def cache_get_def list_by_recipient_def query_valid_def query_def cache_set_def ewhen_def
        rec up calm empty_world_def)
  then show ?thesis using b v t by (auto simp: ingest_facilitator_def pay_body_accepted empty_world_def numeral_2_eq_2)
qed

theorem facilitator_route_provisional_witness:
  "\<exists>resp w'. run (ingest_facilitator calm_env open_config (bearer_request ''Bearer s'') pay_body) empty_world = (Inr resp, w') \<and>
     (\<forall>m \<in> set (w_sent w'). provisional_message m)"
proof -
  obtain resp w' where r: "run (ingest_facilitator calm_env open_config (bearer_request ''Bearer s'') pay_body) empty_world = (Inr resp, w')"
    using pay_body_run by blast
  with facilitator_route_provisional[OF r] have "\<forall>m \<in> set (w_sent w'). provisional_message m" by (simp add: empty_world_def)
  with r show ?thesis by (intro exI conjI)
qed

end
