(* ===== verification/Site_Steps.thy ===== *)
theory Site_Steps
  imports System_Steps Rest_Props Read_Props Ingest_Routes
begin

text \<open>
  The service together with its HTTP routes: the steps of \<open>System_Steps\<close>, requests to the routes
  for endpoints and subscriptions, the ingestion routes, the retry of a delivery and the
  reports, in any order. The references of the tables survive all of them.
\<close>

section \<open>Endpoint and subscription routes\<close>

text \<open>The references only need the set of endpoint ids to grow.\<close>

lemma db_inv_endpoints:
  assumes "db_inv w" and "set (endpoint_ids w) \<subseteq> set (endpoint_ids (w\<lparr>w_endpoints := es, w_invalid_endpoints := rs\<rparr>))"
  shows "db_inv (w\<lparr>w_endpoints := es, w_invalid_endpoints := rs\<rparr>)"
  using assms unfolding db_inv_def by (auto simp: event_ids_def)

lemma db_inv_rows:
  "(\<And>e. ep_id (f e) = ep_id e) \<Longrightarrow> db_inv w \<Longrightarrow> db_inv (map_endpoint i f w)"
  "db_inv w \<Longrightarrow> db_inv (deactivate_rows i w)"
proof -
  have m: "map_endpoint i f w = w\<lparr>w_endpoints := map (\<lambda>e. if ep_id e = i then f e else e) (w_endpoints w),
      w_invalid_endpoints := w_invalid_endpoints w\<rparr>" by (simp add: map_endpoint_def)
  show "(\<And>e. ep_id (f e) = ep_id e) \<Longrightarrow> db_inv w \<Longrightarrow> db_inv (map_endpoint i f w)"
    unfolding m by (rule db_inv_endpoints) (auto simp: endpoint_ids_def image_iff)
  show "db_inv w \<Longrightarrow> db_inv (deactivate_rows i w)"
    unfolding deactivate_rows_def by (rule db_inv_endpoints) (auto simp: endpoint_ids_def image_iff)
qed

lemma update_invalid_id:
  "update_invalid rr u r = Inl e \<Longrightarrow> ep_id e = iv_id r" "update_invalid rr u r = Inr r' \<Longrightarrow> iv_id r' = iv_id r"
  by (auto simp: update_invalid_def Let_def split: option.splits prod.splits)

lemma db_inv_update_rows: "db_inv w \<Longrightarrow> db_inv (update_rows rr i u w)"
proof (cases "find (\<lambda>r. iv_id r = i) (w_invalid_endpoints w)")
  case None
  then show "db_inv w \<Longrightarrow> ?thesis" by (simp add: update_rows_def db_inv_rows apply_updates_def)
next
  case (Some r)
  assume w: "db_inv w"
  have r: "iv_id r = i" using Some by (auto simp: find_Some_iff)
  show ?thesis
  proof (cases "update_invalid rr u r")
    case (Inl e)
    then have "update_rows rr i u w = w\<lparr>w_endpoints := w_endpoints w @ [e],
        w_invalid_endpoints := filter (\<lambda>r. iv_id r \<noteq> i) (w_invalid_endpoints w)\<rparr>"
      using Some by (simp add: update_rows_def)
    then show ?thesis using w update_invalid_id(1)[OF Inl] r by (auto simp: endpoint_ids_def intro!: db_inv_endpoints)
  next
    case (Inr r')
    then have rows: "update_rows rr i u w = w\<lparr>w_endpoints := w_endpoints w,
        w_invalid_endpoints := map (\<lambda>r. if iv_id r = i then r' else r) (w_invalid_endpoints w)\<rparr>"
      using Some by (simp add: update_rows_def)
    show ?thesis unfolding rows
      by (rule db_inv_endpoints[OF w]) (use update_invalid_id(2)[OF Inr] r in \<open>auto simp: endpoint_ids_def image_iff\<close>)
  qed
qed

lemma db_inv_other [simp]:
  "db_inv (w\<lparr>w_subscriptions := ss\<rparr>) = db_inv w" "db_inv (w\<lparr>w_redis_cache := c\<rparr>) = db_inv w"
  "db_inv (w\<lparr>w_redis := r\<rparr>) = db_inv w"
  by (simp_all add: db_inv_def event_ids_def endpoint_ids_def)

lemma keeps_registration [keeps_intros]: "keeps db_inv (rest_register_endpoint env rg pay wallet body)"
proof -
  have "keeps db_inv (insert_row env rg i wallet body)" for i
    unfolding insert_row_def by (intro keeps_intros integrity.frame.keeps_insert)
  moreover have "keeps db_inv (record_payment env pay i e)" for i e
    unfolding record_payment_def Let_def by (intro keeps_intros db_inv_rows db_inv_tick_stable) simp
  moreover have "keeps db_inv (wire_execute env rg i body e)" for i e
    unfolding wire_execute_def provider_setup_def best_effort_def
    by (intro keeps_intros integrity.frame.keeps_delete integrity.frame.keeps_provider db_inv_tick_stable)
  moreover have "keeps db_inv (check_endpoint_quota env wallet)"
    unfolding check_endpoint_quota_def check_quota_def by (intro keeps_intros db_inv_tick_stable)
  ultimately show ?thesis unfolding rest_register_endpoint_def invalidate_endpoint_cache_def
    by (intro keeps_intros db_inv_tick_stable) simp_all
qed

lemma keeps_rest_routes [keeps_intros]: "keeps db_inv (rest_handler env rg rr wallet call)"
proof -
  have cache: "keeps db_inv (invalidate_endpoint_cache env)"
    unfolding invalidate_endpoint_cache_def by (intro keeps_intros db_inv_tick_stable) simp
  have own: "keeps db_inv (owned_endpoint env wallet i)" for i
    unfolding owned_endpoint_def not_found_def by (intro keeps_intros db_inv_tick_stable)
  have "keeps db_inv (rest_update_endpoint env rr wallet i u)" "keeps db_inv (rest_deactivate_endpoint env wallet i)"
    "keeps db_inv (rest_create_subscription env rr wallet i f)" "keeps db_inv (rest_remove_subscription env wallet i)"
    "keeps db_inv (rest_get_endpoint env wallet i)" "keeps db_inv (rest_list_endpoints env wallet)"
    "keeps db_inv (rest_list_subscriptions env wallet i)" for i u f
    unfolding rest_update_endpoint_def rest_deactivate_endpoint_def rest_create_subscription_def insert_subscription_def
      rest_remove_subscription_def rest_get_endpoint_def rest_list_endpoints_def rest_list_subscriptions_def not_found_def Let_def
    by (intro keeps_intros cache own db_inv_tick_stable db_inv_update_rows db_inv_rows; simp?)+
  then show ?thesis unfolding rest_handler_def
    by (cases call) (auto intro!: keeps_intros simp del: run_simps)
qed

lemma keeps_serve_rest [keeps_intros]: "keeps db_inv (serve_rest env rg rr rq call)"
  unfolding serve_rest_def by (intro keeps_intros keeps_wallet_auth) (simp add: redis_stable_def)


section \<open>Ingestion, reports and retries\<close>

lemma keeps_ingestion:
  "keeps service_inv (ingest_goldsky_batch env be cfg u idx rq body)"
  "keeps service_inv (ingest_single_event env be cfg u idx rq raw)"
  "keeps db_inv (ingest_facilitator env cfg rq payload)"
proof -
  have basic: "keeps service_inv (elift r)" "keeps service_inv (eraise e)" "keeps service_inv (eret v)" for r e v
    by (intro keeps_intros)+
  have "keeps service_inv (process_now env u idx ls)" for ls
    unfolding process_now_def by (intro keeps_intros service_operations(3))
  then show "keeps service_inv (ingest_goldsky_batch env be cfg u idx rq body)"
    unfolding ingest_goldsky_batch_def Let_def by (intro keeps_intros service_operations(2))
  show "keeps service_inv (ingest_single_event env be cfg u idx rq raw)"
    unfolding ingest_single_event_def Let_def by (intro keeps_intros service_operations)
  show "keeps db_inv (ingest_facilitator env cfg rq payload)"
    unfolding ingest_facilitator_def by (intro keeps_intros db_inv_tick_stable)
qed

text \<open>A request to one of the reporting routes, limits already checked.\<close>

datatype report =
    Deliveries "string option" "string option" "string option" "string option" nat
  | Delivery string
  | Endpoint_deliveries string "string option" "string option" nat
  | Delivery_statistics string
  | Events "string option" nat "WebhookEventType option" "int option"
  | Event string
  | Endpoint_events string "string option" nat
  | Statistics

definition rest_report :: "env \<Rightarrow> string \<Rightarrow> report \<Rightarrow> unit io" where
  "rest_report env wallet call = (case call of
      Deliveries ep ev st c n \<Rightarrow> ebind (rest_list_deliveries env wallet ep ev st c n) (\<lambda>_. eret ())
    | Delivery i \<Rightarrow> ebind (rest_get_delivery env wallet i) (\<lambda>_. eret ())
    | Endpoint_deliveries i st c n \<Rightarrow> ebind (rest_list_endpoint_deliveries env wallet i st c n) (\<lambda>_. eret ())
    | Delivery_statistics i \<Rightarrow> ebind (rest_get_delivery_stats env wallet i) (\<lambda>_. eret ())
    | Events c n ty ch \<Rightarrow> ebind (rest_list_events env wallet c n ty ch) (\<lambda>_. eret ())
    | Event i \<Rightarrow> ebind (rest_get_event env wallet i) (\<lambda>_. eret ())
    | Endpoint_events i c n \<Rightarrow> ebind (rest_list_endpoint_events env wallet i c n) (\<lambda>_. eret ())
    | Statistics \<Rightarrow> ebind (rest_get_stats env wallet) (\<lambda>_. eret ()))"

definition serve_report :: "env \<Rightarrow> Request \<Rightarrow> report \<Rightarrow> unit io" where
  "serve_report env rq call = ebind (require_wallet_auth env rq) (\<lambda>wallet. rest_report env wallet call)"

lemma keeps_rest_report:
  assumes I: "tick_stable I"
  shows "keeps I (rest_report env wallet call)"
proof -
  have own: "keeps I (owned_endpoint env wallet i)" "keeps I (owned_delivery env wallet i)" for i
    unfolding owned_endpoint_def owned_delivery_def not_found_def delivery_get_by_id_def by (intro keeps_intros I)+
  have page: "keeps I (delivery_before env c)" "keeps I (event_before env c)" "keeps I (enrich_deliveries env rows)" for c rows
    unfolding delivery_before_def event_before_def enrich_deliveries_def Let_def by (intro keeps_intros I)+
  have pages: "keeps I (delivery_page env n rows)" "keeps I (linked_page env ids c n P)" for n rows ids c P
    unfolding delivery_page_def linked_page_def by (intro keeps_intros keeps_pair page I)+
  note ops = rest_list_deliveries_def rest_get_delivery_def rest_list_endpoint_deliveries_def list_paginated_def
    rest_get_delivery_stats_def get_stats_for_endpoint_def rest_list_events_def rest_get_event_def not_found_def
    rest_list_endpoint_events_def rest_get_stats_def Let_def
  show ?thesis unfolding rest_report_def
    by (cases call; simp only: report.case ops; intro keeps_intros keeps_pair own page pages I)
qed

lemma keeps_serve_report [keeps_intros]: "keeps db_inv (serve_report env rq call)"
  unfolding serve_report_def by (intro keeps_intros keeps_wallet_auth keeps_rest_report db_inv_tick_stable) (simp add: redis_stable_def)

lemma keeps_retry:
  assumes "run (rest_retry_delivery env ce cp wallet i) (w, c) = (r, (w', c'))" and "db_inv w"
  shows "db_inv w'"
proof -
  have t: "keeps (\<lambda>s. db_inv (fst s)) (on_tables m)" if "keeps db_inv m" for m :: "'x io"
    using that by (intro keepsI) (auto simp: run_on_tables split: prod.split dest: keeps_run)
  have v: "keeps (\<lambda>s. db_inv (fst s)) (on_convoy m)" for m :: "'x cv"
    by (intro keepsI) (auto simp: run_on_convoy split: prod.split)
  have own: "keeps db_inv (owned_delivery env wallet i)"
    unfolding owned_delivery_def not_found_def delivery_get_by_id_def by (intro keeps_intros db_inv_tick_stable)
  have "keeps (\<lambda>s. db_inv (fst s)) (rest_retry_delivery env ce cp wallet i)"
    unfolding rest_retry_delivery_def by (intro keeps_intros keeps_pair t v own)
  from keepsD[OF this, of "(w, c)"] show ?thesis using assms by simp
qed

section \<open>Steps of the whole site\<close>

inductive site_step :: "bus \<Rightarrow> bus \<Rightarrow> bool" where
  service: "service_step b b' \<Longrightarrow> site_step b b'"
| rest: "run (in_world (serve_rest env rg rr rq call)) b = (r, b') \<Longrightarrow> site_step b b'"
| report: "run (in_world (serve_report env rq what)) b = (u, b') \<Longrightarrow> site_step b b'"
| retry: "run (rest_retry_delivery env ce cp wallet i) (bu_world b, c) = (s, (w', c')) \<Longrightarrow> site_step b (b\<lparr>bu_world := w'\<rparr>)"
| goldsky: "run (ingest_goldsky_batch env be cfg unified idx rq body) b = (items, b') \<Longrightarrow> site_step b b'"
| goldsky_event: "run (ingest_single_event env be cfg unified idx rq raw) b = (item, b') \<Longrightarrow> site_step b b'"
| facilitator: "run (in_world (ingest_facilitator env cfg rq payload)) b = (f, b') \<Longrightarrow> site_step b b'"

inductive_cases site_stepE: "site_step b b'"

lemma site_step_inv: "site_step b b' \<Longrightarrow> service_inv b \<Longrightarrow> service_inv b'"
proof (induction rule: site_step.induct)
  case service
  then show ?case by (rule service_step_inv)
next
  case (retry env ce cp wallet i b c s w' c')
  then show ?case using keeps_retry by (simp add: service_inv_def bus_inv_def)
qed (erule (1) keeps_run[rotated], intro keeps_ingestion service_operations keeps_intros; assumption)+

end
