(* ===== verification/Tool_Answers.thy ===== *)
theory Tool_Answers
  imports Tool_Claims Trigger_Handler
begin

text \<open>
  What the answers of the tools mean: whose events a search returns, when a deleted trigger
  stops matching, what the in-memory index of the workers computes, and which rows the tools
  can never, or should never, have stored.
\<close>

section \<open>Searching events\<close>

lemma triple_result:
  assumes "triple P m Q E" and "P w" and "run m w = (Inr v, w')"
  shows "Q v w'"
  using tripleD(1)[OF assms] .

text \<open>The event \<open>r\<close> of the table is linked to an active endpoint of the wallet \<open>a\<close>.\<close>

definition visible_to :: "string \<Rightarrow> world \<Rightarrow> EventRow \<Rightarrow> bool" where
  "visible_to a w r \<longleftrightarrow> r \<in> set (w_events w) \<and> (\<exists>e \<in> set (owned_endpoint_ids a w). (er_id r, e) \<in> set (w_event_endpoints w))"

lemma linked_events_sound: "i \<in> set (linked_events ids n w) \<Longrightarrow> \<exists>e \<in> set ids. (i, e) \<in> set (w_event_endpoints w)"
  unfolding linked_events_def by (force dest!: in_set_takeD)

lemma newest_first_set [simp]: "set (newest_first rs) = set rs"
  by (simp add: newest_first_def)

lemma owned_ids_tick [simp]: "owned_endpoint_ids a (w\<lparr>w_tick := n\<rparr>) = owned_endpoint_ids a w"
  by (simp add: owned_endpoint_ids_def)

lemma linked_events_tick [simp]: "linked_events ids k (w\<lparr>w_tick := n\<rparr>) = linked_events ids k w"
  by (simp add: linked_events_def)

lemma row_limit_bound: "row_limit v = Inr n \<Longrightarrow> n \<le> 100"
  by (auto simp: row_limit_def split: pyval.splits if_splits)

lemma query_run:
  "run (query env f) w = (r, w') \<Longrightarrow> w' = w\<lparr>w_tick := Suc (w_tick w)\<rparr> \<and> (\<forall>v. r = Inr v \<longrightarrow> v = f w')"
  by (auto simp: query_def split: option.splits)

lemma found_visible:
  "\<forall>r \<in> set (take n (newest_first (filter (\<lambda>r. er_id r \<in> set (linked_events (owned_endpoint_ids a w) k w) \<and> P r) (w_events w)))).
    visible_to a w r"
proof
  fix r assume "r \<in> set (take n (newest_first (filter (\<lambda>r. er_id r \<in> set (linked_events (owned_endpoint_ids a w) k w) \<and> P r) (w_events w))))"
  then have "r \<in> set (w_events w)" "er_id r \<in> set (linked_events (owned_endpoint_ids a w) k w)"
    by (auto dest!: in_set_takeD)
  then show "visible_to a w r" using linked_events_sound by (auto simp: visible_to_def)
qed

text \<open>
  C28. A search returns only the caller's events: every event in the answer is a row of the
  table linked to an active endpoint the calling wallet owns, at most a hundred are
  returned, and the tables do not change.
\<close>

theorem search_returns_own_events:
  assumes "run (search_events env params ctx) w = (Inr res, w')"
  shows "\<exists>a rows. agent_lower ctx = Inr a \<and> dict_get ''events'' PyNone res = PyList (map event_summary rows) \<and>
    (\<forall>r \<in> set rows. visible_to a w r) \<and> length rows \<le> 100 \<and> (\<exists>n. w' = w\<lparr>w_tick := n\<rparr>)"
proof -
  obtain a where a: "agent_lower ctx = Inr a"
    using assms by (cases "agent_lower ctx") (auto simp: search_events_def)
  have rl: "\<And>limit. rbind (get_or ''limit'' (PyInt 50) params) row_limit = Inr limit \<Longrightarrow> nat limit \<le> 100"
    by (auto simp: rbind_eq_Inr dest: row_limit_bound)
  define found where "found rows \<longleftrightarrow> (\<forall>r \<in> set rows. visible_to a w r) \<and> length rows \<le> 100" for rows
  have f: "found []" "nat limit \<le> 100 \<Longrightarrow> found (take (nat limit) (newest_first
      (filter (\<lambda>r. er_id r \<in> set (linked_events (owned_endpoint_ids a w) k w) \<and> P r) (w_events w))))" for limit k P
    using found_visible by (simp_all add: found_def)
  have "(\<exists>rows c. res = [(''events'', PyList (map event_summary rows)), (''count'', c)] \<and> found rows) \<and> (\<exists>n. w' = w\<lparr>w_tick := n\<rparr>)"
    using assms a rl
    by (auto simp: search_events_def query_def Let_def no_events_def split: option.splits sum.splits if_splits intro: f)
  then show ?thesis using a by (auto simp: found_def dict_get_def)
qed

definition linked_world :: world where
  "linked_world = two_owners\<lparr>w_events := [blank_event, blank_event\<lparr>er_id := ''ev2''\<rparr>],
     w_event_endpoints := [(''ev'', ''e1''), (''ev2'', ''e2'')]\<rparr>"

lemma linked_search:
  "fst (run (search_events calm_env (PyDict []) (agent ''0xA'')) linked_world) =
     Inr [(''events'', PyList [event_summary blank_event]), (''count'', PyInt 1)]"
  by (simp add: search_events_def agent_samples linked_world_def two_owners_simps query_def owned_endpoint_ids_def get_or_def
      expect_dict_def dict_get_def row_limit_def py_truthy_def linked_events_def newest_first_def chain_filter_def status_filter_def
      blank_event_def Let_def)

theorem search_returns_own_events_witness:
  "\<exists>rows. PyList [event_summary blank_event] = PyList (map event_summary rows) \<and> (\<forall>r \<in> set rows. visible_to ''0xa'' linked_world r)"
proof -
  obtain w' where r: "run (search_events calm_env (PyDict []) (agent ''0xA'')) linked_world =
      (Inr [(''events'', PyList [event_summary blank_event]), (''count'', PyInt 1)], w')"
    using linked_search by (cases "run (search_events calm_env (PyDict []) (agent ''0xA'')) linked_world") auto
  from search_returns_own_events[OF r] obtain rows where
    "PyList [event_summary blank_event] = PyList (map event_summary rows)" "\<forall>r \<in> set rows. visible_to ''0xa'' linked_world r"
    by (simp add: agent_samples dict_get_def) metis
  then show ?thesis by (intro exI conjI)
qed

section \<open>The trigger index\<close>

lemma map_of_append_to:
  "map_of (map (\<lambda>(k', us). if k' = k then (k', us @ [t]) else (k', us)) idx) j =
     (if j = k then map_option (\<lambda>us. us @ [t]) (map_of idx k) else map_of idx j)"
  by (induction idx) auto

lemma index_lookup:
  "map_of (build_index rg ts idx) k =
     (case map_of idx k of
        Some us \<Rightarrow> Some (us @ filter (\<lambda>t. index_key rg t = k) ts)
      | None \<Rightarrow> if filter (\<lambda>t. index_key rg t = k) ts = [] then None else Some (filter (\<lambda>t. index_key rg t = k) ts))"
proof (induction ts arbitrary: idx)
  case (Cons t ts)
  show ?case
    by (cases "map_of idx (index_key rg t)")
       (auto simp: Let_def Cons map_of_append_to map_of_append map_add_def split: option.splits)
qed (auto split: option.split)

text \<open>
  The in-memory index is the query it replaces: looking a topic up in the index built
  from a list of triggers gives exactly the triggers with that topic, in the order of
  the list, a trigger without a stored topic counting under the topic computed from its
  signature; the search through all triggers is what it avoids.
\<close>

theorem index_match_is_filter:
  "index_match \<lparr>ti_index = build_index rg ts [], ti_last_refresh = time\<rparr> topic0 =
     filter (\<lambda>t. index_key rg t = py_lower topic0) ts"
  by (simp add: index_match_def index_lookup)

section \<open>Deleting a trigger\<close>

definition emptied :: "world \<Rightarrow> world" where
  "emptied w = w\<lparr>w_active_cache := None, w_topic_cache := (\<lambda>_. None), w_templates_cache := None\<rparr>"

lemma deleted_world:
  assumes "run (delete_trigger env rg params ctx) w = (Inr res, w')" and "\<not> dict_has ''error'' res"
    and "subscript ''trigger_id'' params = Inr (PyStr i)"
  shows "\<exists>n. w' = (emptied (set_inactive i w))\<lparr>w_tick := n\<rparr>"
  using assms
  by (auto simp: delete_trigger_def trigger_get_by_id_def query_valid_def query_def trigger_deactivate_def py_str_def
      invalidate_trigger_cache_def invalidate_topics_def best_effort_def redis_call_def tool_error_def dict_has_def Let_def
      set_inactive_def emptied_def
      split: option.splits sum.splits if_splits)

lemma set_inactive_triggers:
  "w_triggers (set_inactive i w) = map (\<lambda>t. if tg_id t = i then t\<lparr>tg_active := False\<rparr> else t) (w_triggers w)"
  by (simp add: set_inactive_def)

lemma active_after:
  "filter (\<lambda>t. tg_topic0 t = k \<and> tg_active t) (w_triggers (set_inactive i w)) =
     filter (\<lambda>t. tg_topic0 t = k \<and> tg_active t \<and> tg_id t \<noteq> i) (w_triggers w)"
  "filter tg_active (w_triggers (set_inactive i w)) = filter (\<lambda>t. tg_active t \<and> tg_id t \<noteq> i) (w_triggers w)"
proof -
  have "filter (\<lambda>t. tg_topic0 t = k \<and> tg_active t) (map (\<lambda>t. if tg_id t = i then t\<lparr>tg_active := False\<rparr> else t) ts) =
      filter (\<lambda>t. tg_topic0 t = k \<and> tg_active t \<and> tg_id t \<noteq> i) ts"
    "filter tg_active (map (\<lambda>t. if tg_id t = i then t\<lparr>tg_active := False\<rparr> else t) ts) =
      filter (\<lambda>t. tg_active t \<and> tg_id t \<noteq> i) ts" for ts
    by (induction ts) simp_all
  then show "filter (\<lambda>t. tg_topic0 t = k \<and> tg_active t) (w_triggers (set_inactive i w)) =
     filter (\<lambda>t. tg_topic0 t = k \<and> tg_active t \<and> tg_id t \<noteq> i) (w_triggers w)"
    "filter tg_active (w_triggers (set_inactive i w)) = filter (\<lambda>t. tg_active t \<and> tg_id t \<noteq> i) (w_triggers w)"
    unfolding set_inactive_triggers .
qed

lemma emptied_fields [simp]:
  "w_triggers (emptied w) = w_triggers w" "w_topic_cache (emptied w) = (\<lambda>_. None)" "w_active_cache (emptied w) = None"
  by (simp_all add: emptied_def)

text \<open>
  A deletion takes effect at once: after \<open>delete_trigger\<close> has answered without an
  error, the lookup by topic and the list of active triggers of this process return the
  active triggers as before, less the deleted one, because its row is inactive and the
  caches are empty.
\<close>

theorem deleted_trigger_not_found:
  assumes "run (delete_trigger env rg params ctx) w = (Inr res, w1)" and "\<not> dict_has ''error'' res"
    and "subscript ''trigger_id'' params = Inr (PyStr i)"
  shows "(\<forall>topic ts w2. run (find_by_topic env' topic) w1 = (Inr ts, w2) \<longrightarrow>
      ts = filter (\<lambda>t. tg_topic0 t = Some (py_lower topic) \<and> tg_active t \<and> tg_id t \<noteq> i) (w_triggers w)) \<and>
    (\<forall>ts w2. run (triggers_list_active env') w1 = (Inr ts, w2) \<longrightarrow>
      ts = sort_key (\<lambda>t. - created_of t) (filter (\<lambda>t. tg_active t \<and> tg_id t \<noteq> i) (w_triggers w)))"
proof -
  obtain n where w1: "w1 = (emptied (set_inactive i w))\<lparr>w_tick := n\<rparr>" using deleted_world[OF assms] by blast
  have "ts = filter (\<lambda>t. tg_topic0 t = Some (py_lower topic) \<and> tg_active t \<and> tg_id t \<noteq> i) (w_triggers w)"
    if "run (find_by_topic env' topic) w1 = (Inr ts, w2)" for topic ts w2
    using that by (auto simp: w1 find_by_topic_def query_valid_def query_def Let_def active_after split: option.splits if_splits)
  moreover have "ts = sort_key (\<lambda>t. - created_of t) (filter (\<lambda>t. tg_active t \<and> tg_id t \<noteq> i) (w_triggers w))"
    if "run (triggers_list_active env') w1 = (Inr ts, w2)" for ts w2
    using that by (auto simp: w1 triggers_list_active_def query_valid_def query_def Let_def active_after split: option.splits if_splits)
  ultimately show ?thesis by blast
qed

lemma two_owners_delete:
  "is_ok (fst (run (delete_trigger calm_env small_registry (PyDict [(''trigger_id'', PyStr ''t1'')]) (agent ''0xA'')) two_owners)) \<and>
   (\<forall>r. fst (run (delete_trigger calm_env small_registry (PyDict [(''trigger_id'', PyStr ''t1'')]) (agent ''0xA'')) two_owners) = Inr r \<longrightarrow>
     \<not> dict_has ''error'' r)"
  by (simp add: delete_trigger_def agent_samples two_owners_simps tool_run_simps dict_has_def)

theorem deleted_trigger_not_found_witness:
  "\<exists>res w1 w2. run (delete_trigger calm_env small_registry (PyDict [(''trigger_id'', PyStr ''t1'')]) (agent ''0xA'')) two_owners = (Inr res, w1) \<and>
     run (triggers_list_active calm_env) w1 = (Inr [small_trigger ''t2'' ''0xb'' ''e2''], w2)"
proof -
  let ?m = "delete_trigger calm_env small_registry (PyDict [(''trigger_id'', PyStr ''t1'')]) (agent ''0xA'')"
  obtain res w1 where r: "run ?m two_owners = (Inr res, w1)" "\<not> dict_has ''error'' res"
    using two_owners_delete by (cases "run ?m two_owners"; cases "fst (run ?m two_owners)") auto
  have s: "subscript ''trigger_id'' (PyDict [(''trigger_id'', PyStr ''t1'')]) = Inr (PyStr ''t1'')"
    by (simp add: subscript_def expect_dict_def of_option_def)
  obtain n where w1: "w1 = (emptied (set_inactive ''t1'' two_owners))\<lparr>w_tick := n\<rparr>" using deleted_world[OF r s] by blast
  have "is_ok (fst (run (triggers_list_active calm_env) w1))"
    by (simp add: w1 triggers_list_active_def query_valid_def query_def Let_def two_owners_simps emptied_def set_inactive_def)
  then obtain ts w2 where l: "run (triggers_list_active calm_env) w1 = (Inr ts, w2)"
    by (cases "run (triggers_list_active calm_env) w1"; cases "fst (run (triggers_list_active calm_env) w1)") auto
  then have "ts = [small_trigger ''t2'' ''0xb'' ''e2'']"
    using deleted_trigger_not_found[OF r s, of calm_env] by (simp add: two_owners_def small_trigger_def)
  with r l show ?thesis by blast
qed

section \<open>Identifiers of triggers\<close>

text \<open>
  The ids the tools choose have 21 characters, the textual form of a UUID at least 32.
\<close>

definition short_ids :: "env \<Rightarrow> bool" where
  "short_ids env \<longleftrightarrow> (\<forall>n. length (en_uuid env n) = 21)"

definition long_uuids :: "registry \<Rightarrow> bool" where
  "long_uuids rg \<longleftrightarrow> (\<forall>s. rg_uuid_in rg s \<longrightarrow> 32 \<le> length s)"

lemma no_trigger_created:
  assumes "short_ids env" and "long_uuids rg"
  shows "\<exists>e n. run (create_owned_trigger env rg owner e' time sig cols) w = (Inl e, w\<lparr>w_tick := n\<rparr>)"
proof -
  have "\<not> rg_uuid_in rg (en_uuid env (w_tick w))" using assms by (fastforce simp: short_ids_def long_uuids_def)
  then show ?thesis by (auto simp: create_owned_trigger_def trigger_create_def split: option.splits sum.splits)
qed

lemma ids_stable [simp]: "registry_stable (\<lambda>u. set (trigger_ids u) \<subseteq> X)"
  by (simp add: registry_stable_def tick_stable_def trigger_ids_def)

lemma no_new_ids:
  assumes "short_ids env" and "long_uuids rg"
  shows "tool_frame (\<lambda>u. set (trigger_ids u) \<subseteq> X) env rg"
proof
  let ?I = "\<lambda>u. set (trigger_ids u) \<subseteq> X"
  show "keeps ?I (create_owned_trigger env rg a e time s cols)" for a e time s cols
  proof (rule keepsI)
    fix w assume "?I w"
    then show "?I (snd (run (create_owned_trigger env rg a e time s cols) w))"
      using no_trigger_created[OF assms, of a e time s cols w] by (auto simp: trigger_ids_def)
  qed
  show "keeps ?I (endpoint_insert env rg i rc a po cols)" for i rc a po cols
    by (intro keeps_triple triple_endpoint_insert registry_stable_tick ids_stable)
       (simp_all add: trigger_ids_def add_endpoint_def add_invalid_endpoint_def)
  show "keeps ?I (endpoint_delete env i)" for i
    by (intro keeps_endpoint_delete registry_stable_tick ids_stable) (auto simp: trigger_ids_def remove_endpoint_def)
  show "keeps ?I (endpoint_set_provider env i p ce)" for i p ce
    by (intro keeps_row_writes registry_stable_tick ids_stable) (simp add: trigger_ids_def wired_def)
  show "keeps ?I (trigger_deactivate env rg i)" for i
    by (intro keeps_row_writes ids_stable) (auto simp: trigger_ids_def set_inactive_def)
qed simp

text \<open>
  No tool can create a trigger: the ids the tools choose are no UUIDs, the column takes
  only UUIDs, so every insert is refused, the tools that create a trigger never answer
  without an error, and no tool call adds a trigger of any wallet.
\<close>

theorem tools_cannot_create_triggers:
  assumes "short_ids env" and "long_uuids rg" and "run (tool_handlers env rg name params ctx) w = (r, w')"
  shows "set (trigger_ids w') \<subseteq> set (trigger_ids w) \<and>
    (name \<in> {''create_trigger'', ''activate_template''} \<longrightarrow> (\<forall>res. r = Inr res \<longrightarrow> dict_has ''error'' res))"
proof
  show "set (trigger_ids w') \<subseteq> set (trigger_ids w)"
    using keepsD[OF tool_frame.keeps_tools[OF no_new_ids[OF assms(1,2)]], of w "set (trigger_ids w)" name params ctx] assms(3) by simp
  have c: "run (create_owned_trigger env rg a e t s cols) u \<noteq> (Inr v, u')" for a e t s cols u v u'
    using no_trigger_created[OF assms(1,2), of a e t s cols u] by auto
  have "dict_has ''error'' res" if "run (create_trigger env rg params ctx) w = (Inr res, w')" for res
    using that c by (auto simp: create_trigger_def tool_error_def dict_has_def Let_def split: prod.splits sum.splits option.splits if_splits)
  moreover have "dict_has ''error'' res" if "run (activate_template env rg params ctx) w = (Inr res, w')" for res
    using that c by (auto simp: activate_template_def tool_error_def dict_has_def Let_def split: prod.splits sum.splits option.splits if_splits)
  ultimately show "name \<in> {''create_trigger'', ''activate_template''} \<longrightarrow> (\<forall>res. r = Inr res \<longrightarrow> dict_has ''error'' res)"
    using assms(3) by (auto simp: tool_handlers_def)
qed

definition nanoid_env :: env where
  "nanoid_env = calm_env\<lparr>en_uuid := \<lambda>_. replicate 21 CHR ''x''\<rparr>"

definition uuid_registry :: registry where
  "uuid_registry = small_registry\<lparr>rg_uuid_in := \<lambda>s. length s = 36\<rparr>"

theorem tools_cannot_create_triggers_witness:
  "let w' = snd (run (tool_handlers nanoid_env uuid_registry ''create_trigger'' swap_call (agent ''0xA'')) two_owners) in
   set (trigger_ids w') \<subseteq> {''t1'', ''t2''}"
proof -
  let ?m = "tool_handlers nanoid_env uuid_registry ''create_trigger'' swap_call (agent ''0xA'')"
  obtain r w' where r: "run ?m two_owners = (r, w')" by fastforce
  have "short_ids nanoid_env" "long_uuids uuid_registry"
    by (simp_all add: short_ids_def long_uuids_def nanoid_env_def uuid_registry_def)
  moreover have "trigger_ids two_owners = [''t1'', ''t2'']" by (simp add: trigger_ids_def two_owners_simps)
  ultimately show ?thesis using tools_cannot_create_triggers[OF _ _ r] r by simp
qed

section \<open>Rows without a model\<close>

definition blocked :: "world \<Rightarrow> bool" where
  "blocked w \<longleftrightarrow> (\<exists>r \<in> set (w_invalid_endpoints w). iv_active r)"

lemma blocked_stable: "tick_stable blocked"
  by (simp add: tick_stable_def blocked_def)

lemma blocked_insert:
  "\<not> is_ok (EthAddress rc) \<Longrightarrow> triple (\<lambda>_. True) (endpoint_insert env rg i rc a po cols) (\<lambda>_. blocked) (\<lambda>_. True)"
  by (auto simp: triple_def endpoint_insert_def add_invalid_endpoint_def blocked_def
      split: option.splits sum.splits bool.splits if_splits)

lemma keeps_blocked: "keeps blocked (wire_provider env rg i u rc sec)"
  unfolding wire_provider_def
  by (intro keeps_intros keeps_row_writes blocked_stable) (simp add: blocked_def wired_def)

lemma triple_any: "(\<And>v. triple (\<lambda>_. True) (k v) Q (\<lambda>_. True)) \<Longrightarrow> triple (\<lambda>_. True) (ebind m k) Q (\<lambda>_. True)"
  by (rule triple_ebind[of _ m "\<lambda>_ _. True"]) (auto simp: triple_def split: prod.split sum.split)

lemma malformed_core:
  assumes "get_or ''recipient'' (py_of_option PyStr (ac_agent_address ctx)) params = Inr (PyStr rc)"
    and "\<not> is_ok (EthAddress (py_lower rc))"
  shows "triple (\<lambda>_. True) (create_endpoint_core env rg params ctx)
    (\<lambda>core u. case core of Inr _ \<Rightarrow> blocked u | Inl err \<Rightarrow> dict_has ''error'' err) (\<lambda>_. True)" (is "triple ?P _ ?Q ?E")
proof -
  have after: "triple blocked
      (if b then ebind (etry (wire_provider env rg i t rc' sec)) (\<lambda>r. case r of
           Inr _ \<Rightarrow> eret (Inr c) | Inl _ \<Rightarrow> ebind (endpoint_delete env i) (\<lambda>_. eret (Inl (tool_error x y))))
       else eret (Inr c)) ?Q ?E" for b i t rc' sec c x y
    by (intro triple_if triple_step[OF keeps_etry[OF keeps_blocked]] triple_cases triple_eret)
       (auto simp: tool_error_def dict_has_def triple_def split: prod.split sum.split)
  show ?thesis
    unfolding create_endpoint_core_def Let_def assms(1) ebind_elift_Inr py_lower_val_def
    apply (rule triple_any)+
    apply (rule triple_cases, rule triple_if)
      apply (auto simp: triple_def tool_error_def dict_has_def)[2]
    apply (simp only: pyval.case ebind_elift_Inr)
    apply (rule triple_any, rule triple_any, rule triple_any, rule triple_any, rule triple_any, rule triple_any)
    apply (rule triple_ebind[OF blocked_insert[OF assms(2)]])
    apply (rule after)
    done
qed

text \<open>
  One registration can stop the dead-letter handler: registering an endpoint whose
  recipient is no Ethereum address succeeds, because nothing but the database looks at
  the recipient, and from then on no poll of the dead-letter handler gets past the list of
  endpoints: each raises before it has looked at a single failed delivery of anyone, and
  changes nothing.
\<close>

theorem malformed_endpoint_blocks_triage:
  assumes "run (register_endpoint env rg params ctx) w = (Inr res, w1)" and "\<not> dict_has ''error'' res"
    and "get_or ''recipient'' (py_of_option PyStr (ac_agent_address ctx)) params = Inr (PyStr rc)"
    and "\<not> is_ok (EthAddress (py_lower rc))" and "calm_db env'"
  shows "run (dlq_poll_once env' sv) w1 = (Inl ValidationError, w1\<lparr>w_tick := Suc (w_tick w1)\<rparr>)"
proof -
  have "triple (\<lambda>_. True) (register_endpoint env rg params ctx) (\<lambda>res u. dict_has ''error'' res \<or> blocked u) (\<lambda>_. True)"
    unfolding register_endpoint_def
    by (rule triple_ebind[OF malformed_core[OF assms(3,4)]]) (auto intro!: triple_eret split: sum.splits)
  from tripleD(1)[OF this _ assms(1)] assms(2) have "blocked w1" by simp
  then show ?thesis using assms(5)
    by (auto simp: blocked_def dlq_poll_once_def endpoints_list_active_def query_valid_def query_def calm_db_def filter_empty_conv)
qed

definition bad_recipient :: pyval where
  "bad_recipient = PyDict [(''url'', PyStr ''https://8.8.8.8/hook''), (''mode'', PyStr ''notify''), (''recipient'', PyStr ''nobody'')]"

lemma nobody_is_no_address: "py_lower ''nobody'' = ''nobody''" "is_ok (EthAddress ''nobody'') = False"
  by code_simp+

lemma bad_recipient_run:
  "fst (run (register_endpoint calm_env small_registry bad_recipient (agent ''0xA'')) two_owners) =
     Inr [(''endpoint_id'', PyStr (en_uuid calm_env 3)), (''webhook_secret'', PyStr (en_token calm_env 4)), (''mode'', PyStr ''notify''),
       (''url'', PyStr ''https://8.8.8.8/hook'')]"
proof -
  have p: "subscript ''url'' bad_recipient = Inr (PyStr ''https://8.8.8.8/hook'')"
    "get_or ''mode'' d bad_recipient = Inr (PyStr ''notify'')" "get_or ''chains'' d bad_recipient = Inr d"
    "get_or ''recipient'' d bad_recipient = Inr (PyStr ''nobody'')" "get_or ''policies'' d bad_recipient = Inr d" for d
    by (simp_all add: bad_recipient_def subscript_def get_or_def expect_dict_def of_option_def dict_get_def)
  have u: "validate_endpoint_url False (rg_getaddrinfo small_registry n) ''https://8.8.8.8/hook'' = Inr ''https://8.8.8.8/hook''" for n
    using sample_url(3) by (simp add: small_registry_def)
  have g: "rg_policies small_registry v = Inr default_policies"
    "rg_endpoint_row small_registry d = Inr (Some \<lparr>ec_url = [], ec_mode = NOTIFY, ec_chains = []\<rparr>)" for v d
    by (simp_all add: small_registry_def)
  show ?thesis
    by (simp add: register_endpoint_def create_endpoint_core_def p u g url_text_def agent_samples calm_env_def default_settings_def
        check_endpoint_quota_def check_quota_def query_def owned_endpoints_def two_owners_def empty_world_def small_endpoint_def
        py_lower_val_def nobody_is_no_address endpoint_insert_def endpoint_ids_def Let_def eval_nat_numeral)
qed

theorem malformed_endpoint_blocks_triage_witness:
  "\<exists>res w1. run (register_endpoint calm_env small_registry bad_recipient (agent ''0xA'')) two_owners = (Inr res, w1) \<and>
     run (dlq_poll_once calm_env no_services) w1 = (Inl ValidationError, w1\<lparr>w_tick := Suc (w_tick w1)\<rparr>)"
proof -
  obtain w1 where r: "run (register_endpoint calm_env small_registry bad_recipient (agent ''0xA'')) two_owners =
      (Inr [(''endpoint_id'', PyStr (en_uuid calm_env 3)), (''webhook_secret'', PyStr (en_token calm_env 4)), (''mode'', PyStr ''notify''),
       (''url'', PyStr ''https://8.8.8.8/hook'')], w1)"
    using bad_recipient_run by (metis prod.collapse)
  have "get_or ''recipient'' d bad_recipient = Inr (PyStr ''nobody'')" for d
    by (simp add: bad_recipient_def get_or_def expect_dict_def dict_get_def)
  from malformed_endpoint_blocks_triage[OF r _ this, of calm_env no_services] r show ?thesis
    by (auto simp: nobody_is_no_address calm_db_def calm_env_def dict_has_def)
qed

end
