(* ===== verification/Sdk_Client.thy ===== *)
theory Sdk_Client
  imports Siwe_Auth
begin

text \<open>
  The Python SDK (\<open>tripwire_sdk/client.py\<close>): the headers it signs, the request it sends, how it maps
  answers to exceptions, its methods and the session token it keeps. The private key, the clock,
  JSON encoding and SHA-256 are arguments (\<open>sdk_env\<close>), the HTTP client is an action \<open>http\<close> on a state of
  any type. Typed results (\<open>Endpoint(**data)\<close> and the like) are the JSON value they are built from.
  The last section lets the server of this development answer a request the SDK has signed.
\<close>

record sdk_env =
  se_address :: string
  se_sign :: "string \<Rightarrow> string"
  se_iso :: "int \<Rightarrow> string"
  se_sha256 :: "string \<Rightarrow> string"
  se_dumps :: "pyval \<Rightarrow> string"
  se_float :: "string \<Rightarrow> rat option"

record http_request =
  hq_verb :: string
  hq_path :: string
  hq_body :: string
  hq_params :: pydict
  hq_headers :: "(string \<times> string) list"

record http_reply =
  hr_status :: int
  hr_text :: string
  hr_json :: "pyval result"
  hr_retry_after :: "string option"

datatype tripwire_error =
    TripWireAuthError int pyval
  | TripWireNotFoundError int pyval
  | TripWireRateLimitError int pyval "rat option"
  | TripWireServerError int pyval
  | TripWireError int pyval
  | SessionError int string

text \<open>The client: whether it is open, its session token, and the state of the other side.\<close>

record 's sdk =
  sd_open :: bool
  sd_session_id :: "string option"
  sd_clock :: int
  sd_peer :: 's

type_synonym ('s, 'a) sdk_act = "('s sdk, tripwire_error + 'a) act"

definition sbind :: "('s, 'a) sdk_act \<Rightarrow> ('a \<Rightarrow> ('s, 'b) sdk_act) \<Rightarrow> ('s, 'b) sdk_act" where
  "sbind m k = ebind m (\<lambda>r. case r of Inl e \<Rightarrow> eret (Inl e) | Inr v \<Rightarrow> k v)"

definition sraise :: "tripwire_error \<Rightarrow> ('s, 'a) sdk_act" where
  "sraise e = eret (Inl e)"

definition sret :: "'a \<Rightarrow> ('s, 'a) sdk_act" where
  "sret v = eret (Inr v)"

section \<open>Answers and exceptions\<close>

definition detail_of :: "http_reply \<Rightarrow> pyval" where
  "detail_of resp = (case hr_json resp of
      Inr (PyDict d) \<Rightarrow> dict_get ''detail'' (PyStr (hr_text resp)) d
    | _ \<Rightarrow> PyStr (hr_text resp))"

definition raise_for_status :: "sdk_env \<Rightarrow> http_reply \<Rightarrow> tripwire_error option" where
  "raise_for_status se resp =
     (let status = hr_status resp; detail = detail_of resp in
      if status < 400 then None
      else if status = 401 \<or> status = 403 then Some (TripWireAuthError status detail)
      else if status = 404 then Some (TripWireNotFoundError status detail)
      else if status = 429
      then Some (TripWireRateLimitError status detail (case hr_retry_after resp of Some r \<Rightarrow> se_float se r | None \<Rightarrow> None))
      else if 500 \<le> status \<and> status < 600 then Some (TripWireServerError status detail)
      else Some (TripWireError status detail))"

definition TimeoutError :: exn where "TimeoutError = ExternalError ''httpx.TimeoutException''"
definition ConnectionError :: exn where "ConnectionError = ExternalError ''httpx.ConnectError''"

text \<open>Sending, with the two exceptions of the HTTP client that are translated; others pass.\<close>

definition on_peer :: "('s, 'a) act \<Rightarrow> ('s sdk, 'a) act" where
  "on_peer m = ebind (egets (\<lambda>c. run m (sd_peer c))) (\<lambda>(r, s).
     ebind (emodify (\<lambda>c. c\<lparr>sd_peer := s\<rparr>)) (\<lambda>_. elift r))"

definition send_http :: "(http_request \<Rightarrow> ('s, http_reply) act) \<Rightarrow> http_request \<Rightarrow> ('s, http_reply) sdk_act" where
  "send_http http rq = ebind (egets sd_open) (\<lambda>is_open.
     if \<not> is_open then eraise RuntimeError
     else ebind (etry (on_peer (http rq))) (\<lambda>r. case r of
         Inr resp \<Rightarrow> sret resp
       | Inl e \<Rightarrow> if e = TimeoutError then sraise (TripWireError 0 (PyStr ''Request timed out''))
           else if e = ConnectionError then sraise (TripWireError 0 (PyStr ''Connection failed''))
           else eraise e))"

definition checked :: "sdk_env \<Rightarrow> http_reply \<Rightarrow> ('s, http_reply) sdk_act" where
  "checked se resp = (case raise_for_status se resp of Some e \<Rightarrow> sraise e | None \<Rightarrow> sret resp)"

section \<open>Signing\<close>

definition SIWE_DOMAIN :: string where "SIWE_DOMAIN = ''tripwire.dev''"
definition EXPIRATION_MINUTES :: int where "EXPIRATION_MINUTES = 5"

definition sdk_message :: "sdk_env \<Rightarrow> string \<Rightarrow> string \<Rightarrow> string \<Rightarrow> string \<Rightarrow> string \<Rightarrow> string \<Rightarrow> string" where
  "sdk_message se verb path body nonce issued_at expiration_time =
     (let statement = verb @ '' '' @ path @ '' '' @ se_sha256 se body in
      SIWE_DOMAIN @ '' wants you to sign in with your Ethereum account:'' @ nl @
      se_address se @ nl @ nl @ statement @ nl @ nl @
      ''URI: https://'' @ SIWE_DOMAIN @ nl @ ''Version: 1'' @ nl @ ''Chain ID: 8453'' @ nl @
      ''Nonce: '' @ nonce @ nl @ ''Issued At: '' @ issued_at @ nl @ ''Expiration Time: '' @ expiration_time)"

definition make_auth_headers :: "sdk_env \<Rightarrow> int \<Rightarrow> string \<Rightarrow> string \<Rightarrow> string \<Rightarrow> string \<Rightarrow> (string \<times> string) list" where
  "make_auth_headers se time path nonce verb body =
     (let issued_at = se_iso se time; expiration_time = se_iso se (time + EXPIRATION_MINUTES * 60) in
      [(''X-TripWire-Address'', se_address se),
       (''X-TripWire-Signature'', se_sign se (sdk_message se verb path body nonce issued_at expiration_time)),
       (''X-TripWire-Nonce'', nonce), (''X-TripWire-Issued-At'', issued_at), (''X-TripWire-Expiration'', expiration_time)])"

section \<open>Requests\<close>

definition sdk_get_nonce :: "sdk_env \<Rightarrow> (http_request \<Rightarrow> ('s, http_reply) act) \<Rightarrow> ('s, pyval) sdk_act" where
  "sdk_get_nonce se http =
     sbind (send_http http \<lparr>hq_verb = ''GET'', hq_path = ''/auth/nonce'', hq_body = [], hq_params = [], hq_headers = []\<rparr>) (\<lambda>resp.
     sbind (checked se resp) (\<lambda>_.
     ebind (elift (hr_json resp)) (\<lambda>v. ebind (elift (subscript ''nonce'' v)) sret)))"

definition session_header :: "string option \<Rightarrow> (string \<times> string) list" where
  "session_header sid = (case sid of Some s \<Rightarrow> if s = [] then [] else [(''X-TripWire-Session'', s)] | None \<Rightarrow> [])"

definition signed_request ::
  "sdk_env \<Rightarrow> int \<Rightarrow> string \<Rightarrow> string \<Rightarrow> string \<Rightarrow> pydict \<Rightarrow> string \<Rightarrow> string option \<Rightarrow> http_request" where
  "signed_request se time verb path body params nonce sid = \<lparr>hq_verb = verb, hq_path = path, hq_body = body, hq_params = params,
     hq_headers = make_auth_headers se time path nonce verb body @ session_header sid\<rparr>"

definition request_body :: "sdk_env \<Rightarrow> pyval option \<Rightarrow> string" where
  "request_body se json = (case json of Some v \<Rightarrow> se_dumps se v | None \<Rightarrow> [])"

definition sdk_result :: "sdk_env \<Rightarrow> http_reply \<Rightarrow> ('s, pyval) sdk_act" where
  "sdk_result se resp = sbind (checked se resp) (\<lambda>_.
     if hr_status resp = 204 then sret PyNone else ebind (elift (hr_json resp)) sret)"

definition sdk_request ::
  "sdk_env \<Rightarrow> (http_request \<Rightarrow> ('s, http_reply) act) \<Rightarrow> string \<Rightarrow> string \<Rightarrow> pyval option \<Rightarrow> pydict \<Rightarrow> ('s, pyval) sdk_act" where
  "sdk_request se http verb path json params =
     sbind (sdk_get_nonce se http) (\<lambda>v.
     ebind (elift (expect_str TypeError v)) (\<lambda>nonce.
     ebind (egets sd_clock) (\<lambda>time.
     ebind (egets sd_session_id) (\<lambda>sid.
     sbind (send_http http (signed_request se time verb path (request_body se json) params nonce sid)) (sdk_result se)))))"

section \<open>Methods\<close>

definition opt_field :: "string \<Rightarrow> pyval option \<Rightarrow> pydict" where
  "opt_field k v = (case v of Some x \<Rightarrow> [(k, x)] | None \<Rightarrow> [])"

definition sdk_register_endpoint ::
  "sdk_env \<Rightarrow> (http_request \<Rightarrow> ('s, http_reply) act) \<Rightarrow> string \<Rightarrow> string \<Rightarrow> int list \<Rightarrow> string \<Rightarrow> pyval option \<Rightarrow> ('s, pyval) sdk_act" where
  "sdk_register_endpoint se http url mode chain_ids recipient policies =
     sdk_request se http ''POST'' ''/api/v1/endpoints'' (Some (PyDict ([(''url'', PyStr url), (''mode'', PyStr mode),
       (''chains'', PyList (map PyInt chain_ids)), (''recipient'', PyStr recipient)] @ opt_field ''policies'' policies))) []"

definition sdk_list_endpoints :: "sdk_env \<Rightarrow> (http_request \<Rightarrow> ('s, http_reply) act) \<Rightarrow> ('s, pyval) sdk_act" where
  "sdk_list_endpoints se http = sbind (sdk_request se http ''GET'' ''/api/v1/endpoints'' None []) (\<lambda>v.
     ebind (elift (subscript ''data'' v)) sret)"

definition sdk_get_endpoint :: "sdk_env \<Rightarrow> (http_request \<Rightarrow> ('s, http_reply) act) \<Rightarrow> string \<Rightarrow> ('s, pyval) sdk_act" where
  "sdk_get_endpoint se http i = sdk_request se http ''GET'' (''/api/v1/endpoints/'' @ i) None []"

definition sdk_update_endpoint ::
  "sdk_env \<Rightarrow> (http_request \<Rightarrow> ('s, http_reply) act) \<Rightarrow> string \<Rightarrow> pydict \<Rightarrow> ('s, pyval) sdk_act" where
  "sdk_update_endpoint se http i kwargs = sdk_request se http ''PATCH'' (''/api/v1/endpoints/'' @ i) (Some (PyDict kwargs)) []"

definition sdk_delete_endpoint :: "sdk_env \<Rightarrow> (http_request \<Rightarrow> ('s, http_reply) act) \<Rightarrow> string \<Rightarrow> ('s, unit) sdk_act" where
  "sdk_delete_endpoint se http i = sbind (sdk_request se http ''DELETE'' (''/api/v1/endpoints/'' @ i) None []) (\<lambda>_. sret ())"

definition sdk_create_subscription ::
  "sdk_env \<Rightarrow> (http_request \<Rightarrow> ('s, http_reply) act) \<Rightarrow> string \<Rightarrow> pyval \<Rightarrow> ('s, pyval) sdk_act" where
  "sdk_create_subscription se http i filters =
     sdk_request se http ''POST'' (''/api/v1/endpoints/'' @ i @ ''/subscriptions'') (Some (PyDict [(''filters'', filters)])) []"

definition sdk_list_subscriptions :: "sdk_env \<Rightarrow> (http_request \<Rightarrow> ('s, http_reply) act) \<Rightarrow> string \<Rightarrow> ('s, pyval) sdk_act" where
  "sdk_list_subscriptions se http i = sdk_request se http ''GET'' (''/api/v1/endpoints/'' @ i @ ''/subscriptions'') None []"

definition sdk_delete_subscription :: "sdk_env \<Rightarrow> (http_request \<Rightarrow> ('s, http_reply) act) \<Rightarrow> string \<Rightarrow> ('s, unit) sdk_act" where
  "sdk_delete_subscription se http i = sbind (sdk_request se http ''DELETE'' (''/api/v1/subscriptions/'' @ i) None []) (\<lambda>_. sret ())"

text \<open>The caller's filters are added to the dictionary, so a key given twice keeps its place and its last value.\<close>

definition page_params :: "string option \<Rightarrow> int \<Rightarrow> (string \<times> pyval) list \<Rightarrow> pydict" where
  "page_params cursor limit filters =
     fold (\<lambda>(k, v) d. if v = PyNone then d else dict_set k v d) filters
       ([(''limit'', PyInt limit)] @ opt_field ''cursor'' (map_option PyStr cursor))"

definition sdk_list_events ::
  "sdk_env \<Rightarrow> (http_request \<Rightarrow> ('s, http_reply) act) \<Rightarrow> string option \<Rightarrow> int \<Rightarrow> (string \<times> pyval) list \<Rightarrow> ('s, pyval) sdk_act" where
  "sdk_list_events se http cursor limit filters = sdk_request se http ''GET'' ''/api/v1/events'' None (page_params cursor limit filters)"

definition sdk_get_event :: "sdk_env \<Rightarrow> (http_request \<Rightarrow> ('s, http_reply) act) \<Rightarrow> string \<Rightarrow> ('s, pyval) sdk_act" where
  "sdk_get_event se http i = sdk_request se http ''GET'' (''/api/v1/events/'' @ i) None []"

definition sdk_ingest_event :: "sdk_env \<Rightarrow> (http_request \<Rightarrow> ('s, http_reply) act) \<Rightarrow> pydict \<Rightarrow> ('s, pyval) sdk_act" where
  "sdk_ingest_event se http event = sdk_request se http ''POST'' ''/api/v1/ingest/event'' (Some (PyDict event)) []"

definition sdk_get_endpoint_events ::
  "sdk_env \<Rightarrow> (http_request \<Rightarrow> ('s, http_reply) act) \<Rightarrow> string \<Rightarrow> string option \<Rightarrow> int \<Rightarrow> ('s, pyval) sdk_act" where
  "sdk_get_endpoint_events se http i cursor limit =
     sdk_request se http ''GET'' (''/api/v1/endpoints/'' @ i @ ''/events'') None (page_params cursor limit [])"

section \<open>Sessions\<close>

definition session_path :: string where "session_path = ''/api/v1/auth/session''"

definition sdk_open_session ::
  "sdk_env \<Rightarrow> (http_request \<Rightarrow> ('s, http_reply) act) \<Rightarrow> int option \<Rightarrow> int option \<Rightarrow> int \<Rightarrow> ('s, pyval) sdk_act" where
  "sdk_open_session se http budget ttl_seconds chain_id =
     sbind (sdk_request se http ''POST'' session_path (Some (PyDict (opt_field ''budget'' (map_option PyInt budget) @
       opt_field ''ttl_seconds'' (map_option PyInt ttl_seconds) @ [(''chain_id'', PyInt chain_id)]))) []) (\<lambda>data.
     ebind (elift (rbind (subscript ''session_id'' data) (expect_str ValidationError))) (\<lambda>sid.
     ebind (emodify (\<lambda>c. c\<lparr>sd_session_id := Some sid\<rparr>)) (\<lambda>_. sret data)))"

text \<open>\<open>session_id or self._session_id\<close>, which must not be empty.\<close>

definition chosen_session :: "string option \<Rightarrow> string option \<Rightarrow> string option" where
  "chosen_session given_id own = (case given_id of Some (c # s) \<Rightarrow> Some (c # s) | _ \<Rightarrow>
     (case own of Some (c # s) \<Rightarrow> Some (c # s) | _ \<Rightarrow> None))"

definition sdk_get_session :: "sdk_env \<Rightarrow> (http_request \<Rightarrow> ('s, http_reply) act) \<Rightarrow> string option \<Rightarrow> ('s, pyval) sdk_act" where
  "sdk_get_session se http session_id = ebind (egets sd_session_id) (\<lambda>own. case chosen_session session_id own of
      None \<Rightarrow> sraise (SessionError 0 ''No active session'')
    | Some sid \<Rightarrow> sdk_request se http ''GET'' (session_path @ ''/'' @ sid) None [])"

definition sdk_close_session :: "sdk_env \<Rightarrow> (http_request \<Rightarrow> ('s, http_reply) act) \<Rightarrow> string option \<Rightarrow> ('s, pyval) sdk_act" where
  "sdk_close_session se http session_id = ebind (egets sd_session_id) (\<lambda>own. case chosen_session session_id own of
      None \<Rightarrow> sraise (SessionError 0 ''No active session'')
    | Some sid \<Rightarrow> sbind (sdk_request se http ''DELETE'' (session_path @ ''/'' @ sid) None []) (\<lambda>data.
        ebind (emodify (\<lambda>c. c\<lparr>sd_session_id := None\<rparr>)) (\<lambda>_. sret data)))"

section \<open>The server accepts what the SDK signs\<close>

text \<open>The request as the server sees it.\<close>

definition served :: "http_request \<Rightarrow> Request" where
  "served rq = \<lparr>rq_header = map_of (hq_headers rq), rq_method = hq_verb rq, rq_path = hq_path rq, rq_body = hq_body rq,
     rq_json = Inr PyNone\<rparr>"

lemma served_headers:
  "header (served (signed_request se t verb path body params nonce sid)) ''X-TripWire-Address'' = se_address se"
  "header (served (signed_request se t verb path body params nonce sid)) ''X-TripWire-Nonce'' = nonce"
  "header (served (signed_request se t verb path body params nonce sid)) ''X-TripWire-Issued-At'' = se_iso se t"
  "header (served (signed_request se t verb path body params nonce sid)) ''X-TripWire-Expiration'' = se_iso se (t + 300)"
  "header (served (signed_request se t verb path body params nonce sid)) ''X-TripWire-Signature'' =
     se_sign se (sdk_message se verb path body nonce (se_iso se t) (se_iso se (t + 300)))"
  unfolding header_def served_def signed_request_def make_auth_headers_def Let_def EXPIRATION_MINUTES_def
  by (simp_all add: map_add_def)

lemma chain_text: "int_str 8453 = ''8453''"
proof -
  have "digit_chr 8 = CHR ''8''" "digit_chr 4 = CHR ''4''" "digit_chr 5 = CHR ''5''" "digit_chr 3 = CHR ''3''" by code_simp+
  then show ?thesis by (simp add: int_str_def nat_str.simps)
qed

lemma sdk_message_is_siwe_text:
  assumes "st_siwe_domain (en_settings env) = ''tripwire.dev''" and "st_siwe_chain_id (en_settings env) = 8453"
    and "en_sha256_hex env = se_sha256 se"
  shows "siwe_text env (served (signed_request se t verb path body params nonce sid)) =
    sdk_message se verb path body nonce (se_iso se t) (se_iso se (t + 300))"
proof -
  have rq: "rq_method (served (signed_request se t verb path body params nonce sid)) = verb" "rq_path (served (signed_request se t verb path body params nonce sid)) = path"
    "rq_body (served (signed_request se t verb path body params nonce sid)) = body"
    by (simp_all add: served_def signed_request_def)
  show ?thesis
    unfolding siwe_text_def served_headers sdk_message_def rq build_siwe_message_def build_request_statement_def assms chain_text SIWE_DOMAIN_def Let_def py_join.simps
    by (simp only: append_assoc append.simps)
qed

text \<open>What the SDK and the server must agree on: key and recovery, texts of times, digests, settings.\<close>

definition matched :: "env \<Rightarrow> sdk_env \<Rightarrow> bool" where
  "matched env se \<longleftrightarrow> st_siwe_domain (en_settings env) = ''tripwire.dev'' \<and> st_siwe_chain_id (en_settings env) = 8453 \<and>
     st_auth_tolerance (en_settings env) = 300 \<and> en_sha256_hex env = se_sha256 se \<and> se_address se \<noteq> [] \<and>
     (\<forall>m. en_recover env m (se_sign se m) = Inr (se_address se) \<and> se_sign se m \<noteq> []) \<and>
     (\<forall>t. en_parse_iso env (se_iso se t) = Some t \<and> se_iso se t \<noteq> []) \<and> (\<forall>n. en_token env n \<noteq> []) \<and> (\<forall>n. en_redis_fault env n = None)"

lemma headers_present:
  assumes "matched env se" and "nonce \<noteq> []"
  shows "list_all (\<lambda>h. header (served (signed_request se t verb path body params nonce sid)) h \<noteq> []) siwe_headers"
  using assms by (simp add: siwe_headers_def served_headers matched_def)

text \<open>
  The server as the client sees it: the route for nonces, and any other path behind one of the two
  authentications, whose failure is answered with its status; what a route does with the authenticated
  address is an argument.
\<close>

definition reply :: "int \<Rightarrow> pyval \<Rightarrow> http_reply" where
  "reply status v = \<lparr>hr_status = status, hr_text = [], hr_json = Inr v, hr_retry_after = None\<rparr>"

definition serving ::
  "env \<Rightarrow> (Request \<Rightarrow> string io) \<Rightarrow> (string \<Rightarrow> http_request \<Rightarrow> http_reply io) \<Rightarrow> http_request \<Rightarrow> http_reply io" where
  "serving env auth handler rq =
     (if hq_path rq = ''/auth/nonce''
      then ebind (get_nonce env) (\<lambda>nonce. eret (reply 200 (PyDict [(''nonce'', PyStr nonce)])))
      else ebind (etry (auth (served rq))) (\<lambda>r. case r of
          Inr wallet \<Rightarrow> handler wallet rq
        | Inl (HTTPException status detail) \<Rightarrow> eret (reply status (PyDict [(''detail'', PyStr detail)]))
        | Inl _ \<Rightarrow> eret (reply 500 PyNone)))"

lemma signed_request_authenticates:
  assumes "matched env se" and "\<And>k. T \<le> en_now env k \<and> en_now env k < T + 300" and "T \<le> issued" and "issued < T + 300"
  shows "\<exists>nonce w1. run (get_nonce env) w = (Inr nonce, w1) \<and>
    (\<exists>w2. run (require_wallet_auth env (served (signed_request se issued verb path body params nonce sid))) w1 = (Inr (se_address se), w2)) \<and>
    (\<exists>w2. run (verify_siwe env (served (signed_request se issued verb path body params nonce sid))) w1 = (Inr (se_address se), w2))"
proof -
  note m = assms(1)[unfolded matched_def]
  let ?n = "en_token env (w_tick w)" and ?t = "en_now env (Suc (w_tick w))"
  let ?w1 = "w\<lparr>w_tick := Suc (Suc (w_tick w)), w_redis := (w_redis w)(nonce_redis_key ?n := Some (1, Some (?t + 300)))\<rparr>"
  let ?rq = "served (signed_request se issued verb path body params ?n sid)"
  have nonce: "run (get_nonce env) w = (Inr ?n, ?w1)"
    using m by (simp add: get_nonce_def redis_setex_def redis_put_def NONCE_TTL_SECONDS_def)
  have stamps: "run (validate_timestamps env tol (header ?rq ''X-TripWire-Issued-At'') (header ?rq ''X-TripWire-Expiration'')) ?w1 =
      (Inr (), ?w1\<lparr>w_tick := Suc (Suc (Suc (w_tick w)))\<rparr>)" if "tol = None \<or> tol = Some 300" for tol
    using that m assms(2)[of "Suc (Suc (w_tick w))"] assms(3,4) by (auto simp: validate_timestamps_def served_headers)
  have sig: "verify_siwe_signature env (siwe_text env ?rq) (header ?rq ''X-TripWire-Signature'') (header ?rq ''X-TripWire-Address'') = Inr (se_address se)"
    using m sdk_message_is_siwe_text[of env se issued verb path body params ?n sid] by (simp add: verify_siwe_signature_def served_headers)
  have "en_now env (Suc (Suc (Suc (w_tick w)))) < ?t + 300"
    using assms(2)[of "Suc (Suc (Suc (w_tick w)))"] assms(2)[of "Suc (w_tick w)"] by linarith
  then have check: "\<exists>w2. run (check_signature_and_nonce env ?rq) (?w1\<lparr>w_tick := Suc (Suc (Suc (w_tick w)))\<rparr>) = (Inr (se_address se), w2)"
    using m sig by (simp add: check_signature_and_nonce_def served_headers redis_delete_def redis_value_def live_def redis_put_def)
  have "?n \<noteq> []" using m by simp
  note present = headers_present[OF assms(1) this, of issued verb path body params sid]
  from stamps[of None] stamps[of "Some 300"] check have
    "\<exists>w2. run (require_wallet_auth env ?rq) ?w1 = (Inr (se_address se), w2)" "\<exists>w3. run (verify_siwe env ?rq) ?w1 = (Inr (se_address se), w3)"
    using present m by (simp_all add: require_wallet_auth_def verify_siwe_def)
  with nonce show ?thesis by blast
qed

lemma run_sbind: "run (sbind m k) c = (case run m c of (Inl e, c') \<Rightarrow> (Inl e, c') | (Inr (Inl e), c') \<Rightarrow> (Inr (Inl e), c') | (Inr (Inr v), c') \<Rightarrow> run (k v) c')"
  by (auto simp: sbind_def split: prod.split sum.split)

lemma run_send_http:
  assumes "sd_open c" and "run (http rq) (sd_peer c) = (Inr resp, s)"
  shows "run (send_http http rq) c = (Inr (Inr resp), c\<lparr>sd_peer := s\<rparr>)"
  using assms by (simp add: send_http_def on_peer_def sret_def)

text \<open>
  C22. The server accepts what the SDK's client sends: \<open>_request\<close> on an open client, which fetches a nonce,
  signs and sends, reaches the route of its path as the client's own address, with exactly the
  method, path, parameters and body asked for, behind the authentication of the HTTP routes and
  behind that of the tool server, and whatever the route answers is the client's result. The
  clocks of both sides stay within five minutes of the nonce's issue; a session token does
  not matter. The assumptions are that a signature recovers to its signer, that times survive
  printing and parsing, that Redis answers and that both sides are configured alike.
\<close>

theorem sdk_request_accepted:
  assumes "matched env se" and "\<And>k. T \<le> en_now env k \<and> en_now env k < T + 300" and "T \<le> sd_clock c" and "sd_clock c < T + 300"
    and "sd_open c" and "path \<noteq> ''/auth/nonce''" and "auth = require_wallet_auth env \<or> auth = verify_siwe env"
  shows "\<exists>rq w1. hq_verb rq = verb \<and> hq_path rq = path \<and> hq_params rq = params \<and> hq_body rq = request_body se json \<and>
    (\<forall>handler resp w2. run (handler (se_address se) rq) w1 = (Inr resp, w2) \<longrightarrow>
      run (sdk_request se (serving env auth handler) verb path json params) c = run (sdk_result se resp) (c\<lparr>sd_peer := w2\<rparr>))"
proof -
  let ?rq = "\<lambda>nonce. signed_request se (sd_clock c) verb path (request_body se json) params nonce (sd_session_id c)"
  obtain nonce w1 w2 where n: "run (get_nonce env) (sd_peer c) = (Inr nonce, w1)" and a: "run (auth (served (?rq nonce))) w1 = (Inr (se_address se), w2)"
    using signed_request_authenticates[OF assms(1-4), of "sd_peer c" verb path "request_body se json" params "sd_session_id c"] assms(7) by blast
  have first: "run (sdk_get_nonce se (serving env auth handler)) c = (Inr (Inr (PyStr nonce)), c\<lparr>sd_peer := w1\<rparr>)" for handler
  proof -
    have "run (serving env auth handler \<lparr>hq_verb = ''GET'', hq_path = ''/auth/nonce'', hq_body = [], hq_params = [], hq_headers = []\<rparr>) (sd_peer c) =
        (Inr (reply 200 (PyDict [(''nonce'', PyStr nonce)])), w1)"
      using n by (simp add: serving_def)
    from run_send_http[where http = "serving env auth handler", OF assms(5) this] show ?thesis
      by (simp add: sdk_get_nonce_def run_sbind checked_def raise_for_status_def detail_of_def reply_def sret_def subscript_def
          expect_dict_def of_option_def Let_def)
  qed
  have "run (sdk_request se (serving env auth handler) verb path json params) c = run (sdk_result se resp) (c\<lparr>sd_peer := w3\<rparr>)"
    if h: "run (handler (se_address se) (?rq nonce)) w2 = (Inr resp, w3)" for handler resp w3
  proof -
    have "hq_path (?rq nonce) = path" by (simp add: signed_request_def)
    then have "run (serving env auth handler (?rq nonce)) w1 = (Inr resp, w3)" using a h assms(6) by (simp add: serving_def)
    then have "run (send_http (serving env auth handler) (?rq nonce)) (c\<lparr>sd_peer := w1\<rparr>) = (Inr (Inr resp), c\<lparr>sd_peer := w3\<rparr>)"
      using run_send_http[of "c\<lparr>sd_peer := w1\<rparr>" "serving env auth handler"] assms(5) by simp
    then show ?thesis using first by (simp add: sdk_request_def run_sbind expect_str_def)
  qed
  then show ?thesis by (intro exI[of _ "?rq nonce"] exI[of _ w2]) (simp add: signed_request_def)
qed

definition sample_sdk :: sdk_env where
  "sample_sdk = \<lparr>se_address = ''0xAb'', se_sign = (\<lambda>m. ''0xAb''), se_iso = int_str, se_sha256 = (\<lambda>s. s), se_dumps = (\<lambda>_. ''{}''),
     se_float = (\<lambda>_. None)\<rparr>"

definition clock_env :: env where
  "clock_env = calm_env\<lparr>en_now := \<lambda>_. 1000\<rparr>"

lemma int_str_not_Nil: "int_str i \<noteq> []"
  by (simp add: int_str_def)

text \<open>A route that answers with the address it was called as.\<close>

definition who_am_i :: "string \<Rightarrow> http_request \<Rightarrow> http_reply io" where
  "who_am_i wallet rq = eret (reply 200 (PyStr wallet))"

definition fresh_client :: "world sdk" where
  "fresh_client = \<lparr>sd_open = True, sd_session_id = None, sd_clock = 1001, sd_peer = empty_world\<rparr>"

theorem sdk_request_accepted_witness:
  "\<exists>c'. run (sdk_request sample_sdk (serving clock_env (require_wallet_auth clock_env) who_am_i) ''POST'' ''/api/v1/endpoints'' (Some PyNone) []) fresh_client =
     (Inr (Inr (PyStr ''0xAb'')), c')"
proof -
  have "matched clock_env sample_sdk"
    by (simp add: matched_def clock_env_def calm_env_def default_settings_def sample_sdk_def int_str_not_Nil)
  moreover have "1000 \<le> en_now clock_env k \<and> en_now clock_env k < 1000 + 300" for k by (simp add: clock_env_def)
  ultimately obtain rq w1 where
    a: "\<forall>handler resp w2. run (handler (se_address sample_sdk) rq) w1 = (Inr resp, w2) \<longrightarrow>
      run (sdk_request sample_sdk (serving clock_env (require_wallet_auth clock_env) handler) ''POST'' ''/api/v1/endpoints'' (Some PyNone) []) fresh_client =
        run (sdk_result sample_sdk resp) (fresh_client\<lparr>sd_peer := w2\<rparr>)"
    using sdk_request_accepted[of clock_env sample_sdk 1000 fresh_client "''/api/v1/endpoints''" "require_wallet_auth clock_env" "''POST''" "[]" "Some PyNone"]
    by (auto simp: fresh_client_def)
  have "run (who_am_i (se_address sample_sdk) rq) w1 = (Inr (reply 200 (PyStr ''0xAb'')), w1)"
    by (simp add: who_am_i_def sample_sdk_def)
  then have "run (sdk_request sample_sdk (serving clock_env (require_wallet_auth clock_env) who_am_i) ''POST'' ''/api/v1/endpoints'' (Some PyNone) []) fresh_client =
      run (sdk_result sample_sdk (reply 200 (PyStr ''0xAb''))) (fresh_client\<lparr>sd_peer := w1\<rparr>)" using a by blast
  then show ?thesis
    by (simp add: sdk_result_def run_sbind checked_def raise_for_status_def detail_of_def reply_def sret_def Let_def)
qed

section \<open>Session tokens\<close>

text \<open>
  Closing a session forgets the active one, whichever was closed: after a successful
  \<open>close_session\<close> the client carries no token, even when it was asked to close another session
  than its own, which stays open at the server while its token is lost.
\<close>

theorem close_session_forgets_own:
  assumes "run (sdk_close_session se http session_id) c = (Inr (Inr v), c')"
  shows "sd_session_id c' = None"
  using assms
  by (auto simp: sdk_close_session_def run_sbind sraise_def sret_def split: option.splits prod.splits sum.splits)

definition ok_http :: "http_request \<Rightarrow> (unit, http_reply) act" where
  "ok_http rq = eret \<lparr>hr_status = 200, hr_text = [], hr_json = Inr (PyDict [(''nonce'', PyStr ''n''), (''session_id'', PyStr ''s'')]), hr_retry_after = None\<rparr>"

definition holding :: "unit sdk" where
  "holding = \<lparr>sd_open = True, sd_session_id = Some ''own'', sd_clock = 1000, sd_peer = ()\<rparr>"

theorem close_session_forgets_own_witness:
  "\<exists>v c'. run (sdk_close_session sample_sdk ok_http (Some ''other'')) holding = (Inr (Inr v), c') \<and> sd_session_id holding = Some ''own'' \<and> sd_session_id c' = None"
proof -
  have "\<exists>v c'. run (sdk_close_session sample_sdk ok_http (Some ''other'')) holding = (Inr (Inr v), c')"
    by (simp add: sdk_close_session_def run_sbind chosen_session_def holding_def sdk_request_def sdk_result_def sdk_get_nonce_def send_http_def on_peer_def
        ok_http_def checked_def raise_for_status_def detail_of_def sret_def subscript_def expect_dict_def of_option_def Let_def)
  then obtain v c' where r: "run (sdk_close_session sample_sdk ok_http (Some ''other'')) holding = (Inr (Inr v), c')" by blast
  from close_session_forgets_own[OF r] r show ?thesis by (intro exI conjI) (simp_all add: holding_def)
qed

end
