(* ===== verification/Identity.thy ===== *)
theory Identity
  imports Finality Decoder Floats
begin

text \<open>
  \<open>identity/resolver.py\<close> and \<open>identity/reputation.py\<close>: ERC-8004 identities read from the chain with
  \<open>eth_call\<close>, their cache, the resolver of the development environment and the reputation
  service. ABI encoding and UTF-8 decoding are arguments (\<open>id_env\<close>), ABI decoding is that of the
  decoders. Scores are doubles: \<open>raw_score / 100.0\<close> rounds the integer, then the quotient. The five
  calls made at once run here one after the other.
\<close>

record id_env =
  ie_identity_registry :: string
  ie_reputation_registry :: string
  ie_cache_ttl :: int
  ie_encode :: "string list \<Rightarrow> pyval list \<Rightarrow> string result"
  ie_utf8 :: "string \<Rightarrow> string result"

section \<open>Decoding answers\<close>

definition BALANCE_OF_SELECTOR :: string where "BALANCE_OF_SELECTOR = ''0x70a08231''"
definition TOKEN_OF_OWNER_SELECTOR :: string where "TOKEN_OF_OWNER_SELECTOR = ''0x2f745c59''"
definition TOKEN_URI_SELECTOR :: string where "TOKEN_URI_SELECTOR = ''0xc87b56dd''"
definition OWNER_OF_SELECTOR :: string where "OWNER_OF_SELECTOR = ''0x6352211e''"
definition GET_METADATA_SELECTOR :: string where "GET_METADATA_SELECTOR = ''0xcb4799f2''"
definition GET_SUMMARY_SELECTOR :: string where "GET_SUMMARY_SELECTOR = ''0x8ee8febc''"

text \<open>\<open>(x,) = decode([ty], bytes.fromhex(h))\<close>.\<close>

definition decode_hex :: "env \<Rightarrow> string \<Rightarrow> string \<Rightarrow> pyval list result" where
  "decode_hex env ty h = rbind (of_option ValueError (bytes_fromhex h)) (\<lambda>b. en_abi_decode env [ty] b)"

definition decode_one :: "env \<Rightarrow> string \<Rightarrow> string \<Rightarrow> pyval result" where
  "decode_one env ty result = rbind (decode_hex env ty (drop 2 result)) (\<lambda>vs. case vs of [v] \<Rightarrow> Inr v | _ \<Rightarrow> Inl ValueError)"

definition basis_points :: "int \<Rightarrow> rat" where
  "basis_points n = min (f64 (f64 (of_int n) / 100)) 100"

definition decode_score :: "env \<Rightarrow> string \<Rightarrow> rat result" where
  "decode_score env result = rbind (decode_hex env ''uint256'' (take 64 (drop 2 result))) (\<lambda>vs. case vs of
      PyInt n # _ \<Rightarrow> Inr (basis_points n) | [] \<Rightarrow> Inl IndexError | _ \<Rightarrow> Inl TypeError)"

definition strip_nul :: "string \<Rightarrow> string" where
  "strip_nul s = rev (dropWhile (\<lambda>c. c = CHR 0x00) (rev (dropWhile (\<lambda>c. c = CHR 0x00) s)))"

definition decode_text :: "id_env \<Rightarrow> env \<Rightarrow> string \<Rightarrow> string result" where
  "decode_text ie env result = rbind (decode_one env ''bytes'' result) (\<lambda>v. case v of
      PyBytes b \<Rightarrow> rbind (ie_utf8 ie b) (\<lambda>s. Inr (strip_nul s)) | _ \<Rightarrow> Inl AttributeError)"

text \<open>The value decoded from an answer, or the default when there is none or it does not decode.\<close>

definition or_default :: "'a \<Rightarrow> (string \<Rightarrow> 'a result) \<Rightarrow> string option \<Rightarrow> 'a" where
  "or_default d f result = (case result of None \<Rightarrow> d | Some r \<Rightarrow> (case f r of Inr v \<Rightarrow> v | Inl _ \<Rightarrow> d))"

definition capability_list :: "string \<Rightarrow> string list" where
  "capability_list s = filter (\<lambda>c. c \<noteq> []) (map py_strip (py_split CHR '','' s))"

section \<open>The registry\<close>

definition mk_AgentIdentity :: "AgentIdentity \<Rightarrow> AgentIdentity result" where
  "mk_AgentIdentity i =
     rbind (EthAddress (ai_address i)) (\<lambda>a. rbind (EthAddress (ai_deployer i)) (\<lambda>d.
       if 0 \<le> ai_reputation_score i \<and> ai_reputation_score i \<le> 100
       then Inr (i\<lparr>ai_address := a, ai_agent_class := py_strip (ai_agent_class i), ai_deployer := d,
         ai_capabilities := map py_strip (ai_capabilities i)\<rparr>)
       else Inl ValidationError))"

definition call_data :: "id_env \<Rightarrow> string \<Rightarrow> string list \<Rightarrow> pyval list \<Rightarrow> string result" where
  "call_data ie selector types vals = rbind (ie_encode ie types vals) (\<lambda>h. Inr (selector @ h))"

definition agent_of ::
  "id_env \<Rightarrow> env \<Rightarrow> string \<Rightarrow> pyval \<Rightarrow> string option \<Rightarrow> string option \<Rightarrow> string option \<Rightarrow> string option \<Rightarrow> string option \<Rightarrow> AgentIdentity result" where
  "agent_of ie env address agent_id uri meta cap owner summary =
     rbind (case agent_id of PyInt n \<Rightarrow> Inr n | _ \<Rightarrow> Inl ValidationError) (\<lambda>registered.
     rbind (expect_str ValidationError (or_default (PyStr address) (decode_one env ''address'') owner)) (\<lambda>deployer.
     mk_AgentIdentity \<lparr>ai_address = py_lower address, ai_agent_class = or_default ''unknown'' (decode_text ie env) meta,
       ai_deployer = deployer,
       ai_capabilities = or_default [] (\<lambda>r. rbind (decode_text ie env r) (\<lambda>s. Inr (capability_list s))) cap,
       ai_reputation_score = or_default 0 (decode_score env) summary, ai_registered_at = registered,
       ai_metadata = [(''agent_id'', agent_id), (''agent_uri'', or_default (PyStr []) (decode_one env ''string'') uri)]\<rparr>))"

definition agent_calls :: "id_env \<Rightarrow> env \<Rightarrow> string \<Rightarrow> int \<Rightarrow> pyval \<Rightarrow> AgentIdentity io" where
  "agent_calls ie env address chain_id agent_id =
     (let registry = ie_identity_registry ie in
      ebind (elift (call_data ie TOKEN_URI_SELECTOR [''uint256''] [agent_id])) (\<lambda>uri_data.
      ebind (elift (call_data ie GET_METADATA_SELECTOR [''uint256'', ''string''] [agent_id, PyStr ''agentClass''])) (\<lambda>meta_data.
      ebind (elift (call_data ie GET_METADATA_SELECTOR [''uint256'', ''string''] [agent_id, PyStr ''capabilities''])) (\<lambda>cap_data.
      ebind (elift (call_data ie OWNER_OF_SELECTOR [''uint256''] [agent_id])) (\<lambda>owner_data.
      ebind (elift (call_data ie GET_SUMMARY_SELECTOR [''uint256'', ''address[]''] [agent_id, PyList []])) (\<lambda>summary_data.
      ebind (eth_call env chain_id registry uri_data) (\<lambda>uri.
      ebind (eth_call env chain_id registry meta_data) (\<lambda>meta.
      ebind (eth_call env chain_id registry cap_data) (\<lambda>cap.
      ebind (eth_call env chain_id registry owner_data) (\<lambda>owner.
      ebind (eth_call env chain_id (ie_reputation_registry ie) summary_data) (\<lambda>summary.
        elift (agent_of ie env address agent_id uri meta cap owner summary))))))))))))"

definition resolve_onchain :: "id_env \<Rightarrow> env \<Rightarrow> string \<Rightarrow> int \<Rightarrow> AgentIdentity option io" where
  "resolve_onchain ie env address chain_id =
     (let registry = ie_identity_registry ie in
      ebind (elift (call_data ie BALANCE_OF_SELECTOR [''address''] [PyStr address])) (\<lambda>balance_data.
      ebind (eth_call env chain_id registry balance_data) (\<lambda>balance_result. case balance_result of
          None \<Rightarrow> eret None
        | Some br \<Rightarrow> (case decode_one env ''uint256'' br of
            Inl _ \<Rightarrow> eret None
          | Inr balance \<Rightarrow>
              if balance = PyInt 0 then eret None
              else
                ebind (elift (call_data ie TOKEN_OF_OWNER_SELECTOR [''address'', ''uint256''] [PyStr address, PyInt 0])) (\<lambda>token_data.
                ebind (eth_call env chain_id registry token_data) (\<lambda>token_result. case token_result of
                    None \<Rightarrow> eret None
                  | Some tr \<Rightarrow> (case decode_one env ''uint256'' tr of
                      Inl _ \<Rightarrow> eret None
                    | Inr agent_id \<Rightarrow> ebind (agent_calls ie env address chain_id agent_id) (\<lambda>i. eret (Some i)))))))))"

section \<open>Caches\<close>

text \<open>A resolver with its cache beside the world; expiry times are those of the clock.\<close>

record 'v cached =
  ch_cache :: "string \<Rightarrow> ('v \<times> int) option"
  ch_world :: world

definition beside :: "'a io \<Rightarrow> ('v cached, 'a) act" where
  "beside m = ebind (egets (\<lambda>s. run m (ch_world s))) (\<lambda>(r, w). ebind (emodify (\<lambda>s. s\<lparr>ch_world := w\<rparr>)) (\<lambda>_. elift r))"

definition cache_key :: "string \<Rightarrow> int \<Rightarrow> string" where
  "cache_key address chain_id = int_str chain_id @ '':'' @ py_lower address"

text \<open>Look up, else compute and store with a life time that may depend on the value.\<close>

definition through_cache :: "env \<Rightarrow> string \<Rightarrow> ('v \<Rightarrow> int) \<Rightarrow> 'v io \<Rightarrow> ('v cached, 'v) act" where
  "through_cache env key ttl fetch =
     ebind (egets (\<lambda>s. ch_cache s key)) (\<lambda>entry.
     ebind (case entry of None \<Rightarrow> eret None
        | Some (v, expires) \<Rightarrow> ebind (beside (now env)) (\<lambda>time. eret (if expires > time then Some v else None))) (\<lambda>hit.
     case hit of
       Some v \<Rightarrow> eret v
     | None \<Rightarrow> ebind (beside fetch) (\<lambda>v. ebind (beside (now env)) (\<lambda>time.
         ebind (emodify (\<lambda>s. s\<lparr>ch_cache := (ch_cache s)(key \<mapsto> (v, time + ttl v))\<rparr>)) (\<lambda>_. eret v)))))"

definition identity_ttl :: "id_env \<Rightarrow> AgentIdentity option \<Rightarrow> int" where
  "identity_ttl ie identity = (case identity of Some _ \<Rightarrow> ie_cache_ttl ie | None \<Rightarrow> 30)"

definition erc8004_resolve :: "id_env \<Rightarrow> env \<Rightarrow> string \<Rightarrow> int \<Rightarrow> (AgentIdentity option cached, AgentIdentity option) act" where
  "erc8004_resolve ie env address chain_id =
     through_cache env (cache_key address chain_id) (identity_ttl ie) (resolve_onchain ie env address chain_id)"

definition fetch_score :: "id_env \<Rightarrow> env \<Rightarrow> int \<Rightarrow> int \<Rightarrow> rat io" where
  "fetch_score ie env agent_id chain_id =
     ebind (elift (call_data ie GET_SUMMARY_SELECTOR [''uint256'', ''address[]''] [PyInt agent_id, PyList []])) (\<lambda>data.
     ecatch (ebind (eth_call env chain_id (ie_reputation_registry ie) data) (\<lambda>result. case result of
         None \<Rightarrow> eret 0
       | Some r \<Rightarrow> elift (decode_score env r)))
       (\<lambda>_. eret 0))"

definition get_reputation_score :: "id_env \<Rightarrow> env \<Rightarrow> int \<Rightarrow> int \<Rightarrow> (rat cached, rat) act" where
  "get_reputation_score ie env agent_id chain_id =
     through_cache env (int_str chain_id @ '':'' @ int_str agent_id) (\<lambda>_. 300) (fetch_score ie env agent_id chain_id)"

section \<open>Development\<close>

definition mock_agent :: "string \<Rightarrow> string \<Rightarrow> string \<Rightarrow> string list \<Rightarrow> rat \<Rightarrow> int \<Rightarrow> int \<Rightarrow> AgentIdentity" where
  "mock_agent address cls deployer capabilities score registered agent_id =
     \<lparr>ai_address = address, ai_agent_class = cls, ai_deployer = deployer, ai_capabilities = capabilities,
      ai_reputation_score = score, ai_registered_at = registered,
      ai_metadata = [(''agent_id'', PyInt agent_id), (''agent_uri'', PyStr (''https://example.com/agents/'' @ cls))]\<rparr>"

definition MOCK_AGENTS :: "AgentIdentity list" where
  "MOCK_AGENTS = [
     mock_agent ''0x0000000000000000000000000000000000000001'' ''trading-bot'' ''0xdeaDDeADDEaDdeaDdEAddEADDEAdDeadDEADDEaD''
       [''swap'', ''limit-order'', ''portfolio-rebalance''] 85 1738108800 1,
     mock_agent ''0x0000000000000000000000000000000000000002'' ''data-oracle'' ''0xcafecafecafecafecafecafecafecafecafecafe''
       [''price-feed'', ''data-aggregation''] 92 1738195200 2,
     mock_agent ''0x0000000000000000000000000000000000000003'' ''payment-agent'' ''0xbeefbeefbeefbeefbeefbeefbeefbeefbeefbeef''
       [''transfer'', ''batch-pay'', ''recurring-pay''] 78 1738281600 3]"

definition mock_resolve :: "string \<Rightarrow> int \<Rightarrow> AgentIdentity option" where
  "mock_resolve address chain_id = find (\<lambda>i. py_lower (ai_address i) = py_lower address) MOCK_AGENTS"

text \<open>\<open>create_resolver\<close>: the environment decides which of the two answers.\<close>

definition resolver_resolve :: "id_env \<Rightarrow> env \<Rightarrow> string \<Rightarrow> int \<Rightarrow> (AgentIdentity option cached, AgentIdentity option) act" where
  "resolver_resolve ie env address chain_id =
     (if st_app_env (en_settings env) = ''development'' then eret (mock_resolve address chain_id)
      else erc8004_resolve ie env address chain_id)"

section \<open>What is returned\<close>

lemma run_beside [simp]: "run (beside m) s = (case run m (ch_world s) of (r, w) \<Rightarrow> (r, s\<lparr>ch_world := w\<rparr>))"
  by (simp add: beside_def case_prod_beta)

lemma f64_nonneg: "0 \<le> r \<Longrightarrow> 0 \<le> f64 r"
proof -
  assume r: "0 \<le> r"
  have "0 \<le> half_even x" if "0 \<le> x" for x using that by (simp add: half_even_def Let_def)
  then show ?thesis using r by (simp add: f64_def Let_def less_imp_le)
qed

lemma basis_points_bounds: "0 \<le> n \<Longrightarrow> 0 \<le> basis_points n \<and> basis_points n \<le> 100"
  by (simp add: basis_points_def f64_nonneg)

lemma mk_AgentIdentity_ok:
  "mk_AgentIdentity i = Inr j \<Longrightarrow> wf_identity j \<and> ai_address j = py_strip (ai_address i)"
  by (auto simp: mk_AgentIdentity_def rbind_eq_Inr EthAddress_Inr wf_identity_def split: if_splits)

lemma agent_calls_run:
  assumes "run (agent_calls ie env address chain_id agent_id) w = (Inr i, w')"
  shows "wf_identity i \<and> ai_address i = py_strip (py_lower address)"
proof -
  obtain uri meta cap owner summary where "agent_of ie env address agent_id uri meta cap owner summary = Inr i"
    using assms unfolding agent_calls_def Let_def
    by (auto split: prod.splits sum.splits)
  then show ?thesis by (auto simp: agent_of_def rbind_eq_Inr dest!: mk_AgentIdentity_ok)
qed

lemma resolve_onchain_run:
  assumes "run (resolve_onchain ie env address chain_id) w = (Inr (Some i), w')"
  shows "wf_identity i \<and> ai_address i = py_strip (py_lower address)"
  using assms unfolding resolve_onchain_def Let_def
  by (auto split: prod.splits sum.splits option.splits if_splits dest: agent_calls_run)


section \<open>What the caches hold\<close>

lemma before_sep_inj:
  "x \<notin> set xs \<Longrightarrow> x \<notin> set xs' \<Longrightarrow> xs @ x # ys = xs' @ x # ys' \<Longrightarrow> xs = xs' \<and> ys = ys'"
proof (induction xs arbitrary: xs')
  case Nil
  then show ?case by (cases xs') auto
next
  case (Cons a xs)
  then show ?case by (cases xs') auto
qed

lemma cache_key_inj:
  assumes "cache_key a c = cache_key a' c'"
  shows "py_lower a = py_lower a'" and "c = c'"
proof -
  have "int_str c @ CHR '':'' # py_lower a = int_str c' @ CHR '':'' # py_lower a'"
    using assms by (simp add: cache_key_def)
  then have "int_str c = int_str c' \<and> py_lower a = py_lower a'"
    using int_str_no_colon by (intro before_sep_inj)
  then show "py_lower a = py_lower a'" and "c = c'" by (simp_all add: int_str_inj)
qed

definition holds :: "(string \<Rightarrow> 'v \<Rightarrow> bool) \<Rightarrow> 'v cached \<Rightarrow> bool" where
  "holds P s \<longleftrightarrow> (\<forall>key v t. ch_cache s key = Some (v, t) \<longrightarrow> P key v)"

text \<open>Whatever holds of every value that can be fetched holds of every value returned and kept.\<close>

lemma through_cache_holds:
  assumes "run (through_cache env key ttl fetch) s = (r, s')" and "holds P s"
    and fetched: "\<And>w v w'. run fetch w = (Inr v, w') \<Longrightarrow> P key v"
  shows "holds P s' \<and> (\<forall>v. r = Inr v \<longrightarrow> P key v)"
  using assms(1,2) unfolding through_cache_def holds_def
  by (auto split: option.splits prod.splits sum.splits if_splits dest: fetched)

lemma through_cache_miss:
  assumes "run (through_cache env key ttl fetch) s = (Inr v, s')" and "ch_cache s key = None"
  shows "ch_cache s' key = Some (v, en_now env (w_tick (ch_world s') - 1) + ttl v)"
  using assms unfolding through_cache_def by (auto split: prod.splits sum.splits)

lemma through_cache_hit:
  assumes "ch_cache s key = Some (v, expires)" and "en_now env (w_tick (ch_world s)) < expires"
  shows "run (through_cache env key ttl fetch) s =
    (Inr v, s\<lparr>ch_world := (ch_world s)\<lparr>w_tick := Suc (w_tick (ch_world s))\<rparr>\<rparr>)"
  using assms by (simp add: through_cache_def)

definition identity_of :: "string \<Rightarrow> AgentIdentity option \<Rightarrow> bool" where
  "identity_of key v \<longleftrightarrow> (\<forall>i. v = Some i \<longrightarrow> wf_identity i \<and>
     (\<forall>a c. key = cache_key a c \<longrightarrow> ai_address i = py_strip (py_lower a)))"

lemma identity_of_key: "identity_of (cache_key a c) (Some i) \<Longrightarrow> wf_identity i \<and> ai_address i = py_strip (py_lower a)"
  unfolding identity_of_def by blast

lemma resolve_onchain_identity_of:
  "run (resolve_onchain ie env address chain_id) w = (Inr v, w') \<Longrightarrow> identity_of (cache_key address chain_id) v"
  unfolding identity_of_def using resolve_onchain_run cache_key_inj(1) by metis

lemma mock_resolve_wf: "mock_resolve address chain_id = Some i \<Longrightarrow> wf_identity i \<and> py_lower (ai_address i) = py_lower address"
proof -
  have "\<forall>j \<in> set MOCK_AGENTS. wf_identity j" by code_simp
  then show "mock_resolve address chain_id = Some i \<Longrightarrow> ?thesis"
    unfolding mock_resolve_def by (auto simp: find_Some_iff)
qed

definition no_identities :: "AgentIdentity option cached" where
  "no_identities = \<lparr>ch_cache = (\<lambda>_. None), ch_world = empty_world\<rparr>"

definition zero_word :: string where
  "zero_word = ''0x'' @ replicate 64 CHR ''0''"

text \<open>A registry at \<open>0x1\<close> in which every wallet owns agent 5; nothing answers elsewhere.\<close>

definition five_env :: env where
  "five_env = calm_env\<lparr>
     en_http_rpc := (\<lambda>n url req. case req of
         Eth_call a d \<Rightarrow> (if a = ''0x1'' then Inr [(''result'', PyStr zero_word)] else Inr [])
       | _ \<Rightarrow> Inr []),
     en_abi_decode := (\<lambda>ts b. if ts = [''address''] then Inr [PyStr ''0x0000000000000000000000000000000000000009'']
       else if ts = [''uint256''] then Inr [PyInt 5] else Inr [PyBytes ''bot''])\<rparr>"

definition sample_registry :: id_env where
  "sample_registry = \<lparr>ie_identity_registry = ''0x1'', ie_reputation_registry = ''0x2'', ie_cache_ttl = 300,
     ie_encode = (\<lambda>_ _. Inr ''00''), ie_utf8 = (\<lambda>b. Inr b)\<rparr>"

definition sample_agent :: string where
  "sample_agent = ''0xAAAAAAAAAAAAAAAAAAAAAAAAAAAAAAAAAAAAAAAA''"

lemma five_env_call:
  "run (eth_call five_env 8453 a d) w =
     (Inr (if a = ''0x1'' then Some zero_word else None), w\<lparr>w_tick := Suc (w_tick w)\<rparr>)"
  by (simp add: eth_call_def get_rpc_url_def http_rpc_def five_env_def calm_env_def dict_get_def zero_word_def)

lemma five_env_resolves:
  "\<exists>i s. run (resolver_resolve sample_registry five_env sample_agent 8453) no_identities = (Inr (Some i), s)"
proof -
  have b: "bytes_fromhex (drop 2 zero_word) = Some (replicate 32 CHR 0x00)" by code_simp
  have u: "decode_one five_env ''uint256'' zero_word = Inr (PyInt 5)"
    and d: "decode_one five_env ''address'' zero_word = Inr (PyStr ''0x0000000000000000000000000000000000000009'')"
    using b by (simp_all add: decode_one_def decode_hex_def five_env_def of_option_def)
  have e: "EthAddress (py_lower sample_agent) = Inr (py_lower sample_agent)"
    "EthAddress ''0x0000000000000000000000000000000000000009'' = Inr ''0x0000000000000000000000000000000000000009''" by code_simp+
  have c: "call_data sample_registry sel ts vs = Inr (sel @ ''00'')" for sel ts vs
    by (simp add: call_data_def sample_registry_def)
  have r: "ie_identity_registry sample_registry = ''0x1''" "ie_reputation_registry sample_registry = ''0x2''"
    and p: "st_app_env (en_settings five_env) \<noteq> ''development''"
    by (simp_all add: sample_registry_def five_env_def calm_env_def default_settings_def)
  have "\<exists>i. agent_of sample_registry five_env sample_agent (PyInt 5) uri meta cap (Some zero_word) None = Inr i" for uri meta cap
    using d e by (simp add: agent_of_def or_default_def mk_AgentIdentity_def expect_str_def)
  then obtain i where i: "agent_of sample_registry five_env sample_agent (PyInt 5) (Some zero_word) (Some zero_word) (Some zero_word)
      (Some zero_word) None = Inr i" by blast
  have "run (agent_calls sample_registry five_env sample_agent 8453 (PyInt 5)) w = (Inr i, w\<lparr>w_tick := Suc (Suc (Suc (Suc (Suc (w_tick w)))))\<rparr>)" for w
    unfolding agent_calls_def Let_def by (simp add: five_env_call c r i)
  then have "\<exists>w'. run (resolve_onchain sample_registry five_env sample_agent 8453) w = (Inr (Some i), w')" for w
    unfolding resolve_onchain_def Let_def by (simp add: five_env_call c r u)
  then obtain w' where "run (resolve_onchain sample_registry five_env sample_agent 8453) empty_world = (Inr (Some i), w')" by blast
  then show ?thesis
    using p by (simp add: resolver_resolve_def erc8004_resolve_def through_cache_def no_identities_def)
qed

text \<open>
  C36. In every environment, with a cache that only holds well-formed identities of the address of
  their key (an empty one does), an identity returned for an address has valid addresses and a
  reputation between 0 and 100, it is the identity of the address asked for in lower case (no
  cached answer is given for another address), and the cache keeps the invariant whatever the
  chain answers and whatever fails.
\<close>

theorem resolved_identity_wf:
  assumes "run (resolver_resolve ie env address chain_id) s = (r, s')" and "holds identity_of s"
  shows "holds identity_of s' \<and>
    (\<forall>i. r = Inr (Some i) \<longrightarrow> wf_identity i \<and>
      py_lower (ai_address i) \<in> {py_lower address, py_lower (py_strip (py_lower address))})"
proof (cases "st_app_env (en_settings env) = ''development''")
  case True
  then show ?thesis using assms by (auto simp: resolver_resolve_def dest: mock_resolve_wf)
next
  case False
  then have "run (through_cache env (cache_key address chain_id) (identity_ttl ie) (resolve_onchain ie env address chain_id)) s = (r, s')"
    using assms(1) by (simp add: resolver_resolve_def erc8004_resolve_def)
  then have "holds identity_of s' \<and> (\<forall>v. r = Inr v \<longrightarrow> identity_of (cache_key address chain_id) v)"
    using assms(2) resolve_onchain_identity_of by (rule through_cache_holds)
  then show ?thesis by (auto dest!: identity_of_key)
qed

text \<open>Applied to a registered agent asked for by its mixed-case address, with an empty cache.\<close>

theorem resolved_identity_wf_witness:
  "case run (resolver_resolve sample_registry five_env sample_agent 8453) no_identities of
     (r, s) \<Rightarrow> holds identity_of s \<and> (\<exists>i. r = Inr (Some i) \<and> wf_identity i)"
proof -
  obtain r s where run: "run (resolver_resolve sample_registry five_env sample_agent 8453) no_identities = (r, s)"
    by fastforce
  have "holds identity_of no_identities" by (simp add: holds_def no_identities_def)
  from resolved_identity_wf[OF run this] have a: "holds identity_of s"
    and b: "\<And>i. r = Inr (Some i) \<Longrightarrow> wf_identity i" by blast+
  have "\<exists>i w'. run (resolver_resolve sample_registry five_env sample_agent 8453) no_identities = (Inr (Some i), w')"
    by (rule five_env_resolves)
  then show ?thesis using a b by (auto simp: run)
qed

text \<open>
  After a lookup that was not in the cache, any lookup of the same address in any case on the
  same chain before the life time of the answer has passed (that of the settings for an identity,
  thirty seconds for none) returns the same answer and makes no call: it reads the clock once and
  changes nothing else.
\<close>

theorem identity_cached:
  assumes "run (erc8004_resolve ie env address chain_id) s = (Inr v, s')"
    and "ch_cache s (cache_key address chain_id) = None"
    and "py_lower other = py_lower address" and "ch_cache s'' = ch_cache s'"
    and "en_now env (w_tick (ch_world s'')) < en_now env (w_tick (ch_world s') - 1) + (case v of Some _ \<Rightarrow> ie_cache_ttl ie | None \<Rightarrow> 30)"
  shows "run (erc8004_resolve ie env other chain_id) s'' =
    (Inr v, s''\<lparr>ch_world := (ch_world s'')\<lparr>w_tick := Suc (w_tick (ch_world s''))\<rparr>\<rparr>)"
proof -
  have "cache_key other chain_id = cache_key address chain_id" using assms(3) by (simp add: cache_key_def)
  moreover have "ch_cache s' (cache_key address chain_id) = Some (v, en_now env (w_tick (ch_world s') - 1) + identity_ttl ie v)"
    using assms(1,2) unfolding erc8004_resolve_def by (rule through_cache_miss)
  ultimately show ?thesis
    using assms(4,5) unfolding erc8004_resolve_def by (intro through_cache_hit) (simp_all add: identity_ttl_def)
qed

text \<open>Applied to an unregistered agent asked for twice.\<close>

theorem identity_cached_witness:
  "\<exists>s. run (erc8004_resolve sample_registry calm_env sample_agent 8453) no_identities = (Inr None, s) \<and>
     run (erc8004_resolve sample_registry calm_env (py_lower sample_agent) 8453) s =
       (Inr None, s\<lparr>ch_world := (ch_world s)\<lparr>w_tick := Suc (w_tick (ch_world s))\<rparr>\<rparr>)"
proof -
  have "run (eth_call calm_env 8453 a d) w = (Inr None, w\<lparr>w_tick := Suc (w_tick w)\<rparr>)" for a d w
    by (simp add: eth_call_def get_rpc_url_def http_rpc_def calm_env_def dict_get_def)
  then have "run (resolve_onchain sample_registry calm_env sample_agent 8453) w = (Inr None, w\<lparr>w_tick := Suc (w_tick w)\<rparr>)" for w
    by (simp add: resolve_onchain_def call_data_def sample_registry_def Let_def)
  then obtain s where run: "run (erc8004_resolve sample_registry calm_env sample_agent 8453) no_identities = (Inr None, s)"
    and t: "w_tick (ch_world s) = 2"
    by (simp add: erc8004_resolve_def through_cache_def no_identities_def empty_world_def)
  have "py_lower (py_lower sample_agent) = py_lower sample_agent" by code_simp
  then show ?thesis
    using run identity_cached[OF run _ _ refl, of "py_lower sample_agent"] t
    by (auto simp: no_identities_def calm_env_def)
qed

text \<open>
  C37. A reputation score returned or kept is between 0 and 100 whatever the chain answers, and with
  an agent id that encodes there always is one: an unconfigured chain, a failed call or an answer
  that does not decode gives 0. The assumptions are that a decoded \<open>uint256\<close> is not negative and that
  the scores kept so far are in range.
\<close>

theorem reputation_in_range:
  assumes "\<And>b n vs. en_abi_decode env [''uint256''] b = Inr (PyInt n # vs) \<Longrightarrow> 0 \<le> n"
    and "ie_encode ie [''uint256'', ''address[]''] [PyInt agent_id, PyList []] = Inr h"
    and "holds (\<lambda>_ x. 0 \<le> x \<and> x \<le> 100) s"
  shows "\<exists>x s'. run (get_reputation_score ie env agent_id chain_id) s = (Inr x, s') \<and>
    0 \<le> x \<and> x \<le> 100 \<and> holds (\<lambda>_ x. 0 \<le> x \<and> x \<le> 100) s'"
proof -
  let ?P = "\<lambda>(_ :: string) (x :: rat). 0 \<le> x \<and> x \<le> 100"
  have score: "0 \<le> x \<and> x \<le> 100" if a: "decode_score env z = Inr x" for z x
  proof -
    obtain vs where vs: "decode_hex env ''uint256'' (take 64 (drop 2 z)) = Inr vs" 
      and x: "(case vs of PyInt n # _ \<Rightarrow> Inr (basis_points n) | [] \<Rightarrow> Inl IndexError | _ \<Rightarrow> Inl TypeError) = (Inr x :: rat result)"
      using a unfolding decode_score_def rbind_eq_Inr by blast
    from x obtain n us where n: "vs = PyInt n # us" "x = basis_points n" by (cases vs rule: list.exhaust; cases "hd vs") auto
    with vs obtain b where "en_abi_decode env [''uint256''] b = Inr (PyInt n # us)" 
      unfolding decode_hex_def rbind_eq_Inr by blast
    from assms(1)[OF this] show ?thesis unfolding n by (rule basis_points_bounds)
  qed
  have total_fetch: "\<exists>x w'. run (fetch_score ie env agent_id chain_id) w = (Inr x, w')" for w
    using assms(2) by (auto simp: fetch_score_def call_data_def split: prod.splits sum.splits)
  have fetched: "?P k x" if "run (fetch_score ie env agent_id chain_id) w = (Inr x, w')" for k w x w'
    using that assms(2) score
    by (auto simp: fetch_score_def call_data_def split: prod.splits sum.splits option.splits)
  obtain r s' where run: "run (get_reputation_score ie env agent_id chain_id) s = (r, s')" by fastforce
  have "\<exists>x. r = Inr x"
    using run total_fetch unfolding get_reputation_score_def through_cache_def
    by (auto split: option.splits prod.splits sum.splits if_splits) (metis Inl_Inr_False prod.inject)+
  then show ?thesis
    using run through_cache_holds[of env _ _ _ s r s' ?P] assms(3) fetched
    unfolding get_reputation_score_def by blast
qed

text \<open>Applied to agent 7 of a registry that answers.\<close>

theorem reputation_in_range_witness:
  "\<exists>x s'. run (get_reputation_score (sample_registry\<lparr>ie_reputation_registry := ''0x1''\<rparr>) five_env 7 8453) \<lparr>ch_cache = (\<lambda>_. None), ch_world = empty_world\<rparr> = (Inr x, s') \<and>
    0 \<le> x \<and> x \<le> 100"
proof -
  have "en_abi_decode five_env [''uint256''] b = Inr (PyInt n # vs) \<Longrightarrow> 0 \<le> n" for b n vs
    by (simp add: five_env_def)
  moreover have "ie_encode (sample_registry\<lparr>ie_reputation_registry := ''0x1''\<rparr>) [''uint256'', ''address[]''] [PyInt 7, PyList []] = Inr ''00''"
    by (simp add: sample_registry_def)
  moreover have "holds (\<lambda>_ x. 0 \<le> x \<and> x \<le> 100) \<lparr>ch_cache = (\<lambda>_. None), ch_world = empty_world\<rparr>"
    by (simp add: holds_def)
  ultimately show ?thesis using reputation_in_range by blast
qed

end
