(* ===== verification/Provider.thy ===== *)
theory Provider
  imports Dispatcher Convoy
begin

text \<open>
  \<open>webhook/provider.py\<close>, the payload builders of \<open>webhook/payload.py\<close> and the check of the secrets in
  \<open>config/settings.py\<close> that decides which provider a production process gets. The dispatcher hands
  over a dictionary with the Convoy endpoint under a reserved key; the provider takes it out again
  and calls the Convoy client. \<open>dump\<close> is \<open>model_dump\<close> of the payload.
\<close>

section \<open>Providers\<close>

definition RESERVED :: string where "RESERVED = ''__convoy_endpoint_id__''"

datatype provider = ConvoyProvider | LogOnlyProvider

text \<open>The provider with the client behind it, and the number of times the client was initialised.\<close>

record provider_state =
  ps_initialized :: bool
  ps_inits :: nat
  ps_convoy :: convoy
  ps_tick :: nat

type_synonym 'a prov = "(provider_state, 'a) act"

definition via_convoy :: "'a cv \<Rightarrow> 'a prov" where
  "via_convoy m = ebind (egets (\<lambda>s. run m (ps_convoy s))) (\<lambda>(r, c).
     ebind (emodify (\<lambda>s. s\<lparr>ps_convoy := c\<rparr>)) (\<lambda>_. elift r))"

definition ensure_initialized :: "unit prov" where
  "ensure_initialized = ebind (egets ps_initialized) (\<lambda>done'.
     if done' then eret () else emodify (\<lambda>s. s\<lparr>ps_inits := ps_inits s + 1, ps_initialized := True\<rparr>))"

text \<open>\<open>payload.pop(key, "")\<close>\<close>

definition pop_key :: "string \<Rightarrow> pydict \<Rightarrow> pyval \<times> pydict" where
  "pop_key k d = (dict_get k (PyStr []) d, filter (\<lambda>(k', _). k' \<noteq> k) d)"

definition convoy_provider_send :: "convoy_env \<Rightarrow> string \<Rightarrow> string \<Rightarrow> pydict \<Rightarrow> pyval prov" where
  "convoy_provider_send ce app_id event_type payload =
     ebind ensure_initialized (\<lambda>_.
     (case pop_key RESERVED payload of (endpoint, payload') \<Rightarrow>
       ebind (elift (expect_str TypeError endpoint)) (\<lambda>endpoint_id.
       ebind (elift (expect_str TypeError (dict_get ''idempotency_key'' (PyStr []) payload'))) (\<lambda>idempotency_key.
         via_convoy (send_webhook ce app_id event_type payload' (Some endpoint_id)
           (if idempotency_key = [] then None else Some idempotency_key))))))"

definition convoy_provider_create_app :: "convoy_env \<Rightarrow> string \<Rightarrow> string \<Rightarrow> pyval prov" where
  "convoy_provider_create_app ce developer_id name =
     ebind ensure_initialized (\<lambda>_. via_convoy (create_application ce developer_id name))"

definition convoy_provider_create_endpoint ::
  "convoy_env \<Rightarrow> string \<Rightarrow> string \<Rightarrow> string option \<Rightarrow> string option \<Rightarrow> pyval prov" where
  "convoy_provider_create_endpoint ce app_id url description secret =
     ebind ensure_initialized (\<lambda>_. via_convoy (create_endpoint ce app_id url
       (Some (case description of Some d \<Rightarrow> d | None \<Rightarrow> [])) (Some (case secret of Some s \<Rightarrow> s | None \<Rightarrow> []))))"

text \<open>The provider that only logs: an id with a fresh UUID.\<close>

definition log_id :: "(nat \<Rightarrow> string) \<Rightarrow> string \<Rightarrow> pyval prov" where
  "log_id uuid pre = ebind (egets ps_tick) (\<lambda>n.
     ebind (emodify (\<lambda>s. s\<lparr>ps_tick := Suc n\<rparr>)) (\<lambda>_. eret (PyStr (pre @ uuid n))))"

definition provider_send_dict :: "convoy_env \<Rightarrow> (nat \<Rightarrow> string) \<Rightarrow> provider \<Rightarrow> string \<Rightarrow> string \<Rightarrow> pydict \<Rightarrow> pyval prov" where
  "provider_send_dict ce uuid p app_id event_type payload = (case p of
      ConvoyProvider \<Rightarrow> convoy_provider_send ce app_id event_type payload
    | LogOnlyProvider \<Rightarrow> log_id uuid ''log-'')"

definition provider_create_app :: "convoy_env \<Rightarrow> (nat \<Rightarrow> string) \<Rightarrow> provider \<Rightarrow> string \<Rightarrow> string \<Rightarrow> pyval prov" where
  "provider_create_app ce uuid p developer_id name = (case p of
      ConvoyProvider \<Rightarrow> convoy_provider_create_app ce developer_id name
    | LogOnlyProvider \<Rightarrow> log_id uuid ''log-app-'')"

definition provider_create_endpoint ::
  "convoy_env \<Rightarrow> (nat \<Rightarrow> string) \<Rightarrow> provider \<Rightarrow> string \<Rightarrow> string \<Rightarrow> string option \<Rightarrow> string option \<Rightarrow> pyval prov" where
  "provider_create_endpoint ce uuid p app_id url description secret = (case p of
      ConvoyProvider \<Rightarrow> convoy_provider_create_endpoint ce app_id url description secret
    | LogOnlyProvider \<Rightarrow> log_id uuid ''log-ep-'')"

section \<open>Configuration\<close>

record secrets =
  sc_app_env :: string
  sc_supabase_url :: string
  sc_supabase_service_role_key :: string
  sc_convoy_api_key :: string
  sc_treasury_address :: string

definition missing_secrets :: "secrets \<Rightarrow> string list" where
  "missing_secrets sc =
     (if sc_supabase_url sc = [] then [''supabase_url''] else []) @
     (if sc_supabase_service_role_key sc = [] then [''supabase_service_role_key''] else []) @
     (if sc_convoy_api_key sc = [] then [''convoy_api_key''] else []) @
     (if sc_treasury_address sc = [] then [''tripwire_treasury_address''] else [])"

definition validate_production_secrets :: "secrets \<Rightarrow> secrets result" where
  "validate_production_secrets sc =
     (if sc_app_env sc \<noteq> ''production'' then Inr sc
      else if missing_secrets sc \<noteq> [] then Inl ValidationError else Inr sc)"

definition create_webhook_provider :: "secrets \<Rightarrow> provider" where
  "create_webhook_provider sc = (if sc_convoy_api_key sc \<noteq> [] then ConvoyProvider else LogOnlyProvider)"

section \<open>Messages of the dispatcher\<close>

text \<open>What \<open>dispatch_event\<close> and \<open>dispatch_generic_event\<close> hand to the provider.\<close>

definition handed_over :: "(WebhookPayload \<Rightarrow> pydict) \<Rightarrow> SentMessage \<Rightarrow> pydict" where
  "handed_over dump m = dump (sm_payload m) @
     (if sm_convoy_endpoint_id m \<noteq> [] then [(RESERVED, PyStr (sm_convoy_endpoint_id m))] else [])"

definition send_message :: "convoy_env \<Rightarrow> (nat \<Rightarrow> string) \<Rightarrow> (WebhookPayload \<Rightarrow> pydict) \<Rightarrow> provider \<Rightarrow> SentMessage \<Rightarrow> pyval prov" where
  "send_message ce uuid dump p m = provider_send_dict ce uuid p (sm_app_id m) (sm_event_type m) (handed_over dump m)"

lemma run_via_convoy [simp]:
  "run (via_convoy m) s = (case run m (ps_convoy s) of (r, c) \<Rightarrow> (r, s\<lparr>ps_convoy := c\<rparr>))"
  by (simp add: via_convoy_def case_prod_beta)

lemma run_ensure_initialized:
  "run ensure_initialized s =
     (Inr (), if ps_initialized s then s else s\<lparr>ps_inits := ps_inits s + 1, ps_initialized := True\<rparr>)"
  by (simp add: ensure_initialized_def)


text \<open>The keys of a payload's dictionary: none is the reserved one and the idempotency key is the payload's.\<close>

definition dumps_payloads :: "(WebhookPayload \<Rightarrow> pydict) \<Rightarrow> bool" where
  "dumps_payloads dump \<longleftrightarrow> (\<forall>p. RESERVED \<notin> fst ` set (dump p) \<and>
     map_of (dump p) ''idempotency_key'' = Some (PyStr (wp_idempotency_key p)))"

lemma pop_handed_over:
  assumes "dumps_payloads dump"
  shows "pop_key RESERVED (handed_over dump m) = (PyStr (sm_convoy_endpoint_id m), dump (sm_payload m))"
proof -
  have fresh: "RESERVED \<notin> fst ` set (dump (sm_payload m))" using assms by (simp add: dumps_payloads_def)
  then have "map_of (dump (sm_payload m)) RESERVED = None" by (simp add: map_of_eq_None_iff)
  moreover have "filter (\<lambda>(k', _). k' \<noteq> RESERVED) (dump (sm_payload m)) = dump (sm_payload m)"
    using fresh by (auto simp: filter_id_conv image_iff)
  ultimately show ?thesis by (simp add: pop_key_def handed_over_def dict_get_def map_add_def)
qed

lemma send_message_convoy:
  assumes "dumps_payloads dump"
  shows "send_message ce uuid dump ConvoyProvider m =
    ebind ensure_initialized (\<lambda>_. ebind (elift (Inr (sm_convoy_endpoint_id m))) (\<lambda>endpoint_id.
      ebind (elift (Inr (wp_idempotency_key (sm_payload m)))) (\<lambda>key.
        via_convoy (send_webhook ce (sm_app_id m) (sm_event_type m) (dump (sm_payload m)) (Some endpoint_id)
          (if key = [] then None else Some key)))))"
proof -
  have "dict_get ''idempotency_key'' (PyStr []) (dump (sm_payload m)) = PyStr (wp_idempotency_key (sm_payload m))"
    using assms by (simp add: dumps_payloads_def dict_get_def)
  then show ?thesis
    by (simp add: send_message_def provider_send_dict_def convoy_provider_send_def pop_handed_over[OF assms] expect_str_def)
qed

text \<open>
  C4. What Convoy receives is what the dispatcher meant: while the breaker lets it through, a message
  makes exactly one request, to the events of its project, with its event type, the payload
  without the reserved key, the Convoy endpoint only when the message names one, and the payload's
  idempotency key. A rejected message makes none. Either way the client has been initialised, once, however
  often messages are sent.
\<close>

theorem provider_delivers_message:
  assumes "dumps_payloads dump" and "run (send_message ce uuid dump ConvoyProvider m) s = (r, s')"
    and "check_circuit (ce_clock ce (cv_tick (ps_convoy s))) (cv_breaker (ps_convoy s)) = (allowed, b)"
  shows "ps_initialized s' \<and> ps_inits s' = ps_inits s + (if ps_initialized s then 0 else 1) \<and>
    cv_requests (ps_convoy s') = cv_requests (ps_convoy s) @ (if allowed
      then [\<lparr>cr_verb = ''POST'', cr_path = ''/api/v1/projects/'' @ sm_app_id m @ ''/events'',
          cr_body = [(''event_type'', PyStr (sm_event_type m)), (''data'', PyDict (dump (sm_payload m)))] @
            optional_field ''endpoint_id'' (Some (sm_convoy_endpoint_id m)) @
            optional_field ''idempotency_key'' (Some (wp_idempotency_key (sm_payload m))),
          cr_timeout = (if cb_state b = Half_open then Some HALF_OPEN_TIMEOUT else None)\<rparr>]
      else [])"
proof -
  let ?s = "if ps_initialized s then s else s\<lparr>ps_inits := ps_inits s + 1, ps_initialized := True\<rparr>"
  let ?key = "wp_idempotency_key (sm_payload m)"
  let ?send = "send_webhook ce (sm_app_id m) (sm_event_type m) (dump (sm_payload m)) (Some (sm_convoy_endpoint_id m))
      (if ?key = [] then None else Some ?key)"
  let ?rq = "\<lparr>cr_verb = ''POST'', cr_path = ''/api/v1/projects/'' @ sm_app_id m @ ''/events'',
          cr_body = [(''event_type'', PyStr (sm_event_type m)), (''data'', PyDict (dump (sm_payload m)))] @
            optional_field ''endpoint_id'' (Some (sm_convoy_endpoint_id m)) @
            optional_field ''idempotency_key'' (Some ?key),
          cr_timeout = (if cb_state b = Half_open then Some HALF_OPEN_TIMEOUT else None)\<rparr>"
  have key: "optional_field k (if ?key = [] then None else Some ?key) = optional_field k (Some ?key)" for k
    by (simp add: optional_field_def split: list.split)
  obtain r' c where c: "run ?send (ps_convoy s) = (r', c)" by fastforce
  then have s': "s' = ?s\<lparr>ps_convoy := c\<rparr>" using assms(2)
    by (auto simp: send_message_convoy[OF assms(1)] run_ensure_initialized simp del: if_split_asm split: if_splits)
  have "cv_requests c = cv_requests (ps_convoy s) @ (if allowed then [?rq] else [])"
  proof (cases allowed)
    case False
    then show ?thesis using c assms(3) by (auto simp: send_webhook_def guard_circuit_def monotonic_def)
  next
    case True
    let ?c = "(ps_convoy s)\<lparr>cv_tick := Suc (cv_tick (ps_convoy s)), cv_breaker := b\<rparr>"
    have "run (reported_post ce ?rq) ?c = (r', c)"
      using c assms(3) True by (simp add: send_webhook_def guard_circuit_def monotonic_def key)
    then show ?thesis using reported_post_run[of ce ?rq ?c r' c] True by simp
  qed
  then show ?thesis by (simp add: s')
qed

text \<open>Applied to any message, sent to a Convoy that is up, with a dictionary that holds the key alone.\<close>

theorem provider_delivers_message_witness:
  "\<forall>m. ps_inits (snd (run (send_message convoy_up (\<lambda>_. []) (\<lambda>p. [(''idempotency_key'', PyStr (wp_idempotency_key p))]) ConvoyProvider m)
     \<lparr>ps_initialized = False, ps_inits = 0, ps_convoy = idle_convoy, ps_tick = 0\<rparr>)) = 1"
proof
  fix m
  let ?d = "\<lambda>p. [(''idempotency_key'', PyStr (wp_idempotency_key p))]"
  let ?s = "\<lparr>ps_initialized = False, ps_inits = 0, ps_convoy = idle_convoy, ps_tick = 0\<rparr>"
  obtain r s' where run: "run (send_message convoy_up (\<lambda>_. []) ?d ConvoyProvider m) ?s = (r, s')" by fastforce
  obtain allowed b where c: "check_circuit (ce_clock convoy_up (cv_tick (ps_convoy ?s))) (cv_breaker (ps_convoy ?s)) = (allowed, b)"
    by fastforce
  have "dumps_payloads ?d" by (simp add: dumps_payloads_def RESERVED_def)
  from provider_delivers_message[OF this run c]
  show "ps_inits (snd (run (send_message convoy_up (\<lambda>_. []) ?d ConvoyProvider m) ?s)) = 1" by (simp add: run)
qed

text \<open>
  A production process that starts sends through Convoy and has a treasury to be paid to: settings
  without these do not validate, so the provider that only logs is never used in production.
\<close>

theorem production_sends_through_convoy:
  assumes "validate_production_secrets sc = Inr sc'" and "sc_app_env sc = ''production''"
  shows "sc' = sc \<and> create_webhook_provider sc' = ConvoyProvider \<and> sc_treasury_address sc' \<noteq> []"
  using assms by (auto simp: validate_production_secrets_def missing_secrets_def create_webhook_provider_def split: if_splits)

theorem production_sends_through_convoy_witness:
  "create_webhook_provider \<lparr>sc_app_env = ''production'', sc_supabase_url = ''u'', sc_supabase_service_role_key = ''k'',
     sc_convoy_api_key = ''c'', sc_treasury_address = ''0x1''\<rparr> = ConvoyProvider"
  using production_sends_through_convoy[of "\<lparr>sc_app_env = ''production'', sc_supabase_url = ''u'', sc_supabase_service_role_key = ''k'',
     sc_convoy_api_key = ''c'', sc_treasury_address = ''0x1''\<rparr>"]
  by (simp add: validate_production_secrets_def missing_secrets_def)

end
