(* ===== verification/Discovery.thy ===== *)
theory Discovery
  imports Mcp_Requests
begin

text \<open>
  \<open>api/routes/well_known.py\<close>: the skill specification and the list of paid resources. Both are read by
  other programs, so what they say is compared with what the service does: \<open>skill_spec\<close> with the
  finality depths and execution states, the resources with the payments the MCP server accepts. The
  em dash of the texts is written \<open>--\<close>.
\<close>

section \<open>The skill specification\<close>

definition TWSS_VERSION :: string where "TWSS_VERSION = ''1.0.0-draft''"

definition spec_three_layer_gating :: "pyval" where
  "spec_three_layer_gating =
     PyDict [(''layer_1_payment'', PyDict [(''description'', PyStr ''Can pay? -- x402 payment or event payment metadata''),
     (''fields'', PyList [PyStr ''require_payment'', PyStr ''payment_token'', PyStr ''min_payment_amount''])]),
     (''layer_2_identity'', PyDict [(''description'', PyStr ''Can trust? -- ERC-8004 reputation + agent class''),
     (''fields'', PyList [PyStr ''min_reputation'', PyStr ''required_agent_class''])]), (''layer_3_execution'', PyDict
     [(''description'', PyStr ''Is safe? -- Execution state + finality depth''), (''fields'', PyList [PyStr
     ''execution.state'', PyStr ''execution.safe_to_execute'', PyStr ''execution.finality''])])]"

definition spec_two_phase_model :: "pyval" where
  "spec_two_phase_model =
     PyDict [(''prepare'', PyDict [(''trigger'', PyStr ''provisional''), (''safe_to_execute'', PyBool False),
     (''agent_action'', PyStr ''Optimistic UI, hold resources, do NOT commit'')]), (''commit'', PyDict [(''trigger'', PyStr
     ''finalized''), (''safe_to_execute'', PyBool True), (''agent_action'', PyStr
     ''Execute irreversible business logic'')])]"

definition spec_output_schema :: "pyval" where
  "spec_output_schema =
     PyDict [(''type'', PyStr ''object''), (''required'', PyList [PyStr ''id'', PyStr ''idempotency_key'', PyStr ''type'',
     PyStr ''version'', PyStr ''timestamp'', PyStr ''execution'', PyStr ''data'']), (''properties'', PyDict [(''id'', PyDict
     [(''type'', PyStr ''string'')]), (''idempotency_key'', PyDict [(''type'', PyStr ''string'')]), (''type'', PyDict
     [(''type'', PyStr ''string'')]), (''version'', PyDict [(''type'', PyStr ''string''), (''const'', PyStr ''v1'')]),
     (''timestamp'', PyDict [(''type'', PyStr ''integer'')]), (''execution'', PyDict [(''type'', PyStr ''object''),
     (''required'', PyList [PyStr ''state'', PyStr ''safe_to_execute'', PyStr ''trust_source'']), (''properties'', PyDict
     [(''state'', PyDict [(''enum'', PyList [PyStr ''provisional'', PyStr ''confirmed'', PyStr ''finalized'', PyStr
     ''reorged''])]), (''safe_to_execute'', PyDict [(''type'', PyStr ''boolean'')]), (''trust_source'', PyDict [(''enum'',
     PyList [PyStr ''facilitator'', PyStr ''onchain''])]), (''finality'', PyDict [(''oneOf'', PyList [PyDict [(''type'',
     PyStr ''null'')], PyDict [(''type'', PyStr ''object''), (''required'', PyList [PyStr ''confirmations'', PyStr
     ''required_confirmations'', PyStr ''is_finalized'']), (''properties'', PyDict [(''confirmations'', PyDict [(''type'',
     PyStr ''integer''), (''minimum'', PyInt 0)]), (''required_confirmations'', PyDict [(''type'', PyStr ''integer''),
     (''minimum'', PyInt 1), (''maximum'', PyInt 64)]), (''is_finalized'', PyDict [(''type'', PyStr
     ''boolean'')])])]])])])]), (''data'', PyDict [(''type'', PyStr ''object'')]), (''identity'', PyDict [(''type'', PyStr
     ''object''), (''properties'', PyDict [(''address'', PyDict [(''type'', PyStr ''string'')]), (''agent_class'', PyDict
     [(''type'', PyStr ''string'')]), (''reputation_score'', PyDict [(''type'', PyStr ''number''), (''minimum'', PyInt 0),
     (''maximum'', PyInt 100)]), (''capabilities'', PyDict [(''type'', PyStr ''array''), (''items'', PyDict [(''type'', PyStr
     ''string'')])])])])])]"

definition spec_chain_finality :: "pyval" where
  "spec_chain_finality =
     PyDict [(''eip155:1'', PyDict [(''name'', PyStr ''Ethereum''), (''default_depth'', PyInt 12), (''block_time_ms'', PyInt
     12000)]), (''eip155:8453'', PyDict [(''name'', PyStr ''Base''), (''default_depth'', PyInt 3), (''block_time_ms'', PyInt
     2000)]), (''eip155:42161'', PyDict [(''name'', PyStr ''Arbitrum''), (''default_depth'', PyInt 1), (''block_time_ms'',
     PyInt 250)])]"

definition spec_determinism_guarantees :: "pyval" where
  "spec_determinism_guarantees =
     PyList [PyStr ''Idempotency: same event + same endpoint + same type = same idempotency_key'', PyStr
     ''Ordering: provisional -> confirmed -> finalized (reorged may arrive anytime after provisional)'', PyStr
     ''At-least-once delivery via Convoy (10 retries, exponential backoff, DLQ)'', PyStr
     ''Finality monotonicity: confirmations only increase (except on reorg)'', PyStr
     ''Nonce uniqueness: (chain_id, nonce, authorizer) is globally unique'']"

definition spec_products :: "Settings \<Rightarrow> pyval" where
  "spec_products st =
     PyDict [(''pulse'', PyDict [(''description'', PyStr ''Self-service event trigger platform''), (''capabilities'', PyList
     [PyStr ''trigger_creation'', PyStr ''event_detection'', PyStr ''filter_evaluation'']), (''active'', PyBool (is_pulse
     st))]), (''keeper'', PyDict [(''description'', PyStr ''Managed x402 payment infrastructure''), (''capabilities'', PyList
     [PyStr ''payment_verification'', PyStr ''identity_resolution'', PyStr ''execution_gating'']), (''active'', PyBool
     (is_keeper st))])]"

definition skill_spec :: "Settings \<Rightarrow> pydict" where
  "skill_spec st = [
     (''$schema'', PyStr ''https://json-schema.org/draft/2020-12/schema''),
     (''$id'', PyStr ''https://tripwire.dev/schemas/twss-1/v1''),
     (''title'', PyStr ''TWSS-1 Skill Output''),
     (''version'', PyStr TWSS_VERSION),
     (''spec_url'', PyStr ''https://tripwire.dev/docs/SKILL-SPEC''),
     (''execution_states'', PyList [PyStr ''provisional'', PyStr ''confirmed'', PyStr ''finalized'', PyStr ''reorged'']),
     (''trust_sources'', PyList [PyStr ''facilitator'', PyStr ''onchain'']),
     (''three_layer_gating'', spec_three_layer_gating),
     (''two_phase_model'', spec_two_phase_model),
     (''output_schema'', spec_output_schema),
     (''chain_finality'', spec_chain_finality),
     (''determinism_guarantees'', spec_determinism_guarantees),
     (''products'', spec_products st)]"

section \<open>Resources\<close>

record site =
  si_app_base_url :: string
  si_x402_networks :: "string list"

definition accept_entry :: "Settings \<Rightarrow> string \<Rightarrow> string \<Rightarrow> pydict" where
  "accept_entry st price network =
     [(''scheme'', PyStr ''exact''), (''price'', PyStr price), (''network'', PyStr network),
      (''payTo'', PyStr (st_treasury st)), (''asset'', PyStr ''USDC'')]"

text \<open>\<open>networks[0]\<close> of an empty list raises.\<close>

definition tool_accepts :: "site \<Rightarrow> Settings \<Rightarrow> ToolDef \<Rightarrow> pydict list result" where
  "tool_accepts si st td = (case td_price td of
      Some p \<Rightarrow>
        if td_auth_tier td = X402 \<and> p \<noteq> []
        then (case map (accept_entry st p) (filter (\<lambda>n. n \<in> set (si_x402_networks si)) (td_networks td)) of
            [] \<Rightarrow> rbind (of_option IndexError (case si_x402_networks si of [] \<Rightarrow> None | n # _ \<Rightarrow> Some n)) (\<lambda>n. Inr [accept_entry st p n])
          | es \<Rightarrow> Inr es)
        else Inr []
    | None \<Rightarrow> Inr [])"

record resource =
  rs_resource :: string
  rs_type :: string
  rs_version :: int
  rs_accepts :: "pydict list"
  rs_extensions :: "string list"
  rs_tool :: string
  rs_description :: string
  rs_input_schema :: pydict
  rs_transport :: string
  rs_min_reputation :: rat
  rs_product :: string

definition tool_to_resource :: "site \<Rightarrow> Settings \<Rightarrow> ToolDef \<Rightarrow> resource result" where
  "tool_to_resource si st td = rbind (tool_accepts si st td) (\<lambda>es. Inr
     \<lparr>rs_resource = si_app_base_url si @ ''/mcp#'' @ td_name td, rs_type = ''mcp'', rs_version = 2, rs_accepts = es,
      rs_extensions = [''sign-in-with-x''], rs_tool = td_name td, rs_description = td_description td,
      rs_input_schema = td_input_schema td, rs_transport = ''json-rpc'', rs_min_reputation = td_min_reputation td,
      rs_product = td_product td\<rparr>)"

fun all_results :: "('a \<Rightarrow> 'b result) \<Rightarrow> 'a list \<Rightarrow> 'b list result" where
  "all_results f [] = Inr []"
| "all_results f (x # xs) = rbind (f x) (\<lambda>y. rbind (all_results f xs) (\<lambda>ys. Inr (y # ys)))"

definition discovery_resources :: "site \<Rightarrow> Settings \<Rightarrow> (string \<Rightarrow> handler) \<Rightarrow> resource list result" where
  "discovery_resources si st h = all_results (tool_to_resource si st) (filter (tool_visible st) (TOOLS h))"

section \<open>What is said is so\<close>

lemma all_results_Inr:
  "(\<And>x. x \<in> set xs \<Longrightarrow> f x = Inr (g x)) \<Longrightarrow> all_results f xs = Inr (map g xs)"
  by (induction xs) auto

lemma TOOLS_networks: "td \<in> set (TOOLS h) \<Longrightarrow> td_networks td = [''eip155:8453'']"
  unfolding TOOLS_def by (auto simp: tool_defs register_def)

text \<open>The one entry of a paid tool, from the option its payment is verified against.\<close>

definition entry_of :: "PaymentOption \<Rightarrow> pydict" where
  "entry_of o' = [(''scheme'', PyStr (pay_scheme o')), (''price'', PyStr (pay_price o')), (''network'', PyStr (pay_network o')),
      (''payTo'', PyStr (pay_to o')), (''asset'', PyStr ''USDC'')]"

lemma tool_accepts_offer:
  assumes "td \<in> set (TOOLS h)" and "si_x402_networks si = n # ns"
  shows "tool_accepts si (en_settings env) td = Inr (if td_auth_tier td = X402
     then [entry_of ((payment_option env td)\<lparr>pay_network := if ''eip155:8453'' \<in> set (n # ns) then td_network td else n\<rparr>)] else [])"
  using tool_basics[OF assms(1)] TOOLS_networks[OF assms(1)] assms(2)
  by (auto simp: tool_accepts_def entry_of_def accept_entry_def payment_option_def td_network_def py_or_def)


text \<open>
  C38. What is advertised is what is charged: with at least one network configured, discovery lists
  exactly the tools visible in the product mode, in the order of \<open>tools/list\<close>, and a tool asks for
  payment in discovery exactly when the server does, at the price, to the treasury and with the
  scheme the server verifies. The network is the one the server verifies when it is configured; when
  it is not, discovery names the first configured network although the server keeps the other one.
\<close>

theorem discovery_matches_charges:
  assumes "si_x402_networks si = n # ns"
  shows "\<exists>items. discovery_resources si (en_settings env) h = Inr items \<and>
    map rs_tool items = map td_name (filter (tool_visible (en_settings env)) (TOOLS h)) \<and>
    (\<forall>r \<in> set items. \<exists>td \<in> set (TOOLS h). tool_visible (en_settings env) td \<and> rs_tool r = td_name td \<and>
       rs_min_reputation r = td_min_reputation td \<and>
       rs_accepts r = (if td_auth_tier td = X402
         then [entry_of ((payment_option env td)\<lparr>pay_network := if ''eip155:8453'' \<in> set (n # ns) then td_network td else n\<rparr>)] else []))"
proof -
  let ?st = "en_settings env"
  define es where "es td = (if td_auth_tier td = X402
     then [entry_of ((payment_option env td)\<lparr>pay_network := if ''eip155:8453'' \<in> set (n # ns) then td_network td else n\<rparr>)] else [])" for td
  define item where "item td = \<lparr>rs_resource = si_app_base_url si @ ''/mcp#'' @ td_name td, rs_type = ''mcp'', rs_version = 2,
      rs_accepts = es td, rs_extensions = [''sign-in-with-x''], rs_tool = td_name td, rs_description = td_description td,
      rs_input_schema = td_input_schema td, rs_transport = ''json-rpc'', rs_min_reputation = td_min_reputation td,
      rs_product = td_product td\<rparr>" for td
  have "tool_to_resource si ?st td = Inr (item td)" if "td \<in> set (filter (tool_visible ?st) (TOOLS h))" for td
    using tool_accepts_offer[of td h, OF _ assms] that by (simp add: tool_to_resource_def item_def es_def)
  then have "discovery_resources si ?st h = Inr (map item (filter (tool_visible ?st) (TOOLS h)))"
    unfolding discovery_resources_def by (rule all_results_Inr)
  then show ?thesis by (auto simp: item_def es_def comp_def)
qed

text \<open>Applied to the default network.\<close>

theorem discovery_matches_charges_witness:
  "\<exists>items. discovery_resources \<lparr>si_app_base_url = ''https://x'', si_x402_networks = [''eip155:8453'']\<rparr>
      (en_settings calm_env) (\<lambda>_ _ _. eret []) = Inr items \<and>
    map rs_tool items = map td_name (filter (tool_visible (en_settings calm_env)) (TOOLS (\<lambda>_ _ _. eret [])))"
  using discovery_matches_charges[of "\<lparr>si_app_base_url = ''https://x'', si_x402_networks = [''eip155:8453'']\<rparr>" "''eip155:8453''" "[]"
    calm_env "\<lambda>_ _ _. eret []"] by auto

text \<open>Without any network the route raises as soon as a paid tool is visible.\<close>

lemma discovery_needs_network:
  assumes "si_x402_networks si = []" and "td \<in> set (TOOLS h)" and "td_auth_tier td = X402"
  shows "tool_to_resource si st td = Inl IndexError"
  using tool_basics[OF assms(2)] assms(1,3) by (auto simp: tool_to_resource_def tool_accepts_def of_option_def)

text \<open>
  The skill specification describes the service: the depth it publishes for every chain is the
  depth the finality check waits for by default, the states and trust sources it enumerates are those a
  status can have, and its two phases are right about when an agent may act: a status is safe to
  execute exactly when its state is that of the commit phase.
\<close>

theorem skill_spec_describes_service:
  "(\<forall>c. \<exists>d. dict_get (''eip155:'' @ int_str (chain_value c)) PyNone (case spec_chain_finality of PyDict f \<Rightarrow> f | _ \<Rightarrow> []) = PyDict d \<and>
      dict_get ''default_depth'' PyNone d = PyInt (FINALITY_DEPTHS c)) \<and>
   dict_get ''chain_finality'' PyNone (skill_spec st) = spec_chain_finality \<and>
   dict_get ''execution_states'' PyNone (skill_spec st) = PyList (map (PyStr \<circ> state_value) [PROVISIONAL, CONFIRMED, FINALIZED, REORGED]) \<and>
   (case execution_state_from_status status of (state, safe, _) \<Rightarrow>
      PyStr (state_value state) \<in> set (case dict_get ''execution_states'' PyNone (skill_spec st) of PyList xs \<Rightarrow> xs | _ \<Rightarrow> []) \<and>
      (safe \<longleftrightarrow> (\<exists>ph. dict_get ''commit'' PyNone (case spec_two_phase_model of PyDict m \<Rightarrow> m | _ \<Rightarrow> []) = PyDict ph \<and>
         dict_get ''safe_to_execute'' PyNone ph = PyBool True \<and> dict_get ''trigger'' PyNone ph = PyStr (state_value state))))"
proof -
  have digits: "digit_chr 1 = CHR ''1''" "digit_chr 2 = CHR ''2''" "digit_chr 3 = CHR ''3''" "digit_chr 4 = CHR ''4''"
    "digit_chr 5 = CHR ''5''" "digit_chr 6 = CHR ''6''" "digit_chr 8 = CHR ''8''" "digit_chr (Suc 0) = CHR ''1''" by code_simp+
  have key: "int_str (chain_value ETHEREUM) = ''1''" "int_str (chain_value BASE) = ''8453''" "int_str (chain_value ARBITRUM) = ''42161''"
    using digits by (simp_all add: int_str_def nat_str.simps chain_value_def)
  have depth: "\<exists>d. dict_get (''eip155:'' @ int_str (chain_value c)) PyNone (case spec_chain_finality of PyDict f \<Rightarrow> f | _ \<Rightarrow> []) = PyDict d \<and>
      dict_get ''default_depth'' PyNone d = PyInt (FINALITY_DEPTHS c)" for c
    by (cases c) (simp_all add: key spec_chain_finality_def dict_get_def FINALITY_DEPTHS_def)
  show ?thesis
    using depth by (simp add: skill_spec_def spec_two_phase_model_def dict_get_def execution_state_from_status_def STATUS_MAP_def)
qed

end
