(* ===== verification/Payloads.thy ===== *)
theory Payloads
  imports Provider Discovery
begin

text \<open>
  \<open>webhook/payload.py\<close>: the two builders of webhook dictionaries. \<open>AgentIdentity(**d).model_dump()\<close>
  (\<open>ident\<close>) and the \<open>model_dump\<close> of a payload (\<open>dump\<close>) are arguments.
\<close>

definition endpoint_mode :: "string \<Rightarrow> EndpointMode" where
  "endpoint_mode s = (case mode_of s of Some m \<Rightarrow> m | None \<Rightarrow> EXECUTE)"

definition mode_text :: "EndpointMode \<Rightarrow> string" where
  "mode_text m = (case m of NOTIFY \<Rightarrow> ''notify'' | EXECUTE \<Rightarrow> ''execute'')"

definition default_execution :: pydict where
  "default_execution = [(''state'', PyStr ''confirmed''), (''safe_to_execute'', PyBool False),
     (''trust_source'', PyStr ''onchain''), (''finality'', PyNone)]"

definition identity_dict :: "(pydict \<Rightarrow> pydict result) \<Rightarrow> pydict option \<Rightarrow> pyval" where
  "identity_dict ident identity_data = (case identity_data of
      None \<Rightarrow> PyNone
    | Some d \<Rightarrow> PyDict (case ident d of Inr x \<Rightarrow> x | Inl _ \<Rightarrow> d))"

definition build_generic_payload ::
  "env \<Rightarrow> (pydict \<Rightarrow> pydict result) \<Rightarrow> pydict \<Rightarrow> string \<Rightarrow> string \<Rightarrow> pydict option \<Rightarrow> pydict option \<Rightarrow> pydict io" where
  "build_generic_payload env ident event event_type mode execution_block identity_data =
     ebind (event_id_of env event) (\<lambda>event_id.
     (let endpoint_id = py_str (en_py_str env) (dict_get ''endpoint_id'' (PyStr []) event);
          trigger_id = dict_get ''trigger_id'' PyNone event;
          key = generate_generic_idempotency_key env event_id endpoint_id;
          exec_data = (case execution_block of Some b \<Rightarrow> b | None \<Rightarrow> default_execution);
          identity = identity_dict ident identity_data in
      ebind (uuid4 env) (\<lambda>i. ebind (now env) (\<lambda>time.
        eret ([(''id'', PyStr i), (''idempotency_key'', PyStr key), (''type'', PyStr event_type),
           (''mode'', PyStr (mode_text (endpoint_mode mode))), (''timestamp'', PyInt time), (''version'', PyStr ''v1''),
           (''execution'', PyDict exec_data), (''data'', PyDict [(''event'', PyDict event), (''identity'', identity)])] @
          (if trigger_id \<noteq> PyNone then [(''trigger_id'', trigger_id)] else []))))))"

definition build_payment_payload ::
  "env \<Rightarrow> (WebhookPayload \<Rightarrow> pydict) \<Rightarrow> ERC3009Transfer \<Rightarrow> WebhookEventType \<Rightarrow> EndpointMode \<Rightarrow> string
   \<Rightarrow> FinalityStatus option \<Rightarrow> AgentIdentity option \<Rightarrow> int option \<Rightarrow> pydict io" where
  "build_payment_payload env dump transfer event_type mode endpoint_id finality identity required_depth =
     (let key = generate_idempotency_key env (chain_value (tr_chain_id transfer)) (tr_tx_hash transfer)
            (tr_log_index transfer) endpoint_id (webhook_type_value event_type);
          finality_data = build_finality_data finality required_depth;
          execution = derive_execution_metadata event_type finality_data;
          transfer_data = build_transfer_data transfer in
      ebind (uuid4 env) (\<lambda>i. ebind (now env) (\<lambda>time.
        eret (dump \<lparr>wp_id = i, wp_idempotency_key = key, wp_type = event_type, wp_mode = mode,
          wp_timestamp = time, wp_version = ''v1'', wp_execution = execution,
          wp_data = \<lparr>wd_event = None, wd_transfer = Some transfer_data, wd_finality = finality_data, wd_identity = identity\<rparr>,
          wp_trigger_id = None\<rparr>))))"

text \<open>The payment builder agrees with the dispatcher's.\<close>

lemma build_payment_payload_agrees:
  "run (build_payment_payload env dump t ty mode ep f i d) w =
    (case run (build_payload env t ty mode ep f i d) w of (r, w') \<Rightarrow> (map_sum id dump r, w'))"
  by (simp add: build_payment_payload_def build_payload_def Let_def case_prod_beta split: sum.split)

section \<open>Payloads and the published schema\<close>

definition fields_of :: "pyval \<Rightarrow> pydict" where
  "fields_of v = (case v of PyDict d \<Rightarrow> d | _ \<Rightarrow> [])"

definition items_of :: "pyval \<Rightarrow> pyval list" where
  "items_of v = (case v of PyList xs \<Rightarrow> xs | _ \<Rightarrow> [])"

definition required_of :: "pyval \<Rightarrow> pyval list" where
  "required_of schema = items_of (dict_get ''required'' PyNone (fields_of schema))"

definition property_of :: "string \<Rightarrow> pyval \<Rightarrow> pyval" where
  "property_of k schema = dict_get k PyNone (fields_of (dict_get ''properties'' PyNone (fields_of schema)))"

definition allowed_by :: "pyval \<Rightarrow> pyval list" where
  "allowed_by schema = items_of (dict_get ''enum'' PyNone (fields_of schema))"

text \<open>
  Every generic payload has the fields the skill specification publishes as required, at the published
  version, and without an explicit execution block its execution has the required fields, a state and
  a trust source from the published lists, and is not safe to execute.
\<close>

theorem generic_payload_conforms:
  assumes "run (build_generic_payload env ident event ty mode block idd) w = (Inr p, w')"
  shows "(\<forall>k. PyStr k \<in> set (required_of spec_output_schema) \<longrightarrow> dict_has k p) \<and>
    dict_get ''version'' PyNone p = dict_get ''const'' PyNone (fields_of (property_of ''version'' spec_output_schema)) \<and>
    (block = None \<longrightarrow> (let e = fields_of (dict_get ''execution'' PyNone p); schema = property_of ''execution'' spec_output_schema in
      (\<forall>k. PyStr k \<in> set (required_of schema) \<longrightarrow> dict_has k e) \<and>
      dict_get ''state'' PyNone e \<in> set (allowed_by (property_of ''state'' schema)) \<and>
      dict_get ''trust_source'' PyNone e \<in> set (allowed_by (property_of ''trust_source'' schema)) \<and>
      dict_get ''safe_to_execute'' PyNone e = PyBool False))"
proof -
  obtain i key time exec_data d tr where p: "p = [(''id'', PyStr i), (''idempotency_key'', PyStr key), (''type'', PyStr ty),
      (''mode'', PyStr (mode_text (endpoint_mode mode))), (''timestamp'', PyInt time), (''version'', PyStr ''v1''),
      (''execution'', PyDict exec_data), (''data'', PyDict d)] @ tr" and e: "block = None \<Longrightarrow> exec_data = default_execution"
    using assms unfolding build_generic_payload_def Let_def by (auto split: prod.splits sum.splits)
  have req: "required_of spec_output_schema = [PyStr ''id'', PyStr ''idempotency_key'', PyStr ''type'', PyStr ''version'',
      PyStr ''timestamp'', PyStr ''execution'', PyStr ''data'']"
    and ver: "dict_get ''const'' PyNone (fields_of (property_of ''version'' spec_output_schema)) = PyStr ''v1''"
    and ex: "required_of (property_of ''execution'' spec_output_schema) = [PyStr ''state'', PyStr ''safe_to_execute'', PyStr ''trust_source'']"
    and st: "allowed_by (property_of ''state'' (property_of ''execution'' spec_output_schema)) =
      [PyStr ''provisional'', PyStr ''confirmed'', PyStr ''finalized'', PyStr ''reorged'']"
    and tr: "allowed_by (property_of ''trust_source'' (property_of ''execution'' spec_output_schema)) =
      [PyStr ''facilitator'', PyStr ''onchain'']"
    by (simp_all add: required_of_def property_of_def allowed_by_def items_of_def fields_of_def dict_get_def spec_output_schema_def)
  have d: "dict_has ''state'' default_execution" "dict_has ''safe_to_execute'' default_execution"
    "dict_has ''trust_source'' default_execution" "dict_get ''state'' PyNone default_execution = PyStr ''confirmed''"
    "dict_get ''trust_source'' PyNone default_execution = PyStr ''onchain''"
    "dict_get ''safe_to_execute'' PyNone default_execution = PyBool False" "fields_of (PyDict x) = x" for x
    by (simp_all add: default_execution_def dict_has_def dict_get_def fields_of_def)
  have "\<forall>k. PyStr k \<in> set (required_of spec_output_schema) \<longrightarrow> dict_has k p"
    unfolding req p by (auto simp: dict_has_def)
  moreover have "dict_get ''version'' PyNone p = PyStr ''v1''" "dict_get ''execution'' PyNone p = PyDict exec_data"
    unfolding p by (simp_all add: dict_get_def)
  ultimately show ?thesis
    using e d by (simp add: ver ex st tr Let_def)
qed


text \<open>Applied to an event without an identity.\<close>

theorem generic_payload_conforms_witness:
  "\<exists>p w'. run (build_generic_payload calm_env Inr [(''event_id'', PyStr ''e'')] ''trigger.matched'' ''notify'' None None) empty_world = (Inr p, w') \<and>
     (\<forall>k. PyStr k \<in> set (required_of spec_output_schema) \<longrightarrow> dict_has k p)"
proof -
  obtain p w' where run: "run (build_generic_payload calm_env Inr [(''event_id'', PyStr ''e'')] ''trigger.matched'' ''notify'' None None)
      empty_world = (Inr p, w')"
    by (simp add: build_generic_payload_def event_id_of_def first_truthy_def dict_get_def py_truthy_def Let_def)
  with generic_payload_conforms[OF run] show ?thesis by blast
qed

end
