(* ===== verification/Application.thy ===== *)
theory Application
  imports Ingest_Routes Rest_Reads Provider "HOL-Library.AList"
begin

text \<open>
  \<open>main.py\<close>, \<open>worker.py\<close>, \<open>observability/health.py\<close>, \<open>observability/audit.py\<close> and \<open>api/ratelimit.py\<close>: which
  background parts a process starts and stops, which routes it mounts, how exceptions become
  answers, and the health report. A part that is started may raise (\<open>starts\<close>, \<open>stops\<close>); what the parts
  do is in their own theories. Logging, tracing, metrics and CORS are left out.
\<close>

section \<open>Settings\<close>

record config =
  cf_settings :: Settings
  cf_role :: string
  cf_database_url :: string
  cf_event_bus_enabled :: bool
  cf_dlq_enabled :: bool
  cf_convoy_api_key :: string
  cf_finality_poller_enabled :: bool
  cf_goldsky_secret :: string
  cf_facilitator_secret :: string
  cf_metrics_bearer_token :: string

definition validate_process_role :: "string \<Rightarrow> string result" where
  "validate_process_role v = (if v \<in> {''all'', ''api'', ''worker''} then Inr v else Inl ValueError)"

definition is_api :: "config \<Rightarrow> bool" where
  "is_api cf \<longleftrightarrow> cf_role cf \<in> {''all'', ''api''}"

definition is_worker :: "config \<Rightarrow> bool" where
  "is_worker cf \<longleftrightarrow> cf_role cf \<in> {''all'', ''worker''}"

text \<open>\<open>worker.py\<close>: the role of a process started without one.\<close>

definition worker_role :: "string option \<Rightarrow> string" where
  "worker_role env_role = (case env_role of Some (c # s) \<Rightarrow> c # s | _ \<Rightarrow> ''worker'')"

section \<open>Start and stop\<close>

datatype part = Pg_pool | Workers | Redis_dlq | Dlq_handler | Finality_poller | Sweeper | Archiver

text \<open>
  The application: what runs, what the shutdown will stop because a variable or attribute holds it,
  the session manager, the trigger index given to the processor, and readiness.
\<close>

record app =
  ap_running :: "part list"
  ap_held :: "part set"
  ap_session_manager :: bool
  ap_trigger_index :: bool
  ap_ready :: bool

type_synonym 'a startup = "(app, 'a) act"

definition fresh_app :: app where
  "fresh_app = \<lparr>ap_running = [], ap_held = {}, ap_session_manager = False, ap_trigger_index = False, ap_ready = False\<rparr>"

text \<open>
  What may raise besides the parts: the clients built before and after the pool is opened, the first load of the
  trigger index, and the registration of the session scripts.
\<close>

record boot =
  bo_supabase :: "unit result"
  bo_shared :: "unit result"
  bo_index :: "unit result"
  bo_scripts :: "unit result"
  bo_starts :: "part \<Rightarrow> unit result"

definition hold :: "part \<Rightarrow> unit startup" where
  "hold p = emodify (\<lambda>a. a\<lparr>ap_held := insert p (ap_held a)\<rparr>)"

definition bring_up :: "(part \<Rightarrow> unit result) \<Rightarrow> part \<Rightarrow> unit startup" where
  "bring_up starts p = ebind (elift (starts p)) (\<lambda>_. emodify (\<lambda>a. a\<lparr>ap_running := ap_running a @ [p]\<rparr>))"

text \<open>\<open>try: ... except Exception\<close> around a start, with a log message only.\<close>

definition guarded :: "unit startup \<Rightarrow> unit startup" where
  "guarded m = ecatch m (\<lambda>_. eret ())"

text \<open>The pool is held only once it runs; the other parts are assigned before they start.\<close>

definition start_event_bus :: "unit result \<Rightarrow> (part \<Rightarrow> unit result) \<Rightarrow> config \<Rightarrow> unit startup" where
  "start_event_bus index starts cf = ewhen (is_pulse (cf_settings cf) \<and> cf_event_bus_enabled cf)
     (ebind (elift index) (\<lambda>_. ebind (emodify (\<lambda>a. a\<lparr>ap_trigger_index := True\<rparr>)) (\<lambda>_.
      ebind (guarded (ebind (bring_up starts Workers) (\<lambda>_. hold Workers))) (\<lambda>_.
        guarded (ebind (hold Redis_dlq) (\<lambda>_. bring_up starts Redis_dlq))))))"

definition start_part :: "(part \<Rightarrow> unit result) \<Rightarrow> bool \<Rightarrow> part \<Rightarrow> unit startup" where
  "start_part starts c p = ewhen c (ebind (hold p) (\<lambda>_. bring_up starts p))"

definition start_workers :: "unit result \<Rightarrow> (part \<Rightarrow> unit result) \<Rightarrow> config \<Rightarrow> unit startup" where
  "start_workers index starts cf = (let keeper = is_keeper (cf_settings cf) in
     ewhen (is_worker cf)
      (ebind (start_event_bus index starts cf) (\<lambda>_.
       ebind (start_part starts (keeper \<and> cf_dlq_enabled cf \<and> cf_convoy_api_key cf \<noteq> []) Dlq_handler) (\<lambda>_.
       ebind (start_part starts (keeper \<and> cf_finality_poller_enabled cf) Finality_poller) (\<lambda>_.
       ebind (start_part starts keeper Sweeper) (\<lambda>_.
         guarded (start_part starts keeper Archiver)))))))"

definition start_sessions :: "unit result \<Rightarrow> config \<Rightarrow> unit startup" where
  "start_sessions scripts cf = ewhen (is_api cf \<and> is_keeper (cf_settings cf) \<and> st_session_enabled (cf_settings cf))
     (ebind (elift scripts) (\<lambda>_. emodify (\<lambda>a. a\<lparr>ap_session_manager := True\<rparr>)))"

definition app_startup :: "boot \<Rightarrow> config \<Rightarrow> unit startup" where
  "app_startup bo cf =
     ebind (elift (bo_supabase bo)) (\<lambda>_.
     ebind (ewhen (cf_database_url cf \<noteq> []) (guarded (ebind (bring_up (bo_starts bo) Pg_pool) (\<lambda>_. hold Pg_pool)))) (\<lambda>_.
     ebind (elift (bo_shared bo)) (\<lambda>_.
     ebind (start_workers (bo_index bo) (bo_starts bo) cf) (\<lambda>_.
     ebind (start_sessions (bo_scripts bo) cf) (\<lambda>_.
       emodify (\<lambda>a. a\<lparr>ap_ready := True\<rparr>))))))"




section \<open>Routes and answers\<close>

definition routers :: "config \<Rightarrow> string list" where
  "routers cf = (let keeper = is_keeper (cf_settings cf) in
     if is_api cf
     then [''auth'', ''deliveries'', ''endpoints'', ''subscriptions'', ''events'', ''ingest'', ''stats'', ''well_known''] @
       (if keeper then [''facilitator''] else []) @
       (if keeper \<and> st_session_enabled (cf_settings cf) then [''session''] else []) @ [''mcp'']
     else [])"

text \<open>Payment gating of \<open>POST /api/v1/endpoints\<close>: the package must be installed.\<close>

definition payment_gating :: "config \<Rightarrow> bool \<Rightarrow> bool" where
  "payment_gating cf x402_installed \<longleftrightarrow>
     is_api cf \<and> is_keeper (cf_settings cf) \<and> st_treasury (cf_settings cf) \<noteq> [] \<and> x402_installed"

definition metrics_allowed :: "config \<Rightarrow> string \<Rightarrow> bool" where
  "metrics_allowed cf authorization \<longleftrightarrow>
     (cf_metrics_bearer_token cf = [] \<or> authorization = ''Bearer '' @ cf_metrics_bearer_token cf)"

datatype app_exception =
    Postgrest_error "string option" string
  | Connect_error
  | Timeout_error
  | Rate_limited string "int option"
  | Unhandled

record app_reply =
  ar_status :: int
  ar_detail :: string
  ar_error_code :: "string option"
  ar_retry_after :: "int option"

definition pg_code_map :: "string \<Rightarrow> (int \<times> string) option" where
  "pg_code_map = map_of [
     (''23505'', (409, ''Conflict: unique constraint violation'')),
     (''23503'', (422, ''Unprocessable: foreign key violation'')),
     (''23514'', (422, ''Unprocessable: check constraint violation'')),
     (''42501'', (403, ''Forbidden: insufficient privilege''))]"

definition supabase_answer :: "string option \<Rightarrow> string \<Rightarrow> app_reply" where
  "supabase_answer code_opt message =
     (let ecode = (case code_opt of Some c \<Rightarrow> c | None \<Rightarrow> []);
          (status, detail) = (case pg_code_map ecode of
              Some x \<Rightarrow> x
            | None \<Rightarrow> if py_startswith ecode ''PGRST'' then (502, ''PostgREST error: '' @ message)
                else (500, ''Database error: '' @ message)) in
      \<lparr>ar_status = status, ar_detail = detail, ar_error_code = Some ecode, ar_retry_after = None\<rparr>)"

definition plain_answer :: "int \<Rightarrow> string \<Rightarrow> app_reply" where
  "plain_answer status detail = \<lparr>ar_status = status, ar_detail = detail, ar_error_code = None, ar_retry_after = None\<rparr>"

definition rate_limit_answer :: "string \<Rightarrow> int option \<Rightarrow> app_reply" where
  "rate_limit_answer detail retry_after = (plain_answer 429 (''Rate limit exceeded: '' @ detail))\<lparr>
     ar_retry_after := Some (case retry_after of Some n \<Rightarrow> if n = 0 then 60 else n | None \<Rightarrow> 60)\<rparr>"

definition answer_exception :: "app_exception \<Rightarrow> app_reply" where
  "answer_exception x = (case x of
      Postgrest_error c m \<Rightarrow> supabase_answer c m
    | Connect_error \<Rightarrow> plain_answer 503 ''Service temporarily unavailable''
    | Timeout_error \<Rightarrow> plain_answer 503 ''Service temporarily unavailable''
    | Rate_limited d r \<Rightarrow> rate_limit_answer d r
    | Unhandled \<Rightarrow> plain_answer 500 ''Internal server error'')"

text \<open>The key requests are counted under.\<close>

definition rate_limit_key :: "string \<Rightarrow> string \<Rightarrow> string" where
  "rate_limit_key authorization remote_address =
     (if py_startswith (py_lower authorization) ''bearer '' \<and> length authorization > 7
      then ''apikey:'' @ drop 7 authorization else remote_address)"

section \<open>Health and audit\<close>

record task_health =
  th_running :: bool
  th_last_run_at :: "rat option"
  th_error_count :: nat
  th_last_error :: "string option"

type_synonym health_registry = "(string \<times> task_health) list"

definition health_register :: "string \<Rightarrow> health_registry \<Rightarrow> health_registry" where
  "health_register name r = AList.update name
     \<lparr>th_running = True, th_last_run_at = None, th_error_count = 0, th_last_error = None\<rparr> r"

definition health_record_run :: "rat \<Rightarrow> string \<Rightarrow> health_registry \<Rightarrow> health_registry" where
  "health_record_run time name r = AList.map_entry name (\<lambda>t. t\<lparr>th_last_run_at := Some time\<rparr>) r"

definition health_record_error :: "string \<Rightarrow> string \<Rightarrow> health_registry \<Rightarrow> health_registry" where
  "health_record_error name err r =
     AList.map_entry name (\<lambda>t. t\<lparr>th_error_count := th_error_count t + 1, th_last_error := Some err\<rparr>) r"

definition round1 :: "rat \<Rightarrow> rat" where
  "round1 x = f64 (of_int (half_even (x * 10)) / 10)"

definition task_healthy :: "rat \<Rightarrow> task_health \<Rightarrow> bool" where
  "task_healthy time t = (case th_last_run_at t of
      None \<Rightarrow> False
    | Some l \<Rightarrow> \<not> round1 (f64 (time - l)) > 300)"

text \<open>The probes of \<open>/health/detailed\<close>: Supabase, the provider, Redis, the resolver, and the workers if a pool runs.\<close>

definition component_statuses :: "bool list \<Rightarrow> bool list option \<Rightarrow> rat \<Rightarrow> health_registry \<Rightarrow> string list" where
  "component_statuses probes workers time registry =
     (let st = (\<lambda>ok. if ok then ''healthy'' else ''unhealthy'') in
      map st probes @ map (\<lambda>(_, t). st (task_healthy time t)) registry @
      (case workers of None \<Rightarrow> [] | Some ws \<Rightarrow> [st (list_all (\<lambda>b. b) ws)]))"

definition overall_status :: "string list \<Rightarrow> string" where
  "overall_status statuses =
     (if list_all (\<lambda>s. s = ''healthy'') statuses then ''healthy''
      else if list_ex (\<lambda>s. s = ''unhealthy'') statuses then ''unhealthy'' else ''degraded'')"

definition health_detailed :: "bool list \<Rightarrow> bool list option \<Rightarrow> rat \<Rightarrow> health_registry \<Rightarrow> int \<times> string" where
  "health_detailed probes workers time registry =
     (let overall = overall_status (component_statuses probes workers time registry) in
      (if overall = ''healthy'' then 200 else 503, overall))"


text \<open>The \<open>$\<close> of Python's \<open>re\<close> also matches before a final newline.\<close>

definition audit_address_match :: "string \<Rightarrow> bool" where
  "audit_address_match s \<longleftrightarrow> is_eth_address s \<or> (s \<noteq> [] \<and> last s = CHR 0x0A \<and> is_eth_address (butlast s))"

definition sanitize_actor :: "string \<Rightarrow> string" where
  "sanitize_actor actor = (if actor \<in> {''unknown'', ''system''} \<or> audit_address_match actor then actor else ''invalid_actor'')"


section \<open>What runs\<close>

text \<open>The parts the settings ask for.\<close>

definition wanted :: "config \<Rightarrow> part \<Rightarrow> bool" where
  "wanted cf p = (let keeper = is_keeper (cf_settings cf) in case p of
      Pg_pool \<Rightarrow> cf_database_url cf \<noteq> []
    | Workers \<Rightarrow> is_worker cf \<and> is_pulse (cf_settings cf) \<and> cf_event_bus_enabled cf
    | Redis_dlq \<Rightarrow> is_worker cf \<and> is_pulse (cf_settings cf) \<and> cf_event_bus_enabled cf
    | Dlq_handler \<Rightarrow> is_worker cf \<and> keeper \<and> cf_dlq_enabled cf \<and> cf_convoy_api_key cf \<noteq> []
    | Finality_poller \<Rightarrow> is_worker cf \<and> keeper \<and> cf_finality_poller_enabled cf
    | Sweeper \<Rightarrow> is_worker cf \<and> keeper
    | Archiver \<Rightarrow> is_worker cf \<and> keeper)"

definition wants_sessions :: "config \<Rightarrow> bool" where
  "wants_sessions cf \<longleftrightarrow> is_api cf \<and> is_keeper (cf_settings cf) \<and> st_session_enabled (cf_settings cf)"

text \<open>
  \<open>hosts A a\<close>: exactly the parts of \<open>A\<close> run, each once; the shutdown knows them all, and it knows the pools
  only when they run.
\<close>

definition hosts :: "part set \<Rightarrow> app \<Rightarrow> bool" where
  "hosts A a \<longleftrightarrow> set (ap_running a) = A \<and> distinct (ap_running a) \<and> A \<subseteq> ap_held a \<and>
     (\<forall>p\<in>{Workers, Pg_pool}. p \<in> ap_held a \<longrightarrow> p \<in> A)"

text \<open>The parts of \<open>S\<close> that are asked for and start.\<close>

definition up :: "(part \<Rightarrow> unit result) \<Rightarrow> config \<Rightarrow> part set \<Rightarrow> part set" where
  "up starts cf S = {p \<in> S. wanted cf p \<and> starts p = Inr ()}"

lemma up_insert:
  "up starts cf (insert p S) = (if wanted cf p \<and> starts p = Inr () then insert p (up starts cf S) else up starts cf S)"
  by (auto simp: up_def)

text \<open>One start, each way it is written: assigned before, assigned after, guarded or not.\<close>

lemma start_part_hosts:
  assumes "hosts (up starts cf S) a" "p \<notin> S" "p \<notin> {Workers, Pg_pool}" "c = wanted cf p"
  obtains a' where "run (start_part starts c p) a = (if wanted cf p then starts p else Inr (), a')"
    and "hosts (up starts cf (insert p S)) a'"
    and "ap_ready a' = ap_ready a" "ap_session_manager a' = ap_session_manager a"
proof -
  have "p \<notin> up starts cf S" using assms(2) by (simp add: up_def)
  then show thesis
    using assms that by (cases "starts p") (auto simp: up_insert hosts_def start_part_def hold_def bring_up_def subset_insertI2)
qed

lemma guarded_part_hosts:
  assumes "hosts (up starts cf S) a" "p \<notin> S" "p \<notin> {Workers, Pg_pool}" "c = wanted cf p"
  obtains a' where "run (guarded (start_part starts c p)) a = (Inr (), a')"
    and "hosts (up starts cf (insert p S)) a'"
    and "ap_ready a' = ap_ready a" "ap_session_manager a' = ap_session_manager a"
proof -
  obtain a' where "run (start_part starts c p) a = (if wanted cf p then starts p else Inr (), a')"
    and "hosts (up starts cf (insert p S)) a'" "ap_ready a' = ap_ready a" "ap_session_manager a' = ap_session_manager a"
    by (rule start_part_hosts[OF assms])
  then show thesis using that by (cases "starts p") (auto simp: guarded_def)
qed

lemma guarded_pool_hosts:
  assumes "hosts (up starts cf S) a" "p \<notin> S" "c = wanted cf p"
  obtains a' where "run (ewhen c (guarded (ebind (bring_up starts p) (\<lambda>_. hold p)))) a = (Inr (), a')"
    and "hosts (up starts cf (insert p S)) a'"
    and "ap_ready a' = ap_ready a" "ap_session_manager a' = ap_session_manager a"
proof -
  have "p \<notin> up starts cf S" using assms(2) by (simp add: up_def)
  then show thesis
    using assms that by (cases "starts p") (auto simp: up_insert hosts_def guarded_def hold_def bring_up_def subset_insertI2)
qed

lemma hosts_same:
  "hosts A a \<Longrightarrow> ap_running a' = ap_running a \<Longrightarrow> ap_held a' = ap_held a \<Longrightarrow> hosts A a'"
  by (simp add: hosts_def)

lemma event_bus_hosts:
  assumes "hosts (up starts cf S) a" "Workers \<notin> S" "Redis_dlq \<notin> S" "is_worker cf"
  obtains a' where "run (start_event_bus index starts cf) a = (if wanted cf Workers then index else Inr (), a')"
    and "wanted cf Workers \<longrightarrow> index = Inr () \<Longrightarrow> hosts (up starts cf (insert Redis_dlq (insert Workers S))) a'"
    and "ap_ready a' = ap_ready a" "ap_session_manager a' = ap_session_manager a"
proof (cases "wanted cf Workers")
  case True
  let ?a = "a\<lparr>ap_trigger_index := True\<rparr>"
  have w: "wanted cf Redis_dlq" and on: "is_pulse (cf_settings cf) \<and> cf_event_bus_enabled cf"
    using True by (simp_all add: wanted_def Let_def)
  have "hosts (up starts cf S) ?a" using assms(1) by (rule hosts_same) simp_all
  then obtain b where b: "run (ewhen True (guarded (ebind (bring_up starts Workers) (\<lambda>_. hold Workers)))) ?a = (Inr (), b)"
      "hosts (up starts cf (insert Workers S)) b" "ap_ready b = ap_ready a" "ap_session_manager b = ap_session_manager a"
    using guarded_pool_hosts[of starts cf S ?a Workers True] assms(2) True by auto
  obtain c where c: "run (guarded (start_part starts True Redis_dlq)) b = (Inr (), c)"
      "hosts (up starts cf (insert Redis_dlq (insert Workers S))) c" "ap_ready c = ap_ready b" "ap_session_manager c = ap_session_manager b"
    by (rule guarded_part_hosts[OF b(2), where p = Redis_dlq and c = True]) (use assms(3) w in auto)
  have "run (start_event_bus index starts cf) a = (index, if index = Inr () then c else a)"
    using b(1) c(1) on by (cases index) (simp_all add: start_event_bus_def start_part_def ewhen_def)
  then show thesis using that[of "if index = Inr () then c else a"] b c True by simp
next
  case False
  then have "\<not> wanted cf Redis_dlq" "run (start_event_bus index starts cf) a = (Inr (), a)"
    using assms(4) by (auto simp: wanted_def Let_def start_event_bus_def)
  then show thesis using that False assms(1) by (simp add: up_insert)
qed

lemma up_unwanted: "\<forall>p\<in>T. \<not> wanted cf p \<Longrightarrow> up starts cf (T \<union> S) = up starts cf S"
  by (auto simp: up_def)

lemmas worker_part_simps = wanted_def Let_def

abbreviation "worker_parts \<equiv> {Archiver, Sweeper, Finality_poller, Dlq_handler, Redis_dlq, Workers}"

text \<open>The parts whose failure to start is not caught.\<close>

definition essential :: "part set" where
  "essential = {Dlq_handler, Finality_poller, Sweeper}"

definition all_start :: "(part \<Rightarrow> unit result) \<Rightarrow> config \<Rightarrow> part set \<Rightarrow> bool" where
  "all_start starts cf A \<longleftrightarrow> (\<forall>p\<in>A. wanted cf p \<longrightarrow> starts p = Inr ())"

lemma start_workers_hosts:
  assumes h: "hosts (up starts cf {Pg_pool}) a"
  shows "\<exists>r a'. run (start_workers index starts cf) a = (r, a') \<and>
    (r = Inr () \<longleftrightarrow> all_start starts cf essential \<and> (wanted cf Workers \<longrightarrow> index = Inr ())) \<and>
    ap_ready a' = ap_ready a \<and> ap_session_manager a' = ap_session_manager a \<and>
    (r = Inr () \<longrightarrow> hosts (up starts cf (worker_parts \<union> {Pg_pool})) a')"
proof (cases "is_worker cf")
  case False
  then have "\<forall>p\<in>worker_parts. \<not> wanted cf p" by (auto simp: worker_part_simps)
  then have "up starts cf (worker_parts \<union> {Pg_pool}) = up starts cf {Pg_pool}" "all_start starts cf essential" "\<not> wanted cf Workers"
    by (auto simp only: up_unwanted) (auto simp: all_start_def essential_def)
  then show ?thesis using False h by (simp add: start_workers_def Let_def)
next
  case True
  obtain b where b: "run (start_event_bus index starts cf) a = (if wanted cf Workers then index else Inr (), b)"
      "wanted cf Workers \<longrightarrow> index = Inr () \<Longrightarrow> hosts (up starts cf {Redis_dlq, Workers, Pg_pool}) b"
      "ap_ready b = ap_ready a" "ap_session_manager b = ap_session_manager a"
    by (rule event_bus_hosts[OF h, where index = index]) (use True in auto)
  show ?thesis
  proof (cases "wanted cf Workers \<longrightarrow> index = Inr ()")
    case ready: True
  obtain c where c: "run (start_part starts (wanted cf Dlq_handler) Dlq_handler) b =
        (if wanted cf Dlq_handler then starts Dlq_handler else Inr (), c)"
      "hosts (up starts cf {Dlq_handler, Redis_dlq, Workers, Pg_pool}) c"
      "ap_ready c = ap_ready b" "ap_session_manager c = ap_session_manager b"
    by (rule start_part_hosts[OF b(2)[OF ready], of Dlq_handler]) auto
  obtain d where d: "run (start_part starts (wanted cf Finality_poller) Finality_poller) c =
        (if wanted cf Finality_poller then starts Finality_poller else Inr (), d)"
      "hosts (up starts cf {Finality_poller, Dlq_handler, Redis_dlq, Workers, Pg_pool}) d"
      "ap_ready d = ap_ready c" "ap_session_manager d = ap_session_manager c"
    by (rule start_part_hosts[OF c(2), of Finality_poller]) auto
  obtain e where e: "run (start_part starts (wanted cf Sweeper) Sweeper) d =
        (if wanted cf Sweeper then starts Sweeper else Inr (), e)"
      "hosts (up starts cf {Sweeper, Finality_poller, Dlq_handler, Redis_dlq, Workers, Pg_pool}) e"
      "ap_ready e = ap_ready d" "ap_session_manager e = ap_session_manager d"
    by (rule start_part_hosts[OF d(2), of Sweeper]) auto
  obtain f where f: "run (guarded (start_part starts (wanted cf Archiver) Archiver)) e = (Inr (), f)"
      "hosts (up starts cf {Archiver, Sweeper, Finality_poller, Dlq_handler, Redis_dlq, Workers, Pg_pool}) f"
      "ap_ready f = ap_ready e" "ap_session_manager f = ap_session_manager e"
    by (rule guarded_part_hosts[OF e(2), of Archiver]) auto
  have seq: "start_workers index starts cf = ebind (start_event_bus index starts cf) (\<lambda>_.
       ebind (start_part starts (wanted cf Dlq_handler) Dlq_handler) (\<lambda>_.
       ebind (start_part starts (wanted cf Finality_poller) Finality_poller) (\<lambda>_.
       ebind (start_part starts (wanted cf Sweeper) Sweeper) (\<lambda>_.
         guarded (start_part starts (wanted cf Archiver) Archiver)))))"
    using True by (simp add: start_workers_def worker_part_simps ewhen_def)
  have "worker_parts \<union> {Pg_pool} = {Archiver, Sweeper, Finality_poller, Dlq_handler, Redis_dlq, Workers, Pg_pool}" by auto
  then show ?thesis
    using b(1,3,4) ready c d e f unfolding seq
    by (cases "starts Dlq_handler"; cases "starts Finality_poller"; cases "starts Sweeper")
       (auto simp: all_start_def essential_def)
  next
    case False
    then show ?thesis using b(1,3,4) True by (cases index) (auto simp: start_workers_def Let_def)
  qed
qed

lemma UNIV_part: "(UNIV :: part set) = worker_parts \<union> {Pg_pool}"
proof (intro set_eqI iffI UNIV_I)
  fix p :: part show "p \<in> worker_parts \<union> {Pg_pool}" by (cases p) simp_all
qed

definition boots :: "boot \<Rightarrow> config \<Rightarrow> bool" where
  "boots bo cf \<longleftrightarrow> bo_supabase bo = Inr () \<and> bo_shared bo = Inr () \<and> (wanted cf Workers \<longrightarrow> bo_index bo = Inr ()) \<and>
     all_start (bo_starts bo) cf essential \<and> (wants_sessions cf \<longrightarrow> bo_scripts bo = Inr ())"

lemma app_startup_hosts:
  shows "\<exists>r a. run (app_startup bo cf) fresh_app = (r, a) \<and> (r = Inr () \<longleftrightarrow> boots bo cf) \<and> (ap_ready a \<longleftrightarrow> r = Inr ()) \<and>
    (r = Inr () \<longrightarrow> hosts (up (bo_starts bo) cf UNIV) a \<and> (ap_session_manager a \<longleftrightarrow> wants_sessions cf))"
proof (cases "bo_supabase bo")
  case (Inr u)
  let ?starts = "bo_starts bo"
  have "hosts (up ?starts cf {}) fresh_app" by (simp add: hosts_def up_def fresh_app_def)
  then obtain a where a: "run (ewhen (cf_database_url cf \<noteq> []) (guarded (ebind (bring_up ?starts Pg_pool) (\<lambda>_. hold Pg_pool)))) fresh_app = (Inr (), a)"
      "hosts (up ?starts cf {Pg_pool}) a" "\<not> ap_ready a" "\<not> ap_session_manager a"
    by (rule guarded_pool_hosts[where p = Pg_pool]) (auto simp: worker_part_simps fresh_app_def)
  from start_workers_hosts[OF a(2), of "bo_index bo"] obtain r b where b: "run (start_workers (bo_index bo) ?starts cf) a = (r, b)"
      "r = Inr () \<longleftrightarrow> all_start ?starts cf essential \<and> (wanted cf Workers \<longrightarrow> bo_index bo = Inr ())"
      "\<not> ap_ready b" "\<not> ap_session_manager b" "r = Inr () \<longrightarrow> hosts (up ?starts cf UNIV) b"
    using a(3,4) unfolding UNIV_part by auto
  from b(5) have "r = Inr () \<longrightarrow> hosts (up ?starts cf UNIV) (b\<lparr>ap_session_manager := x, ap_ready := y\<rparr>)" for x y
    by (auto intro: hosts_same)
  moreover have "r = Inr () \<longrightarrow> hosts (up ?starts cf UNIV) (b\<lparr>ap_ready := True\<rparr>)"
    using b(5) by (auto intro: hosts_same)
  ultimately show ?thesis
    using a b(1-4) Inr unfolding app_startup_def start_sessions_def wants_sessions_def boots_def
    by (cases "bo_shared bo"; cases r; cases "bo_scripts bo") (simp_all, blast?)
qed (simp add: app_startup_def boots_def fresh_app_def)



definition demo_config :: config where
  "demo_config = \<lparr>cf_settings = default_settings, cf_role = ''all'', cf_database_url = ''postgres'',
     cf_event_bus_enabled = True, cf_dlq_enabled = True, cf_convoy_api_key = ''key'', cf_finality_poller_enabled = True,
     cf_goldsky_secret = ''secret'', cf_facilitator_secret = ''secret'', cf_metrics_bearer_token = []\<rparr>"

definition archiver_down :: boot where
  "archiver_down = \<lparr>bo_supabase = Inr (), bo_shared = Inr (), bo_index = Inr (), bo_scripts = Inr (),
     bo_starts = (\<lambda>p. if p = Archiver then Inl ValueError else Inr ())\<rparr>"

lemma archiver_down_boots: "\<exists>a. run (app_startup archiver_down cf) fresh_app = (Inr (), a)"
proof -
  have "boots archiver_down cf" by (simp add: boots_def archiver_down_def all_start_def essential_def)
  then show ?thesis using app_startup_hosts[of archiver_down cf] by auto
qed


section \<open>The bus in a split deployment\<close>

text \<open>What the ingestion routes see of the settings and of \<open>app.state\<close>.\<close>

definition deployed_ingest :: "config \<Rightarrow> app \<Rightarrow> ingest_config" where
  "deployed_ingest cf a = \<lparr>ic_goldsky_secret = cf_goldsky_secret cf, ic_facilitator_secret = cf_facilitator_secret cf,
     ic_event_bus_enabled = cf_event_bus_enabled cf, ic_worker_pool = Workers \<in> ap_held a\<rparr>"

text \<open>
  Logs that are received are put on the event bus only by a process that both serves the routes and
  runs the workers: role \<open>all\<close>, with pulse and the bus switched on and a pool that started. In the split
  deployment (\<open>api\<close> and \<open>worker\<close>) no process ever publishes, so the workers consume nothing.
\<close>

theorem bus_needs_one_process:
  assumes "validate_process_role (cf_role cf) = Inr role"
    and "run (app_startup bo cf) fresh_app = (Inr (), a)"
  shows "''ingest'' \<in> set (routers cf) \<and> use_bus (deployed_ingest cf a) \<longleftrightarrow>
    role = ''all'' \<and> is_pulse (cf_settings cf) \<and> cf_event_bus_enabled cf \<and> bo_starts bo Workers = Inr ()"
proof -
  have "hosts (up (bo_starts bo) cf UNIV) a" using app_startup_hosts[of bo cf] assms(2) by auto
  then have "Workers \<in> ap_held a \<longleftrightarrow> wanted cf Workers \<and> bo_starts bo Workers = Inr ()"
    by (auto simp: hosts_def up_def)
  moreover have "''ingest'' \<in> set (routers cf) \<longleftrightarrow> is_api cf" by (simp add: routers_def Let_def)
  ultimately show ?thesis
    using assms(1)
    by (auto simp: use_bus_def deployed_ingest_def worker_part_simps is_api_def is_worker_def validate_process_role_def
        split: if_splits)
qed

theorem bus_needs_one_process_witness:
  "\<exists>a. run (app_startup archiver_down (demo_config\<lparr>cf_role := ''api''\<rparr>)) fresh_app = (Inr (), a) \<and>
     ''ingest'' \<in> set (routers (demo_config\<lparr>cf_role := ''api''\<rparr>)) \<and>
     \<not> use_bus (deployed_ingest (demo_config\<lparr>cf_role := ''api''\<rparr>) a)"
proof -
  let ?cf = "demo_config\<lparr>cf_role := ''api''\<rparr>"
  obtain a where a: "run (app_startup archiver_down ?cf) fresh_app = (Inr (), a)" using archiver_down_boots by blast
  have role: "validate_process_role (cf_role ?cf) = Inr ''api''" by code_simp
  have "''ingest'' \<in> set (routers ?cf)" by code_simp
  with a bus_needs_one_process[OF role a] show ?thesis by auto
qed

section \<open>What the health report says\<close>

lemma register_unhealthy: "(name, \<lparr>th_running = True, th_last_run_at = None, th_error_count = 0, th_last_error = None\<rparr>)
    \<in> set (health_register name r)"
  by (simp add: health_register_def map_of_SomeD update_conv')

definition verdicts :: "bool list \<Rightarrow> bool list option \<Rightarrow> rat \<Rightarrow> health_registry \<Rightarrow> bool list" where
  "verdicts probes workers time registry = probes @ map (\<lambda>(_, t). task_healthy time t) registry @
     (case workers of None \<Rightarrow> [] | Some ws \<Rightarrow> [list_all (\<lambda>b. b) ws])"

lemma component_statuses_verdicts:
  "component_statuses probes workers time registry =
     map (\<lambda>ok. if ok then ''healthy'' else ''unhealthy'') (verdicts probes workers time registry)"
  by (simp add: component_statuses_def verdicts_def Let_def case_prod_beta split: option.split)

lemma overall_status_verdicts:
  "overall_status (map (\<lambda>ok. if ok then ''healthy'' else ''unhealthy'') vs) =
     (if list_all (\<lambda>b. b) vs then ''healthy'' else ''unhealthy'')"
proof -
  let ?st = "\<lambda>ok. if ok then ''healthy'' else ''unhealthy''"
  have "list_all (\<lambda>s. s = ''healthy'') (map ?st vs) = list_all (\<lambda>b. b) vs" by (induction vs) simp_all
  moreover have "list_ex (\<lambda>s. s = ''unhealthy'') (map ?st vs) = (\<not> list_all (\<lambda>b. b) vs)" by (induction vs) simp_all
  ultimately show ?thesis by (simp add: overall_status_def)
qed

lemma verdicts_ok:
  "list_all (\<lambda>b. b) (verdicts probes workers time registry) \<longleftrightarrow>
     list_all (\<lambda>b. b) probes \<and> list_all (\<lambda>(_, t). task_healthy time t) registry \<and>
     (case workers of None \<Rightarrow> True | Some ws \<Rightarrow> list_all (\<lambda>b. b) ws)"
  by (auto simp: verdicts_def list_all_iff split: option.splits)

text \<open>
  The detailed health report is 200 exactly when every probe succeeds, every background task recorded a
  run at most 300 seconds ago (rounded to one decimal) and every worker of the pool runs; in every other case it
  is 503 and \<open>unhealthy\<close>, so \<open>degraded\<close> is never reported. A task that has just registered and not yet
  completed a run, a task of a restarted part included, makes it 503.
\<close>

theorem health_report_exact:
  "health_detailed probes workers time registry =
     (if list_all (\<lambda>b. b) probes \<and> list_all (\<lambda>(_, t). task_healthy time t) registry \<and>
         (case workers of None \<Rightarrow> True | Some ws \<Rightarrow> list_all (\<lambda>b. b) ws)
      then (200, ''healthy'') else (503, ''unhealthy'')) \<and>
   health_detailed probes workers time (health_register name registry) = (503, ''unhealthy'')"
proof -
  have "\<not> list_all (\<lambda>(_, t). task_healthy time t) (health_register name registry)"
    using register_unhealthy[of name registry] by (force simp: list_all_iff task_healthy_def)
  then show ?thesis
    by (simp add: health_detailed_def component_statuses_verdicts overall_status_verdicts verdicts_ok)
qed

section \<open>Rate limits\<close>

text \<open>
  Requests are counted under the unverified bearer token when one is sent: two different tokens are
  never counted together, whoever sends them, so a client gets a fresh allowance with every token it makes up;
  without a token a client is counted under its address.
\<close>

theorem rate_limit_by_unverified_token:
  assumes "t1 \<noteq> []" "t2 \<noteq> []"
  shows "(rate_limit_key (''Bearer '' @ t1) ip1 = rate_limit_key (''Bearer '' @ t2) ip2 \<longleftrightarrow> t1 = t2) \<and>
    rate_limit_key [] ip1 = ip1"
proof -
  have "rate_limit_key (''Bearer '' @ t) ip = ''apikey:'' @ t" if "t \<noteq> []" for t ip
  proof -
    have "py_lower ''Bearer '' = ''bearer ''" by code_simp
    then have "py_startswith (py_lower (''Bearer '' @ t)) ''bearer ''"
      unfolding py_lower_def map_append py_startswith_def by (simp del: map_append list.map)
    then show ?thesis using that by (simp add: rate_limit_key_def)
  qed
  moreover have "rate_limit_key [] ip1 = ip1"
    by (simp add: rate_limit_key_def py_lower_def py_startswith_def)
  ultimately show ?thesis using assms by simp
qed

theorem rate_limit_by_unverified_token_witness:
  "rate_limit_key (''Bearer '' @ ''a'') ''10.0.0.1'' \<noteq> rate_limit_key (''Bearer '' @ ''b'') ''10.0.0.1''"
  using rate_limit_by_unverified_token[of "''a''" "''b''" "''10.0.0.1''" "''10.0.0.1''"] by simp

end
