(* ===== verification/Worker_Pool.thy ===== *)
theory Worker_Pool
  imports Worker_Props Trigger_Store "HOL-Library.List_Lexorder" "HOL-Library.Char_ord"
begin

text \<open>
  \<open>WorkerPool\<close> of \<open>ingestion/trigger_worker.py\<close>: the streams found at start-up, their partition, the discovery
  loop, and crashed workers. The tasks of the event loop are the steps of \<open>pool_step\<close>; ending them
  with a timeout at the stop is left out.
\<close>

section \<open>The pool\<close>

record pool =
  pl_workers :: "worker list"
  pl_known_streams :: "string set"
  pl_stopping :: bool
  pl_restart_state :: "nat \<Rightarrow> (int \<times> rat) option"

definition fresh_worker :: "nat \<Rightarrow> string list \<Rightarrow> worker" where
  "fresh_worker i keys = \<lparr>wk_id = ''worker-'' @ nat_str i, wk_stream_keys = keys, wk_processed = 0, wk_errors = 0,
     wk_failure_counts = (\<lambda>_. None)\<rparr>"

text \<open>The streams to start with: \<open>scanned\<close> is the answer of Redis, \<open>topics\<close> are the keys of the trigger index.\<close>

definition start_streams :: "string list result \<Rightarrow> string list \<Rightarrow> string list" where
  "start_streams scanned topics =
     (let found = (case scanned of Inr ks \<Rightarrow> ks | Inl _ \<Rightarrow> []);
          stream_list = sort (remdups (found @ map (\<lambda>t. STREAM_PREFIX @ t) topics));
          stream_list = (if stream_list = [] then [STREAM_PREFIX @ ''default''] else stream_list) in
      if length stream_list > MAX_STREAMS then take MAX_STREAMS stream_list else stream_list)"

definition pool_start :: "nat \<Rightarrow> string list result \<Rightarrow> string list \<Rightarrow> pool result" where
  "pool_start num_workers scanned topics =
     (let stream_list = start_streams scanned topics in
      if num_workers = 0 then Inl (ExternalError ''ZeroDivisionError'')
      else Inr \<lparr>pl_workers = map2 fresh_worker [0..<num_workers] (partition_streams num_workers stream_list),
        pl_known_streams = set stream_list, pl_stopping = False, pl_restart_state = (\<lambda>_. None)\<rparr>)"

text \<open>One pass of the discovery loop; a failed scan changes nothing.\<close>

definition pool_scan :: "string list result \<Rightarrow> pool \<Rightarrow> pool" where
  "pool_scan scanned pl = (case scanned of
      Inl _ \<Rightarrow> pl
    | Inr current \<Rightarrow>
        let new_streams = sort (remdups (filter (\<lambda>k. k \<notin> pl_known_streams pl) current));
            (known, ws) = discover new_streams (pl_known_streams pl) (pl_workers pl) in
        pl\<lparr>pl_known_streams := known, pl_workers := ws\<rparr>)"

text \<open>A crashed worker: the delay after which it is started again, with the streams it has.\<close>

definition pool_worker_crashed :: "nat \<Rightarrow> rat \<Rightarrow> pool \<Rightarrow> rat option \<times> pool" where
  "pool_worker_crashed idx time pl =
     (if pl_stopping pl then (None, pl)
      else let (restart_count, last_restart) = (case pl_restart_state pl idx of Some s \<Rightarrow> s | None \<Rightarrow> (0, 0));
               (n, delay) = restart_delay restart_count last_restart time in
           (Some delay, pl\<lparr>pl_restart_state := (pl_restart_state pl)(idx \<mapsto> (n, time))\<rparr>))"

definition pool_stop :: "pool \<Rightarrow> pool" where
  "pool_stop pl = pl\<lparr>pl_stopping := True\<rparr>"

section \<open>Runs of the pool\<close>

text \<open>A scan, a crash, the stop, or a round of one of the workers on the bus.\<close>

inductive pool_step :: "pool \<Rightarrow> pool \<Rightarrow> bool" where
  scan: "pool_step pl (pool_scan scanned pl)"
| crash: "pool_step pl (snd (pool_worker_crashed idx time pl))"
| stop: "pool_step pl (pool_stop pl)"
| round: "i < length (pl_workers pl) \<Longrightarrow> run (worker_round env process iteration (pl_workers pl ! i)) b = (Inr wk, b') \<Longrightarrow>
    pool_step pl (pl\<lparr>pl_workers := (pl_workers pl)[i := wk]\<rparr>)"

inductive pool_reachable :: "nat \<Rightarrow> pool \<Rightarrow> bool" for n where
  started: "pool_start n scanned topics = Inr pl \<Longrightarrow> pool_reachable n pl"
| stepped: "pool_reachable n pl \<Longrightarrow> pool_step pl pl' \<Longrightarrow> pool_reachable n pl'"

definition streams_of :: "worker list \<Rightarrow> string list" where
  "streams_of ws = concat (map wk_stream_keys ws)"

text \<open>Every known stream has at most one worker; with enough workers it has one.\<close>

definition pool_wf :: "nat \<Rightarrow> string set \<Rightarrow> worker list \<Rightarrow> bool" where
  "pool_wf n known ws \<longleftrightarrow> length ws = n \<and> distinct (streams_of ws) \<and> set (streams_of ws) \<subseteq> known \<and> finite known \<and>
     card known \<le> MAX_STREAMS \<and> (MAX_STREAMS \<le> n * MAX_STREAMS_PER_WORKER \<longrightarrow> known \<subseteq> set (streams_of ws))"

subsection \<open>Start\<close>

lemma start_streams_wf:
  "distinct (start_streams scanned topics) \<and> length (start_streams scanned topics) \<le> MAX_STREAMS \<and>
   start_streams scanned topics \<noteq> []"
  by (auto simp: start_streams_def Let_def distinct_take MAX_STREAMS_def split: sum.split)

lemma streams_of_map2:
  "length ks = length is \<Longrightarrow> streams_of (map2 fresh_worker is ks) = concat ks"
  by (induction "is" ks rule: list_induct2') (simp_all add: streams_of_def fresh_worker_def)

lemma pool_start_wf:
  assumes "pool_start n scanned topics = Inr pl"
  shows "pool_wf n (pl_known_streams pl) (pl_workers pl)"
proof -
  let ?ks = "start_streams scanned topics"
  have n: "0 < n" and pl: "pl_known_streams pl = set ?ks"
      "pl_workers pl = map2 fresh_worker [0..<n] (partition_streams n ?ks)"
    using assms by (auto simp: pool_start_def Let_def split: if_splits)
  have m: "mset (concat (partition_streams n ?ks)) = mset ?ks" and l: "length (partition_streams n ?ks) = n"
    using partition_exact_and_balanced[OF n] by auto
  have "distinct (concat (partition_streams n ?ks))" "set (concat (partition_streams n ?ks)) = set ?ks"
    using mset_eq_imp_distinct_iff[OF m] mset_eq_setD[OF m] start_streams_wf by auto
  then show ?thesis
    using l start_streams_wf[of scanned topics]
    by (simp add: pool_wf_def pl streams_of_map2 distinct_card)
qed

subsection \<open>Discovery\<close>

lemma assign_first_streams:
  "(\<exists>w \<in> set ws. length (wk_stream_keys w) = m) \<Longrightarrow>
   mset (streams_of (assign_first m key ws)) = add_mset key (mset (streams_of ws)) \<and> length (assign_first m key ws) = length ws"
  by (induction ws) (auto simp: streams_of_def)

lemma add_stream_streams:
  "add_stream key ws = ws \<and> length ws * MAX_STREAMS_PER_WORKER \<le> length (streams_of ws) \<or>
   mset (streams_of (add_stream key ws)) = add_mset key (mset (streams_of ws)) \<and> length (add_stream key ws) = length ws"
proof (cases "least_loaded ws")
  case (Some w)
  note min = least_loaded_min[OF Some]
  show ?thesis
  proof (cases "MAX_STREAMS_PER_WORKER \<le> length (wk_stream_keys w)")
    case True
    then have "\<forall>v \<in> set ws. MAX_STREAMS_PER_WORKER \<le> length (wk_stream_keys v)" using min by fastforce
    then have "length ws * MAX_STREAMS_PER_WORKER \<le> length (streams_of ws)"
      by (induction ws) (auto simp: streams_of_def)
    then show ?thesis using True Some by (simp add: add_stream_def)
  next
    case False
    then show ?thesis using assign_first_streams[of ws "length (wk_stream_keys w)" key] min Some by (auto simp: add_stream_def)
  qed
qed (simp add: streams_of_def add_stream_def)

lemma add_stream_wf:
  assumes wf: "pool_wf n known ws" and "key \<notin> known" "card known < MAX_STREAMS"
  shows "pool_wf n (insert key known) (add_stream key ws)"
proof -
  have card: "card (insert key known) \<le> MAX_STREAMS" using assms by (simp add: pool_wf_def)
  have short: "length (streams_of ws) < MAX_STREAMS"
    using wf assms(3) card_mono[of known "set (streams_of ws)"] by (simp add: pool_wf_def distinct_card)
  from add_stream_streams[of key ws] show ?thesis
  proof (elim disjE conjE)
    assume "add_stream key ws = ws" "length ws * MAX_STREAMS_PER_WORKER \<le> length (streams_of ws)"
    then show ?thesis using wf card short by (auto simp: pool_wf_def)
  next
    assume m: "mset (streams_of (add_stream key ws)) = add_mset key (mset (streams_of ws))" "length (add_stream key ws) = length ws"
    then have "mset (streams_of (add_stream key ws)) = mset (key # streams_of ws)" by simp
    note s = mset_eq_imp_distinct_iff[OF this] mset_eq_setD[OF this]
    show ?thesis using wf m(2) s card assms(2) by (auto simp: pool_wf_def)
  qed
qed

lemma discover_wf:
  assumes "pool_wf n known ws" "distinct ks" "set ks \<inter> known = {}"
  shows "pool_wf n (fst (discover ks known ws)) (snd (discover ks known ws))"
  using assms
proof (induction ks arbitrary: known ws)
  case (Cons k ks)
  then show ?case using add_stream_wf[of n known ws k] by simp
qed simp

lemma pool_scan_wf:
  assumes "pool_wf n (pl_known_streams pl) (pl_workers pl)"
  shows "pool_wf n (pl_known_streams (pool_scan scanned pl)) (pl_workers (pool_scan scanned pl))"
proof (cases scanned)
  case (Inr current)
  have "set (sort (remdups (filter (\<lambda>k. k \<notin> pl_known_streams pl) current))) \<inter> pl_known_streams pl = {}" by auto
  then show ?thesis using discover_wf[OF assms] Inr by (simp add: pool_scan_def Let_def case_prod_beta)
qed (use assms in \<open>simp add: pool_scan_def\<close>)

subsection \<open>Rounds\<close>

lemma handle_message_streams:
  assumes "run (handle_message env process wk m) b = (Inr (wk', ack), b')"
  shows "wk_stream_keys wk' = wk_stream_keys wk"
  using assms by (cases m) (auto simp: handle_message_def Let_def split: prod.splits sum.splits if_splits)

lemma handle_messages_streams:
  "run (handle_messages env process wk ms) b = (Inr (wk', acks), b') \<Longrightarrow> wk_stream_keys wk' = wk_stream_keys wk"
proof (induction env process wk ms arbitrary: b acks rule: handle_messages.induct)
  case (2 env process wk m ms)
  then show ?case using handle_message_streams[of env process wk m b] by (auto split: prod.splits sum.splits)
qed simp

lemma worker_round_streams:
  assumes "run (worker_round env process iteration wk) b = (Inr wk', b')"
  shows "wk_stream_keys wk' = wk_stream_keys wk"
  using assms
  by (auto simp: worker_round_def read_round_def cleanup_failure_counts_def dest!: handle_messages_streams split: prod.splits sum.splits if_splits)

lemma round_wf:
  assumes "pool_wf n known ws" "i < length ws" "wk_stream_keys wk = wk_stream_keys (ws ! i)"
  shows "pool_wf n known (ws[i := wk])"
proof -
  have "map wk_stream_keys (ws[i := wk]) = map wk_stream_keys ws"
    using assms(2,3) by (metis list_update_id map_update nth_map)
  then show ?thesis using assms(1) by (simp add: pool_wf_def streams_of_def)
qed

section \<open>Each stream has one worker\<close>

text \<open>
  C31. In every state the pool can reach, no stream is read by two workers (or twice by one); every stream
  that is read is known, and at most \<open>MAX_STREAMS\<close> are. With five workers or more the limit per worker cannot be hit and
  every known stream is read; with fewer, as with the default of three, streams can be dropped.
\<close>

theorem pool_streams_exclusive:
  assumes "pool_reachable n pl"
  shows "length (pl_workers pl) = n \<and> distinct (concat (map wk_stream_keys (pl_workers pl))) \<and>
    set (concat (map wk_stream_keys (pl_workers pl))) \<subseteq> pl_known_streams pl \<and> card (pl_known_streams pl) \<le> MAX_STREAMS \<and>
    (5 \<le> n \<longrightarrow> (\<forall>k \<in> pl_known_streams pl. \<exists>i < n. k \<in> set (wk_stream_keys (pl_workers pl ! i))))"
proof -
  have "pool_wf n (pl_known_streams pl) (pl_workers pl)"
    using assms
  proof induction
    case (stepped pl pl')
    from stepped.hyps(2) stepped.IH show ?case
    proof cases
      case (round i env process iteration b wk b')
      then show ?thesis using stepped.IH by (auto intro!: round_wf dest: worker_round_streams)
    qed (auto simp: pool_scan_wf pool_worker_crashed_def pool_stop_def Let_def case_prod_beta)
  qed (rule pool_start_wf)
  then show ?thesis
    by (auto simp: pool_wf_def streams_of_def MAX_STREAMS_def MAX_STREAMS_PER_WORKER_def set_conv_nth[of "pl_workers pl"])
qed

theorem pool_streams_exclusive_witness:
  "\<exists>pl. pool_reachable 5 pl \<and> STREAM_PREFIX @ ''0xaa'' \<in> pl_known_streams pl \<and>
     (\<exists>i < 5. STREAM_PREFIX @ ''0xaa'' \<in> set (wk_stream_keys (pl_workers pl ! i)))"
proof -
  obtain pl where pl: "pool_start 5 (Inl RuntimeError) [''0xaa''] = Inr pl" "STREAM_PREFIX @ ''0xaa'' \<in> pl_known_streams pl"
    by (auto simp: pool_start_def start_streams_def Let_def MAX_STREAMS_def)
  then have "pool_reachable 5 pl" by (blast intro: started)
  then show ?thesis using pool_streams_exclusive[of 5 pl] pl(2) by auto
qed

end
