(* ===== verification/Pipeline.thy ===== *)
theory Pipeline
  imports Ingest_Routes
begin

text \<open>
  \<open>ingestion/pipeline.py\<close>: the Goldsky pipeline that posts the decoded payments to the ingestion route, and its
  deployment through the \<open>goldsky\<close> command line tool. The tool, the YAML printer and the name of the temporary
  file are the services \<open>pipeline_env\<close>.
\<close>

section \<open>The configuration\<close>

definition AUTHORIZATION_USED_ABI :: string where
  "AUTHORIZATION_USED_ABI = ''event AuthorizationUsed(address indexed authorizer, bytes32 indexed nonce)''"

definition TRANSFER_ABI :: string where
  "TRANSFER_ABI = ''event Transfer(address indexed from, address indexed to, uint256 value)''"

definition DATASET_NAMES :: "ChainId \<Rightarrow> string" where
  "DATASET_NAMES c = (case c of ETHEREUM \<Rightarrow> ''ethereum.raw_logs'' | BASE \<Rightarrow> ''base.raw_logs'' | ARBITRUM \<Rightarrow> ''arbitrum.raw_logs'')"

definition gs_log_decode :: "string \<Rightarrow> string \<Rightarrow> string" where
  "gs_log_decode abi table =
     ''_gs_log_decode('' @ [CHR 0x27] @ abi @ [CHR 0x27] @ '', '' @ table @ ''.topics, '' @ table @ ''.data)''"

definition transform_sql :: "ChainId \<Rightarrow> string" where
  "transform_sql chain_id =
     ''SELECT '' @ ''auth.id, '' @ ''auth.block_number, '' @ ''auth.block_hash, '' @ ''auth.transaction_hash, '' @
     ''auth.log_index, '' @ ''auth.block_timestamp, '' @ ''auth.address, '' @
     int_str (chain_value chain_id) @ '' AS chain_id, '' @
     gs_log_decode AUTHORIZATION_USED_ABI ''auth'' @ '' AS decoded, '' @
     gs_log_decode TRANSFER_ABI ''xfer'' @ ''.'' @ [CHR 0x22] @ ''from'' @ [CHR 0x22] @ '' AS from_address, '' @
     gs_log_decode TRANSFER_ABI ''xfer'' @ ''.to AS to_address, '' @
     gs_log_decode TRANSFER_ABI ''xfer'' @ '' AS transfer '' @
     ''FROM '' @ CHAIN_NAMES chain_id @ ''_logs AS auth '' @
     ''INNER JOIN '' @ CHAIN_NAMES chain_id @ ''_logs AS xfer '' @
     ''ON auth.transaction_hash = xfer.transaction_hash '' @
     ''AND auth.address = xfer.address '' @
     ''WHERE auth.address = '' @ [CHR 0x27] @ py_lower (USDC_CONTRACTS chain_id) @ [CHR 0x27] @
     '' AND auth.topic0 = '' @ [CHR 0x27] @ AUTHORIZATION_USED_TOPIC @ [CHR 0x27] @
     '' AND xfer.topic0 = '' @ [CHR 0x27] @ TRANSFER_TOPIC @ [CHR 0x27]"

record completed =
  cp_returncode :: int
  cp_stdout :: string
  cp_stderr :: string

record pipeline_env =
  pe_app_base_url :: string
  pe_goldsky_webhook_secret :: string
  pe_goldsky_api_key :: string
  pe_goldsky_project_id :: string
  pe_yaml :: "pyval \<Rightarrow> string"
  pe_run :: "(string \<Rightarrow> string option) \<Rightarrow> string list \<Rightarrow> completed result"
  pe_temp_path :: "string \<Rightarrow> string"

definition pipeline_name :: "ChainId \<Rightarrow> string" where
  "pipeline_name chain_id = ''tripwire-'' @ CHAIN_NAMES chain_id @ ''-erc3009''"

definition sink_headers :: "pipeline_env \<Rightarrow> (string \<times> string) list" where
  "sink_headers pe = [(''Authorization'', ''Bearer '' @ pe_goldsky_webhook_secret pe), (''Content-Type'', ''application/json'')]"

definition build_pipeline_config :: "pipeline_env \<Rightarrow> ChainId \<Rightarrow> pydict" where
  "build_pipeline_config pe chain_id = [
     (''version'', PyStr ''1''),
     (''name'', PyStr (pipeline_name chain_id)),
     (''sources'', PyDict [(CHAIN_NAMES chain_id @ ''_logs'', PyDict [
        (''type'', PyStr ''dataset''), (''dataset_name'', PyStr (DATASET_NAMES chain_id)), (''version'', PyStr ''1.0.0'')])]),
     (''transforms'', PyDict [(''erc3009_decoded'', PyDict [
        (''primary_key'', PyStr ''id''), (''sql'', PyStr (transform_sql chain_id))])]),
     (''sinks'', PyDict [(''tripwire_webhook'', PyDict [
        (''type'', PyStr ''webhook''), (''from'', PyStr ''erc3009_decoded''),
        (''url'', PyStr (pe_app_base_url pe @ ''/api/v1/ingest/goldsky'')),
        (''one_row_per_request'', PyBool True),
        (''headers'', PyDict (map (\<lambda>(k, v). (k, PyStr v)) (sink_headers pe)))])])]"

definition build_pipeline_yaml :: "pipeline_env \<Rightarrow> ChainId \<Rightarrow> string" where
  "build_pipeline_yaml pe chain_id = pe_yaml pe (PyDict (build_pipeline_config pe chain_id))"

definition build_all_pipeline_configs :: "pipeline_env \<Rightarrow> (ChainId \<times> pydict) list" where
  "build_all_pipeline_configs pe = map (\<lambda>c. (c, build_pipeline_config pe c)) [ETHEREUM, BASE, ARBITRUM]"

section \<open>Deployment\<close>

text \<open>The state: the files that exist.\<close>

type_synonym 'a deploy = "(string \<Rightarrow> string option, 'a) act"

definition run_goldsky :: "pipeline_env \<Rightarrow> string list \<Rightarrow> completed deploy" where
  "run_goldsky pe args =
     (let cmd = ''goldsky'' # args @
        (if pe_goldsky_api_key pe \<noteq> [] then [''--api-key'', pe_goldsky_api_key pe] else []) @
        (if pe_goldsky_project_id pe \<noteq> [] then [''--project-id'', pe_goldsky_project_id pe] else []) in
      ebind (egets (\<lambda>fs. pe_run pe fs cmd)) elift)"

definition unlink :: "string \<Rightarrow> unit deploy" where
  "unlink path = emodify (\<lambda>fs. fs(path := None))"

definition deploy_pipeline :: "pipeline_env \<Rightarrow> ChainId \<Rightarrow> string deploy" where
  "deploy_pipeline pe chain_id =
     (let config_yaml = build_pipeline_yaml pe chain_id;
          config_path = pe_temp_path pe (CHAIN_NAMES chain_id) in
      ebind (emodify (\<lambda>fs. fs(config_path \<mapsto> config_yaml))) (\<lambda>_.
      ebind (etry (ebind (run_goldsky pe [''turbo'', ''apply'', config_path]) (\<lambda>r.
               if cp_returncode r \<noteq> 0 then eraise RuntimeError else eret (cp_stdout r)))) (\<lambda>r.
      ebind (unlink config_path) (\<lambda>_. elift r))))"

definition get_pipeline_status :: "pipeline_env \<Rightarrow> ChainId \<Rightarrow> string deploy" where
  "get_pipeline_status pe chain_id = ebind (run_goldsky pe [''turbo'', ''status'', pipeline_name chain_id]) (\<lambda>r.
     eret (if cp_returncode r = 0 then cp_stdout r else cp_stderr r))"

definition change_pipeline :: "string \<Rightarrow> pipeline_env \<Rightarrow> ChainId \<Rightarrow> string deploy" where
  "change_pipeline verb pe chain_id = ebind (run_goldsky pe [''turbo'', verb, pipeline_name chain_id]) (\<lambda>r.
     if cp_returncode r \<noteq> 0 then eraise RuntimeError else eret (cp_stdout r))"

definition stop_pipeline :: "pipeline_env \<Rightarrow> ChainId \<Rightarrow> string deploy" where
  "stop_pipeline = change_pipeline ''stop''"

definition start_pipeline :: "pipeline_env \<Rightarrow> ChainId \<Rightarrow> string deploy" where
  "start_pipeline = change_pipeline ''start''"

section \<open>What the pipeline posts is accepted\<close>

text \<open>A request with the headers that the configuration puts on the posts of the pipeline.\<close>

definition posts_as :: "pipeline_env \<Rightarrow> ChainId \<Rightarrow> Request \<Rightarrow> bool" where
  "posts_as pe chain_id request \<longleftrightarrow> (\<exists>sinks sink hs.
     map_of (build_pipeline_config pe chain_id) ''sinks'' = Some (PyDict sinks) \<and>
     map_of sinks ''tripwire_webhook'' = Some (PyDict sink) \<and> map_of sink ''headers'' = Some (PyDict hs) \<and>
     (\<forall>k v. map_of hs k = Some (PyStr v) \<longrightarrow> rq_header request k = Some v))"

text \<open>
  The pipeline of every chain authenticates itself: with the same ASCII secret on both sides, a request
  with the headers of the deployed configuration passes the check of the ingestion routes.
\<close>

theorem pipeline_posts_accepted:
  assumes "posts_as pe chain_id request" and "pe_goldsky_webhook_secret pe = ic_goldsky_secret cfg"
    and "ic_goldsky_secret cfg \<noteq> []" and "is_ascii (ic_goldsky_secret cfg)"
  shows "verify_goldsky_request env cfg request = Inr ()"
proof -
  have "rq_header request ''Authorization'' = Some (''Bearer '' @ ic_goldsky_secret cfg)"
    using assms(1,2) by (auto simp: posts_as_def build_pipeline_config_def sink_headers_def)
  moreover have "is_ascii (''Bearer '' @ ic_goldsky_secret cfg)"
    using assms(4) by (simp add: is_ascii_def code_def)
  ultimately show ?thesis
    using assms(3) by (simp add: verify_goldsky_request_def bearer_check_Inr header_def)
qed

text \<open>
  Deploying returns the output of the tool exactly when the tool ends with code 0, raises otherwise, and in
  both cases removes the file with the secret in it again.
\<close>

theorem deploy_leaves_no_file:
  "\<exists>r. run (deploy_pipeline pe chain_id) fs = (r, fs(pe_temp_path pe (CHAIN_NAMES chain_id) := None)) \<and>
     (\<forall>out. r = Inr out \<longleftrightarrow> (\<exists>c. run (run_goldsky pe [''turbo'', ''apply'', pe_temp_path pe (CHAIN_NAMES chain_id)])
          (fs(pe_temp_path pe (CHAIN_NAMES chain_id) \<mapsto> build_pipeline_yaml pe chain_id)) =
          (Inr c, fs(pe_temp_path pe (CHAIN_NAMES chain_id) \<mapsto> build_pipeline_yaml pe chain_id)) \<and>
        cp_returncode c = 0 \<and> out = cp_stdout c))"
  by (auto simp: deploy_pipeline_def Let_def run_goldsky_def unlink_def split: sum.splits)

end
