(* ===== verification/Spec2Isabelle.thy ===== *)
theory Spec2Isabelle
  imports Site_Steps Tool_Answers Sdk_Client Identity Payloads Application Worker_Pool Pipeline
begin

text \<open>
  A verification development for TripWire, an asynchronous Python service that watches USDC
  payments (ERC-3009) and arbitrary contract events on Base, Ethereum and Arbitrum, decides
  for which endpoints they matter and sends webhooks through Convoy. Agents configure it
  through an MCP endpoint, paid per call (x402), by session budget or free of charge.

  \<^bold>\<open>Parts and theories\<close> (paths under \<open>src/tripwire\<close> unless said otherwise)

  \<^item> \<open>TW_Prelude\<close>: Python values, strings and numbers; the effect type \<open>('w, 'a) act\<close> (state in,
    result or exception and state out) with the calculi \<open>keeps\<close> (a predicate survives every
    outcome), \<open>triple\<close> (pre, post and exceptional post) and \<open>no_raise\<close>. \<open>Floats\<close>: binary64 rounding
    of prices. \<open>Simulation\<close>: the locale of functional refinements.
  \<^item> \<open>Models\<close>: \<open>types/models.py\<close>. \<open>Store\<close>: the tables of \<open>db/migrations\<close>, caches and Redis keys as the
    record \<open>world\<close>, the services outside the repository as the record \<open>env\<close>, the integrity
    invariant \<open>db_inv\<close>. \<open>Repositories\<close>, \<open>Nonces\<close>: \<open>db/repositories\<close> and the SQL functions on nonces;
    locale \<open>claim_store\<close> is the contract of a nonce store.
  \<^item> \<open>Finality\<close> (\<open>rpc.py\<close>, \<open>ingestion/finality.py\<close>), \<open>Policy\<close> (\<open>api/policies/engine.py\<close>), \<open>Decoder\<close>
    (\<open>ingestion/decoder.py\<close>, \<open>generic_decoder.py\<close>, \<open>decoders/\<close>; locale \<open>decoder_protocol\<close>), \<open>Filter_Engine\<close>
    (\<open>ingestion/filter_engine.py\<close>).
  \<^item> \<open>Dispatcher\<close> (\<open>webhook/dispatcher.py\<close>, \<open>notify/realtime.py\<close>), \<open>Processor\<close> and \<open>Processor_Props\<close>
    (\<open>ingestion/processor.py\<close>, \<open>handlers/payment.py\<close>), \<open>Trigger_Handler\<close> and \<open>Trigger_Props\<close>
    (\<open>handlers/trigger.py\<close>), \<open>Background\<close> and \<open>Background_Props\<close> (\<open>finality_poller.py\<close>, \<open>ttl_sweeper.py\<close>).
  \<^item> \<open>Event_Bus\<close>, \<open>Workers\<close>, \<open>Worker_Props\<close>: Redis streams, the workers that read them and the dead-letter
    consumer (\<open>ingestion/event_bus.py\<close>, \<open>trigger_worker.py\<close>, \<open>dlq_consumer.py\<close>). \<open>Convoy\<close> and \<open>Dlq_Handler\<close>:
    \<open>webhook/convoy_client.py\<close> with its circuit breaker and \<open>webhook/dlq_handler.py\<close>.
  \<^item> \<open>Redis_Keys\<close>, \<open>Sessions\<close> (\<open>session/manager.py\<close>, \<open>routes/session.py\<close>; locale \<open>budget_store\<close>), \<open>Siwe_Auth\<close>
    (\<open>auth/siwe.py\<close>, \<open>api/auth.py\<close>), \<open>Mcp_Auth\<close>, \<open>Mcp_Props\<close>, \<open>Mcp_Registry\<close>, \<open>Mcp_Server\<close> (\<open>mcp/auth.py\<close>,
    \<open>mcp/server.py\<close>).
  \<^item> \<open>Ip_Address\<close>, \<open>Url_Validation\<close> (\<open>api/validation.py\<close>), \<open>Trigger_Store\<close> (\<open>repositories/triggers.py\<close>,
    \<open>quotas.py\<close>, \<open>utils/topic.py\<close>, the trigger index), \<open>Mcp_Tools\<close> and \<open>Mcp_Explore\<close> (\<open>mcp/tools.py\<close>,
    \<open>mcp/protocols.py\<close>), \<open>Tool_Props\<close>, \<open>Tool_Claims\<close>, \<open>Tool_Answers\<close>: what the tools keep and answer; locales
    \<open>tool_frame\<close> and \<open>registry_closed\<close> are the contracts between the writes of the tools and an
    invariant.
  \<^item> \<open>Rest_Routes\<close>, \<open>Rest_Props\<close>: the HTTP routes for endpoints and subscriptions; \<open>Rest_Reads\<close>, \<open>Read_Props\<close>: the
    routes that report events, deliveries and statistics and the retry of a delivery; \<open>Ingest_Routes\<close>: the
    routes of Goldsky and the facilitator (all \<open>api/routes\<close>).
  \<^item> \<open>Webhook_Verify\<close>: \<open>webhook/verify.py\<close> and its copy in the SDK; \<open>Sdk_Client\<close>: the client of the SDK
    (\<open>src/sdk/tripwire_sdk\<close>), a machine whose peer is any HTTP server. \<open>Identity\<close>: \<open>identity/resolver.py\<close> and
    \<open>reputation.py\<close> with their caches.
  \<^item> \<open>Provider\<close> and \<open>Payloads\<close>: the webhook providers over the Convoy client and the two payload builders
    (\<open>webhook/provider.py\<close> and its neighbours); \<open>Discovery\<close>: what \<open>routes/well_known.py\<close> advertises.
  \<^item> \<open>Application\<close>: settings, start and stop of the parts, routers, health, readiness and the answers to
    exceptions (\<open>main.py\<close>, \<open>worker.py\<close>, \<open>config/settings.py\<close>, \<open>observability/health.py\<close>, \<open>api/ratelimit.py\<close>);
    \<open>Worker_Pool\<close>: the pool of workers from its start through discovery and crashes; \<open>Pipeline\<close>: the
    Goldsky configuration and its commands (\<open>ingestion/pipeline.py\<close>).
  \<^item> \<open>Mcp_Requests\<close>: a request from the HTTP body to the tables. \<open>System_Steps\<close>: everything that runs, as one
    step relation; \<open>Site_Steps\<close>: the same with the HTTP routes.

  \<^bold>\<open>State and effects.\<close> One \<open>world\<close> stands for the database, Redis and the caches of a process; the
  bus state wraps it with the streams. A call to a service consumes a tick of the world's
  counter and its answer is a function of \<open>env\<close> and the tick, so the theorems hold for every
  sequence of answers, failures included. A database or Redis round trip is atomic and may
  raise before it has an effect; a multi-statement SQL function or Lua script is one step.
  Exceptions are values of \<open>exn\<close>; cancellation of tasks is not modelled. Loops of the code that
  run for ever are modelled by their body; all others are total recursive functions, so no
  fuel is needed. Python integers are \<open>int\<close>, decimals and floats are rationals with
  the rounding written out where the code depends on it, IP addresses are words of 32 and
  128 bits, strings are ASCII.

  \<^bold>\<open>What is shown.\<close> Payments: a webhook goes only to an eligible endpoint of the lookup, a claim succeeds
  exactly when what held its key has been released, a redelivery is a silent duplicate unless the
  facilitator had claimed the transfer, statuses change only on evidence from the node, and when a message
  says that execution is safe. Triggers: every webhook is justified, a log reaches a trigger at most
  once. Bus: what is published is consumed, a message is acknowledged only when processed or, at its
  fifth failure and not before, dead-lettered; each stream has one worker. Convoy: what the breaker
  rejects, and that a message arrives as the dispatcher meant it. Access: signatures and nonces, sessions never
  overspend, a paid result is handed out only after its settlement was answered, a tool runs only for an
  entitled caller and changes only that caller's rows, within its quotas, and an accepted URL is public.
  HTTP: the routes change and report only the wallet's own rows, pages come to an end, nothing is ingested
  without the secret and the facilitator's word never leads further than a provisional webhook. SDK:
  what its client sends reaches the route as its address, both verifiers decide alike and accept what
  \<open>sign_payload\<close> signs. Identities: what is resolved or cached is well formed and scores stay between 0
  and 100. Application: what runs after the start and that the shutdown stops it; discovery advertises what the
  server charges. The step relations of the whole service are a library result: every interleaving keeps
  the keys and references of the tables, which the schema enforces, and the form of the streams.
  Several theorems state defects exactly: a sweep over the pool that never expires anything, a settlement
  whose failure is ignored, promotions that are repeated, \<open>payment.finalized\<close> before the endpoint's depth, a
  breaker whose half-open state is no single probe, deliveries retried for ever, mixed-case
  addresses that never match, a deactivated endpoint that is served on.

  \<^bold>\<open>Not modelled.\<close> The middleware, the counters of the rate limiter and the HTTP framework (routing,
  validation of query parameters apart from the page limit); the payment transport of the SDK and the parsing of
  answers into its models; the insert into the audit table; reading the environment, logging, tracing
  and metrics. They wire the parts above together or only observe them.
\<close>

section \<open>The service as a whole\<close>

text \<open>
  Whatever publishers, workers, pollers, sweepers and the facilitator do, in any order
  and with any failures of the database, the node, Redis or the webhook provider, the
  streams stay well formed and the tables keep their keys and references.
\<close>

theorem service_integrity:
  assumes "service_step\<^sup>*\<^sup>* b b'" and "service_inv b"
  shows "service_inv b'"
  using assms by (induction rule: rtranclp_induct) (auto intro: service_step_inv)

theorem service_integrity_witness:
  "service_inv (snd (run (publish_batch calm_bus sample_logs) empty_bus))"
proof (rule service_integrity)
  show "service_step\<^sup>*\<^sup>* empty_bus (snd (run (publish_batch calm_bus sample_logs) empty_bus))"
    by (intro r_into_rtranclp service_step.publish_many) (rule surjective_pairing)
  show "service_inv empty_bus" using empty_bus_inv by (simp add: service_inv_def empty_bus_def)
qed


text \<open>
  The same for the whole site: the running parts together with every HTTP route, for endpoints and
  subscriptions, for ingestion, reports and retries, in any order, for any callers and with any
  failures, keep the streams well formed and the tables with their keys and references.
\<close>

theorem site_integrity:
  assumes "site_step\<^sup>*\<^sup>* b b'" and "service_inv b"
  shows "service_inv b'"
  using assms by (induction rule: rtranclp_induct) (auto intro: site_step_inv)

text \<open>Applied to a batch that is published and a wallet that then deactivates an endpoint.\<close>

theorem site_integrity_witness:
  "service_inv (snd (run (in_world (serve_rest auth_env small_registry no_raw_rows sample_request (Deactivate_endpoint ''e1'')))
     (snd (run (publish_batch calm_bus sample_logs) empty_bus))))"
proof (rule site_integrity)
  have "site_step empty_bus (snd (run (publish_batch calm_bus sample_logs) empty_bus))"
    by (intro site_step.service service_step.publish_many) (rule surjective_pairing)
  moreover have "site_step b (snd (run (in_world (serve_rest auth_env small_registry no_raw_rows sample_request (Deactivate_endpoint ''e1''))) b))" for b
    by (intro site_step.rest) (rule surjective_pairing)
  ultimately show "site_step\<^sup>*\<^sup>* empty_bus
      (snd (run (in_world (serve_rest auth_env small_registry no_raw_rows sample_request (Deactivate_endpoint ''e1'')))
        (snd (run (publish_batch calm_bus sample_logs) empty_bus))))"
    by (meson converse_rtranclp_into_rtranclp r_into_rtranclp)
  show "service_inv empty_bus" using empty_bus_inv by (simp add: service_inv_def empty_bus_def)
qed

end
